(* ===== verification/Prelude.thy ===== *)
theory Prelude
  imports Main "HOL-Library.Sublist"
begin

text \<open>
  Shared vocabulary of the development.  The theory holds the named collections the component
  theories extend, the reading of Go's fixed-width integer conversions, the string helpers of the
  standard library the sources call, and the semantics of the SQL statements the repositories
  issue: a table is the list of its rows in insertion order, and the functions below are the
  relational operations (insert under a unique key, conditional update and delete, ordered first
  row, pagination) together with the laws the services rely on.
\<close>

named_theorems wp_simps \<open>weakest-precondition equations of the service monad\<close>
named_theorems keeps_intros \<open>invariant-preservation rules of the service monad\<close>
named_theorems table_simps \<open>laws of the table operations\<close>

subsection \<open>Fixed-width integers\<close>

text \<open>The conversions \<open>int16(x)\<close> and \<open>int32(x)\<close> of Go truncate to the width and read the result in
  two's complement.\<close>

definition int16 :: "int \<Rightarrow> int" where
  "int16 x = (x + 32768) mod 65536 - 32768"

definition int32 :: "int \<Rightarrow> int" where
  "int32 x = (x + 2147483648) mod 4294967296 - 2147483648"

definition int64 :: "int \<Rightarrow> int" where
  "int64 x = (x + 9223372036854775808) mod 18446744073709551616 - 9223372036854775808"

lemma int64_id: "- 9223372036854775808 \<le> x \<Longrightarrow> x < 9223372036854775808 \<Longrightarrow> int64 x = x"
  by (simp add: int64_def)

lemma int16_id: "- 32768 \<le> x \<Longrightarrow> x < 32768 \<Longrightarrow> int16 x = x"
  by (simp add: int16_def)

lemma int32_id: "- 2147483648 \<le> x \<Longrightarrow> x < 2147483648 \<Longrightarrow> int32 x = x"
  by (simp add: int32_def)

lemma int16_bounds: "- 32768 \<le> int16 x" "int16 x < 32768"
  by (simp_all add: int16_def)

lemma int32_bounds: "- 2147483648 \<le> int32 x" "int32 x < 2147483648"
  by (simp_all add: int32_def)

text \<open>gorm writes the column default for a zero field that declares one.\<close>

definition or_default :: "int \<Rightarrow> int \<Rightarrow> int" where
  "or_default dflt v = (if v = 0 then dflt else v)"

lemma or_default_nz [simp]: "v \<noteq> 0 \<Longrightarrow> or_default dflt v = v"
  and or_default_z [simp]: "or_default dflt 0 = dflt"
  by (simp_all add: or_default_def)

text \<open>Times are nanoseconds since the epoch; \<open>Unix()\<close> is the whole seconds, \<open>Second\<close> the unit of
  \<open>time.Duration\<close>.\<close>

definition Second :: int where "Second = 1000000000"
definition Minute :: int where "Minute = 60 * Second"
definition Hour :: int where "Hour = 60 * Minute"
definition unix :: "int \<Rightarrow> int" where "unix t = t div Second"

lemmas duration_defs = Second_def Minute_def Hour_def

lemma unix_mono: "s \<le> t \<Longrightarrow> unix s \<le> unix t"
  by (simp add: unix_def Second_def zdiv_mono1)

subsection \<open>Strings\<close>

text \<open>\<open>strings.ToLower\<close>, \<open>strings.TrimSpace\<close> on ASCII text and the decimal rendering of
  \<open>strconv.Itoa\<close> / \<open>fmt.Sprintf("%d")\<close>.\<close>

definition lower_char :: "char \<Rightarrow> char" where
  "lower_char c = (if 65 \<le> (of_char c :: nat) \<and> (of_char c :: nat) \<le> 90
     then char_of ((of_char c :: nat) + 32) else c)"

definition to_lower :: "string \<Rightarrow> string" where
  "to_lower = map lower_char"

definition is_space :: "char \<Rightarrow> bool" where
  "is_space c = (c = CHR '' '' \<or> (9 \<le> (of_char c :: nat) \<and> (of_char c :: nat) \<le> 13))"

definition trim_space :: "string \<Rightarrow> string" where
  "trim_space s = rev (dropWhile is_space (rev (dropWhile is_space s)))"

fun digits :: "nat \<Rightarrow> string" where
  "digits n = (if n < 10 then [char_of (48 + n)] else digits (n div 10) @ [char_of (48 + n mod 10)])"

declare digits.simps [simp del]

definition itoa :: "int \<Rightarrow> string" where
  "itoa i = (if i < 0 then CHR ''-'' # digits (nat (- i)) else digits (nat i))"

definition is_digit :: "char \<Rightarrow> bool" where
  "is_digit c = (48 \<le> (of_char c :: nat) \<and> (of_char c :: nat) \<le> 57)"

definition digit_val :: "char \<Rightarrow> nat" where
  "digit_val c = (of_char c :: nat) - 48"

fun parse_digits :: "nat \<Rightarrow> string \<Rightarrow> nat option" where
  "parse_digits acc [] = Some acc"
| "parse_digits acc (c # cs) =
     (if is_digit c then parse_digits (10 * acc + digit_val c) cs else None)"

text \<open>\<open>strconv.ParseInt(s, 10, 64)\<close>: the value and whether an error is reported.  Out-of-range input
  saturates at the bound of the type and any other malformed input yields 0; callers that ignore
  the error see exactly that value.\<close>

definition parse_unsigned :: "string \<Rightarrow> nat option" where
  "parse_unsigned s = (if s = [] then None else parse_digits 0 s)"

definition ParseInt :: "string \<Rightarrow> int \<times> bool" where
  "ParseInt s =
     (let (neg, body) = (case s of [] \<Rightarrow> (False, []) | c # cs \<Rightarrow>
            if c = CHR ''-'' then (True, cs) else if c = CHR ''+'' then (False, cs) else (False, s))
      in case parse_unsigned body of
           None \<Rightarrow> (0, False)
         | Some n \<Rightarrow>
             let v = (if neg then - int n else int n) in
             if v > 9223372036854775807 then (9223372036854775807, False)
             else if v < - 9223372036854775808 then (- 9223372036854775808, False)
             else (v, True))"

lemma char_of_add_48: "n < 10 \<Longrightarrow> (of_char (char_of (48 + n) :: char) :: nat) = 48 + n"
  by (simp add: take_bit_eq_mod)

lemma parse_digits_append:
  "parse_digits a (xs @ ys) = (case parse_digits a xs of None \<Rightarrow> None | Some b \<Rightarrow> parse_digits b ys)"
  by (induction a xs rule: parse_digits.induct) auto

lemma parse_digits_digits: "parse_digits 0 (digits n) = Some n"
proof (induction n rule: digits.induct)
  case (1 n)
  have *: "is_digit (char_of (48 + k)) \<and> digit_val (char_of (48 + k)) = k" if "k < 10" for k :: nat
    using char_of_add_48[OF that] that by (simp add: is_digit_def digit_val_def)
  show ?case
    using 1 *[of n] *[of "n mod 10"] by (subst digits.simps) (auto simp: parse_digits_append)
qed

lemma digits_not_Nil [simp]: "digits n \<noteq> []"
  by (subst digits.simps) auto

lemma hd_digits: "is_digit (hd (digits n))"
proof (induction n rule: digits.induct)
  case (1 n)
  have "is_digit (char_of (48 + n))" if "n < 10"
    using char_of_add_48[OF that] that by (simp add: is_digit_def)
  with 1 show ?case by (subst digits.simps) auto
qed

lemma ParseInt_itoa:
  assumes "- 9223372036854775808 \<le> i" "i \<le> 9223372036854775807"
  shows "ParseInt (itoa i) = (i, True)"
proof -
  have sign: "hd (digits n) \<noteq> CHR ''-'' \<and> hd (digits n) \<noteq> CHR ''+''" for n
    using hd_digits[of n] by (auto simp: is_digit_def)
  obtain c cs where cs: "digits (nat i) = c # cs" by (cases "digits (nat i)") auto
  show ?thesis
    using assms sign[of "nat i"] cs parse_digits_digits[of "nat i"] parse_digits_digits[of "nat (- i)"]
    by (auto simp: ParseInt_def itoa_def parse_unsigned_def)
qed

text \<open>\<open>[]rune(s)\<close> of a valid UTF-8 string: every byte that is not a continuation byte starts a rune.\<close>

definition is_cont :: "char \<Rightarrow> bool" where
  "is_cont c = (128 \<le> (of_char c :: nat) \<and> (of_char c :: nat) < 192)"

function runes :: "string \<Rightarrow> string list" where
  "runes [] = []"
| "runes (c # cs) = (c # takeWhile is_cont cs) # runes (dropWhile is_cont cs)"
  by pat_completeness auto

termination runes
  by (relation "measure length") (auto simp: le_imp_less_Suc length_dropWhile_le)

definition rune_count :: "string \<Rightarrow> nat" where
  "rune_count s = length (runes s)"

lemma concat_runes [simp]: "concat (runes s) = s"
  by (induction s rule: runes.induct) simp_all

lemma runes_ascii: "list_all (\<lambda>c. \<not> is_cont c) s \<Longrightarrow> runes s = map (\<lambda>c. [c]) s"
proof (induction s)
  case (Cons c cs)
  then have "takeWhile is_cont cs = []" "dropWhile is_cont cs = cs" by (cases cs; simp)+
  with Cons show ?case by simp
qed simp

lemma runes_append_ascii:
  assumes "\<not> is_cont c"
  shows "runes (s @ c # cs) = runes s @ runes (c # cs)"
proof (induction s rule: runes.induct)
  case (2 x xs)
  have tw: "takeWhile is_cont (xs @ c # cs) = takeWhile is_cont xs"
    using assms by (induction xs) auto
  have dw: "dropWhile is_cont (xs @ c # cs) = dropWhile is_cont xs @ c # cs"
    using assms by (induction xs) auto
  show ?case using 2 by (simp only: append_Cons runes.simps tw dw)
qed simp

lemma takeWhile_append_stop:
  assumes "rest = [] \<or> \<not> p (hd rest)"
  shows "takeWhile p (takeWhile p xs @ rest) = takeWhile p xs"
proof (induction xs)
  case Nil show ?case using assms by (cases rest) auto
next
  case (Cons x xs) then show ?case using assms by (cases rest) (auto dest: set_takeWhileD)
qed

lemma dropWhile_append_stop:
  assumes "rest = [] \<or> \<not> p (hd rest)"
  shows "dropWhile p (takeWhile p xs @ rest) = rest"
proof (induction xs)
  case Nil show ?case using assms by (cases rest) auto
next
  case (Cons x xs) then show ?case using assms by (cases rest) auto
qed

lemma runes_concat_take: "runes (concat (take n (runes s))) = take n (runes s)"
proof (induction s arbitrary: n rule: runes.induct)
  case (2 c cs)
  show ?case
  proof (cases n)
    case (Suc k)
    let ?rest = "concat (take k (runes (dropWhile is_cont cs)))"
    have hd: "?rest = [] \<or> \<not> is_cont (hd ?rest)"
    proof (cases "dropWhile is_cont cs")
      case (Cons a as)
      then have "\<not> is_cont a" by (metis hd_dropWhile list.sel(1) list.distinct(1))
      then show ?thesis using Cons by (cases k) auto
    next
      case Nil show ?thesis by (simp only: Nil runes.simps take_Nil concat.simps simp_thms)
    qed
    note stop = takeWhile_append_stop[where p = is_cont, OF hd] dropWhile_append_stop[where p = is_cont, OF hd]
    show ?thesis using 2[of k] Suc stop by simp
  qed simp
qed simp

subsection \<open>Tables\<close>

text \<open>A unique constraint refuses a row whose key is already present; \<open>inserts\<close> is the multi-row
  insert, which checks every row against the table and the rows before it.\<close>

definition has_key :: "('r \<Rightarrow> 'k) \<Rightarrow> 'k \<Rightarrow> 'r list \<Rightarrow> bool" where
  "has_key key k rows = list_ex (\<lambda>r. key r = k) rows"

definition insert_unique :: "('r \<Rightarrow> 'k) \<Rightarrow> 'r \<Rightarrow> 'r list \<Rightarrow> 'r list option" where
  "insert_unique key r rows = (if has_key key (key r) rows then None else Some (rows @ [r]))"

fun inserts_unique :: "('r \<Rightarrow> 'k) \<Rightarrow> 'r list \<Rightarrow> 'r list \<Rightarrow> 'r list option" where
  "inserts_unique key [] rows = Some rows"
| "inserts_unique key (r # rs) rows =
     (case insert_unique key r rows of None \<Rightarrow> None | Some rows' \<Rightarrow> inserts_unique key rs rows')"

definition update_where :: "('r \<Rightarrow> bool) \<Rightarrow> ('r \<Rightarrow> 'r) \<Rightarrow> 'r list \<Rightarrow> 'r list" where
  "update_where p f rows = map (\<lambda>r. if p r then f r else r) rows"

definition delete_where :: "('r \<Rightarrow> bool) \<Rightarrow> 'r list \<Rightarrow> 'r list" where
  "delete_where p rows = filter (\<lambda>r. \<not> p r) rows"

definition count_where :: "('r \<Rightarrow> bool) \<Rightarrow> 'r list \<Rightarrow> nat" where
  "count_where p rows = length (filter p rows)"

definition select_where :: "('r \<Rightarrow> bool) \<Rightarrow> ('r \<Rightarrow> 'k::linorder) \<Rightarrow> 'r list \<Rightarrow> 'r list" where
  "select_where p ord rows = sort_key ord (filter p rows)"

definition first_where :: "('r \<Rightarrow> bool) \<Rightarrow> ('r \<Rightarrow> 'k::linorder) \<Rightarrow> 'r list \<Rightarrow> 'r option" where
  "first_where p ord rows = (case select_where p ord rows of [] \<Rightarrow> None | r # _ \<Rightarrow> Some r)"

definition uniq :: "('r \<Rightarrow> 'k) \<Rightarrow> 'r list \<Rightarrow> bool" where
  "uniq key rows = distinct (map key rows)"

definition limit_offset :: "int \<Rightarrow> int \<Rightarrow> 'r list \<Rightarrow> 'r list" where
  "limit_offset lim off rows = take (nat lim) (drop (nat off) rows)"

lemma has_key_iff [table_simps]: "has_key key k rows \<longleftrightarrow> k \<in> key ` set rows"
  by (auto simp: has_key_def list_ex_iff)

lemma set_update_where:
  "set (update_where p f rows) = (\<lambda>r. if p r then f r else r) ` set rows"
  by (simp add: update_where_def)

lemma set_delete_where [table_simps]: "set (delete_where p rows) = {r \<in> set rows. \<not> p r}"
  by (simp add: delete_where_def)

lemma bex_update_where [table_simps]:
  "(\<exists>x \<in> set (update_where p f rows). P x) \<longleftrightarrow> (\<exists>r \<in> set rows. P (if p r then f r else r))"
  by (auto simp: update_where_def)

lemma ball_update_where [table_simps]:
  "(\<forall>x \<in> set (update_where p f rows). P x) \<longleftrightarrow> (\<forall>r \<in> set rows. P (if p r then f r else r))"
  by (auto simp: update_where_def)

lemma length_update_where [simp]: "length (update_where p f rows) = length rows"
  by (simp add: update_where_def)

lemma map_update_where_same:
  "(\<And>r. p r \<Longrightarrow> key (f r) = key r) \<Longrightarrow> map key (update_where p f rows) = map key rows"
  by (simp add: update_where_def)

lemma image_update_where:
  "(\<And>r. key (f r) = key r) \<Longrightarrow> key ` set (update_where p f rows) = key ` set rows"
  using map_update_where_same[of p key f rows] by (metis list.set_map)

lemma uniq_update_where:
  "(\<And>r. p r \<Longrightarrow> key (f r) = key r) \<Longrightarrow> uniq key (update_where p f rows) = uniq key rows"
  by (simp add: uniq_def map_update_where_same)

lemma uniq_delete_where: "uniq key rows \<Longrightarrow> uniq key (delete_where p rows)"
  by (simp add: uniq_def delete_where_def distinct_map_filter)

lemma uniq_Nil [simp]: "uniq key []"
  by (simp add: uniq_def)

lemma insert_unique_Some [table_simps]:
  "insert_unique key r rows = Some rows' \<longleftrightarrow> key r \<notin> key ` set rows \<and> rows' = rows @ [r]"
  by (auto simp: insert_unique_def has_key_iff)

lemma insert_unique_None [table_simps]:
  "insert_unique key r rows = None \<longleftrightarrow> key r \<in> key ` set rows"
  by (auto simp: insert_unique_def has_key_iff)

lemma insert_unique_uniq: "insert_unique key r rows = Some rows' \<Longrightarrow> uniq key rows \<Longrightarrow> uniq key rows'"
  by (auto simp: table_simps uniq_def)

lemma inserts_unique_Some:
  "inserts_unique key rs rows = Some rows' \<longleftrightarrow>
     rows' = rows @ rs \<and> distinct (map key rs) \<and> key ` set rs \<inter> key ` set rows = {}"
  by (induction key rs rows rule: inserts_unique.induct)
     (auto split: option.splits simp: table_simps)

lemma inserts_unique_uniq:
  "inserts_unique key rs rows = Some rows' \<Longrightarrow> uniq key rows \<Longrightarrow> uniq key rows'"
  by (auto simp: inserts_unique_Some uniq_def)

lemma count_where_pos: "0 < count_where p rows \<longleftrightarrow> (\<exists>r \<in> set rows. p r)"
  by (auto simp: count_where_def filter_empty_conv)

lemma count_where_zero: "count_where p rows = 0 \<longleftrightarrow> (\<forall>r \<in> set rows. \<not> p r)"
  by (auto simp: count_where_def filter_empty_conv)

lemma count_where_append [simp]: "count_where p (xs @ ys) = count_where p xs + count_where p ys"
  by (simp add: count_where_def)

lemma count_where_Cons [simp]:
  "count_where p (x # xs) = (if p x then Suc (count_where p xs) else count_where p xs)"
  by (simp add: count_where_def)

lemma count_where_Nil [simp]: "count_where p [] = 0"
  by (simp add: count_where_def)

lemma count_where_update_same:
  "(\<And>r. q r \<Longrightarrow> p (f r) = p r) \<Longrightarrow> count_where p (update_where q f rows) = count_where p rows"
  by (induction rows) (auto simp: update_where_def)

lemma count_where_delete: "count_where p (delete_where q rows) = count_where (\<lambda>r. p r \<and> \<not> q r) rows"
  by (induction rows) (auto simp: delete_where_def)

lemma count_where_delete_le: "count_where p (delete_where q rows) \<le> count_where p rows"
  by (induction rows) (auto simp: delete_where_def)

lemma count_where_cong: "(\<And>r. r \<in> set rows \<Longrightarrow> p r = q r) \<Longrightarrow> count_where p rows = count_where q rows"
  by (induction rows) auto

lemma count_where_all: "(\<And>r. r \<in> set rows \<Longrightarrow> p r) \<Longrightarrow> count_where p rows = length rows"
  by (induction rows) auto

lemma set_select_where [simp]: "set (select_where p ord rows) = {r \<in> set rows. p r}"
  by (simp add: select_where_def)

lemma first_where_None: "first_where p ord rows = None \<longleftrightarrow> (\<forall>r \<in> set rows. \<not> p r)"
proof -
  have "select_where p ord rows = [] \<longleftrightarrow> {r \<in> set rows. p r} = {}"
    by (metis set_empty set_select_where)
  then show ?thesis by (auto simp: first_where_def split: list.splits)
qed

lemma first_where_SomeD: "first_where p ord rows = Some r \<Longrightarrow> r \<in> set rows \<and> p r"
proof -
  assume "first_where p ord rows = Some r"
  then have "r \<in> set (select_where p ord rows)"
    by (auto simp: first_where_def simp del: set_select_where split: list.splits)
  then show ?thesis by simp
qed

lemma first_where_minimal:
  assumes "first_where p ord rows = Some r" "s \<in> set rows" "p s"
  shows "ord r \<le> ord s"
proof -
  obtain rs where sel: "select_where p ord rows = r # rs"
    using assms(1) by (auto simp: first_where_def split: list.splits)
  have "sorted (map ord (r # rs))"
    using sel by (metis select_where_def sorted_sort_key)
  moreover have "s \<in> set (r # rs)"
    using assms(2,3) sel by (metis (mono_tags, lifting) mem_Collect_eq set_select_where)
  ultimately show ?thesis by auto
qed

lemma first_where_append_last: "p r \<Longrightarrow> \<exists>x. first_where p ord (rows @ [r]) = Some x"
  using first_where_None[of p ord "rows @ [r]"] by (cases "first_where p ord (rows @ [r])") auto

lemma first_where_unique:
  assumes "uniq key rows" "r \<in> set rows" "\<And>s. s \<in> set rows \<Longrightarrow> p s \<longleftrightarrow> key s = key r"
  shows "first_where p ord rows = Some r"
proof (cases "first_where p ord rows")
  case None then show ?thesis using assms by (auto simp: first_where_None)
next
  case (Some s)
  then have "s \<in> set rows" "key s = key r" using first_where_SomeD[OF Some] assms(3) by auto
  then show ?thesis using Some assms(1,2)
    by (metis uniq_def distinct_map inj_onD)
qed

text \<open>The interface a repository offers to a service for a table with a unique key: what a lookup
  returns after each write.  Every keyed table of the development is an instance.\<close>

locale keyed_table =
  fixes key :: "'r \<Rightarrow> 'k"
    and ins :: "'r \<Rightarrow> 'r list \<Rightarrow> 'r list option"
    and get :: "'k \<Rightarrow> 'r list \<Rightarrow> 'r option"
  assumes get_Some: "get k rows = Some r \<Longrightarrow> r \<in> set rows \<and> key r = k"
    and get_None: "get k rows = None \<Longrightarrow> r \<in> set rows \<Longrightarrow> key r \<noteq> k"
    and ins_fresh: "get (key r) rows = None \<Longrightarrow> ins r rows = Some (rows @ [r])"
    and ins_dup: "get (key r) rows \<noteq> None \<Longrightarrow> ins r rows = None"
begin

lemma ins_Some_iff: "ins r rows = Some rows' \<longleftrightarrow> get (key r) rows = None \<and> rows' = rows @ [r]"
  using ins_fresh ins_dup by (metis option.distinct(1) option.inject)

lemma get_after_ins:
  assumes "ins r rows = Some rows'" "uniq key rows"
  shows "get (key r) rows' = Some r"
proof -
  have g: "get (key r) rows = None" and rows': "rows' = rows @ [r]"
    using assms(1) ins_Some_iff by auto
  obtain s where s: "get (key r) rows' = Some s"
    using get_None[of "key r" rows' r] rows' by (cases "get (key r) rows'") auto
  then have "s \<in> set rows'" "key s = key r" using get_Some by auto
  then show ?thesis using s rows' get_None[OF g] by auto
qed

lemma get_after_ins_other:
  assumes "ins r rows = Some rows'" "uniq key rows" "k \<noteq> key r"
  shows "get k rows' = get k rows"
proof (cases "get k rows")
  case None
  have rows': "rows' = rows @ [r]" using assms(1) ins_Some_iff by auto
  have "get k rows' = None"
  proof (rule ccontr)
    assume "get k rows' \<noteq> None"
    then obtain s where "get k rows' = Some s" by auto
    then have "s \<in> set rows'" "key s = k" using get_Some by auto
    then show False using rows' assms(3) get_None[OF None] by auto
  qed
  then show ?thesis using None by simp
next
  case (Some s)
  have rows': "rows' = rows @ [r]" using assms(1) ins_Some_iff by auto
  have s: "s \<in> set rows" "key s = k" using get_Some[OF Some] by auto
  obtain t where t: "get k rows' = Some t"
    using get_None[of k rows' s] s rows' by (cases "get k rows'") auto
  then have "t \<in> set rows" "key t = k" using get_Some[OF t] rows' assms(3) by auto
  then have "t = s" using s assms(2) by (metis uniq_def distinct_map inj_onD)
  then show ?thesis using t Some by simp
qed

lemma ins_keeps_uniq: "ins r rows = Some rows' \<Longrightarrow> uniq key rows \<Longrightarrow> uniq key rows'"
  using get_None[of "key r" rows] by (fastforce simp: ins_Some_iff uniq_def)

end

lemma keyed_table_insert_unique:
  "keyed_table key (insert_unique key) (\<lambda>k. first_where (\<lambda>r. key r = k) ord)"
  by unfold_locales
     (auto simp: first_where_None insert_unique_Some insert_unique_None
       dest: first_where_SomeD intro: rev_image_eqI)

end
