(* ===== verification/Errors.thy ===== *)
theory Errors
  imports Prelude
begin

text \<open>
  The error values of the program (\<open>pkg/errors\<close>): the numeric business codes, the message table, the
  \<open>Business\<close> error with \<open>NewBusiness\<close> and \<open>GetBusinessCode\<close>, and the translation of an error into
  a gRPC status by \<open>ConvertError\<close>.  The datatype \<open>err\<close> has one constructor for every kind of error
  the services can meet: business errors, gorm's \<open>ErrRecordNotFound\<close>, a violated unique
  constraint, a failure of the infrastructure (database, broker, network), an error built with
  \<open>fmt.Errorf\<close>, a gRPC status and, as a separate outcome, a panic.
\<close>

subsection \<open>Codes\<close>

abbreviation (input) CodeSuccess :: int where "CodeSuccess \<equiv> 0"
abbreviation (input) CodeParamError :: int where "CodeParamError \<equiv> 1"
abbreviation (input) CodeInternalError :: int where "CodeInternalError \<equiv> 2"
abbreviation (input) CodeUnauthorized :: int where "CodeUnauthorized \<equiv> 401"
abbreviation (input) CodeForbidden :: int where "CodeForbidden \<equiv> 403"
abbreviation (input) CodeNotFound :: int where "CodeNotFound \<equiv> 404"
abbreviation (input) CodeUserExists :: int where "CodeUserExists \<equiv> 10101"
abbreviation (input) CodePasswordWeak :: int where "CodePasswordWeak \<equiv> 10103"
abbreviation (input) CodeUserNotFound :: int where "CodeUserNotFound \<equiv> 10104"
abbreviation (input) CodePasswordError :: int where "CodePasswordError \<equiv> 10105"
abbreviation (input) CodeAccountDisabled :: int where "CodeAccountDisabled \<equiv> 10106"
abbreviation (input) CodeRefreshTokenInvalid :: int where "CodeRefreshTokenInvalid \<equiv> 10107"
abbreviation (input) CodeRefreshTokenExpired :: int where "CodeRefreshTokenExpired \<equiv> 10108"
abbreviation (input) CodeTokenInvalid :: int where "CodeTokenInvalid \<equiv> 10109"
abbreviation (input) CodeTokenExpired :: int where "CodeTokenExpired \<equiv> 10110"
abbreviation (input) CodeSendRateLimited :: int where "CodeSendRateLimited \<equiv> 10201"
abbreviation (input) CodeSendLimitReached :: int where "CodeSendLimitReached \<equiv> 10202"
abbreviation (input) CodeTargetFormatInvalid :: int where "CodeTargetFormatInvalid \<equiv> 10203"
abbreviation (input) CodeSMSServiceError :: int where "CodeSMSServiceError \<equiv> 10204"
abbreviation (input) CodeEmailServiceError :: int where "CodeEmailServiceError \<equiv> 10205"
abbreviation (input) CodeVerifyCodeError :: int where "CodeVerifyCodeError \<equiv> 10206"
abbreviation (input) CodeVerifyCodeExpired :: int where "CodeVerifyCodeExpired \<equiv> 10207"
abbreviation (input) CodeVerifyCodeAlreadyUsed :: int where "CodeVerifyCodeAlreadyUsed \<equiv> 10208"
abbreviation (input) CodeVerifyCodeNotFound :: int where "CodeVerifyCodeNotFound \<equiv> 10209"
abbreviation (input) CodeVerifyAttemptsExceeded :: int where "CodeVerifyAttemptsExceeded \<equiv> 10210"
abbreviation (input) CodeNicknameUsed :: int where "CodeNicknameUsed \<equiv> 10301"
abbreviation (input) CodeNicknameSensitive :: int where "CodeNicknameSensitive \<equiv> 10302"
abbreviation (input) CodeUserProfileNotFound :: int where "CodeUserProfileNotFound \<equiv> 10303"
abbreviation (input) CodeQRCodeExpired :: int where "CodeQRCodeExpired \<equiv> 10304"
abbreviation (input) CodeQRCodeInvalid :: int where "CodeQRCodeInvalid \<equiv> 10305"
abbreviation (input) CodePhoneFormatInvalid :: int where "CodePhoneFormatInvalid \<equiv> 10306"
abbreviation (input) CodePhoneAlreadyBound :: int where "CodePhoneAlreadyBound \<equiv> 10307"
abbreviation (input) CodeEmailFormatInvalid :: int where "CodeEmailFormatInvalid \<equiv> 10308"
abbreviation (input) CodeEmailAlreadyBound :: int where "CodeEmailAlreadyBound \<equiv> 10309"
abbreviation (input) CodeOldPhoneNotMatch :: int where "CodeOldPhoneNotMatch \<equiv> 10310"
abbreviation (input) CodeOldEmailNotMatch :: int where "CodeOldEmailNotMatch \<equiv> 10311"
abbreviation (input) CodeAlreadyFriend :: int where "CodeAlreadyFriend \<equiv> 20101"
abbreviation (input) CodeBlockedByUser :: int where "CodeBlockedByUser \<equiv> 20102"
abbreviation (input) CodeDuplicateRequest :: int where "CodeDuplicateRequest \<equiv> 20103"
abbreviation (input) CodeFriendNotFound :: int where "CodeFriendNotFound \<equiv> 20104"
abbreviation (input) CodeRequestNotFound :: int where "CodeRequestNotFound \<equiv> 20105"
abbreviation (input) CodeCannotAddSelf :: int where "CodeCannotAddSelf \<equiv> 20106"
abbreviation (input) CodeRequestProcessed :: int where "CodeRequestProcessed \<equiv> 20107"
abbreviation (input) CodeRequestExpired :: int where "CodeRequestExpired \<equiv> 20108"
abbreviation (input) CodeFriendLimitReached :: int where "CodeFriendLimitReached \<equiv> 20109"
abbreviation (input) CodeTargetFriendLimit :: int where "CodeTargetFriendLimit \<equiv> 20110"
abbreviation (input) CodeBlacklistLimitReached :: int where "CodeBlacklistLimitReached \<equiv> 20111"
abbreviation (input) CodeAlreadyInBlacklist :: int where "CodeAlreadyInBlacklist \<equiv> 20112"
abbreviation (input) CodeNotInBlacklist :: int where "CodeNotInBlacklist \<equiv> 20113"
abbreviation (input) CodeUserBlocked :: int where "CodeUserBlocked \<equiv> 20114"
abbreviation (input) CodeRequestExists :: int where "CodeRequestExists \<equiv> 20115"
abbreviation (input) CodePermissionDenied :: int where "CodePermissionDenied \<equiv> 20116"
abbreviation (input) CodeNotFriend :: int where "CodeNotFriend \<equiv> 20117"
abbreviation (input) CodeGroupNotFound :: int where "CodeGroupNotFound \<equiv> 30101"
abbreviation (input) CodeGroupDissolved :: int where "CodeGroupDissolved \<equiv> 30102"
abbreviation (input) CodeGroupMemberTooFew :: int where "CodeGroupMemberTooFew \<equiv> 30103"
abbreviation (input) CodeGroupMemberLimitReached :: int where "CodeGroupMemberLimitReached \<equiv> 30104"
abbreviation (input) CodeNotGroupMember :: int where "CodeNotGroupMember \<equiv> 30105"
abbreviation (input) CodeAlreadyGroupMember :: int where "CodeAlreadyGroupMember \<equiv> 30106"
abbreviation (input) CodeNoOwnerPermission :: int where "CodeNoOwnerPermission \<equiv> 30107"
abbreviation (input) CodeNoAdminPermission :: int where "CodeNoAdminPermission \<equiv> 30108"
abbreviation (input) CodeCannotRemoveOwner :: int where "CodeCannotRemoveOwner \<equiv> 30109"
abbreviation (input) CodeCannotRemoveAdmin :: int where "CodeCannotRemoveAdmin \<equiv> 30110"
abbreviation (input) CodeGroupNameSensitive :: int where "CodeGroupNameSensitive \<equiv> 30111"
abbreviation (input) CodeAnnouncementSensitive :: int where "CodeAnnouncementSensitive \<equiv> 30112"
abbreviation (input) CodeJoinRequestNotFound :: int where "CodeJoinRequestNotFound \<equiv> 30113"
abbreviation (input) CodeJoinRequestProcessed :: int where "CodeJoinRequestProcessed \<equiv> 30114"
abbreviation (input) CodeMemberMuted :: int where "CodeMemberMuted \<equiv> 30115"
abbreviation (input) CodeCannotQuitOwnGroup :: int where "CodeCannotQuitOwnGroup \<equiv> 30116"
abbreviation (input) CodeGroupQRExpired :: int where "CodeGroupQRExpired \<equiv> 30117"
abbreviation (input) CodeGroupQRInvalid :: int where "CodeGroupQRInvalid \<equiv> 30118"
abbreviation (input) CodeGroupPinnedLimitExceeded :: int where "CodeGroupPinnedLimitExceeded \<equiv> 30119"
abbreviation (input) CodeMessageNotFound :: int where "CodeMessageNotFound \<equiv> 40101"
abbreviation (input) CodeMessageSendFailed :: int where "CodeMessageSendFailed \<equiv> 40102"
abbreviation (input) CodeMessageRecallFailed :: int where "CodeMessageRecallFailed \<equiv> 40103"
abbreviation (input) CodeMessageRecallTimeLimit :: int where "CodeMessageRecallTimeLimit \<equiv> 40104"
abbreviation (input) CodeMessageDeleteFailed :: int where "CodeMessageDeleteFailed \<equiv> 40105"
abbreviation (input) CodeMessagePermissionDenied :: int where "CodeMessagePermissionDenied \<equiv> 40106"
abbreviation (input) CodeConversationNotFound :: int where "CodeConversationNotFound \<equiv> 40107"
abbreviation (input) CodeSequenceGenerateFailed :: int where "CodeSequenceGenerateFailed \<equiv> 40108"
abbreviation (input) CodeMarkReadFailed :: int where "CodeMarkReadFailed \<equiv> 40109"
abbreviation (input) CodeGetUnreadCountFailed :: int where "CodeGetUnreadCountFailed \<equiv> 40110"
abbreviation (input) CodeSearchMessageFailed :: int where "CodeSearchMessageFailed \<equiv> 40111"
abbreviation (input) CodeInvalidOperation :: int where "CodeInvalidOperation \<equiv> 40112"
abbreviation (input) CodeMessageNotInGroup :: int where "CodeMessageNotInGroup \<equiv> 40113"
abbreviation (input) CodeFileNotFound :: int where "CodeFileNotFound \<equiv> 60101"
abbreviation (input) CodeFileAccessDenied :: int where "CodeFileAccessDenied \<equiv> 60102"
abbreviation (input) CodeFileSizeExceeded :: int where "CodeFileSizeExceeded \<equiv> 60103"
abbreviation (input) CodeFileTypeNotAllowed :: int where "CodeFileTypeNotAllowed \<equiv> 60104"
abbreviation (input) CodeFileUploadFailed :: int where "CodeFileUploadFailed \<equiv> 60105"
abbreviation (input) CodeFileAlreadyExists :: int where "CodeFileAlreadyExists \<equiv> 60106"
abbreviation (input) CodeInvalidFileID :: int where "CodeInvalidFileID \<equiv> 60107"
abbreviation (input) CodeFileExpired :: int where "CodeFileExpired \<equiv> 60108"
abbreviation (input) CodeStorageQuotaExceeded :: int where "CodeStorageQuotaExceeded \<equiv> 60109"
abbreviation (input) CodeThumbnailGenFailed :: int where "CodeThumbnailGenFailed \<equiv> 60110"
abbreviation (input) CodeCallNotFound :: int where "CodeCallNotFound \<equiv> 70101"
abbreviation (input) CodeCallAlreadyActive :: int where "CodeCallAlreadyActive \<equiv> 70102"
abbreviation (input) CodeCallPermissionDenied :: int where "CodeCallPermissionDenied \<equiv> 70103"
abbreviation (input) CodeCallInvalidStatus :: int where "CodeCallInvalidStatus \<equiv> 70104"
abbreviation (input) CodeMeetingNotFound :: int where "CodeMeetingNotFound \<equiv> 70105"
abbreviation (input) CodeMeetingPasswordWrong :: int where "CodeMeetingPasswordWrong \<equiv> 70106"
abbreviation (input) CodeMeetingAlreadyEnded :: int where "CodeMeetingAlreadyEnded \<equiv> 70107"
abbreviation (input) CodeMeetingPermission :: int where "CodeMeetingPermission \<equiv> 70108"
abbreviation (input) CodeLiveKitTokenFailed :: int where "CodeLiveKitTokenFailed \<equiv> 70109"
abbreviation (input) CodeLiveKitRoomFailed :: int where "CodeLiveKitRoomFailed \<equiv> 70110"
abbreviation (input) CodePushFailed :: int where "CodePushFailed \<equiv> 80101"
abbreviation (input) CodePushTokenNotFound :: int where "CodePushTokenNotFound \<equiv> 80102"
abbreviation (input) CodePushConfigInvalid :: int where "CodePushConfigInvalid \<equiv> 80103"
abbreviation (input) CodeAdminNotFound :: int where "CodeAdminNotFound \<equiv> 90101"
abbreviation (input) CodeAdminDisabled :: int where "CodeAdminDisabled \<equiv> 90102"
abbreviation (input) CodeAdminUsernameExists :: int where "CodeAdminUsernameExists \<equiv> 90103"
abbreviation (input) CodeAdminInvalidPassword :: int where "CodeAdminInvalidPassword \<equiv> 90104"
abbreviation (input) CodeAdminTokenInvalid :: int where "CodeAdminTokenInvalid \<equiv> 90105"
abbreviation (input) CodeAdminPermission :: int where "CodeAdminPermission \<equiv> 90106"
abbreviation (input) CodeConfigKeyNotFound :: int where "CodeConfigKeyNotFound \<equiv> 90107"

definition errorCodes :: "int list" where
  "errorCodes = [CodeSuccess, CodeParamError, CodeInternalError, CodeUnauthorized,
     CodeForbidden, CodeNotFound, CodeUserExists, CodePasswordWeak,
     CodeUserNotFound, CodePasswordError, CodeAccountDisabled, CodeRefreshTokenInvalid,
     CodeRefreshTokenExpired, CodeTokenInvalid, CodeTokenExpired, CodeSendRateLimited,
     CodeSendLimitReached, CodeTargetFormatInvalid, CodeSMSServiceError, CodeEmailServiceError,
     CodeVerifyCodeError, CodeVerifyCodeExpired, CodeVerifyCodeAlreadyUsed, CodeVerifyCodeNotFound,
     CodeVerifyAttemptsExceeded, CodeNicknameUsed, CodeNicknameSensitive, CodeUserProfileNotFound,
     CodeQRCodeExpired, CodeQRCodeInvalid, CodePhoneFormatInvalid, CodePhoneAlreadyBound,
     CodeEmailFormatInvalid, CodeEmailAlreadyBound, CodeOldPhoneNotMatch, CodeOldEmailNotMatch,
     CodeAlreadyFriend, CodeBlockedByUser, CodeDuplicateRequest, CodeFriendNotFound,
     CodeRequestNotFound, CodeCannotAddSelf, CodeRequestProcessed, CodeRequestExpired,
     CodeFriendLimitReached, CodeTargetFriendLimit, CodeBlacklistLimitReached, CodeAlreadyInBlacklist,
     CodeNotInBlacklist, CodeUserBlocked, CodeRequestExists, CodePermissionDenied,
     CodeNotFriend, CodeGroupNotFound, CodeGroupDissolved, CodeGroupMemberTooFew,
     CodeGroupMemberLimitReached, CodeNotGroupMember, CodeAlreadyGroupMember, CodeNoOwnerPermission,
     CodeNoAdminPermission, CodeCannotRemoveOwner, CodeCannotRemoveAdmin, CodeGroupNameSensitive,
     CodeAnnouncementSensitive, CodeJoinRequestNotFound, CodeJoinRequestProcessed, CodeMemberMuted,
     CodeCannotQuitOwnGroup, CodeGroupQRExpired, CodeGroupQRInvalid, CodeGroupPinnedLimitExceeded,
     CodeMessageNotFound, CodeMessageSendFailed, CodeMessageRecallFailed, CodeMessageRecallTimeLimit,
     CodeMessageDeleteFailed, CodeMessagePermissionDenied, CodeConversationNotFound, CodeSequenceGenerateFailed,
     CodeMarkReadFailed, CodeGetUnreadCountFailed, CodeSearchMessageFailed, CodeInvalidOperation,
     CodeMessageNotInGroup, CodeFileNotFound, CodeFileAccessDenied, CodeFileSizeExceeded,
     CodeFileTypeNotAllowed, CodeFileUploadFailed, CodeFileAlreadyExists, CodeInvalidFileID,
     CodeFileExpired, CodeStorageQuotaExceeded, CodeThumbnailGenFailed, CodeCallNotFound,
     CodeCallAlreadyActive, CodeCallPermissionDenied, CodeCallInvalidStatus, CodeMeetingNotFound,
     CodeMeetingPasswordWrong, CodeMeetingAlreadyEnded, CodeMeetingPermission, CodeLiveKitTokenFailed,
     CodeLiveKitRoomFailed, CodePushFailed, CodePushTokenNotFound, CodePushConfigInvalid,
     CodeAdminNotFound, CodeAdminDisabled, CodeAdminUsernameExists, CodeAdminInvalidPassword,
     CodeAdminTokenInvalid, CodeAdminPermission, CodeConfigKeyNotFound]"

definition errorMessages :: "(int \<times> string) list" where
  "errorMessages = [
     (CodeSuccess, ''Success''),
     (CodeParamError, ''Parameter error''),
     (CodeInternalError, ''Internal error''),
     (CodeUnauthorized, ''Unauthorized''),
     (CodeForbidden, ''Forbidden''),
     (CodeNotFound, ''Resource not found''),
     (CodeUserExists, ''User already exists''),
     (CodePasswordWeak, ''Password too weak''),
     (CodeUserNotFound, ''User not found''),
     (CodePasswordError, ''Incorrect password''),
     (CodeAccountDisabled, ''Account disabled''),
     (CodeRefreshTokenInvalid, ''Invalid RefreshToken''),
     (CodeRefreshTokenExpired, ''RefreshToken expired''),
     (CodeTokenInvalid, ''Invalid Token''),
     (CodeTokenExpired, ''Token expired''),
     (CodeNicknameUsed, ''Nickname already used''),
     (CodeNicknameSensitive, ''Nickname contains sensitive words''),
     (CodeUserProfileNotFound, ''User not found''),
     (CodeQRCodeExpired, ''QR code expired''),
     (CodeQRCodeInvalid, ''Invalid QR code''),
     (CodePhoneFormatInvalid, ''Invalid phone number format''),
     (CodePhoneAlreadyBound, ''Phone number already bound''),
     (CodeEmailFormatInvalid, ''Invalid email format''),
     (CodeEmailAlreadyBound, ''Email already bound''),
     (CodeOldPhoneNotMatch, ''Old phone number does not match''),
     (CodeOldEmailNotMatch, ''Old email does not match''),
     (CodeAlreadyFriend, ''Already friends''),
     (CodeBlockedByUser, ''Blocked by user''),
     (CodeDuplicateRequest, ''Duplicate request''),
     (CodeFriendNotFound, ''Friend not found''),
     (CodeRequestNotFound, ''Request not found''),
     (CodeCannotAddSelf, ''Cannot add yourself as friend''),
     (CodeRequestProcessed, ''Request already processed''),
     (CodeRequestExpired, ''Request expired''),
     (CodeFriendLimitReached, ''Friend limit reached''),
     (CodeTargetFriendLimit, ''Target friend limit reached''),
     (CodeBlacklistLimitReached, ''Blacklist limit reached''),
     (CodeAlreadyInBlacklist, ''Already in blacklist''),
     (CodeNotInBlacklist, ''Not in blacklist''),
     (CodeUserBlocked, ''User blocked''),
     (CodeRequestExists, ''Request already exists''),
     (CodePermissionDenied, ''Permission denied''),
     (CodeNotFriend, ''Not a friend''),
     (CodeGroupNotFound, ''Group not found''),
     (CodeGroupDissolved, ''Group dissolved''),
     (CodeGroupMemberTooFew, ''Insufficient group members''),
     (CodeGroupMemberLimitReached, ''Group member limit reached''),
     (CodeNotGroupMember, ''Not a group member''),
     (CodeAlreadyGroupMember, ''Already a group member''),
     (CodeNoOwnerPermission, ''No owner permission''),
     (CodeNoAdminPermission, ''No admin permission''),
     (CodeCannotRemoveOwner, ''Cannot remove owner''),
     (CodeCannotRemoveAdmin, ''Cannot remove admin''),
     (CodeGroupNameSensitive, ''Group name contains sensitive words''),
     (CodeAnnouncementSensitive, ''Group announcement contains sensitive words''),
     (CodeJoinRequestNotFound, ''Join request not found''),
     (CodeJoinRequestProcessed, ''Join request already processed''),
     (CodeMemberMuted, ''Member muted''),
     (CodeCannotQuitOwnGroup, ''Cannot quit your own group''),
     (CodeGroupQRExpired, ''Group QR code expired''),
     (CodeGroupQRInvalid, ''Invalid group QR code''),
     (CodeGroupPinnedLimitExceeded, ''Group pinned limit exceeded, please unpin some first''),
     (CodeMessageNotFound, ''Message not found''),
     (CodeMessageSendFailed, ''Message send failed''),
     (CodeMessageRecallFailed, ''Message recall failed''),
     (CodeMessageRecallTimeLimit, ''Message recall time limit exceeded''),
     (CodeMessageDeleteFailed, ''Message delete failed''),
     (CodeMessagePermissionDenied, ''Message permission denied''),
     (CodeConversationNotFound, ''Conversation not found''),
     (CodeSequenceGenerateFailed, ''Sequence number generation failed''),
     (CodeMarkReadFailed, ''Mark read failed''),
     (CodeGetUnreadCountFailed, ''Get unread count failed''),
     (CodeSearchMessageFailed, ''Search message failed''),
     (CodeInvalidOperation, ''Invalid operation''),
     (CodeMessageNotInGroup, ''Message not in this group''),
     (CodeFileNotFound, ''File not found''),
     (CodeFileAccessDenied, ''File access denied''),
     (CodeFileSizeExceeded, ''File size exceeded''),
     (CodeFileTypeNotAllowed, ''File type not allowed''),
     (CodeFileUploadFailed, ''File upload failed''),
     (CodeFileAlreadyExists, ''File already exists''),
     (CodeInvalidFileID, ''Invalid file ID''),
     (CodeFileExpired, ''File expired''),
     (CodeStorageQuotaExceeded, ''Storage quota exceeded''),
     (CodeThumbnailGenFailed, ''Thumbnail generation failed''),
     (CodeSendRateLimited, ''Sending too frequently, please try again later''),
     (CodeSendLimitReached, ''Verification code send limit reached''),
     (CodeTargetFormatInvalid, ''Invalid target format''),
     (CodeSMSServiceError, ''SMS service error, please try again later''),
     (CodeEmailServiceError, ''Email service error, please try again later''),
     (CodeVerifyCodeError, ''Incorrect verification code''),
     (CodeVerifyCodeExpired, ''Verification code expired''),
     (CodeVerifyCodeAlreadyUsed, ''Verification code already used, please get a new one''),
     (CodeVerifyCodeNotFound, ''Verification code not found''),
     (CodeVerifyAttemptsExceeded, ''Too many verification attempts, please get a new verification code'')]"

definition GetMessage :: "int \<Rightarrow> string" where
  "GetMessage code = (case map_of errorMessages code of Some msg \<Rightarrow> msg | None \<Rightarrow> ''Unknown error'')"

subsection \<open>Error values\<close>

datatype grpc_code = OK | Canceled | Unknown | InvalidArgument | DeadlineExceeded | NotFound
  | AlreadyExists | PermissionDenied | ResourceExhausted | FailedPrecondition | Aborted
  | OutOfRange | Unimplemented | Internal | Unavailable | DataLoss | Unauthenticated

datatype err =
    Business int string
  | RecordNotFound
  | UniqueViolation string
  | InfraError string
  | Plain string
  | Status grpc_code string
  | Panicked string

fun err_string :: "err \<Rightarrow> string" where
  "err_string (Business code msg) = msg"
| "err_string RecordNotFound = ''record not found''"
| "err_string (UniqueViolation c) = ''ERROR: duplicate key value violates unique constraint '' @ c"
| "err_string (InfraError s) = s"
| "err_string (Plain s) = s"
| "err_string (Status c s) = s"
| "err_string (Panicked s) = s"

definition NewBusiness :: "int \<Rightarrow> string \<Rightarrow> err" where
  "NewBusiness code message =
     (let message = (if message = [] then GetMessage code else message) in Business code message)"

fun IsBusiness :: "err \<Rightarrow> bool" where
  "IsBusiness (Business _ _) = True"
| "IsBusiness _ = False"

fun GetBusinessCode :: "err \<Rightarrow> int" where
  "GetBusinessCode (Business code _) = code"
| "GetBusinessCode _ = CodeInternalError"

definition grpcCodeMapping :: "(int \<times> grpc_code) list" where
  "grpcCodeMapping = [
     (CodeParamError, InvalidArgument), (CodeInternalError, Internal),
     (CodeUnauthorized, Unauthenticated), (CodeForbidden, PermissionDenied),
     (CodeNotFound, NotFound), (CodeUserExists, AlreadyExists),
     (CodePasswordWeak, InvalidArgument), (CodeUserNotFound, NotFound),
     (CodePasswordError, InvalidArgument), (CodeAccountDisabled, PermissionDenied),
     (CodeRefreshTokenInvalid, Unauthenticated), (CodeRefreshTokenExpired, Unauthenticated),
     (CodeTokenInvalid, Unauthenticated), (CodeTokenExpired, Unauthenticated),
     (CodeSendRateLimited, ResourceExhausted), (CodeSendLimitReached, ResourceExhausted),
     (CodeTargetFormatInvalid, InvalidArgument), (CodeSMSServiceError, Internal),
     (CodeEmailServiceError, Internal), (CodeVerifyCodeError, InvalidArgument),
     (CodeVerifyCodeExpired, InvalidArgument), (CodeVerifyCodeAlreadyUsed, FailedPrecondition),
     (CodeVerifyCodeNotFound, NotFound), (CodeVerifyAttemptsExceeded, ResourceExhausted),
     (CodeNicknameUsed, AlreadyExists), (CodeNicknameSensitive, InvalidArgument),
     (CodeUserProfileNotFound, NotFound), (CodeQRCodeExpired, FailedPrecondition),
     (CodeQRCodeInvalid, InvalidArgument), (CodePhoneFormatInvalid, InvalidArgument),
     (CodePhoneAlreadyBound, AlreadyExists), (CodeEmailFormatInvalid, InvalidArgument),
     (CodeEmailAlreadyBound, AlreadyExists), (CodeOldPhoneNotMatch, InvalidArgument),
     (CodeOldEmailNotMatch, InvalidArgument), (CodeAlreadyFriend, AlreadyExists),
     (CodeBlockedByUser, PermissionDenied), (CodeDuplicateRequest, AlreadyExists),
     (CodeFriendNotFound, NotFound), (CodeRequestNotFound, NotFound),
     (CodeCannotAddSelf, InvalidArgument), (CodeRequestProcessed, FailedPrecondition),
     (CodeRequestExpired, FailedPrecondition), (CodeFriendLimitReached, ResourceExhausted),
     (CodeTargetFriendLimit, ResourceExhausted), (CodeBlacklistLimitReached, ResourceExhausted),
     (CodeAlreadyInBlacklist, AlreadyExists), (CodeNotInBlacklist, FailedPrecondition),
     (CodeUserBlocked, PermissionDenied), (CodeRequestExists, AlreadyExists),
     (CodePermissionDenied, PermissionDenied), (CodeNotFriend, FailedPrecondition),
     (CodeGroupNotFound, NotFound), (CodeGroupDissolved, FailedPrecondition),
     (CodeGroupMemberTooFew, FailedPrecondition), (CodeGroupMemberLimitReached, ResourceExhausted),
     (CodeNotGroupMember, PermissionDenied), (CodeAlreadyGroupMember, AlreadyExists),
     (CodeNoOwnerPermission, PermissionDenied), (CodeNoAdminPermission, PermissionDenied),
     (CodeCannotRemoveOwner, FailedPrecondition), (CodeCannotRemoveAdmin, FailedPrecondition),
     (CodeGroupNameSensitive, InvalidArgument), (CodeAnnouncementSensitive, InvalidArgument),
     (CodeJoinRequestNotFound, NotFound), (CodeJoinRequestProcessed, FailedPrecondition),
     (CodeMemberMuted, FailedPrecondition), (CodeCannotQuitOwnGroup, FailedPrecondition),
     (CodeGroupQRExpired, FailedPrecondition), (CodeGroupQRInvalid, InvalidArgument),
     (CodeGroupPinnedLimitExceeded, ResourceExhausted), (CodeMessageNotFound, NotFound),
     (CodeMessageSendFailed, Internal), (CodeMessageRecallFailed, Internal),
     (CodeMessageRecallTimeLimit, FailedPrecondition), (CodeMessageDeleteFailed, Internal),
     (CodeMessagePermissionDenied, PermissionDenied), (CodeConversationNotFound, NotFound),
     (CodeSequenceGenerateFailed, Internal), (CodeMarkReadFailed, Internal),
     (CodeGetUnreadCountFailed, Internal), (CodeSearchMessageFailed, Internal),
     (CodeInvalidOperation, FailedPrecondition), (CodeMessageNotInGroup, FailedPrecondition),
     (CodeFileNotFound, NotFound), (CodeFileAccessDenied, PermissionDenied),
     (CodeFileSizeExceeded, InvalidArgument), (CodeFileTypeNotAllowed, InvalidArgument),
     (CodeFileUploadFailed, Internal), (CodeFileAlreadyExists, AlreadyExists),
     (CodeInvalidFileID, InvalidArgument), (CodeFileExpired, FailedPrecondition),
     (CodeStorageQuotaExceeded, ResourceExhausted), (CodeThumbnailGenFailed, Internal),
     (CodeCallNotFound, NotFound), (CodeCallAlreadyActive, AlreadyExists),
     (CodeCallPermissionDenied, PermissionDenied), (CodeCallInvalidStatus, FailedPrecondition),
     (CodeMeetingNotFound, NotFound), (CodeMeetingPasswordWrong, InvalidArgument),
     (CodeMeetingAlreadyEnded, FailedPrecondition), (CodeMeetingPermission, PermissionDenied),
     (CodeLiveKitTokenFailed, Internal), (CodeLiveKitRoomFailed, Internal),
     (CodePushFailed, Internal), (CodePushTokenNotFound, NotFound),
     (CodePushConfigInvalid, InvalidArgument), (CodeAdminNotFound, NotFound),
     (CodeAdminDisabled, PermissionDenied), (CodeAdminUsernameExists, AlreadyExists),
     (CodeAdminInvalidPassword, InvalidArgument), (CodeAdminTokenInvalid, Unauthenticated),
     (CodeAdminPermission, PermissionDenied), (CodeConfigKeyNotFound, NotFound)]"

text \<open>A missing key of the Go map reads as the zero code \<open>OK\<close>, which the function replaces by
  \<open>Internal\<close>.  The call \<open>metadata.AppendToOutgoingContext\<close> returns a new context that the function
  drops, so the returned status is all a caller can observe.\<close>

fun ConvertError :: "err option \<Rightarrow> err option" where
  "ConvertError None = None"
| "ConvertError (Some (Business c msg)) =
     (let code = (case map_of grpcCodeMapping c of Some g \<Rightarrow> g | None \<Rightarrow> OK);
          code = (if code = OK then Internal else code)
      in Some (Status code msg))"
| "ConvertError (Some e) = Some (Status Internal (err_string e))"

definition BadRequest :: "string \<Rightarrow> err option" where
  "BadRequest message = ConvertError (Some (NewBusiness CodeParamError message))"

definition InternalErr :: "err \<Rightarrow> err option" where
  "InternalErr e = ConvertError (Some (NewBusiness CodeInternalError (err_string e)))"

subsection \<open>Facts\<close>

lemma NewBusiness_not_others [simp]:
  "NewBusiness c m \<noteq> RecordNotFound" "NewBusiness c m \<noteq> InfraError s"
  "NewBusiness c m \<noteq> UniqueViolation s" "NewBusiness c m \<noteq> Panicked s"
  "RecordNotFound \<noteq> NewBusiness c m" "InfraError s \<noteq> NewBusiness c m"
  "UniqueViolation s \<noteq> NewBusiness c m" "Panicked s \<noteq> NewBusiness c m"
  by (simp_all add: NewBusiness_def Let_def)

lemma NewBusiness_eq [simp]: "NewBusiness c m = NewBusiness c' m \<longleftrightarrow> c = c'"
  by (auto simp: NewBusiness_def Let_def)

lemma GetBusinessCode_NewBusiness [simp]: "GetBusinessCode (NewBusiness c m) = c"
  by (simp add: NewBusiness_def Let_def)

lemma IsBusiness_NewBusiness [simp]: "IsBusiness (NewBusiness c m)"
  by (simp add: NewBusiness_def Let_def)

lemma grpcCodeMapping_no_OK: "map_of grpcCodeMapping c \<noteq> Some OK"
proof -
  have "OK \<notin> snd ` set grpcCodeMapping" by (simp add: grpcCodeMapping_def)
  then show ?thesis by (metis image_eqI map_of_SomeD snd_conv)
qed

lemma errorCodes_mapped: "list_all (\<lambda>c. c = CodeSuccess \<or> map_of grpcCodeMapping c \<noteq> None) errorCodes"
  by code_simp

end
