(* ===== verification/World.thy ===== *)
theory World
  imports Errors
begin

text \<open>
  The state every service runs against and the monad its code is written in.  A world holds the
  service's tables, the sequences behind \<open>BIGSERIAL\<close> columns (which a rolled-back transaction does
  not give back), the messages handed to the broker, the outgoing calls to other services, and
  three oracles that are read at a logical time \<open>tick\<close>: the wall clock (\<open>time.Now()\<close>), the
  generator of \<open>uuid.New()\<close>, and the schedule of infrastructure faults.  Every statement, transaction
  boundary, publication and clock reading consumes one tick, so the theorems that quantify over
  worlds quantify over all clocks and all schedules of failures.

  A computation returns an error or a value together with the new world.  \<open>transaction\<close> is gorm's
  \<open>db.Transaction\<close>: the tables are restored when the body returns an error, panics, or the commit
  fails.  \<open>wp\<close> is the weakest precondition the invariant proofs use.
\<close>

subsection \<open>Notifications (\<open>pkg/broker/types.go\<close>)\<close>

datatype jval = JStr string | JInt int | JBool bool | JStrs "string list" | JObj "(string \<times> jval) list"
  | JNull

datatype Priority = PriorityLow | PriorityNormal | PriorityHigh

type_synonym payload = "(string \<times> jval) list"

record Notification =
  n_ID :: string
  n_Type :: string
  n_Timestamp :: int
  n_FromUserID :: string
  n_ToUserID :: string
  n_Priority :: Priority
  n_Payload :: payload
  n_Metadata :: payload

datatype event = Published string Notification | Called string "string list"

subsection \<open>Worlds\<close>

text \<open>The sequences of the \<open>BIGSERIAL\<close> columns, one per table.\<close>

datatype seq = SeqFriendships | SeqFriendRequests | SeqBlacklists | SeqGroupMembers
  | SeqGroupJoinRequests | SeqGroupSettings | SeqGroupPinnedMessages | SeqGroupQRCodes | SeqGroups
  | SeqMessageReadReceipts | SeqSendIdempotency | SeqConversationSequences | SeqMessages
  | SeqFiles | SeqPushLogs | SeqCallSessions | SeqMeetingRooms | SeqUserDevices | SeqUserSessions | SeqUserProfiles | SeqUserSettings
  | SeqUserQRCodes | SeqUserPushTokens | SeqVerificationCodes | SeqVerificationTemplates

text \<open>The string of a generated UUID; all that the services rely on is that it is not empty.\<close>

typedef uuid_str = "{s :: string. s \<noteq> []}" morphisms uuid_chars Uuid_str
  by (rule exI[of _ "[CHR ''u'']"]) simp

setup_lifting type_definition_uuid_str

lift_definition numbered_uuid :: "nat \<Rightarrow> uuid_str" is "\<lambda>n. ''uuid-'' @ digits n"
  by simp

lemma uuid_chars_nonempty [simp]: "uuid_chars u \<noteq> []"
  using uuid_chars[of u] by simp

record 'db world =
  db :: 'db
  serial :: "seq \<Rightarrow> int"
  outbox :: "event list"
  tick :: nat
  clock :: "nat \<Rightarrow> int"
  uuid :: "nat \<Rightarrow> uuid_str"
  fault :: "nat \<Rightarrow> string option"

type_synonym ('db, 'a) M = "'db world \<Rightarrow> (err + 'a) \<times> 'db world"

definition healthy :: "'db world \<Rightarrow> bool" where
  "healthy w = (\<forall>n. fault w n = None)"

definition init_world :: "'db \<Rightarrow> 'db world" where
  "init_world d = \<lparr>db = d, serial = (\<lambda>_. 0), outbox = [], tick = 0, clock = (\<lambda>n. int n),
     uuid = numbered_uuid, fault = (\<lambda>_. None)\<rparr>"

definition bump :: "'db world \<Rightarrow> 'db world" where
  "bump w = w\<lparr>tick := Suc (tick w)\<rparr>"

subsection \<open>The monad\<close>

definition returnE :: "'a \<Rightarrow> ('db, 'a) M" where
  "returnE a w = (Inr a, w)"

definition throwE :: "err \<Rightarrow> ('db, 'a) M" where
  "throwE e w = (Inl e, w)"

definition bindE :: "('db, 'a) M \<Rightarrow> ('a \<Rightarrow> ('db, 'b) M) \<Rightarrow> ('db, 'b) M" where
  "bindE m f w = (case m w of (Inl e, w') \<Rightarrow> (Inl e, w') | (Inr a, w') \<Rightarrow> f a w')"

definition thenE :: "('db, 'a) M \<Rightarrow> ('db, 'b) M \<Rightarrow> ('db, 'b) M" where
  "thenE m k = bindE m (\<lambda>_. k)"

text \<open>\<open>if err != nil { ... }\<close>: the handler sees every error value but not a panic.\<close>

definition catchE :: "('db, 'a) M \<Rightarrow> (err \<Rightarrow> ('db, 'a) M) \<Rightarrow> ('db, 'a) M" where
  "catchE m h w = (case m w of
       (Inl (Panicked s), w') \<Rightarrow> (Inl (Panicked s), w')
     | (Inl e, w') \<Rightarrow> h e w'
     | (Inr a, w') \<Rightarrow> (Inr a, w'))"

text \<open>An error that is logged and dropped.\<close>

definition ignoreE :: "('db, 'a) M \<Rightarrow> ('db, unit) M" where
  "ignoreE m = catchE (thenE m (returnE ())) (\<lambda>_. returnE ())"

text \<open>The result of a call as a value: \<open>Some\<close> on success, \<open>None\<close> on a (dropped) error.\<close>

definition attemptE :: "('db, 'a) M \<Rightarrow> ('db, 'a option) M" where
  "attemptE m = catchE (bindE m (\<lambda>a. returnE (Some a))) (\<lambda>_. returnE None)"

text \<open>A lookup whose \<open>gorm.ErrRecordNotFound\<close> is read as absence, other errors being returned.\<close>

definition optionalE :: "('db, 'a) M \<Rightarrow> ('db, 'a option) M" where
  "optionalE m = catchE (bindE m (\<lambda>a. returnE (Some a)))
     (\<lambda>e. if e = RecordNotFound then returnE None else throwE e)"

text \<open>\<open>if err == gorm.ErrRecordNotFound { return e }; return err\<close>.\<close>

definition notFoundE :: "('db, 'a) M \<Rightarrow> err \<Rightarrow> ('db, 'a) M" where
  "notFoundE m e = catchE m (\<lambda>x. if x = RecordNotFound then throwE e else throwE x)"

definition guardE :: "bool \<Rightarrow> err \<Rightarrow> ('db, unit) M" where
  "guardE b e = (if b then returnE () else throwE e)"

text \<open>A call whose result is not used.\<close>

definition void :: "('db, 'a) M \<Rightarrow> ('db, unit) M" where
  "void m = thenE m (returnE ())"

fun forE :: "'x list \<Rightarrow> ('x \<Rightarrow> ('db, unit) M) \<Rightarrow> ('db, unit) M" where
  "forE [] f = returnE ()"
| "forE (x # xs) f = thenE (f x) (forE xs f)"

fun mapE :: "('x \<Rightarrow> ('db, 'y) M) \<Rightarrow> 'x list \<Rightarrow> ('db, 'y list) M" where
  "mapE f [] = returnE []"
| "mapE f (x # xs) = bindE (f x) (\<lambda>y. bindE (mapE f xs) (\<lambda>ys. returnE (y # ys)))"

subsection \<open>Primitive effects\<close>

definition infra :: "('db, unit) M" where
  "infra w = (case fault w (tick w) of
       Some s \<Rightarrow> (Inl (InfraError s), bump w)
     | None \<Rightarrow> (Inr (), bump w))"

definition now :: "('db, int) M" where
  "now w = (Inr (clock w (tick w)), bump w)"

definition new_uuid :: "('db, string) M" where
  "new_uuid w = (Inr (uuid_chars (uuid w (tick w))), bump w)"

definition next_serial :: "seq \<Rightarrow> ('db, int) M" where
  "next_serial seq w =
     (let v = serial w seq + 1 in (Inr v, w\<lparr>serial := (serial w)(seq := v)\<rparr>))"

definition emit :: "event \<Rightarrow> ('db, unit) M" where
  "emit ev w = (Inr (), w\<lparr>outbox := outbox w @ [ev]\<rparr>)"

text \<open>A read and a write of the database.  A write may be refused with an error of its own, which
  leaves the tables as they are.\<close>

definition query :: "('db \<Rightarrow> 'a) \<Rightarrow> ('db, 'a) M" where
  "query f = thenE infra (\<lambda>w. (Inr (f (db w)), w))"

definition find_one :: "('db \<Rightarrow> 'a option) \<Rightarrow> ('db, 'a) M" where
  "find_one f = bindE (query f) (\<lambda>r. case r of None \<Rightarrow> throwE RecordNotFound | Some a \<Rightarrow> returnE a)"

definition exec :: "('db \<Rightarrow> err + 'a \<times> 'db) \<Rightarrow> ('db, 'a) M" where
  "exec f = thenE infra (\<lambda>w. case f (db w) of
       Inl e \<Rightarrow> (Inl e, w)
     | Inr (a, d) \<Rightarrow> (Inr a, w\<lparr>db := d\<rparr>))"

definition modify :: "('db \<Rightarrow> 'db) \<Rightarrow> ('db, unit) M" where
  "modify f = exec (\<lambda>d. Inr ((), f d))"

text \<open>A call to another service: the answer is a function of the logical time of the call.  A panic
  of the callee is caught by its recovery middleware and arrives as an internal error.\<close>

definition remote_err :: "err \<Rightarrow> err" where
  "remote_err e = (case e of Panicked s \<Rightarrow> Status Internal ''unknown request error'' | _ \<Rightarrow> e)"

definition rpc :: "(nat \<Rightarrow> err + 'a) \<Rightarrow> ('db, 'a) M" where
  "rpc f w = (case f (tick w) of Inl e \<Rightarrow> (Inl (remote_err e), bump w) | Inr a \<Rightarrow> (Inr a, bump w))"

lemma remote_err_no_panic [simp]: "remote_err e \<noteq> Panicked s"
  by (simp add: remote_err_def split: err.splits)

definition transaction :: "('db, 'a) M \<Rightarrow> ('db, 'a) M" where
  "transaction m w = (case infra w of
       (Inl e, w1) \<Rightarrow> (Inl e, w1)
     | (Inr _, w1) \<Rightarrow> (case m w1 of
           (Inl e, w2) \<Rightarrow> (Inl e, w2\<lparr>db := db w\<rparr>)
         | (Inr a, w2) \<Rightarrow> (case infra w2 of
               (Inl e, w3) \<Rightarrow> (Inl e, w3\<lparr>db := db w\<rparr>)
             | (Inr _, w3) \<Rightarrow> (Inr a, w3))))"

lemmas monad_defs = returnE_def throwE_def bindE_def thenE_def catchE_def guardE_def

lemma bump_simps [simp]:
  "db (bump w) = db w" "serial (bump w) = serial w" "outbox (bump w) = outbox w"
  "tick (bump w) = Suc (tick w)" "clock (bump w) = clock w" "uuid (bump w) = uuid w"
  "fault (bump w) = fault w" "healthy (bump w) = healthy w"
  by (simp_all add: bump_def healthy_def)

lemma healthy_updates [simp]:
  "healthy (w\<lparr>db := d\<rparr>) = healthy w" "healthy (w\<lparr>outbox := out\<rparr>) = healthy w"
  "healthy (w\<lparr>serial := s\<rparr>) = healthy w" "healthy (w\<lparr>tick := n\<rparr>) = healthy w"
  by (simp_all add: healthy_def)

lemma healthy_init [simp]: "healthy (init_world d)"
  by (simp add: healthy_def init_world_def)

lemma db_init [simp]: "db (init_world d) = d"
  by (simp add: init_world_def)

subsection \<open>Weakest preconditions\<close>

definition wp :: "('db, 'a) M \<Rightarrow> ('a \<Rightarrow> 'db world \<Rightarrow> bool) \<Rightarrow> (err \<Rightarrow> 'db world \<Rightarrow> bool)
    \<Rightarrow> 'db world \<Rightarrow> bool" where
  "wp m Q E w = (case m w of (Inl e, w') \<Rightarrow> E e w' | (Inr a, w') \<Rightarrow> Q a w')"

lemma wp_return [wp_simps]: "wp (returnE a) Q E w = Q a w"
  by (simp add: wp_def returnE_def)

lemma wp_return_fun: "wp (returnE a) Q E = Q a"
  by (rule ext) (rule wp_return)

lemma wp_throw [wp_simps]: "wp (throwE e) Q E w = E e w"
  by (simp add: wp_def throwE_def)

lemma wp_bind [wp_simps]: "wp (bindE m f) Q E w = wp m (\<lambda>a. wp (f a) Q E) E w"
  by (simp add: wp_def bindE_def split: sum.splits prod.splits)

lemma wp_then [wp_simps]: "wp (thenE m k) Q E w = wp m (\<lambda>_. wp k Q E) E w"
  by (simp add: thenE_def wp_bind)

lemma wp_catch [wp_simps]:
  "wp (catchE m h) Q E w =
     wp m Q (\<lambda>e w'. case e of Panicked s \<Rightarrow> E (Panicked s) w' | _ \<Rightarrow> wp (h e) Q E w') w"
  by (simp add: wp_def catchE_def split: sum.splits prod.splits err.splits)

lemma wp_guard [wp_simps]: "wp (guardE b e) Q E w = (if b then Q () w else E e w)"
  by (simp add: guardE_def wp_return wp_throw)

lemma wp_if [wp_simps]: "wp (if b then m else m') Q E w = (if b then wp m Q E w else wp m' Q E w)"
  by simp

lemma wp_infra [wp_simps]:
  "wp infra Q E w =
     (case fault w (tick w) of Some s \<Rightarrow> E (InfraError s) (bump w) | None \<Rightarrow> Q () (bump w))"
  by (simp add: wp_def infra_def split: option.splits)

lemma wp_now [wp_simps]: "wp now Q E w = Q (clock w (tick w)) (bump w)"
  by (simp add: wp_def now_def)

lemma wp_new_uuid [wp_simps]: "wp new_uuid Q E w = Q (uuid_chars (uuid w (tick w))) (bump w)"
  by (simp add: wp_def new_uuid_def)

lemma wp_next_serial [wp_simps]:
  "wp (next_serial s) Q E w =
     Q (serial w s + 1) (w\<lparr>serial := (serial w)(s := serial w s + 1)\<rparr>)"
  by (simp add: wp_def next_serial_def Let_def)

lemma wp_emit [wp_simps]: "wp (emit ev) Q E w = Q () (w\<lparr>outbox := outbox w @ [ev]\<rparr>)"
  by (simp add: wp_def emit_def)

lemma wp_query [wp_simps]:
  "wp (query f) Q E w =
     (case fault w (tick w) of Some s \<Rightarrow> E (InfraError s) (bump w) | None \<Rightarrow> Q (f (db w)) (bump w))"
  by (simp add: wp_def query_def thenE_def bindE_def infra_def split: option.splits)

lemma wp_find [wp_simps]:
  "wp (find_one f) Q E w =
     (case fault w (tick w) of Some s \<Rightarrow> E (InfraError s) (bump w)
      | None \<Rightarrow> (case f (db w) of None \<Rightarrow> E RecordNotFound (bump w) | Some a \<Rightarrow> Q a (bump w)))"
  by (simp add: find_one_def wp_bind wp_query)
     (simp add: wp_def throwE_def returnE_def infra_def split: option.splits)

lemma wp_exec [wp_simps]:
  "wp (exec f) Q E w =
     (case fault w (tick w) of Some s \<Rightarrow> E (InfraError s) (bump w)
      | None \<Rightarrow> (case f (db w) of Inl e \<Rightarrow> E e (bump w) | Inr (a, d) \<Rightarrow> Q a ((bump w)\<lparr>db := d\<rparr>)))"
  by (simp add: wp_def exec_def thenE_def bindE_def infra_def split: option.splits sum.splits prod.splits)

lemma wp_modify [wp_simps]:
  "wp (modify f) Q E w =
     (case fault w (tick w) of Some s \<Rightarrow> E (InfraError s) (bump w)
      | None \<Rightarrow> Q () ((bump w)\<lparr>db := f (db w)\<rparr>))"
  by (simp add: modify_def wp_exec split: option.split)

lemma wp_rpc [wp_simps]:
  "wp (rpc f) Q E w = (case f (tick w) of Inl e \<Rightarrow> E (remote_err e) (bump w) | Inr a \<Rightarrow> Q a (bump w))"
  by (simp add: wp_def rpc_def split: sum.splits)

lemma wp_transaction [wp_simps]:
  "wp (transaction m) Q E w =
     (case fault w (tick w) of Some s \<Rightarrow> E (InfraError s) (bump w)
      | None \<Rightarrow> wp m
          (\<lambda>a w2. case fault w2 (tick w2) of Some s \<Rightarrow> E (InfraError s) ((bump w2)\<lparr>db := db w\<rparr>)
                  | None \<Rightarrow> Q a (bump w2))
          (\<lambda>e w2. E e (w2\<lparr>db := db w\<rparr>)) (bump w))"
  by (simp add: wp_def transaction_def infra_def split: option.splits sum.splits prod.splits)

lemma wp_notFound_find [wp_simps]:
  "wp (notFoundE (find_one f) e) Q E w =
     (case fault w (tick w) of Some s \<Rightarrow> E (InfraError s) (bump w)
      | None \<Rightarrow> (case f (db w) of None \<Rightarrow> E e (bump w) | Some a \<Rightarrow> Q a (bump w)))"
  by (simp add: notFoundE_def wp_catch wp_find wp_throw split: option.split)

lemma wp_optional_find [wp_simps]:
  "wp (optionalE (find_one f)) Q E w =
     (case fault w (tick w) of Some s \<Rightarrow> E (InfraError s) (bump w) | None \<Rightarrow> Q (f (db w)) (bump w))"
  by (simp add: optionalE_def wp_catch wp_bind wp_find wp_throw wp_return split: option.split)

lemma wp_attempt_find [wp_simps]:
  "wp (attemptE (find_one f)) Q E w =
     (case fault w (tick w) of Some s \<Rightarrow> Q None (bump w) | None \<Rightarrow> Q (f (db w)) (bump w))"
  by (simp add: attemptE_def wp_catch wp_bind wp_find wp_throw wp_return split: option.split)

lemma wp_attempt_query [wp_simps]:
  "wp (attemptE (query f)) Q E w =
     (case fault w (tick w) of Some s \<Rightarrow> Q None (bump w) | None \<Rightarrow> Q (Some (f (db w))) (bump w))"
  by (simp add: attemptE_def wp_catch wp_bind wp_query wp_throw wp_return split: option.split)

lemma wp_attempt_optional_find [wp_simps]:
  "wp (attemptE (optionalE (find_one f))) Q E w =
     (case fault w (tick w) of Some s \<Rightarrow> Q None (bump w) | None \<Rightarrow> Q (Some (f (db w))) (bump w))"
  by (simp add: attemptE_def wp_catch wp_bind wp_optional_find wp_throw wp_return split: option.split)

lemma wp_ignore_rpc: "wp (ignoreE (rpc f)) Q E w = Q () (bump w)"
  by (auto simp: ignoreE_def wp_simps remote_err_def split: sum.splits err.splits)

lemma wp_mono:
  assumes "wp m Q E w" "\<And>a w'. Q a w' \<Longrightarrow> Q' a w'" "\<And>e w'. E e w' \<Longrightarrow> E' e w'"
  shows "wp m Q' E' w"
  using assms by (auto simp: wp_def split: sum.splits prod.splits)

lemma wp_caseI: "wp m Q E w \<Longrightarrow> case m w of (Inl e, w') \<Rightarrow> E e w' | (Inr a, w') \<Rightarrow> Q a w'"
  by (simp add: wp_def)

lemma wp_result: "m w = (r, w') \<Longrightarrow> wp m Q E w \<Longrightarrow> (case r of Inl e \<Rightarrow> E e w' | Inr a \<Rightarrow> Q a w')"
  by (simp add: wp_def)

lemma healthy_fault: "healthy w \<Longrightarrow> fault w n = None"
  by (simp add: healthy_def)

subsection \<open>Evaluation in a healthy world\<close>

text \<open>The equations that run an operation symbolically when the infrastructure does not fail.\<close>

text \<open>The equations symbolic execution needs beside \<open>wp_simps\<close>; used with \<open>simp only\<close>, so that the
  program text is walked with few rules before the final simplification.\<close>

named_theorems exec_simps \<open>structural equations of symbolic execution\<close>

lemmas exec_base [exec_simps] = bump_simps option.case sum.case prod.case err.case if_True if_False
  simp_thms less_irrefl Let_def world.simps option.simps err.simps
lemmas exec_unit [exec_simps] = old.unit.case

named_theorems run_simps \<open>execution equations for worlds without infrastructure faults\<close>

lemma run_infra [run_simps]: "healthy w \<Longrightarrow> infra w = (Inr (), bump w)"
  by (simp add: infra_def healthy_def)

lemma run_return [run_simps]: "returnE a w = (Inr a, w)"
  by (simp add: returnE_def)

lemma run_throw [run_simps]: "throwE e w = (Inl e, w)"
  by (simp add: throwE_def)

lemma run_bind [run_simps]:
  "m w = (Inr a, w') \<Longrightarrow> bindE m f w = f a w'"
  "m w = (Inl e, w') \<Longrightarrow> bindE m f w = (Inl e, w')"
  by (simp_all add: bindE_def)

lemma run_then [run_simps]:
  "m w = (Inr a, w') \<Longrightarrow> thenE m k w = k w'"
  "m w = (Inl e, w') \<Longrightarrow> thenE m k w = (Inl e, w')"
  by (simp_all add: thenE_def bindE_def)

lemma run_guard [run_simps]: "guardE b e w = (if b then (Inr (), w) else (Inl e, w))"
  by (simp add: guardE_def returnE_def throwE_def)

lemma run_now [run_simps]: "now w = (Inr (clock w (tick w)), bump w)"
  by (simp add: now_def)

lemma run_uuid [run_simps]: "new_uuid w = (Inr (uuid_chars (uuid w (tick w))), bump w)"
  by (simp add: new_uuid_def)

lemma run_serial [run_simps]:
  "next_serial s w = (Inr (serial w s + 1), w\<lparr>serial := (serial w)(s := serial w s + 1)\<rparr>)"
  by (simp add: next_serial_def Let_def)

lemma run_emit [run_simps]: "emit ev w = (Inr (), w\<lparr>outbox := outbox w @ [ev]\<rparr>)"
  by (simp add: emit_def)

lemma run_query [run_simps]: "healthy w \<Longrightarrow> query f w = (Inr (f (db w)), bump w)"
  by (simp add: query_def run_simps thenE_def bindE_def)

lemma run_find [run_simps]:
  "healthy w \<Longrightarrow> find_one f w = (case f (db w) of None \<Rightarrow> (Inl RecordNotFound, bump w) | Some a \<Rightarrow> (Inr a, bump w))"
  by (simp add: find_one_def bindE_def run_simps split: option.splits)

lemma run_exec [run_simps]:
  "healthy w \<Longrightarrow> exec f w = (case f (db w) of Inl e \<Rightarrow> (Inl e, bump w)
      | Inr (a, d) \<Rightarrow> (Inr a, (bump w)\<lparr>db := d\<rparr>))"
  by (simp add: exec_def thenE_def bindE_def run_simps split: sum.splits prod.splits)

lemma run_modify [run_simps]:
  "healthy w \<Longrightarrow> modify f w = (Inr (), (bump w)\<lparr>db := f (db w)\<rparr>)"
  by (simp add: modify_def run_simps)

subsection \<open>Invariant preservation\<close>

definition keeps :: "('db \<Rightarrow> bool) \<Rightarrow> ('db, 'a) M \<Rightarrow> bool" where
  "keeps I m = (\<forall>w. I (db w) \<longrightarrow> I (db (snd (m w))))"

text \<open>Computations that never touch the tables: reads, clock readings, publications, calls.\<close>

definition preserves_db :: "('db, 'a) M \<Rightarrow> bool" where
  "preserves_db m = (\<forall>w. db (snd (m w)) = db w)"

lemma keeps_wp: "keeps I m \<longleftrightarrow> (\<forall>w. I (db w) \<longrightarrow> wp m (\<lambda>_ w'. I (db w')) (\<lambda>_ w'. I (db w')) w)"
proof -
  have "wp m (\<lambda>_ w'. I (db w')) (\<lambda>_ w'. I (db w')) w = I (db (snd (m w)))" for w
    by (simp add: wp_def split: prod.splits sum.splits)
  then show ?thesis by (simp add: keeps_def)
qed

lemma keepsI:
  "(\<And>w. I (db w) \<Longrightarrow> wp m (\<lambda>_ w'. I (db w')) (\<lambda>_ w'. I (db w')) w) \<Longrightarrow> keeps I m"
  by (simp add: keeps_wp)

lemma keeps_bind [keeps_intros]:
  "keeps I m \<Longrightarrow> (\<And>a. keeps I (f a)) \<Longrightarrow> keeps I (bindE m f)"
  unfolding keeps_def bindE_def by (auto split: sum.splits prod.splits) 

lemma keeps_then [keeps_intros]: "keeps I m \<Longrightarrow> keeps I k \<Longrightarrow> keeps I (thenE m k)"
  by (simp add: thenE_def keeps_bind)

lemma keeps_catch [keeps_intros]:
  "keeps I m \<Longrightarrow> (\<And>e. keeps I (h e)) \<Longrightarrow> keeps I (catchE m h)"
  unfolding keeps_def catchE_def by (auto split: sum.splits prod.splits err.splits)

lemma keeps_return [keeps_intros]: "keeps I (returnE a)"
  and keeps_throw [keeps_intros]: "keeps I (throwE e)"
  and keeps_guard [keeps_intros]: "keeps I (guardE b e)"
  by (simp_all add: keeps_def monad_defs)

lemma keeps_guard_then: "(b \<Longrightarrow> keeps I k) \<Longrightarrow> keeps I (thenE (guardE b e) k)"
  by (simp add: keeps_def monad_defs)

lemma keeps_if [keeps_intros]: "(b \<Longrightarrow> keeps I m) \<Longrightarrow> (\<not> b \<Longrightarrow> keeps I m') \<Longrightarrow> keeps I (if b then m else m')"
  by simp

lemma keeps_option [keeps_intros]:
  "(x = None \<Longrightarrow> keeps I m) \<Longrightarrow> (\<And>a. x = Some a \<Longrightarrow> keeps I (f a)) \<Longrightarrow>
     keeps I (case x of None \<Rightarrow> m | Some a \<Rightarrow> f a)"
  by (simp split: option.splits)

lemma keeps_prod [keeps_intros]: "(\<And>a b. x = (a, b) \<Longrightarrow> keeps I (f a b)) \<Longrightarrow> keeps I (case x of (a, b) \<Rightarrow> f a b)"
  by (simp split: prod.splits)

lemma keeps_infra [keeps_intros]: "keeps I infra"
  and keeps_now [keeps_intros]: "keeps I now"
  and keeps_uuid [keeps_intros]: "keeps I new_uuid"
  and keeps_serial [keeps_intros]: "keeps I (next_serial s)"
  and keeps_emit [keeps_intros]: "keeps I (emit ev)"
  and keeps_rpc [keeps_intros]: "keeps I (rpc g)"
  by (simp_all add: keeps_def infra_def now_def new_uuid_def next_serial_def emit_def rpc_def Let_def
      split: option.splits sum.splits)

lemma keeps_query [keeps_intros]: "keeps I (query f)"
  and keeps_find [keeps_intros]: "keeps I (find_one g)"
  by (auto intro!: keepsI simp: wp_simps split: option.splits)

lemma keeps_conj: "keeps A m \<Longrightarrow> keeps B m \<Longrightarrow> keeps (\<lambda>d. A d \<and> B d) m"
  by (simp add: keeps_def)

lemma keeps_exec: "(\<And>d a d'. I d \<Longrightarrow> f d = Inr (a, d') \<Longrightarrow> I d') \<Longrightarrow> keeps I (exec f)"
  by (rule keepsI) (auto simp: wp_simps split: option.splits sum.splits)

lemma keeps_modify: "(\<And>d. I d \<Longrightarrow> I (f d)) \<Longrightarrow> keeps I (modify f)"
  by (rule keepsI) (auto simp: wp_simps split: option.splits sum.splits)

lemma keeps_transaction:
  "(\<And>w. I (db w) \<Longrightarrow> wp m (\<lambda>_ w'. I (db w')) (\<lambda>_ _. True) w) \<Longrightarrow> keeps I (transaction m)"
  by (rule keepsI) (auto simp: wp_simps split: option.splits
      intro: wp_mono[where Q = "\<lambda>_ w'. I (db w')" and E = "\<lambda>_ _. True"])

lemma keeps_transaction_body: "keeps I m \<Longrightarrow> keeps I (transaction m)"
  by (rule keeps_transaction) (auto simp: keeps_wp elim!: wp_mono)

lemma keeps_ignore [keeps_intros]: "keeps I m \<Longrightarrow> keeps I (ignoreE m)"
  and keeps_attempt [keeps_intros]: "keeps I m \<Longrightarrow> keeps I (attemptE m)"
  and keeps_optional [keeps_intros]: "keeps I m \<Longrightarrow> keeps I (optionalE m)"
  by (simp_all add: ignoreE_def attemptE_def optionalE_def keeps_intros)

lemma keeps_notFound [keeps_intros]: "keeps I m \<Longrightarrow> keeps I (notFoundE m e)"
  by (simp add: notFoundE_def keeps_intros)

lemma keeps_void [keeps_intros]: "keeps I m \<Longrightarrow> keeps I (void m)"
  by (simp add: void_def keeps_intros)

lemma keeps_forE [keeps_intros]: "(\<And>x. x \<in> set xs \<Longrightarrow> keeps I (f x)) \<Longrightarrow> keeps I (forE xs f)"
  by (induction xs) (auto intro: keeps_intros)

lemma keeps_mapE [keeps_intros]: "(\<And>x. x \<in> set xs \<Longrightarrow> keeps I (f x)) \<Longrightarrow> keeps I (mapE f xs)"
  by (induction xs) (auto intro!: keeps_intros)

lemma preserves_db_keeps: "preserves_db m \<longleftrightarrow> (\<forall>I. keeps I m)"
proof
  assume "preserves_db m"
  then show "\<forall>I. keeps I m" by (simp add: preserves_db_def keeps_def)
next
  assume "\<forall>I. keeps I m"
  then have "keeps (\<lambda>d. d = db w) m" for w :: "'a world" by blast
  then show "preserves_db m" unfolding preserves_db_def keeps_def by blast
qed

text \<open>A step that never touches the tables can be skipped in a goal about the tables.\<close>

lemma wp_preserves:
  assumes "preserves_db m" "\<And>a w'. db w' = db w \<Longrightarrow> Q a w'" "\<And>e w'. db w' = db w \<Longrightarrow> E e w'"
  shows "wp m Q E w"
proof -
  obtain r w' where m: "m w = (r, w')" by (cases "m w")
  then have "db w' = db w" using assms(1) by (metis preserves_db_def snd_conv)
  then show ?thesis using m assms(2,3) by (simp add: wp_def split: sum.splits)
qed

text \<open>A step that always returns and never touches the tables, such as a publication whose error is
  dropped.  \<open>quiet\<close> is closed under sequencing, so a chain of publications is one step.\<close>

definition quiet :: "('db, 'a) M \<Rightarrow> bool" where
  "quiet m = (\<forall>w. \<exists>a w'. m w = (Inr a, w') \<and> db w' = db w \<and> fault w' = fault w)"

named_theorems quiet_intros \<open>steps that always return and leave the tables alone\<close>

lemma wp_quiet: "quiet m \<Longrightarrow> (\<And>a w'. db w' = db w \<Longrightarrow> Q a w') \<Longrightarrow> wp m Q E w"
  unfolding quiet_def wp_def by (metis (no_types, lifting) case_prod_conv sum.simps(6))

lemma quietE: "quiet m \<Longrightarrow> (\<And>a w'. m w = (Inr a, w') \<Longrightarrow> db w' = db w \<Longrightarrow> fault w' = fault w \<Longrightarrow> P) \<Longrightarrow> P"
  unfolding quiet_def by blast

lemma quiet_return [quiet_intros]: "quiet (returnE a)"
  and quiet_now [quiet_intros]: "quiet now"
  and quiet_uuid [quiet_intros]: "quiet new_uuid"
  and quiet_emit [quiet_intros]: "quiet (emit ev)"
  by (simp_all add: quiet_def returnE_def now_def new_uuid_def emit_def)

lemma quiet_bind [quiet_intros]: "quiet m \<Longrightarrow> (\<And>a. quiet (f a)) \<Longrightarrow> quiet (bindE m f)"
  unfolding quiet_def bindE_def by (metis (no_types, lifting) case_prod_conv sum.simps(6))

lemma quiet_then [quiet_intros]: "quiet m \<Longrightarrow> quiet k \<Longrightarrow> quiet (thenE m k)"
  by (simp add: thenE_def quiet_bind)

lemma quiet_if [quiet_intros]: "quiet m \<Longrightarrow> quiet m' \<Longrightarrow> quiet (if b then m else m')"
  by simp

lemma quiet_option [quiet_intros]:
  "quiet m \<Longrightarrow> (\<And>a. quiet (f a)) \<Longrightarrow> quiet (case x of None \<Rightarrow> m | Some a \<Rightarrow> f a)"
  by (simp split: option.splits)

lemma quiet_forE [quiet_intros]: "(\<And>x. quiet (f x)) \<Longrightarrow> quiet (forE xs f)"
  by (induction xs) (simp_all add: quiet_intros)

text \<open>Steps that may fail with an ordinary error but neither panic nor touch the tables; dropping
  their error makes them quiet.\<close>

definition benign :: "('db, 'a) M \<Rightarrow> bool" where
  "benign m = (\<forall>w. db (snd (m w)) = db w \<and> fault (snd (m w)) = fault w \<and>
     (\<forall>s. fst (m w) \<noteq> Inl (Panicked s)))"

lemma quiet_benign: "quiet m \<Longrightarrow> benign m"
  unfolding quiet_def benign_def by (metis Inl_Inr_False fst_conv snd_conv)

lemma benign_bind: "benign m \<Longrightarrow> (\<And>a. benign (f a)) \<Longrightarrow> benign (bindE m f)"
  unfolding benign_def bindE_def by (auto split: sum.splits prod.splits) (metis fst_conv snd_conv)+

lemma benign_then: "benign m \<Longrightarrow> benign k \<Longrightarrow> benign (thenE m k)"
  by (simp add: thenE_def benign_bind)

lemma benign_infra: "benign infra"
  and benign_query: "benign (query f)"
  by (simp_all add: benign_def query_def infra_def thenE_def bindE_def split: option.splits)

lemma benign_rpc: "benign (rpc f)"
  by (simp add: benign_def rpc_def split: sum.splits)

lemma benign_forE: "(\<And>x. benign (f x)) \<Longrightarrow> benign (forE xs f)"
  by (induction xs) (simp_all add: benign_then quiet_benign quiet_return)

lemma benign_find: "benign (find_one f)"
  unfolding find_one_def
  by (rule benign_bind[OF benign_query]) (simp add: benign_def returnE_def throwE_def split: option.splits)

lemma quiet_ignore: "benign m \<Longrightarrow> quiet (ignoreE m)"
proof -
  assume b: "benign m"
  have "\<exists>w'. ignoreE m w = (Inr (), w') \<and> db w' = db w \<and> fault w' = fault w" for w
  proof (cases "m w")
    case (Pair r w')
    then have "db w' = db w" "fault w' = fault w" "\<And>s. r \<noteq> Inl (Panicked s)"
      using b unfolding benign_def by (metis fst_conv snd_conv)+
    then show ?thesis using Pair
      by (cases r) (auto simp: ignoreE_def catchE_def thenE_def bindE_def returnE_def split: err.splits)
  qed
  then show ?thesis by (simp add: quiet_def)
qed

lemma quiet_attempt: "benign m \<Longrightarrow> quiet (attemptE m)"
proof -
  assume b: "benign m"
  have "\<exists>a w'. attemptE m w = (Inr a, w') \<and> db w' = db w \<and> fault w' = fault w" for w
  proof (cases "m w")
    case (Pair r w')
    then have "db w' = db w" "fault w' = fault w" "\<And>s. r \<noteq> Inl (Panicked s)"
      using b unfolding benign_def by (metis fst_conv snd_conv)+
    then show ?thesis using Pair
      by (cases r) (auto simp: attemptE_def catchE_def thenE_def bindE_def returnE_def split: err.splits)
  qed
  then show ?thesis unfolding quiet_def by blast
qed

text \<open>Steps that publish nothing; they may read and write the tables.\<close>

definition same_env :: "'db world \<Rightarrow> 'db world \<Rightarrow> bool" where
  "same_env w w' = (outbox w' = outbox w \<and> fault w' = fault w \<and> uuid w' = uuid w)"

lemma same_env_updates [simp]:
  "same_env w w" "same_env w (bump w') = same_env w w'" "same_env w (w'\<lparr>db := d\<rparr>) = same_env w w'"
  "same_env w (w'\<lparr>serial := sq\<rparr>) = same_env w w'" "same_env (bump w) w' = same_env w w'"
  by (simp_all add: same_env_def bump_def)

lemma same_env_trans: "same_env w w' \<Longrightarrow> same_env w' w'' \<Longrightarrow> same_env w w''"
  by (simp add: same_env_def)

definition silent :: "('db, 'a) M \<Rightarrow> bool" where
  "silent m = (\<forall>w. same_env w (snd (m w)))"

named_theorems silent_intros \<open>steps that publish nothing\<close>

lemma silent_base [silent_intros]:
  "silent (returnE a)" "silent (throwE e)" "silent (guardE b e)" "silent infra" "silent now" "silent new_uuid"
  "silent (next_serial sq)" "silent (rpc f)"
  by (simp_all add: silent_def monad_defs infra_def now_def new_uuid_def next_serial_def rpc_def Let_def
      split: option.splits sum.splits)

lemma silent_bind [silent_intros]:
  assumes "silent m" "\<And>a. silent (f a)" shows "silent (bindE m f)"
proof -
  have "same_env w (snd (bindE m f w))" for w
  proof (cases "m w")
    case (Pair r w')
    then have m: "same_env w w'" using assms(1) by (metis silent_def snd_conv)
    show ?thesis
    proof (cases r)
      case (Inr a)
      then show ?thesis using Pair same_env_trans[OF m] assms(2) by (simp add: bindE_def silent_def)
    qed (simp add: Pair m bindE_def)
  qed
  then show ?thesis by (simp add: silent_def)
qed

lemma silent_then [silent_intros]: "silent m \<Longrightarrow> silent k \<Longrightarrow> silent (thenE m k)"
  by (simp add: thenE_def silent_bind)

lemma silent_catch [silent_intros]:
  assumes "silent m" "\<And>e. silent (h e)" shows "silent (catchE m h)"
proof -
  have "same_env w (snd (catchE m h w))" for w
  proof (cases "m w")
    case (Pair r w')
    then have m: "same_env w w'" using assms(1) by (metis silent_def snd_conv)
    show ?thesis using Pair m same_env_trans[OF m] assms(2)
      by (cases r) (auto simp: catchE_def silent_def split: err.splits)
  qed
  then show ?thesis by (simp add: silent_def)
qed

lemma silent_db [silent_intros]:
  "silent (query f)" "silent (find_one g)" "silent (exec h)" "silent (modify k)"
  by (auto simp: silent_def query_def find_one_def exec_def modify_def monad_defs infra_def
      split: option.splits sum.splits)

lemma silent_transaction [silent_intros]:
  assumes "silent m" shows "silent (transaction m)"
proof -
  have "same_env w (snd (transaction m w))" for w
  proof (cases "m (bump w)")
    case (Pair r w')
    then have "same_env w w'" using assms by (metis silent_def snd_conv same_env_updates(5))
    then show ?thesis using Pair by (simp add: transaction_def infra_def split: option.splits sum.splits)
  qed
  then show ?thesis by (simp add: silent_def)
qed

lemma silent_if [silent_intros]: "(b \<Longrightarrow> silent m) \<Longrightarrow> (\<not> b \<Longrightarrow> silent m') \<Longrightarrow> silent (if b then m else m')"
  by simp

lemma silent_option [silent_intros]:
  "silent m \<Longrightarrow> (\<And>a. silent (f a)) \<Longrightarrow> silent (case x of None \<Rightarrow> m | Some a \<Rightarrow> f a)"
  by (simp split: option.splits)

lemma silent_prod [silent_intros]: "(\<And>a b. silent (f a b)) \<Longrightarrow> silent (case x of (a, b) \<Rightarrow> f a b)"
  by (simp split: prod.splits)

lemma silent_wrappers [silent_intros]:
  "silent m \<Longrightarrow> silent (ignoreE m)" "silent a \<Longrightarrow> silent (attemptE a)" "silent b \<Longrightarrow> silent (optionalE b)"
  by (simp_all add: ignoreE_def attemptE_def optionalE_def silent_intros)

lemma silent_forE [silent_intros]: "(\<And>x. silent (f x)) \<Longrightarrow> silent (forE xs f)"
  by (induction xs) (simp_all add: silent_intros)

lemma wp_inert:
  assumes "preserves_db m" "silent m"
    and "\<And>a w'. db w' = db w \<Longrightarrow> same_env w w' \<Longrightarrow> Q a w'"
    and "\<And>e w'. db w' = db w \<Longrightarrow> same_env w w' \<Longrightarrow> E e w'"
  shows "wp m Q E w"
proof -
  obtain r w' where m: "m w = (r, w')" by (cases "m w")
  then have "db w' = db w" "same_env w w'" using assms(1,2) by (metis preserves_db_def silent_def snd_conv)+
  then show ?thesis using m assms(3,4) by (simp add: wp_def split: sum.splits)
qed

lemma wp_silent:
  assumes "silent m" "wp m Q E w"
  shows "wp m (\<lambda>a w'. Q a w' \<and> same_env w w') (\<lambda>e w'. E e w' \<and> same_env w w') w"
proof -
  obtain r w' where m: "m w = (r, w')" by (cases "m w")
  then have "same_env w w'" using assms(1) by (metis silent_def snd_conv)
  then show ?thesis using m assms(2) by (simp add: wp_def split: sum.splits)
qed

lemma wp_silent_transaction:
  assumes "silent m" "\<And>w0. db w0 = db w \<Longrightarrow> same_env w w0 \<Longrightarrow> wp m (\<lambda>a w'. R a (db w')) (\<lambda>_ _. True) w0"
  shows "wp (transaction m) (\<lambda>a w'. same_env w w' \<and> R a (db w')) (\<lambda>_ w'. same_env w w' \<and> db w' = db w) w"
proof -
  obtain r w' where m: "m (bump w) = (r, w')" by (cases "m (bump w)")
  then have "same_env w w'" using assms(1) by (metis silent_def snd_conv same_env_updates(5))
  then show ?thesis using m assms(2)[of "bump w"]
    by (simp add: wp_def transaction_def infra_def split: option.splits sum.splits)
qed

lemma wp_healthy_transaction:
  assumes "healthy w" "silent m" "wp m (\<lambda>a w'. R a (db w')) (\<lambda>_ _. False) (bump w)"
  shows "wp (transaction m) (\<lambda>a w'. same_env w w' \<and> R a (db w')) (\<lambda>_ _. False) w"
proof -
  obtain r w' where m: "m (bump w) = (r, w')" by (cases "m (bump w)")
  then have "same_env w w'" using assms(2) by (metis silent_def snd_conv same_env_updates(5))
  then show ?thesis using m assms(1,3)
    by (auto simp: wp_def transaction_def infra_def same_env_def healthy_def split: option.splits sum.splits)
qed

text \<open>Composition rules for goals of the form ``the invariant holds afterwards''.\<close>

lemma wp_pub:
  "quiet m \<Longrightarrow> I (db w) \<Longrightarrow> wp m (\<lambda>_ w'. I (db w')) (\<lambda>_ w'. I (db w')) w"
  by (rule wp_quiet) simp_all

lemma wp_seq:
  assumes "wp m (\<lambda>_ w'. I (db w')) (\<lambda>_ w'. I (db w')) w" "\<And>a w'. I (db w') \<Longrightarrow> wp (k a) (\<lambda>_ w'. I (db w')) (\<lambda>_ w'. I (db w')) w'"
  shows "wp m (\<lambda>a. wp (k a) (\<lambda>_ w'. I (db w')) (\<lambda>_ w'. I (db w'))) (\<lambda>_ w'. I (db w')) w"
  by (rule wp_mono[OF assms(1)]) (use assms(2) in auto)

lemma wp_conj: "wp m Q E w \<Longrightarrow> wp m Q' E' w \<Longrightarrow> wp m (\<lambda>a w'. Q a w' \<and> Q' a w') (\<lambda>e w'. E e w' \<and> E' e w') w"
  by (simp add: wp_def split: sum.splits prod.splits)

lemma mapE_serial:
  "wp (mapE (\<lambda>m. bindE (next_serial sq) (\<lambda>i. returnE (h i m))) xs) Q E w =
    (let is = map (\<lambda>k. serial w sq + 1 + int k) [0..<length xs] in
     Q (map2 h is xs) (w\<lparr>serial := (serial w)(sq := serial w sq + int (length xs))\<rparr>))"
proof (induction xs arbitrary: Q w)
  case Nil
  have "w\<lparr>serial := serial w\<rparr> = w" by simp
  then show ?case by (simp add: wp_simps)
next
  case (Cons x xs)
  have shift: "map (\<lambda>k. serial w sq + 1 + int k) [0..<length (x # xs)] =
      (serial w sq + 1) # map (\<lambda>k. serial w sq + 1 + 1 + int k) [0..<length xs]"
    by (simp add: upt_conv_Cons map_Suc_upt[symmetric] del: upt_Suc)
  show ?case
    unfolding shift by (simp add: wp_simps Cons.IH Let_def algebra_simps del: upt_Suc cong: if_cong)
qed

subsection \<open>Reachable states of a service\<close>

text \<open>A service is a set of operations over its tables; a history is any sequence of completed
  operations, with any clock and any faults.  \<open>reachable\<close> are the table states a service can get to
  from given ones by operations that satisfy \<open>ok\<close>.  The locale states the contract of a service with an invariant; the interpretation
  of every service discharges it.\<close>

inductive reachable :: "('op \<Rightarrow> ('db, unit) M) \<Rightarrow> ('op \<Rightarrow> bool) \<Rightarrow> 'db \<Rightarrow> 'db \<Rightarrow> bool" for step ok d0 where
  reach_init: "reachable step ok d0 d0"
| reach_step: "reachable step ok d0 (db w) \<Longrightarrow> ok op \<Longrightarrow> step op w = (r, w') \<Longrightarrow>
     reachable step ok d0 (db w')"

definition any_op :: "'op \<Rightarrow> bool" where
  "any_op _ = True"

definition run_ops :: "('op \<Rightarrow> ('db, unit) M) \<Rightarrow> 'op list \<Rightarrow> 'db world \<Rightarrow> 'db world" where
  "run_ops step ops w = fold (\<lambda>op w. snd (step op w)) ops w"

lemma run_ops_reachable:
  "reachable step ok d0 (db w) \<Longrightarrow> list_all ok ops \<Longrightarrow> reachable step ok d0 (db (run_ops step ops w))"
proof (induction ops arbitrary: w)
  case Nil then show ?case by (simp add: run_ops_def)
next
  case (Cons op ops)
  have "reachable step ok d0 (db (snd (step op w)))"
    using Cons.prems reach_step[of step ok d0 w op "fst (step op w)" "snd (step op w)"] by simp
  from Cons.IH[OF this] Cons.prems(2) show ?case by (simp add: run_ops_def)
qed

locale service =
  fixes step :: "'op \<Rightarrow> ('db, unit) M"
    and ok :: "'op \<Rightarrow> bool"
    and Inv :: "'db \<Rightarrow> bool"
    and init :: 'db
  assumes init_inv: "Inv init"
    and step_inv: "ok op \<Longrightarrow> keeps Inv (step op)"
begin

lemma reachable_inv: "reachable step ok init d \<Longrightarrow> Inv d"
proof (induction rule: reachable.induct)
  case reach_init show ?case by (rule init_inv)
next
  case (reach_step w op r w')
  then show ?case using step_inv[of op] by (metis keeps_def snd_conv)
qed

lemma run_inv: "db w = init \<Longrightarrow> list_all ok ops \<Longrightarrow> Inv (db (run_ops step ops w))"
  using reachable_inv run_ops_reachable[of step ok init w ops] reach_init by metis

end

end
