(* ===== verification/Broker.thy ===== *)
theory Broker
  imports World "HOL-Library.AList"
begin

text \<open>
  Notifications and their publication (\<open>pkg/broker\<close>): the type names of \<open>types.go\<close>, the builder
  functions of \<open>builder.go\<close>, the topics and the publishing methods of \<open>nats.go\<close>.  Handing the encoded
  notification to the NATS connection appends it to the outbox of the world or fails.  A payload is
  the list of the fields of the Go map in the order the sources write them.
\<close>

abbreviation (input) TypeFriendRequest :: string where "TypeFriendRequest \<equiv> ''friend.request''"
abbreviation (input) TypeFriendRequestHandled :: string where
  "TypeFriendRequestHandled \<equiv> ''friend.request_handled''"
abbreviation (input) TypeFriendAdded :: string where "TypeFriendAdded \<equiv> ''friend.added''"
abbreviation (input) TypeFriendDeleted :: string where "TypeFriendDeleted \<equiv> ''friend.deleted''"
abbreviation (input) TypeFriendRemarkUpdated :: string where
  "TypeFriendRemarkUpdated \<equiv> ''friend.remark_updated''"
abbreviation (input) TypeBlacklistChanged :: string where
  "TypeBlacklistChanged \<equiv> ''friend.blacklist_changed''"
abbreviation (input) TypeGroupInvited :: string where "TypeGroupInvited \<equiv> ''group.invited''"
abbreviation (input) TypeGroupMemberJoined :: string where "TypeGroupMemberJoined \<equiv> ''group.member_joined''"
abbreviation (input) TypeGroupMemberLeft :: string where "TypeGroupMemberLeft \<equiv> ''group.member_left''"
abbreviation (input) TypeGroupMemberMuted :: string where "TypeGroupMemberMuted \<equiv> ''group.member_muted''"
abbreviation (input) TypeGroupMemberUnmuted :: string where
  "TypeGroupMemberUnmuted \<equiv> ''group.member_unmuted''"
abbreviation (input) TypeGroupInfoUpdated :: string where "TypeGroupInfoUpdated \<equiv> ''group.info_updated''"
abbreviation (input) TypeGroupSettingsUpdated :: string where
  "TypeGroupSettingsUpdated \<equiv> ''group.settings_updated''"
abbreviation (input) TypeGroupRoleChanged :: string where "TypeGroupRoleChanged \<equiv> ''group.role_changed''"
abbreviation (input) TypeGroupMuted :: string where "TypeGroupMuted \<equiv> ''group.muted''"
abbreviation (input) TypeGroupMessagePinned :: string where
  "TypeGroupMessagePinned \<equiv> ''group.message_pinned''"
abbreviation (input) TypeGroupMessageUnpinned :: string where
  "TypeGroupMessageUnpinned \<equiv> ''group.message_unpinned''"
abbreviation (input) TypeGroupJoinRequested :: string where
  "TypeGroupJoinRequested \<equiv> ''group.join_requested''"
abbreviation (input) TypeGroupQRCodeRefreshed :: string where
  "TypeGroupQRCodeRefreshed \<equiv> ''group.qrcode_refreshed''"
abbreviation (input) TypeGroupDisbanded :: string where "TypeGroupDisbanded \<equiv> ''group.disbanded''"
abbreviation (input) TypeMessageNew :: string where "TypeMessageNew \<equiv> ''message.new''"
abbreviation (input) TypeMessageReadReceipt :: string where
  "TypeMessageReadReceipt \<equiv> ''message.read_receipt''"
abbreviation (input) TypeMessageRecalled :: string where "TypeMessageRecalled \<equiv> ''message.recalled''"
abbreviation (input) TypeMessageDeleted :: string where "TypeMessageDeleted \<equiv> ''message.deleted''"
abbreviation (input) TypeMessageTyping :: string where "TypeMessageTyping \<equiv> ''message.typing''"
abbreviation (input) TypeMessageMentioned :: string where "TypeMessageMentioned \<equiv> ''message.mentioned''"
abbreviation (input) TypeMessageAutoDeleted :: string where
  "TypeMessageAutoDeleted \<equiv> ''message.auto_deleted''"
abbreviation (input) TypeAuthForceLogout :: string where "TypeAuthForceLogout \<equiv> ''auth.force_logout''"
abbreviation (input) TypeLiveKitCallInvite :: string where "TypeLiveKitCallInvite \<equiv> ''livekit.call_invite''"
abbreviation (input) TypeLiveKitCallStatus :: string where "TypeLiveKitCallStatus \<equiv> ''livekit.call_status''"
abbreviation (input) TypeLiveKitCallRejected :: string where
  "TypeLiveKitCallRejected \<equiv> ''livekit.call_rejected''"

subsection \<open>Building notifications\<close>

definition NewNotification :: "string \<Rightarrow> string \<Rightarrow> Priority \<Rightarrow> ('db, Notification) M" where
  "NewNotification notificationType fromUserID priority =
     bindE new_uuid (\<lambda>u. returnE
       \<lparr>n_ID = u, n_Type = notificationType, n_Timestamp = 0, n_FromUserID = fromUserID,
        n_ToUserID = '''', n_Priority = priority, n_Payload = [], n_Metadata = []\<rparr>)"

definition WithPayload :: "Notification \<Rightarrow> payload \<Rightarrow> Notification" where
  "WithPayload n p = n\<lparr>n_Payload := p\<rparr>"

definition WithMetadata :: "Notification \<Rightarrow> payload \<Rightarrow> Notification" where
  "WithMetadata n p = n\<lparr>n_Metadata := p\<rparr>"

definition AddPayloadField :: "Notification \<Rightarrow> string \<Rightarrow> jval \<Rightarrow> Notification" where
  "AddPayloadField n k v = n\<lparr>n_Payload := AList.update k v (n_Payload n)\<rparr>"

definition AddMetadataField :: "Notification \<Rightarrow> string \<Rightarrow> jval \<Rightarrow> Notification" where
  "AddMetadataField n k v = n\<lparr>n_Metadata := AList.update k v (n_Metadata n)\<rparr>"

subsection \<open>Topics\<close>

definition BuildUserNotificationTopic :: "string \<Rightarrow> string \<Rightarrow> string" where
  "BuildUserNotificationTopic notificationType userID =
     ''notification.'' @ notificationType @ ''.'' @ userID"

definition BuildGroupNotificationTopic :: "string \<Rightarrow> string \<Rightarrow> string" where
  "BuildGroupNotificationTopic notificationType groupID =
     ''notification.'' @ notificationType @ ''.'' @ groupID"

definition BuildBroadcastTopic :: "string \<Rightarrow> string" where
  "BuildBroadcastTopic notificationType = ''notification.'' @ notificationType @ ''.broadcast''"

subsection \<open>Publishing\<close>

definition nats_publish :: "string \<Rightarrow> Notification \<Rightarrow> ('db, unit) M" where
  "nats_publish topic n = thenE infra (emit (Published topic n))"

definition stamp :: "Notification \<Rightarrow> ('db, Notification) M" where
  "stamp n = (if n_Timestamp n = 0
     then bindE now (\<lambda>t. returnE (n\<lparr>n_Timestamp := unix t\<rparr>))
     else returnE n)"

definition PublishToUser :: "string \<Rightarrow> Notification \<Rightarrow> ('db, unit) M" where
  "PublishToUser userID n =
     bindE (stamp (n\<lparr>n_ToUserID := userID\<rparr>)) (\<lambda>n.
       nats_publish (BuildUserNotificationTopic (n_Type n) userID) n)"

definition Publish :: "Notification \<Rightarrow> ('db, unit) M" where
  "Publish n = (if n_ToUserID n = '''' then
       throwE (Plain ''toUserID is required for publishing notification'')
     else PublishToUser (n_ToUserID n) n)"

definition PublishToUsers :: "string list \<Rightarrow> Notification \<Rightarrow> ('db, unit) M" where
  "PublishToUsers userIDs n =
     bindE (stamp n) (\<lambda>n. forE userIDs (\<lambda>userID. PublishToUser userID (n\<lparr>n_ToUserID := userID\<rparr>)))"

definition PublishToGroup :: "string \<Rightarrow> Notification \<Rightarrow> ('db, unit) M" where
  "PublishToGroup groupID n =
     bindE (stamp n) (\<lambda>n. nats_publish (BuildGroupNotificationTopic (n_Type n) groupID) n)"

definition PublishBroadcast :: "Notification \<Rightarrow> ('db, unit) M" where
  "PublishBroadcast n =
     bindE (stamp n) (\<lambda>n. nats_publish (BuildBroadcastTopic (n_Type n)) n)"

lemmas publish_defs = PublishToUser_def PublishToUsers_def PublishToGroup_def PublishBroadcast_def
  stamp_def nats_publish_def Publish_def NewNotification_def

lemma keeps_NewNotification [keeps_intros]: "keeps I (NewNotification t f p)"
  and keeps_stamp [keeps_intros]: "keeps I (stamp n)"
  and keeps_nats_publish [keeps_intros]: "keeps I (nats_publish topic n)"
  by (simp_all add: NewNotification_def stamp_def nats_publish_def keeps_intros)

lemma keeps_PublishToUser [keeps_intros]: "keeps I (PublishToUser u n)"
  and keeps_PublishToGroup [keeps_intros]: "keeps I (PublishToGroup g n)"
  and keeps_PublishBroadcast [keeps_intros]: "keeps I (PublishBroadcast n)"
  by (auto simp: PublishToUser_def PublishToGroup_def PublishBroadcast_def intro!: keeps_intros)

lemma keeps_Publish [keeps_intros]: "keeps I (Publish n)"
  and keeps_PublishToUsers [keeps_intros]: "keeps I (PublishToUsers us n)"
  by (auto simp: Publish_def PublishToUsers_def intro!: keeps_intros)

lemma quiet_NewNotification [quiet_intros]: "quiet (NewNotification t f p)"
  and quiet_stamp [quiet_intros]: "quiet (stamp n)"
  by (simp_all add: NewNotification_def stamp_def quiet_intros)

lemma benign_nats_publish: "benign (nats_publish topic n)"
  unfolding nats_publish_def by (intro benign_then benign_infra quiet_benign quiet_emit)

lemma benign_PublishToUser: "benign (PublishToUser u n)"
  and benign_PublishToGroup: "benign (PublishToGroup g n)"
  unfolding PublishToUser_def PublishToGroup_def
  by (intro benign_bind benign_nats_publish quiet_benign quiet_stamp)+

lemma benign_PublishToUsers: "benign (PublishToUsers us n)"
  unfolding PublishToUsers_def
  by (intro benign_bind benign_forE benign_PublishToUser quiet_benign quiet_stamp)

lemma quiet_publish [quiet_intros]:
  "quiet (ignoreE (PublishToUser u n))" "quiet (ignoreE (PublishToGroup g n))"
  "quiet (ignoreE (PublishToUsers us n))"
  by (intro quiet_ignore benign_PublishToUser benign_PublishToGroup benign_PublishToUsers)+

subsection \<open>Delivered notifications\<close>

text \<open>What a user receives: the notifications published on one of the topics of the user.\<close>

definition sent_to :: "string \<Rightarrow> event \<Rightarrow> bool" where
  "sent_to userID ev = (case ev of
       Published topic n \<Rightarrow> topic = BuildUserNotificationTopic (n_Type n) userID \<and> n_ToUserID n = userID
     | Called _ _ \<Rightarrow> False)"

lemma forE_publish_healthy:
  assumes "healthy w" "n_Timestamp n \<noteq> 0"
  shows "\<exists>w'. forE us (\<lambda>u. PublishToUser u (n\<lparr>n_ToUserID := u\<rparr>)) w = (Inr (), w') \<and> healthy w' \<and>
      db w' = db w \<and> outbox w' = outbox w @
        map (\<lambda>u. Published (BuildUserNotificationTopic (n_Type n) u) (n\<lparr>n_ToUserID := u\<rparr>)) us"
  using assms
proof (induction us arbitrary: w)
  case Nil then show ?case by (simp add: run_simps)
next
  case (Cons u us)
  let ?n = "n\<lparr>n_ToUserID := u\<rparr>"
  let ?w = "(bump w)\<lparr>outbox := outbox w @ [Published (BuildUserNotificationTopic (n_Type n) u) ?n]\<rparr>"
  have step: "PublishToUser u ?n w = (Inr (), ?w)"
    using Cons.prems by (simp add: publish_defs bindE_def thenE_def returnE_def run_infra emit_def)
  have "healthy ?w" using Cons.prems by simp
  then show ?case using Cons.IH[of ?w] Cons.prems(2) step by (auto simp: thenE_def bindE_def)
qed

subsection \<open>Publishing in a healthy world\<close>

text \<open>One notification reaches the topic of the recipient.  The lemmas give the outcome of the
  publishing idiom of the services: build, publish, drop the error.\<close>

definition stamped :: "string \<Rightarrow> Notification \<Rightarrow> 'db world \<Rightarrow> event" where
  "stamped u n w = Published (BuildUserNotificationTopic (n_Type n) u)
     (n\<lparr>n_ToUserID := u, n_Timestamp := unix (clock w (tick w))\<rparr>)"

lemma wp_NewNotification [wp_simps]:
  "wp (NewNotification t f p) Q E w =
     Q \<lparr>n_ID = uuid_chars (uuid w (tick w)), n_Type = t, n_Timestamp = 0, n_FromUserID = f,
        n_ToUserID = '''', n_Priority = p, n_Payload = [], n_Metadata = []\<rparr> (bump w)"
  by (simp add: NewNotification_def wp_simps)

lemma run_PublishToUser:
  assumes "healthy w" "n_Timestamp n = 0"
  shows "PublishToUser u n w = (Inr (), (bump (bump w))\<lparr>outbox := outbox w @ [stamped u n w]\<rparr>)"
  using assms by (simp add: PublishToUser_def stamp_def nats_publish_def stamped_def thenE_def bindE_def
      now_def returnE_def run_infra emit_def)

lemma wp_publish_user:
  assumes "healthy w" "n_Timestamp n = 0"
  shows "wp (ignoreE (PublishToUser u n)) Q E w =
     Q () ((bump (bump w))\<lparr>outbox := outbox w @ [stamped u n w]\<rparr>)"
  using run_PublishToUser[OF assms]
  by (simp add: wp_def ignoreE_def catchE_def thenE_def bindE_def returnE_def)

lemma sent_to_stamped [simp]: "sent_to v (stamped u n w) \<longleftrightarrow> u = v"
  by (auto simp: sent_to_def stamped_def BuildUserNotificationTopic_def)

end
