(* ===== verification/Metadata.thy ===== *)
theory Metadata
  imports Broker
begin

text \<open>
  What every gRPC handler does before and after calling its service: it takes the operator from the
  incoming metadata (\<open>pkg/md/md.go\<close>) and turns the service's error into a gRPC status
  (\<open>pkg/errors/grpc.go\<close>).  A context is the incoming metadata, absent or a list of key/values pairs.
\<close>

type_synonym ctx = "(string \<times> string list) list option"

definition OperatorUserIDMetadataKey :: string where
  "OperatorUserIDMetadataKey = ''x-user-id''"

definition GetUserID :: "ctx \<Rightarrow> string \<times> bool" where
  "GetUserID ctx = (case ctx of
       None \<Rightarrow> ('''', False)
     | Some md \<Rightarrow> (case map_of md OperatorUserIDMetadataKey of
           None \<Rightarrow> ('''', False)
         | Some [] \<Rightarrow> ('''', False)
         | Some (v # _) \<Rightarrow> (v, True)))"

definition RequireUserID :: "ctx \<Rightarrow> err + string" where
  "RequireUserID ctx = (case GetUserID ctx of
       (userID, True) \<Rightarrow> Inr userID
     | (_, False) \<Rightarrow> Inl (Status Unauthenticated ''missing user_id metadata''))"

definition MustGetUserID :: "ctx \<Rightarrow> ('db, string) M" where
  "MustGetUserID ctx = (case RequireUserID ctx of
       Inl e \<Rightarrow> throwE (Panicked (err_string e))
     | Inr userID \<Rightarrow> returnE userID)"

text \<open>Outgoing metadata: a value is appended to those of its key, and a called service reads the first one.\<close>

definition AppendUserIDToContext :: "ctx \<Rightarrow> string \<Rightarrow> ctx" where
  "AppendUserIDToContext ctx userID =
     (let md = (case ctx of Some md \<Rightarrow> md | None \<Rightarrow> []);
          old = (case map_of md OperatorUserIDMetadataKey of Some vs \<Rightarrow> vs | None \<Rightarrow> []) in
      Some (AList.update OperatorUserIDMetadataKey (old @ [userID]) md))"

lemma GetUserID_append: "GetUserID (AppendUserIDToContext ctx u) = (if snd (GetUserID ctx) then GetUserID ctx else (u, True))"
  by (auto simp: GetUserID_def AppendUserIDToContext_def Let_def update_conv' split: option.split list.split)

text \<open>\<open>return nil, errors.ConvertError(ctx, err)\<close> and \<open>return nil, errors.BadRequest(ctx, msg)\<close>.\<close>

definition convertE :: "('db, 'a) M \<Rightarrow> ('db, 'a) M" where
  "convertE m = catchE m (\<lambda>e. case ConvertError (Some e) of Some e' \<Rightarrow> throwE e' | None \<Rightarrow> throwE e)"

definition badRequestE :: "string \<Rightarrow> ('db, 'a) M" where
  "badRequestE msg = (case BadRequest msg of Some e \<Rightarrow> throwE e | None \<Rightarrow> throwE (Plain msg))"

definition user_ctx :: "string \<Rightarrow> ctx" where
  "user_ctx u = Some [(OperatorUserIDMetadataKey, [u])]"

lemma MustGetUserID_user_ctx [simp]: "MustGetUserID (user_ctx u) = returnE u"
  by (simp add: MustGetUserID_def RequireUserID_def GetUserID_def user_ctx_def)

lemma badRequestE_eq: "badRequestE msg = throwE (Status InvalidArgument (if msg = [] then ''Parameter error'' else msg))"
  by (simp add: badRequestE_def BadRequest_def NewBusiness_def Let_def grpcCodeMapping_def
      GetMessage_def errorMessages_def)

lemma keeps_MustGetUserID [keeps_intros]: "keeps I (MustGetUserID ctx)"
  by (simp add: MustGetUserID_def keeps_intros split: sum.splits)

lemma keeps_convertE [keeps_intros]: "keeps I m \<Longrightarrow> keeps I (convertE m)"
  unfolding convertE_def by (rule keeps_catch) (simp_all add: keeps_intros split: option.splits)

lemma keeps_badRequestE [keeps_intros]: "keeps I (badRequestE msg)"
  by (simp add: badRequestE_eq keeps_intros)

text \<open>The outcome of a handler: a service result passed through, a business error translated.\<close>

lemma convertE_result:
  "convertE m w = (case m w of
      (Inr a, w') \<Rightarrow> (Inr a, w')
    | (Inl (Panicked s), w') \<Rightarrow> (Inl (Panicked s), w')
    | (Inl e, w') \<Rightarrow> (Inl (the (ConvertError (Some e))), w'))"
  by (simp add: convertE_def catchE_def throwE_def Let_def split: sum.splits prod.splits err.splits)

end
