(* ===== verification/Friend_Model.thy ===== *)
theory Friend_Model
  imports Metadata "HOL-Library.Product_Lexorder"
begin

text \<open>
  The friend service (\<open>app/friend\<close>): its rows (\<open>internal/model\<close>), its repositories
  (\<open>internal/repository\<close>), its service methods (\<open>internal/service/friend_service.go\<close>) and its gRPC
  handlers (\<open>internal/handler\<close>).  The unique keys are those of migration 000002.  The user and the
  conversation service are reached through the client record \<open>friend_deps\<close>; a nil conversation
  client is \<open>None\<close>.
\<close>

subsection \<open>Enumerations\<close>

abbreviation (input) FriendRequestSourceUnknown :: int where "FriendRequestSourceUnknown \<equiv> 0"
abbreviation (input) FriendRequestSourceSearch :: int where "FriendRequestSourceSearch \<equiv> 1"
abbreviation (input) FriendRequestSourceQRCode :: int where "FriendRequestSourceQRCode \<equiv> 2"
abbreviation (input) FriendRequestSourceGroup :: int where "FriendRequestSourceGroup \<equiv> 3"
abbreviation (input) FriendRequestSourceContacts :: int where "FriendRequestSourceContacts \<equiv> 4"

definition friendRequestSourceValueToString :: "(int \<times> string) list" where
  "friendRequestSourceValueToString =
     [(FriendRequestSourceSearch, ''search''), (FriendRequestSourceQRCode, ''qrcode''),
      (FriendRequestSourceGroup, ''group''), (FriendRequestSourceContacts, ''contacts'')]"

definition FriendRequestSource_String :: "int \<Rightarrow> string" where
  "FriendRequestSource_String s =
     (case map_of friendRequestSourceValueToString s of Some v \<Rightarrow> v | None \<Rightarrow> ''unknown'')"

definition FriendRequestSource_IsValid :: "int \<Rightarrow> bool" where
  "FriendRequestSource_IsValid s = (s \<ge> FriendRequestSourceSearch \<and> s \<le> FriendRequestSourceContacts)"

definition ParseFriendRequestSource :: "string \<Rightarrow> err + int" where
  "ParseFriendRequestSource value =
     (let v = to_lower (trim_space value) in
      if v = ''search'' then Inr FriendRequestSourceSearch
      else if v = ''qrcode'' then Inr FriendRequestSourceQRCode
      else if v = ''group'' then Inr FriendRequestSourceGroup
      else if v = ''contacts'' then Inr FriendRequestSourceContacts
      else Inl (Plain (''unsupported friend request source: '' @ value)))"

abbreviation (input) FriendRequestStatusUnknown :: int where "FriendRequestStatusUnknown \<equiv> 0"
abbreviation (input) FriendRequestStatusPending :: int where "FriendRequestStatusPending \<equiv> 1"
abbreviation (input) FriendRequestStatusAccepted :: int where "FriendRequestStatusAccepted \<equiv> 2"
abbreviation (input) FriendRequestStatusRejected :: int where "FriendRequestStatusRejected \<equiv> 3"
abbreviation (input) FriendRequestStatusExpired :: int where "FriendRequestStatusExpired \<equiv> 4"

definition friendRequestStatusValueToString :: "(int \<times> string) list" where
  "friendRequestStatusValueToString =
     [(FriendRequestStatusPending, ''pending''), (FriendRequestStatusAccepted, ''accepted''),
      (FriendRequestStatusRejected, ''rejected''), (FriendRequestStatusExpired, ''expired'')]"

definition FriendRequestStatus_String :: "int \<Rightarrow> string" where
  "FriendRequestStatus_String s =
     (case map_of friendRequestStatusValueToString s of Some v \<Rightarrow> v | None \<Rightarrow> ''unknown'')"

definition FriendRequestStatus_IsValid :: "int \<Rightarrow> bool" where
  "FriendRequestStatus_IsValid s = (s \<ge> FriendRequestStatusPending \<and> s \<le> FriendRequestStatusExpired)"

definition ParseFriendRequestStatus :: "string \<Rightarrow> err + int" where
  "ParseFriendRequestStatus value =
     (let v = to_lower (trim_space value) in
      if v = ''pending'' then Inr FriendRequestStatusPending
      else if v = ''accepted'' then Inr FriendRequestStatusAccepted
      else if v = ''rejected'' then Inr FriendRequestStatusRejected
      else if v = ''expired'' then Inr FriendRequestStatusExpired
      else Inl (Plain (''unsupported friend request status: '' @ value)))"

abbreviation (input) FriendRequestActionAccept :: int where "FriendRequestActionAccept \<equiv> 1"
abbreviation (input) FriendRequestActionReject :: int where "FriendRequestActionReject \<equiv> 2"

definition FriendRequestAction_IsValid :: "int \<Rightarrow> bool" where
  "FriendRequestAction_IsValid a = (a = FriendRequestActionAccept \<or> a = FriendRequestActionReject)"

abbreviation (input) FriendRequestQueryTypeUnknown :: int where "FriendRequestQueryTypeUnknown \<equiv> 0"
abbreviation (input) FriendRequestQueryTypeReceived :: int where "FriendRequestQueryTypeReceived \<equiv> 1"
abbreviation (input) FriendRequestQueryTypeSent :: int where "FriendRequestQueryTypeSent \<equiv> 2"

definition FriendRequestQueryType_IsValid :: "int \<Rightarrow> bool" where
  "FriendRequestQueryType_IsValid t =
     (t = FriendRequestQueryTypeReceived \<or> t = FriendRequestQueryTypeSent)"

abbreviation (input) FriendshipStatusDeleted :: int where "FriendshipStatusDeleted \<equiv> 0"
abbreviation (input) FriendshipStatusNormal :: int where "FriendshipStatusNormal \<equiv> 1"

subsection \<open>Rows\<close>

record FriendRequest =
  fr_ID :: int
  fr_FromUserID :: string
  fr_ToUserID :: string
  fr_Message :: string
  fr_Source :: int
  fr_Status :: int
  fr_CreatedAt :: int
  fr_UpdatedAt :: int

record Friendship =
  fs_ID :: int
  fs_UserID :: string
  fs_FriendID :: string
  fs_Remark :: string
  fs_Status :: int
  fs_CreatedAt :: int
  fs_UpdatedAt :: int

record Blacklist =
  bl_ID :: int
  bl_UserID :: string
  bl_BlockedUserID :: string
  bl_CreatedAt :: int

definition FriendRequest_IsPending :: "FriendRequest \<Rightarrow> bool" where
  "FriendRequest_IsPending r = (fr_Status r = FriendRequestStatusPending)"

definition FriendRequest_IsAccepted :: "FriendRequest \<Rightarrow> bool" where
  "FriendRequest_IsAccepted r = (fr_Status r = FriendRequestStatusAccepted)"

definition FriendRequest_IsRejected :: "FriendRequest \<Rightarrow> bool" where
  "FriendRequest_IsRejected r = (fr_Status r = FriendRequestStatusRejected)"

definition Friendship_IsActive :: "Friendship \<Rightarrow> bool" where
  "Friendship_IsActive f = (fs_Status f = FriendshipStatusNormal)"

record friend_db =
  friendships :: "Friendship list"
  friend_requests :: "FriendRequest list"
  blacklists :: "Blacklist list"

definition friendship_key :: "Friendship \<Rightarrow> string \<times> string" where
  "friendship_key f = (fs_UserID f, fs_FriendID f)"

definition blacklist_key :: "Blacklist \<Rightarrow> string \<times> string" where
  "blacklist_key b = (bl_UserID b, bl_BlockedUserID b)"

definition empty_friend_db :: friend_db where
  "empty_friend_db = \<lparr>friendships = [], friend_requests = [], blacklists = []\<rparr>"

record friend_deps =
  fd_GetSettings :: "nat \<Rightarrow> string \<Rightarrow> err + bool"
  fd_GetUserInfo :: "nat \<Rightarrow> string \<Rightarrow> err + string \<times> string"
  fd_CreateOrUpdateConversation :: "(nat \<Rightarrow> err + unit) option"

subsection \<open>Blacklist repository\<close>

definition blacklistRepo_Create :: "Blacklist \<Rightarrow> (friend_db, unit) M" where
  "blacklistRepo_Create b =
     bindE now (\<lambda>t. bindE (next_serial SeqBlacklists) (\<lambda>i.
       exec (\<lambda>d. case insert_unique blacklist_key (b\<lparr>bl_ID := i, bl_CreatedAt := t\<rparr>) (blacklists d) of
           None \<Rightarrow> Inl (UniqueViolation ''uk_user_blocked'')
         | Some rows \<Rightarrow> Inr ((), d\<lparr>blacklists := rows\<rparr>))))"

definition blacklistRepo_GetByUserAndBlocked :: "string \<Rightarrow> string \<Rightarrow> (friend_db, Blacklist) M" where
  "blacklistRepo_GetByUserAndBlocked userID blockedUserID =
     find_one (\<lambda>d. first_where (\<lambda>b. bl_UserID b = userID \<and> bl_BlockedUserID b = blockedUserID) bl_ID
       (blacklists d))"

definition blacklistRepo_GetBlacklist :: "string \<Rightarrow> (friend_db, Blacklist list) M" where
  "blacklistRepo_GetBlacklist userID =
     query (\<lambda>d. select_where (\<lambda>b. bl_UserID b = userID) (\<lambda>b. - bl_CreatedAt b) (blacklists d))"

definition blacklistRepo_Delete :: "string \<Rightarrow> string \<Rightarrow> (friend_db, unit) M" where
  "blacklistRepo_Delete userID blockedUserID =
     modify (\<lambda>d. d\<lparr>blacklists := delete_where
       (\<lambda>b. bl_UserID b = userID \<and> bl_BlockedUserID b = blockedUserID) (blacklists d)\<rparr>)"

definition blacklistRepo_IsBlocked :: "string \<Rightarrow> string \<Rightarrow> (friend_db, bool) M" where
  "blacklistRepo_IsBlocked userID targetUserID =
     query (\<lambda>d. count_where (\<lambda>b. (bl_UserID b = userID \<and> bl_BlockedUserID b = targetUserID) \<or>
         (bl_UserID b = targetUserID \<and> bl_BlockedUserID b = userID)) (blacklists d) > 0)"

subsection \<open>Friend request repository\<close>

text \<open>gorm writes the column default (1) for a zero \<open>Source\<close> or \<open>Status\<close>, and the current time for
  unset timestamps; \<open>Update\<close> of a column also moves \<open>updated_at\<close>.\<close>

definition requestRepo_Create :: "FriendRequest \<Rightarrow> (friend_db, unit) M" where
  "requestRepo_Create r =
     bindE now (\<lambda>t. bindE (next_serial SeqFriendRequests) (\<lambda>i.
       exec (\<lambda>d. case insert_unique fr_ID (r\<lparr>fr_ID := i,
                fr_Source := or_default 1 (fr_Source r),
                fr_Status := or_default 1 (fr_Status r),
                fr_CreatedAt := t, fr_UpdatedAt := t\<rparr>) (friend_requests d) of
           None \<Rightarrow> Inl (UniqueViolation ''friend_requests_pkey'')
         | Some rows \<Rightarrow> Inr ((), d\<lparr>friend_requests := rows\<rparr>))))"

definition requestRepo_GetByID :: "int \<Rightarrow> (friend_db, FriendRequest) M" where
  "requestRepo_GetByID i = find_one (\<lambda>d. first_where (\<lambda>r. fr_ID r = i) fr_ID (friend_requests d))"

definition requestRepo_GetByUserIDs :: "string \<Rightarrow> string \<Rightarrow> (friend_db, FriendRequest) M" where
  "requestRepo_GetByUserIDs fromUserID toUserID =
     find_one (\<lambda>d. first_where (\<lambda>r. fr_FromUserID r = fromUserID \<and> fr_ToUserID r = toUserID)
       (\<lambda>r. (- fr_CreatedAt r, fr_ID r)) (friend_requests d))"

definition requestRepo_GetPendingRequest :: "string \<Rightarrow> string \<Rightarrow> (friend_db, FriendRequest) M" where
  "requestRepo_GetPendingRequest fromUserID toUserID =
     find_one (\<lambda>d. first_where (\<lambda>r. fr_FromUserID r = fromUserID \<and> fr_ToUserID r = toUserID \<and>
         fr_Status r = FriendRequestStatusPending)
       (\<lambda>r. (- fr_CreatedAt r, fr_ID r)) (friend_requests d))"

definition requestRepo_GetReceivedRequests :: "string \<Rightarrow> (friend_db, FriendRequest list) M" where
  "requestRepo_GetReceivedRequests userID =
     query (\<lambda>d. select_where (\<lambda>r. fr_ToUserID r = userID) (\<lambda>r. - fr_CreatedAt r) (friend_requests d))"

definition requestRepo_GetSentRequests :: "string \<Rightarrow> (friend_db, FriendRequest list) M" where
  "requestRepo_GetSentRequests userID =
     query (\<lambda>d. select_where (\<lambda>r. fr_FromUserID r = userID) (\<lambda>r. - fr_CreatedAt r) (friend_requests d))"

definition requestRepo_UpdateStatus :: "int \<Rightarrow> int \<Rightarrow> (friend_db, unit) M" where
  "requestRepo_UpdateStatus i status =
     bindE now (\<lambda>t. modify (\<lambda>d. d\<lparr>friend_requests := update_where (\<lambda>r. fr_ID r = i)
       (\<lambda>r. r\<lparr>fr_Status := status, fr_UpdatedAt := t\<rparr>) (friend_requests d)\<rparr>))"

subsection \<open>Friendship repository\<close>

definition friendshipRepo_CreateBatch :: "Friendship list \<Rightarrow> (friend_db, unit) M" where
  "friendshipRepo_CreateBatch fs =
     bindE (mapE (\<lambda>f. bindE (next_serial SeqFriendships) (\<lambda>i. returnE (f\<lparr>fs_ID := i\<rparr>))) fs) (\<lambda>fs.
       exec (\<lambda>d. case inserts_unique friendship_key fs (friendships d) of
           None \<Rightarrow> Inl (UniqueViolation ''uk_user_friend'')
         | Some rows \<Rightarrow> Inr ((), d\<lparr>friendships := rows\<rparr>)))"

definition friendshipRepo_GetByUserAndFriend :: "string \<Rightarrow> string \<Rightarrow> (friend_db, Friendship) M" where
  "friendshipRepo_GetByUserAndFriend userID friendID =
     find_one (\<lambda>d. first_where (\<lambda>f. fs_UserID f = userID \<and> fs_FriendID f = friendID \<and>
       fs_Status f = FriendshipStatusNormal) fs_ID (friendships d))"

definition friendshipRepo_GetFriendList :: "string \<Rightarrow> (friend_db, Friendship list) M" where
  "friendshipRepo_GetFriendList userID =
     query (\<lambda>d. select_where (\<lambda>f. fs_UserID f = userID \<and> fs_Status f = FriendshipStatusNormal)
       (\<lambda>f. - fs_UpdatedAt f) (friendships d))"

definition friendshipRepo_GetFriendListByUpdateTime ::
    "string \<Rightarrow> int \<Rightarrow> (friend_db, Friendship list) M" where
  "friendshipRepo_GetFriendListByUpdateTime userID lastUpdateTime =
     query (\<lambda>d. select_where (\<lambda>f. fs_UserID f = userID \<and> fs_UpdatedAt f > lastUpdateTime)
       (\<lambda>f. - fs_UpdatedAt f) (friendships d))"

definition friendshipRepo_UpdateRemark :: "string \<Rightarrow> string \<Rightarrow> string \<Rightarrow> (friend_db, unit) M" where
  "friendshipRepo_UpdateRemark userID friendID remark =
     bindE now (\<lambda>t. modify (\<lambda>d. d\<lparr>friendships := update_where
       (\<lambda>f. fs_UserID f = userID \<and> fs_FriendID f = friendID \<and> fs_Status f = FriendshipStatusNormal)
       (\<lambda>f. f\<lparr>fs_Remark := remark, fs_UpdatedAt := t\<rparr>) (friendships d)\<rparr>))"

definition friendshipRepo_Delete :: "string \<Rightarrow> string \<Rightarrow> (friend_db, unit) M" where
  "friendshipRepo_Delete userID friendID =
     bindE now (\<lambda>t. modify (\<lambda>d. d\<lparr>friendships := update_where
       (\<lambda>f. fs_UserID f = userID \<and> fs_FriendID f = friendID)
       (\<lambda>f. f\<lparr>fs_Status := FriendshipStatusDeleted, fs_UpdatedAt := t\<rparr>) (friendships d)\<rparr>))"

definition friendshipRepo_DeleteBidirectional :: "string \<Rightarrow> string \<Rightarrow> (friend_db, unit) M" where
  "friendshipRepo_DeleteBidirectional userID friendID =
     thenE (friendshipRepo_Delete userID friendID) (friendshipRepo_Delete friendID userID)"

definition friendshipRepo_IsFriend :: "string \<Rightarrow> string \<Rightarrow> (friend_db, bool) M" where
  "friendshipRepo_IsFriend userID friendID =
     query (\<lambda>d. count_where (\<lambda>f. fs_UserID f = userID \<and> fs_FriendID f = friendID \<and>
       fs_Status f = FriendshipStatusNormal) (friendships d) > 0)"

lemmas friend_repo_defs =
  blacklistRepo_Create_def blacklistRepo_GetByUserAndBlocked_def blacklistRepo_Delete_def
  blacklistRepo_IsBlocked_def requestRepo_Create_def requestRepo_GetByID_def
  requestRepo_GetByUserIDs_def requestRepo_GetPendingRequest_def requestRepo_UpdateStatus_def
  friendshipRepo_CreateBatch_def friendshipRepo_UpdateRemark_def friendshipRepo_Delete_def
  friendshipRepo_DeleteBidirectional_def friendshipRepo_IsFriend_def

subsection \<open>Service: notifications and helpers\<close>

definition getUserInfo :: "friend_deps \<Rightarrow> string \<Rightarrow> (friend_db, string \<times> string) M" where
  "getUserInfo deps userID =
     catchE (rpc (\<lambda>n. fd_GetUserInfo deps n userID))
       (\<lambda>e. throwE (Plain (''failed to get user info: '' @ err_string e)))"

definition publishFriendRequestNotification :: "FriendRequest \<Rightarrow> (friend_db, unit) M" where
  "publishFriendRequestNotification req =
     bindE (NewNotification TypeFriendRequest (fr_FromUserID req) PriorityHigh) (\<lambda>notif.
       ignoreE (PublishToUser (fr_ToUserID req) (WithPayload notif
         [(''request_id'', JInt (fr_ID req)), (''from_user_id'', JStr (fr_FromUserID req)),
          (''message'', JStr (fr_Message req)), (''source'', JInt (fr_Source req)),
          (''created_at'', JInt (unix (fr_CreatedAt req)))])))"

definition publishFriendRequestHandledNotification :: "FriendRequest \<Rightarrow> int \<Rightarrow> (friend_db, unit) M" where
  "publishFriendRequestHandledNotification req status =
     bindE now (\<lambda>t.
     bindE (NewNotification TypeFriendRequestHandled (fr_ToUserID req) PriorityNormal) (\<lambda>notif.
       ignoreE (PublishToUser (fr_FromUserID req) (WithPayload notif
         [(''request_id'', JInt (fr_ID req)), (''to_user_id'', JStr (fr_ToUserID req)),
          (''status'', JInt status), (''handled_at'', JInt (unix t))]))))"

definition publishFriendDeletedNotification :: "string \<Rightarrow> string \<Rightarrow> (friend_db, unit) M" where
  "publishFriendDeletedNotification userID friendID =
     bindE now (\<lambda>t.
     bindE (NewNotification TypeFriendDeleted userID PriorityNormal) (\<lambda>notif.
       ignoreE (PublishToUser friendID (WithPayload notif
         [(''friend_user_id'', JStr userID), (''deleted_at'', JInt (unix t))]))))"

definition publishRemarkUpdatedNotification :: "string \<Rightarrow> string \<Rightarrow> string \<Rightarrow> (friend_db, unit) M" where
  "publishRemarkUpdatedNotification userID friendID remark =
     bindE now (\<lambda>t.
     bindE (NewNotification TypeFriendRemarkUpdated userID PriorityLow) (\<lambda>notif.
       ignoreE (PublishToUser userID (WithPayload notif
         [(''friend_user_id'', JStr friendID), (''remark'', JStr remark),
          (''updated_at'', JInt (unix t))]))))"

definition publishBlacklistChangedNotification :: "string \<Rightarrow> string \<Rightarrow> string \<Rightarrow> (friend_db, unit) M" where
  "publishBlacklistChangedNotification userID targetUserID action =
     bindE now (\<lambda>t.
     bindE (NewNotification TypeBlacklistChanged userID PriorityNormal) (\<lambda>notif.
       ignoreE (PublishToUser userID (WithPayload notif
         [(''target_user_id'', JStr targetUserID), (''action'', JStr action),
          (''changed_at'', JInt (unix t))]))))"

definition createFriendConversation :: "friend_deps \<Rightarrow> string \<Rightarrow> string \<Rightarrow> (friend_db, unit) M" where
  "createFriendConversation deps userID friendID =
     (case fd_CreateOrUpdateConversation deps of
        None \<Rightarrow> returnE ()
      | Some client \<Rightarrow>
          thenE (emit (Called ''CreateOrUpdateConversation'' [userID, ''single'', friendID]))
            (ignoreE (rpc client)))"

definition publishFriendAddedNotification :: "string \<Rightarrow> string \<Rightarrow> (friend_db, unit) M" where
  "publishFriendAddedNotification userID addedByUserID =
     bindE now (\<lambda>t.
     bindE (NewNotification TypeFriendAdded userID PriorityNormal) (\<lambda>notif.
       ignoreE (PublishToUser userID (WithPayload notif
         [(''added_by_user_id'', JStr addedByUserID), (''created_at'', JInt (unix t))]))))"

subsection \<open>Service: operations\<close>

definition newFriendship :: "string \<Rightarrow> string \<Rightarrow> int \<Rightarrow> Friendship" where
  "newFriendship userID friendID t =
     \<lparr>fs_ID = 0, fs_UserID = userID, fs_FriendID = friendID, fs_Remark = '''',
      fs_Status = FriendshipStatusNormal, fs_CreatedAt = t, fs_UpdatedAt = t\<rparr>"

definition SendFriendRequest ::
    "friend_deps \<Rightarrow> string \<Rightarrow> string \<Rightarrow> string \<Rightarrow> int \<Rightarrow> (friend_db, unit) M" where
  "SendFriendRequest deps fromUserID toUserID message source =
     bindE (blacklistRepo_IsBlocked fromUserID toUserID) (\<lambda>isBlocked.
     thenE (guardE (\<not> isBlocked) (NewBusiness CodeUserBlocked '''')) (
     bindE (friendshipRepo_IsFriend fromUserID toUserID) (\<lambda>isFriend.
     thenE (guardE (\<not> isFriend) (NewBusiness CodeAlreadyFriend '''')) (
     bindE (optionalE (requestRepo_GetPendingRequest fromUserID toUserID)) (\<lambda>existingReq.
     thenE (guardE (existingReq = None) (NewBusiness CodeRequestExists '''')) (
     bindE (rpc (\<lambda>n. fd_GetSettings deps n toUserID)) (\<lambda>friendVerifyRequired.
     thenE (transaction (bindE now (\<lambda>t.
       thenE (requestRepo_Create
          \<lparr>fr_ID = 0, fr_FromUserID = fromUserID, fr_ToUserID = toUserID, fr_Message = message,
           fr_Source = int16 source,
           fr_Status = (if friendVerifyRequired then FriendRequestStatusPending
                        else FriendRequestStatusAccepted),
           fr_CreatedAt = 0, fr_UpdatedAt = 0\<rparr>)
        (if \<not> friendVerifyRequired then
           friendshipRepo_CreateBatch
             [newFriendship fromUserID toUserID t, newFriendship toUserID fromUserID t]
         else returnE ())))) (
     bindE (requestRepo_GetByUserIDs fromUserID toUserID) (\<lambda>createdReq.
       if \<not> friendVerifyRequired then
         thenE (createFriendConversation deps fromUserID toUserID)
        (thenE (createFriendConversation deps toUserID fromUserID)
        (thenE (publishFriendAddedNotification fromUserID toUserID)
               (publishFriendAddedNotification toUserID fromUserID)))
       else publishFriendRequestNotification createdReq)))))))))"

definition HandleFriendRequest :: "string \<Rightarrow> string \<Rightarrow> int \<Rightarrow> (friend_db, unit) M" where
  "HandleFriendRequest userID reqRequestId reqAction =
     (let requestID = (if reqRequestId \<noteq> '''' then fst (ParseInt reqRequestId) else 0) in
     bindE (notFoundE (requestRepo_GetByID requestID) (NewBusiness CodeRequestNotFound ''''))
       (\<lambda>friendRequest.
     thenE (guardE (fr_ToUserID friendRequest = userID) (NewBusiness CodePermissionDenied '''')) (
     thenE (guardE (FriendRequest_IsPending friendRequest) (NewBusiness CodeRequestProcessed '''')) (
     let action = int16 reqAction in
     thenE (guardE (FriendRequestAction_IsValid action) (NewBusiness CodeParamError ''invalid action'')) (
     if action = FriendRequestActionAccept then
       thenE (transaction (
         thenE (requestRepo_UpdateStatus requestID FriendRequestStatusAccepted) (
         bindE now (\<lambda>t. friendshipRepo_CreateBatch
           [newFriendship userID (fr_FromUserID friendRequest) t,
            newFriendship (fr_FromUserID friendRequest) userID t]))))
        (publishFriendRequestHandledNotification friendRequest FriendRequestStatusAccepted)
     else if action = FriendRequestActionReject then
       thenE (requestRepo_UpdateStatus requestID FriendRequestStatusRejected)
        (publishFriendRequestHandledNotification friendRequest FriendRequestStatusRejected)
     else returnE ())))))"

definition DeleteFriend :: "string \<Rightarrow> string \<Rightarrow> (friend_db, unit) M" where
  "DeleteFriend userID friendID =
     bindE (friendshipRepo_IsFriend userID friendID) (\<lambda>isFriend.
     thenE (guardE isFriend (NewBusiness CodeNotFriend '''')) (
     thenE (transaction (friendshipRepo_DeleteBidirectional userID friendID))
       (publishFriendDeletedNotification userID friendID)))"

definition UpdateRemark :: "string \<Rightarrow> string \<Rightarrow> string \<Rightarrow> (friend_db, unit) M" where
  "UpdateRemark userID friendID remark =
     bindE (friendshipRepo_IsFriend userID friendID) (\<lambda>isFriend.
     thenE (guardE isFriend (NewBusiness CodeNotFriend '''')) (
     thenE (friendshipRepo_UpdateRemark userID friendID remark)
       (publishRemarkUpdatedNotification userID friendID remark)))"

definition AddToBlacklist :: "string \<Rightarrow> string \<Rightarrow> (friend_db, unit) M" where
  "AddToBlacklist userID blockedUserID =
     bindE (transaction (
       bindE (optionalE (blacklistRepo_GetByUserAndBlocked userID blockedUserID)) (\<lambda>existing.
       thenE (guardE (existing = None) (NewBusiness CodeAlreadyInBlacklist '''')) (
       thenE (blacklistRepo_Create \<lparr>bl_ID = 0, bl_UserID = userID,
                bl_BlockedUserID = blockedUserID, bl_CreatedAt = 0\<rparr>) (
       bindE (friendshipRepo_IsFriend userID blockedUserID) (\<lambda>isFriend.
       if isFriend then thenE (friendshipRepo_DeleteBidirectional userID blockedUserID) (returnE True)
       else returnE False)))))) (\<lambda>removedFriend.
     thenE (publishBlacklistChangedNotification userID blockedUserID ''add'')
       (if removedFriend then publishFriendDeletedNotification userID blockedUserID else returnE ()))"

definition RemoveFromBlacklist :: "string \<Rightarrow> string \<Rightarrow> (friend_db, unit) M" where
  "RemoveFromBlacklist userID blockedUserID =
     bindE (notFoundE (blacklistRepo_GetByUserAndBlocked userID blockedUserID)
              (NewBusiness CodeNotInBlacklist ''''))
       (\<lambda>existing.
     thenE (blacklistRepo_Delete userID blockedUserID)
       (publishBlacklistChangedNotification userID blockedUserID ''remove''))"

record FriendInfo =
  fi_UserId :: string
  fi_Remark :: string
  fi_Nickname :: string
  fi_Avatar :: string

definition GetFriendList :: "friend_deps \<Rightarrow> string \<Rightarrow> (friend_db, FriendInfo list) M" where
  "GetFriendList deps userID =
     bindE (friendshipRepo_GetFriendList userID) (mapE (\<lambda>f.
       bindE (attemptE (getUserInfo deps (fs_FriendID f))) (\<lambda>userInfo. returnE
         (let friend = \<lparr>fi_UserId = fs_FriendID f, fi_Remark = fs_Remark f, fi_Nickname = '''',
                        fi_Avatar = ''''\<rparr> in
          case userInfo of None \<Rightarrow> friend
          | Some (nickname, avatar) \<Rightarrow> friend\<lparr>fi_Nickname := nickname, fi_Avatar := avatar\<rparr>))))"

record FriendRequestInfo =
  fri_Id :: string
  fri_FromUserId :: string
  fri_ToUserId :: string
  fri_Message :: string
  fri_Status :: int
  fri_CreatedAt :: int
  fri_UpdatedAt :: int
  fri_FromNickname :: string
  fri_FromAvatar :: string

definition GetFriendRequests :: "friend_deps \<Rightarrow> string \<Rightarrow> int \<Rightarrow> (friend_db, FriendRequestInfo list) M" where
  "GetFriendRequests deps userID requestType =
     bindE (if requestType = FriendRequestQueryTypeSent then requestRepo_GetSentRequests userID
            else requestRepo_GetReceivedRequests userID) (mapE (\<lambda>r.
       bindE (attemptE (getUserInfo deps (fr_FromUserID r))) (\<lambda>userInfo. returnE
         (let fr = \<lparr>fri_Id = itoa (fr_ID r), fri_FromUserId = fr_FromUserID r,
                    fri_ToUserId = fr_ToUserID r, fri_Message = fr_Message r,
                    fri_Status = fr_Status r, fri_CreatedAt = fr_CreatedAt r,
                    fri_UpdatedAt = fr_UpdatedAt r, fri_FromNickname = '''', fri_FromAvatar = ''''\<rparr> in
          case userInfo of None \<Rightarrow> fr
          | Some (nickname, avatar) \<Rightarrow> fr\<lparr>fri_FromNickname := nickname, fri_FromAvatar := avatar\<rparr>))))"

definition GetBlacklist :: "friend_deps \<Rightarrow> string \<Rightarrow> (friend_db, FriendInfo list) M" where
  "GetBlacklist deps userID =
     bindE (blacklistRepo_GetBlacklist userID) (mapE (\<lambda>b.
       bindE (attemptE (getUserInfo deps (bl_BlockedUserID b))) (\<lambda>userInfo. returnE
         (let item = \<lparr>fi_UserId = bl_BlockedUserID b, fi_Remark = '''', fi_Nickname = '''',
                      fi_Avatar = ''''\<rparr> in
          case userInfo of None \<Rightarrow> item
          | Some (nickname, avatar) \<Rightarrow> item\<lparr>fi_Nickname := nickname, fi_Avatar := avatar\<rparr>))))"

definition IsFriend :: "string \<Rightarrow> string \<Rightarrow> (friend_db, bool) M" where
  "IsFriend userID friendID = friendshipRepo_IsFriend userID friendID"

definition IsBlocked :: "string \<Rightarrow> string \<Rightarrow> (friend_db, bool) M" where
  "IsBlocked userID targetUserID = blacklistRepo_IsBlocked userID targetUserID"

text \<open>The result map is built by assignments, so the last check of an identifier wins.\<close>

fun batchCheck :: "string \<Rightarrow> string list \<Rightarrow> (string \<times> bool) list \<Rightarrow> (friend_db, (string \<times> bool) list) M" where
  "batchCheck userID [] results = returnE results"
| "batchCheck userID (friendID # rest) results =
     bindE (attemptE (friendshipRepo_IsFriend userID friendID)) (\<lambda>r.
       batchCheck userID rest (AList.update friendID (case r of None \<Rightarrow> False | Some b \<Rightarrow> b) results))"

definition BatchCheckFriend :: "string \<Rightarrow> string list \<Rightarrow> (friend_db, (string \<times> bool) list) M" where
  "BatchCheckFriend userID friendIDs = batchCheck userID friendIDs []"

subsection \<open>Handlers\<close>

definition FriendHandler_SendFriendRequest ::
    "friend_deps \<Rightarrow> ctx \<Rightarrow> string \<Rightarrow> string \<Rightarrow> int \<Rightarrow> (friend_db, unit) M" where
  "FriendHandler_SendFriendRequest deps ctx toUserId message source =
     bindE (MustGetUserID ctx) (\<lambda>userID.
     if toUserId = '''' then badRequestE ''to_user_id is required''
     else if userID = toUserId then badRequestE ''cannot add yourself as a friend''
     else if \<not> FriendRequestSource_IsValid (int16 source) then badRequestE ''invalid source''
     else convertE (SendFriendRequest deps userID toUserId message source))"

definition FriendHandler_HandleFriendRequest :: "ctx \<Rightarrow> string \<Rightarrow> int \<Rightarrow> (friend_db, unit) M" where
  "FriendHandler_HandleFriendRequest ctx requestId action =
     bindE (MustGetUserID ctx) (\<lambda>userID.
     if \<not> FriendRequestAction_IsValid (int16 action) then badRequestE ''invalid action''
     else convertE (HandleFriendRequest userID requestId action))"

definition FriendHandler_GetFriendList :: "friend_deps \<Rightarrow> ctx \<Rightarrow> (friend_db, FriendInfo list) M" where
  "FriendHandler_GetFriendList deps ctx =
     bindE (MustGetUserID ctx) (\<lambda>userID. convertE (GetFriendList deps userID))"

definition FriendHandler_GetFriendRequests ::
    "friend_deps \<Rightarrow> ctx \<Rightarrow> int \<Rightarrow> (friend_db, FriendRequestInfo list) M" where
  "FriendHandler_GetFriendRequests deps ctx requestType =
     bindE (MustGetUserID ctx) (\<lambda>userID.
     let queryType = int16 requestType;
         queryType = (if queryType = FriendRequestQueryTypeUnknown
                      then FriendRequestQueryTypeReceived else queryType) in
     if \<not> FriendRequestQueryType_IsValid queryType then badRequestE ''invalid request_type''
     else convertE (GetFriendRequests deps userID queryType))"

definition FriendHandler_DeleteFriend :: "ctx \<Rightarrow> string \<Rightarrow> (friend_db, unit) M" where
  "FriendHandler_DeleteFriend ctx friendId =
     bindE (MustGetUserID ctx) (\<lambda>userID.
     if friendId = '''' then badRequestE ''friend_id is required''
     else convertE (DeleteFriend userID friendId))"

definition FriendHandler_UpdateRemark :: "ctx \<Rightarrow> string \<Rightarrow> string \<Rightarrow> (friend_db, unit) M" where
  "FriendHandler_UpdateRemark ctx friendId remark =
     bindE (MustGetUserID ctx) (\<lambda>userID.
     if friendId = '''' then badRequestE ''friend_id is required''
     else convertE (UpdateRemark userID friendId remark))"

definition FriendHandler_AddToBlacklist :: "ctx \<Rightarrow> string \<Rightarrow> (friend_db, unit) M" where
  "FriendHandler_AddToBlacklist ctx blockedUserId =
     bindE (MustGetUserID ctx) (\<lambda>userID.
     if blockedUserId = '''' then badRequestE ''blocked_user_id is required''
     else if userID = blockedUserId then badRequestE ''cannot block yourself''
     else convertE (AddToBlacklist userID blockedUserId))"

definition FriendHandler_RemoveFromBlacklist :: "ctx \<Rightarrow> string \<Rightarrow> (friend_db, unit) M" where
  "FriendHandler_RemoveFromBlacklist ctx blockedUserId =
     bindE (MustGetUserID ctx) (\<lambda>userID.
     if blockedUserId = '''' then badRequestE ''blocked_user_id is required''
     else convertE (RemoveFromBlacklist userID blockedUserId))"

definition FriendHandler_GetBlacklist :: "friend_deps \<Rightarrow> ctx \<Rightarrow> (friend_db, FriendInfo list) M" where
  "FriendHandler_GetBlacklist deps ctx =
     bindE (MustGetUserID ctx) (\<lambda>userID. convertE (GetBlacklist deps userID))"

definition FriendHandler_IsFriend :: "string \<Rightarrow> string \<Rightarrow> (friend_db, bool) M" where
  "FriendHandler_IsFriend userId targetUserId = convertE (IsFriend userId targetUserId)"

definition FriendHandler_IsBlocked :: "string \<Rightarrow> string \<Rightarrow> (friend_db, bool) M" where
  "FriendHandler_IsBlocked userId targetUserId = convertE (IsBlocked userId targetUserId)"

definition FriendHandler_BatchCheckFriend :: "string \<Rightarrow> string list \<Rightarrow> (friend_db, (string \<times> bool) list) M" where
  "FriendHandler_BatchCheckFriend userId targetUserIds = convertE (BatchCheckFriend userId targetUserIds)"

end
