(* ===== verification/Friend.thy ===== *)
theory Friend
  imports Friend_Model
begin

text \<open>
  Correctness of the friend service.  The invariant says that friendship is symmetric and
  irreflexive, that the unique keys hold and that every request has one of the three statuses the
  code writes.  It is kept by every operation for every clock and every schedule of infrastructure
  faults, hence holds in every reachable state.  The theorems after it give the functional behaviour
  of the operations on their success and error branches.
\<close>

subsection \<open>Abstract relations and the invariant\<close>

definition friends_in :: "friend_db \<Rightarrow> string \<Rightarrow> string \<Rightarrow> bool" where
  "friends_in d u v = (\<exists>f \<in> set (friendships d). fs_UserID f = u \<and> fs_FriendID f = v \<and>
     fs_Status f = FriendshipStatusNormal)"

definition blocked_in :: "friend_db \<Rightarrow> string \<Rightarrow> string \<Rightarrow> bool" where
  "blocked_in d u v = (\<exists>b \<in> set (blacklists d). bl_UserID b = u \<and> bl_BlockedUserID b = v)"

definition linked_in :: "friend_db \<Rightarrow> string \<Rightarrow> string \<Rightarrow> bool" where
  "linked_in d u v = ((u, v) \<in> friendship_key ` set (friendships d))"

definition pending_in :: "friend_db \<Rightarrow> string \<Rightarrow> string \<Rightarrow> bool" where
  "pending_in d u v = (\<exists>r \<in> set (friend_requests d). fr_FromUserID r = u \<and> fr_ToUserID r = v \<and>
     fr_Status r = FriendRequestStatusPending)"

definition friend_inv :: "friend_db \<Rightarrow> bool" where
  "friend_inv d = (uniq friendship_key (friendships d) \<and> uniq blacklist_key (blacklists d) \<and>
     uniq fr_ID (friend_requests d) \<and>
     (\<forall>u v. friends_in d u v \<longrightarrow> friends_in d v u) \<and> (\<forall>u. \<not> friends_in d u u) \<and>
     (\<forall>r \<in> set (friend_requests d). fr_Status r \<in>
        {FriendRequestStatusPending, FriendRequestStatusAccepted, FriendRequestStatusRejected}))"

datatype friend_op =
    OpSendFriendRequest string string string int
  | OpHandleFriendRequest string string int
  | OpDeleteFriend string string
  | OpUpdateRemark string string string
  | OpAddToBlacklist string string
  | OpRemoveFromBlacklist string string

fun friend_step :: "friend_deps \<Rightarrow> friend_op \<Rightarrow> (friend_db, unit) M" where
  "friend_step deps (OpSendFriendRequest u v m s) = SendFriendRequest deps u v m s"
| "friend_step deps (OpHandleFriendRequest u i a) = HandleFriendRequest u i a"
| "friend_step deps (OpDeleteFriend u v) = DeleteFriend u v"
| "friend_step deps (OpUpdateRemark u v r) = UpdateRemark u v r"
| "friend_step deps (OpAddToBlacklist u v) = AddToBlacklist u v"
| "friend_step deps (OpRemoveFromBlacklist u v) = RemoveFromBlacklist u v"

lemma friends_count: "count_where (\<lambda>f. fs_UserID f = u \<and> fs_FriendID f = v \<and>
    fs_Status f = FriendshipStatusNormal) (friendships d) > 0 \<longleftrightarrow> friends_in d u v"
  by (auto simp: count_where_pos friends_in_def)

lemma blocked_count: "count_where (\<lambda>b. (bl_UserID b = u \<and> bl_BlockedUserID b = v) \<or>
    (bl_UserID b = v \<and> bl_BlockedUserID b = u)) (blacklists d) > 0 \<longleftrightarrow> blocked_in d u v \<or> blocked_in d v u"
  by (auto simp: count_where_pos blocked_in_def)

lemma keeps_friend_publish [keeps_intros]:
  "keeps I (publishFriendRequestNotification r)"
  "keeps I (publishFriendRequestHandledNotification r s)"
  "keeps I (publishFriendDeletedNotification u v)"
  "keeps I (publishRemarkUpdatedNotification u v m)"
  "keeps I (publishBlacklistChangedNotification u v a)"
  "keeps I (publishFriendAddedNotification u v)"
  "keeps I (createFriendConversation deps u v)"
  by (simp_all add: publishFriendRequestNotification_def publishFriendRequestHandledNotification_def
      publishFriendDeletedNotification_def publishRemarkUpdatedNotification_def
      publishBlacklistChangedNotification_def publishFriendAddedNotification_def
      createFriendConversation_def keeps_intros)

lemma keeps_friend_reads [keeps_intros]:
  "keeps I (blacklistRepo_IsBlocked u v)" "keeps I (friendshipRepo_IsFriend u v)"
  "keeps I (requestRepo_GetPendingRequest u v)" "keeps I (requestRepo_GetByUserIDs u v)"
  "keeps I (requestRepo_GetByID i)" "keeps I (blacklistRepo_GetByUserAndBlocked u v)"
  by (simp_all add: friend_repo_defs keeps_intros)

subsection \<open>Effect of the writes on the relations\<close>

lemma uniq_friend_updates:
  "uniq friendship_key (update_where p (\<lambda>f. f\<lparr>fs_Status := s, fs_UpdatedAt := t\<rparr>) rows) = uniq friendship_key rows"
  "uniq friendship_key (update_where p (\<lambda>f. f\<lparr>fs_Remark := m, fs_UpdatedAt := t\<rparr>) rows) = uniq friendship_key rows"
  "uniq fr_ID (update_where q (\<lambda>r. r\<lparr>fr_Status := s, fr_UpdatedAt := t\<rparr>) rs) = uniq fr_ID rs"
  by (simp_all add: uniq_update_where friendship_key_def)

lemma friends_in_delete:
  "friends_in (d\<lparr>friendships := update_where (\<lambda>f. fs_UserID f = u \<and> fs_FriendID f = v)
      (\<lambda>f. f\<lparr>fs_Status := FriendshipStatusDeleted, fs_UpdatedAt := t\<rparr>) (friendships d)\<rparr>) x y
   \<longleftrightarrow> friends_in d x y \<and> (x, y) \<noteq> (u, v)"
  by (auto simp: friends_in_def bex_update_where)

lemma friends_in_delete_both:
  "friends_in (d\<lparr>friendships := update_where (\<lambda>f. fs_UserID f = v \<and> fs_FriendID f = u)
      (\<lambda>f. f\<lparr>fs_Status := FriendshipStatusDeleted, fs_UpdatedAt := t'\<rparr>)
     (update_where (\<lambda>f. fs_UserID f = u \<and> fs_FriendID f = v)
      (\<lambda>f. f\<lparr>fs_Status := FriendshipStatusDeleted, fs_UpdatedAt := t\<rparr>) (friendships d))\<rparr>) x y
   \<longleftrightarrow> friends_in d x y \<and> (x, y) \<noteq> (u, v) \<and> (x, y) \<noteq> (v, u)"
  "friends_in (d\<lparr>blacklists := b, friendships := update_where (\<lambda>f. fs_UserID f = v \<and> fs_FriendID f = u)
      (\<lambda>f. f\<lparr>fs_Status := FriendshipStatusDeleted, fs_UpdatedAt := t'\<rparr>)
     (update_where (\<lambda>f. fs_UserID f = u \<and> fs_FriendID f = v)
      (\<lambda>f. f\<lparr>fs_Status := FriendshipStatusDeleted, fs_UpdatedAt := t\<rparr>) (friendships d))\<rparr>) x y
   \<longleftrightarrow> friends_in d x y \<and> (x, y) \<noteq> (u, v) \<and> (x, y) \<noteq> (v, u)"
  by (auto simp: friends_in_def bex_update_where)

lemma friends_in_remark:
  "friends_in (d\<lparr>friendships := update_where p
      (\<lambda>f. f\<lparr>fs_Remark := m, fs_UpdatedAt := t\<rparr>) (friendships d)\<rparr>) x y \<longleftrightarrow> friends_in d x y"
  by (auto simp: friends_in_def bex_update_where)

lemma friends_in_other [simp]:
  "friends_in (d\<lparr>friend_requests := rs\<rparr>) = friends_in d"
  "friends_in (d\<lparr>blacklists := bs\<rparr>) = friends_in d"
  by (simp_all add: friends_in_def fun_eq_iff)

lemma blocked_in_other [simp]:
  "blocked_in (d\<lparr>friend_requests := rs\<rparr>) = blocked_in d"
  "blocked_in (d\<lparr>friendships := fs\<rparr>) = blocked_in d"
  by (simp_all add: blocked_in_def fun_eq_iff)

text \<open>The batch insert of a symmetric pair.\<close>

definition pair_rows :: "string \<Rightarrow> string \<Rightarrow> int \<Rightarrow> int \<Rightarrow> int \<Rightarrow> Friendship list" where
  "pair_rows u v t i j = [(newFriendship u v t)\<lparr>fs_ID := i\<rparr>, (newFriendship v u t)\<lparr>fs_ID := j\<rparr>]"

lemma wp_CreateBatch_pair:
  "wp (friendshipRepo_CreateBatch [newFriendship u v t, newFriendship v u t]) Q E w =
     (let i = serial w SeqFriendships + 1; rows = pair_rows u v t i (i + 1);
          w1 = w\<lparr>serial := (serial w)(SeqFriendships := i + 1)\<rparr> in
      case fault w (tick w) of Some s \<Rightarrow> E (InfraError s) (bump w1)
      | None \<Rightarrow> if u \<noteq> v \<and> \<not> linked_in (db w) u v \<and> \<not> linked_in (db w) v u
          then Q () ((bump w1)\<lparr>db := (db w)\<lparr>friendships := friendships (db w) @ rows\<rparr>\<rparr>)
          else E (UniqueViolation ''uk_user_friend'') (bump w1))"
proof -
  let ?k = friendship_key
  have keys: "?k ((newFriendship a b t)\<lparr>fs_ID := i\<rparr>) = (a, b)" for a b i
    by (simp add: friendship_key_def newFriendship_def)
  have ins: "inserts_unique ?k (pair_rows u v t i j) rows =
      (if u \<noteq> v \<and> (u, v) \<notin> ?k ` set rows \<and> (v, u) \<notin> ?k ` set rows then Some (rows @ pair_rows u v t i j)
       else None)" for i j rows
    by (auto simp: pair_rows_def keys insert_unique_def has_key_iff)
  show ?thesis
    unfolding friendshipRepo_CreateBatch_def
    by (simp add: wp_simps linked_in_def Let_def ins[unfolded pair_rows_def] pair_rows_def
        del: inserts_unique.simps split: option.split)
qed

lemma friends_in_pair:
  "friends_in (d\<lparr>friendships := friendships d @ pair_rows u v t i j\<rparr>) x y \<longleftrightarrow>
     friends_in d x y \<or> (x, y) = (u, v) \<or> (x, y) = (v, u)"
  by (auto simp: friends_in_def pair_rows_def newFriendship_def)

lemma uniq_pair:
  assumes "uniq friendship_key (friendships d)" "u \<noteq> v" "\<not> linked_in d u v" "\<not> linked_in d v u"
  shows "uniq friendship_key (friendships d @ pair_rows u v t i j)"
proof -
  have "set (map friendship_key (pair_rows u v t i j)) = {(u, v), (v, u)}"
    by (auto simp: pair_rows_def friendship_key_def newFriendship_def)
  moreover have "distinct (map friendship_key (pair_rows u v t i j))"
    using assms(2) by (simp add: pair_rows_def friendship_key_def newFriendship_def)
  ultimately show ?thesis using assms by (auto simp: uniq_def linked_in_def)
qed

lemma friend_inv_pair:
  assumes "friend_inv d" "u \<noteq> v" "\<not> linked_in d u v" "\<not> linked_in d v u"
  shows "friend_inv (d\<lparr>friendships := friendships d @ pair_rows u v t i j\<rparr>)"
  using assms uniq_pair[of d u v t i j] unfolding friend_inv_def friends_in_pair by auto

lemma friend_inv_delete_both:
  assumes "friend_inv d"
  shows "friend_inv (d\<lparr>friendships := update_where (\<lambda>f. fs_UserID f = v \<and> fs_FriendID f = u)
      (\<lambda>f. f\<lparr>fs_Status := FriendshipStatusDeleted, fs_UpdatedAt := t'\<rparr>)
     (update_where (\<lambda>f. fs_UserID f = u \<and> fs_FriendID f = v)
      (\<lambda>f. f\<lparr>fs_Status := FriendshipStatusDeleted, fs_UpdatedAt := t\<rparr>) (friendships d))\<rparr>)"
proof -
  let ?d1 = "d\<lparr>friendships := update_where (\<lambda>f. fs_UserID f = u \<and> fs_FriendID f = v)
      (\<lambda>f. f\<lparr>fs_Status := FriendshipStatusDeleted, fs_UpdatedAt := t\<rparr>) (friendships d)\<rparr>"
  show ?thesis
    using assms friends_in_delete[where d = ?d1 and u = v and v = u and t = t']
      friends_in_delete[where d = d and u = u and v = v and t = t]
    by (auto simp: friend_inv_def uniq_friend_updates)
qed

lemma friend_inv_status:
  assumes "friend_inv d" "s \<in> {FriendRequestStatusPending, FriendRequestStatusAccepted, FriendRequestStatusRejected}"
  shows "friend_inv (d\<lparr>friend_requests := update_where p (\<lambda>r. r\<lparr>fr_Status := s, fr_UpdatedAt := t\<rparr>) (friend_requests d)\<rparr>)"
  using assms by (auto simp: friend_inv_def uniq_friend_updates set_update_where)

lemma friend_inv_new_request:
  assumes "friend_inv d" "insert_unique fr_ID r (friend_requests d) = Some rows"
    "fr_Status r \<in> {FriendRequestStatusPending, FriendRequestStatusAccepted}"
  shows "friend_inv (d\<lparr>friend_requests := rows\<rparr>)"
  using assms insert_unique_uniq[OF assms(2)] by (auto simp: friend_inv_def insert_unique_Some)

lemma friend_inv_block:
  assumes "friend_inv d" "insert_unique blacklist_key b (blacklists d) = Some rows"
  shows "friend_inv (d\<lparr>blacklists := rows\<rparr>)"
  using assms insert_unique_uniq[OF assms(2)] by (auto simp: friend_inv_def)

lemma friend_inv_block_delete:
  assumes "friend_inv d" "insert_unique blacklist_key b (blacklists d) = Some rows"
  shows "friend_inv (d\<lparr>blacklists := rows, friendships :=
     update_where (\<lambda>f. fs_UserID f = v \<and> fs_FriendID f = u)
      (\<lambda>f. f\<lparr>fs_Status := FriendshipStatusDeleted, fs_UpdatedAt := t'\<rparr>)
     (update_where (\<lambda>f. fs_UserID f = u \<and> fs_FriendID f = v)
      (\<lambda>f. f\<lparr>fs_Status := FriendshipStatusDeleted, fs_UpdatedAt := t\<rparr>) (friendships d))\<rparr>)"
  using friend_inv_delete_both[OF friend_inv_block[OF assms], of v u t' t] by simp

lemma friend_inv_unblock: "friend_inv d \<Longrightarrow> friend_inv (d\<lparr>blacklists := delete_where p (blacklists d)\<rparr>)"
  by (auto simp: friend_inv_def uniq_delete_where)

lemma friend_inv_remark:
  assumes "friend_inv d"
  shows "friend_inv (d\<lparr>friendships := update_where p (\<lambda>f. f\<lparr>fs_Remark := m, fs_UpdatedAt := t\<rparr>) (friendships d)\<rparr>)"
  using assms friends_in_remark[where d = d and p = p and m = m and t = t] by (simp add: friend_inv_def uniq_friend_updates)

subsection \<open>Every operation keeps the invariant\<close>

lemma keeps_requestRepo_UpdateStatus:
  "s \<in> {FriendRequestStatusPending, FriendRequestStatusAccepted, FriendRequestStatusRejected} \<Longrightarrow>
     keeps friend_inv (requestRepo_UpdateStatus i s)"
  by (auto simp: requestRepo_UpdateStatus_def intro!: keeps_intros keeps_modify friend_inv_status)

lemma keeps_requestRepo_Create:
  "fr_Status r \<in> {FriendRequestStatusPending, FriendRequestStatusAccepted} \<Longrightarrow>
     keeps friend_inv (requestRepo_Create r)"
  unfolding requestRepo_Create_def
  by (intro keeps_intros keeps_exec) (auto split: option.splits elim!: friend_inv_new_request)

lemma keeps_CreateBatch_pair:
  "keeps friend_inv (friendshipRepo_CreateBatch [newFriendship u v t, newFriendship v u t])"
  by (rule keepsI) (auto simp: wp_CreateBatch_pair Let_def friend_inv_pair split: option.splits)

lemma keeps_DeleteBidirectional_tx:
  "friend_inv (db w) \<Longrightarrow>
     wp (friendshipRepo_DeleteBidirectional u v) (\<lambda>_ w'. friend_inv (db w')) (\<lambda>_ _. True) w"
  by (simp add: friend_repo_defs wp_simps friend_inv_delete_both split: option.splits)

lemma keeps_SendFriendRequest: "keeps friend_inv (SendFriendRequest deps u v m s)"
  unfolding SendFriendRequest_def
  by (intro keeps_intros keeps_transaction_body keeps_CreateBatch_pair keeps_requestRepo_Create) auto

lemma keeps_HandleFriendRequest: "keeps friend_inv (HandleFriendRequest u i a)"
  unfolding HandleFriendRequest_def Let_def
  by (intro keeps_intros keeps_transaction_body keeps_CreateBatch_pair keeps_requestRepo_UpdateStatus) auto

lemma keeps_DeleteFriend: "keeps friend_inv (DeleteFriend u v)"
  unfolding DeleteFriend_def
  by (intro keeps_intros keeps_transaction keeps_DeleteBidirectional_tx)

lemma keeps_UpdateRemark: "keeps friend_inv (UpdateRemark u v m)"
  unfolding UpdateRemark_def friendshipRepo_UpdateRemark_def
  by (intro keeps_intros keeps_modify friend_inv_remark)

lemma keeps_blacklistRepo_Create: "keeps friend_inv (blacklistRepo_Create b)"
  unfolding blacklistRepo_Create_def
  by (intro keeps_intros keeps_exec) (auto split: option.splits elim!: friend_inv_block)

lemma keeps_AddToBlacklist: "keeps friend_inv (AddToBlacklist u v)"
  unfolding AddToBlacklist_def optionalE_def
  by (intro keeps_intros keeps_transaction)
     (auto simp: friend_repo_defs wp_simps split: option.splits err.splits
       intro: friend_inv_block_delete friend_inv_block)

lemma keeps_RemoveFromBlacklist: "keeps friend_inv (RemoveFromBlacklist u v)"
  unfolding RemoveFromBlacklist_def blacklistRepo_Delete_def
  by (intro keeps_intros keeps_modify friend_inv_unblock)

lemma friend_step_keeps: "keeps friend_inv (friend_step deps op)"
  by (cases op) (simp_all add: keeps_SendFriendRequest keeps_HandleFriendRequest keeps_DeleteFriend
      keeps_UpdateRemark keeps_AddToBlacklist keeps_RemoveFromBlacklist)

lemma friend_inv_empty: "friend_inv empty_friend_db"
  by (simp add: friend_inv_def empty_friend_db_def friends_in_def)

interpretation friend_service: service "friend_step deps" any_op friend_inv empty_friend_db for deps
  by unfold_locales (rule friend_inv_empty, rule friend_step_keeps)

interpretation blacklist_table: keyed_table blacklist_key "insert_unique blacklist_key"
    "\<lambda>k. first_where (\<lambda>b. blacklist_key b = k) bl_ID"
  by (rule keyed_table_insert_unique)

subsection \<open>Symmetry\<close>

lemma quiet_friend_publish [quiet_intros]:
  "quiet (publishFriendRequestNotification r)"
  "quiet (publishFriendRequestHandledNotification r s)"
  "quiet (publishFriendDeletedNotification u v)"
  "quiet (publishRemarkUpdatedNotification u v m)"
  "quiet (publishBlacklistChangedNotification u v a)"
  "quiet (publishFriendAddedNotification u v)"
  "quiet (createFriendConversation deps u v)"
  by (simp_all add: publishFriendRequestNotification_def publishFriendRequestHandledNotification_def
      publishFriendDeletedNotification_def publishRemarkUpdatedNotification_def
      publishBlacklistChangedNotification_def publishFriendAddedNotification_def
      createFriendConversation_def quiet_intros quiet_ignore benign_rpc)

text \<open>C1: in every state the friend service can reach, with any sequence of operations, any
  answers of the user and conversation services and any schedule of infrastructure faults,
  friendship is symmetric and nobody is their own friend.\<close>

theorem friendship_symmetric:
  assumes "reachable (friend_step deps) any_op empty_friend_db d"
  shows "friends_in d u v = friends_in d v u \<and> \<not> friends_in d u u"
  using friend_service.reachable_inv[OF assms] by (auto simp: friend_inv_def)

definition deps_verify :: friend_deps where
  "deps_verify = \<lparr>fd_GetSettings = (\<lambda>_ _. Inr True),
     fd_GetUserInfo = (\<lambda>_ u. Inr (u, ''avatar'')),
     fd_CreateOrUpdateConversation = Some (\<lambda>_. Inr ())\<rparr>"

definition deps_auto :: friend_deps where
  "deps_auto = deps_verify\<lparr>fd_GetSettings := (\<lambda>_ _. Inr False)\<rparr>"

definition alice_bob_ops :: "friend_op list" where
  "alice_bob_ops = [OpSendFriendRequest ''alice'' ''bob'' ''hi'' 1, OpHandleFriendRequest ''bob'' ''1'' 1]"

definition alice_bob_db :: friend_db where
  "alice_bob_db = db (run_ops (friend_step deps_verify) alice_bob_ops (init_world empty_friend_db))"

lemma alice_bob_reachable: "reachable (friend_step deps_verify) any_op empty_friend_db alice_bob_db"
  unfolding alice_bob_db_def
  by (rule run_ops_reachable) (simp_all add: reach_init any_op_def alice_bob_ops_def)

lemma alice_bob_friends: "friends_in alice_bob_db ''alice'' ''bob''"
  by code_simp

theorem friendship_symmetric_witness:
  "friends_in alice_bob_db ''alice'' ''bob'' \<and> friends_in alice_bob_db ''bob'' ''alice''"
  using friendship_symmetric[OF alice_bob_reachable, of "''alice''" "''bob''"] alice_bob_friends
  by blast

subsection \<open>Requests\<close>

text \<open>A friend request between two users of whom one has blocked the other, in either
  direction, is refused for every fault schedule: the call returns an error, no row is written and
  nothing is published; without faults the error is "user blocked".\<close>

theorem SendFriendRequest_blocked:
  assumes "blocked_in (db w) u v \<or> blocked_in (db w) v u"
  shows "case SendFriendRequest deps u v m s w of
      (Inr _, w') \<Rightarrow> False
    | (Inl e, w') \<Rightarrow> db w' = db w \<and> outbox w' = outbox w \<and>
        (healthy w \<longrightarrow> e = NewBusiness CodeUserBlocked '''')"
proof -
  have "count_where (\<lambda>b. bl_UserID b = u \<and> bl_BlockedUserID b = v \<or>
      bl_UserID b = v \<and> bl_BlockedUserID b = u) (blacklists (db w)) > 0"
    using assms blocked_count by auto
  then show ?thesis
    unfolding SendFriendRequest_def blacklistRepo_IsBlocked_def
    by (auto simp: bindE_def thenE_def query_def infra_def guardE_def throwE_def healthy_def
        split: option.splits)
qed

definition blocked_db :: friend_db where
  "blocked_db = empty_friend_db\<lparr>blacklists := [\<lparr>bl_ID = 1, bl_UserID = ''bob'',
     bl_BlockedUserID = ''alice'', bl_CreatedAt = 0\<rparr>]\<rparr>"

theorem SendFriendRequest_blocked_witness:
  "db (snd (SendFriendRequest deps_auto ''alice'' ''bob'' ''hi'' 1 (init_world blocked_db))) = blocked_db"
proof -
  have "blocked_in (db (init_world blocked_db)) ''bob'' ''alice''"
    by (simp add: blocked_in_def blocked_db_def)
  then show ?thesis
    using SendFriendRequest_blocked[of "init_world blocked_db" "''alice''" "''bob''" deps_auto "''hi''" 1]
    by (auto split: prod.splits sum.splits)
qed

text \<open>A request to a user who asks for verification writes exactly one pending row with the
  caller's message and source, and publishes exactly one notification about that row to the
  recipient.\<close>

theorem SendFriendRequest_pending:
  assumes "healthy w" "\<not> blocked_in (db w) u v" "\<not> blocked_in (db w) v u"
    and "\<not> friends_in (db w) u v" "\<not> pending_in (db w) u v"
    and "\<And>n. fd_GetSettings deps n v = Inr True"
    and "serial w SeqFriendRequests + 1 \<notin> fr_ID ` set (friend_requests (db w))"
    and "\<And>r n. r \<in> set (friend_requests (db w)) \<Longrightarrow> fr_CreatedAt r < clock w n"
  shows "case SendFriendRequest deps u v m s w of
      (Inl e, w') \<Rightarrow> False
    | (Inr _, w') \<Rightarrow> \<exists>r n. db w' = (db w)\<lparr>friend_requests := friend_requests (db w) @ [r]\<rparr> \<and>
        fr_FromUserID r = u \<and> fr_ToUserID r = v \<and> fr_Message r = m \<and>
        fr_Source r = or_default 1 (int16 s) \<and> FriendRequest_IsPending r \<and>
        outbox w' = outbox w @ [Published (BuildUserNotificationTopic TypeFriendRequest v) n] \<and>
        n_ToUserID n = v \<and> n_FromUserID n = u \<and>
        map_of (n_Payload n) ''request_id'' = Some (JInt (fr_ID r))"
proof -
  let ?i = "serial w SeqFriendRequests + 1"
  let ?r = "\<lparr>fr_ID = ?i, fr_FromUserID = u, fr_ToUserID = v, fr_Message = m,
     fr_Source = or_default 1 (int16 s), fr_Status = 1,
     fr_CreatedAt = clock w (Suc (Suc (Suc (Suc (Suc (Suc (tick w))))))),
     fr_UpdatedAt = clock w (Suc (Suc (Suc (Suc (Suc (Suc (tick w)))))))\<rparr>"
  have cnt: "count_where (\<lambda>b. bl_UserID b = u \<and> bl_BlockedUserID b = v \<or>
      bl_UserID b = v \<and> bl_BlockedUserID b = u) (blacklists (db w)) = 0"
    "count_where (\<lambda>f. fs_UserID f = u \<and> fs_FriendID f = v \<and> fs_Status f = 1) (friendships (db w)) = 0"
    using assms(2-4) by (auto simp: count_where_zero blocked_in_def friends_in_def)
  have pend: "first_where (\<lambda>r. fr_FromUserID r = u \<and> fr_ToUserID r = v \<and> fr_Status r = 1)
      (\<lambda>r. (- fr_CreatedAt r, fr_ID r)) (friend_requests (db w)) = None"
    using assms(5) by (auto simp: first_where_None pending_in_def)
  have latest: "first_where (\<lambda>r. fr_FromUserID r = u \<and> fr_ToUserID r = v)
      (\<lambda>r. (- fr_CreatedAt r, fr_ID r)) (friend_requests (db w) @ [?r]) = Some ?r"
  proof (cases "first_where (\<lambda>r. fr_FromUserID r = u \<and> fr_ToUserID r = v)
      (\<lambda>r. (- fr_CreatedAt r, fr_ID r)) (friend_requests (db w) @ [?r])")
    case None then show ?thesis by (simp add: first_where_None)
  next
    case (Some x)
    then have "(- fr_CreatedAt x, fr_ID x) \<le> (- fr_CreatedAt ?r, fr_ID ?r)"
      by (rule first_where_minimal) simp_all
    moreover have "x \<in> set (friend_requests (db w)) \<or> x = ?r" using first_where_SomeD[OF Some] by auto
    ultimately show ?thesis using Some assms(8)[of x "Suc (Suc (Suc (Suc (Suc (Suc (tick w))))))"]
      by (auto simp: less_eq_prod_def)
  qed
  have f: "fault w n = None" for n using assms(1) by (rule healthy_fault)
  show ?thesis
    apply (rule wp_caseI)
    apply (simp only: SendFriendRequest_def optionalE_def friend_repo_defs wp_simps exec_simps f cnt pend
        assms(6))
    using assms(1,7) latest
    apply (simp add: insert_unique_def has_key_iff publishFriendRequestNotification_def
        wp_publish_user wp_simps f WithPayload_def FriendRequest_IsPending_def stamped_def)
    apply (rule exI[of _ ?r], simp)
    done
qed

theorem SendFriendRequest_pending_witness:
  "fst (SendFriendRequest deps_verify ''alice'' ''bob'' ''hi'' 1 (init_world empty_friend_db)) = Inr ()"
  using SendFriendRequest_pending[of "init_world empty_friend_db" "''alice''" "''bob''" deps_verify "''hi''" 1]
  by (auto simp: blocked_in_def friends_in_def pending_in_def empty_friend_db_def deps_verify_def
      split: prod.splits sum.splits)

text \<open>A request to a user who accepts everybody makes the two users friends in the same
  transaction that records the request as accepted; both sides are told, and a conversation is opened
  for each of them.\<close>

theorem SendFriendRequest_auto_accept:
  assumes "healthy w" "u \<noteq> v" "\<not> blocked_in (db w) u v" "\<not> blocked_in (db w) v u"
    and "\<not> linked_in (db w) u v" "\<not> linked_in (db w) v u" "\<not> pending_in (db w) u v"
    and "\<And>n. fd_GetSettings deps n v = Inr False"
    and "serial w SeqFriendRequests + 1 \<notin> fr_ID ` set (friend_requests (db w))"
    and "fd_CreateOrUpdateConversation deps = Some client"
  shows "case SendFriendRequest deps u v m s w of
      (Inl e, w') \<Rightarrow> False
    | (Inr _, w') \<Rightarrow> friends_in (db w') u v \<and> friends_in (db w') v u \<and>
        (\<exists>r. friend_requests (db w') = friend_requests (db w) @ [r] \<and> FriendRequest_IsAccepted r \<and>
             fr_FromUserID r = u \<and> fr_ToUserID r = v) \<and>
        (\<exists>n1 n2. outbox w' = outbox w @
           [Called ''CreateOrUpdateConversation'' [u, ''single'', v],
            Called ''CreateOrUpdateConversation'' [v, ''single'', u],
            Published (BuildUserNotificationTopic TypeFriendAdded u) n1,
            Published (BuildUserNotificationTopic TypeFriendAdded v) n2])"
proof -
  let ?t = "clock w (Suc (Suc (Suc (Suc (Suc (Suc (tick w)))))))"
  have f: "fault w n = None" for n using assms(1) by (rule healthy_fault)
  have cnt: "count_where (\<lambda>b. bl_UserID b = u \<and> bl_BlockedUserID b = v \<or>
      bl_UserID b = v \<and> bl_BlockedUserID b = u) (blacklists (db w)) = 0"
    "count_where (\<lambda>f. fs_UserID f = u \<and> fs_FriendID f = v \<and> fs_Status f = 1) (friendships (db w)) = 0"
    using assms(3-6)
    by (auto simp: count_where_zero blocked_in_def linked_in_def friendship_key_def)
  have pend: "first_where (\<lambda>r. fr_FromUserID r = u \<and> fr_ToUserID r = v \<and> fr_Status r = 1)
      (\<lambda>r. (- fr_CreatedAt r, fr_ID r)) (friend_requests (db w)) = None"
    using assms(7) by (auto simp: first_where_None pending_in_def)
  have linked: "linked_in (d\<lparr>friend_requests := rs\<rparr>) = linked_in d" for d rs
    by (simp add: linked_in_def fun_eq_iff)
  obtain x where x: "first_where (\<lambda>r. fr_FromUserID r = u \<and> fr_ToUserID r = v)
      (\<lambda>r. (- fr_CreatedAt r, fr_ID r)) (friend_requests (db w) @
        [\<lparr>fr_ID = serial w SeqFriendRequests + 1, fr_FromUserID = u, fr_ToUserID = v, fr_Message = m,
          fr_Source = or_default 1 (int16 s), fr_Status = 2, fr_CreatedAt = ?t, fr_UpdatedAt = ?t\<rparr>]) = Some x"
    using first_where_append_last[of "\<lambda>r. fr_FromUserID r = u \<and> fr_ToUserID r = v"] by force
  show ?thesis
    apply (rule wp_caseI)
    apply (simp only: SendFriendRequest_def optionalE_def requestRepo_Create_def requestRepo_GetByUserIDs_def
        requestRepo_GetPendingRequest_def friendshipRepo_IsFriend_def blacklistRepo_IsBlocked_def
        wp_CreateBatch_pair wp_simps exec_simps f cnt pend assms(8))
    using assms(1,2,5,6,9,10) x
    apply (simp add: insert_unique_def has_key_iff f linked createFriendConversation_def wp_simps wp_ignore_rpc
        publishFriendAddedNotification_def WithPayload_def wp_publish_user FriendRequest_IsAccepted_def)
    apply (simp add: friends_in_pair friends_in_def pair_rows_def newFriendship_def stamped_def)
    done
qed

theorem SendFriendRequest_auto_accept_witness:
  "fst (SendFriendRequest deps_auto ''alice'' ''bob'' ''hi'' 1 (init_world empty_friend_db)) = Inr ()"
  using SendFriendRequest_auto_accept[of "init_world empty_friend_db" "''alice''" "''bob''" deps_auto
      "\<lambda>_. Inr ()" "''hi''" 1]
  by (auto simp: blocked_in_def linked_in_def pending_in_def empty_friend_db_def deps_auto_def deps_verify_def
      split: prod.splits sum.splits)

subsection \<open>Blocking and unfriending\<close>

text \<open>C3: blocking is atomic for every fault schedule.  When the call succeeds the block is recorded
  and the two users are not friends in either direction; when it returns an error the tables are
  exactly as before.\<close>

theorem AddToBlacklist_atomic:
  assumes "friend_inv (db w)"
  shows "case AddToBlacklist u v w of
      (Inl e, w') \<Rightarrow> db w' = db w
    | (Inr _, w') \<Rightarrow> blocked_in (db w') u v \<and> \<not> friends_in (db w') u v \<and> \<not> friends_in (db w') v u \<and>
        friend_requests (db w') = friend_requests (db w)"
proof -
  have sym: "friends_in (db w) a b \<longleftrightarrow> friends_in (db w) b a" for a b
    using assms by (auto simp: friend_inv_def)
  have q: "quiet (thenE (publishBlacklistChangedNotification u v ''add'')
      (if removed then publishFriendDeletedNotification u v else returnE ()))" for removed
    by (simp add: quiet_intros)
  have tx: "wp (transaction (bindE (optionalE (blacklistRepo_GetByUserAndBlocked u v)) (\<lambda>existing.
       thenE (guardE (existing = None) (NewBusiness CodeAlreadyInBlacklist '''')) (
       thenE (blacklistRepo_Create \<lparr>bl_ID = 0, bl_UserID = u, bl_BlockedUserID = v, bl_CreatedAt = 0\<rparr>) (
       bindE (friendshipRepo_IsFriend u v) (\<lambda>isFriend.
       if isFriend then thenE (friendshipRepo_DeleteBidirectional u v) (returnE True)
       else returnE False))))))
     (\<lambda>_ w'. blocked_in (db w') u v \<and> \<not> friends_in (db w') u v \<and> \<not> friends_in (db w') v u \<and>
        friend_requests (db w') = friend_requests (db w)) (\<lambda>_ w'. db w' = db w) w"
    apply (simp only: optionalE_def friend_repo_defs wp_simps exec_simps)
    apply (simp add: friends_count friends_in_delete_both sym[of v u] split: option.split)
    apply (auto simp: insert_unique_Some blocked_in_def)
    done
  show ?thesis
    unfolding AddToBlacklist_def
    by (rule wp_caseI, simp only: wp_bind, rule wp_mono[OF tx], rule wp_quiet[OF q]) simp_all
qed

theorem AddToBlacklist_atomic_witness:
  "blocked_in (db (snd (AddToBlacklist ''bob'' ''alice'' (init_world alice_bob_db)))) ''bob'' ''alice'' \<and>
   \<not> friends_in (db (snd (AddToBlacklist ''bob'' ''alice'' (init_world alice_bob_db)))) ''alice'' ''bob''"
proof -
  have inv: "friend_inv (db (init_world alice_bob_db))"
    using friend_service.reachable_inv[OF alice_bob_reachable] by simp
  have ok: "fst (AddToBlacklist ''bob'' ''alice'' (init_world alice_bob_db)) = Inr ()" by code_simp
  show ?thesis using AddToBlacklist_atomic[OF inv, of "''bob''" "''alice''"] ok
    by (simp split: prod.splits sum.splits)
qed

text \<open>Unfriending is atomic for every fault schedule: on success neither user has the other as a
  friend, on an error the tables are unchanged, and without faults it succeeds exactly for friends.\<close>

theorem DeleteFriend_spec:
  "case DeleteFriend u v w of
      (Inl e, w') \<Rightarrow> db w' = db w \<and> (healthy w \<longrightarrow> \<not> friends_in (db w) u v \<and> e = NewBusiness CodeNotFriend [])
    | (Inr _, w') \<Rightarrow> friends_in (db w) u v \<and>
        (\<forall>x y. friends_in (db w') x y \<longleftrightarrow> friends_in (db w) x y \<and> {x, y} \<noteq> {u, v})"
proof -
  have eq: "{x, y} \<noteq> {u, v} \<longleftrightarrow> (x, y) \<noteq> (u, v) \<and> (x, y) \<noteq> (v, u)" for x y
    by (auto simp: doubleton_eq_iff)
  have q: "quiet (publishFriendDeletedNotification u v)" by (rule quiet_intros)
  show ?thesis
    unfolding DeleteFriend_def
    apply (rule wp_caseI)
    apply (simp only: friend_repo_defs wp_simps exec_simps)
    apply (simp add: friends_count friends_in_delete_both eq healthy_def split: option.split)
    apply (auto intro!: wp_quiet[OF q] simp: friends_in_delete_both)
    done
qed

theorem DeleteFriend_spec_witness:
  "\<not> friends_in (db (snd (DeleteFriend ''alice'' ''bob'' (init_world alice_bob_db)))) ''bob'' ''alice''"
proof -
  have "fst (DeleteFriend ''alice'' ''bob'' (init_world alice_bob_db)) = Inr ()" by code_simp
  then show ?thesis using DeleteFriend_spec[where u = "''alice''" and v = "''bob''" and w = "init_world alice_bob_db"]
    by (auto split: prod.splits sum.splits)
qed

subsection \<open>Life cycle of a request\<close>

text \<open>What handling a request can do to the tables: nothing, or the recipient's decision on the one
  pending request it names.\<close>

lemma GetByID_uniq:
  assumes "friend_inv d" "first_where (\<lambda>r. fr_ID r = i) fr_ID (friend_requests d) = Some r"
    "x \<in> set (friend_requests d)" "fr_ID x = i"
  shows "x = r"
proof -
  have "r \<in> set (friend_requests d)" "fr_ID r = i" using first_where_SomeD[OF assms(2)] by auto
  then show ?thesis using assms(1,3,4) unfolding friend_inv_def uniq_def
    by (metis distinct_map inj_onD)
qed

lemma frozen_update:
  assumes "friend_inv d" "x \<in> set (friend_requests d)" "fr_Status x \<noteq> FriendRequestStatusPending"
    "first_where (\<lambda>r. fr_ID r = i) fr_ID (friend_requests d) = Some r" "FriendRequest_IsPending r"
  shows "x \<in> set (update_where (\<lambda>r. fr_ID r = i) g (friend_requests d))"
  using GetByID_uniq[OF assms(1,4,2)] assms(2,3,5)
  by (force simp: set_update_where FriendRequest_IsPending_def)

lemma HandleFriendRequest_frozen:
  assumes "friend_inv (db w)" "x \<in> set (friend_requests (db w))" "fr_Status x \<noteq> FriendRequestStatusPending"
  shows "wp (HandleFriendRequest u i a) (\<lambda>_ w'. x \<in> set (friend_requests (db w')))
     (\<lambda>_ w'. x \<in> set (friend_requests (db w'))) w"
proof -
  have q: "quiet (publishFriendRequestHandledNotification r s)" for r s by (rule quiet_intros)
  let ?i = "if i \<noteq> '''' then fst (ParseInt i) else 0"
  have *: "wp (HandleFriendRequest u i a) (\<lambda>_ w'. x \<in> set (friend_requests (db w')))
     (\<lambda>_ w'. x \<in> set (friend_requests (db w'))) w" if i: "?i = k" for k
    unfolding HandleFriendRequest_def i
    apply (simp only: requestRepo_GetByID_def requestRepo_UpdateStatus_def wp_CreateBatch_pair wp_simps exec_simps)
    using assms apply (simp split: option.split)
    apply (auto intro!: wp_quiet[OF q] frozen_update[OF assms])
    done
  show ?thesis by (rule *[OF refl])
qed

text \<open>C2: a request that has been accepted or rejected never changes again, whatever operation runs
  next and whatever fails: each request is decided at most once.\<close>

theorem processed_request_frozen:
  assumes "reachable (friend_step deps) any_op empty_friend_db (db w)"
    and "x \<in> set (friend_requests (db w))" "\<not> FriendRequest_IsPending x"
  shows "x \<in> set (friend_requests (db (snd (friend_step deps op w))))"
proof -
  have inv: "friend_inv (db w)" by (rule friend_service.reachable_inv[OF assms(1)])
  have mono: "x \<in> set (friend_requests (db (snd (m w))))"
    if "keeps (\<lambda>d. x \<in> set (friend_requests d)) m" for m :: "(friend_db, unit) M"
    using that assms(2) by (simp add: keeps_def)
  show ?thesis
  proof (cases op)
    case (OpHandleFriendRequest u i a)
    then show ?thesis
      using HandleFriendRequest_frozen[OF inv assms(2), of u i a] assms(3)
      by (simp add: wp_def FriendRequest_IsPending_def split: prod.splits sum.splits)
  next
    case (OpSendFriendRequest u v m s)
    have "keeps (\<lambda>d. x \<in> set (friend_requests d)) (SendFriendRequest deps u v m s)"
      unfolding SendFriendRequest_def requestRepo_Create_def friendshipRepo_CreateBatch_def
      by (intro keeps_intros keeps_transaction_body keeps_exec)
         (auto split: option.splits simp: insert_unique_Some)
    then show ?thesis using OpSendFriendRequest mono by simp
  next
    case (OpDeleteFriend u v)
    have "keeps (\<lambda>d. x \<in> set (friend_requests d)) (DeleteFriend u v)"
      unfolding DeleteFriend_def friendshipRepo_DeleteBidirectional_def friendshipRepo_Delete_def
      by (intro keeps_intros keeps_transaction_body keeps_modify) auto
    then show ?thesis using OpDeleteFriend mono by simp
  next
    case (OpUpdateRemark u v m)
    have "keeps (\<lambda>d. x \<in> set (friend_requests d)) (UpdateRemark u v m)"
      unfolding UpdateRemark_def friendshipRepo_UpdateRemark_def
      by (intro keeps_intros keeps_modify) auto
    then show ?thesis using OpUpdateRemark mono by simp
  next
    case (OpAddToBlacklist u v)
    have "keeps (\<lambda>d. x \<in> set (friend_requests d)) (AddToBlacklist u v)"
      unfolding AddToBlacklist_def friendshipRepo_DeleteBidirectional_def friendshipRepo_Delete_def
        blacklistRepo_Create_def
      by (intro keeps_intros keeps_transaction_body keeps_modify keeps_exec) (auto split: option.splits)
    then show ?thesis using OpAddToBlacklist mono by simp
  next
    case (OpRemoveFromBlacklist u v)
    have "keeps (\<lambda>d. x \<in> set (friend_requests d)) (RemoveFromBlacklist u v)"
      unfolding RemoveFromBlacklist_def blacklistRepo_Delete_def
      by (intro keeps_intros keeps_modify) auto
    then show ?thesis using OpRemoveFromBlacklist mono by simp
  qed
qed

theorem processed_request_frozen_witness:
  "friend_requests alice_bob_db \<noteq> [] \<and>
   hd (friend_requests alice_bob_db) \<in> set (friend_requests (db (snd
     (friend_step deps_verify (OpHandleFriendRequest ''bob'' ''1'' 2) (init_world alice_bob_db)))))"
proof -
  have "friend_requests alice_bob_db \<noteq> [] \<and> \<not> FriendRequest_IsPending (hd (friend_requests alice_bob_db))"
    by code_simp
  then show ?thesis
    using processed_request_frozen[of deps_verify "init_world alice_bob_db" "hd (friend_requests alice_bob_db)"
        "OpHandleFriendRequest ''bob'' ''1'' 2"] alice_bob_reachable by simp
qed

text \<open>Accepting.  When the recipient accepts a pending request and no friendship row, not even a
  deleted one, exists between the two users, the call makes them friends and marks the request
  accepted.  The blacklist is not consulted: the conclusion holds also when one of them has blocked
  the other after the request was sent.\<close>

theorem HandleFriendRequest_accept:
  assumes "healthy w" "friend_inv (db w)" "r \<in> set (friend_requests (db w))" "FriendRequest_IsPending r"
    and "fr_ID r > 0" "fr_ID r \<le> 9223372036854775807" "fr_FromUserID r \<noteq> fr_ToUserID r"
    and "\<not> linked_in (db w) (fr_ToUserID r) (fr_FromUserID r)"
    and "\<not> linked_in (db w) (fr_FromUserID r) (fr_ToUserID r)"
  shows "case HandleFriendRequest (fr_ToUserID r) (itoa (fr_ID r)) FriendRequestActionAccept w of
      (Inl e, w') \<Rightarrow> False
    | (Inr _, w') \<Rightarrow> friends_in (db w') (fr_FromUserID r) (fr_ToUserID r) \<and>
        friends_in (db w') (fr_ToUserID r) (fr_FromUserID r) \<and>
        (\<exists>r' \<in> set (friend_requests (db w')). fr_ID r' = fr_ID r \<and> FriendRequest_IsAccepted r') \<and>
        blacklists (db w') = blacklists (db w)"
proof -
  have f: "fault w n = None" for n using assms(1) by (rule healthy_fault)
  have id: "(if itoa (fr_ID r) \<noteq> '''' then fst (ParseInt (itoa (fr_ID r))) else 0) = fr_ID r"
    using ParseInt_itoa[of "fr_ID r"] assms(5,6) by (simp add: itoa_def)
  have get: "first_where (\<lambda>x. fr_ID x = fr_ID r) fr_ID (friend_requests (db w)) = Some r"
    using assms(2,3) by (intro first_where_unique[where key = fr_ID]) (auto simp: friend_inv_def)
  have linked: "linked_in (d\<lparr>friend_requests := rs\<rparr>) = linked_in d" for d rs
    by (simp add: linked_in_def fun_eq_iff)
  have q: "quiet (publishFriendRequestHandledNotification r s)" for s by (rule quiet_intros)
  have a: "int16 1 = 1" by (simp add: int16_id)
  show ?thesis
    unfolding HandleFriendRequest_def id a
    apply (rule wp_caseI)
    apply (simp only: requestRepo_GetByID_def requestRepo_UpdateStatus_def wp_CreateBatch_pair wp_simps
        exec_simps f get)
    using assms(3,4,7-9)
    apply (simp add: FriendRequestAction_IsValid_def f linked)
    apply (rule wp_quiet[OF q])
    apply (auto simp: friends_in_def pair_rows_def newFriendship_def bex_update_where
        FriendRequest_IsAccepted_def)
    done
qed

definition pending_db :: friend_db where
  "pending_db = db (snd (SendFriendRequest deps_verify ''alice'' ''bob'' ''hi'' 1 (init_world empty_friend_db)))"

definition pending_row :: FriendRequest where
  "pending_row = hd (friend_requests pending_db)"

lemma pending_db_inv: "friend_inv pending_db"
  using keeps_SendFriendRequest[of deps_verify "''alice''" "''bob''" "''hi''" 1] friend_inv_empty
  by (simp add: keeps_def pending_db_def)

lemma pending_db_row:
  "pending_row \<in> set (friend_requests pending_db)" "FriendRequest_IsPending pending_row"
  "fr_ID pending_row = 1" "fr_FromUserID pending_row = ''alice''" "fr_ToUserID pending_row = ''bob''"
  "friendships pending_db = []"
  by code_simp+

theorem HandleFriendRequest_accept_witness:
  "friends_in (db (snd (HandleFriendRequest ''bob'' (itoa 1) 1 (init_world pending_db)))) ''alice'' ''bob''"
  using HandleFriendRequest_accept[of "init_world pending_db" pending_row] pending_db_inv pending_db_row
  by (auto simp: linked_in_def split: prod.splits sum.splits)

text \<open>A pair that was friends once can never be friends again.  Unfriending keeps the two rows
  with status "deleted" and the unique key on (user, friend) refuses new ones, so accepting a later
  request always fails with a unique violation and is rolled back.\<close>

theorem readd_deleted_friend_fails:
  assumes "healthy w" "friend_inv (db w)" "r \<in> set (friend_requests (db w))" "FriendRequest_IsPending r"
    and "fr_ID r > 0" "fr_ID r \<le> 9223372036854775807"
    and "linked_in (db w) (fr_ToUserID r) (fr_FromUserID r)"
  shows "case HandleFriendRequest (fr_ToUserID r) (itoa (fr_ID r)) FriendRequestActionAccept w of
      (Inl e, w') \<Rightarrow> e = UniqueViolation ''uk_user_friend'' \<and> db w' = db w
    | (Inr _, w') \<Rightarrow> False"
proof -
  have f: "fault w n = None" for n using assms(1) by (rule healthy_fault)
  have id: "(if itoa (fr_ID r) \<noteq> '''' then fst (ParseInt (itoa (fr_ID r))) else 0) = fr_ID r"
    using ParseInt_itoa[of "fr_ID r"] assms(5,6) by (simp add: itoa_def)
  have get: "first_where (\<lambda>x. fr_ID x = fr_ID r) fr_ID (friend_requests (db w)) = Some r"
    using assms(2,3) by (intro first_where_unique[where key = fr_ID]) (auto simp: friend_inv_def)
  have linked: "linked_in (d\<lparr>friend_requests := rs\<rparr>) = linked_in d" for d rs
    by (simp add: linked_in_def fun_eq_iff)
  have a: "int16 1 = 1" by (simp add: int16_id)
  show ?thesis
    unfolding HandleFriendRequest_def id a
    apply (rule wp_caseI)
    apply (simp only: requestRepo_GetByID_def requestRepo_UpdateStatus_def wp_CreateBatch_pair wp_simps
        exec_simps f get)
    using assms(3,4,7) by (simp add: FriendRequestAction_IsValid_def f linked)
qed

definition refriend_row :: FriendRequest where
  "refriend_row = \<lparr>fr_ID = 2, fr_FromUserID = ''alice'', fr_ToUserID = ''bob'', fr_Message = ''again'',
     fr_Source = 1, fr_Status = 1, fr_CreatedAt = 9, fr_UpdatedAt = 9\<rparr>"

definition refriend_db :: friend_db where
  "refriend_db = \<lparr>friendships =
      [(newFriendship ''bob'' ''alice'' 5)\<lparr>fs_ID := 1, fs_Status := FriendshipStatusDeleted\<rparr>,
       (newFriendship ''alice'' ''bob'' 5)\<lparr>fs_ID := 2, fs_Status := FriendshipStatusDeleted\<rparr>],
     friend_requests = [refriend_row], blacklists = []\<rparr>"

theorem readd_deleted_friend_fails_witness:
  "fst (HandleFriendRequest ''bob'' (itoa 2) 1 (init_world refriend_db)) =
     Inl (UniqueViolation ''uk_user_friend'')"
  using readd_deleted_friend_fails[of "init_world refriend_db" refriend_row]
  by (auto simp: refriend_db_def refriend_row_def friend_inv_def friends_in_def uniq_def friendship_key_def
      newFriendship_def FriendRequest_IsPending_def linked_in_def split: prod.splits sum.splits)

text \<open>The block list does not stop an old request: the service can reach a state in which bob has
  blocked alice and the two are friends, because handling a request does not consult the blacklist.\<close>

theorem blocked_friends_reachable:
  "\<exists>d. reachable (friend_step deps_verify) any_op empty_friend_db d \<and>
     friends_in d ''alice'' ''bob'' \<and> blocked_in d ''bob'' ''alice''"
proof -
  let ?ops = "[OpSendFriendRequest ''alice'' ''bob'' ''hi'' 1, OpAddToBlacklist ''bob'' ''alice'',
     OpHandleFriendRequest ''bob'' ''1'' 1]"
  let ?d = "db (run_ops (friend_step deps_verify) ?ops (init_world empty_friend_db))"
  have "reachable (friend_step deps_verify) any_op empty_friend_db ?d"
    by (rule run_ops_reachable) (simp_all add: reach_init any_op_def)
  moreover have "friends_in ?d ''alice'' ''bob'' \<and> blocked_in ?d ''bob'' ''alice''" by code_simp
  ultimately show ?thesis by blast
qed

subsection \<open>Enumerations, queries and handlers\<close>

text \<open>The textual form of every valid request source and status parses back to the same value.\<close>

theorem request_enum_roundtrip:
  "list_all (\<lambda>s. ParseFriendRequestSource (FriendRequestSource_String s) = Inr s)
     [FriendRequestSourceSearch, FriendRequestSourceQRCode, FriendRequestSourceGroup, FriendRequestSourceContacts] \<and>
   list_all (\<lambda>s. ParseFriendRequestStatus (FriendRequestStatus_String s) = Inr s)
     [FriendRequestStatusPending, FriendRequestStatusAccepted, FriendRequestStatusRejected,
      FriendRequestStatusExpired]"
  by code_simp

end
