(* ===== verification/Group_Model.thy ===== *)
theory Group_Model
  imports Metadata "HOL-Library.Product_Lexorder"
begin

text \<open>
  The group service (\<open>app/group\<close>): rows (\<open>internal/model\<close>), repositories (\<open>internal/repository\<close>) and
  the helpers of the service.  The unique keys are those of migration 000003.  The message service is
  reached through \<open>group_deps\<close>; a nil client is \<open>None\<close>.  The field \<open>gd_text_field\<close> is what
  \<open>encoding/json\<close> decodes as the \<open>text\<close> member of a message content.
\<close>

subsection \<open>Rows\<close>

record Group =
  g_ID :: int
  g_GroupID :: string
  g_Name :: string
  g_Avatar :: string
  g_Announcement :: string
  g_Description :: string
  g_OwnerID :: string
  g_MemberCount :: int
  g_MaxMembers :: int
  g_IsMuted :: bool
  g_Status :: int
  g_CreatedAt :: int
  g_UpdatedAt :: int

abbreviation (input) GroupStatusDissolved :: int where "GroupStatusDissolved \<equiv> 0"
abbreviation (input) GroupStatusNormal :: int where "GroupStatusNormal \<equiv> 1"

definition Group_IsActive :: "Group \<Rightarrow> bool" where
  "Group_IsActive g = (g_Status g = GroupStatusNormal)"

definition Group_IsFull :: "Group \<Rightarrow> bool" where
  "Group_IsFull g = (g_MemberCount g \<ge> g_MaxMembers g)"

abbreviation (input) JoinRequestStatusPending :: int where "JoinRequestStatusPending \<equiv> 1"
abbreviation (input) JoinRequestStatusAccepted :: int where "JoinRequestStatusAccepted \<equiv> 2"
abbreviation (input) JoinRequestStatusRejected :: int where "JoinRequestStatusRejected \<equiv> 3"

record GroupJoinRequest =
  jr_ID :: int
  jr_GroupID :: string
  jr_UserID :: string
  jr_InviterID :: string
  jr_Message :: string
  jr_Status :: int
  jr_CreatedAt :: int
  jr_UpdatedAt :: int

definition JoinRequest_IsPending :: "GroupJoinRequest \<Rightarrow> bool" where
  "JoinRequest_IsPending r = (jr_Status r = JoinRequestStatusPending)"

definition JoinRequest_IsProcessed :: "GroupJoinRequest \<Rightarrow> bool" where
  "JoinRequest_IsProcessed r =
     (jr_Status r = JoinRequestStatusAccepted \<or> jr_Status r = JoinRequestStatusRejected)"

definition JoinRequest_IsInvitation :: "GroupJoinRequest \<Rightarrow> bool" where
  "JoinRequest_IsInvitation r = (jr_InviterID r \<noteq> '''')"

abbreviation (input) GroupRoleOwner :: int where "GroupRoleOwner \<equiv> 1"
abbreviation (input) GroupRoleAdmin :: int where "GroupRoleAdmin \<equiv> 2"
abbreviation (input) GroupRoleMember :: int where "GroupRoleMember \<equiv> 3"

record GroupMember =
  gm_ID :: int
  gm_GroupID :: string
  gm_UserID :: string
  gm_GroupNickname :: string
  gm_GroupRemark :: string
  gm_Role :: int
  gm_MutedUntil :: "int option"
  gm_JoinedAt :: int
  gm_UpdatedAt :: int

text \<open>9999-12-31 23:59:59 UTC in nanoseconds since the epoch.\<close>

definition PermanentMutedUntil :: int where
  "PermanentMutedUntil = 253402300799 * Second"

definition GroupMember_IsOwner :: "GroupMember \<Rightarrow> bool" where
  "GroupMember_IsOwner m = (gm_Role m = GroupRoleOwner)"

definition GroupMember_IsAdmin :: "GroupMember \<Rightarrow> bool" where
  "GroupMember_IsAdmin m = (gm_Role m = GroupRoleOwner \<or> gm_Role m = GroupRoleAdmin)"

definition CanManageGroup :: "GroupMember \<Rightarrow> bool" where
  "CanManageGroup m = GroupMember_IsAdmin m"

definition CanRemoveMember :: "GroupMember \<Rightarrow> int \<Rightarrow> bool" where
  "CanRemoveMember m targetRole =
     (if GroupMember_IsOwner m then True
      else if gm_Role m = GroupRoleAdmin then targetRole = GroupRoleMember
      else False)"

definition CanMuteMember :: "GroupMember \<Rightarrow> int \<Rightarrow> bool" where
  "CanMuteMember m targetRole = CanRemoveMember m targetRole"

definition IsMutedNow :: "GroupMember \<Rightarrow> int \<Rightarrow> bool" where
  "IsMutedNow m t = (case gm_MutedUntil m of None \<Rightarrow> False | Some u \<Rightarrow> u > t)"

definition IsPermanentlyMuted :: "GroupMember \<Rightarrow> bool" where
  "IsPermanentlyMuted m = (case gm_MutedUntil m of None \<Rightarrow> False
     | Some u \<Rightarrow> u = PermanentMutedUntil \<or> u > PermanentMutedUntil)"

record GroupPinnedMessage =
  pm_ID :: int
  pm_GroupID :: string
  pm_MessageID :: string
  pm_MessageSeq :: "int option"
  pm_PinnedBy :: string
  pm_Content :: string
  pm_ContentType :: int
  pm_CreatedAt :: int
  pm_UpdatedAt :: int

record GroupQRCode =
  qr_ID :: int
  qr_GroupID :: string
  qr_Token :: string
  qr_CreatedBy :: string
  qr_ExpireAt :: int
  qr_IsActive :: bool
  qr_CreatedAt :: int
  qr_UpdatedAt :: int

definition GroupQRCode_IsValid :: "GroupQRCode \<Rightarrow> int \<Rightarrow> bool" where
  "GroupQRCode_IsValid q t = (qr_IsActive q \<and> qr_ExpireAt q > t)"

definition DefaultQRCodeTTL :: int where "DefaultQRCodeTTL = 7 * 24 * Hour"
definition QRCodeRenewThreshold :: int where "QRCodeRenewThreshold = 24 * Hour"

record GroupSetting =
  gs_GroupID :: string
  gs_JoinVerify :: bool
  gs_AllowMemberInvite :: bool
  gs_AllowViewHistory :: bool
  gs_AllowAddFriend :: bool
  gs_AllowMemberModify :: bool
  gs_ShowMemberNickname :: bool
  gs_CreatedAt :: int
  gs_UpdatedAt :: int

definition DefaultGroupSetting :: "string \<Rightarrow> GroupSetting" where
  "DefaultGroupSetting groupID = \<lparr>gs_GroupID = groupID, gs_JoinVerify = True,
     gs_AllowMemberInvite = True, gs_AllowViewHistory = True, gs_AllowAddFriend = True,
     gs_AllowMemberModify = False, gs_ShowMemberNickname = True, gs_CreatedAt = 0, gs_UpdatedAt = 0\<rparr>"

record group_db =
  groups :: "Group list"
  group_members :: "GroupMember list"
  group_settings :: "GroupSetting list"
  group_join_requests :: "GroupJoinRequest list"
  group_pinned_messages :: "GroupPinnedMessage list"
  group_qrcodes :: "GroupQRCode list"

definition empty_group_db :: group_db where
  "empty_group_db = \<lparr>groups = [], group_members = [], group_settings = [], group_join_requests = [],
     group_pinned_messages = [], group_qrcodes = []\<rparr>"

definition member_key :: "GroupMember \<Rightarrow> string \<times> string" where
  "member_key m = (gm_GroupID m, gm_UserID m)"

definition pinned_key :: "GroupPinnedMessage \<Rightarrow> string \<times> string" where
  "pinned_key p = (pm_GroupID p, pm_MessageID p)"

subsection \<open>Group repository\<close>

text \<open>The columns the service updates through \<open>UpdateFields\<close>.\<close>

datatype group_field = FName string | FAvatar string | FAnnouncement string | FDescription string
  | FOwnerID string | FIsMuted bool

fun set_group_field :: "group_field \<Rightarrow> Group \<Rightarrow> Group" where
  "set_group_field (FName v) g = g\<lparr>g_Name := v\<rparr>"
| "set_group_field (FAvatar v) g = g\<lparr>g_Avatar := v\<rparr>"
| "set_group_field (FAnnouncement v) g = g\<lparr>g_Announcement := v\<rparr>"
| "set_group_field (FDescription v) g = g\<lparr>g_Description := v\<rparr>"
| "set_group_field (FOwnerID v) g = g\<lparr>g_OwnerID := v\<rparr>"
| "set_group_field (FIsMuted v) g = g\<lparr>g_IsMuted := v\<rparr>"

definition groupRepo_Create :: "Group \<Rightarrow> (group_db, unit) M" where
  "groupRepo_Create g =
     bindE (next_serial SeqGroups) (\<lambda>i.
       exec (\<lambda>d. case insert_unique g_GroupID (g\<lparr>g_ID := i\<rparr>) (groups d) of
           None \<Rightarrow> Inl (UniqueViolation ''groups_group_id_key'')
         | Some rows \<Rightarrow> Inr ((), d\<lparr>groups := rows\<rparr>)))"

definition groupRepo_GetByGroupID :: "string \<Rightarrow> (group_db, Group) M" where
  "groupRepo_GetByGroupID groupID =
     find_one (\<lambda>d. first_where (\<lambda>g. g_GroupID g = groupID \<and> g_Status g = GroupStatusNormal) g_ID
       (groups d))"

definition groupRepo_UpdateFields :: "string \<Rightarrow> group_field list \<Rightarrow> (group_db, unit) M" where
  "groupRepo_UpdateFields groupID updates =
     bindE now (\<lambda>t. modify (\<lambda>d. d\<lparr>groups := update_where
       (\<lambda>g. g_GroupID g = groupID \<and> g_Status g = GroupStatusNormal)
       (\<lambda>g. (fold set_group_field updates g)\<lparr>g_UpdatedAt := t\<rparr>) (groups d)\<rparr>))"

definition groupRepo_Delete :: "string \<Rightarrow> (group_db, unit) M" where
  "groupRepo_Delete groupID =
     bindE now (\<lambda>t. modify (\<lambda>d. d\<lparr>groups := update_where (\<lambda>g. g_GroupID g = groupID)
       (\<lambda>g. g\<lparr>g_Status := GroupStatusDissolved, g_UpdatedAt := t\<rparr>) (groups d)\<rparr>))"

definition groupRepo_UpdateMemberCount :: "string \<Rightarrow> int \<Rightarrow> (group_db, unit) M" where
  "groupRepo_UpdateMemberCount groupID delta =
     bindE now (\<lambda>t. modify (\<lambda>d. d\<lparr>groups := update_where (\<lambda>g. g_GroupID g = groupID)
       (\<lambda>g. g\<lparr>g_MemberCount := g_MemberCount g + delta, g_UpdatedAt := t\<rparr>) (groups d)\<rparr>))"

definition groupRepo_GetGroupsByOwner :: "string \<Rightarrow> (group_db, Group list) M" where
  "groupRepo_GetGroupsByOwner ownerID =
     query (\<lambda>d. select_where (\<lambda>g. g_OwnerID g = ownerID \<and> g_Status g = GroupStatusNormal)
       (\<lambda>g. - g_CreatedAt g) (groups d))"

subsection \<open>Member repository\<close>

definition memberRepo_AddMember :: "GroupMember \<Rightarrow> (group_db, unit) M" where
  "memberRepo_AddMember m =
     bindE now (\<lambda>t. bindE (next_serial SeqGroupMembers) (\<lambda>i.
       exec (\<lambda>d. case insert_unique member_key (m\<lparr>gm_ID := i, gm_Role := or_default 3 (gm_Role m),
                gm_UpdatedAt := t\<rparr>) (group_members d) of
           None \<Rightarrow> Inl (UniqueViolation ''uk_group_user'')
         | Some rows \<Rightarrow> Inr ((), d\<lparr>group_members := rows\<rparr>))))"

definition memberRepo_AddMembers :: "GroupMember list \<Rightarrow> (group_db, unit) M" where
  "memberRepo_AddMembers ms =
     bindE now (\<lambda>t. bindE (mapE (\<lambda>m. bindE (next_serial SeqGroupMembers) (\<lambda>i.
         returnE (m\<lparr>gm_ID := i, gm_Role := or_default 3 (gm_Role m), gm_UpdatedAt := t\<rparr>))) ms) (\<lambda>ms.
       exec (\<lambda>d. case inserts_unique member_key ms (group_members d) of
           None \<Rightarrow> Inl (UniqueViolation ''uk_group_user'')
         | Some rows \<Rightarrow> Inr ((), d\<lparr>group_members := rows\<rparr>))))"

definition memberRepo_RemoveMember :: "string \<Rightarrow> string \<Rightarrow> (group_db, unit) M" where
  "memberRepo_RemoveMember groupID userID =
     modify (\<lambda>d. d\<lparr>group_members := delete_where
       (\<lambda>m. gm_GroupID m = groupID \<and> gm_UserID m = userID) (group_members d)\<rparr>)"

definition memberRepo_UpdateRole :: "string \<Rightarrow> string \<Rightarrow> int \<Rightarrow> (group_db, unit) M" where
  "memberRepo_UpdateRole groupID userID role =
     bindE now (\<lambda>t. modify (\<lambda>d. d\<lparr>group_members := update_where
       (\<lambda>m. gm_GroupID m = groupID \<and> gm_UserID m = userID)
       (\<lambda>m. m\<lparr>gm_Role := role, gm_UpdatedAt := t\<rparr>) (group_members d)\<rparr>))"

definition memberRepo_UpdateNickname :: "string \<Rightarrow> string \<Rightarrow> string \<Rightarrow> (group_db, unit) M" where
  "memberRepo_UpdateNickname groupID userID nickname =
     bindE now (\<lambda>t. modify (\<lambda>d. d\<lparr>group_members := update_where
       (\<lambda>m. gm_GroupID m = groupID \<and> gm_UserID m = userID)
       (\<lambda>m. m\<lparr>gm_GroupNickname := nickname, gm_UpdatedAt := t\<rparr>) (group_members d)\<rparr>))"

text \<open>An empty remark is stored as NULL, which is read back as the empty string.\<close>

definition memberRepo_UpdateRemark :: "string \<Rightarrow> string \<Rightarrow> string \<Rightarrow> (group_db, unit) M" where
  "memberRepo_UpdateRemark groupID userID remark =
     bindE now (\<lambda>t. modify (\<lambda>d. d\<lparr>group_members := update_where
       (\<lambda>m. gm_GroupID m = groupID \<and> gm_UserID m = userID)
       (\<lambda>m. m\<lparr>gm_GroupRemark := remark, gm_UpdatedAt := t\<rparr>) (group_members d)\<rparr>))"

definition memberRepo_UpdateMutedUntil :: "string \<Rightarrow> string \<Rightarrow> int option \<Rightarrow> (group_db, unit) M" where
  "memberRepo_UpdateMutedUntil groupID userID mutedUntil =
     bindE now (\<lambda>t. modify (\<lambda>d. d\<lparr>group_members := update_where
       (\<lambda>m. gm_GroupID m = groupID \<and> gm_UserID m = userID)
       (\<lambda>m. m\<lparr>gm_MutedUntil := mutedUntil, gm_UpdatedAt := t\<rparr>) (group_members d)\<rparr>))"

definition memberRepo_GetMember :: "string \<Rightarrow> string \<Rightarrow> (group_db, GroupMember) M" where
  "memberRepo_GetMember groupID userID =
     find_one (\<lambda>d. first_where (\<lambda>m. gm_GroupID m = groupID \<and> gm_UserID m = userID) gm_ID
       (group_members d))"

definition memberRepo_GetMembers :: "string \<Rightarrow> int \<Rightarrow> int \<Rightarrow> (group_db, GroupMember list \<times> int) M" where
  "memberRepo_GetMembers groupID page pageSize =
     bindE (query (\<lambda>d. int (count_where (\<lambda>m. gm_GroupID m = groupID) (group_members d)))) (\<lambda>total.
       let offset = (page - 1) * pageSize in
       bindE (query (\<lambda>d. limit_offset pageSize offset
           (select_where (\<lambda>m. gm_GroupID m = groupID) gm_JoinedAt (group_members d)))) (\<lambda>members.
         returnE (members, total)))"

definition memberRepo_GetMembersByRole :: "string \<Rightarrow> int \<Rightarrow> (group_db, GroupMember list) M" where
  "memberRepo_GetMembersByRole groupID role =
     query (\<lambda>d. select_where (\<lambda>m. gm_GroupID m = groupID \<and> gm_Role m = role) gm_JoinedAt (group_members d))"

definition memberRepo_GetMemberCount :: "string \<Rightarrow> (group_db, int) M" where
  "memberRepo_GetMemberCount groupID =
     query (\<lambda>d. int (count_where (\<lambda>m. gm_GroupID m = groupID) (group_members d)))"

definition memberRepo_IsMember :: "string \<Rightarrow> string \<Rightarrow> (group_db, bool) M" where
  "memberRepo_IsMember groupID userID =
     query (\<lambda>d. count_where (\<lambda>m. gm_GroupID m = groupID \<and> gm_UserID m = userID) (group_members d) > 0)"

definition memberRepo_GetUserGroups :: "string \<Rightarrow> (group_db, GroupMember list) M" where
  "memberRepo_GetUserGroups userID =
     query (\<lambda>d. select_where (\<lambda>m. gm_UserID m = userID) (\<lambda>m. - gm_JoinedAt m) (group_members d))"

definition memberRepo_GetUserGroupsByUpdateTime :: "string \<Rightarrow> int \<Rightarrow> (group_db, GroupMember list) M" where
  "memberRepo_GetUserGroupsByUpdateTime userID lastUpdateTime =
     query (\<lambda>d. select_where (\<lambda>m. gm_UserID m = userID \<and> gm_UpdatedAt m > lastUpdateTime)
       (\<lambda>m. - gm_UpdatedAt m) (group_members d))"

subsection \<open>Setting repository\<close>

datatype setting_field = FJoinVerify bool | FAllowMemberInvite bool | FAllowViewHistory bool
  | FAllowAddFriend bool | FAllowMemberModify bool

fun set_setting_field :: "setting_field \<Rightarrow> GroupSetting \<Rightarrow> GroupSetting" where
  "set_setting_field (FJoinVerify v) s = s\<lparr>gs_JoinVerify := v\<rparr>"
| "set_setting_field (FAllowMemberInvite v) s = s\<lparr>gs_AllowMemberInvite := v\<rparr>"
| "set_setting_field (FAllowViewHistory v) s = s\<lparr>gs_AllowViewHistory := v\<rparr>"
| "set_setting_field (FAllowAddFriend v) s = s\<lparr>gs_AllowAddFriend := v\<rparr>"
| "set_setting_field (FAllowMemberModify v) s = s\<lparr>gs_AllowMemberModify := v\<rparr>"

fun setting_column :: "setting_field \<Rightarrow> string" where
  "setting_column (FJoinVerify v) = ''join_verify''"
| "setting_column (FAllowMemberInvite v) = ''allow_member_invite''"
| "setting_column (FAllowViewHistory v) = ''allow_view_history''"
| "setting_column (FAllowAddFriend v) = ''allow_add_friend''"
| "setting_column (FAllowMemberModify v) = ''allow_member_modify''"

definition settingRepo_Create :: "GroupSetting \<Rightarrow> (group_db, unit) M" where
  "settingRepo_Create s =
     bindE now (\<lambda>t.
       exec (\<lambda>d. case insert_unique gs_GroupID (s\<lparr>gs_CreatedAt := t, gs_UpdatedAt := t\<rparr>) (group_settings d) of
           None \<Rightarrow> Inl (UniqueViolation ''group_settings_pkey'')
         | Some rows \<Rightarrow> Inr ((), d\<lparr>group_settings := rows\<rparr>)))"

definition settingRepo_GetSettings :: "string \<Rightarrow> (group_db, GroupSetting) M" where
  "settingRepo_GetSettings groupID =
     find_one (\<lambda>d. first_where (\<lambda>s. gs_GroupID s = groupID) (\<lambda>_. 0::int) (group_settings d))"

definition settingRepo_UpdateSettings :: "string \<Rightarrow> setting_field list \<Rightarrow> (group_db, unit) M" where
  "settingRepo_UpdateSettings groupID updates =
     bindE now (\<lambda>t. modify (\<lambda>d. d\<lparr>group_settings := update_where (\<lambda>s. gs_GroupID s = groupID)
       (\<lambda>s. (fold set_setting_field updates s)\<lparr>gs_UpdatedAt := t\<rparr>) (group_settings d)\<rparr>))"

definition settingRepo_Delete :: "string \<Rightarrow> (group_db, unit) M" where
  "settingRepo_Delete groupID =
     modify (\<lambda>d. d\<lparr>group_settings := delete_where (\<lambda>s. gs_GroupID s = groupID) (group_settings d)\<rparr>)"

subsection \<open>Join request repository\<close>

definition joinRequestRepo_Create :: "GroupJoinRequest \<Rightarrow> (group_db, int) M" where
  "joinRequestRepo_Create r =
     bindE now (\<lambda>t. bindE (next_serial SeqGroupJoinRequests) (\<lambda>i.
       exec (\<lambda>d. case insert_unique jr_ID (r\<lparr>jr_ID := i, jr_Status := or_default 1 (jr_Status r),
                jr_UpdatedAt := t\<rparr>) (group_join_requests d) of
           None \<Rightarrow> Inl (UniqueViolation ''group_join_requests_pkey'')
         | Some rows \<Rightarrow> Inr (i, d\<lparr>group_join_requests := rows\<rparr>))))"

definition joinRequestRepo_GetByID :: "int \<Rightarrow> (group_db, GroupJoinRequest) M" where
  "joinRequestRepo_GetByID i =
     find_one (\<lambda>d. first_where (\<lambda>r. jr_ID r = i) jr_ID (group_join_requests d))"

definition joinRequestRepo_UpdateStatus :: "int \<Rightarrow> int \<Rightarrow> (group_db, unit) M" where
  "joinRequestRepo_UpdateStatus i status =
     bindE now (\<lambda>t. modify (\<lambda>d. d\<lparr>group_join_requests := update_where (\<lambda>r. jr_ID r = i)
       (\<lambda>r. r\<lparr>jr_Status := status, jr_UpdatedAt := t\<rparr>) (group_join_requests d)\<rparr>))"

definition joinRequestRepo_GetRequestsByGroup ::
    "string \<Rightarrow> int option \<Rightarrow> (group_db, GroupJoinRequest list) M" where
  "joinRequestRepo_GetRequestsByGroup groupID status =
     query (\<lambda>d. select_where (\<lambda>r. jr_GroupID r = groupID \<and>
         (case status of None \<Rightarrow> True | Some s \<Rightarrow> jr_Status r = s))
       (\<lambda>r. - jr_CreatedAt r) (group_join_requests d))"

definition joinRequestRepo_GetExistingRequest ::
    "string \<Rightarrow> string \<Rightarrow> (group_db, GroupJoinRequest option) M" where
  "joinRequestRepo_GetExistingRequest groupID userID =
     optionalE (find_one (\<lambda>d. first_where (\<lambda>r. jr_GroupID r = groupID \<and> jr_UserID r = userID \<and>
       jr_Status r = JoinRequestStatusPending) jr_ID (group_join_requests d)))"

definition joinRequestRepo_GetPendingRequestsByGroup :: "string \<Rightarrow> (group_db, GroupJoinRequest list) M" where
  "joinRequestRepo_GetPendingRequestsByGroup groupID =
     query (\<lambda>d. select_where (\<lambda>r. jr_GroupID r = groupID \<and> jr_Status r = JoinRequestStatusPending)
       (\<lambda>r. - jr_CreatedAt r) (group_join_requests d))"

definition joinRequestRepo_GetPendingRequestsByUser :: "string \<Rightarrow> (group_db, GroupJoinRequest list) M" where
  "joinRequestRepo_GetPendingRequestsByUser userID =
     query (\<lambda>d. select_where (\<lambda>r. jr_UserID r = userID \<and> jr_Status r = JoinRequestStatusPending)
       (\<lambda>r. - jr_CreatedAt r) (group_join_requests d))"

subsection \<open>Pinned message repository\<close>

text \<open>\<open>FirstOrCreate\<close> with \<open>Assign\<close>: look the row up; update it when it exists, insert it otherwise.\<close>

definition pinnedRepo_Upsert :: "GroupPinnedMessage \<Rightarrow> (group_db, unit) M" where
  "pinnedRepo_Upsert p =
     bindE now (\<lambda>t.
     bindE (optionalE (find_one (\<lambda>d. first_where (\<lambda>x. pm_GroupID x = pm_GroupID p \<and>
         pm_MessageID x = pm_MessageID p) pm_ID (group_pinned_messages d)))) (\<lambda>existing.
     case existing of
       Some x \<Rightarrow> modify (\<lambda>d. d\<lparr>group_pinned_messages := update_where (\<lambda>y. pm_ID y = pm_ID x)
           (\<lambda>y. y\<lparr>pm_PinnedBy := pm_PinnedBy p, pm_Content := pm_Content p,
                 pm_ContentType := pm_ContentType p, pm_MessageSeq := pm_MessageSeq p,
                 pm_CreatedAt := t, pm_UpdatedAt := t\<rparr>) (group_pinned_messages d)\<rparr>)
     | None \<Rightarrow> bindE (next_serial SeqGroupPinnedMessages) (\<lambda>i.
         exec (\<lambda>d. case insert_unique pinned_key (p\<lparr>pm_ID := i, pm_CreatedAt := t, pm_UpdatedAt := t\<rparr>)
                  (group_pinned_messages d) of
             None \<Rightarrow> Inl (UniqueViolation ''uk_group_pinned_message'')
           | Some rows \<Rightarrow> Inr ((), d\<lparr>group_pinned_messages := rows\<rparr>)))))"

definition pinnedRepo_Delete :: "string \<Rightarrow> string \<Rightarrow> (group_db, bool) M" where
  "pinnedRepo_Delete groupID messageID =
     exec (\<lambda>d. let p = (\<lambda>x. pm_GroupID x = groupID \<and> pm_MessageID x = messageID) in
       Inr (count_where p (group_pinned_messages d) > 0,
            d\<lparr>group_pinned_messages := delete_where p (group_pinned_messages d)\<rparr>))"

definition pinnedRepo_ListByGroup :: "string \<Rightarrow> (group_db, GroupPinnedMessage list) M" where
  "pinnedRepo_ListByGroup groupID =
     query (\<lambda>d. select_where (\<lambda>p. pm_GroupID p = groupID) (\<lambda>p. - pm_CreatedAt p) (group_pinned_messages d))"

definition pinnedRepo_CountByGroup :: "string \<Rightarrow> (group_db, int) M" where
  "pinnedRepo_CountByGroup groupID =
     query (\<lambda>d. int (count_where (\<lambda>p. pm_GroupID p = groupID) (group_pinned_messages d)))"

definition pinnedRepo_Exists :: "string \<Rightarrow> string \<Rightarrow> (group_db, bool) M" where
  "pinnedRepo_Exists groupID messageID =
     query (\<lambda>d. count_where (\<lambda>p. pm_GroupID p = groupID \<and> pm_MessageID p = messageID)
       (group_pinned_messages d) > 0)"

subsection \<open>QR code repository\<close>

definition qrcodeRepo_Create :: "GroupQRCode \<Rightarrow> (group_db, unit) M" where
  "qrcodeRepo_Create q =
     bindE (next_serial SeqGroupQRCodes) (\<lambda>i.
       exec (\<lambda>d. case insert_unique qr_Token (q\<lparr>qr_ID := i\<rparr>) (group_qrcodes d) of
           None \<Rightarrow> Inl (UniqueViolation ''group_qrcodes_token_key'')
         | Some rows \<Rightarrow> Inr ((), d\<lparr>group_qrcodes := rows\<rparr>)))"

definition qrcodeRepo_GetActiveByGroupID :: "string \<Rightarrow> (group_db, GroupQRCode) M" where
  "qrcodeRepo_GetActiveByGroupID groupID =
     find_one (\<lambda>d. first_where (\<lambda>q. qr_GroupID q = groupID \<and> qr_IsActive q)
       (\<lambda>q. (- qr_CreatedAt q, qr_ID q)) (group_qrcodes d))"

definition qrcodeRepo_GetByToken :: "string \<Rightarrow> (group_db, GroupQRCode) M" where
  "qrcodeRepo_GetByToken token = find_one (\<lambda>d. first_where (\<lambda>q. qr_Token q = token) qr_ID (group_qrcodes d))"

definition qrcodeRepo_InvalidateByGroupID :: "string \<Rightarrow> (group_db, unit) M" where
  "qrcodeRepo_InvalidateByGroupID groupID =
     bindE now (\<lambda>t. modify (\<lambda>d. d\<lparr>group_qrcodes := update_where
       (\<lambda>q. qr_GroupID q = groupID \<and> qr_IsActive q)
       (\<lambda>q. q\<lparr>qr_IsActive := False, qr_UpdatedAt := t\<rparr>) (group_qrcodes d)\<rparr>))"

definition qrcodeRepo_UpdateExpireAt :: "string \<Rightarrow> int \<Rightarrow> (group_db, unit) M" where
  "qrcodeRepo_UpdateExpireAt token expireAt =
     bindE now (\<lambda>t. modify (\<lambda>d. d\<lparr>group_qrcodes := update_where (\<lambda>q. qr_Token q = token)
       (\<lambda>q. q\<lparr>qr_ExpireAt := expireAt, qr_UpdatedAt := t\<rparr>) (group_qrcodes d)\<rparr>))"

lemmas group_repo_defs =
  groupRepo_Create_def groupRepo_GetByGroupID_def groupRepo_UpdateFields_def groupRepo_Delete_def
  groupRepo_UpdateMemberCount_def memberRepo_AddMember_def memberRepo_RemoveMember_def
  memberRepo_UpdateRole_def memberRepo_UpdateNickname_def memberRepo_UpdateRemark_def
  memberRepo_UpdateMutedUntil_def memberRepo_GetMember_def memberRepo_GetMemberCount_def
  memberRepo_IsMember_def settingRepo_Create_def settingRepo_GetSettings_def
  settingRepo_UpdateSettings_def joinRequestRepo_Create_def joinRequestRepo_GetByID_def
  joinRequestRepo_UpdateStatus_def joinRequestRepo_GetExistingRequest_def pinnedRepo_Delete_def
  pinnedRepo_CountByGroup_def pinnedRepo_Exists_def qrcodeRepo_Create_def
  qrcodeRepo_GetActiveByGroupID_def qrcodeRepo_GetByToken_def qrcodeRepo_InvalidateByGroupID_def
  qrcodeRepo_UpdateExpireAt_def

end
