(* ===== verification/Group_Service.thy ===== *)
theory Group_Service
  imports Group_Model
begin

text \<open>
  The operations of the group service (\<open>internal/service/group_service.go\<close>), each written in the order
  of the source: lookups with their error translation, permission checks, the transaction and the
  publication whose error is only logged.
\<close>

subsection \<open>Errors the operations share\<close>

definition errGroupNotFound :: err where
  "errGroupNotFound = NewBusiness CodeGroupNotFound ''Group not found''"
definition errDissolved :: err where
  "errDissolved = NewBusiness CodeGroupDissolved ''Group has been dissolved''"
definition errNotMember :: err where
  "errNotMember = NewBusiness CodeNotGroupMember ''You are not a group member''"
definition errTargetNotMember :: err where
  "errTargetNotMember = NewBusiness CodeNotGroupMember ''Target user is not a group member''"
definition errNewOwnerNotMember :: err where
  "errNewOwnerNotMember = NewBusiness CodeNotGroupMember ''New owner is not a group member''"
definition errLimitReached :: err where
  "errLimitReached = NewBusiness CodeGroupMemberLimitReached ''Group member limit reached''"
definition errAlreadyMember :: err where
  "errAlreadyMember = NewBusiness CodeAlreadyGroupMember ''You are already a group member''"
definition errQRInvalid :: err where
  "errQRInvalid = NewBusiness CodeGroupQRInvalid ''QR code invalid''"
definition errQRExpired :: err where
  "errQRExpired = NewBusiness CodeGroupQRExpired
     ''QR code expired, please contact group member to get new one''"
definition errNoAdmin :: "string \<Rightarrow> err" where
  "errNoAdmin msg = NewBusiness CodeNoAdminPermission msg"
definition errNoOwner :: "string \<Rightarrow> err" where
  "errNoOwner msg = NewBusiness CodeNoOwnerPermission msg"

record PinnedSource =
  ps_ConversationId :: string
  ps_ContentType :: int
  ps_Seq :: int
  ps_Content :: string

record group_deps =
  gd_GetMessageById :: "(nat \<Rightarrow> string \<Rightarrow> err + PinnedSource) option"
  gd_SendMessage :: "nat \<Rightarrow> err + unit"
  gd_text_field :: "string \<Rightarrow> string option"

subsection \<open>Notifications\<close>

definition publishGroup :: "string \<Rightarrow> string \<Rightarrow> string \<Rightarrow> payload \<Rightarrow> (group_db, unit) M" where
  "publishGroup groupID typ operatorID payload =
     bindE (NewNotification typ operatorID PriorityNormal) (\<lambda>notif.
       ignoreE (PublishToGroup groupID (WithPayload notif payload)))"

definition publishMemberJoinedNotification :: "string \<Rightarrow> string \<Rightarrow> string \<Rightarrow> (group_db, unit) M" where
  "publishMemberJoinedNotification groupID userID inviterID =
     bindE now (\<lambda>t. publishGroup groupID TypeGroupMemberJoined inviterID
       [(''group_id'', JStr groupID), (''user_id'', JStr userID),
        (''inviter_user_id'', JStr inviterID), (''joined_at'', JInt (unix t))])"

definition publishGroupJoinRequestedNotification ::
    "string \<Rightarrow> string \<Rightarrow> int \<Rightarrow> string \<Rightarrow> (group_db, unit) M" where
  "publishGroupJoinRequestedNotification groupID userID requestID source =
     bindE now (\<lambda>t. publishGroup groupID TypeGroupJoinRequested userID
       [(''group_id'', JStr groupID), (''user_id'', JStr userID), (''request_id'', JInt requestID),
        (''source'', JStr source), (''created_at'', JInt (unix t))])"

definition publishGroupQRCodeRefreshedNotification ::
    "string \<Rightarrow> string \<Rightarrow> string \<Rightarrow> int \<Rightarrow> (group_db, unit) M" where
  "publishGroupQRCodeRefreshedNotification groupID operatorID token expireAt =
     bindE now (\<lambda>t. publishGroup groupID TypeGroupQRCodeRefreshed operatorID
       [(''group_id'', JStr groupID), (''operator_user_id'', JStr operatorID), (''token'', JStr token),
        (''expire_at'', JInt expireAt), (''refreshed_at'', JInt (unix t))])"

definition publishMemberLeftNotification ::
    "string \<Rightarrow> string \<Rightarrow> string \<Rightarrow> string \<Rightarrow> (group_db, unit) M" where
  "publishMemberLeftNotification groupID userID operatorID reason =
     bindE now (\<lambda>t. publishGroup groupID TypeGroupMemberLeft operatorID
       [(''group_id'', JStr groupID), (''user_id'', JStr userID),
        (''operator_user_id'', JStr operatorID), (''reason'', JStr reason), (''left_at'', JInt (unix t))])"

fun info_updates :: "string option \<Rightarrow> string option \<Rightarrow> string option \<Rightarrow> string option \<Rightarrow> group_field list" where
  "info_updates name avatar announcement description =
     (case name of None \<Rightarrow> [] | Some v \<Rightarrow> [FName v]) @
     (case avatar of None \<Rightarrow> [] | Some v \<Rightarrow> [FAvatar v]) @
     (case announcement of None \<Rightarrow> [] | Some v \<Rightarrow> [FAnnouncement v]) @
     (case description of None \<Rightarrow> [] | Some v \<Rightarrow> [FDescription v])"

fun info_column :: "group_field \<Rightarrow> string \<times> string \<times> string" where
  "info_column (FName v) = (''name'', ''group_name'', v)"
| "info_column (FAvatar v) = (''avatar'', ''group_avatar'', v)"
| "info_column (FAnnouncement v) = (''announcement'', ''announcement'', v)"
| "info_column (FDescription v) = (''description'', ''description'', v)"
| "info_column (FOwnerID v) = (''owner_id'', ''owner_id'', v)"
| "info_column (FIsMuted v) = (''is_muted'', ''is_muted'', [])"

definition publishGroupInfoUpdatedNotification ::
    "string \<Rightarrow> string \<Rightarrow> group_field list \<Rightarrow> (group_db, unit) M" where
  "publishGroupInfoUpdatedNotification groupID operatorID updates =
     bindE now (\<lambda>t. publishGroup groupID TypeGroupInfoUpdated operatorID
       ([(''group_id'', JStr groupID), (''operator_user_id'', JStr operatorID), (''updated_at'', JInt (unix t))] @
        map (\<lambda>u. case info_column u of (_, k, v) \<Rightarrow> (k, JStr v)) updates @
        [(''updated_fields'', JStrs (map (fst \<circ> info_column) updates))]))"

definition publishRoleChangedNotification ::
    "string \<Rightarrow> string \<Rightarrow> string \<Rightarrow> int \<Rightarrow> int \<Rightarrow> (group_db, unit) M" where
  "publishRoleChangedNotification groupID userID operatorID oldRole newRole =
     bindE now (\<lambda>t. publishGroup groupID TypeGroupRoleChanged operatorID
       [(''group_id'', JStr groupID), (''user_id'', JStr userID), (''old_role'', JInt oldRole),
        (''new_role'', JInt newRole), (''operator_user_id'', JStr operatorID), (''changed_at'', JInt (unix t))])"

definition publishMemberMutedNotification ::
    "string \<Rightarrow> string \<Rightarrow> string \<Rightarrow> int option \<Rightarrow> (group_db, unit) M" where
  "publishMemberMutedNotification groupID operatorID targetUserID mutedUntil =
     bindE now (\<lambda>t. publishGroup groupID TypeGroupMemberMuted operatorID
       [(''group_id'', JStr groupID), (''target_user_id'', JStr targetUserID),
        (''operator_user_id'', JStr operatorID),
        (''muted_until'', JInt (case mutedUntil of None \<Rightarrow> 0 | Some u \<Rightarrow> unix u)),
        (''updated_at'', JInt (unix t))])"

definition publishMemberUnmutedNotification :: "string \<Rightarrow> string \<Rightarrow> string \<Rightarrow> (group_db, unit) M" where
  "publishMemberUnmutedNotification groupID operatorID targetUserID =
     bindE now (\<lambda>t. publishGroup groupID TypeGroupMemberUnmuted operatorID
       [(''group_id'', JStr groupID), (''target_user_id'', JStr targetUserID),
        (''operator_user_id'', JStr operatorID), (''updated_at'', JInt (unix t))])"

definition publishGroupMutedNotification :: "string \<Rightarrow> string \<Rightarrow> bool \<Rightarrow> (group_db, unit) M" where
  "publishGroupMutedNotification groupID operatorID enabled =
     bindE now (\<lambda>t. publishGroup groupID TypeGroupMuted operatorID
       [(''group_id'', JStr groupID), (''operator_user_id'', JStr operatorID),
        (''enabled'', JBool enabled), (''updated_at'', JInt (unix t))])"

text \<open>The keys of the update map.  The repository has put \<open>updated_at\<close> into the same map before the
  notification is built; the order of the keys, which Go leaves open, is the order of insertion.\<close>

definition publishGroupSettingsUpdatedNotification ::
    "string \<Rightarrow> string \<Rightarrow> setting_field list \<Rightarrow> (group_db, unit) M" where
  "publishGroupSettingsUpdatedNotification groupID operatorID updates =
     bindE now (\<lambda>t. publishGroup groupID TypeGroupSettingsUpdated operatorID
       [(''group_id'', JStr groupID), (''operator_user_id'', JStr operatorID),
        (''updated_fields'', JStrs (map setting_column updates @ [''updated_at''])), (''updated_at'', JInt (unix t))])"

definition publishGroupMessagePinnedNotification :: "string \<Rightarrow> string \<Rightarrow> string \<Rightarrow> (group_db, unit) M" where
  "publishGroupMessagePinnedNotification groupID operatorID messageID =
     bindE now (\<lambda>t. publishGroup groupID TypeGroupMessagePinned operatorID
       [(''group_id'', JStr groupID), (''operator_user_id'', JStr operatorID),
        (''message_id'', JStr messageID), (''pinned_at'', JInt (unix t))])"

definition publishGroupMessageUnpinnedNotification :: "string \<Rightarrow> string \<Rightarrow> string \<Rightarrow> (group_db, unit) M" where
  "publishGroupMessageUnpinnedNotification groupID operatorID messageID =
     bindE now (\<lambda>t. publishGroup groupID TypeGroupMessageUnpinned operatorID
       [(''group_id'', JStr groupID), (''operator_user_id'', JStr operatorID),
        (''message_id'', JStr messageID), (''unpinned_at'', JInt (unix t))])"

definition publishGroupDisbandedNotification :: "string \<Rightarrow> string \<Rightarrow> string \<Rightarrow> (group_db, unit) M" where
  "publishGroupDisbandedNotification groupID operatorID groupName =
     bindE now (\<lambda>t. publishGroup groupID TypeGroupDisbanded operatorID
       [(''group_id'', JStr groupID), (''operator_user_id'', JStr operatorID),
        (''group_name'', JStr groupName), (''disbanded_at'', JInt (unix t))])"

lemmas group_publish_defs = publishMemberJoinedNotification_def publishGroupJoinRequestedNotification_def
  publishGroupQRCodeRefreshedNotification_def publishMemberLeftNotification_def
  publishGroupInfoUpdatedNotification_def publishRoleChangedNotification_def
  publishMemberMutedNotification_def publishMemberUnmutedNotification_def publishGroupMutedNotification_def
  publishGroupSettingsUpdatedNotification_def publishGroupMessagePinnedNotification_def
  publishGroupMessageUnpinnedNotification_def publishGroupDisbandedNotification_def

subsection \<open>Helpers\<close>

definition newMember :: "string \<Rightarrow> string \<Rightarrow> int \<Rightarrow> int \<Rightarrow> GroupMember" where
  "newMember groupID userID role joinedAt =
     \<lparr>gm_ID = 0, gm_GroupID = groupID, gm_UserID = userID, gm_GroupNickname = '''', gm_GroupRemark = '''',
      gm_Role = role, gm_MutedUntil = None, gm_JoinedAt = joinedAt, gm_UpdatedAt = 0\<rparr>"

text \<open>The transaction that adds a regular member and counts it, as \<open>InviteMembers\<close>, \<open>JoinGroup\<close> and
  \<open>JoinGroupByQRCode\<close> run it.\<close>

definition addMemberTx :: "string \<Rightarrow> string \<Rightarrow> (group_db, unit) M" where
  "addMemberTx groupID userID = transaction (
     bindE now (\<lambda>t. thenE (memberRepo_AddMember (newMember groupID userID GroupRoleMember t))
       (groupRepo_UpdateMemberCount groupID 1)))"

definition removeMemberTx :: "string \<Rightarrow> string \<Rightarrow> (group_db, unit) M" where
  "removeMemberTx groupID userID = transaction (
     thenE (memberRepo_RemoveMember groupID userID) (groupRepo_UpdateMemberCount groupID (- 1)))"

definition getGroupJoinVerify :: "string \<Rightarrow> (group_db, bool) M" where
  "getGroupJoinVerify groupID =
     bindE (attemptE (settingRepo_GetSettings groupID)) (\<lambda>settings. returnE
       (case settings of None \<Rightarrow> True | Some s \<Rightarrow> gs_JoinVerify s))"

definition newJoinRequest :: "string \<Rightarrow> string \<Rightarrow> string \<Rightarrow> string \<Rightarrow> int \<Rightarrow> GroupJoinRequest" where
  "newJoinRequest groupID userID inviterID message t =
     \<lparr>jr_ID = 0, jr_GroupID = groupID, jr_UserID = userID, jr_InviterID = inviterID, jr_Message = message,
      jr_Status = JoinRequestStatusPending, jr_CreatedAt = t, jr_UpdatedAt = 0\<rparr>"

text \<open>\<open>ptrStr\<close>: an absent optional string reads as the empty one.\<close>

definition ptrStr :: "string option \<Rightarrow> string" where
  "ptrStr s = (case s of None \<Rightarrow> '''' | Some v \<Rightarrow> v)"

subsection \<open>Groups\<close>

record CreateGroupResponse =
  cg_GroupId :: string
  cg_Name :: string
  cg_OwnerId :: string
  cg_MemberCount :: int
  cg_CreatedAt :: int
  cg_Avatar :: "string option"

definition CreateGroup :: "string \<Rightarrow> string \<Rightarrow> string option \<Rightarrow> string list \<Rightarrow> (group_db, CreateGroupResponse) M" where
  "CreateGroup ownerID name avatar memberIds =
     thenE (guardE (memberIds \<noteq> []) (NewBusiness CodeGroupMemberTooFew ''At least one member must be invited'')) (
     let totalMembers = int (length memberIds) + 1 in
     thenE (guardE (\<not> totalMembers > 500)
       (NewBusiness CodeGroupMemberLimitReached ''Group member count exceeds limit'')) (
     bindE new_uuid (\<lambda>groupID.
     bindE now (\<lambda>createdAt. bindE now (\<lambda>updatedAt.
     let group = \<lparr>g_ID = 0, g_GroupID = groupID, g_Name = name, g_Avatar = ptrStr avatar,
           g_Announcement = '''', g_Description = '''', g_OwnerID = ownerID,
           g_MemberCount = int32 totalMembers, g_MaxMembers = 500, g_IsMuted = False,
           g_Status = GroupStatusNormal, g_CreatedAt = createdAt, g_UpdatedAt = updatedAt\<rparr> in
     thenE (transaction (
       thenE (groupRepo_Create group) (
       thenE (settingRepo_Create (DefaultGroupSetting groupID)) (
       bindE now (\<lambda>t1.
       thenE (memberRepo_AddMember (newMember groupID ownerID GroupRoleOwner t1)) (
       bindE now (\<lambda>t2.
       let members = map (\<lambda>memberID. newMember groupID memberID GroupRoleMember t2)
             (filter (\<lambda>memberID. memberID \<noteq> ownerID) memberIds) in
       if members \<noteq> [] then memberRepo_AddMembers members else returnE ()))))))) (
     thenE (forE memberIds (\<lambda>memberID. publishMemberJoinedNotification groupID memberID ownerID)) (
     returnE \<lparr>cg_GroupId = groupID, cg_Name = name, cg_OwnerId = ownerID,
       cg_MemberCount = g_MemberCount group, cg_CreatedAt = createdAt,
       cg_Avatar = (if g_Avatar group \<noteq> '''' then Some (g_Avatar group) else None)\<rparr>)))))))"

record GroupInfoResponse =
  gi_Group :: Group
  gi_DisplayName :: string
  gi_JoinVerify :: bool

definition GetGroupInfo :: "string \<Rightarrow> string \<Rightarrow> (group_db, GroupInfoResponse) M" where
  "GetGroupInfo groupID userID =
     bindE (notFoundE (groupRepo_GetByGroupID groupID) errGroupNotFound) (\<lambda>group.
     thenE (guardE (Group_IsActive group) errDissolved) (
     bindE (if userID \<noteq> '''' then
         bindE (attemptE (memberRepo_GetMember groupID userID)) (\<lambda>m. returnE (case m of
             Some member \<Rightarrow> if gm_GroupRemark member \<noteq> '''' then gm_GroupRemark member else g_Name group
           | None \<Rightarrow> g_Name group))
       else returnE (g_Name group)) (\<lambda>displayName.
     bindE (getGroupJoinVerify groupID) (\<lambda>joinVerify.
     returnE \<lparr>gi_Group = group, gi_DisplayName = displayName, gi_JoinVerify = joinVerify\<rparr>))))"

definition UpdateGroup ::
    "string \<Rightarrow> string \<Rightarrow> string option \<Rightarrow> string option \<Rightarrow> string option \<Rightarrow> string option \<Rightarrow> (group_db, unit) M" where
  "UpdateGroup userID groupID name avatar announcement description =
     bindE (notFoundE (memberRepo_GetMember groupID userID) errNotMember) (\<lambda>member.
     thenE (if \<not> CanManageGroup member then
         bindE (optionalE (settingRepo_GetSettings groupID)) (\<lambda>settings.
           guardE (case settings of None \<Rightarrow> False | Some s \<Rightarrow> gs_AllowMemberModify s)
             (errNoAdmin ''No permission to update group info''))
       else returnE ()) (
     let updates = info_updates name avatar announcement description in
     if updates = [] then returnE ()
     else thenE (groupRepo_UpdateFields groupID updates)
            (publishGroupInfoUpdatedNotification groupID userID updates)))"

definition DisbandGroup :: "string \<Rightarrow> string \<Rightarrow> (group_db, unit) M" where
  "DisbandGroup userID groupID =
     bindE (notFoundE (memberRepo_GetMember groupID userID) errNotMember) (\<lambda>member.
     thenE (guardE (GroupMember_IsOwner member) (errNoOwner ''Only the owner can dissolve the group'')) (
     thenE (groupRepo_Delete groupID) (
     bindE (attemptE (groupRepo_GetByGroupID groupID)) (\<lambda>group.
     publishGroupDisbandedNotification groupID userID
       (case group of None \<Rightarrow> '''' | Some g \<Rightarrow> g_Name g)))))"

record GroupInfo =
  gl_GroupId :: string
  gl_Name :: string
  gl_DisplayName :: string
  gl_Avatar :: string
  gl_MemberCount :: int
  gl_UpdatedAt :: int

fun collectGroups :: "GroupMember list \<Rightarrow> (group_db, GroupInfo list) M" where
  "collectGroups [] = returnE []"
| "collectGroups (member # rest) =
     bindE (attemptE (groupRepo_GetByGroupID (gm_GroupID member))) (\<lambda>group.
     bindE (collectGroups rest) (\<lambda>gs. returnE (case group of
         None \<Rightarrow> gs
       | Some g \<Rightarrow> if \<not> Group_IsActive g then gs else
           \<lparr>gl_GroupId = g_GroupID g, gl_Name = g_Name g,
            gl_DisplayName = (if gm_GroupRemark member \<noteq> '''' then gm_GroupRemark member else g_Name g),
            gl_Avatar = g_Avatar g, gl_MemberCount = g_MemberCount g, gl_UpdatedAt = g_UpdatedAt g\<rparr> # gs)))"

definition GetUserGroups :: "string \<Rightarrow> int option \<Rightarrow> (group_db, GroupInfo list \<times> int \<times> int) M" where
  "GetUserGroups userID lastUpdateTime =
     bindE (case lastUpdateTime of
         Some t \<Rightarrow> if t > 0 then memberRepo_GetUserGroupsByUpdateTime userID (t * Second)
                   else memberRepo_GetUserGroups userID
       | None \<Rightarrow> memberRepo_GetUserGroups userID) (\<lambda>members.
     bindE (collectGroups members) (\<lambda>groups.
     bindE now (\<lambda>t. returnE (groups, int (length groups), unix t))))"

record GroupMemberInfo =
  gmi_UserId :: string
  gmi_Role :: int
  gmi_JoinedAt :: int
  gmi_MutedUntil :: "int option"
  gmi_GroupNickname :: "string option"

definition memberInfo :: "GroupMember \<Rightarrow> GroupMemberInfo" where
  "memberInfo m = \<lparr>gmi_UserId = gm_UserID m, gmi_Role = gm_Role m, gmi_JoinedAt = gm_JoinedAt m,
     gmi_MutedUntil = gm_MutedUntil m,
     gmi_GroupNickname = (if gm_GroupNickname m \<noteq> '''' then Some (gm_GroupNickname m) else None)\<rparr>"

definition GetGroupMembers ::
    "string \<Rightarrow> string \<Rightarrow> int option \<Rightarrow> int option \<Rightarrow> (group_db, GroupMemberInfo list \<times> int) M" where
  "GetGroupMembers userID groupID reqPage reqPageSize =
     (let page = (case reqPage of None \<Rightarrow> 1 | Some p \<Rightarrow> p);
          pageSize = (case reqPageSize of None \<Rightarrow> 20 | Some p \<Rightarrow> p) in
     bindE (memberRepo_IsMember groupID userID) (\<lambda>isMember.
     thenE (guardE isMember errNotMember) (
     let page = (if page \<le> 0 then 1 else page);
         pageSize = (if pageSize \<le> 0 \<or> pageSize > 100 then 20 else pageSize) in
     bindE (memberRepo_GetMembers groupID page pageSize) (\<lambda>(members, total).
     returnE (map memberInfo members, total)))))"

subsection \<open>Membership\<close>

definition inviteOne :: "string \<Rightarrow> string \<Rightarrow> bool \<Rightarrow> string \<Rightarrow> (group_db, unit) M" where
  "inviteOne groupID userID joinVerify inviteeID =
     bindE (attemptE (memberRepo_IsMember groupID inviteeID)) (\<lambda>r.
     let isMember = (case r of None \<Rightarrow> False | Some b \<Rightarrow> b) in
     if isMember then returnE ()
     else if joinVerify then
       bindE now (\<lambda>t. ignoreE (joinRequestRepo_Create (newJoinRequest groupID inviteeID userID '''' t)))
     else ignoreE (addMemberTx groupID inviteeID))"

definition InviteMembers :: "string \<Rightarrow> string \<Rightarrow> string list \<Rightarrow> (group_db, unit) M" where
  "InviteMembers userID groupID inviteeIDs =
     bindE (notFoundE (groupRepo_GetByGroupID groupID) errGroupNotFound) (\<lambda>group.
     thenE (guardE (Group_IsActive group) errDissolved) (
     bindE (notFoundE (memberRepo_GetMember groupID userID) errNotMember) (\<lambda>inviter.
     bindE (optionalE (settingRepo_GetSettings groupID)) (\<lambda>settings.
     thenE (guardE (\<not> (case settings of None \<Rightarrow> False
                        | Some s \<Rightarrow> \<not> gs_AllowMemberInvite s \<and> \<not> CanManageGroup inviter))
       (errNoAdmin ''Group settings do not allow regular members to invite'')) (
     let joinVerify = (case settings of None \<Rightarrow> True | Some s \<Rightarrow> gs_JoinVerify s) in
     thenE (guardE (\<not> Group_IsFull group) errLimitReached)
       (forE inviteeIDs (inviteOne groupID userID joinVerify)))))))"

definition RemoveMember :: "string \<Rightarrow> string \<Rightarrow> string \<Rightarrow> (group_db, unit) M" where
  "RemoveMember userID groupID targetUserID =
     bindE (notFoundE (memberRepo_GetMember groupID userID) errNotMember) (\<lambda>operator.
     bindE (notFoundE (memberRepo_GetMember groupID targetUserID) errTargetNotMember) (\<lambda>target.
     thenE (guardE (\<not> GroupMember_IsOwner target)
       (NewBusiness CodeCannotRemoveOwner ''Cannot remove group owner'')) (
     thenE (guardE (CanRemoveMember operator (gm_Role target))
       (if gm_Role target = GroupRoleAdmin
        then NewBusiness CodeCannotRemoveAdmin ''Admins cannot remove other admins''
        else errNoAdmin ''No permission to remove member'')) (
     thenE (removeMemberTx groupID targetUserID)
       (publishMemberLeftNotification groupID targetUserID userID ''removed_by_admin'')))))"

definition QuitGroup :: "string \<Rightarrow> string \<Rightarrow> (group_db, unit) M" where
  "QuitGroup userID groupID =
     bindE (notFoundE (memberRepo_GetMember groupID userID) errNotMember) (\<lambda>member.
     if GroupMember_IsOwner member then
       bindE (memberRepo_GetMemberCount groupID) (\<lambda>count.
       if count = 1 then DisbandGroup userID groupID
       else throwE (NewBusiness CodeCannotQuitOwnGroup
         ''Owner cannot quit group, please transfer ownership or dissolve group first''))
     else
       thenE (removeMemberTx groupID userID)
         (publishMemberLeftNotification groupID userID userID ''self_quit''))"

definition UpdateMemberRole :: "string \<Rightarrow> string \<Rightarrow> string \<Rightarrow> int \<Rightarrow> (group_db, unit) M" where
  "UpdateMemberRole userID groupID targetUserID reqRole =
     bindE (notFoundE (memberRepo_GetMember groupID userID) errNotMember) (\<lambda>operator.
     thenE (guardE (GroupMember_IsOwner operator) (errNoOwner ''Only owner can set admin'')) (
     bindE (notFoundE (memberRepo_GetMember groupID targetUserID) errTargetNotMember) (\<lambda>target.
     thenE (guardE (\<not> GroupMember_IsOwner target) (errNoOwner ''Cannot modify owner role'')) (
     let newRole = int16 reqRole in
     thenE (memberRepo_UpdateRole groupID targetUserID newRole)
       (publishRoleChangedNotification groupID targetUserID userID (gm_Role target) newRole)))))"

definition UpdateMemberNickname :: "string \<Rightarrow> string \<Rightarrow> string \<Rightarrow> (group_db, unit) M" where
  "UpdateMemberNickname userID groupID nickname =
     bindE (memberRepo_IsMember groupID userID) (\<lambda>isMember.
     thenE (guardE isMember errNotMember) (memberRepo_UpdateNickname groupID userID nickname))"

definition TransferOwnership :: "string \<Rightarrow> string \<Rightarrow> string \<Rightarrow> (group_db, unit) M" where
  "TransferOwnership userID groupID newOwnerID =
     bindE (notFoundE (memberRepo_GetMember groupID userID) errNotMember) (\<lambda>operator.
     thenE (guardE (GroupMember_IsOwner operator) (errNoOwner ''Only owner can transfer group'')) (
     bindE (notFoundE (memberRepo_GetMember groupID newOwnerID) errNewOwnerNotMember) (\<lambda>newOwner.
     if GroupMember_IsOwner newOwner then returnE ()
     else transaction (
       thenE (groupRepo_UpdateFields groupID [FOwnerID newOwnerID]) (
       thenE (memberRepo_UpdateRole groupID userID GroupRoleAdmin)
             (memberRepo_UpdateRole groupID newOwnerID GroupRoleOwner))))))"

abbreviation (input) MUTE_TYPE_PERMANENT :: int where "MUTE_TYPE_PERMANENT \<equiv> 1"
abbreviation (input) MUTE_TYPE_TEMPORARY :: int where "MUTE_TYPE_TEMPORARY \<equiv> 2"

text \<open>\<open>time.Duration(req.DurationMinutes) * time.Minute\<close> is a 64-bit product.\<close>

definition muteDuration :: "int \<Rightarrow> int" where
  "muteDuration durationMinutes = int64 (durationMinutes * Minute)"

definition MuteMember :: "string \<Rightarrow> string \<Rightarrow> string \<Rightarrow> int \<Rightarrow> int \<Rightarrow> (group_db, unit) M" where
  "MuteMember userID groupID targetUserID muteType durationMinutes =
     bindE (notFoundE (memberRepo_GetMember groupID userID) errNotMember) (\<lambda>operator.
     bindE (notFoundE (memberRepo_GetMember groupID targetUserID) errTargetNotMember) (\<lambda>target.
     thenE (guardE (\<not> GroupMember_IsOwner target) (errNoAdmin ''Cannot mute group owner'')) (
     thenE (guardE (CanMuteMember operator (gm_Role target)) (errNoAdmin ''No permission to mute member'')) (
     bindE (if muteType = MUTE_TYPE_PERMANENT then returnE PermanentMutedUntil
            else if muteType = MUTE_TYPE_TEMPORARY then
              thenE (guardE (\<not> durationMinutes \<le> 0)
                (NewBusiness CodeParamError ''Temporary mute duration must be greater than 0'')) (
              bindE now (\<lambda>t. returnE (t + muteDuration durationMinutes)))
            else throwE (NewBusiness CodeParamError ''Invalid mute type'')) (\<lambda>mutedUntil.
     thenE (memberRepo_UpdateMutedUntil groupID targetUserID (Some mutedUntil))
       (publishMemberMutedNotification groupID userID targetUserID (Some mutedUntil)))))))"

definition UnmuteMember :: "string \<Rightarrow> string \<Rightarrow> string \<Rightarrow> (group_db, unit) M" where
  "UnmuteMember userID groupID targetUserID =
     bindE (notFoundE (memberRepo_GetMember groupID userID) errNotMember) (\<lambda>operator.
     bindE (notFoundE (memberRepo_GetMember groupID targetUserID) errTargetNotMember) (\<lambda>target.
     thenE (guardE (\<not> GroupMember_IsOwner target) (errNoAdmin ''Cannot operate on group owner'')) (
     thenE (guardE (CanMuteMember operator (gm_Role target)) (errNoAdmin ''No permission to unmute member'')) (
     thenE (memberRepo_UpdateMutedUntil groupID targetUserID None)
       (publishMemberUnmutedNotification groupID userID targetUserID)))))"

record JoinGroupResponse =
  jg_NeedVerify :: bool
  jg_RequestId :: "int option"

definition JoinGroup ::
    "string \<Rightarrow> string \<Rightarrow> string option \<Rightarrow> string option \<Rightarrow> (group_db, JoinGroupResponse) M" where
  "JoinGroup userID groupID message inviterId =
     bindE (notFoundE (groupRepo_GetByGroupID groupID) errGroupNotFound) (\<lambda>group.
     thenE (guardE (Group_IsActive group) errDissolved) (
     bindE (memberRepo_IsMember groupID userID) (\<lambda>isMember.
     thenE (guardE (\<not> isMember) errAlreadyMember) (
     bindE (joinRequestRepo_GetExistingRequest groupID userID) (\<lambda>existingRequest.
     case existingRequest of
       Some r \<Rightarrow> returnE \<lparr>jg_NeedVerify = True, jg_RequestId = Some (jr_ID r)\<rparr>
     | None \<Rightarrow>
         bindE (getGroupJoinVerify groupID) (\<lambda>joinVerify.
         if joinVerify then
           bindE now (\<lambda>t.
           bindE (joinRequestRepo_Create (newJoinRequest groupID userID (ptrStr inviterId) (ptrStr message) t))
             (\<lambda>requestID. returnE \<lparr>jg_NeedVerify = True, jg_RequestId = Some requestID\<rparr>))
         else thenE (addMemberTx groupID userID)
                (returnE \<lparr>jg_NeedVerify = False, jg_RequestId = None\<rparr>)))))))"

definition HandleJoinRequest :: "string \<Rightarrow> string \<Rightarrow> int \<Rightarrow> bool \<Rightarrow> (group_db, unit) M" where
  "HandleJoinRequest userID groupID requestID accept =
     bindE (notFoundE (joinRequestRepo_GetByID requestID)
       (NewBusiness CodeJoinRequestNotFound ''Join request not found'')) (\<lambda>request.
     thenE (guardE (\<not> JoinRequest_IsProcessed request)
       (NewBusiness CodeJoinRequestProcessed ''Request already processed'')) (
     bindE (notFoundE (memberRepo_GetMember groupID userID) errNotMember) (\<lambda>operator.
     thenE (guardE (CanManageGroup operator) (errNoAdmin ''No permission to handle request'')) (
     if accept then transaction (
       thenE (joinRequestRepo_UpdateStatus requestID JoinRequestStatusAccepted) (
       bindE now (\<lambda>t.
       thenE (memberRepo_AddMember (newMember (jr_GroupID request) (jr_UserID request) GroupRoleMember t))
         (groupRepo_UpdateMemberCount (jr_GroupID request) 1))))
     else joinRequestRepo_UpdateStatus requestID JoinRequestStatusRejected))))"

definition GetJoinRequests :: "string \<Rightarrow> string \<Rightarrow> int option \<Rightarrow> (group_db, GroupJoinRequest list) M" where
  "GetJoinRequests userID groupID status =
     bindE (notFoundE (memberRepo_GetMember groupID userID) errNotMember) (\<lambda>operator.
     thenE (guardE (CanManageGroup operator) (errNoAdmin ''No permission to view join requests''))
       (joinRequestRepo_GetRequestsByGroup groupID (map_option int16 status)))"

subsection \<open>Pinned messages\<close>

definition maxPinnedMessagesPerGroup :: int where "maxPinnedMessagesPerGroup = 20"
definition pinnedMessagePreviewMaxRuneCount :: int where "pinnedMessagePreviewMaxRuneCount = 100"

definition truncateWithEllipsis :: "string \<Rightarrow> int \<Rightarrow> string" where
  "truncateWithEllipsis text maxRunes =
     (if maxRunes \<le> 0 \<or> int (rune_count text) \<le> maxRunes then text
      else concat (take (nat maxRunes) (runes text)) @ ''...'')"

definition buildPinnedMessagePreview :: "group_deps \<Rightarrow> string \<Rightarrow> int \<Rightarrow> string" where
  "buildPinnedMessagePreview deps content contentType =
     (if contentType = 1 then
        (let raw = (let rawText = trim_space content in
               if rawText \<noteq> '''' then truncateWithEllipsis rawText pinnedMessagePreviewMaxRuneCount
               else ''[Text]'') in
         case gd_text_field deps content of
           None \<Rightarrow> raw
         | Some t \<Rightarrow> (let text = trim_space t in
             if text \<noteq> '''' then truncateWithEllipsis text pinnedMessagePreviewMaxRuneCount else raw))
      else if contentType = 2 then ''[Image]''
      else if contentType = 3 then ''[Video]''
      else if contentType = 4 then ''[Voice]''
      else if contentType = 5 then ''[File]''
      else if contentType = 8 then ''[Location]''
      else if contentType = 10 then ''[Contact]''
      else if contentType = 6 then ''[Sticker]''
      else if contentType = 7 then ''[Emoticon]''
      else if contentType = 9 then ''[Recall]''
      else if contentType = 11 then ''[System]''
      else ''[Message]'')"

definition getPinnedMessageSnapshot ::
    "group_deps \<Rightarrow> string \<Rightarrow> string \<Rightarrow> (group_db, string \<times> int \<times> int option) M" where
  "getPinnedMessageSnapshot deps groupID messageID =
     (case gd_GetMessageById deps of
        None \<Rightarrow> throwE (NewBusiness CodeInternalError ''Message service unavailable'')
      | Some client \<Rightarrow>
          bindE (catchE (rpc (\<lambda>n. client n messageID))
            (\<lambda>_. throwE (NewBusiness CodeMessageNotFound ''Message not found''))) (\<lambda>msg.
          thenE (guardE (ps_ConversationId msg = groupID)
            (NewBusiness CodeMessageNotInGroup ''Message does not belong to this group'')) (
          let contentType = (if ps_ContentType msg = 0 then 1 else ps_ContentType msg);
              seq = (if ps_Seq msg > 0 then Some (ps_Seq msg) else None) in
          returnE (buildPinnedMessagePreview deps (ps_Content msg) contentType, contentType, seq))))"

definition PinGroupMessage :: "group_deps \<Rightarrow> string \<Rightarrow> string \<Rightarrow> string \<Rightarrow> (group_db, unit) M" where
  "PinGroupMessage deps userID groupID messageID =
     bindE (notFoundE (groupRepo_GetByGroupID groupID) errGroupNotFound) (\<lambda>group.
     thenE (guardE (Group_IsActive group) errDissolved) (
     bindE (notFoundE (memberRepo_GetMember groupID userID) errNotMember) (\<lambda>member.
     thenE (guardE (CanManageGroup member) (errNoAdmin ''No permission to pin message'')) (
     bindE (pinnedRepo_Exists groupID messageID) (\<lambda>exists.
     thenE (if \<not> exists then
         bindE (pinnedRepo_CountByGroup groupID) (\<lambda>total.
           guardE (\<not> total \<ge> maxPinnedMessagesPerGroup)
             (NewBusiness CodeGroupPinnedLimitExceeded ''Pinned message limit reached, please unpin some first''))
       else returnE ()) (
     bindE (getPinnedMessageSnapshot deps groupID messageID) (\<lambda>(content, contentType, seq).
     bindE now (\<lambda>t.
     thenE (pinnedRepo_Upsert \<lparr>pm_ID = 0, pm_GroupID = groupID, pm_MessageID = messageID,
         pm_MessageSeq = seq, pm_PinnedBy = userID, pm_Content = content, pm_ContentType = contentType,
         pm_CreatedAt = t, pm_UpdatedAt = t\<rparr>)
       (publishGroupMessagePinnedNotification groupID userID messageID)))))))))"

definition UnpinGroupMessage :: "string \<Rightarrow> string \<Rightarrow> string \<Rightarrow> (group_db, unit) M" where
  "UnpinGroupMessage userID groupID messageID =
     thenE (if userID \<noteq> '''' then
         bindE (notFoundE (groupRepo_GetByGroupID groupID) errGroupNotFound) (\<lambda>group.
         thenE (guardE (Group_IsActive group) errDissolved) (
         bindE (notFoundE (memberRepo_GetMember groupID userID) errNotMember) (\<lambda>member.
         guardE (CanManageGroup member) (errNoAdmin ''No permission to unpin''))))
       else returnE ()) (
     bindE (pinnedRepo_Delete groupID messageID) (\<lambda>deleted.
     if deleted then publishGroupMessageUnpinnedNotification groupID
         (if userID = '''' then ''system'' else userID) messageID
     else returnE ()))"

fun pinnedVersion :: "GroupPinnedMessage list \<Rightarrow> int \<Rightarrow> int" where
  "pinnedVersion [] version = version"
| "pinnedVersion (p # ps) version =
     pinnedVersion ps (let ts = unix (pm_UpdatedAt p) in if ts > version then ts else version)"

definition GetPinnedMessages :: "string \<Rightarrow> string \<Rightarrow> (group_db, GroupPinnedMessage list \<times> int) M" where
  "GetPinnedMessages userID groupID =
     bindE (notFoundE (groupRepo_GetByGroupID groupID) errGroupNotFound) (\<lambda>group.
     thenE (guardE (Group_IsActive group) errDissolved) (
     bindE (memberRepo_IsMember groupID userID) (\<lambda>isMember.
     thenE (guardE isMember errNotMember) (
     bindE (pinnedRepo_ListByGroup groupID) (\<lambda>records.
     returnE (records, pinnedVersion records 0))))))"

subsection \<open>Mute and settings\<close>

definition sendGroupSystemMessage :: "group_deps \<Rightarrow> string \<Rightarrow> string \<Rightarrow> string \<Rightarrow> (group_db, unit) M" where
  "sendGroupSystemMessage deps groupID operatorID text =
     (case gd_GetMessageById deps of
        None \<Rightarrow> returnE ()
      | Some _ \<Rightarrow> bindE new_uuid (\<lambda>localID.
          thenE (emit (Called ''SendMessage'' [operatorID, groupID, text, localID]))
            (rpc (gd_SendMessage deps))))"

definition SetGroupMute :: "group_deps \<Rightarrow> string \<Rightarrow> string \<Rightarrow> bool \<Rightarrow> (group_db, unit) M" where
  "SetGroupMute deps userID groupID enabled =
     bindE (notFoundE (groupRepo_GetByGroupID groupID) errGroupNotFound) (\<lambda>group.
     thenE (guardE (Group_IsActive group) errDissolved) (
     bindE (notFoundE (memberRepo_GetMember groupID userID) errNotMember) (\<lambda>member.
     thenE (guardE (CanManageGroup member) (errNoAdmin ''No permission to set group mute'')) (
     thenE (groupRepo_UpdateFields groupID [FIsMuted enabled]) (
     thenE (ignoreE (sendGroupSystemMessage deps groupID userID
         (if enabled then ''Group mute enabled'' else ''Group mute disabled'')))
       (publishGroupMutedNotification groupID userID enabled))))))"

fun setting_updates :: "bool option \<Rightarrow> bool option \<Rightarrow> bool option \<Rightarrow> bool option \<Rightarrow> bool option \<Rightarrow> setting_field list" where
  "setting_updates joinVerify memberInvite viewHistory addFriend memberModify =
     (case joinVerify of None \<Rightarrow> [] | Some v \<Rightarrow> [FJoinVerify v]) @
     (case memberInvite of None \<Rightarrow> [] | Some v \<Rightarrow> [FAllowMemberInvite v]) @
     (case viewHistory of None \<Rightarrow> [] | Some v \<Rightarrow> [FAllowViewHistory v]) @
     (case addFriend of None \<Rightarrow> [] | Some v \<Rightarrow> [FAllowAddFriend v]) @
     (case memberModify of None \<Rightarrow> [] | Some v \<Rightarrow> [FAllowMemberModify v])"

definition UpdateGroupSettings ::
    "string \<Rightarrow> string \<Rightarrow> bool option \<Rightarrow> bool option \<Rightarrow> bool option \<Rightarrow> bool option \<Rightarrow> bool option \<Rightarrow> (group_db, unit) M" where
  "UpdateGroupSettings userID groupID joinVerify memberInvite viewHistory addFriend memberModify =
     bindE (notFoundE (memberRepo_GetMember groupID userID) errNotMember) (\<lambda>member.
     thenE (guardE (CanManageGroup member) (errNoAdmin ''No permission to update group settings'')) (
     let updates = setting_updates joinVerify memberInvite viewHistory addFriend memberModify in
     if updates = [] then returnE ()
     else thenE (settingRepo_UpdateSettings groupID updates)
            (publishGroupSettingsUpdatedNotification groupID userID updates)))"

definition GetGroupSettings :: "string \<Rightarrow> (group_db, GroupSetting) M" where
  "GetGroupSettings groupID =
     bindE (optionalE (settingRepo_GetSettings groupID)) (\<lambda>settings. returnE
       (case settings of None \<Rightarrow> DefaultGroupSetting groupID | Some s \<Rightarrow> s))"

definition GroupIsMember :: "string \<Rightarrow> string \<Rightarrow> (group_db, bool \<times> int) M" where
  "GroupIsMember groupID userID =
     bindE (optionalE (memberRepo_GetMember groupID userID)) (\<lambda>member. returnE
       (case member of None \<Rightarrow> (False, 0) | Some m \<Rightarrow> (True, gm_Role m)))"

definition UpdateMemberRemark :: "string \<Rightarrow> string \<Rightarrow> string \<Rightarrow> (group_db, unit) M" where
  "UpdateMemberRemark userID groupID remark =
     thenE (guardE (\<not> rune_count remark > 20)
       (NewBusiness CodeParamError ''Remark cannot exceed 20 characters'')) (
     bindE (memberRepo_IsMember groupID userID) (\<lambda>isMember.
     thenE (guardE isMember errNotMember) (memberRepo_UpdateRemark groupID userID remark)))"

subsection \<open>QR codes\<close>

record QRCodeResponse =
  qrr_Token :: string
  qrr_DeepLink :: string
  qrr_ExpireAt :: int

definition buildQRCodeResponse :: "GroupQRCode \<Rightarrow> QRCodeResponse" where
  "buildQRCodeResponse q = \<lparr>qrr_Token = qr_Token q,
     qrr_DeepLink = ''anychat://join/group?token='' @ qr_Token q, qrr_ExpireAt = unix (qr_ExpireAt q)\<rparr>"

definition createNewQRCode :: "string \<Rightarrow> string \<Rightarrow> (group_db, QRCodeResponse) M" where
  "createNewQRCode userID groupID =
     bindE new_uuid (\<lambda>token. bindE now (\<lambda>t. bindE now (\<lambda>createdAt. bindE now (\<lambda>updatedAt.
     let q = \<lparr>qr_ID = 0, qr_GroupID = groupID, qr_Token = token, qr_CreatedBy = userID,
              qr_ExpireAt = t + DefaultQRCodeTTL, qr_IsActive = True, qr_CreatedAt = createdAt,
              qr_UpdatedAt = updatedAt\<rparr> in
     thenE (qrcodeRepo_Create q) (returnE (buildQRCodeResponse q))))))"

definition GetGroupQRCode :: "string \<Rightarrow> string \<Rightarrow> (group_db, QRCodeResponse) M" where
  "GetGroupQRCode userID groupID =
     bindE (memberRepo_IsMember groupID userID) (\<lambda>isMember.
     thenE (guardE isMember errNotMember) (
     bindE (attemptE (qrcodeRepo_GetActiveByGroupID groupID)) (\<lambda>r.
     bindE (case r of None \<Rightarrow> returnE None
            | Some q \<Rightarrow> bindE now (\<lambda>t. returnE (if GroupQRCode_IsValid q t then Some q else None))) (\<lambda>valid.
     case valid of
       None \<Rightarrow> createNewQRCode userID groupID
     | Some q \<Rightarrow>
         bindE now (\<lambda>t.
         if qr_ExpireAt q - t < QRCodeRenewThreshold then
           bindE now (\<lambda>t2.
           let newExpire = t2 + DefaultQRCodeTTL in
           bindE (attemptE (qrcodeRepo_UpdateExpireAt (qr_Token q) newExpire)) (\<lambda>renewed.
           returnE (buildQRCodeResponse (case renewed of None \<Rightarrow> q | Some _ \<Rightarrow> q\<lparr>qr_ExpireAt := newExpire\<rparr>))))
         else returnE (buildQRCodeResponse q))))))"

definition RefreshGroupQRCode :: "string \<Rightarrow> string \<Rightarrow> (group_db, QRCodeResponse) M" where
  "RefreshGroupQRCode userID groupID =
     bindE (notFoundE (memberRepo_GetMember groupID userID) errNotMember) (\<lambda>member.
     thenE (guardE (CanManageGroup member) (errNoAdmin ''Only owner or admin can refresh QR code'')) (
     thenE (qrcodeRepo_InvalidateByGroupID groupID) (
     bindE (createNewQRCode userID groupID) (\<lambda>resp.
     thenE (publishGroupQRCodeRefreshedNotification groupID userID (qrr_Token resp) (qrr_ExpireAt resp))
       (returnE resp)))))"

definition validQRCode :: "string \<Rightarrow> (group_db, GroupQRCode) M" where
  "validQRCode token =
     bindE (notFoundE (qrcodeRepo_GetByToken token) errQRInvalid) (\<lambda>q.
     bindE now (\<lambda>t. thenE (guardE (GroupQRCode_IsValid q t) errQRExpired) (returnE q)))"

record GroupPreview =
  gp_GroupId :: string
  gp_Name :: string
  gp_Avatar :: string
  gp_MemberCount :: int
  gp_NeedVerify :: bool

definition GetGroupPreviewByQRCode :: "string \<Rightarrow> (group_db, GroupPreview) M" where
  "GetGroupPreviewByQRCode token =
     bindE (validQRCode token) (\<lambda>q.
     bindE (notFoundE (groupRepo_GetByGroupID (qr_GroupID q)) errGroupNotFound) (\<lambda>group.
     thenE (guardE (Group_IsActive group) errDissolved) (
     bindE (getGroupJoinVerify (g_GroupID group)) (\<lambda>needVerify.
     returnE \<lparr>gp_GroupId = g_GroupID group, gp_Name = g_Name group, gp_Avatar = g_Avatar group,
       gp_MemberCount = g_MemberCount group, gp_NeedVerify = needVerify\<rparr>))))"

record JoinByQRCodeResponse =
  jq_Joined :: bool
  jq_GroupId :: string
  jq_NeedVerify :: bool
  jq_RequestId :: "int option"

definition JoinGroupByQRCode :: "string \<Rightarrow> string \<Rightarrow> (group_db, JoinByQRCodeResponse) M" where
  "JoinGroupByQRCode userID token =
     bindE (validQRCode token) (\<lambda>q.
     let groupID = qr_GroupID q in
     bindE (notFoundE (groupRepo_GetByGroupID groupID) errGroupNotFound) (\<lambda>group.
     thenE (guardE (Group_IsActive group) errDissolved) (
     thenE (guardE (\<not> Group_IsFull group) errLimitReached) (
     bindE (memberRepo_IsMember groupID userID) (\<lambda>isMember.
     thenE (guardE (\<not> isMember) errAlreadyMember) (
     bindE (getGroupJoinVerify groupID) (\<lambda>joinVerify.
     if joinVerify then
       bindE (attemptE (joinRequestRepo_GetExistingRequest groupID userID)) (\<lambda>r.
       case (case r of None \<Rightarrow> None | Some x \<Rightarrow> x) of
         Some existing \<Rightarrow> returnE \<lparr>jq_Joined = False, jq_GroupId = groupID, jq_NeedVerify = True,
                            jq_RequestId = Some (jr_ID existing)\<rparr>
       | None \<Rightarrow>
           bindE now (\<lambda>t.
           bindE (joinRequestRepo_Create (newJoinRequest groupID userID '''' '''' t)) (\<lambda>requestID.
           thenE (publishGroupJoinRequestedNotification groupID userID requestID ''qrcode'')
             (returnE \<lparr>jq_Joined = False, jq_GroupId = groupID, jq_NeedVerify = True,
                jq_RequestId = Some requestID\<rparr>))))
     else
       thenE (addMemberTx groupID userID) (
       thenE (publishMemberJoinedNotification groupID userID (qr_CreatedBy q))
         (returnE \<lparr>jq_Joined = True, jq_GroupId = groupID, jq_NeedVerify = False, jq_RequestId = None\<rparr>)))))))))"

end
