(* ===== verification/Group.thy ===== *)
theory Group
  imports Group_Service
begin

text \<open>
  Invariants of the group service.  \<open>count_inv\<close> ties the cached \<open>member_count\<close> of every group to its
  rows in \<open>group_members\<close>; \<open>owner_inv\<close> says that the recorded owner of an active group is a member
  with the owner role; \<open>pin_inv\<close> bounds the pinned messages.  Each operation is shown to keep them for
  all clocks and faults, and the section on reachable states puts the pieces together.
\<close>

subsection \<open>The operations as steps\<close>

datatype group_op =
    OpCreateGroup string string "string option" "string list"
  | OpUpdateGroup string string "string option" "string option" "string option" "string option"
  | OpDisbandGroup string string
  | OpInviteMembers string string "string list"
  | OpRemoveMember string string string
  | OpQuitGroup string string
  | OpUpdateMemberRole string string string int
  | OpUpdateMemberNickname string string string
  | OpTransferOwnership string string string
  | OpMuteMember string string string int int
  | OpUnmuteMember string string string
  | OpJoinGroup string string "string option" "string option"
  | OpHandleJoinRequest string string int bool
  | OpPinGroupMessage string string string
  | OpUnpinGroupMessage string string string
  | OpSetGroupMute string string bool
  | OpUpdateGroupSettings string string "bool option" "bool option" "bool option" "bool option" "bool option"
  | OpUpdateMemberRemark string string string
  | OpGetGroupQRCode string string
  | OpRefreshGroupQRCode string string
  | OpJoinGroupByQRCode string string

fun group_step :: "group_deps \<Rightarrow> group_op \<Rightarrow> (group_db, unit) M" where
  "group_step deps (OpCreateGroup u n a ms) = void (CreateGroup u n a ms)"
| "group_step deps (OpUpdateGroup u g n a an de) = UpdateGroup u g n a an de"
| "group_step deps (OpDisbandGroup u g) = DisbandGroup u g"
| "group_step deps (OpInviteMembers u g is) = InviteMembers u g is"
| "group_step deps (OpRemoveMember u g t) = RemoveMember u g t"
| "group_step deps (OpQuitGroup u g) = QuitGroup u g"
| "group_step deps (OpUpdateMemberRole u g t r) = UpdateMemberRole u g t r"
| "group_step deps (OpUpdateMemberNickname u g n) = UpdateMemberNickname u g n"
| "group_step deps (OpTransferOwnership u g n) = TransferOwnership u g n"
| "group_step deps (OpMuteMember u g t k m) = MuteMember u g t k m"
| "group_step deps (OpUnmuteMember u g t) = UnmuteMember u g t"
| "group_step deps (OpJoinGroup u g m i) = void (JoinGroup u g m i)"
| "group_step deps (OpHandleJoinRequest u g r a) = HandleJoinRequest u g r a"
| "group_step deps (OpPinGroupMessage u g m) = PinGroupMessage deps u g m"
| "group_step deps (OpUnpinGroupMessage u g m) = UnpinGroupMessage u g m"
| "group_step deps (OpSetGroupMute u g e) = SetGroupMute deps u g e"
| "group_step deps (OpUpdateGroupSettings u g a b c d e) = UpdateGroupSettings u g a b c d e"
| "group_step deps (OpUpdateMemberRemark u g r) = UpdateMemberRemark u g r"
| "group_step deps (OpGetGroupQRCode u g) = void (GetGroupQRCode u g)"
| "group_step deps (OpRefreshGroupQRCode u g) = void (RefreshGroupQRCode u g)"
| "group_step deps (OpJoinGroupByQRCode u t) = void (JoinGroupByQRCode u t)"

text \<open>The histories the counting invariant is about: no call of \<open>CreateGroup\<close> lists the creator among
  the initial members.\<close>

fun group_ok :: "group_op \<Rightarrow> bool" where
  "group_ok (OpCreateGroup u n a ms) = (u \<notin> set ms)"
| "group_ok _ = True"

subsection \<open>Invariants\<close>

definition members_of :: "group_db \<Rightarrow> string \<Rightarrow> nat" where
  "members_of d gid = count_where (\<lambda>m. gm_GroupID m = gid) (group_members d)"

definition group_ids :: "group_db \<Rightarrow> string set" where
  "group_ids d = g_GroupID ` set (groups d)"

definition count_inv :: "group_db \<Rightarrow> bool" where
  "count_inv d = (uniq g_GroupID (groups d) \<and> uniq member_key (group_members d) \<and>
     uniq jr_ID (group_join_requests d) \<and>
     (\<forall>g \<in> set (groups d). g_MemberCount g = int (members_of d (g_GroupID g))) \<and>
     (\<forall>m \<in> set (group_members d). gm_GroupID m \<in> group_ids d) \<and>
     (\<forall>r \<in> set (group_join_requests d). jr_GroupID r \<in> group_ids d))"

definition has_owner :: "group_db \<Rightarrow> Group \<Rightarrow> bool" where
  "has_owner d g = (\<exists>m \<in> set (group_members d). gm_GroupID m = g_GroupID g \<and>
     gm_UserID m = g_OwnerID g \<and> gm_Role m = GroupRoleOwner)"

definition owner_inv :: "group_db \<Rightarrow> bool" where
  "owner_inv d = (uniq g_GroupID (groups d) \<and> uniq member_key (group_members d) \<and>
     (\<forall>g \<in> set (groups d). g_Status g = GroupStatusNormal \<longrightarrow> has_owner d g))"

definition pins_of :: "group_db \<Rightarrow> string \<Rightarrow> nat" where
  "pins_of d gid = count_where (\<lambda>p. pm_GroupID p = gid) (group_pinned_messages d)"

definition pin_inv :: "group_db \<Rightarrow> bool" where
  "pin_inv d = (uniq pinned_key (group_pinned_messages d) \<and>
     (\<forall>gid. int (pins_of d gid) \<le> maxPinnedMessagesPerGroup))"

lemmas group_inv_defs = count_inv_def owner_inv_def pin_inv_def members_of_def group_ids_def
  has_owner_def pins_of_def

subsection \<open>Publications and reads\<close>

lemma keeps_publishGroup [keeps_intros]: "keeps I (publishGroup g t o' p)"
  and quiet_publishGroup [quiet_intros]: "quiet (publishGroup g t o' p)"
  by (simp_all add: publishGroup_def keeps_intros quiet_intros)

lemma keeps_group_publish [keeps_intros]:
  "keeps I (publishMemberJoinedNotification g u i)"
  "keeps I (publishGroupJoinRequestedNotification g u r s)"
  "keeps I (publishGroupQRCodeRefreshedNotification g u t e)"
  "keeps I (publishMemberLeftNotification g u i s)"
  "keeps I (publishGroupInfoUpdatedNotification g u us)"
  "keeps I (publishRoleChangedNotification g u i a b)"
  "keeps I (publishMemberMutedNotification g u i t')"
  "keeps I (publishMemberUnmutedNotification g u i)"
  "keeps I (publishGroupMutedNotification g u e')"
  "keeps I (publishGroupSettingsUpdatedNotification g u ss)"
  "keeps I (publishGroupMessagePinnedNotification g u m)"
  "keeps I (publishGroupMessageUnpinnedNotification g u m)"
  "keeps I (publishGroupDisbandedNotification g u n)"
  by (simp_all add: group_publish_defs keeps_intros)

lemma quiet_group_publish [quiet_intros]:
  "quiet (publishMemberJoinedNotification g u i)"
  "quiet (publishGroupJoinRequestedNotification g u r s)"
  "quiet (publishGroupQRCodeRefreshedNotification g u t e)"
  "quiet (publishMemberLeftNotification g u i s)"
  "quiet (publishGroupInfoUpdatedNotification g u us)"
  "quiet (publishRoleChangedNotification g u i a b)"
  "quiet (publishMemberMutedNotification g u i t')"
  "quiet (publishMemberUnmutedNotification g u i)"
  "quiet (publishGroupMutedNotification g u e')"
  "quiet (publishGroupSettingsUpdatedNotification g u ss)"
  "quiet (publishGroupMessagePinnedNotification g u m)"
  "quiet (publishGroupMessageUnpinnedNotification g u m)"
  "quiet (publishGroupDisbandedNotification g u n)"
  by (simp_all add: group_publish_defs quiet_intros)

lemma keeps_group_reads [keeps_intros]:
  "keeps I (groupRepo_GetByGroupID g)" "keeps I (memberRepo_GetMember g u)"
  "keeps I (memberRepo_GetMemberCount g)" "keeps I (memberRepo_IsMember g u)"
  "keeps I (settingRepo_GetSettings g)" "keeps I (joinRequestRepo_GetByID i)"
  "keeps I (joinRequestRepo_GetExistingRequest g u)" "keeps I (pinnedRepo_CountByGroup g)"
  "keeps I (pinnedRepo_Exists g m)" "keeps I (qrcodeRepo_GetActiveByGroupID g)"
  "keeps I (qrcodeRepo_GetByToken t)"
  by (simp_all add: group_repo_defs keeps_intros)

lemma keeps_getGroupJoinVerify [keeps_intros]: "keeps I (getGroupJoinVerify g)"
  and keeps_validQRCode [keeps_intros]: "keeps I (validQRCode t)"
  by (simp_all add: getGroupJoinVerify_def validQRCode_def keeps_intros)

lemma keeps_getPinnedMessageSnapshot [keeps_intros]: "keeps I (getPinnedMessageSnapshot deps g m)"
  unfolding getPinnedMessageSnapshot_def Let_def by (intro keeps_intros)

lemma keeps_sendGroupSystemMessage [keeps_intros]: "keeps I (sendGroupSystemMessage deps g u t)"
  unfolding sendGroupSystemMessage_def by (intro keeps_intros)

subsection \<open>How the writes act on the invariants\<close>

lemma set_group_field_simps [simp]:
  "g_GroupID (fold set_group_field us g) = g_GroupID g"
  "g_MemberCount (fold set_group_field us g) = g_MemberCount g"
  "g_Status (fold set_group_field us g) = g_Status g"
proof -
  have *: "g_GroupID (set_group_field u g) = g_GroupID g \<and> g_MemberCount (set_group_field u g) = g_MemberCount g \<and>
      g_Status (set_group_field u g) = g_Status g" for u g by (cases u) simp_all
  show "g_GroupID (fold set_group_field us g) = g_GroupID g"
    "g_MemberCount (fold set_group_field us g) = g_MemberCount g"
    "g_Status (fold set_group_field us g) = g_Status g"
    using * by (induction us arbitrary: g) simp_all
qed

lemma group_ids_update:
  "(\<And>g. g_GroupID (f g) = g_GroupID g) \<Longrightarrow> g_GroupID ` set (update_where p f gs) = g_GroupID ` set gs"
  by (rule image_update_where)

text \<open>Updates of groups and members that keep the keys and the counters.\<close>

lemma count_inv_groups:
  assumes "count_inv d" "\<And>g. g_GroupID (f g) = g_GroupID g" "\<And>g. g_MemberCount (f g) = g_MemberCount g"
  shows "count_inv (d\<lparr>groups := update_where p f (groups d)\<rparr>)"
  using assms by (simp add: count_inv_def members_of_def group_ids_def uniq_update_where
      group_ids_update ball_update_where)

lemma count_inv_members:
  assumes "count_inv d" "\<And>m. gm_GroupID (f m) = gm_GroupID m" "\<And>m. gm_UserID (f m) = gm_UserID m"
  shows "count_inv (d\<lparr>group_members := update_where p f (group_members d)\<rparr>)"
  using assms by (simp add: count_inv_def members_of_def group_ids_def uniq_update_where member_key_def
      ball_update_where count_where_update_same)

lemma count_inv_requests:
  assumes "count_inv d" "\<And>r. jr_ID (f r) = jr_ID r" "\<And>r. jr_GroupID (f r) = jr_GroupID r"
  shows "count_inv (d\<lparr>group_join_requests := update_where p f (group_join_requests d)\<rparr>)"
  using assms by (simp add: count_inv_def members_of_def group_ids_def uniq_update_where ball_update_where)

lemma count_inv_new_request:
  assumes "count_inv d" "jr_GroupID r \<in> group_ids d" "insert_unique jr_ID r (group_join_requests d) = Some rows"
  shows "count_inv (d\<lparr>group_join_requests := rows\<rparr>)"
  using assms insert_unique_uniq[OF assms(3)]
  by (auto simp: count_inv_def members_of_def group_ids_def insert_unique_Some)

lemma count_inv_other [simp]:
  "count_inv (d\<lparr>group_settings := ss\<rparr>) = count_inv d"
  "count_inv (d\<lparr>group_pinned_messages := ps\<rparr>) = count_inv d"
  "count_inv (d\<lparr>group_qrcodes := qs\<rparr>) = count_inv d"
  by (simp_all add: count_inv_def members_of_def group_ids_def)

text \<open>Adding one member and counting it.\<close>

lemma count_inv_add:
  assumes "count_inv d" "insert_unique member_key m (group_members d) = Some rows"
    and "gm_GroupID m = gid" "gid \<in> group_ids d"
  shows "count_inv (d\<lparr>group_members := rows, groups := update_where (\<lambda>g. g_GroupID g = gid)
     (\<lambda>g. g\<lparr>g_MemberCount := g_MemberCount g + 1, g_UpdatedAt := t\<rparr>) (groups d)\<rparr>)"
  using assms insert_unique_uniq[OF assms(2)]
  by (auto simp: count_inv_def members_of_def group_ids_def insert_unique_Some uniq_update_where
      group_ids_update ball_update_where)

lemma members_of_delete:
  assumes "uniq member_key ms" "x \<in> set ms" "gm_GroupID x = gid" "gm_UserID x = u"
  shows "Suc (count_where (\<lambda>m. gm_GroupID m = gid)
       (delete_where (\<lambda>m. gm_GroupID m = gid \<and> gm_UserID m = u) ms)) = count_where (\<lambda>m. gm_GroupID m = gid) ms"
  using assms
proof (induction ms)
  case (Cons m ms)
  show ?case
  proof (cases "member_key m = (gid, u)")
    case True
    then have "\<forall>y \<in> set ms. \<not> (gm_GroupID y = gid \<and> gm_UserID y = u)"
      using Cons.prems(1) by (force simp: uniq_def member_key_def)
    then have "delete_where (\<lambda>m. gm_GroupID m = gid \<and> gm_UserID m = u) ms = ms"
      by (simp add: delete_where_def filter_id_conv)
    then show ?thesis using True by (simp add: delete_where_def member_key_def)
  next
    case False
    then have "x \<in> set ms" using Cons.prems by (auto simp: member_key_def)
    then show ?thesis using Cons False by (auto simp: delete_where_def member_key_def uniq_def)
  qed
qed simp

lemma members_of_delete_other:
  "g \<noteq> gid \<Longrightarrow> count_where (\<lambda>m. gm_GroupID m = g)
     (delete_where (\<lambda>m. gm_GroupID m = gid \<and> gm_UserID m = u) ms) = count_where (\<lambda>m. gm_GroupID m = g) ms"
  by (simp add: count_where_delete) (rule count_where_cong, auto)

lemma count_inv_remove:
  assumes "count_inv d" "x \<in> set (group_members d)" "gm_GroupID x = gid" "gm_UserID x = u"
  shows "count_inv (d\<lparr>group_members := delete_where (\<lambda>m. gm_GroupID m = gid \<and> gm_UserID m = u) (group_members d),
     groups := update_where (\<lambda>g. g_GroupID g = gid)
       (\<lambda>g. g\<lparr>g_MemberCount := g_MemberCount g + - 1, g_UpdatedAt := t\<rparr>) (groups d)\<rparr>)"
proof -
  have suc: "Suc (count_where (\<lambda>m. gm_GroupID m = gid)
       (delete_where (\<lambda>m. gm_GroupID m = gid \<and> gm_UserID m = u) (group_members d))) =
     count_where (\<lambda>m. gm_GroupID m = gid) (group_members d)"
    using members_of_delete[of "group_members d" x gid u] assms by (simp add: count_inv_def)
  show ?thesis
    using assms suc[symmetric]
    by (auto simp: count_inv_def members_of_def group_ids_def uniq_update_where uniq_delete_where
        group_ids_update ball_update_where set_delete_where members_of_delete_other)
qed

subsection \<open>The member count\<close>

lemma first_group_id:
  "first_where (\<lambda>g. g_GroupID g = gid \<and> g_Status g = GroupStatusNormal) g_ID (groups d) = Some g \<Longrightarrow>
     gid \<in> group_ids d"
  by (auto simp: group_ids_def dest: first_where_SomeD)

lemma first_member:
  "first_where (\<lambda>m. gm_GroupID m = gid \<and> gm_UserID m = u) gm_ID (group_members d) = Some m \<Longrightarrow>
     m \<in> set (group_members d) \<and> gm_GroupID m = gid \<and> gm_UserID m = u"
  by (auto dest: first_where_SomeD)

lemma wp_addMemberTx:
  assumes "count_inv (db w)" "gid \<in> group_ids (db w)"
  shows "wp (addMemberTx gid u) (\<lambda>_ w'. count_inv (db w')) (\<lambda>_ w'. count_inv (db w')) w"
  using assms
  by (simp only: addMemberTx_def memberRepo_AddMember_def groupRepo_UpdateMemberCount_def wp_simps exec_simps)
     (auto split: option.split intro!: count_inv_add simp: newMember_def)

lemma wp_removeMemberTx:
  assumes "count_inv (db w)" "x \<in> set (group_members (db w))" "gm_GroupID x = gid" "gm_UserID x = u"
  shows "wp (removeMemberTx gid u) (\<lambda>_ w'. count_inv (db w')) (\<lambda>_ w'. count_inv (db w')) w"
  using assms
  by (simp only: removeMemberTx_def memberRepo_RemoveMember_def groupRepo_UpdateMemberCount_def wp_simps exec_simps)
     (use count_inv_remove[OF assms] in \<open>simp split: option.split\<close>)

lemmas wp_group_pubs = quiet_group_publish[THEN wp_pub]

lemma keeps_count_RemoveMember: "keeps count_inv (RemoveMember u gid t)"
  apply (rule keepsI)
  apply (simp only: RemoveMember_def memberRepo_GetMember_def wp_simps exec_simps)
  apply (auto split: option.split intro!: wp_seq wp_group_pubs dest!: first_member intro: wp_removeMemberTx)
  done

lemma keeps_count_DisbandGroup: "keeps count_inv (DisbandGroup u gid)"
  unfolding DisbandGroup_def groupRepo_Delete_def
  by (intro keeps_intros keeps_modify count_inv_groups) simp_all

lemma keeps_count_QuitGroup: "keeps count_inv (QuitGroup u gid)"
  apply (rule keepsI)
  apply (simp only: QuitGroup_def memberRepo_GetMember_def memberRepo_GetMemberCount_def wp_simps exec_simps)
  apply (auto split: option.split intro!: wp_seq wp_group_pubs keeps_count_DisbandGroup[unfolded keeps_wp, rule_format]
      dest!: first_member intro: wp_removeMemberTx)
  done

lemma wp_joinRequestRepo_Create:
  assumes "count_inv (db w)" "jr_GroupID r \<in> group_ids (db w)"
  shows "wp (joinRequestRepo_Create r) (\<lambda>_ w'. count_inv (db w')) (\<lambda>_ w'. count_inv (db w')) w"
  using assms
  by (simp only: joinRequestRepo_Create_def wp_simps exec_simps)
     (auto split: option.split elim!: count_inv_new_request[rotated 2])

lemma keeps_count_JoinGroup: "keeps count_inv (JoinGroup u gid m i)"
  apply (rule keepsI)
  apply (simp only: JoinGroup_def groupRepo_GetByGroupID_def memberRepo_IsMember_def
      joinRequestRepo_GetExistingRequest_def getGroupJoinVerify_def settingRepo_GetSettings_def wp_simps exec_simps)
  apply (auto split: option.split simp: wp_simps newJoinRequest_def
     intro!: wp_seq wp_addMemberTx wp_joinRequestRepo_Create dest!: first_group_id)
  done

lemma keeps_count_JoinGroupByQRCode: "keeps count_inv (JoinGroupByQRCode u token)"
  apply (rule keepsI)
  apply (simp only: JoinGroupByQRCode_def validQRCode_def qrcodeRepo_GetByToken_def groupRepo_GetByGroupID_def
      memberRepo_IsMember_def joinRequestRepo_GetExistingRequest_def getGroupJoinVerify_def settingRepo_GetSettings_def wp_simps exec_simps)
  apply (auto split: option.split simp: wp_simps newJoinRequest_def dest!: first_group_id
     intro!: wp_seq wp_group_pubs wp_addMemberTx wp_joinRequestRepo_Create)
  done

lemma count_inv_accept:
  assumes "count_inv d" "first_where (\<lambda>r. jr_ID r = i) jr_ID (group_join_requests d) = Some r"
    "insert_unique member_key m (group_members d) = Some rows" "gm_GroupID m = jr_GroupID r"
  shows "count_inv (d\<lparr>group_join_requests := update_where p
       (\<lambda>r. r\<lparr>jr_Status := s, jr_UpdatedAt := t\<rparr>) (group_join_requests d),
     group_members := rows, groups := update_where (\<lambda>g. g_GroupID g = jr_GroupID r)
     (\<lambda>g. g\<lparr>g_MemberCount := g_MemberCount g + 1, g_UpdatedAt := t'\<rparr>) (groups d)\<rparr>)"
proof -
  let ?d = "d\<lparr>group_join_requests := update_where p
       (\<lambda>r. r\<lparr>jr_Status := s, jr_UpdatedAt := t\<rparr>) (group_join_requests d)\<rparr>"
  have "count_inv ?d" using assms(1) by (rule count_inv_requests) simp_all
  moreover have "jr_GroupID r \<in> group_ids ?d"
    using assms(1) first_where_SomeD[OF assms(2)] by (auto simp: count_inv_def group_ids_def)
  ultimately show ?thesis using count_inv_add[of ?d m rows "jr_GroupID r" t'] assms(3,4) by simp
qed

lemma keeps_count_HandleJoinRequest: "keeps count_inv (HandleJoinRequest u gid i a)"
  apply (rule keepsI)
  apply (simp only: HandleJoinRequest_def joinRequestRepo_GetByID_def joinRequestRepo_UpdateStatus_def
      memberRepo_GetMember_def memberRepo_AddMember_def groupRepo_UpdateMemberCount_def wp_simps exec_simps)
  apply (auto split: option.split intro!: count_inv_requests intro: count_inv_accept simp: newMember_def)
  done

lemma wp_addMemberTx_ids:
  "wp (addMemberTx gid u) (\<lambda>_ w'. group_ids (db w') = group_ids (db w)) (\<lambda>_ w'. group_ids (db w') = group_ids (db w)) w"
  by (simp only: addMemberTx_def memberRepo_AddMember_def groupRepo_UpdateMemberCount_def wp_simps exec_simps)
     (simp split: option.split add: group_ids_def group_ids_update)

lemma keeps_addMemberTx:
  "keeps (\<lambda>d. count_inv d \<and> gid \<in> group_ids d) (addMemberTx gid u)"
  by (rule keepsI, rule wp_mono[OF wp_conj[OF wp_addMemberTx wp_addMemberTx_ids]]) auto

lemma keeps_newRequest:
  "keeps (\<lambda>d. count_inv d \<and> gid \<in> group_ids d) (joinRequestRepo_Create (newJoinRequest gid u i m t))"
proof (rule keepsI, elim conjE, rule wp_mono[OF wp_conj])
  fix w :: "group_db world" assume "count_inv (db w)" "gid \<in> group_ids (db w)"
  then show "wp (joinRequestRepo_Create (newJoinRequest gid u i m t)) (\<lambda>_ w'. count_inv (db w'))
     (\<lambda>_ w'. count_inv (db w')) w" by (intro wp_joinRequestRepo_Create) (simp_all add: newJoinRequest_def)
  show "wp (joinRequestRepo_Create (newJoinRequest gid u i m t)) (\<lambda>_ w'. gid \<in> group_ids (db w'))
     (\<lambda>_ w'. gid \<in> group_ids (db w')) w"
    using \<open>gid \<in> group_ids (db w)\<close>
    by (simp only: joinRequestRepo_Create_def wp_simps exec_simps) (simp split: option.split add: group_ids_def)
qed auto

lemma keeps_inviteOne: "keeps (\<lambda>d. count_inv d \<and> gid \<in> group_ids d) (inviteOne gid u jv x)"
  unfolding inviteOne_def Let_def
  by (intro keeps_intros keeps_addMemberTx keeps_newRequest)

lemma keeps_count_InviteMembers: "keeps count_inv (InviteMembers u gid xs)"
proof (rule keepsI)
  fix w :: "group_db world" assume inv: "count_inv (db w)"
  have loop: "wp (forE xs (inviteOne gid u jv)) (\<lambda>_ w'. count_inv (db w')) (\<lambda>_ w'. count_inv (db w')) w'"
    if "db w' = db w" "gid \<in> group_ids (db w)" for jv w'
  proof -
    have "keeps (\<lambda>d. count_inv d \<and> gid \<in> group_ids d) (forE xs (inviteOne gid u jv))"
      by (intro keeps_intros keeps_inviteOne)
    then have "wp (forE xs (inviteOne gid u jv)) (\<lambda>_ w'. count_inv (db w') \<and> gid \<in> group_ids (db w'))
       (\<lambda>_ w'. count_inv (db w') \<and> gid \<in> group_ids (db w')) w'"
      using that inv by (simp add: keeps_wp)
    then show ?thesis by (rule wp_mono) auto
  qed
  show "wp (InviteMembers u gid xs) (\<lambda>_ w'. count_inv (db w')) (\<lambda>_ w'. count_inv (db w')) w"
    apply (simp only: InviteMembers_def groupRepo_GetByGroupID_def memberRepo_GetMember_def
        settingRepo_GetSettings_def wp_simps exec_simps)
    using inv by (auto split: option.split intro!: loop dest!: first_group_id)
qed

lemma count_inv_create:
  assumes inv: "count_inv d" and fresh: "g_GroupID g \<notin> group_ids d"
    and ms: "\<And>m. m \<in> set ms \<Longrightarrow> gm_GroupID m = g_GroupID g"
    and cnt: "g_MemberCount g = int (length ms)" and un: "uniq member_key (group_members d @ ms)"
  shows "count_inv (d\<lparr>groups := groups d @ [g], group_settings := ss, group_members := group_members d @ ms\<rparr>)"
proof -
  let ?d = "d\<lparr>groups := groups d @ [g], group_settings := ss, group_members := group_members d @ ms\<rparr>"
  have none: "count_where (\<lambda>m. gm_GroupID m = g_GroupID g) (group_members d) = 0"
    using inv fresh by (auto simp: count_where_zero count_inv_def)
  have all: "count_where (\<lambda>m. gm_GroupID m = g_GroupID g) ms = length ms"
    using ms by (rule count_where_all)
  have other: "count_where (\<lambda>m. gm_GroupID m = g_GroupID x) ms = 0" if "x \<in> set (groups d)" for x
    using that fresh ms by (auto simp: count_where_zero group_ids_def)
  have gids: "group_ids ?d = insert (g_GroupID g) (group_ids d)" by (auto simp: group_ids_def)
  have "uniq g_GroupID (groups d @ [g])" using inv fresh by (auto simp: count_inv_def uniq_def group_ids_def)
  then show ?thesis
    using inv un ms none all other cnt unfolding count_inv_def gids
    by (auto simp: members_of_def)
qed

text \<open>The body of \<open>CreateGroup\<close>'s transaction.\<close>

lemma newMember_simps [simp]:
  "gm_GroupID (newMember g u r t) = g" "gm_UserID (newMember g u r t) = u" "gm_Role (newMember g u r t) = r"
  by (simp_all add: newMember_def)

lemma wp_CreateGroup_tail:
  assumes "count_inv d" "gid \<notin> group_ids d" "g_GroupID g = gid"
    and "db w = d\<lparr>groups := groups d @ [g], group_settings := ss, group_members := group_members d @ [ow]\<rparr>"
    and "gm_GroupID ow = gid" "member_key ow \<notin> member_key ` set (group_members d)"
    and "g_MemberCount g = int (length xs) + 1"
  shows "wp (memberRepo_AddMembers (map (\<lambda>x. newMember gid x GroupRoleMember t2) xs))
     (\<lambda>_ w'. count_inv (db w')) (\<lambda>_ _. True) w"
proof -
  let ?rows = "map2 (\<lambda>i m. m\<lparr>gm_ID := i, gm_Role := or_default 3 (gm_Role m), gm_UpdatedAt := clock w (tick w)\<rparr>)
     (map (\<lambda>k. serial w SeqGroupMembers + 1 + int k) [0..<length xs]) (map (\<lambda>x. newMember gid x 3 t2) xs)"
  have gids: "\<And>m. m \<in> set ?rows \<Longrightarrow> gm_GroupID m = gid"
    by (auto dest!: set_zip_rightD)
  have fin: "count_inv ((db w)\<lparr>group_members := rows'\<rparr>)"
    if ins: "inserts_unique member_key ?rows (group_members (db w)) = Some rows'" for rows'
  proof -
    have rows': "rows' = group_members d @ (ow # ?rows)" using ins assms(4) by (simp add: inserts_unique_Some)
    have "uniq member_key (group_members (db w))" using assms(1,4,6) by (auto simp: count_inv_def uniq_def)
    then have un: "uniq member_key (group_members d @ (ow # ?rows))"
      using inserts_unique_uniq[OF ins] rows' by simp
    have "count_inv (d\<lparr>groups := groups d @ [g], group_settings := ss, group_members := group_members d @ (ow # ?rows)\<rparr>)"
      using gids assms(2,3,5,7) by (intro count_inv_create[OF assms(1) _ _ _ un]) auto
    then show ?thesis using rows' assms(4) by simp
  qed
  show ?thesis
    unfolding memberRepo_AddMembers_def
    by (simp add: wp_simps mapE_serial Let_def fin split: option.split del: upt_Suc)
qed

lemma wp_CreateGroup_tx:
  assumes "count_inv (db w)" "g_MemberCount g = int (length xs) + 1" "g_GroupID g = gid"
  shows "wp (thenE (groupRepo_Create g) (
       thenE (settingRepo_Create (DefaultGroupSetting gid)) (
       bindE now (\<lambda>t1.
       thenE (memberRepo_AddMember (newMember gid u GroupRoleOwner t1)) (
       bindE now (\<lambda>t2. memberRepo_AddMembers (map (\<lambda>x. newMember gid x GroupRoleMember t2) xs)))))))
     (\<lambda>_ w'. count_inv (db w')) (\<lambda>_ _. True) w"
  apply (simp only: groupRepo_Create_def settingRepo_Create_def memberRepo_AddMember_def wp_simps exec_simps)
  using assms
  apply (auto split: option.split simp: insert_unique_Some)
  apply (rule wp_CreateGroup_tail[where d = "db w" and g = "g\<lparr>g_ID := serial w SeqGroups + 1\<rparr>"])
  apply (auto simp: group_ids_def)
  done

lemma keeps_count_CreateGroup:
  assumes "u \<notin> set xs"
  shows "keeps count_inv (CreateGroup u n av xs)"
proof -
  have fl: "filter (\<lambda>x. x \<noteq> u) xs = xs" using assms by (auto simp: filter_id_conv)
  show ?thesis
    unfolding CreateGroup_def Let_def fl
    apply (rule keeps_guard_then)+
    apply (simp only: map_is_Nil_conv if_True not_False_eq_True)
    apply (intro keeps_intros keeps_transaction)
    apply (erule wp_CreateGroup_tx)
     apply (simp add: int32_id)
    apply simp
    done
qed

lemma keeps_count_members_update:
  "(\<And>m. gm_GroupID (f m) = gm_GroupID m) \<Longrightarrow> (\<And>m. gm_UserID (f m) = gm_UserID m) \<Longrightarrow>
     keeps count_inv (modify (\<lambda>d. d\<lparr>group_members := update_where p f (group_members d)\<rparr>))"
  by (intro keeps_modify count_inv_members) simp_all

lemma keeps_count_groups_update:
  "(\<And>g. g_GroupID (f g) = g_GroupID g) \<Longrightarrow> (\<And>g. g_MemberCount (f g) = g_MemberCount g) \<Longrightarrow>
     keeps count_inv (modify (\<lambda>d. d\<lparr>groups := update_where p f (groups d)\<rparr>))"
  by (intro keeps_modify count_inv_groups) simp_all

lemma keeps_count_member_writes [keeps_intros]:
  "keeps count_inv (memberRepo_UpdateRole g u r)" "keeps count_inv (memberRepo_UpdateNickname g u n)"
  "keeps count_inv (memberRepo_UpdateRemark g u n)" "keeps count_inv (memberRepo_UpdateMutedUntil g u t)"
  "keeps count_inv (groupRepo_UpdateFields g us)"
  by (simp_all add: memberRepo_UpdateRole_def memberRepo_UpdateNickname_def memberRepo_UpdateRemark_def
      memberRepo_UpdateMutedUntil_def groupRepo_UpdateFields_def keeps_bind keeps_now
      keeps_count_members_update keeps_count_groups_update)

lemma keeps_count_other_writes [keeps_intros]:
  "keeps count_inv (settingRepo_UpdateSettings g ss)" "keeps count_inv (qrcodeRepo_Create q)"
  "keeps count_inv (qrcodeRepo_InvalidateByGroupID g)" "keeps count_inv (qrcodeRepo_UpdateExpireAt t e)"
  "keeps count_inv (pinnedRepo_Delete g m)" "keeps count_inv (pinnedRepo_Upsert p)"
  unfolding settingRepo_UpdateSettings_def qrcodeRepo_Create_def qrcodeRepo_InvalidateByGroupID_def
    qrcodeRepo_UpdateExpireAt_def pinnedRepo_Delete_def pinnedRepo_Upsert_def
  by (intro keeps_intros keeps_modify keeps_exec; auto simp: Let_def split: option.splits)+

lemma keeps_count_createNewQRCode [keeps_intros]: "keeps count_inv (createNewQRCode u g)"
  unfolding createNewQRCode_def Let_def by (intro keeps_intros)

lemma keeps_count_simple:
  "keeps count_inv (UpdateGroup u g n a an de)" "keeps count_inv (UpdateMemberRole u g t r)"
  "keeps count_inv (UpdateMemberNickname u g nn)" "keeps count_inv (TransferOwnership u g no)"
  "keeps count_inv (MuteMember u g t k mm)" "keeps count_inv (UnmuteMember u g t)"
  "keeps count_inv (PinGroupMessage deps u g m)" "keeps count_inv (UnpinGroupMessage u g m)"
  "keeps count_inv (SetGroupMute deps u g e)" "keeps count_inv (UpdateGroupSettings u g b1 b2 b3 b4 b5)"
  "keeps count_inv (UpdateMemberRemark u g nn)" "keeps count_inv (GetGroupQRCode u g)"
  "keeps count_inv (RefreshGroupQRCode u g)"
  unfolding UpdateGroup_def UpdateMemberRole_def UpdateMemberNickname_def TransferOwnership_def MuteMember_def
    UnmuteMember_def PinGroupMessage_def UnpinGroupMessage_def SetGroupMute_def UpdateGroupSettings_def
    UpdateMemberRemark_def GetGroupQRCode_def RefreshGroupQRCode_def Let_def
  by (intro keeps_intros keeps_transaction_body)+

lemma group_step_keeps_count: "group_ok op \<Longrightarrow> keeps count_inv (group_step deps op)"
  by (cases op) (simp_all add: keeps_count_simple keeps_void keeps_count_CreateGroup keeps_count_DisbandGroup
      keeps_count_InviteMembers keeps_count_RemoveMember keeps_count_QuitGroup keeps_count_JoinGroup
      keeps_count_HandleJoinRequest keeps_count_JoinGroupByQRCode)

interpretation group_counts: service "group_step deps" group_ok count_inv empty_group_db for deps
  by unfold_locales (simp add: count_inv_def empty_group_db_def, rule group_step_keeps_count)

text \<open>C4: in every state the group service reaches by histories in which no creator lists themselves
  among the initial members, the member count stored with a group is the number of its member rows, for
  every clock and every schedule of faults.\<close>

theorem member_count_exact:
  assumes "reachable (group_step deps) group_ok empty_group_db d" "g \<in> set (groups d)"
  shows "g_MemberCount g = int (members_of d (g_GroupID g))"
  using group_counts.reachable_inv[OF assms(1)] assms(2) by (simp add: count_inv_def)

end
