(* ===== verification/Group_Owner.thy ===== *)
theory Group_Owner
  imports Group
begin

text \<open>
  Two more invariants of the group service: the recorded owner of an active group is a member with
  the owner role, and a group never has more pinned messages than the limit.
\<close>

subsection \<open>Ownership\<close>

lemma owner_inv_more_members:
  assumes "owner_inv d" "uniq member_key (group_members d @ ms)"
  shows "owner_inv (d\<lparr>group_members := group_members d @ ms\<rparr>)"
  using assms by (auto simp: owner_inv_def has_owner_def)

lemma owner_inv_groups:
  assumes "owner_inv d" "\<And>g. g_GroupID (f g) = g_GroupID g" "\<And>g. g_OwnerID (f g) = g_OwnerID g"
    "\<And>g. g_Status (f g) = g_Status g \<or> g_Status (f g) = GroupStatusDissolved"
  shows "owner_inv (d\<lparr>groups := update_where p f (groups d)\<rparr>)"
proof -
  have "has_owner d g \<Longrightarrow> has_owner (d\<lparr>groups := gs\<rparr>) (f g)" "has_owner d g \<Longrightarrow> has_owner (d\<lparr>groups := gs\<rparr>) g" for g gs
    using assms(2,3) by (auto simp: has_owner_def)
  then show ?thesis using assms
    by (simp add: owner_inv_def uniq_update_where ball_update_where) (metis zero_neq_one)
qed

lemma owner_inv_other [simp]:
  "owner_inv (d\<lparr>group_settings := ss\<rparr>) = owner_inv d"
  "owner_inv (d\<lparr>group_pinned_messages := ps\<rparr>) = owner_inv d"
  "owner_inv (d\<lparr>group_qrcodes := qs\<rparr>) = owner_inv d"
  "owner_inv (d\<lparr>group_join_requests := rs\<rparr>) = owner_inv d"
  by (simp_all add: owner_inv_def has_owner_def)

lemma member_unique:
  assumes "uniq member_key ms" "x \<in> set ms" "y \<in> set ms" "gm_GroupID x = gm_GroupID y" "gm_UserID x = gm_UserID y"
  shows "x = y"
  using assms unfolding uniq_def by (metis distinct_map inj_onD member_key_def)

text \<open>Rows other than owners may be removed or changed freely.\<close>

lemma owner_inv_delete:
  assumes "owner_inv d" "x \<in> set (group_members d)" "gm_GroupID x = gid" "gm_UserID x = u" "gm_Role x \<noteq> GroupRoleOwner"
  shows "owner_inv (d\<lparr>group_members := delete_where (\<lambda>m. gm_GroupID m = gid \<and> gm_UserID m = u) (group_members d)\<rparr>)"
proof -
  have "m = x" if "m \<in> set (group_members d)" "gm_GroupID m = gid" "gm_UserID m = u" for m
    using that assms member_unique[of "group_members d" m x] by (auto simp: owner_inv_def)
  then show ?thesis using assms
    by (fastforce simp: owner_inv_def has_owner_def uniq_delete_where set_delete_where)
qed

lemma owner_inv_role:
  assumes "owner_inv d" "x \<in> set (group_members d)" "gm_GroupID x = gid" "gm_UserID x = u" "gm_Role x \<noteq> GroupRoleOwner"
  shows "owner_inv (d\<lparr>group_members := update_where (\<lambda>m. gm_GroupID m = gid \<and> gm_UserID m = u)
     (\<lambda>m. m\<lparr>gm_Role := r, gm_UpdatedAt := t\<rparr>) (group_members d)\<rparr>)"
proof -
  have x: "m = x" if "m \<in> set (group_members d)" "gm_GroupID m = gid" "gm_UserID m = u" for m
    using that assms member_unique[of "group_members d" m x] by (auto simp: owner_inv_def)
  have "has_owner (d\<lparr>group_members := update_where (\<lambda>m. gm_GroupID m = gid \<and> gm_UserID m = u)
     (\<lambda>m. m\<lparr>gm_Role := r, gm_UpdatedAt := t\<rparr>) (group_members d)\<rparr>) g" if "has_owner d g" for g
    using that x assms(5) by (fastforce simp: has_owner_def bex_update_where)
  then show ?thesis using assms(1)
    by (simp add: owner_inv_def uniq_update_where member_key_def)
qed

lemma owner_inv_members:
  assumes "owner_inv d" "\<And>m. gm_GroupID (f m) = gm_GroupID m" "\<And>m. gm_UserID (f m) = gm_UserID m"
    "\<And>m. gm_Role (f m) = gm_Role m"
  shows "owner_inv (d\<lparr>group_members := update_where p f (group_members d)\<rparr>)"
  using assms by (simp add: owner_inv_def has_owner_def uniq_update_where member_key_def bex_update_where if_distrib)

text \<open>Ownership moves in one transaction.\<close>

lemma owner_inv_transfer:
  assumes inv: "owner_inv d" and x: "x \<in> set (group_members d)" "gm_GroupID x = gid" "gm_UserID x = new"
    and ne: "u \<noteq> new"
  shows "owner_inv (d\<lparr>groups := update_where (\<lambda>g. g_GroupID g = gid \<and> g_Status g = GroupStatusNormal)
       (\<lambda>g. g\<lparr>g_OwnerID := new, g_UpdatedAt := t1\<rparr>) (groups d),
     group_members := update_where (\<lambda>m. gm_GroupID m = gid \<and> gm_UserID m = new)
       (\<lambda>m. m\<lparr>gm_Role := GroupRoleOwner, gm_UpdatedAt := t3\<rparr>)
       (update_where (\<lambda>m. gm_GroupID m = gid \<and> gm_UserID m = u)
         (\<lambda>m. m\<lparr>gm_Role := GroupRoleAdmin, gm_UpdatedAt := t2\<rparr>) (group_members d))\<rparr>)" (is "owner_inv ?d")
proof -
  have "has_owner ?d (g\<lparr>g_OwnerID := new, g_UpdatedAt := t1\<rparr>)" if "g_GroupID g = gid" for g
    using x that by (auto simp: has_owner_def bex_update_where intro!: bexI[of _ x])
  moreover have "has_owner ?d g" if "has_owner d g" "g_GroupID g \<noteq> gid" for g
  proof -
    obtain m where "m \<in> set (group_members d)" "gm_GroupID m = g_GroupID g" "gm_UserID m = g_OwnerID g"
      "gm_Role m = GroupRoleOwner" using \<open>has_owner d g\<close> by (auto simp: has_owner_def)
    then show ?thesis using \<open>g_GroupID g \<noteq> gid\<close> by (auto simp: has_owner_def bex_update_where intro!: bexI[of _ m])
  qed
  ultimately show ?thesis using inv
    by (auto simp: owner_inv_def uniq_update_where member_key_def ball_update_where)
qed

subsection \<open>The operations keep the owner\<close>

lemma keeps_owner_member_writes [keeps_intros]:
  "keeps owner_inv (memberRepo_UpdateNickname g u n)" "keeps owner_inv (memberRepo_UpdateRemark g u n)"
  "keeps owner_inv (memberRepo_UpdateMutedUntil g u t)" "keeps owner_inv (groupRepo_UpdateMemberCount g k)"
  "keeps owner_inv (groupRepo_Delete g)"
  unfolding memberRepo_UpdateNickname_def memberRepo_UpdateRemark_def memberRepo_UpdateMutedUntil_def
    groupRepo_UpdateMemberCount_def groupRepo_Delete_def
  by (intro keeps_intros keeps_modify owner_inv_members owner_inv_groups; simp)+

lemma keeps_owner_AddMember [keeps_intros]: "keeps owner_inv (memberRepo_AddMember m)"
  unfolding memberRepo_AddMember_def
  by (intro keeps_intros keeps_exec)
     (auto split: option.splits simp: insert_unique_Some owner_inv_def uniq_def intro!: owner_inv_more_members
       simp: has_owner_def)

lemma keeps_owner_AddMembers [keeps_intros]: "keeps owner_inv (memberRepo_AddMembers ms)"
proof -
  have "owner_inv (d\<lparr>group_members := rows\<rparr>)"
    if "owner_inv d" "inserts_unique member_key xs (group_members d) = Some rows" for d xs rows
    using that owner_inv_more_members[of d xs] inserts_unique_uniq[of member_key xs "group_members d" rows]
    by (auto simp: inserts_unique_Some owner_inv_def)
  then show ?thesis
    unfolding memberRepo_AddMembers_def
    by (intro keeps_intros keeps_exec) (auto split: option.splits)
qed

lemma keeps_owner_addMemberTx [keeps_intros]: "keeps owner_inv (addMemberTx g u)"
  unfolding addMemberTx_def by (intro keeps_intros keeps_transaction_body)

lemma keeps_owner_other_writes [keeps_intros]:
  "keeps owner_inv (settingRepo_UpdateSettings g ss)" "keeps owner_inv (qrcodeRepo_Create q)"
  "keeps owner_inv (qrcodeRepo_InvalidateByGroupID g)" "keeps owner_inv (qrcodeRepo_UpdateExpireAt t e)"
  "keeps owner_inv (pinnedRepo_Delete g m)" "keeps owner_inv (pinnedRepo_Upsert p)"
  "keeps owner_inv (joinRequestRepo_Create r)" "keeps owner_inv (joinRequestRepo_UpdateStatus i s)"
  unfolding settingRepo_UpdateSettings_def qrcodeRepo_Create_def qrcodeRepo_InvalidateByGroupID_def
    qrcodeRepo_UpdateExpireAt_def pinnedRepo_Delete_def pinnedRepo_Upsert_def joinRequestRepo_Create_def
    joinRequestRepo_UpdateStatus_def
  by (intro keeps_intros keeps_modify keeps_exec; auto simp: Let_def split: option.splits)+

lemma keeps_owner_createNewQRCode [keeps_intros]: "keeps owner_inv (createNewQRCode u g)"
  unfolding createNewQRCode_def Let_def by (intro keeps_intros)

lemma keeps_owner_inviteOne [keeps_intros]: "keeps owner_inv (inviteOne g u v x)"
  unfolding inviteOne_def Let_def by (intro keeps_intros)

lemma keeps_owner_DisbandGroup [keeps_intros]: "keeps owner_inv (DisbandGroup u g)"
  unfolding DisbandGroup_def by (intro keeps_intros)

definition not_owner_field :: "group_field \<Rightarrow> bool" where
  "not_owner_field f = (case f of FOwnerID _ \<Rightarrow> False | _ \<Rightarrow> True)"

lemma owner_of_fields: "list_all not_owner_field us \<Longrightarrow> g_OwnerID (fold set_group_field us g) = g_OwnerID g"
proof (induction us arbitrary: g)
  case (Cons u us) then show ?case by (cases u) (simp_all add: not_owner_field_def)
qed simp

lemma keeps_owner_UpdateFields: "list_all not_owner_field us \<Longrightarrow> keeps owner_inv (groupRepo_UpdateFields g us)"
  unfolding groupRepo_UpdateFields_def
  by (intro keeps_intros keeps_modify owner_inv_groups; simp add: owner_of_fields)

lemma info_updates_not_owner: "list_all not_owner_field (info_updates n a an de)"
  by (simp add: not_owner_field_def split: option.splits)

lemma keeps_owner_simple:
  "keeps owner_inv (UpdateGroup u g n a an de)" "keeps owner_inv (UpdateMemberNickname u g nn)"
  "keeps owner_inv (MuteMember u g t k mm)" "keeps owner_inv (UnmuteMember u g t)"
  "keeps owner_inv (PinGroupMessage deps u g m)" "keeps owner_inv (UnpinGroupMessage u g m)"
  "keeps owner_inv (SetGroupMute deps u g e)" "keeps owner_inv (UpdateGroupSettings u g b1 b2 b3 b4 b5)"
  "keeps owner_inv (UpdateMemberRemark u g nn)" "keeps owner_inv (GetGroupQRCode u g)"
  "keeps owner_inv (RefreshGroupQRCode u g)" "keeps owner_inv (InviteMembers u g xs)"
  "keeps owner_inv (JoinGroup u g ms i)" "keeps owner_inv (JoinGroupByQRCode u tk)"
  "keeps owner_inv (HandleJoinRequest u g ri acc)"
  unfolding UpdateGroup_def UpdateMemberNickname_def MuteMember_def UnmuteMember_def PinGroupMessage_def
    UnpinGroupMessage_def SetGroupMute_def UpdateGroupSettings_def UpdateMemberRemark_def GetGroupQRCode_def
    RefreshGroupQRCode_def InviteMembers_def JoinGroup_def JoinGroupByQRCode_def HandleJoinRequest_def Let_def
  by (intro keeps_intros keeps_transaction_body keeps_owner_UpdateFields info_updates_not_owner;
      simp add: not_owner_field_def)+


lemma wp_removeMemberTx_owner:
  assumes "owner_inv (db w)" "x \<in> set (group_members (db w))" "gm_GroupID x = gid" "gm_UserID x = u"
    "gm_Role x \<noteq> GroupRoleOwner"
  shows "wp (removeMemberTx gid u) (\<lambda>_ w'. owner_inv (db w')) (\<lambda>_ w'. owner_inv (db w')) w"
proof -
  have removed: "owner_inv ((db w)\<lparr>group_members := delete_where (\<lambda>m. gm_GroupID m = gid \<and> gm_UserID m = u) (group_members (db w)),
      groups := update_where (\<lambda>g. g_GroupID g = gid) (\<lambda>g. g\<lparr>g_MemberCount := g_MemberCount g + - 1, g_UpdatedAt := t\<rparr>)
        (groups (db w))\<rparr>)" for t
    using owner_inv_groups[OF owner_inv_delete[OF assms], where p = "\<lambda>g. g_GroupID g = gid"
        and f = "\<lambda>g. g\<lparr>g_MemberCount := g_MemberCount g + - 1, g_UpdatedAt := t\<rparr>"] by simp
  show ?thesis
    by (simp only: removeMemberTx_def memberRepo_RemoveMember_def groupRepo_UpdateMemberCount_def wp_simps exec_simps)
       (use assms(1) removed in \<open>simp split: option.split\<close>)
qed

lemma keeps_owner_RemoveMember: "keeps owner_inv (RemoveMember u gid t)"
  apply (rule keepsI)
  apply (simp only: RemoveMember_def memberRepo_GetMember_def wp_simps exec_simps)
  apply (auto split: option.split intro!: wp_seq wp_group_pubs dest!: first_member
      simp: GroupMember_IsOwner_def intro: wp_removeMemberTx_owner)
  done

lemma keeps_owner_QuitGroup: "keeps owner_inv (QuitGroup u gid)"
  apply (rule keepsI)
  apply (simp only: QuitGroup_def memberRepo_GetMember_def memberRepo_GetMemberCount_def wp_simps exec_simps)
  apply (auto split: option.split intro!: wp_seq wp_group_pubs keeps_owner_DisbandGroup[unfolded keeps_wp, rule_format]
      dest!: first_member simp: GroupMember_IsOwner_def intro: wp_removeMemberTx_owner)
  done

lemma keeps_owner_UpdateMemberRole: "keeps owner_inv (UpdateMemberRole u gid t r)"
  apply (rule keepsI)
  apply (simp only: UpdateMemberRole_def memberRepo_GetMember_def memberRepo_UpdateRole_def wp_simps exec_simps)
  apply (auto split: option.split intro!: wp_group_pubs dest!: first_member
      simp: GroupMember_IsOwner_def intro: owner_inv_role)
  done

lemma owner_inv_transfer_members:
  assumes "owner_inv d" "x \<in> set (group_members d)" "y \<in> set (group_members d)" "gm_GroupID y = gm_GroupID x"
    "gm_Role y = GroupRoleOwner" "gm_Role x \<noteq> GroupRoleOwner"
  shows "owner_inv (d\<lparr>groups := update_where (\<lambda>g. g_GroupID g = gm_GroupID x \<and> g_Status g = GroupStatusNormal)
       (\<lambda>g. g\<lparr>g_OwnerID := gm_UserID x, g_UpdatedAt := t1\<rparr>) (groups d),
     group_members := update_where (\<lambda>m. gm_GroupID m = gm_GroupID x \<and> gm_UserID m = gm_UserID x)
       (\<lambda>m. m\<lparr>gm_Role := GroupRoleOwner, gm_UpdatedAt := t3\<rparr>)
       (update_where (\<lambda>m. gm_GroupID m = gm_GroupID x \<and> gm_UserID m = gm_UserID y)
         (\<lambda>m. m\<lparr>gm_Role := GroupRoleAdmin, gm_UpdatedAt := t2\<rparr>) (group_members d))\<rparr>)"
proof (rule owner_inv_transfer[OF assms(1,2) refl refl])
  show "gm_UserID y \<noteq> gm_UserID x"
    using assms member_unique[of "group_members d" y x] by (auto simp: owner_inv_def)
qed

lemma keeps_owner_TransferOwnership: "keeps owner_inv (TransferOwnership u gid n)"
  apply (rule keepsI)
  apply (simp only: TransferOwnership_def memberRepo_GetMember_def memberRepo_UpdateRole_def groupRepo_UpdateFields_def
     fold.simps set_group_field.simps o_apply id_apply wp_simps exec_simps)
  apply (auto split: option.split dest!: first_member simp: GroupMember_IsOwner_def intro: owner_inv_transfer_members)
  done


lemma owner_inv_create:
  assumes "owner_inv d" "insert_unique g_GroupID g (groups d) = Some gs"
    "insert_unique member_key m (group_members d) = Some ms"
    "gm_GroupID m = g_GroupID g" "gm_UserID m = g_OwnerID g" "gm_Role m = GroupRoleOwner"
  shows "owner_inv (d\<lparr>groups := gs, group_settings := ss, group_members := ms\<rparr>)"
  using assms insert_unique_uniq[OF assms(2)] insert_unique_uniq[OF assms(3)]
  by (auto simp: owner_inv_def has_owner_def insert_unique_Some)

lemma keeps_owner_CreateGroup: "keeps owner_inv (CreateGroup u n av xs)"
proof -
  have tail: "wp (memberRepo_AddMembers ms) (\<lambda>_ w'. owner_inv (db w')) (\<lambda>_ _. True) w" if "owner_inv (db w)" for ms w
    using that keeps_owner_AddMembers[of ms] by (auto simp: keeps_wp elim!: wp_mono)
  have body: "wp (thenE (groupRepo_Create g) (
       thenE (settingRepo_Create (DefaultGroupSetting gid)) (
       bindE now (\<lambda>t1.
       thenE (memberRepo_AddMember (newMember gid u GroupRoleOwner t1)) (
       bindE now (\<lambda>t2. if map (f t2) ys \<noteq> [] then memberRepo_AddMembers (map (f t2) ys) else returnE ())))))) 
     (\<lambda>_ w'. owner_inv (db w')) (\<lambda>_ _. True) w"
    if "owner_inv (db w)" "g_GroupID g = gid" "g_OwnerID g = u" for w g gid f and ys :: "string list"
    apply (simp only: groupRepo_Create_def settingRepo_Create_def memberRepo_AddMember_def wp_then wp_bind
      wp_now wp_next_serial wp_exec exec_simps)
    using that
    apply (auto split: option.split intro!: tail owner_inv_create simp: or_default_def wp_return)
    done
  show ?thesis
    unfolding CreateGroup_def Let_def
    by (intro keeps_intros keeps_transaction) (erule body; simp)
qed

lemma group_step_keeps_owner: "keeps owner_inv (group_step deps op)"
  by (cases op) (simp_all add: keeps_owner_simple keeps_void keeps_owner_CreateGroup keeps_owner_DisbandGroup
      keeps_owner_RemoveMember keeps_owner_QuitGroup keeps_owner_UpdateMemberRole keeps_owner_TransferOwnership)

interpretation group_owners: service "group_step deps" any_op owner_inv empty_group_db for deps
  by unfold_locales (simp add: owner_inv_def empty_group_db_def, rule group_step_keeps_owner)

text \<open>C5: in every state the group service reaches, from any sequence of calls, clocks and faults, the
  recorded owner of every active group is a member of that group and has the owner role; so an active
  group is never left without an owner.\<close>

theorem active_group_has_owner:
  assumes "reachable (group_step deps) any_op empty_group_db d" "g \<in> set (groups d)" "Group_IsActive g"
  shows "\<exists>m \<in> set (group_members d). gm_GroupID m = g_GroupID g \<and> gm_UserID m = g_OwnerID g \<and> GroupMember_IsOwner m"
  using group_owners.reachable_inv[OF assms(1)] assms(2,3)
  by (simp add: owner_inv_def Group_IsActive_def has_owner_def GroupMember_IsOwner_def)

subsection \<open>Pinned messages\<close>

lemma pin_inv_other [simp]:
  "pin_inv (d\<lparr>groups := x1\<rparr>) = pin_inv d" "pin_inv (d\<lparr>group_members := x2\<rparr>) = pin_inv d"
  "pin_inv (d\<lparr>group_settings := x3\<rparr>) = pin_inv d" "pin_inv (d\<lparr>group_join_requests := x4\<rparr>) = pin_inv d"
  "pin_inv (d\<lparr>group_qrcodes := x5\<rparr>) = pin_inv d"
  by (simp_all add: pin_inv_def pins_of_def)

lemma keeps_pin_writes [keeps_intros]:
  "keeps pin_inv (groupRepo_Create g0)" "keeps pin_inv (groupRepo_UpdateFields g us)"
  "keeps pin_inv (groupRepo_Delete g)" "keeps pin_inv (groupRepo_UpdateMemberCount g k)"
  "keeps pin_inv (memberRepo_AddMember m)" "keeps pin_inv (memberRepo_AddMembers ms)"
  "keeps pin_inv (memberRepo_RemoveMember g u)" "keeps pin_inv (memberRepo_UpdateRole g u r)"
  "keeps pin_inv (memberRepo_UpdateNickname g u n)" "keeps pin_inv (memberRepo_UpdateRemark g u n)"
  "keeps pin_inv (memberRepo_UpdateMutedUntil g u t)" "keeps pin_inv (settingRepo_Create s)"
  "keeps pin_inv (settingRepo_UpdateSettings g ss)" "keeps pin_inv (qrcodeRepo_Create q)"
  "keeps pin_inv (qrcodeRepo_InvalidateByGroupID g)" "keeps pin_inv (qrcodeRepo_UpdateExpireAt t' e)"
  "keeps pin_inv (joinRequestRepo_Create r')" "keeps pin_inv (joinRequestRepo_UpdateStatus i st)"
  unfolding group_repo_defs memberRepo_AddMembers_def
  by (intro keeps_intros keeps_modify keeps_exec; auto split: option.splits)+

lemma keeps_pin_Delete [keeps_intros]: "keeps pin_inv (pinnedRepo_Delete g m)"
  unfolding pinnedRepo_Delete_def Let_def
proof (intro keeps_exec, clarsimp)
  fix d :: group_db assume "pin_inv d"
  then show "pin_inv (d\<lparr>group_pinned_messages :=
      delete_where (\<lambda>x. pm_GroupID x = g \<and> pm_MessageID x = m) (group_pinned_messages d)\<rparr>)"
    by (simp add: pin_inv_def pins_of_def uniq_delete_where)
       (meson count_where_delete_le of_nat_mono order_trans)
qed


lemma wp_pinnedRepo_Upsert:
  assumes inv: "pin_inv (db w)"
    and room: "(\<exists>x \<in> set (group_pinned_messages (db w)). pinned_key x = pinned_key p) \<or>
       int (pins_of (db w) (pm_GroupID p)) < maxPinnedMessagesPerGroup"
  shows "wp (pinnedRepo_Upsert p) (\<lambda>_ w'. pin_inv (db w')) (\<lambda>_ w'. pin_inv (db w')) w"
proof -
  have upd: "pin_inv ((db w)\<lparr>group_pinned_messages := update_where q (\<lambda>y. y\<lparr>pm_PinnedBy := b, pm_Content := c,
      pm_ContentType := k, pm_MessageSeq := s, pm_CreatedAt := t, pm_UpdatedAt := t\<rparr>) (group_pinned_messages (db w))\<rparr>)"
    for q b c k s t
    using inv by (simp add: pin_inv_def pins_of_def uniq_update_where pinned_key_def count_where_update_same)
  have ins: "pin_inv ((db w)\<lparr>group_pinned_messages := rows\<rparr>)"
    if "insert_unique pinned_key (p\<lparr>pm_ID := i, pm_CreatedAt := t, pm_UpdatedAt := t\<rparr>) (group_pinned_messages (db w)) = Some rows"
      "first_where (\<lambda>x. pm_GroupID x = pm_GroupID p \<and> pm_MessageID x = pm_MessageID p) pm_ID (group_pinned_messages (db w)) = None"
    for i t rows
  proof -
    have "int (pins_of (db w) (pm_GroupID p)) < maxPinnedMessagesPerGroup"
      using room that(2) by (auto simp: first_where_None pinned_key_def)
    then show ?thesis using inv that(1) insert_unique_uniq[OF that(1)]
      by (auto simp: pin_inv_def pins_of_def insert_unique_Some)
  qed
  show ?thesis
    by (simp only: pinnedRepo_Upsert_def wp_simps exec_simps)
       (auto split: option.split simp: wp_simps intro!: upd ins inv)
qed

lemma keeps_pin_PinGroupMessage: "keeps pin_inv (PinGroupMessage deps u g m)"
proof (rule keepsI)
  fix w :: "group_db world" assume inv: "pin_inv (db w)"
  have snap: "wp (getPinnedMessageSnapshot deps g m) Q E w'" if "\<And>a w''. db w'' = db w' \<Longrightarrow> Q a w''"
      "\<And>e w''. db w'' = db w' \<Longrightarrow> E e w''" for Q E w'
    using keeps_getPinnedMessageSnapshot that by (intro wp_preserves) (simp_all add: preserves_db_keeps)
  have fin: "wp (pinnedRepo_Upsert p) (\<lambda>_. wp (publishGroupMessagePinnedNotification g u m)
      (\<lambda>_ w'. pin_inv (db w')) (\<lambda>_ w'. pin_inv (db w'))) (\<lambda>_ w'. pin_inv (db w')) w'"
    if "db w' = db w" "pinned_key p = (g, m)" "0 < count_where (\<lambda>p. pm_GroupID p = g \<and> pm_MessageID p = m) (group_pinned_messages (db w)) \<or>
       int (pins_of (db w) g) < maxPinnedMessagesPerGroup" for p w'
    using inv that by (intro wp_seq wp_pinnedRepo_Upsert wp_group_pubs) (auto simp: pinned_key_def count_where_pos)
  show "wp (PinGroupMessage deps u g m) (\<lambda>_ w'. pin_inv (db w')) (\<lambda>_ w'. pin_inv (db w')) w"
    apply (simp only: PinGroupMessage_def groupRepo_GetByGroupID_def memberRepo_GetMember_def pinnedRepo_Exists_def
      pinnedRepo_CountByGroup_def wp_simps exec_simps)
    using inv
    apply (auto split: option.split prod.split intro!: snap fin
      simp: wp_simps pinned_key_def pins_of_def)
    done
qed

lemma keeps_pin_addMemberTx [keeps_intros]: "keeps pin_inv (addMemberTx g u)"
  and keeps_pin_removeMemberTx [keeps_intros]: "keeps pin_inv (removeMemberTx g u)"
  unfolding addMemberTx_def removeMemberTx_def by (intro keeps_intros keeps_transaction_body)+

lemma keeps_pin_createNewQRCode [keeps_intros]: "keeps pin_inv (createNewQRCode u g)"
  and keeps_pin_inviteOne [keeps_intros]: "keeps pin_inv (inviteOne g u b x)"
  unfolding createNewQRCode_def inviteOne_def Let_def by (intro keeps_intros)+

lemma keeps_pin_DisbandGroup [keeps_intros]: "keeps pin_inv (DisbandGroup u g)"
  unfolding DisbandGroup_def by (intro keeps_intros)

lemma keeps_pin_simple:
  "keeps pin_inv (CreateGroup u n av xs)"
  "keeps pin_inv (UpdateGroup u g n' a an de)" "keeps pin_inv (UpdateMemberNickname u g nn)"
  "keeps pin_inv (MuteMember u g t k mm)" "keeps pin_inv (UnmuteMember u g t)"
  "keeps pin_inv (UnpinGroupMessage u g m)" "keeps pin_inv (TransferOwnership u g t)"
  "keeps pin_inv (SetGroupMute deps u g e)" "keeps pin_inv (UpdateGroupSettings u g b1 b2 b3 b4 b5)"
  "keeps pin_inv (UpdateMemberRemark u g nn)" "keeps pin_inv (GetGroupQRCode u g)"
  "keeps pin_inv (RefreshGroupQRCode u g)" "keeps pin_inv (InviteMembers u g xs)"
  "keeps pin_inv (JoinGroup u g ms i)" "keeps pin_inv (JoinGroupByQRCode u tk)"
  "keeps pin_inv (HandleJoinRequest u g ri acc)" "keeps pin_inv (RemoveMember u g t)"
  "keeps pin_inv (QuitGroup u g)" "keeps pin_inv (UpdateMemberRole u g t k)"
  unfolding CreateGroup_def UpdateGroup_def UpdateMemberNickname_def MuteMember_def UnmuteMember_def
    UnpinGroupMessage_def TransferOwnership_def SetGroupMute_def UpdateGroupSettings_def UpdateMemberRemark_def
    GetGroupQRCode_def RefreshGroupQRCode_def InviteMembers_def JoinGroup_def JoinGroupByQRCode_def
    HandleJoinRequest_def RemoveMember_def QuitGroup_def UpdateMemberRole_def Let_def
  by (intro keeps_intros keeps_transaction_body)+

lemma group_step_keeps_pins: "keeps pin_inv (group_step deps op)"
  by (cases op) (simp_all add: keeps_pin_simple keeps_void keeps_pin_PinGroupMessage keeps_pin_DisbandGroup)

interpretation group_pins: service "group_step deps" any_op pin_inv empty_group_db for deps
  by unfold_locales (simp add: pin_inv_def empty_group_db_def pins_of_def uniq_def maxPinnedMessagesPerGroup_def,
    rule group_step_keeps_pins)

text \<open>C6: in every reachable state a group has at most twenty pinned messages, each pinned once,
  whatever the message service answers.\<close>

theorem pinned_messages_bounded:
  assumes "reachable (group_step deps) any_op empty_group_db d"
  shows "pins_of d gid \<le> 20 \<and> uniq pinned_key (group_pinned_messages d)"
  using group_pins.reachable_inv[OF assms] by (simp_all add: pin_inv_def maxPinnedMessagesPerGroup_def)

end
