(* ===== verification/Group_Handler.thy ===== *)
theory Group_Handler
  imports Group_Service
begin

text \<open>
  The gRPC handlers of the group service (\<open>internal/handler/group_handler.go\<close>).  A handler takes the
  operator from the metadata where the source does, refuses malformed requests and translates the
  service's error into a status.  The four methods other services call and \<open>RefreshGroupQRCode\<close> take the
  user from the request itself.
\<close>

definition GroupHandler_IsMember :: "string \<Rightarrow> string \<Rightarrow> (group_db, bool \<times> int) M" where
  "GroupHandler_IsMember groupId userId =
     convertE (GroupIsMember groupId userId)"

definition GroupHandler_GetGroupInfo :: "string \<Rightarrow> string \<Rightarrow> (group_db, GroupInfoResponse) M" where
  "GroupHandler_GetGroupInfo groupId userId =
     convertE (GetGroupInfo groupId userId)"

definition GroupHandler_GetGroupMembers :: "string \<Rightarrow> string \<Rightarrow> int option \<Rightarrow> int option \<Rightarrow> (group_db, GroupMemberInfo list \<times> int) M" where
  "GroupHandler_GetGroupMembers userId groupId page pageSize =
     convertE (GetGroupMembers userId groupId page pageSize)"

definition GroupHandler_GetUserGroups :: "string \<Rightarrow> int option \<Rightarrow> (group_db, GroupInfo list \<times> int \<times> int) M" where
  "GroupHandler_GetUserGroups userId lastUpdateTime =
     convertE (GetUserGroups userId lastUpdateTime)"

definition GroupHandler_CreateGroup :: "ctx \<Rightarrow> string \<Rightarrow> string option \<Rightarrow> string list \<Rightarrow> (group_db, CreateGroupResponse) M" where
  "GroupHandler_CreateGroup ctx name avatar memberIds =
     bindE (MustGetUserID ctx) (\<lambda>userID.
     if name = '''' then badRequestE ''group name is required''
     else if memberIds = [] then badRequestE ''at least one member must be invited''
     else if length memberIds > 499 then badRequestE ''group member count exceeds limit''
     else convertE (CreateGroup userID name avatar memberIds))"

definition GroupHandler_UpdateGroup :: "ctx \<Rightarrow> string \<Rightarrow> string option \<Rightarrow> string option \<Rightarrow> string option \<Rightarrow> string option \<Rightarrow> (group_db, unit) M" where
  "GroupHandler_UpdateGroup ctx groupId name avatar announcement description =
     bindE (MustGetUserID ctx) (\<lambda>userID.
     if groupId = '''' then badRequestE ''group_id is required''
     else if name = None \<and> avatar = None \<and> announcement = None \<and> description = None then badRequestE ''at least one field must be updated''
     else convertE (UpdateGroup userID groupId name avatar announcement description))"

definition GroupHandler_DisbandGroup :: "ctx \<Rightarrow> string \<Rightarrow> (group_db, unit) M" where
  "GroupHandler_DisbandGroup ctx groupId =
     bindE (MustGetUserID ctx) (\<lambda>userID.
     if groupId = '''' then badRequestE ''group_id is required''
     else convertE (DisbandGroup userID groupId))"

definition GroupHandler_InviteMembers :: "ctx \<Rightarrow> string \<Rightarrow> string list \<Rightarrow> (group_db, unit) M" where
  "GroupHandler_InviteMembers ctx groupId inviteeIds =
     bindE (MustGetUserID ctx) (\<lambda>userID.
     if groupId = '''' then badRequestE ''group_id is required''
     else if inviteeIds = [] then badRequestE ''at least one invitee must be specified''
     else convertE (InviteMembers userID groupId inviteeIds))"

definition GroupHandler_RemoveMember :: "ctx \<Rightarrow> string \<Rightarrow> string \<Rightarrow> (group_db, unit) M" where
  "GroupHandler_RemoveMember ctx groupId targetUserId =
     bindE (MustGetUserID ctx) (\<lambda>userID.
     if groupId = '''' then badRequestE ''group_id is required''
     else if targetUserId = '''' then badRequestE ''target_user_id is required''
     else convertE (RemoveMember userID groupId targetUserId))"

definition GroupHandler_QuitGroup :: "ctx \<Rightarrow> string \<Rightarrow> (group_db, unit) M" where
  "GroupHandler_QuitGroup ctx groupId =
     bindE (MustGetUserID ctx) (\<lambda>userID.
     if groupId = '''' then badRequestE ''group_id is required''
     else convertE (QuitGroup userID groupId))"

definition GroupHandler_UpdateMemberRole :: "ctx \<Rightarrow> string \<Rightarrow> string \<Rightarrow> int \<Rightarrow> (group_db, unit) M" where
  "GroupHandler_UpdateMemberRole ctx groupId targetUserId role =
     bindE (MustGetUserID ctx) (\<lambda>userID.
     if groupId = '''' then badRequestE ''group_id is required''
     else if targetUserId = '''' then badRequestE ''target_user_id is required''
     else convertE (UpdateMemberRole userID groupId targetUserId role))"

definition GroupHandler_UpdateMemberNickname :: "ctx \<Rightarrow> string \<Rightarrow> string \<Rightarrow> (group_db, unit) M" where
  "GroupHandler_UpdateMemberNickname ctx groupId nickname =
     bindE (MustGetUserID ctx) (\<lambda>userID.
     if groupId = '''' then badRequestE ''group_id is required''
     else if rune_count nickname > 20 then badRequestE ''nickname cannot exceed 20 characters''
     else convertE (UpdateMemberNickname userID groupId nickname))"

definition GroupHandler_TransferOwnership :: "ctx \<Rightarrow> string \<Rightarrow> string \<Rightarrow> (group_db, unit) M" where
  "GroupHandler_TransferOwnership ctx groupId newOwnerId =
     bindE (MustGetUserID ctx) (\<lambda>userID.
     if groupId = '''' then badRequestE ''group_id is required''
     else if newOwnerId = '''' then badRequestE ''new_owner_id is required''
     else convertE (TransferOwnership userID groupId newOwnerId))"

definition GroupHandler_JoinGroup :: "ctx \<Rightarrow> string \<Rightarrow> string option \<Rightarrow> string option \<Rightarrow> (group_db, JoinGroupResponse) M" where
  "GroupHandler_JoinGroup ctx groupId message inviterId =
     bindE (MustGetUserID ctx) (\<lambda>userID.
     if groupId = '''' then badRequestE ''group_id is required''
     else convertE (JoinGroup userID groupId message inviterId))"

definition GroupHandler_HandleJoinRequest :: "ctx \<Rightarrow> string \<Rightarrow> int \<Rightarrow> bool \<Rightarrow> (group_db, unit) M" where
  "GroupHandler_HandleJoinRequest ctx groupId requestId accept =
     bindE (MustGetUserID ctx) (\<lambda>userID.
     if groupId = '''' then badRequestE ''group_id is required''
     else if requestId = 0 then badRequestE ''request_id is required''
     else convertE (HandleJoinRequest userID groupId requestId accept))"

definition GroupHandler_GetJoinRequests :: "ctx \<Rightarrow> string \<Rightarrow> int option \<Rightarrow> (group_db, GroupJoinRequest list) M" where
  "GroupHandler_GetJoinRequests ctx groupId status =
     bindE (MustGetUserID ctx) (\<lambda>userID.
     convertE (GetJoinRequests userID groupId status))"

definition GroupHandler_PinGroupMessage :: "group_deps \<Rightarrow> ctx \<Rightarrow> string \<Rightarrow> string \<Rightarrow> (group_db, unit) M" where
  "GroupHandler_PinGroupMessage deps ctx groupId messageId =
     bindE (MustGetUserID ctx) (\<lambda>userID.
     if groupId = '''' then badRequestE ''group_id is required''
     else if messageId = '''' then badRequestE ''message_id is required''
     else convertE (PinGroupMessage deps userID groupId messageId))"

definition GroupHandler_UnpinGroupMessage :: "ctx \<Rightarrow> string \<Rightarrow> string \<Rightarrow> (group_db, unit) M" where
  "GroupHandler_UnpinGroupMessage ctx groupId messageId =
     bindE (MustGetUserID ctx) (\<lambda>userID.
     if groupId = '''' then badRequestE ''group_id is required''
     else if messageId = '''' then badRequestE ''message_id is required''
     else convertE (UnpinGroupMessage userID groupId messageId))"

definition GroupHandler_GetPinnedMessages :: "ctx \<Rightarrow> string \<Rightarrow> (group_db, GroupPinnedMessage list \<times> int) M" where
  "GroupHandler_GetPinnedMessages ctx groupId =
     bindE (MustGetUserID ctx) (\<lambda>userID.
     convertE (GetPinnedMessages userID groupId))"

definition GroupHandler_SetGroupMute :: "group_deps \<Rightarrow> ctx \<Rightarrow> string \<Rightarrow> bool \<Rightarrow> (group_db, unit) M" where
  "GroupHandler_SetGroupMute deps ctx groupId enabled =
     bindE (MustGetUserID ctx) (\<lambda>userID.
     if groupId = '''' then badRequestE ''group_id is required''
     else convertE (SetGroupMute deps userID groupId enabled))"

definition GroupHandler_MuteMember :: "ctx \<Rightarrow> string \<Rightarrow> string \<Rightarrow> int \<Rightarrow> int \<Rightarrow> (group_db, unit) M" where
  "GroupHandler_MuteMember ctx groupId targetUserId muteType durationMinutes =
     bindE (MustGetUserID ctx) (\<lambda>userID.
     if groupId = '''' then badRequestE ''group_id is required''
     else if targetUserId = '''' then badRequestE ''target_user_id is required''
     else convertE (MuteMember userID groupId targetUserId muteType durationMinutes))"

definition GroupHandler_UnmuteMember :: "ctx \<Rightarrow> string \<Rightarrow> string \<Rightarrow> (group_db, unit) M" where
  "GroupHandler_UnmuteMember ctx groupId targetUserId =
     bindE (MustGetUserID ctx) (\<lambda>userID.
     if groupId = '''' then badRequestE ''group_id is required''
     else if targetUserId = '''' then badRequestE ''target_user_id is required''
     else convertE (UnmuteMember userID groupId targetUserId))"

definition GroupHandler_UpdateGroupSettings :: "ctx \<Rightarrow> string \<Rightarrow> bool option \<Rightarrow> bool option \<Rightarrow> bool option \<Rightarrow> bool option \<Rightarrow> bool option \<Rightarrow> (group_db, unit) M" where
  "GroupHandler_UpdateGroupSettings ctx groupId joinVerify memberInvite viewHistory addFriend memberModify =
     bindE (MustGetUserID ctx) (\<lambda>userID.
     if groupId = '''' then badRequestE ''group_id is required''
     else convertE (UpdateGroupSettings userID groupId joinVerify memberInvite viewHistory addFriend memberModify))"

definition GroupHandler_GetGroupSettings :: "string \<Rightarrow> (group_db, GroupSetting) M" where
  "GroupHandler_GetGroupSettings groupId =
     convertE (GetGroupSettings groupId)"

definition GroupHandler_UpdateMemberRemark :: "ctx \<Rightarrow> string \<Rightarrow> string \<Rightarrow> (group_db, unit) M" where
  "GroupHandler_UpdateMemberRemark ctx groupId remark =
     bindE (MustGetUserID ctx) (\<lambda>userID.
     if groupId = '''' then badRequestE ''group_id is required''
     else if rune_count remark > 20 then badRequestE ''remark cannot exceed 20 characters''
     else convertE (UpdateMemberRemark userID groupId remark))"

definition GroupHandler_GetGroupQRCode :: "ctx \<Rightarrow> string \<Rightarrow> (group_db, QRCodeResponse) M" where
  "GroupHandler_GetGroupQRCode ctx groupId =
     bindE (MustGetUserID ctx) (\<lambda>userID.
     convertE (GetGroupQRCode userID groupId))"

definition GroupHandler_RefreshGroupQRCode :: "string \<Rightarrow> string \<Rightarrow> (group_db, QRCodeResponse) M" where
  "GroupHandler_RefreshGroupQRCode userId groupId =
     convertE (RefreshGroupQRCode userId groupId)"

definition GroupHandler_GetGroupPreviewByQRCode :: "string \<Rightarrow> (group_db, GroupPreview) M" where
  "GroupHandler_GetGroupPreviewByQRCode token =
     convertE (GetGroupPreviewByQRCode token)"

definition GroupHandler_JoinGroupByQRCode :: "ctx \<Rightarrow> string \<Rightarrow> (group_db, JoinByQRCodeResponse) M" where
  "GroupHandler_JoinGroupByQRCode ctx token =
     bindE (MustGetUserID ctx) (\<lambda>userID.
     convertE (JoinGroupByQRCode userID token))"

end
