(* ===== verification/Group_Properties.thy ===== *)
theory Group_Properties
  imports Group_Owner Group_Handler
begin

text \<open>
  What the operations of the group service do on every branch: authorisation and atomicity under
  every schedule of faults, and the results in worlds without faults.
\<close>

subsection \<open>An example history\<close>

definition gd_none :: group_deps where
  "gd_none = \<lparr>gd_GetMessageById = None, gd_SendMessage = (\<lambda>_. Inr ()), gd_text_field = (\<lambda>_. None)\<rparr>"

definition duo_db :: group_db where
  "duo_db = db (run_ops (group_step gd_none) [OpCreateGroup ''ann'' ''duo'' None [''bob'']]
     (init_world empty_group_db))"

lemma duo_reachable: "reachable (group_step gd_none) any_op empty_group_db duo_db"
  unfolding duo_db_def by (rule run_ops_reachable) (simp_all add: reach_init any_op_def)

lemma duo_reachable_ok: "reachable (group_step gd_none) group_ok empty_group_db duo_db"
  unfolding duo_db_def by (rule run_ops_reachable) (simp_all add: reach_init)

lemma duo_rows:
  "map (\<lambda>g. (g_GroupID g, g_Status g)) (groups duo_db) = [(''uuid-0'', 1)]"
  by code_simp

lemma duo_group: "groups duo_db \<noteq> [] \<and> Group_IsActive (hd (groups duo_db)) \<and> g_GroupID (hd (groups duo_db)) = ''uuid-0''"
  using duo_rows by (auto simp: Group_IsActive_def)

theorem member_count_exact_witness:
  "g_MemberCount (hd (groups duo_db)) = int (members_of duo_db ''uuid-0'')"
  using member_count_exact[OF duo_reachable_ok, of "hd (groups duo_db)"] duo_group by simp

theorem active_group_has_owner_witness:
  "\<exists>m \<in> set (group_members duo_db). gm_GroupID m = ''uuid-0'' \<and> GroupMember_IsOwner m"
  using active_group_has_owner[OF duo_reachable, of "hd (groups duo_db)"] duo_group by fastforce

theorem pinned_messages_bounded_witness: "pins_of duo_db ''uuid-0'' \<le> 20"
  using pinned_messages_bounded[OF duo_reachable, of "''uuid-0''"] by blast

subsection \<open>Removing members\<close>

definition member_row :: "group_db \<Rightarrow> string \<Rightarrow> string \<Rightarrow> GroupMember option" where
  "member_row d gid u = first_where (\<lambda>m. gm_GroupID m = gid \<and> gm_UserID m = u) gm_ID (group_members d)"

text \<open>Who may remove whom.  Under every schedule of faults \<open>RemoveMember\<close> either returns an error
  and leaves the tables as they were, or the operator outranks the target (an owner removes anybody but
  an owner, an administrator only ordinary members) and exactly the target's row is gone and the
  group's counter is one lower.\<close>

theorem RemoveMember_authorized:
  "case RemoveMember u gid t w of
     (Inl e, w') \<Rightarrow> db w' = db w
   | (Inr _, w') \<Rightarrow> \<exists>oper target ts. member_row (db w) gid u = Some oper \<and> member_row (db w) gid t = Some target \<and>
        \<not> GroupMember_IsOwner target \<and>
        (GroupMember_IsOwner oper \<or> gm_Role oper = GroupRoleAdmin \<and> gm_Role target = GroupRoleMember) \<and>
        db w' = (db w)\<lparr>
          group_members := delete_where (\<lambda>m. gm_GroupID m = gid \<and> gm_UserID m = t) (group_members (db w)),
          groups := update_where (\<lambda>g. g_GroupID g = gid)
            (\<lambda>g. g\<lparr>g_MemberCount := g_MemberCount g - 1, g_UpdatedAt := ts\<rparr>) (groups (db w))\<rparr>"
  apply (rule wp_caseI)
  apply (simp only: RemoveMember_def memberRepo_GetMember_def removeMemberTx_def memberRepo_RemoveMember_def
      groupRepo_UpdateMemberCount_def wp_simps exec_simps)
  apply (auto split: option.split simp: member_row_def CanRemoveMember_def GroupMember_IsOwner_def
      intro!: wp_quiet[OF quiet_group_publish(4)])
  done


subsection \<open>Ownership\<close>

text \<open>Transferring ownership is atomic under every schedule of faults.  A call that fails leaves
  the tables as they were.  A call that succeeds was made by an owner; either the named member already
  has the owner role and nothing changes, or the group's owner field, the promotion and the demotion
  are all in place.\<close>

theorem TransferOwnership_spec:
  "case TransferOwnership u gid v w of
     (Inl e, w') \<Rightarrow> db w' = db w
   | (Inr _, w') \<Rightarrow> (case (member_row (db w) gid u, member_row (db w) gid v) of
         (Some oper, Some new) \<Rightarrow> GroupMember_IsOwner oper \<and>
           (if GroupMember_IsOwner new then db w' = db w
            else \<exists>t1 t2 t3. db w' = (db w)\<lparr>
              groups := update_where (\<lambda>g. g_GroupID g = gid \<and> g_Status g = GroupStatusNormal)
                (\<lambda>g. g\<lparr>g_OwnerID := v, g_UpdatedAt := t1\<rparr>) (groups (db w)),
              group_members := update_where (\<lambda>m. gm_GroupID m = gid \<and> gm_UserID m = v)
                (\<lambda>m. m\<lparr>gm_Role := GroupRoleOwner, gm_UpdatedAt := t3\<rparr>)
                (update_where (\<lambda>m. gm_GroupID m = gid \<and> gm_UserID m = u)
                  (\<lambda>m. m\<lparr>gm_Role := GroupRoleAdmin, gm_UpdatedAt := t2\<rparr>) (group_members (db w)))\<rparr>)
       | _ \<Rightarrow> False)"
  apply (rule wp_caseI)
  apply (simp only: TransferOwnership_def memberRepo_GetMember_def memberRepo_UpdateRole_def
      groupRepo_UpdateFields_def fold.simps set_group_field.simps o_apply id_apply wp_simps exec_simps)
  apply (auto split: option.split simp: member_row_def)
  done

text \<open>An owner leaves a group only by dissolving it.  Under every schedule of faults, a successful
  \<open>QuitGroup\<close> of an owner was called on a group with one member and dissolves it, and a successful call
  of anybody else removes exactly that member's row.\<close>

theorem QuitGroup_spec:
  "case QuitGroup u gid w of
     (Inl e, w') \<Rightarrow> db w' = db w
   | (Inr _, w') \<Rightarrow> (case member_row (db w) gid u of
         None \<Rightarrow> False
       | Some m \<Rightarrow>
           if GroupMember_IsOwner m then members_of (db w) gid = 1 \<and>
             (\<exists>t. db w' = (db w)\<lparr>groups := update_where (\<lambda>g. g_GroupID g = gid)
               (\<lambda>g. g\<lparr>g_Status := GroupStatusDissolved, g_UpdatedAt := t\<rparr>) (groups (db w))\<rparr>)
           else (\<exists>t. db w' = (db w)\<lparr>
             group_members := delete_where (\<lambda>m. gm_GroupID m = gid \<and> gm_UserID m = u) (group_members (db w)),
             groups := update_where (\<lambda>g. g_GroupID g = gid)
               (\<lambda>g. g\<lparr>g_MemberCount := g_MemberCount g - 1, g_UpdatedAt := t\<rparr>) (groups (db w))\<rparr>))"
  apply (rule wp_caseI)
  apply (simp only: QuitGroup_def DisbandGroup_def memberRepo_GetMember_def memberRepo_GetMemberCount_def
      removeMemberTx_def memberRepo_RemoveMember_def groupRepo_UpdateMemberCount_def groupRepo_Delete_def
      groupRepo_GetByGroupID_def wp_simps exec_simps)
  apply (auto split: option.split simp: member_row_def members_of_def
      intro!: wp_quiet[OF quiet_group_publish(4)] wp_quiet[OF quiet_group_publish(13)])
  done

subsection \<open>Joining\<close>

text \<open>A group that asks for verification is never joined directly.  Under every schedule of faults
  a successful \<open>JoinGroup\<close> that answers ``verification needed'' leaves the members and the counters as
  they were and names a pending request of the caller; one that answers otherwise adds exactly one
  ordinary member, the caller, and counts it.\<close>

theorem JoinGroup_verification:
  "case JoinGroup u gid msg inviter w of
     (Inl e, w') \<Rightarrow> group_members (db w') = group_members (db w) \<and> groups (db w') = groups (db w)
   | (Inr r, w') \<Rightarrow>
       (if jg_NeedVerify r then group_members (db w') = group_members (db w) \<and> groups (db w') = groups (db w) \<and>
          (\<exists>q \<in> set (group_join_requests (db w')). Some (jr_ID q) = jg_RequestId r \<and> jr_GroupID q = gid \<and>
             jr_UserID q = u \<and> JoinRequest_IsPending q)
        else \<exists>m t. gm_GroupID m = gid \<and> gm_UserID m = u \<and> gm_Role m = GroupRoleMember \<and>
          group_members (db w') = group_members (db w) @ [m] \<and>
          groups (db w') = update_where (\<lambda>g. g_GroupID g = gid)
            (\<lambda>g. g\<lparr>g_MemberCount := g_MemberCount g + 1, g_UpdatedAt := t\<rparr>) (groups (db w)))"
  apply (rule wp_caseI)
  apply (simp only: JoinGroup_def groupRepo_GetByGroupID_def memberRepo_IsMember_def joinRequestRepo_GetExistingRequest_def
     getGroupJoinVerify_def settingRepo_GetSettings_def joinRequestRepo_Create_def addMemberTx_def memberRepo_AddMember_def
     groupRepo_UpdateMemberCount_def wp_simps exec_simps)
  apply (auto split: option.split simp: wp_simps insert_unique_Some newJoinRequest_def JoinRequest_IsPending_def or_default_def
     dest!: first_where_SomeD)
  done


text \<open>\<open>HandleJoinRequest\<close> checks the operator's rights in the group named by the call and not in the
  group the request belongs to: an administrator of one group can accept a pending request for any
  other group, whose member list and counter change accordingly.\<close>

theorem HandleJoinRequest_cross_group:
  assumes "healthy w" "first_where (\<lambda>r. jr_ID r = i) jr_ID (group_join_requests (db w)) = Some r"
    and "JoinRequest_IsPending r" "jr_GroupID r \<noteq> gid"
    and "member_row (db w) gid u = Some oper" "CanManageGroup oper"
    and "\<forall>m \<in> set (group_members (db w)). \<not> (gm_GroupID m = jr_GroupID r \<and> gm_UserID m = jr_UserID r)"
  shows "case HandleJoinRequest u gid i True w of
      (Inl e, w') \<Rightarrow> False
    | (Inr _, w') \<Rightarrow> member_row (db w') (jr_GroupID r) (jr_UserID r) \<noteq> None \<and>
        members_of (db w') (jr_GroupID r) = members_of (db w) (jr_GroupID r) + 1"
proof -
  have f: "fault w n = None" for n using assms(1) by (rule healthy_fault)
  have ins: "insert_unique member_key m (group_members (db w)) = Some (group_members (db w) @ [m])"
    if "gm_GroupID m = jr_GroupID r" "gm_UserID m = jr_UserID r" for m
    using assms(7) that by (auto simp: insert_unique_Some member_key_def)
  have st: "\<not> JoinRequest_IsProcessed r"
    using assms(3) by (simp add: JoinRequest_IsPending_def JoinRequest_IsProcessed_def)
  show ?thesis
    apply (rule wp_caseI)
    apply (simp only: HandleJoinRequest_def joinRequestRepo_GetByID_def joinRequestRepo_UpdateStatus_def
      memberRepo_GetMember_def memberRepo_AddMember_def groupRepo_UpdateMemberCount_def wp_simps exec_simps
      f assms(2) assms(5)[unfolded member_row_def] assms(6) st)
    apply (simp add: f ins members_of_def member_row_def first_where_None)
    done
qed

text \<open>\<open>JoinGroup\<close> does not look at the size limit.  In a group that is already full and needs no
  verification the call adds one more member, while \<open>JoinGroupByQRCode\<close> refuses.\<close>

theorem JoinGroup_ignores_limit:
  assumes "healthy w" "count_inv (db w)"
    and "first_where (\<lambda>g. g_GroupID g = gid \<and> g_Status g = GroupStatusNormal) g_ID (groups (db w)) = Some g"
    and "Group_IsFull g"
    and "first_where (\<lambda>s. gs_GroupID s = gid) (\<lambda>_. 0::int) (group_settings (db w)) = Some s" "\<not> gs_JoinVerify s"
    and "\<forall>m \<in> set (group_members (db w)). \<not> (gm_GroupID m = gid \<and> gm_UserID m = u)"
    and "\<forall>q \<in> set (group_join_requests (db w)). \<not> (jr_GroupID q = gid \<and> jr_UserID q = u)"
  shows "case JoinGroup u gid None None w of
      (Inl e, w') \<Rightarrow> False
    | (Inr r, w') \<Rightarrow> \<not> jg_NeedVerify r \<and> int (members_of (db w') gid) > g_MaxMembers g"
proof -
  have f: "fault w n = None" for n using assms(1) by (rule healthy_fault)
  have g: "g \<in> set (groups (db w))" "g_GroupID g = gid" "g_Status g = GroupStatusNormal"
    using first_where_SomeD[OF assms(3)] by auto
  have full: "int (members_of (db w) gid) \<ge> g_MaxMembers g"
    using assms(2,4) g by (auto simp: count_inv_def Group_IsFull_def)
  have ins: "insert_unique member_key m (group_members (db w)) = Some (group_members (db w) @ [m])"
    if "gm_GroupID m = gid" "gm_UserID m = u" for m
    using assms(7) that by (auto simp: insert_unique_Some member_key_def)
  have nomem: "count_where (\<lambda>m. gm_GroupID m = gid \<and> gm_UserID m = u) (group_members (db w)) = 0"
    using assms(7) by (auto simp: count_where_zero)
  have noreq: "first_where (\<lambda>r. jr_GroupID r = gid \<and> jr_UserID r = u \<and> jr_Status r = JoinRequestStatusPending) jr_ID
      (group_join_requests (db w)) = None"
    using assms(8) by (auto simp: first_where_None)
  show ?thesis
    apply (rule wp_caseI)
    apply (simp only: JoinGroup_def groupRepo_GetByGroupID_def memberRepo_IsMember_def
      joinRequestRepo_GetExistingRequest_def getGroupJoinVerify_def settingRepo_GetSettings_def addMemberTx_def
      memberRepo_AddMember_def groupRepo_UpdateMemberCount_def wp_simps exec_simps
      f assms(3,5,6) Group_IsActive_def g(3) nomem noreq)
    using full
    apply (simp add: f ins members_of_def)
    done
qed

subsection \<open>QR codes\<close>

lemma wp_createNewQRCode:
  "wp (createNewQRCode u gid) (\<lambda>r w'. \<exists>q. qr_GroupID q = gid \<and> qr_Token q = qrr_Token r \<and>
       group_qrcodes (db w') = group_qrcodes (db w) @ [q] \<and> qr_Token q \<notin> qr_Token ` set (group_qrcodes (db w)))
     (\<lambda>_ _. True) w"
  by (simp only: createNewQRCode_def qrcodeRepo_Create_def wp_simps exec_simps)
     (auto split: option.split simp: insert_unique_Some buildQRCodeResponse_def)

text \<open>Refreshing the QR code of a group invalidates every code issued before: after a successful
  refresh, under any faults during it, joining with an old token of the group is refused as expired in
  every later world without faults whose codes are those the refresh left.\<close>

theorem RefreshGroupQRCode_invalidates:
  assumes "uniq qr_Token (group_qrcodes (db w))" "q \<in> set (group_qrcodes (db w))" "qr_GroupID q = gid"
    and "RefreshGroupQRCode u gid w = (Inr r, w1)" "group_qrcodes (db w2) = group_qrcodes (db w1)" "healthy w2"
  shows "fst (JoinGroupByQRCode v (qr_Token q) w2) = Inl errQRExpired"
proof -
  have tokens: "qr_Token ` set (update_where p (\<lambda>q. q\<lparr>qr_IsActive := False, qr_UpdatedAt := t\<rparr>) qs) = qr_Token ` set qs" for p t qs
    by (rule image_update_where) simp
  have post: "wp (RefreshGroupQRCode u gid) (\<lambda>r w'. \<exists>t q'. qr_Token q' \<notin> qr_Token ` set (group_qrcodes (db w)) \<and>
      group_qrcodes (db w') = update_where (\<lambda>q. qr_GroupID q = gid \<and> qr_IsActive q)
         (\<lambda>q. q\<lparr>qr_IsActive := False, qr_UpdatedAt := t\<rparr>) (group_qrcodes (db w)) @ [q']) (\<lambda>_ _. True) w"
    apply (simp only: RefreshGroupQRCode_def memberRepo_GetMember_def qrcodeRepo_InvalidateByGroupID_def wp_simps exec_simps)
    apply (auto split: option.split intro!: wp_mono[OF wp_createNewQRCode] wp_quiet[OF quiet_group_publish(3)]
      simp: wp_then wp_return tokens)
    apply metis
    done
  obtain t q' where rows: "group_qrcodes (db w2) = update_where (\<lambda>q. qr_GroupID q = gid \<and> qr_IsActive q)
         (\<lambda>q. q\<lparr>qr_IsActive := False, qr_UpdatedAt := t\<rparr>) (group_qrcodes (db w)) @ [q']"
    and new: "qr_Token q' \<notin> qr_Token ` set (group_qrcodes (db w))"
    using wp_result[OF assms(4) post] assms(5) by auto
  have "qr_Token q \<in> qr_Token ` set (group_qrcodes (db w2))" using assms(2) by (simp add: rows image_Un tokens)
  then have "first_where (\<lambda>x. qr_Token x = qr_Token q) qr_ID (group_qrcodes (db w2)) \<noteq> None"
    by (auto simp: first_where_None)
  then obtain x where x: "first_where (\<lambda>x. qr_Token x = qr_Token q) qr_ID (group_qrcodes (db w2)) = Some x" by blast
  have old: "y = q" if "y \<in> set (group_qrcodes (db w))" "qr_Token y = qr_Token q" for y
    using assms(1,2) that by (auto simp: uniq_def distinct_map inj_on_def)
  have "x \<noteq> q'" using first_where_SomeD[OF x] new assms(2) by (metis imageI)
  then have x': "\<not> qr_IsActive x"
    using first_where_SomeD[OF x] rows assms(3) by (auto simp: set_update_where dest!: old)
  have f: "fault w2 n = None" for n using assms(6) by (rule healthy_fault)
  have "wp (JoinGroupByQRCode v (qr_Token q)) (\<lambda>_ _. False) (\<lambda>e _. e = errQRExpired) w2"
    using x x' by (simp only: JoinGroupByQRCode_def validQRCode_def qrcodeRepo_GetByToken_def wp_simps exec_simps f
       GroupQRCode_IsValid_def)
  then show ?thesis by (auto simp: wp_def split: prod.splits sum.splits)
qed

definition sample_group :: "string \<Rightarrow> Group" where
  "sample_group gid = \<lparr>g_ID = 1, g_GroupID = gid, g_Name = ''n'', g_Avatar = '''', g_Announcement = '''',
     g_Description = '''', g_OwnerID = ''ann'', g_MemberCount = 1, g_MaxMembers = 1, g_IsMuted = False,
     g_Status = GroupStatusNormal, g_CreatedAt = 0, g_UpdatedAt = 0\<rparr>"

definition sample_member :: "string \<Rightarrow> string \<Rightarrow> int \<Rightarrow> GroupMember" where
  "sample_member gid u role = (newMember gid u role 0)\<lparr>gm_ID := 1\<rparr>"

definition sample_request :: GroupJoinRequest where
  "sample_request = (newJoinRequest ''g2'' ''bob'' '''' '''' 0)\<lparr>jr_ID := 7\<rparr>"

definition sample_qr :: GroupQRCode where
  "sample_qr = \<lparr>qr_ID = 1, qr_GroupID = ''g1'', qr_Token = ''t1'', qr_CreatedBy = ''ann'', qr_ExpireAt = 100,
     qr_IsActive = True, qr_CreatedAt = 0, qr_UpdatedAt = 0\<rparr>"

definition sample_db :: group_db where
  "sample_db = \<lparr>groups = [sample_group ''g1'', (sample_group ''g2'')\<lparr>g_ID := 2, g_MemberCount := 0\<rparr>],
     group_members = [sample_member ''g1'' ''ann'' GroupRoleOwner],
     group_settings = [(DefaultGroupSetting ''g1'')\<lparr>gs_JoinVerify := False\<rparr>],
     group_join_requests = [sample_request], group_pinned_messages = [], group_qrcodes = [sample_qr]\<rparr>"

lemmas sample_defs = sample_db_def sample_group_def sample_member_def sample_request_def sample_qr_def
  newMember_def newJoinRequest_def

theorem HandleJoinRequest_cross_group_witness:
  "member_row (db (snd (HandleJoinRequest ''ann'' ''g1'' 7 True (init_world sample_db)))) ''g2'' ''bob'' \<noteq> None"
  using HandleJoinRequest_cross_group[of "init_world sample_db" 7 sample_request "''g1''" "''ann''"
      "sample_member ''g1'' ''ann'' GroupRoleOwner"]
  by (auto simp: sample_defs member_row_def first_where_def select_where_def JoinRequest_IsPending_def
      CanManageGroup_def GroupMember_IsAdmin_def split: prod.splits sum.splits)

lemma sample_inv: "count_inv sample_db"
  by (auto simp: count_inv_def sample_defs uniq_def member_key_def members_of_def group_ids_def)

theorem JoinGroup_ignores_limit_witness:
  "int (members_of (db (snd (JoinGroup ''bob'' ''g1'' None None (init_world sample_db)))) ''g1'') > 1"
  using JoinGroup_ignores_limit[of "init_world sample_db" "''g1''" "sample_group ''g1''"
      "(DefaultGroupSetting ''g1'')\<lparr>gs_JoinVerify := False\<rparr>" "''bob''"] sample_inv
  by (auto simp: sample_defs first_where_def select_where_def Group_IsFull_def DefaultGroupSetting_def
      split: prod.splits sum.splits)

theorem RefreshGroupQRCode_invalidates_witness:
  "fst (JoinGroupByQRCode ''bob'' ''t1'' (init_world (db (snd (RefreshGroupQRCode ''ann'' ''g1'' (init_world sample_db)))))) =
     Inl errQRExpired"
proof -
  have "\<not> isl (fst (RefreshGroupQRCode ''ann'' ''g1'' (init_world sample_db)))" by code_simp
  then obtain r where "RefreshGroupQRCode ''ann'' ''g1'' (init_world sample_db) =
      (Inr r, snd (RefreshGroupQRCode ''ann'' ''g1'' (init_world sample_db)))"
    by (cases "RefreshGroupQRCode ''ann'' ''g1'' (init_world sample_db)") (auto simp: isl_def split: sum.splits, metis sum.exhaust_sel)
  then show ?thesis
    using RefreshGroupQRCode_invalidates[of "init_world sample_db" sample_qr "''g1''" "''ann''" r _
       "init_world (db (snd (RefreshGroupQRCode ''ann'' ''g1'' (init_world sample_db))))" "''bob''"]
    by (simp add: sample_defs uniq_def)
qed

subsection \<open>Bounds\<close>

lemma runes_nonempty: "r \<in> set (runes s) \<Longrightarrow> r \<noteq> []"
  by (induction s rule: runes.induct) auto

text \<open>The preview of a pinned text is cut between characters.  For a positive limit the result is
  the text itself when it is short enough, and otherwise a prefix of the text with exactly the limit's
  number of characters, followed by an ellipsis; no multi-byte character is ever split.\<close>

theorem truncateWithEllipsis_runes:
  assumes "n > 0"
  shows "\<exists>p rest. s = p @ rest \<and> runes p = take (nat n) (runes s) \<and>
     truncateWithEllipsis s n = p @ (if rest = [] then [] else ''...'')"
proof -
  let ?p = "concat (take (nat n) (runes s))" and ?r = "concat (drop (nat n) (runes s))"
  have split: "s = ?p @ ?r" by (metis append_take_drop_id concat_append concat_runes)
  have "?r = [] \<longleftrightarrow> int (rune_count s) \<le> n"
  proof
    assume "?r = []"
    then have "drop (nat n) (runes s) = []"
      using runes_nonempty[of _ s] by (metis concat_eq_Nil_conv hd_in_set in_set_dropD)
    then show "int (rune_count s) \<le> n" using assms by (simp add: rune_count_def)
  next
    assume "int (rune_count s) \<le> n"
    then have "drop (nat n) (runes s) = []" using assms by (simp add: rune_count_def)
    then show "?r = []" by (simp only: concat.simps)
  qed
  then show ?thesis using assms split
    by (intro exI[of _ ?p] exI[of _ ?r]) (auto simp: truncateWithEllipsis_def runes_concat_take rune_count_def)
qed

theorem truncateWithEllipsis_runes_witness:
  "\<exists>p rest. ''hello'' = p @ rest \<and> runes p = take 2 (runes ''hello'') \<and>
     truncateWithEllipsis ''hello'' 2 = p @ (if rest = [] then [] else ''...'')"
  using truncateWithEllipsis_runes[of 2 "''hello''"] by simp

lemma muteDuration_exact: "0 < m \<Longrightarrow> m \<le> 153722867 \<Longrightarrow> muteDuration m = m * Minute"
  by (auto simp: muteDuration_def int64_def Minute_def Second_def)

lemma muteDuration_overflow: "muteDuration 153722868 < 0"
  by (simp add: muteDuration_def int64_def Minute_def Second_def)

text \<open>How long a temporary mute lasts.  A permitted \<open>MuteMember\<close> of a positive number of minutes
  succeeds; up to 153722867 minutes the target is muted from the clock reading until exactly that many
  minutes later.  One minute more and the 64-bit product is negative: the call still succeeds and the
  target is not muted at all.\<close>

theorem MuteMember_temporary:
  assumes "healthy w" "member_row (db w) gid u = Some oper" "member_row (db w) gid v = Some target"
    and "\<not> GroupMember_IsOwner target" "CanMuteMember oper (gm_Role target)" "0 < m"
  shows "case MuteMember u gid v MUTE_TYPE_TEMPORARY m w of
      (Inl e, w') \<Rightarrow> False
    | (Inr _, w') \<Rightarrow> (let t = clock w (tick w + 2) in
        \<exists>x \<in> set (group_members (db w')). gm_GroupID x = gid \<and> gm_UserID x = v \<and>
          (m \<le> 153722867 \<longrightarrow> (\<forall>t'. IsMutedNow x t' = (t' < t + m * Minute))) \<and>
          (m = 153722868 \<longrightarrow> \<not> IsMutedNow x t))"
proof -
  have f: "fault w n = None" for n using assms(1) by (rule healthy_fault)
  have mem: "target \<in> set (group_members (db w))" "gm_GroupID target = gid" "gm_UserID target = v"
    using first_where_SomeD[OF assms(3)[unfolded member_row_def]] by auto
  have row: "\<exists>x \<in> set (update_where (\<lambda>m. gm_GroupID m = gid \<and> gm_UserID m = v)
        (\<lambda>y. y\<lparr>gm_MutedUntil := Some (t + muteDuration m), gm_UpdatedAt := t2\<rparr>) (group_members (db w))).
      gm_GroupID x = gid \<and> gm_UserID x = v \<and> (m \<le> 153722867 \<longrightarrow> (\<forall>t'. IsMutedNow x t' = (t' < t + m * Minute))) \<and>
      (m = 153722868 \<longrightarrow> \<not> IsMutedNow x t)" for t t2
    unfolding bex_update_where
    using mem assms(6) muteDuration_overflow
    by (intro bexI[of _ target]) (auto simp: IsMutedNow_def muteDuration_exact)
  show ?thesis
    apply (rule wp_caseI)
    apply (simp only: MuteMember_def memberRepo_GetMember_def memberRepo_UpdateMutedUntil_def wp_simps exec_simps f
      assms(2,3)[unfolded member_row_def] assms(4,5))
    apply (simp add: not_le assms(6) wp_simps f)
    apply (rule wp_quiet[OF quiet_group_publish(7)])
    apply (simp add: row)
    done
qed

theorem MuteMember_temporary_witness:
  "\<not> isl (fst (MuteMember ''ann'' ''g'' ''bob'' 2 153722868
     (init_world (empty_group_db\<lparr>group_members := [sample_member ''g'' ''ann'' GroupRoleOwner,
        (sample_member ''g'' ''bob'' GroupRoleMember)\<lparr>gm_ID := 2\<rparr>]\<rparr>))))"
  using MuteMember_temporary[of "init_world (empty_group_db\<lparr>group_members := [sample_member ''g'' ''ann'' GroupRoleOwner,
        (sample_member ''g'' ''bob'' GroupRoleMember)\<lparr>gm_ID := 2\<rparr>]\<rparr>)" "''g''" "''ann''" "sample_member ''g'' ''ann'' GroupRoleOwner"
      "''bob''" "(sample_member ''g'' ''bob'' GroupRoleMember)\<lparr>gm_ID := 2\<rparr>" 153722868]
  by (auto simp: sample_member_def newMember_def member_row_def first_where_def select_where_def GroupMember_IsOwner_def
      CanMuteMember_def CanRemoveMember_def split: prod.splits sum.splits)

subsection \<open>Gaps\<close>

text \<open>\<open>UpdateMemberRole\<close> accepts the owner role.  When an owner sets another member's role to
  owner the call succeeds, the group's recorded owner does not change, and the group has two members
  with the owner role, neither of whom can be removed or demoted by the other.\<close>

theorem UpdateMemberRole_second_owner:
  assumes "healthy w" "member_row (db w) gid u = Some oper" "GroupMember_IsOwner oper"
    and "member_row (db w) gid v = Some target" "\<not> GroupMember_IsOwner target"
  shows "case UpdateMemberRole u gid v GroupRoleOwner w of
      (Inl e, w') \<Rightarrow> False
    | (Inr _, w') \<Rightarrow> u \<noteq> v \<and> groups (db w') = groups (db w) \<and>
        (\<forall>x \<in> {u, v}. \<exists>m \<in> set (group_members (db w')). gm_GroupID m = gid \<and> gm_UserID m = x \<and> GroupMember_IsOwner m)"
proof -
  have f: "fault w n = None" for n using assms(1) by (rule healthy_fault)
  have op: "oper \<in> set (group_members (db w))" "gm_GroupID oper = gid" "gm_UserID oper = u"
    using first_where_SomeD[OF assms(2)[unfolded member_row_def]] by auto
  have tg: "target \<in> set (group_members (db w))" "gm_GroupID target = gid" "gm_UserID target = v"
    using first_where_SomeD[OF assms(4)[unfolded member_row_def]] by auto
  have ne: "u \<noteq> v" using assms by auto
  have rows: "\<forall>x \<in> {u, v}. \<exists>m \<in> set (update_where (\<lambda>m. gm_GroupID m = gid \<and> gm_UserID m = v)
      (\<lambda>m. m\<lparr>gm_Role := 1, gm_UpdatedAt := t\<rparr>) (group_members (db w))).
        gm_GroupID m = gid \<and> gm_UserID m = x \<and> GroupMember_IsOwner m" for t
    unfolding bex_update_where
    using op tg ne assms(3) by (auto simp: GroupMember_IsOwner_def intro: bexI[of _ oper] bexI[of _ target])
  show ?thesis
    apply (rule wp_caseI)
    apply (simp only: UpdateMemberRole_def memberRepo_GetMember_def memberRepo_UpdateRole_def wp_simps exec_simps f
      assms(2,4)[unfolded member_row_def] assms(3,5))
    apply (rule wp_quiet[OF quiet_group_publish(6)])
    apply (use rows ne in \<open>simp add: int16_def\<close>)
    done
qed

theorem UpdateMemberRole_second_owner_witness:
  "\<not> isl (fst (UpdateMemberRole ''ann'' ''g'' ''bob'' 1
     (init_world (empty_group_db\<lparr>group_members := [sample_member ''g'' ''ann'' GroupRoleOwner,
        (sample_member ''g'' ''bob'' GroupRoleMember)\<lparr>gm_ID := 2\<rparr>]\<rparr>))))"
  using UpdateMemberRole_second_owner[of "init_world (empty_group_db\<lparr>group_members := [sample_member ''g'' ''ann'' GroupRoleOwner,
        (sample_member ''g'' ''bob'' GroupRoleMember)\<lparr>gm_ID := 2\<rparr>]\<rparr>)" "''g''" "''ann''" "sample_member ''g'' ''ann'' GroupRoleOwner"
      "''bob''" "(sample_member ''g'' ''bob'' GroupRoleMember)\<lparr>gm_ID := 2\<rparr>"]
  by (auto simp: sample_member_def newMember_def member_row_def first_where_def select_where_def GroupMember_IsOwner_def
      split: prod.splits sum.splits)

text \<open>\<open>CreateGroup\<close> counts the creator twice when the creator is also listed among the initial
  members: the duplicate row is skipped but the stored counter is the length of the list plus one.
  This is the history the counting theorem excludes.\<close>

theorem CreateGroup_listed_creator_miscounts:
  "let d = db (snd (CreateGroup ''ann'' ''g'' None [''ann''] (init_world empty_group_db)))
   in map g_MemberCount (groups d) = [2] \<and> members_of d ''uuid-0'' = 1"
  by code_simp

end
