(* ===== verification/Conversation_Model.thy ===== *)
theory Conversation_Model
  imports Metadata
begin

text \<open>
  The conversation service (\<open>app/conversation\<close>): the row (\<open>internal/model\<close>), the repository, the
  service and the gRPC handlers.  A conversation belongs to one user; the peer has a row of its own.
  The unique keys are those of migration 000005.  \<open>unread_count\<close> is a 32-bit column: an update that
  would leave its range is refused by the database.
\<close>

subsection \<open>Rows\<close>

abbreviation (input) ConversationTypeSystem :: int where "ConversationTypeSystem \<equiv> 3"

record ConversationRow =
  c_ConversationID :: string
  c_ConversationType :: int
  c_UserID :: string
  c_TargetID :: string
  c_LastMessageID :: string
  c_LastMessageContent :: string
  c_LastMessageTime :: "int option"
  c_UnreadCount :: int
  c_IsPinned :: bool
  c_IsMuted :: bool
  c_PinTime :: "int option"
  c_BurnAfterReading :: int
  c_AutoDeleteDuration :: int
  c_CreatedAt :: int
  c_UpdatedAt :: int

record conversation_db =
  conversations :: "ConversationRow list"

definition empty_conversation_db :: conversation_db where
  "empty_conversation_db = \<lparr>conversations = []\<rparr>"

definition conv_key :: "ConversationRow \<Rightarrow> string \<times> int \<times> string" where
  "conv_key c = (c_UserID c, c_ConversationType c, c_TargetID c)"

definition owned :: "string \<Rightarrow> string \<Rightarrow> ConversationRow \<Rightarrow> bool" where
  "owned userID conversationID c = (c_ConversationID c = conversationID \<and> c_UserID c = userID)"

subsection \<open>Repository\<close>

text \<open>\<open>ON CONFLICT (user_id, conversation_type, target_id) DO UPDATE\<close> of the last message.\<close>

definition refreshed :: "ConversationRow \<Rightarrow> ConversationRow \<Rightarrow> ConversationRow" where
  "refreshed new old = old\<lparr>c_LastMessageID := c_LastMessageID new, c_LastMessageContent := c_LastMessageContent new,
     c_LastMessageTime := c_LastMessageTime new, c_UpdatedAt := c_UpdatedAt new\<rparr>"

definition conversationRepo_Upsert :: "ConversationRow \<Rightarrow> (conversation_db, unit) M" where
  "conversationRepo_Upsert conversation =
     bindE now (\<lambda>t.
     let conversation = conversation\<lparr>c_CreatedAt := t, c_UpdatedAt := t\<rparr> in
     exec (\<lambda>d. if has_key conv_key (conv_key conversation) (conversations d) then
         Inr ((), d\<lparr>conversations := update_where (\<lambda>c. conv_key c = conv_key conversation) (refreshed conversation)
           (conversations d)\<rparr>)
       else (case insert_unique c_ConversationID conversation (conversations d) of
           None \<Rightarrow> Inl (UniqueViolation ''conversations_pkey'')
         | Some rows \<Rightarrow> Inr ((), d\<lparr>conversations := rows\<rparr>))))"

definition conversationRepo_GetByID :: "string \<Rightarrow> (conversation_db, ConversationRow) M" where
  "conversationRepo_GetByID conversationID =
     find_one (\<lambda>d. first_where (\<lambda>c. c_ConversationID c = conversationID) (\<lambda>_. 0::int) (conversations d))"

definition conversationRepo_GetByUserAndTarget ::
    "string \<Rightarrow> int \<Rightarrow> string \<Rightarrow> (conversation_db, ConversationRow) M" where
  "conversationRepo_GetByUserAndTarget userID conversationType targetID =
     find_one (\<lambda>d. first_where (\<lambda>c. conv_key c = (userID, conversationType, targetID)) (\<lambda>_. 0::int) (conversations d))"

text \<open>\<open>ORDER BY is_pinned DESC, COALESCE(last_message_time, created_at) DESC\<close>.\<close>

definition listed :: "string \<Rightarrow> int \<Rightarrow> int option \<Rightarrow> conversation_db \<Rightarrow> ConversationRow list" where
  "listed userID limit updatedBefore d =
     (let limit = (if limit \<le> 0 \<or> limit > 100 then 20 else limit);
          rows = select_where (\<lambda>c. c_UserID c = userID \<and>
              (case updatedBefore of None \<Rightarrow> True | Some t \<Rightarrow> c_UpdatedAt c < t))
            (\<lambda>c. - (case c_LastMessageTime c of Some t \<Rightarrow> t | None \<Rightarrow> c_CreatedAt c)) (conversations d) in
      take (nat limit) (sort_key (\<lambda>c. if c_IsPinned c then 0 else 1 :: int) rows))"

definition conversationRepo_ListByUser :: "string \<Rightarrow> int \<Rightarrow> int option \<Rightarrow> (conversation_db, ConversationRow list) M" where
  "conversationRepo_ListByUser userID limit updatedBefore = query (listed userID limit updatedBefore)"

definition conversationRepo_Delete :: "string \<Rightarrow> string \<Rightarrow> (conversation_db, unit) M" where
  "conversationRepo_Delete userID conversationID =
     modify (\<lambda>d. d\<lparr>conversations := delete_where (owned userID conversationID) (conversations d)\<rparr>)"

text \<open>gorm's \<open>Update\<close> and \<open>Updates\<close> also set \<open>updated_at\<close>; \<open>UpdateColumn\<close> does not.\<close>

definition updateOwned :: "string \<Rightarrow> string \<Rightarrow> (ConversationRow \<Rightarrow> ConversationRow) \<Rightarrow> (conversation_db, unit) M" where
  "updateOwned userID conversationID f =
     bindE now (\<lambda>t. modify (\<lambda>d. d\<lparr>conversations := update_where (owned userID conversationID)
       (\<lambda>c. (f c)\<lparr>c_UpdatedAt := t\<rparr>) (conversations d)\<rparr>))"

definition conversationRepo_SetPinned :: "string \<Rightarrow> string \<Rightarrow> bool \<Rightarrow> int option \<Rightarrow> (conversation_db, unit) M" where
  "conversationRepo_SetPinned userID conversationID pinned pinTime =
     updateOwned userID conversationID (\<lambda>c. c\<lparr>c_IsPinned := pinned, c_PinTime := pinTime\<rparr>)"

definition conversationRepo_SetMuted :: "string \<Rightarrow> string \<Rightarrow> bool \<Rightarrow> (conversation_db, unit) M" where
  "conversationRepo_SetMuted userID conversationID muted = updateOwned userID conversationID (\<lambda>c. c\<lparr>c_IsMuted := muted\<rparr>)"

definition conversationRepo_SetBurnAfterReading :: "string \<Rightarrow> string \<Rightarrow> int \<Rightarrow> (conversation_db, unit) M" where
  "conversationRepo_SetBurnAfterReading userID conversationID duration =
     updateOwned userID conversationID (\<lambda>c. c\<lparr>c_BurnAfterReading := duration\<rparr>)"

definition conversationRepo_SetAutoDelete :: "string \<Rightarrow> string \<Rightarrow> int \<Rightarrow> (conversation_db, unit) M" where
  "conversationRepo_SetAutoDelete userID conversationID duration =
     updateOwned userID conversationID (\<lambda>c. c\<lparr>c_AutoDeleteDuration := duration\<rparr>)"

definition conversationRepo_ClearUnread :: "string \<Rightarrow> string \<Rightarrow> (conversation_db, unit) M" where
  "conversationRepo_ClearUnread userID conversationID = updateOwned userID conversationID (\<lambda>c. c\<lparr>c_UnreadCount := 0\<rparr>)"

definition conversationRepo_IncrUnread :: "string \<Rightarrow> string \<Rightarrow> int \<Rightarrow> (conversation_db, unit) M" where
  "conversationRepo_IncrUnread userID conversationID count =
     exec (\<lambda>d. if list_ex (\<lambda>c. owned userID conversationID c \<and> int32 (c_UnreadCount c + count) \<noteq> c_UnreadCount c + count)
           (conversations d)
       then Inl (Plain ''integer out of range'')
       else Inr ((), d\<lparr>conversations := update_where (owned userID conversationID)
         (\<lambda>c. c\<lparr>c_UnreadCount := c_UnreadCount c + count\<rparr>) (conversations d)\<rparr>))"

definition conversationRepo_SumUnread :: "string \<Rightarrow> (conversation_db, int) M" where
  "conversationRepo_SumUnread userID =
     query (\<lambda>d. int32 (sum_list (map c_UnreadCount (filter (\<lambda>c. c_UserID c = userID \<and> \<not> c_IsMuted c) (conversations d)))))"

lemmas conversation_repo_defs = conversationRepo_Upsert_def conversationRepo_GetByID_def
  conversationRepo_GetByUserAndTarget_def conversationRepo_ListByUser_def conversationRepo_Delete_def
  conversationRepo_SetPinned_def conversationRepo_SetMuted_def conversationRepo_SetBurnAfterReading_def
  conversationRepo_SetAutoDelete_def conversationRepo_ClearUnread_def conversationRepo_IncrUnread_def
  conversationRepo_SumUnread_def updateOwned_def

subsection \<open>Service\<close>

abbreviation (input) TypeConversationUnreadUpdated :: string where "TypeConversationUnreadUpdated \<equiv> ''conversation.unread_updated''"
abbreviation (input) TypeConversationPinUpdated :: string where "TypeConversationPinUpdated \<equiv> ''conversation.pin_updated''"
abbreviation (input) TypeConversationDeleted :: string where "TypeConversationDeleted \<equiv> ''conversation.deleted''"
abbreviation (input) TypeConversationMuteUpdated :: string where "TypeConversationMuteUpdated \<equiv> ''conversation.mute_updated''"
abbreviation (input) TypeConversationBurnUpdated :: string where "TypeConversationBurnUpdated \<equiv> ''conversation.burn_updated''"
abbreviation (input) TypeConversationAutoDeleteUpdated :: string where
  "TypeConversationAutoDeleteUpdated \<equiv> ''conversation.auto_delete_updated''"

text \<open>\<open>fmt.Errorf("what: %w", err)\<close>.\<close>

definition wrapE :: "string \<Rightarrow> ('db, 'a) M \<Rightarrow> ('db, 'a) M" where
  "wrapE what m = catchE m (\<lambda>e. throwE (Plain (what @ '': '' @ err_string e)))"

record pbConversation =
  pc_ConversationId :: string
  pc_ConversationType :: int
  pc_TargetId :: string
  pc_UnreadCount :: int
  pc_IsPinned :: bool
  pc_IsMuted :: bool
  pc_BurnAfterReading :: int
  pc_AutoDeleteDuration :: int
  pc_CreatedAt :: int
  pc_UpdatedAt :: int
  pc_LastMessageId :: "string option"
  pc_LastMessageContent :: "string option"
  pc_LastMessageTime :: "int option"
  pc_PinTime :: "int option"

definition toProtoConversation :: "ConversationRow \<Rightarrow> pbConversation" where
  "toProtoConversation c = \<lparr>pc_ConversationId = c_ConversationID c, pc_ConversationType = c_ConversationType c,
     pc_TargetId = c_TargetID c, pc_UnreadCount = int32 (c_UnreadCount c), pc_IsPinned = c_IsPinned c,
     pc_IsMuted = c_IsMuted c, pc_BurnAfterReading = c_BurnAfterReading c,
     pc_AutoDeleteDuration = c_AutoDeleteDuration c, pc_CreatedAt = c_CreatedAt c, pc_UpdatedAt = c_UpdatedAt c,
     pc_LastMessageId = (if c_LastMessageID c \<noteq> '''' then Some (c_LastMessageID c) else None),
     pc_LastMessageContent = (if c_LastMessageContent c \<noteq> '''' then Some (c_LastMessageContent c) else None),
     pc_LastMessageTime = c_LastMessageTime c, pc_PinTime = c_PinTime c\<rparr>"

text \<open>The answer \<open>&conversationv1.Conversation{}\<close>.\<close>

definition zeroConversation :: pbConversation where
  "zeroConversation = \<lparr>pc_ConversationId = '''', pc_ConversationType = 0, pc_TargetId = '''', pc_UnreadCount = 0,
     pc_IsPinned = False, pc_IsMuted = False, pc_BurnAfterReading = 0, pc_AutoDeleteDuration = 0, pc_CreatedAt = 0,
     pc_UpdatedAt = 0, pc_LastMessageId = None, pc_LastMessageContent = None, pc_LastMessageTime = None, pc_PinTime = None\<rparr>"

definition parseConversationType :: "string \<Rightarrow> err + int" where
  "parseConversationType s =
     (if s = ''CONVERSATION_TYPE_SINGLE'' \<or> s = ''single'' then Inr 1
      else if s = ''CONVERSATION_TYPE_GROUP'' \<or> s = ''group'' then Inr 2
      else if s = ''CONVERSATION_TYPE_SYSTEM'' \<or> s = ''system'' then Inr ConversationTypeSystem
      else Inl (Plain (''unknown conversation type: '' @ s)))"

definition GetConversations :: "string \<Rightarrow> int \<Rightarrow> int option \<Rightarrow> (conversation_db, pbConversation list) M" where
  "GetConversations userID reqLimit updatedBefore =
     (let limit = (if reqLimit \<le> 0 then 20 else reqLimit) in
      bindE (wrapE ''failed to list conversations'' (conversationRepo_ListByUser userID limit updatedBefore)) (\<lambda>cs.
      returnE (map toProtoConversation cs)))"

definition GetConversation :: "string \<Rightarrow> string \<Rightarrow> (conversation_db, pbConversation) M" where
  "GetConversation userID conversationID =
     bindE (catchE (conversationRepo_GetByID conversationID) (\<lambda>e. if e = RecordNotFound then throwE (Plain ''conversation not found'')
       else throwE (Plain (''failed to get conversation: '' @ err_string e)))) (\<lambda>conversation.
     if c_UserID conversation \<noteq> userID then throwE (Plain ''conversation not found'')
     else returnE (toProtoConversation conversation))"

definition CreateOrUpdateConversation ::
    "string \<Rightarrow> string \<Rightarrow> string \<Rightarrow> string \<Rightarrow> int option \<Rightarrow> (conversation_db, pbConversation) M" where
  "CreateOrUpdateConversation userId conversationTypeName targetId firstMessageId updatedAt =
     (case parseConversationType conversationTypeName of
        Inl e \<Rightarrow> throwE (Plain (''invalid conversation type: '' @ err_string e))
      | Inr conversationType \<Rightarrow>
     bindE new_uuid (\<lambda>conversationID.
     thenE (wrapE ''failed to create or update conversation'' (conversationRepo_Upsert
       \<lparr>c_ConversationID = conversationID, c_ConversationType = conversationType, c_UserID = userId, c_TargetID = targetId,
        c_LastMessageID = firstMessageId, c_LastMessageContent = '''', c_LastMessageTime = updatedAt, c_UnreadCount = 0,
        c_IsPinned = False, c_IsMuted = False, c_PinTime = None, c_BurnAfterReading = 0, c_AutoDeleteDuration = 0,
        c_CreatedAt = 0, c_UpdatedAt = 0\<rparr>)) (
     bindE (attemptE (conversationRepo_GetByUserAndTarget userId conversationType targetId)) (\<lambda>latest.
     case latest of None \<Rightarrow> returnE zeroConversation | Some c \<Rightarrow> returnE (toProtoConversation c)))))"

text \<open>Tell the user's other devices.\<close>

definition syncDevices :: "string \<Rightarrow> string \<Rightarrow> payload \<Rightarrow> (conversation_db, unit) M" where
  "syncDevices userID kind fs =
     bindE (NewNotification kind userID PriorityNormal) (\<lambda>n.
     ignoreE (PublishToUser userID (fold (\<lambda>(k, v) n. AddPayloadField n k v) fs n)))"

definition DeleteConversation :: "string \<Rightarrow> string \<Rightarrow> (conversation_db, unit) M" where
  "DeleteConversation userID conversationID =
     thenE (wrapE ''failed to delete conversation'' (conversationRepo_Delete userID conversationID))
       (syncDevices userID TypeConversationDeleted [(''conversation_id'', JStr conversationID)])"

definition SetPinned :: "string \<Rightarrow> string \<Rightarrow> bool \<Rightarrow> (conversation_db, unit) M" where
  "SetPinned userID conversationID pinned =
     bindE (if pinned then bindE now (\<lambda>t. returnE (Some t)) else returnE None) (\<lambda>pinTime.
     thenE (wrapE ''failed to set pinned'' (conversationRepo_SetPinned userID conversationID pinned pinTime))
       (syncDevices userID TypeConversationPinUpdated [(''conversation_id'', JStr conversationID), (''is_pinned'', JBool pinned)]))"

definition SetMuted :: "string \<Rightarrow> string \<Rightarrow> bool \<Rightarrow> (conversation_db, unit) M" where
  "SetMuted userID conversationID muted =
     thenE (wrapE ''failed to set muted'' (conversationRepo_SetMuted userID conversationID muted))
       (syncDevices userID TypeConversationMuteUpdated [(''conversation_id'', JStr conversationID), (''is_muted'', JBool muted)])"

definition SetBurnAfterReading :: "string \<Rightarrow> string \<Rightarrow> int \<Rightarrow> (conversation_db, unit) M" where
  "SetBurnAfterReading userID conversationID duration =
     thenE (wrapE ''failed to set burn after reading'' (conversationRepo_SetBurnAfterReading userID conversationID duration))
       (syncDevices userID TypeConversationBurnUpdated
         [(''conversation_id'', JStr conversationID), (''burn_after_reading'', JInt duration)])"

definition SetAutoDelete :: "string \<Rightarrow> string \<Rightarrow> int \<Rightarrow> (conversation_db, unit) M" where
  "SetAutoDelete userID conversationID duration =
     thenE (wrapE ''failed to set auto delete'' (conversationRepo_SetAutoDelete userID conversationID duration))
       (syncDevices userID TypeConversationAutoDeleteUpdated
         [(''conversation_id'', JStr conversationID), (''auto_delete_duration'', JInt duration)])"

definition ClearUnread :: "string \<Rightarrow> string \<Rightarrow> (conversation_db, unit) M" where
  "ClearUnread userID conversationID =
     thenE (wrapE ''failed to clear unread'' (conversationRepo_ClearUnread userID conversationID)) (
     bindE (attemptE (conversationRepo_SumUnread userID)) (\<lambda>total.
     syncDevices userID TypeConversationUnreadUpdated
       [(''conversation_id'', JStr conversationID), (''unread_count'', JInt 0),
        (''total_unread'', JInt (case total of None \<Rightarrow> 0 | Some n \<Rightarrow> n))]))"

definition GetTotalUnread :: "string \<Rightarrow> (conversation_db, int) M" where
  "GetTotalUnread userID = wrapE ''failed to get total unread'' (conversationRepo_SumUnread userID)"

definition IncrUnread :: "string \<Rightarrow> string \<Rightarrow> int \<Rightarrow> (conversation_db, unit) M" where
  "IncrUnread userID conversationID count =
     thenE (wrapE ''failed to incr conversation unread'' (conversationRepo_IncrUnread userID conversationID (int32 count)))
       (syncDevices userID TypeConversationUnreadUpdated [(''conversation_id'', JStr conversationID)])"

end
