(* ===== verification/Conversation_Service.thy ===== *)
theory Conversation_Service
  imports Conversation_Model
begin

text \<open>
  The handlers of the conversation service and its refinement: the table of conversations implements a
  map from a user, a type and a target to a conversation, and every request, whatever fails, either
  leaves the map alone or performs exactly the one abstract step it stands for.
\<close>

subsection \<open>Handlers (\<open>internal/handler/conversation_handler.go\<close>)\<close>

definition ConversationHandler_GetConversations :: "ctx \<Rightarrow> int \<Rightarrow> int option \<Rightarrow> (conversation_db, pbConversation list) M" where
  "ConversationHandler_GetConversations ctx limit updatedBefore =
     bindE (MustGetUserID ctx) (\<lambda>userID. convertE (GetConversations userID limit updatedBefore))"

text \<open>The handlers of one conversation of the caller.\<close>

definition ownConversation :: "ctx \<Rightarrow> string \<Rightarrow> (string \<Rightarrow> (conversation_db, 'a) M) \<Rightarrow> (conversation_db, 'a) M" where
  "ownConversation ctx conversationId f =
     (if conversationId = '''' then badRequestE ''conversation_id is required''
      else bindE (MustGetUserID ctx) (\<lambda>userID. convertE (f userID)))"

definition ConversationHandler_GetConversation :: "ctx \<Rightarrow> string \<Rightarrow> (conversation_db, pbConversation) M" where
  "ConversationHandler_GetConversation ctx conversationId =
     ownConversation ctx conversationId (\<lambda>userID. GetConversation userID conversationId)"

definition ConversationHandler_CreateOrUpdateConversation ::
    "string \<Rightarrow> string \<Rightarrow> string \<Rightarrow> string \<Rightarrow> int option \<Rightarrow> (conversation_db, pbConversation) M" where
  "ConversationHandler_CreateOrUpdateConversation userId conversationType targetId firstMessageId updatedAt =
     (if userId = '''' \<or> targetId = '''' \<or> conversationType = ''''
      then badRequestE ''user_id, target_id and conversation_type are required''
      else convertE (CreateOrUpdateConversation userId conversationType targetId firstMessageId updatedAt))"

definition ConversationHandler_DeleteConversation :: "ctx \<Rightarrow> string \<Rightarrow> (conversation_db, unit) M" where
  "ConversationHandler_DeleteConversation ctx conversationId =
     ownConversation ctx conversationId (\<lambda>userID. DeleteConversation userID conversationId)"

definition ConversationHandler_SetPinned :: "ctx \<Rightarrow> string \<Rightarrow> bool \<Rightarrow> (conversation_db, unit) M" where
  "ConversationHandler_SetPinned ctx conversationId pinned =
     ownConversation ctx conversationId (\<lambda>userID. SetPinned userID conversationId pinned)"

definition ConversationHandler_SetMuted :: "ctx \<Rightarrow> string \<Rightarrow> bool \<Rightarrow> (conversation_db, unit) M" where
  "ConversationHandler_SetMuted ctx conversationId muted =
     ownConversation ctx conversationId (\<lambda>userID. SetMuted userID conversationId muted)"

definition ConversationHandler_ClearUnread :: "ctx \<Rightarrow> string \<Rightarrow> (conversation_db, unit) M" where
  "ConversationHandler_ClearUnread ctx conversationId =
     ownConversation ctx conversationId (\<lambda>userID. ClearUnread userID conversationId)"

definition ConversationHandler_GetTotalUnread :: "ctx \<Rightarrow> (conversation_db, int) M" where
  "ConversationHandler_GetTotalUnread ctx = bindE (MustGetUserID ctx) (\<lambda>userID. convertE (GetTotalUnread userID))"

definition ConversationHandler_IncrUnread :: "string \<Rightarrow> string \<Rightarrow> int \<Rightarrow> (conversation_db, unit) M" where
  "ConversationHandler_IncrUnread userId conversationId incr =
     (if userId = '''' \<or> conversationId = '''' then badRequestE ''user_id and conversation_id are required''
      else convertE (IncrUnread userId conversationId incr))"

definition ConversationHandler_SetBurnAfterReading :: "ctx \<Rightarrow> string \<Rightarrow> int \<Rightarrow> (conversation_db, unit) M" where
  "ConversationHandler_SetBurnAfterReading ctx conversationId duration =
     ownConversation ctx conversationId (\<lambda>userID. SetBurnAfterReading userID conversationId duration)"

definition ConversationHandler_SetAutoDelete :: "ctx \<Rightarrow> string \<Rightarrow> int \<Rightarrow> (conversation_db, unit) M" where
  "ConversationHandler_SetAutoDelete ctx conversationId duration =
     ownConversation ctx conversationId (\<lambda>userID. SetAutoDelete userID conversationId duration)"

subsection \<open>Steps\<close>

datatype conversation_op =
    OpCreateOrUpdate string string string string "int option"
  | OpDeleteConversation string string
  | OpSetPinned string string bool
  | OpSetMuted string string bool
  | OpSetBurn string string int
  | OpSetAutoDelete string string int
  | OpClearUnread string string
  | OpIncrUnread string string int

fun conversation_step :: "conversation_op \<Rightarrow> (conversation_db, unit) M" where
  "conversation_step (OpCreateOrUpdate u ty g m t) = void (CreateOrUpdateConversation u ty g m t)"
| "conversation_step (OpDeleteConversation u c) = DeleteConversation u c"
| "conversation_step (OpSetPinned u c b) = SetPinned u c b"
| "conversation_step (OpSetMuted u c b) = SetMuted u c b"
| "conversation_step (OpSetBurn u c n) = SetBurnAfterReading u c n"
| "conversation_step (OpSetAutoDelete u c n) = SetAutoDelete u c n"
| "conversation_step (OpClearUnread u c) = ClearUnread u c"
| "conversation_step (OpIncrUnread u c n) = IncrUnread u c n"

subsection \<open>The abstract inbox\<close>

text \<open>An inbox maps a user, a type and a target to the conversation.\<close>

type_synonym inbox = "string \<times> int \<times> string \<Rightarrow> ConversationRow option"

definition inbox_of :: "conversation_db \<Rightarrow> inbox" where
  "inbox_of d k = find (\<lambda>c. conv_key c = k) (conversations d)"

definition conv_inv :: "conversation_db \<Rightarrow> bool" where
  "conv_inv d = (uniq conv_key (conversations d) \<and> uniq c_ConversationID (conversations d))"

definition on_own :: "string \<Rightarrow> string \<Rightarrow> (ConversationRow \<Rightarrow> ConversationRow) \<Rightarrow> inbox \<Rightarrow> inbox" where
  "on_own u c f m = (\<lambda>k. map_option (\<lambda>x. if owned u c x then f x else x) (m k))"

text \<open>The abstract step of a request, given the identifier and the time it draws.\<close>

fun inbox_step :: "conversation_op \<Rightarrow> string \<Rightarrow> int \<Rightarrow> int \<Rightarrow> inbox \<Rightarrow> inbox" where
  "inbox_step (OpCreateOrUpdate u ty g msg mt) i t0 t m =
     (case parseConversationType ty of
        Inl _ \<Rightarrow> m
      | Inr n \<Rightarrow> m((u, n, g) \<mapsto> (case m (u, n, g) of
          Some c \<Rightarrow> c\<lparr>c_LastMessageID := msg, c_LastMessageContent := '''', c_LastMessageTime := mt, c_UpdatedAt := t\<rparr>
        | None \<Rightarrow> \<lparr>c_ConversationID = i, c_ConversationType = n, c_UserID = u, c_TargetID = g, c_LastMessageID = msg,
            c_LastMessageContent = '''', c_LastMessageTime = mt, c_UnreadCount = 0, c_IsPinned = False, c_IsMuted = False,
            c_PinTime = None, c_BurnAfterReading = 0, c_AutoDeleteDuration = 0, c_CreatedAt = t, c_UpdatedAt = t\<rparr>)))"
| "inbox_step (OpDeleteConversation u c) i t0 t m = (\<lambda>k. case m k of None \<Rightarrow> None | Some x \<Rightarrow> if owned u c x then None else Some x)"
| "inbox_step (OpSetPinned u c b) i t0 t m =
     on_own u c (\<lambda>x. x\<lparr>c_IsPinned := b, c_PinTime := (if b then Some t0 else None), c_UpdatedAt := t\<rparr>) m"
| "inbox_step (OpSetMuted u c b) i t0 t m = on_own u c (\<lambda>x. x\<lparr>c_IsMuted := b, c_UpdatedAt := t\<rparr>) m"
| "inbox_step (OpSetBurn u c n) i t0 t m = on_own u c (\<lambda>x. x\<lparr>c_BurnAfterReading := n, c_UpdatedAt := t\<rparr>) m"
| "inbox_step (OpSetAutoDelete u c n) i t0 t m = on_own u c (\<lambda>x. x\<lparr>c_AutoDeleteDuration := n, c_UpdatedAt := t\<rparr>) m"
| "inbox_step (OpClearUnread u c) i t0 t m = on_own u c (\<lambda>x. x\<lparr>c_UnreadCount := 0, c_UpdatedAt := t\<rparr>) m"
| "inbox_step (OpIncrUnread u c n) i t0 t m = on_own u c (\<lambda>x. x\<lparr>c_UnreadCount := c_UnreadCount x + int32 n\<rparr>) m"

subsection \<open>The table operations on the inbox\<close>

lemma inbox_update:
  assumes "\<And>c. conv_key (f c) = conv_key c"
  shows "inbox_of (d\<lparr>conversations := update_where p f (conversations d)\<rparr>) =
    (\<lambda>k. map_option (\<lambda>c. if p c then f c else c) (inbox_of d k))"
proof
  fix k
  have "find (\<lambda>c. conv_key c = k) (update_where p f rows) = map_option (\<lambda>c. if p c then f c else c) (find (\<lambda>c. conv_key c = k) rows)" for rows
    using assms by (induction rows) (auto simp: update_where_def)
  then show "inbox_of (d\<lparr>conversations := update_where p f (conversations d)\<rparr>) k = map_option (\<lambda>c. if p c then f c else c) (inbox_of d k)"
    by (simp add: inbox_of_def)
qed

lemma inbox_own:
  assumes "\<And>c. conv_key (f c) = conv_key c"
  shows "inbox_of (d\<lparr>conversations := update_where (owned u i) f (conversations d)\<rparr>) = on_own u i f (inbox_of d)"
  using inbox_update[OF assms, where d = d and p = "owned u i"] by (simp add: on_own_def)

lemma find_key_unique: "uniq key rows \<Longrightarrow> c \<in> set rows \<Longrightarrow> find (\<lambda>x. key x = key c) rows = Some c"
  by (induction rows) (auto simp: uniq_def image_iff)

lemma find_key_none: "k \<notin> key ` set rows \<Longrightarrow> find (\<lambda>x. key x = k) rows = None"
  by (auto simp: find_None_iff)

lemma inbox_delete:
  assumes "conv_inv d"
  shows "inbox_of (d\<lparr>conversations := delete_where p (conversations d)\<rparr>) =
    (\<lambda>k. case inbox_of d k of None \<Rightarrow> None | Some x \<Rightarrow> if p x then None else Some x)"
proof
  fix k
  have "find (\<lambda>c. conv_key c = k) (delete_where p rows) =
      (case find (\<lambda>c. conv_key c = k) rows of None \<Rightarrow> None | Some x \<Rightarrow> if p x then None else Some x)"
    if "uniq conv_key rows" for rows
    using that
  proof (induction rows)
    case (Cons x rows)
    then show ?case
      using find_key_none[of k conv_key "filter (\<lambda>r. \<not> p r) rows"] by (auto simp: delete_where_def uniq_def)
  qed (simp add: delete_where_def)
  then show "inbox_of (d\<lparr>conversations := delete_where p (conversations d)\<rparr>) k =
      (case inbox_of d k of None \<Rightarrow> None | Some x \<Rightarrow> if p x then None else Some x)"
    using assms by (simp add: inbox_of_def conv_inv_def)
qed

lemma inbox_insert:
  assumes "conv_key c \<notin> conv_key ` set (conversations d)"
  shows "inbox_of (d\<lparr>conversations := conversations d @ [c]\<rparr>) = (inbox_of d)(conv_key c \<mapsto> c)"
proof -
  have "find p (rows @ [c]) = (case find p rows of None \<Rightarrow> if p c then Some c else None | Some x \<Rightarrow> Some x)" for p rows
    by (induction rows) auto
  then show ?thesis using find_key_none[OF assms] by (auto simp: inbox_of_def fun_eq_iff split: option.split)
qed

subsection \<open>The invariant\<close>

lemma conv_inv_update:
  assumes "conv_inv d" "\<And>c. conv_key (f c) = conv_key c" "\<And>c. c_ConversationID (f c) = c_ConversationID c"
  shows "conv_inv (d\<lparr>conversations := update_where p f (conversations d)\<rparr>)"
  using assms by (simp add: conv_inv_def uniq_update_where)

lemma conv_inv_delete: "conv_inv d \<Longrightarrow> conv_inv (d\<lparr>conversations := delete_where p (conversations d)\<rparr>)"
  by (simp add: conv_inv_def uniq_def delete_where_def distinct_map_filter)

lemma wp_wrapE [wp_simps]:
  "wp (wrapE what m) Q E w = wp m Q (\<lambda>e w'. case e of Panicked s \<Rightarrow> E (Panicked s) w' | _ \<Rightarrow> E (Plain (what @ '': '' @ err_string e)) w') w"
  unfolding wrapE_def wp_catch wp_throw ..

lemma quiet_sync [quiet_intros]: "quiet (syncDevices u k fs)"
  unfolding syncDevices_def by (intro quiet_intros)

lemma conv_key_updates [simp]:
  "conv_key (c\<lparr>c_UpdatedAt := t\<rparr>) = conv_key c" "conv_key (c\<lparr>c_IsPinned := b\<rparr>) = conv_key c"
  "conv_key (c\<lparr>c_PinTime := pt\<rparr>) = conv_key c" "conv_key (c\<lparr>c_IsMuted := b\<rparr>) = conv_key c"
  "conv_key (c\<lparr>c_BurnAfterReading := n\<rparr>) = conv_key c" "conv_key (c\<lparr>c_AutoDeleteDuration := n\<rparr>) = conv_key c"
  "conv_key (c\<lparr>c_UnreadCount := n\<rparr>) = conv_key c" "conv_key (refreshed new c) = conv_key c"
  "conv_key (c\<lparr>c_CreatedAt := t\<rparr>) = conv_key c" "c_ConversationID (refreshed new c) = c_ConversationID c"
  by (simp_all add: conv_key_def refreshed_def)

text \<open>What a request may do: an error leaves the inbox alone, a success is the abstract step.\<close>

definition refines :: "conversation_op \<Rightarrow> conversation_db \<Rightarrow> conversation_db \<Rightarrow> bool" where
  "refines op d d' = (conv_inv d' \<and> (\<exists>i t0 t. inbox_of d' = inbox_step op i t0 t (inbox_of d)))"

lemma wp_updateOwned:
  assumes "conv_inv (db w)" "\<And>c. conv_key (f c) = conv_key c" "\<And>c. c_ConversationID (f c) = c_ConversationID c"
    and "\<And>t w'. conv_inv (db w') \<Longrightarrow> inbox_of (db w') = on_own u i (\<lambda>c. (f c)\<lparr>c_UpdatedAt := t\<rparr>) (inbox_of (db w)) \<Longrightarrow> Q () w'"
    and "\<And>e w'. db w' = db w \<Longrightarrow> E e w'"
  shows "wp (updateOwned u i f) Q E w"
proof -
  let ?d = "\<lambda>t. db w\<lparr>conversations := update_where (owned u i) (\<lambda>c. (f c)\<lparr>c_UpdatedAt := t\<rparr>) (conversations (db w))\<rparr>"
  have "Q () w'" if "db w' = ?d t" for t w'
    using that assms(4)[of w' t] conv_inv_update[OF assms(1), of "\<lambda>c. (f c)\<lparr>c_UpdatedAt := t\<rparr>"]
      inbox_own[where f = "\<lambda>c. (f c)\<lparr>c_UpdatedAt := t\<rparr>" and d = "db w"] assms(2,3) by simp
  then show ?thesis using assms(5) by (simp add: updateOwned_def wp_simps split: option.split)
qed

lemma wp_upsert:
  assumes inv: "conv_inv (db w)"
    and post: "\<And>t w'. conv_inv (db w') \<Longrightarrow> inbox_of (db w') = (inbox_of (db w))(conv_key c \<mapsto>
        (case inbox_of (db w) (conv_key c) of Some x \<Rightarrow> refreshed (c\<lparr>c_CreatedAt := t, c_UpdatedAt := t\<rparr>) x
         | None \<Rightarrow> c\<lparr>c_CreatedAt := t, c_UpdatedAt := t\<rparr>)) \<Longrightarrow> Q () w'"
    and err: "\<And>e w'. db w' = db w \<Longrightarrow> E e w'"
  shows "wp (conversationRepo_Upsert c) Q E w"
proof -
  let ?c = "\<lambda>t. c\<lparr>c_CreatedAt := t, c_UpdatedAt := t\<rparr>"
  show ?thesis
  proof (cases "conv_key c \<in> conv_key ` set (conversations (db w))")
    case True
    then obtain x where x: "x \<in> set (conversations (db w))" "conv_key x = conv_key c" by auto
    have found: "inbox_of (db w) (conv_key c) = Some x"
      using find_key_unique[of conv_key "conversations (db w)" x] inv x by (simp add: inbox_of_def conv_inv_def)
    have key: "conv_key y = k" if "inbox_of (db w) k = Some y" for k y
      using that by (auto simp: inbox_of_def find_Some_iff)
    have other: "map_option (\<lambda>y. if conv_key y = conv_key c then f y else y) (inbox_of (db w) k) = inbox_of (db w) k"
      if "k \<noteq> conv_key c" for k f using that key[of k] by (cases "inbox_of (db w) k") auto
    have upd: "inbox_of (db w\<lparr>conversations := update_where (\<lambda>y. conv_key y = conv_key c) (refreshed (?c t)) (conversations (db w))\<rparr>) =
        (inbox_of (db w))(conv_key c \<mapsto> refreshed (?c t) x)" for t
      using found x(2) by (auto simp: inbox_update other intro!: ext)
    have "Q () w'" if "db w' = db w\<lparr>conversations := update_where (\<lambda>y. conv_key y = conv_key c) (refreshed (?c t)) (conversations (db w))\<rparr>" for t w'
      using that post[of w' t] upd[of t] found conv_inv_update[OF inv, of "refreshed (?c t)"] by simp
    then show ?thesis using True err by (simp add: conversationRepo_Upsert_def wp_simps has_key_iff Let_def split: option.split)
  next
    case False
    then have none: "inbox_of (db w) (conv_key c) = None" using find_key_none by (simp add: inbox_of_def)
    have "Q () w'" if "insert_unique c_ConversationID (?c t) (conversations (db w)) = Some rows"
      "db w' = db w\<lparr>conversations := rows\<rparr>" for t rows w'
      using that post[of w' t] False none inv inbox_insert[of "?c t" "db w"]
      by (auto simp: insert_unique_Some conv_inv_def uniq_def)
    then show ?thesis using False err
      by (auto simp: conversationRepo_Upsert_def wp_simps has_key_iff Let_def split: option.split)
  qed
qed

subsection \<open>Refinement\<close>

lemma refines_own:
  assumes "conv_inv (db w)" "\<And>c. conv_key (f c) = conv_key c" "\<And>c. c_ConversationID (f c) = c_ConversationID c"
    and "\<And>t. \<exists>i t0 t1. inbox_step op i t0 t1 (inbox_of (db w)) = on_own u i' (\<lambda>c. (f c)\<lparr>c_UpdatedAt := t\<rparr>) (inbox_of (db w))"
  shows "wp (updateOwned u i' f) (\<lambda>_ w'. refines op (db w) (db w')) (\<lambda>_ w'. db w' = db w) w"
  by (rule wp_updateOwned[OF assms(1-3)]) (use assms(4) in \<open>auto simp: refines_def\<close>, metis)

lemma wp_sync:
  "P (db w) \<Longrightarrow> wp (syncDevices u k fs) (\<lambda>_ w'. P (db w')) (\<lambda>_ w'. R (db w')) w"
  by (rule wp_quiet[OF quiet_sync]) simp

lemma wp_wrap_sync:
  assumes "wp m (\<lambda>_ w'. P (db w')) (\<lambda>_ w'. R (db w')) w"
  shows "wp (thenE (wrapE what m) (syncDevices u k fs)) (\<lambda>_ w'. P (db w')) (\<lambda>_ w'. R (db w')) w"
  unfolding wp_then wp_wrapE by (rule wp_mono[OF assms]) (auto intro: wp_sync split: err.split)

lemma refines_create:
  assumes inv: "conv_inv (db w)" and n: "parseConversationType ty = Inr n"
  shows "wp (conversationRepo_Upsert \<lparr>c_ConversationID = i, c_ConversationType = n, c_UserID = u, c_TargetID = g,
      c_LastMessageID = msg, c_LastMessageContent = '''', c_LastMessageTime = mt, c_UnreadCount = 0, c_IsPinned = False,
      c_IsMuted = False, c_PinTime = None, c_BurnAfterReading = 0, c_AutoDeleteDuration = 0, c_CreatedAt = 0, c_UpdatedAt = 0\<rparr>)
    (\<lambda>_ w'. refines (OpCreateOrUpdate u ty g msg mt) (db w) (db w')) (\<lambda>_ w'. db w' = db w) w"
    (is "wp (conversationRepo_Upsert ?c) _ _ _")
proof (rule wp_upsert[OF inv])
  fix t and w' :: "conversation_db world"
  assume inv': "conv_inv (db w')" and "inbox_of (db w') = (inbox_of (db w))(conv_key ?c \<mapsto>
    (case inbox_of (db w) (conv_key ?c) of Some x \<Rightarrow> refreshed (?c\<lparr>c_CreatedAt := t, c_UpdatedAt := t\<rparr>) x
     | None \<Rightarrow> ?c\<lparr>c_CreatedAt := t, c_UpdatedAt := t\<rparr>))"
  then have "inbox_of (db w') = inbox_step (OpCreateOrUpdate u ty g msg mt) i 0 t (inbox_of (db w))"
    by (auto simp: n conv_key_def refreshed_def split: option.splits)
  then show "refines (OpCreateOrUpdate u ty g msg mt) (db w) (db w')" using inv' unfolding refines_def by blast
qed simp_all

lemma quiet_refresh:
  "quiet (bindE (attemptE (conversationRepo_GetByUserAndTarget u n g)) (\<lambda>latest.
     case latest of None \<Rightarrow> returnE zeroConversation | Some c \<Rightarrow> returnE (toProtoConversation c)))"
  unfolding conversationRepo_GetByUserAndTarget_def by (intro quiet_intros quiet_attempt benign_find)

lemma refines_CreateOrUpdate:
  assumes inv: "conv_inv (db w)"
  shows "wp (CreateOrUpdateConversation u ty g msg mt) (\<lambda>_ w'. refines (OpCreateOrUpdate u ty g msg mt) (db w) (db w')) (\<lambda>_ w'. db w' = db w) w"
proof (cases "parseConversationType ty")
  case (Inl e) then show ?thesis by (simp add: CreateOrUpdateConversation_def wp_simps)
next
  case (Inr n)
  show ?thesis
    unfolding CreateOrUpdateConversation_def Inr sum.case wp_bind[of new_uuid] wp_new_uuid wp_then wp_wrapE
    by (rule wp_mono[OF refines_create[OF _ Inr, of "bump w"]])
       (use inv in \<open>auto intro: wp_quiet[OF quiet_refresh] split: err.split\<close>)
qed

lemma refines_IncrUnread:
  assumes inv: "conv_inv (db w)"
  shows "wp (conversationRepo_IncrUnread u c (int32 n)) (\<lambda>_ w'. refines (OpIncrUnread u c n) (db w) (db w')) (\<lambda>_ w'. db w' = db w) w"
proof -
  let ?f = "\<lambda>x. x\<lparr>c_UnreadCount := c_UnreadCount x + int32 n\<rparr>"
  have "refines (OpIncrUnread u c n) (db w) (db w\<lparr>conversations := update_where (owned u c) ?f (conversations (db w))\<rparr>)"
    using conv_inv_update[OF inv, of ?f "owned u c"] inbox_own[of ?f] by (simp add: refines_def)
  then show ?thesis by (simp add: conversationRepo_IncrUnread_def wp_simps split: option.split)
qed

lemma refines_ClearUnread:
  assumes inv: "conv_inv (db w)"
  shows "wp (ClearUnread u c) (\<lambda>_ w'. refines (OpClearUnread u c) (db w) (db w')) (\<lambda>_ w'. db w' = db w) w"
proof -
  have up: "wp (conversationRepo_ClearUnread u c) (\<lambda>_ w'. refines (OpClearUnread u c) (db w) (db w')) (\<lambda>_ w'. db w' = db w) w"
    unfolding conversationRepo_ClearUnread_def by (rule refines_own[OF inv]) auto
  have quiet: "quiet (bindE (attemptE (conversationRepo_SumUnread u)) (\<lambda>total. syncDevices u k (fs total)))" for k fs
    unfolding conversationRepo_SumUnread_def by (intro quiet_intros quiet_attempt benign_query)
  show ?thesis
    unfolding ClearUnread_def wp_then wp_wrapE
    by (rule wp_mono[OF up]) (auto intro: wp_quiet[OF quiet] split: err.split)
qed

lemma conversation_step_refines:
  assumes inv: "conv_inv (db w)"
  shows "wp (conversation_step op) (\<lambda>_ w'. refines op (db w) (db w')) (\<lambda>_ w'. db w' = db w) w"
proof (cases op)
  case (OpCreateOrUpdate u ty g msg mt)
  then show ?thesis using refines_CreateOrUpdate[OF inv] by (simp add: void_def wp_then wp_return_fun)
next
  case (OpDeleteConversation u c)
  then show ?thesis
    using inbox_delete[OF inv, of "owned u c"] conv_inv_delete[OF inv, of "owned u c"]
    by (auto simp: DeleteConversation_def conversationRepo_Delete_def wp_modify refines_def split: option.split intro!: wp_wrap_sync)
next
  case (OpSetPinned u c b)
  have "wp (updateOwned u c (\<lambda>x. x\<lparr>c_IsPinned := b, c_PinTime := if b then Some t else None\<rparr>))
      (\<lambda>_ w'. refines op (db w1) (db w')) (\<lambda>_ w'. db w' = db w1) w1" if "conv_inv (db w1)" for t w1
    using that by (intro refines_own) (auto simp: OpSetPinned)
  then have pin: "wp (updateOwned u c (\<lambda>x. x\<lparr>c_IsPinned := b, c_PinTime := if b then Some t else None\<rparr>))
      (\<lambda>_ w'. refines op (db w) (db w')) (\<lambda>_ w'. db w' = db w) w1" if "db w1 = db w" for t w1
    using that inv by metis
  show ?thesis
    using pin[of w] pin[of "bump w"] by (cases b) (auto simp: OpSetPinned SetPinned_def conversationRepo_SetPinned_def wp_bind wp_now wp_return intro!: wp_wrap_sync)
next
  case (OpClearUnread u c)
  then show ?thesis using refines_ClearUnread[OF inv] by simp
next
  case (OpIncrUnread u c n)
  then show ?thesis using refines_IncrUnread[OF inv] by (auto simp: IncrUnread_def intro!: wp_wrap_sync)
qed (use inv in \<open>auto simp: SetMuted_def conversationRepo_SetMuted_def SetBurnAfterReading_def conversationRepo_SetBurnAfterReading_def
  SetAutoDelete_def conversationRepo_SetAutoDelete_def intro!: wp_wrap_sync refines_own\<close>)

lemma conversation_step_inv: "keeps conv_inv (conversation_step op)"
  by (rule keepsI, rule wp_mono[OF conversation_step_refines]) (simp_all add: refines_def)

interpretation conversation_service: service conversation_step any_op conv_inv empty_conversation_db
  by unfold_locales (simp_all add: conversation_step_inv conv_inv_def empty_conversation_db_def uniq_def)

text \<open>C17: the table of conversations refines the abstract inbox, a map from user, type and target to a
  conversation.  In every reachable state and under every fault schedule a request that returns an
  error leaves the inbox as it was, and a request that succeeds performs exactly its abstract step, for
  the identifier and the times it drew.\<close>

theorem conversation_refines_inbox:
  assumes "reachable conversation_step any_op empty_conversation_db (db w)"
  shows "case conversation_step op w of
      (Inl _, w') \<Rightarrow> inbox_of (db w') = inbox_of (db w)
    | (Inr _, w') \<Rightarrow> \<exists>i t0 t. inbox_of (db w') = inbox_step op i t0 t (inbox_of (db w))"
  by (rule wp_caseI, rule wp_mono[OF conversation_step_refines[OF conversation_service.reachable_inv[OF assms]]])
     (simp_all add: refines_def)

theorem conversation_refines_inbox_witness:
  "case conversation_step (OpCreateOrUpdate ''ann'' ''single'' ''bob'' '''' None) (init_world empty_conversation_db) of
      (Inl _, w') \<Rightarrow> inbox_of (db w') = inbox_of empty_conversation_db
    | (Inr _, w') \<Rightarrow> \<exists>c. inbox_of (db w') (''ann'', 1, ''bob'') = Some c"
proof -
  let ?op = "OpCreateOrUpdate ''ann'' ''single'' ''bob'' '''' None" and ?w = "init_world empty_conversation_db"
  obtain r w' where step: "conversation_step ?op ?w = (r, w')" by (cases "conversation_step ?op ?w")
  have some: "\<exists>c. inbox_step ?op i t0 t m (''ann'', 1, ''bob'') = Some c" for i t0 t m
    by (simp add: parseConversationType_def)
  show ?thesis
    using conversation_refines_inbox[of ?w ?op] some unfolding step
    by (cases r) (auto simp: reachable.reach_init simp del: inbox_step.simps)
qed

text \<open>The user on whose behalf a request runs.\<close>

fun acting_user :: "conversation_op \<Rightarrow> string" where
  "acting_user (OpCreateOrUpdate u ty g m t) = u"
| "acting_user (OpDeleteConversation u c) = u"
| "acting_user (OpSetPinned u c b) = u"
| "acting_user (OpSetMuted u c b) = u"
| "acting_user (OpSetBurn u c n) = u"
| "acting_user (OpSetAutoDelete u c n) = u"
| "acting_user (OpClearUnread u c) = u"
| "acting_user (OpIncrUnread u c n) = u"

lemma inbox_key: "inbox_of d k = Some c \<Longrightarrow> conv_key c = k"
  by (auto simp: inbox_of_def find_Some_iff)

lemma inbox_step_other:
  assumes "v \<noteq> acting_user op"
  shows "inbox_step op i t0 t (inbox_of d) (v, n, g) = inbox_of d (v, n, g)"
proof -
  have own: "owned u c x \<Longrightarrow> u = v" if "inbox_of d (v, n, g) = Some x" for u c x
    using inbox_key[OF that] by (simp add: owned_def conv_key_def)
  have "on_own u c f (inbox_of d) (v, n, g) = inbox_of d (v, n, g)" if "v \<noteq> u" for u c f
    using own that by (cases "inbox_of d (v, n, g)") (auto simp: on_own_def)
  then show ?thesis using assms own
    by (cases op) (auto split: option.splits sum.splits)
qed

text \<open>Nobody touches the conversations of others: whatever request runs and whatever fails, the
  conversations of every user other than the one the request acts for are unchanged.\<close>

theorem conversation_isolation:
  assumes "reachable conversation_step any_op empty_conversation_db (db w)" "conversation_step op w = (r, w')"
    and "v \<noteq> acting_user op"
  shows "inbox_of (db w') (v, n, g) = inbox_of (db w) (v, n, g)"
proof -
  have "wp (conversation_step op) (\<lambda>_ w'. refines op (db w) (db w')) (\<lambda>_ w'. db w' = db w) w"
    by (rule conversation_step_refines[OF conversation_service.reachable_inv[OF assms(1)]])
  then show ?thesis
    using assms(2) inbox_step_other[OF assms(3)] by (auto simp: wp_def refines_def split: sum.splits)
qed

theorem conversation_isolation_witness:
  "inbox_of (db (snd (conversation_step (OpSetMuted ''ann'' ''c'' True) (init_world empty_conversation_db)))) (''bob'', 1, ''ann'') = None"
  using conversation_isolation[of "init_world empty_conversation_db" "OpSetMuted ''ann'' ''c'' True"
      "fst (conversation_step (OpSetMuted ''ann'' ''c'' True) (init_world empty_conversation_db))"
      "snd (conversation_step (OpSetMuted ''ann'' ''c'' True) (init_world empty_conversation_db))" "''bob''" 1 "''ann''"]
  by (simp add: reachable.reach_init inbox_of_def empty_conversation_db_def)

end
