(* ===== verification/Message_Model.thy ===== *)
theory Message_Model
  imports Metadata
begin

text \<open>
  The message service (\<open>app/message\<close>): rows (\<open>internal/model\<close>) and repositories
  (\<open>internal/repository\<close>).  The columns are those of the Go structs; the unique keys are
  those of migration 000005.  The typing state lives in Redis; a key is kept with the time it expires, if it
  does: a zero duration means no expiry.
  \<open>ILIKE\<close> is the parameter \<open>ilike\<close> of the search.
\<close>

subsection \<open>Rows\<close>

abbreviation (input) ConversationTypeSingle :: int where "ConversationTypeSingle \<equiv> 1"
abbreviation (input) ConversationTypeGroup :: int where "ConversationTypeGroup \<equiv> 2"

abbreviation (input) ContentTypeUnspecified :: int where "ContentTypeUnspecified \<equiv> 0"
abbreviation (input) ContentTypeText :: int where "ContentTypeText \<equiv> 1"

abbreviation (input) MessageStatusNormal :: int where "MessageStatusNormal \<equiv> 0"
abbreviation (input) MessageStatusRecall :: int where "MessageStatusRecall \<equiv> 1"
abbreviation (input) MessageStatusDeleted :: int where "MessageStatusDeleted \<equiv> 2"

record Message =
  m_ID :: int
  m_MessageID :: string
  m_ConversationID :: string
  m_ConversationType :: int
  m_TargetID :: string
  m_SenderID :: string
  m_ContentType :: int
  m_Content :: string
  m_Sequence :: int
  m_ReplyTo :: "string option"
  m_AtUsers :: "string list"
  m_Status :: int
  m_BurnAfterReadingSeconds :: int
  m_AutoDeleteExpireTime :: "int option"
  m_BurnAfterReadingExpireTime :: "int option"
  m_ExpireTime :: "int option"
  m_CreatedAt :: int
  m_UpdatedAt :: int

definition Message_IsNormal :: "Message \<Rightarrow> bool" where
  "Message_IsNormal m = (m_Status m = MessageStatusNormal)"

definition Message_IsRecalled :: "Message \<Rightarrow> bool" where
  "Message_IsRecalled m = (m_Status m = MessageStatusRecall)"

definition Message_IsDeleted :: "Message \<Rightarrow> bool" where
  "Message_IsDeleted m = (m_Status m = MessageStatusDeleted)"

record MessageReadReceipt =
  rr_ID :: int
  rr_ConversationID :: string
  rr_ConversationType :: int
  rr_TargetID :: string
  rr_UserID :: string
  rr_LastReadSeq :: int
  rr_LastReadMessageID :: "string option"
  rr_ReadAt :: int

record MessageSendIdempotency =
  si_ID :: int
  si_SenderID :: string
  si_ConversationID :: string
  si_LocalID :: string
  si_MessageID :: string
  si_CreatedAt :: int
  si_UpdatedAt :: int

record ConversationSequence =
  cs_ID :: int
  cs_ConversationID :: string
  cs_CurrentSeq :: int
  cs_CreatedAt :: int
  cs_UpdatedAt :: int

record message_db =
  messages :: "Message list"
  message_read_receipts :: "MessageReadReceipt list"
  message_send_idempotency :: "MessageSendIdempotency list"
  conversation_sequences :: "ConversationSequence list"
  typing_cache :: "(string \<times> int option) list"

definition empty_message_db :: message_db where
  "empty_message_db = \<lparr>messages = [], message_read_receipts = [], message_send_idempotency = [],
     conversation_sequences = [], typing_cache = []\<rparr>"

definition conv_seq :: "Message \<Rightarrow> string \<times> int" where
  "conv_seq m = (m_ConversationID m, m_Sequence m)"

definition receipt_key :: "MessageReadReceipt \<Rightarrow> string \<times> string" where
  "receipt_key r = (rr_ConversationID r, rr_UserID r)"

definition send_key :: "MessageSendIdempotency \<Rightarrow> string \<times> string \<times> string" where
  "send_key r = (si_SenderID r, si_ConversationID r, si_LocalID r)"

subsection \<open>Message repository\<close>

definition messageRepo_Create :: "Message \<Rightarrow> (message_db, Message) M" where
  "messageRepo_Create m =
     bindE (next_serial SeqMessages) (\<lambda>i.
       exec (\<lambda>d. if has_key conv_seq (conv_seq m) (messages d) then Inl (UniqueViolation ''uk_conversation_sequence'')
         else (case insert_unique m_MessageID (m\<lparr>m_ID := i\<rparr>) (messages d) of
             None \<Rightarrow> Inl (UniqueViolation ''messages_message_id_key'')
           | Some rows \<Rightarrow> Inr (m\<lparr>m_ID := i\<rparr>, d\<lparr>messages := rows\<rparr>))))"

text \<open>One statement inserts all rows or none; gorm refuses an empty slice.\<close>

definition messageRepo_CreateBatch :: "Message list \<Rightarrow> (message_db, unit) M" where
  "messageRepo_CreateBatch ms =
     (if ms = [] then throwE (Plain ''empty slice found'')
      else
      bindE (mapE (\<lambda>m. bindE (next_serial SeqMessages) (\<lambda>i. returnE (m\<lparr>m_ID := i\<rparr>))) ms) (\<lambda>ms.
        exec (\<lambda>d. case (inserts_unique conv_seq ms (messages d), inserts_unique m_MessageID ms (messages d)) of
            (None, _) \<Rightarrow> Inl (UniqueViolation ''uk_conversation_sequence'')
          | (_, None) \<Rightarrow> Inl (UniqueViolation ''messages_message_id_key'')
          | (Some _, Some rows) \<Rightarrow> Inr ((), d\<lparr>messages := rows\<rparr>))))"

definition messageRepo_GetByID :: "int \<Rightarrow> (message_db, Message) M" where
  "messageRepo_GetByID i =
     find_one (\<lambda>d. first_where (\<lambda>m. m_ID m = i \<and> m_Status m \<noteq> MessageStatusDeleted) m_ID (messages d))"

definition messageRepo_GetByMessageID :: "string \<Rightarrow> (message_db, Message) M" where
  "messageRepo_GetByMessageID messageID =
     find_one (\<lambda>d. first_where (\<lambda>m. m_MessageID m = messageID \<and> m_Status m \<noteq> MessageStatusDeleted) m_ID
       (messages d))"

text \<open>A range bound or a limit that is not positive is not applied.\<close>

definition conversation_window :: "string \<Rightarrow> int \<Rightarrow> int \<Rightarrow> int \<Rightarrow> bool \<Rightarrow> message_db \<Rightarrow> Message list" where
  "conversation_window conversationID startSeq endSeq limit reverse d =
     (let rows = select_where (\<lambda>m. m_ConversationID m = conversationID \<and> m_Status m = MessageStatusNormal \<and>
            (startSeq > 0 \<longrightarrow> m_Sequence m \<ge> startSeq) \<and> (endSeq > 0 \<longrightarrow> m_Sequence m \<le> endSeq))
          (\<lambda>m. if reverse then - m_Sequence m else m_Sequence m) (messages d) in
      if limit > 0 then take (nat limit) rows else rows)"

definition messageRepo_GetByConversation ::
    "string \<Rightarrow> int \<Rightarrow> int \<Rightarrow> int \<Rightarrow> bool \<Rightarrow> (message_db, Message list) M" where
  "messageRepo_GetByConversation conversationID startSeq endSeq limit reverse =
     query (conversation_window conversationID startSeq endSeq limit reverse)"

definition messageRepo_GetLatestByConversation :: "string \<Rightarrow> int \<Rightarrow> (message_db, Message list) M" where
  "messageRepo_GetLatestByConversation conversationID limit =
     query (\<lambda>d. take (nat limit) (select_where (\<lambda>m. m_ConversationID m = conversationID \<and>
       m_Status m = MessageStatusNormal) (\<lambda>m. - m_Sequence m) (messages d)))"

definition messageRepo_GetBySender :: "string \<Rightarrow> int \<Rightarrow> int \<Rightarrow> (message_db, Message list) M" where
  "messageRepo_GetBySender senderID limit offset =
     query (\<lambda>d. limit_offset limit offset (select_where (\<lambda>m. m_SenderID m = senderID \<and>
       m_Status m = MessageStatusNormal) (\<lambda>m. - m_CreatedAt m) (messages d)))"

text \<open>gorm sets \<open>updated_at\<close> with every \<open>Update\<close>.\<close>

definition messageRepo_UpdateStatus :: "string \<Rightarrow> int \<Rightarrow> (message_db, unit) M" where
  "messageRepo_UpdateStatus messageID status =
     bindE now (\<lambda>t. modify (\<lambda>d. d\<lparr>messages := update_where (\<lambda>m. m_MessageID m = messageID)
       (\<lambda>m. m\<lparr>m_Status := status, m_UpdatedAt := t\<rparr>) (messages d)\<rparr>))"

definition messageRepo_Delete :: "string \<Rightarrow> (message_db, unit) M" where
  "messageRepo_Delete messageID = messageRepo_UpdateStatus messageID MessageStatusDeleted"

definition messageRepo_CountByConversation :: "string \<Rightarrow> (message_db, int) M" where
  "messageRepo_CountByConversation conversationID =
     query (\<lambda>d. int (count_where (\<lambda>m. m_ConversationID m = conversationID \<and>
       m_Status m = MessageStatusNormal) (messages d)))"

definition messageRepo_CountUnreadByConversation :: "string \<Rightarrow> int \<Rightarrow> (message_db, int) M" where
  "messageRepo_CountUnreadByConversation conversationID lastReadSeq =
     query (\<lambda>d. int (count_where (\<lambda>m. m_ConversationID m = conversationID \<and> m_Sequence m > lastReadSeq \<and>
       m_Status m = MessageStatusNormal) (messages d)))"

definition messageRepo_SearchMessages :: "(string \<Rightarrow> string \<Rightarrow> bool) \<Rightarrow>
    string \<Rightarrow> string option \<Rightarrow> int option \<Rightarrow> int \<Rightarrow> int \<Rightarrow> (message_db, Message list \<times> int) M" where
  "messageRepo_SearchMessages ilike keyword conversationID contentType limit offset =
     (let p = (\<lambda>m. m_Status m = MessageStatusNormal \<and>
          (keyword \<noteq> '''' \<longrightarrow> ilike (m_Content m) (CHR 0x25 # keyword @ [CHR 0x25])) \<and>
          (case conversationID of None \<Rightarrow> True | Some c \<Rightarrow> c \<noteq> '''' \<longrightarrow> m_ConversationID m = c) \<and>
          (case contentType of None \<Rightarrow> True
           | Some t \<Rightarrow> t \<noteq> ContentTypeUnspecified \<longrightarrow> m_ContentType m = t)) in
      bindE (query (\<lambda>d. int (count_where p (messages d)))) (\<lambda>total.
      bindE (query (\<lambda>d. limit_offset limit offset (select_where p (\<lambda>m. - m_CreatedAt m) (messages d)))) (\<lambda>ms.
      returnE (ms, total))))"

definition messageRepo_GetByReplyTo :: "string \<Rightarrow> (message_db, Message list) M" where
  "messageRepo_GetByReplyTo replyToMessageID =
     query (\<lambda>d. select_where (\<lambda>m. m_ReplyTo m = Some replyToMessageID \<and> m_Status m = MessageStatusNormal)
       m_CreatedAt (messages d))"

definition expired :: "int \<Rightarrow> Message \<Rightarrow> bool" where
  "expired before m = ((case m_ExpireTime m of None \<Rightarrow> False | Some e \<Rightarrow> e \<le> before) \<and>
     m_Status m = MessageStatusNormal)"

definition expired_batch :: "int \<Rightarrow> int \<Rightarrow> message_db \<Rightarrow> Message list" where
  "expired_batch before limit d = take (nat limit)
     (select_where (expired before) (\<lambda>m. case m_ExpireTime m of None \<Rightarrow> 0 | Some e \<Rightarrow> e) (messages d))"

definition messageRepo_GetExpiredMessages :: "int \<Rightarrow> int \<Rightarrow> (message_db, Message list) M" where
  "messageRepo_GetExpiredMessages before limit = query (expired_batch before limit)"

definition messageRepo_GetExpiredMessageIDs :: "int \<Rightarrow> int \<Rightarrow> (message_db, string list) M" where
  "messageRepo_GetExpiredMessageIDs before limit = query (\<lambda>d. map m_MessageID (expired_batch before limit d))"

definition messageRepo_BatchUpdateStatus :: "string list \<Rightarrow> int \<Rightarrow> (message_db, unit) M" where
  "messageRepo_BatchUpdateStatus messageIDs status =
     (if messageIDs = [] then returnE ()
      else bindE now (\<lambda>t. modify (\<lambda>d. d\<lparr>messages := update_where (\<lambda>m. m_MessageID m \<in> set messageIDs)
        (\<lambda>m. m\<lparr>m_Status := status, m_UpdatedAt := t\<rparr>) (messages d)\<rparr>)))"

subsection \<open>Read receipt repository\<close>

definition upsert_receipt :: "MessageReadReceipt \<Rightarrow> MessageReadReceipt list \<Rightarrow> MessageReadReceipt list" where
  "upsert_receipt r rows =
     (if has_key receipt_key (receipt_key r) rows then
        update_where (\<lambda>x. receipt_key x = receipt_key r)
          (\<lambda>x. x\<lparr>rr_ConversationType := rr_ConversationType r, rr_TargetID := rr_TargetID r,
             rr_LastReadSeq := rr_LastReadSeq r, rr_LastReadMessageID := rr_LastReadMessageID r,
             rr_ReadAt := rr_ReadAt r\<rparr>) rows
      else rows @ [r])"

definition readReceiptRepo_Upsert :: "MessageReadReceipt \<Rightarrow> (message_db, unit) M" where
  "readReceiptRepo_Upsert r =
     bindE (next_serial SeqMessageReadReceipts) (\<lambda>i.
       modify (\<lambda>d. d\<lparr>message_read_receipts := upsert_receipt (r\<lparr>rr_ID := i\<rparr>) (message_read_receipts d)\<rparr>))"

definition readReceiptRepo_GetByConversationAndUser :: "string \<Rightarrow> string \<Rightarrow> (message_db, MessageReadReceipt) M" where
  "readReceiptRepo_GetByConversationAndUser conversationID userID =
     find_one (\<lambda>d. first_where (\<lambda>r. rr_ConversationID r = conversationID \<and> rr_UserID r = userID) rr_ID
       (message_read_receipts d))"

definition readReceiptRepo_GetByConversation :: "string \<Rightarrow> (message_db, MessageReadReceipt list) M" where
  "readReceiptRepo_GetByConversation conversationID =
     query (\<lambda>d. select_where (\<lambda>r. rr_ConversationID r = conversationID) (\<lambda>r. - rr_ReadAt r)
       (message_read_receipts d))"

definition readReceiptRepo_GetByUser :: "string \<Rightarrow> (message_db, MessageReadReceipt list) M" where
  "readReceiptRepo_GetByUser userID =
     query (\<lambda>d. select_where (\<lambda>r. rr_UserID r = userID) (\<lambda>r. - rr_ReadAt r) (message_read_receipts d))"

definition readReceiptRepo_Delete :: "string \<Rightarrow> string \<Rightarrow> (message_db, unit) M" where
  "readReceiptRepo_Delete conversationID userID =
     modify (\<lambda>d. d\<lparr>message_read_receipts := delete_where
       (\<lambda>r. rr_ConversationID r = conversationID \<and> rr_UserID r = userID) (message_read_receipts d)\<rparr>)"

subsection \<open>Send idempotency repository\<close>

text \<open>\<open>ON CONFLICT DO NOTHING\<close>: an existing key leaves the table as it is.\<close>

definition sendIdempotencyRepo_CreateIfNotExists :: "MessageSendIdempotency \<Rightarrow> (message_db, unit) M" where
  "sendIdempotencyRepo_CreateIfNotExists r =
     bindE now (\<lambda>t. bindE (next_serial SeqSendIdempotency) (\<lambda>i.
       modify (\<lambda>d. case insert_unique send_key (r\<lparr>si_ID := i, si_CreatedAt := t, si_UpdatedAt := t\<rparr>)
                  (message_send_idempotency d) of
           None \<Rightarrow> d
         | Some rows \<Rightarrow> d\<lparr>message_send_idempotency := rows\<rparr>)))"

definition sendIdempotencyRepo_GetForUpdateByKey ::
    "string \<Rightarrow> string \<Rightarrow> string \<Rightarrow> (message_db, MessageSendIdempotency) M" where
  "sendIdempotencyRepo_GetForUpdateByKey senderID conversationID localID =
     find_one (\<lambda>d. first_where (\<lambda>r. send_key r = (senderID, conversationID, localID)) si_ID
       (message_send_idempotency d))"

definition sendIdempotencyRepo_BindMessageID :: "string \<Rightarrow> string \<Rightarrow> string \<Rightarrow> string \<Rightarrow> (message_db, unit) M" where
  "sendIdempotencyRepo_BindMessageID senderID conversationID localID messageID =
     bindE now (\<lambda>t. modify (\<lambda>d. d\<lparr>message_send_idempotency := update_where
       (\<lambda>r. send_key r = (senderID, conversationID, localID))
       (\<lambda>r. r\<lparr>si_MessageID := messageID, si_UpdatedAt := t\<rparr>) (message_send_idempotency d)\<rparr>))"

subsection \<open>Sequence repository\<close>

definition find_sequence :: "string \<Rightarrow> (message_db, ConversationSequence) M" where
  "find_sequence conversationID =
     find_one (\<lambda>d. first_where (\<lambda>s. cs_ConversationID s = conversationID) cs_ID (conversation_sequences d))"

definition sequenceRepo_GetOrCreate :: "string \<Rightarrow> (message_db, unit) M" where
  "sequenceRepo_GetOrCreate conversationID =
     bindE (optionalE (find_sequence conversationID)) (\<lambda>found.
     case found of
       Some _ \<Rightarrow> returnE ()
     | None \<Rightarrow>
         catchE (bindE now (\<lambda>t. bindE (next_serial SeqConversationSequences) (\<lambda>i.
           modify (\<lambda>d. case insert_unique cs_ConversationID
                \<lparr>cs_ID = i, cs_ConversationID = conversationID, cs_CurrentSeq = 0, cs_CreatedAt = t, cs_UpdatedAt = t\<rparr>
                (conversation_sequences d) of
               None \<Rightarrow> d
             | Some rows \<Rightarrow> d\<lparr>conversation_sequences := rows\<rparr>))))
           (\<lambda>_. thenE (find_sequence conversationID) (returnE ())))"

definition sequenceRepo_IncrementAndGet :: "string \<Rightarrow> (message_db, int) M" where
  "sequenceRepo_IncrementAndGet conversationID =
     thenE (sequenceRepo_GetOrCreate conversationID) (
     thenE (modify (\<lambda>d. d\<lparr>conversation_sequences := update_where (\<lambda>s. cs_ConversationID s = conversationID)
       (\<lambda>s. s\<lparr>cs_CurrentSeq := cs_CurrentSeq s + 1\<rparr>) (conversation_sequences d)\<rparr>)) (
     bindE (find_sequence conversationID) (\<lambda>s. returnE (cs_CurrentSeq s))))"

definition sequenceRepo_GetCurrentSeq :: "string \<Rightarrow> (message_db, int) M" where
  "sequenceRepo_GetCurrentSeq conversationID =
     bindE (optionalE (find_sequence conversationID)) (\<lambda>found. returnE
       (case found of None \<Rightarrow> 0 | Some s \<Rightarrow> cs_CurrentSeq s))"

definition sequenceRepo_Reset :: "string \<Rightarrow> (message_db, unit) M" where
  "sequenceRepo_Reset conversationID =
     bindE now (\<lambda>t. modify (\<lambda>d. d\<lparr>conversation_sequences := update_where
       (\<lambda>s. cs_ConversationID s = conversationID) (\<lambda>s. s\<lparr>cs_CurrentSeq := 0, cs_UpdatedAt := t\<rparr>)
       (conversation_sequences d)\<rparr>))"

definition sequenceRepo_Delete :: "string \<Rightarrow> (message_db, unit) M" where
  "sequenceRepo_Delete conversationID =
     modify (\<lambda>d. d\<lparr>conversation_sequences := delete_where (\<lambda>s. cs_ConversationID s = conversationID)
       (conversation_sequences d)\<rparr>)"

subsection \<open>Typing repository\<close>

definition stateKey :: "string \<Rightarrow> string \<Rightarrow> string" where
  "stateKey conversationID fromUserID = ''msg:typing:state:'' @ conversationID @ '':'' @ fromUserID"

definition emitKey :: "string \<Rightarrow> string \<Rightarrow> string" where
  "emitKey conversationID fromUserID = ''msg:typing:emit:'' @ conversationID @ '':'' @ fromUserID"

definition expiry :: "int \<Rightarrow> int \<Rightarrow> int option" where
  "expiry t ttl = (if ttl = 0 then None else Some (t + ttl))"

definition live :: "int \<Rightarrow> int option \<Rightarrow> bool" where
  "live t e = (case e of None \<Rightarrow> True | Some x \<Rightarrow> x > t)"

definition typingRepo_SetState :: "string \<Rightarrow> string \<Rightarrow> int \<Rightarrow> (message_db, unit) M" where
  "typingRepo_SetState conversationID fromUserID ttl =
     bindE now (\<lambda>t. modify (\<lambda>d. d\<lparr>typing_cache :=
       (stateKey conversationID fromUserID, expiry t ttl) #
       filter (\<lambda>(k, _). k \<noteq> stateKey conversationID fromUserID) (typing_cache d)\<rparr>))"

definition typingRepo_ClearState :: "string \<Rightarrow> string \<Rightarrow> (message_db, unit) M" where
  "typingRepo_ClearState conversationID fromUserID =
     modify (\<lambda>d. d\<lparr>typing_cache := filter (\<lambda>(k, _). k \<noteq> stateKey conversationID fromUserID \<and>
       k \<noteq> emitKey conversationID fromUserID) (typing_cache d)\<rparr>)"

text \<open>\<open>SET key value NX PX ttl\<close>: set unless a key that has not expired is there.\<close>

definition typingRepo_AcquireEmitToken :: "string \<Rightarrow> string \<Rightarrow> int \<Rightarrow> (message_db, bool) M" where
  "typingRepo_AcquireEmitToken conversationID fromUserID ttl =
     bindE now (\<lambda>t. exec (\<lambda>d.
       if list_ex (\<lambda>(k, e). k = emitKey conversationID fromUserID \<and> live t e) (typing_cache d) then Inr (False, d)
       else Inr (True, d\<lparr>typing_cache := (emitKey conversationID fromUserID, expiry t ttl) #
         filter (\<lambda>(k, _). k \<noteq> emitKey conversationID fromUserID) (typing_cache d)\<rparr>)))"

end
