(* ===== verification/Message_Service.thy ===== *)
theory Message_Service
  imports Message_Model
begin

text \<open>
  The operations of the message service (\<open>internal/service/message_service.go\<close>).  The record
  \<open>messageServiceImpl\<close> holds what the struct of the source holds beside the repositories: the clients of
  the other services (a nil client is \<open>None\<close>), whether the broker and two repositories are set, and
  the typing configuration.  Publishing through a broker that is not set is a nil dereference, a panic.
  \<open>ms_text_field\<close> is what \<open>encoding/json\<close> decodes as the \<open>text\<close> member of a content (\<open>None\<close> when decoding
  fails) and \<open>ms_ilike\<close> is the SQL operator.  \<open>ms_pages\<close> bounds the pages of group members
  read by one call; a call that would need more ends with the error \<open>out_of_pages\<close>.
\<close>

subsection \<open>The service\<close>

record Conversation =
  cv_ConversationType :: int
  cv_TargetId :: string
  cv_AutoDeleteDuration :: int
  cv_BurnAfterReading :: int

record group_client =
  gc_IsMember :: "nat \<Rightarrow> string \<Rightarrow> string \<Rightarrow> err + bool"
  gc_GetGroupMembers :: "nat \<Rightarrow> string \<Rightarrow> string \<Rightarrow> int \<Rightarrow> err + string list \<times> int"
  gc_UnpinGroupMessage :: "nat \<Rightarrow> string \<Rightarrow> string \<Rightarrow> err + unit"

record messageServiceImpl =
  ms_conversationClient :: "(nat \<Rightarrow> string \<Rightarrow> err + Conversation) option"
  ms_friendClient :: "(nat \<Rightarrow> string \<Rightarrow> string \<Rightarrow> err + bool) option"
  ms_groupClient :: "group_client option"
  ms_broker :: bool
  ms_sendIdempotencyRepo :: bool
  ms_typingRepo :: bool
  ms_DefaultTTL :: "int option"
  ms_MinTTL :: "int option"
  ms_MaxTTL :: "int option"
  ms_EmitDebounce :: "int option"
  ms_text_field :: "string \<Rightarrow> string option"
  ms_ilike :: "string \<Rightarrow> string \<Rightarrow> bool"
  ms_pages :: nat

text \<open>The constructor: \<open>args\<close> are its arguments.  It takes a broker and does not store it.\<close>

definition NewMessageService :: "messageServiceImpl \<Rightarrow> messageServiceImpl" where
  "NewMessageService args = args\<lparr>ms_broker := False\<rparr>"

definition out_of_pages :: err where "out_of_pages = Plain ''out of pages''"
definition nil_broker :: err where "nil_broker = Panicked ''nil pointer dereference''"

definition brokerE :: "messageServiceImpl \<Rightarrow> (message_db, unit) M \<Rightarrow> (message_db, unit) M" where
  "brokerE s publish = (if ms_broker s then publish else throwE nil_broker)"

definition errConvNotFound :: err where
  "errConvNotFound = NewBusiness CodeConversationNotFound ''conversation not found''"
definition errMsgNotFound :: err where "errMsgNotFound = NewBusiness CodeMessageNotFound ''''"
definition errSendFailed :: err where "errSendFailed = NewBusiness CodeMessageSendFailed ''''"
definition errSequence :: err where "errSequence = NewBusiness CodeSequenceGenerateFailed ''''"
definition errParam :: "string \<Rightarrow> err" where "errParam msg = NewBusiness CodeParamError msg"
definition errInternal :: "string \<Rightarrow> err" where "errInternal msg = NewBusiness CodeInternalError msg"
definition errDenied :: "string \<Rightarrow> err" where "errDenied msg = NewBusiness CodeMessagePermissionDenied msg"
definition errBlocked :: err where "errBlocked = NewBusiness CodeUserBlocked ''user blocked''"

text \<open>\<open>if err != nil { return nil, e }\<close>.\<close>

definition orE :: "('db, 'a) M \<Rightarrow> err \<Rightarrow> ('db, 'a) M" where
  "orE m e = catchE m (\<lambda>_. throwE e)"

subsection \<open>Access to conversations\<close>

definition getConversation :: "messageServiceImpl \<Rightarrow> string \<Rightarrow> (message_db, Conversation) M" where
  "getConversation s conversationID =
     (case ms_conversationClient s of
        None \<Rightarrow> throwE (errInternal ''conversation client is not initialized'')
      | Some client \<Rightarrow> orE (rpc (\<lambda>n. client n conversationID)) errConvNotFound)"

definition authorizeSend :: "messageServiceImpl \<Rightarrow> string \<Rightarrow> string \<Rightarrow> (message_db, Conversation) M" where
  "authorizeSend s senderID conversationID =
     (case ms_conversationClient s of
        None \<Rightarrow> throwE (errInternal ''conversation client is not initialized'')
      | Some _ \<Rightarrow>
     if senderID = '''' \<or> conversationID = '''' then throwE (errParam ''sender_id and conversation_id are required'')
     else
     bindE (getConversation s conversationID) (\<lambda>conversation.
     thenE (guardE (cv_ConversationType conversation = ConversationTypeSingle \<or>
         cv_ConversationType conversation = ConversationTypeGroup)
       (errParam ''conversation_type must be single or group'')) (
     let targetID = cv_TargetId conversation in
     thenE (guardE (targetID \<noteq> '''') (errParam ''target_id is required'')) (
     thenE (if cv_ConversationType conversation = ConversationTypeGroup then
         (case ms_groupClient s of
            None \<Rightarrow> throwE (errInternal ''group client is not initialized'')
          | Some client \<Rightarrow>
              bindE (orE (rpc (\<lambda>n. gc_IsMember client n targetID senderID))
                (errInternal ''failed to verify group membership'')) (\<lambda>isMember.
              guardE isMember (errDenied ''sender is not a group member'')))
       else returnE ()) (
     thenE (if cv_ConversationType conversation = ConversationTypeSingle then
         (case ms_friendClient s of
            None \<Rightarrow> throwE (errInternal ''friend client is not initialized'')
          | Some client \<Rightarrow>
              bindE (orE (rpc (\<lambda>n. client n senderID targetID)) (errInternal ''failed to verify blacklist'')) (\<lambda>blocked.
              guardE (\<not> blocked) errBlocked))
       else returnE ()) (returnE conversation))))))"

definition ensureConversationAccessible :: "messageServiceImpl \<Rightarrow> string \<Rightarrow> string \<Rightarrow> (message_db, unit) M" where
  "ensureConversationAccessible s userID conversationID =
     (if userID = '''' \<or> conversationID = '''' then throwE (errParam ''user_id and conversation_id are required'')
      else thenE (getConversation s conversationID) (returnE ()))"

subsection \<open>Notifications\<close>

definition getContentPreview :: "messageServiceImpl \<Rightarrow> string \<Rightarrow> int \<Rightarrow> string" where
  "getContentPreview s content contentType =
     (if contentType = ContentTypeText then
        (case ms_text_field s content of
           None \<Rightarrow> ''[Text Message]''
         | Some text \<Rightarrow> if length text > 100 then take 100 text @ ''...'' else text)
      else if contentType = 2 then ''[Image]''
      else if contentType = 3 then ''[Video]''
      else if contentType = 4 then ''[Voice]''
      else if contentType = 5 then ''[File]''
      else if contentType = 6 then ''[Location]''
      else if contentType = 7 then ''[Contact]''
      else ''[Message]'')"

text \<open>The pages of members, starting with \<open>page\<close>; \<open>seen\<close> is the set collected so far, in the order of
  insertion.\<close>

fun memberPages :: "group_client \<Rightarrow> string \<Rightarrow> string \<Rightarrow> string list \<Rightarrow> nat \<Rightarrow> int \<Rightarrow> string list \<Rightarrow> (message_db, string list) M" where
  "memberPages client operatorUserID groupID excluded 0 page seen = throwE out_of_pages"
| "memberPages client operatorUserID groupID excluded (Suc fuel) page seen =
     bindE (orE (rpc (\<lambda>n. gc_GetGroupMembers client n groupID operatorUserID page))
       (errInternal ''failed to load group members'')) (\<lambda>(members, total).
     if members = [] then returnE seen
     else
       let seen = fold (\<lambda>u seen. if u = '''' \<or> u \<in> set excluded \<or> u \<in> set seen then seen else seen @ [u]) members seen in
       if page * 100 \<ge> total then returnE seen
       else memberPages client operatorUserID groupID excluded fuel (page + 1) seen)"

definition listGroupMemberIDs :: "messageServiceImpl \<Rightarrow> string \<Rightarrow> string \<Rightarrow> string list \<Rightarrow> (message_db, string list) M" where
  "listGroupMemberIDs s operatorUserID groupID excluded =
     (case ms_groupClient s of
        None \<Rightarrow> throwE (errInternal ''group client is not initialized'')
      | Some client \<Rightarrow> memberPages client operatorUserID groupID excluded (ms_pages s) 1 [])"

definition group_of :: "Message \<Rightarrow> string" where
  "group_of msg = (if m_TargetID msg = '''' then m_ConversationID msg else m_TargetID msg)"

definition publishNewMessageNotification :: "messageServiceImpl \<Rightarrow> Message \<Rightarrow> (message_db, unit) M" where
  "publishNewMessageNotification s msg =
     bindE (NewNotification TypeMessageNew (m_SenderID msg) PriorityNormal) (\<lambda>n.
     let notif = WithPayload n
       [(''message_id'', JStr (m_MessageID msg)), (''conversation_id'', JStr (m_ConversationID msg)),
        (''conversation_type'', JInt (m_ConversationType msg)), (''target_id'', JStr (m_TargetID msg)),
        (''from_user_id'', JStr (m_SenderID msg)), (''content_type'', JInt (m_ContentType msg)),
        (''content'', JStr (getContentPreview s (m_Content msg) (m_ContentType msg))),
        (''sent_at'', JInt (unix (m_CreatedAt msg))), (''seq'', JInt (m_Sequence msg))] in
     if m_ConversationType msg = ConversationTypeSingle then
       if m_TargetID msg = '''' then returnE ()
       else brokerE s (PublishToUser (m_TargetID msg) notif)
     else if m_ConversationType msg = ConversationTypeGroup then
       bindE (listGroupMemberIDs s (m_SenderID msg) (group_of msg) [m_SenderID msg]) (\<lambda>memberIDs.
       if memberIDs = [] then returnE () else brokerE s (PublishToUsers memberIDs notif))
     else returnE ())"

definition publishMentionNotification :: "messageServiceImpl \<Rightarrow> Message \<Rightarrow> (message_db, unit) M" where
  "publishMentionNotification s msg =
     forE (m_AtUsers msg) (\<lambda>userID.
       bindE (NewNotification TypeMessageMentioned (m_SenderID msg) PriorityHigh) (\<lambda>n.
       ignoreE (brokerE s (PublishToUser userID (WithPayload n
         [(''message_id'', JStr (m_MessageID msg)), (''group_id'', JStr (group_of msg)),
          (''from_user_id'', JStr (m_SenderID msg)),
          (''content'', JStr (getContentPreview s (m_Content msg) (m_ContentType msg))),
          (''mention_type'', JStr ''single''), (''sent_at'', JInt (unix (m_CreatedAt msg)))])))))"

text \<open>The parties of a single conversation, a set in the source.\<close>

definition receivers :: "Message \<Rightarrow> string list" where
  "receivers msg = (if m_SenderID msg \<noteq> '''' then [m_SenderID msg] else []) @
     (if m_TargetID msg \<noteq> '''' \<and> m_TargetID msg \<noteq> m_SenderID msg then [m_TargetID msg] else [])"

definition publishToParties :: "messageServiceImpl \<Rightarrow> Message \<Rightarrow> string \<Rightarrow> Notification \<Rightarrow> (message_db, unit) M" where
  "publishToParties s msg operatorUserID notif =
     (if m_ConversationType msg = ConversationTypeSingle then
        if receivers msg = [] then returnE ()
        else brokerE s (PublishToUsers (receivers msg) notif)
      else if m_ConversationType msg = ConversationTypeGroup then
        bindE (listGroupMemberIDs s operatorUserID (group_of msg) []) (\<lambda>memberIDs.
        if memberIDs = [] then returnE () else brokerE s (PublishToUsers memberIDs notif))
      else returnE ())"

definition publishRecallNotification :: "messageServiceImpl \<Rightarrow> Message \<Rightarrow> string \<Rightarrow> (message_db, unit) M" where
  "publishRecallNotification s msg operatorUserID =
     bindE now (\<lambda>t. bindE (NewNotification TypeMessageRecalled operatorUserID PriorityNormal) (\<lambda>n.
     publishToParties s msg operatorUserID (WithPayload n
       [(''message_id'', JStr (m_MessageID msg)), (''conversation_id'', JStr (m_ConversationID msg)),
        (''conversation_type'', JInt (m_ConversationType msg)), (''target_id'', JStr (m_TargetID msg)),
        (''operator_user_id'', JStr operatorUserID), (''recalled_at'', JInt (unix t))])))"

definition publishDeleteNotification :: "messageServiceImpl \<Rightarrow> Message \<Rightarrow> string \<Rightarrow> (message_db, unit) M" where
  "publishDeleteNotification s msg operatorUserID =
     bindE now (\<lambda>t. bindE (NewNotification TypeMessageDeleted operatorUserID PriorityNormal) (\<lambda>n.
     publishToParties s msg operatorUserID (WithPayload n
       [(''message_id'', JStr (m_MessageID msg)), (''conversation_id'', JStr (m_ConversationID msg)),
        (''conversation_type'', JInt (m_ConversationType msg)), (''target_id'', JStr (m_TargetID msg)),
        (''operator_user_id'', JStr operatorUserID), (''deleted_at'', JInt (unix t))])))"

definition publishReadReceiptNotification :: "messageServiceImpl \<Rightarrow> MessageReadReceipt \<Rightarrow> (message_db, unit) M" where
  "publishReadReceiptNotification s receipt =
     bindE (NewNotification TypeMessageReadReceipt (rr_UserID receipt) PriorityLow) (\<lambda>n.
     let notif = WithPayload n
       [(''conversation_id'', JStr (rr_ConversationID receipt)),
        (''conversation_type'', JInt (rr_ConversationType receipt)), (''target_id'', JStr (rr_TargetID receipt)),
        (''reader_user_id'', JStr (rr_UserID receipt)), (''last_read_seq'', JInt (rr_LastReadSeq receipt)),
        (''read_at'', JInt (unix (rr_ReadAt receipt)))] in
     if rr_ConversationType receipt = ConversationTypeSingle then
       if rr_TargetID receipt = '''' then returnE ()
       else brokerE s (PublishToUser (rr_TargetID receipt) notif)
     else returnE ())"

definition publishTypingNotification ::
    "messageServiceImpl \<Rightarrow> string \<Rightarrow> string \<Rightarrow> string \<Rightarrow> string \<Rightarrow> bool \<Rightarrow> int \<Rightarrow> (message_db, unit) M" where
  "publishTypingNotification s toUserID fromUserID conversationId deviceID typing expireAt =
     (if toUserID = '''' then returnE ()
      else bindE now (\<lambda>t. bindE (NewNotification TypeMessageTyping fromUserID PriorityLow) (\<lambda>n.
        brokerE s (PublishToUser toUserID (WithPayload n
          ([(''conversation_id'', JStr conversationId), (''from_user_id'', JStr fromUserID),
            (''typing'', JBool typing), (''timestamp'', JInt (unix t))] @
           (if typing then [(''expire_at'', JInt (unix expireAt))] else []) @
           (if deviceID \<noteq> '''' then [(''device_id'', JStr deviceID)] else [])))))))"

subsection \<open>Sending\<close>

record pbMessage =
  pb_MessageId :: string
  pb_ConversationId :: string
  pb_SenderId :: string
  pb_ContentType :: int
  pb_Content :: string
  pb_Seq :: int
  pb_Timestamp :: int
  pb_ReplyTo :: "string option"
  pb_AtUsers :: "string list"

definition modelToProto :: "Message \<Rightarrow> pbMessage" where
  "modelToProto m = \<lparr>pb_MessageId = m_MessageID m, pb_ConversationId = m_ConversationID m,
     pb_SenderId = m_SenderID m, pb_ContentType = m_ContentType m, pb_Content = m_Content m,
     pb_Seq = m_Sequence m, pb_Timestamp = m_CreatedAt m, pb_ReplyTo = m_ReplyTo m, pb_AtUsers = m_AtUsers m\<rparr>"

record SendMessageRequest =
  sm_ConversationId :: string
  sm_ContentType :: int
  sm_Content :: string
  sm_ReplyTo :: "string option"
  sm_AtUsers :: "string list"
  sm_LocalId :: string

definition newMessage :: "string \<Rightarrow> Conversation \<Rightarrow> SendMessageRequest \<Rightarrow> int \<Rightarrow> string \<Rightarrow> int \<Rightarrow> Message" where
  "newMessage userID conversation req sequence messageID t =
     (let autoExpire = (if cv_AutoDeleteDuration conversation > 0
            then Some (t + cv_AutoDeleteDuration conversation * Second) else None) in
      \<lparr>m_ID = 0, m_MessageID = messageID, m_ConversationID = sm_ConversationId req,
       m_ConversationType = cv_ConversationType conversation, m_TargetID = cv_TargetId conversation,
       m_SenderID = userID, m_ContentType = int16 (sm_ContentType req), m_Content = sm_Content req,
       m_Sequence = sequence, m_ReplyTo = sm_ReplyTo req, m_AtUsers = sm_AtUsers req,
       m_Status = MessageStatusNormal,
       m_BurnAfterReadingSeconds = (if cv_BurnAfterReading conversation > 0 then cv_BurnAfterReading conversation else 0),
       m_AutoDeleteExpireTime = autoExpire, m_BurnAfterReadingExpireTime = None, m_ExpireTime = autoExpire,
       m_CreatedAt = t, m_UpdatedAt = t\<rparr>)"

text \<open>Allocate a sequence number, store the message and bind it to the idempotency key.\<close>

definition createMessage :: "string \<Rightarrow> Conversation \<Rightarrow> SendMessageRequest \<Rightarrow> (message_db, Message \<times> bool) M" where
  "createMessage userID conversation req =
     bindE (orE (sequenceRepo_IncrementAndGet (sm_ConversationId req)) errSequence) (\<lambda>sequence.
     bindE now (\<lambda>t. bindE new_uuid (\<lambda>messageID.
     bindE (orE (messageRepo_Create (newMessage userID conversation req sequence messageID t)) errSendFailed) (\<lambda>message.
     thenE (sendIdempotencyRepo_BindMessageID userID (sm_ConversationId req) (sm_LocalId req) (m_MessageID message))
       (returnE (message, True))))))"

text \<open>The body of the transaction: the message that answers the request and whether it is new.\<close>

definition sendBody :: "string \<Rightarrow> Conversation \<Rightarrow> SendMessageRequest \<Rightarrow> (message_db, Message \<times> bool) M" where
  "sendBody userID conversation req =
     thenE (sendIdempotencyRepo_CreateIfNotExists \<lparr>si_ID = 0, si_SenderID = userID,
       si_ConversationID = sm_ConversationId req, si_LocalID = sm_LocalId req, si_MessageID = '''',
       si_CreatedAt = 0, si_UpdatedAt = 0\<rparr>) (
     bindE (sendIdempotencyRepo_GetForUpdateByKey userID (sm_ConversationId req) (sm_LocalId req)) (\<lambda>rec.
     if si_MessageID rec \<noteq> '''' then
       bindE (messageRepo_GetByMessageID (si_MessageID rec)) (\<lambda>existing. returnE (existing, False))
     else createMessage userID conversation req))"

text \<open>What follows a committed transaction; the errors of publishing are dropped.\<close>

definition announce :: "messageServiceImpl \<Rightarrow> SendMessageRequest \<Rightarrow> Message \<Rightarrow> bool \<Rightarrow> (message_db, unit) M" where
  "announce s req message created =
     (if created then
        thenE (ignoreE (publishNewMessageNotification s message))
          (if sm_AtUsers req \<noteq> [] then ignoreE (publishMentionNotification s message) else returnE ())
      else returnE ())"

definition SendMessage :: "messageServiceImpl \<Rightarrow> string \<Rightarrow> SendMessageRequest \<Rightarrow> (message_db, pbMessage) M" where
  "SendMessage s userID req =
     bindE (authorizeSend s userID (sm_ConversationId req)) (\<lambda>conversation.
     thenE (guardE (sm_LocalId req \<noteq> '''') (errParam ''local_id is required'')) (
     thenE (guardE (ms_sendIdempotencyRepo s) (errInternal ''idempotency repo is not initialized'')) (
     bindE (catchE (transaction (sendBody userID conversation req))
       (\<lambda>e. if IsBusiness e then throwE e else throwE errSendFailed)) (\<lambda>(message, created).
     thenE (announce s req message created) (returnE (modelToProto message))))))"

subsection \<open>Typing\<close>

definition resolveTypingTTL :: "messageServiceImpl \<Rightarrow> int option \<Rightarrow> (message_db, int) M" where
  "resolveTypingTTL s ttlSeconds =
     bindE (case ttlSeconds of
         Some n \<Rightarrow> if n \<le> 0 then throwE (errParam ''ttl_seconds must be positive'') else returnE (n * Second)
       | None \<Rightarrow> returnE (case ms_DefaultTTL s of Some d \<Rightarrow> d | None \<Rightarrow> 5 * Second)) (\<lambda>ttl.
     let minTTL = (case ms_MinTTL s of Some d \<Rightarrow> d | None \<Rightarrow> 3 * Second);
         maxTTL = (case ms_MaxTTL s of Some d \<Rightarrow> d | None \<Rightarrow> 8 * Second) in
     if ttl < minTTL \<or> ttl > maxTTL then throwE (errParam ''ttl_seconds is out of range'')
     else returnE ttl)"

definition SendTyping :: "messageServiceImpl \<Rightarrow> string \<Rightarrow> string \<Rightarrow> bool \<Rightarrow> int \<Rightarrow> string \<Rightarrow> (message_db, unit) M" where
  "SendTyping s userID conversationId typing ttlSeconds deviceID =
     (if userID = '''' \<or> conversationId = '''' then throwE (errParam ''from_user_id and conversation_id are required'')
      else if \<not> ms_typingRepo s then throwE (errInternal ''typing repo is not initialized'')
      else
      bindE (authorizeSend s userID conversationId) (\<lambda>conversation.
      thenE (guardE (cv_ConversationType conversation = ConversationTypeSingle)
        (NewBusiness CodeInvalidOperation ''typing is only supported in single conversation'')) (
      bindE (resolveTypingTTL s (Some ttlSeconds)) (\<lambda>ttl.
      bindE now (\<lambda>t.
      if \<not> typing then
        thenE (orE (typingRepo_ClearState conversationId userID) (errInternal ''failed to clear typing state''))
          (publishTypingNotification s (cv_TargetId conversation) userID conversationId deviceID False t)
      else
        thenE (orE (typingRepo_SetState conversationId userID ttl) (errInternal ''failed to persist typing state'')) (
        bindE (orE (typingRepo_AcquireEmitToken conversationId userID
            (case ms_EmitDebounce s of None \<Rightarrow> 0 | Some d \<Rightarrow> d))
          (errInternal ''failed to acquire typing emit token'')) (\<lambda>emit.
        if \<not> emit then returnE ()
        else publishTypingNotification s (cv_TargetId conversation) userID conversationId deviceID True (t + ttl))))))))"


subsection \<open>Reading\<close>

abbreviation (input) defaultAnchorWindowLimit :: int where "defaultAnchorWindowLimit \<equiv> 20"
abbreviation (input) maxAnchorWindowLimit :: int where "maxAnchorWindowLimit \<equiv> 100"

definition normalizeAnchorWindowLimit :: "int \<Rightarrow> int" where
  "normalizeAnchorWindowLimit limit =
     (if limit \<le> 0 then defaultAnchorWindowLimit
      else if limit > maxAnchorWindowLimit then maxAnchorWindowLimit else limit)"

text \<open>One row more than asked for is read to know whether there are more.\<close>

definition cut :: "int \<Rightarrow> Message list \<Rightarrow> Message list \<times> bool" where
  "cut limit ms = (if int (length ms) > limit then (take (nat limit) ms, True) else (ms, False))"

definition GetMessages :: "string \<Rightarrow> int \<Rightarrow> (message_db, pbMessage list \<times> bool) M" where
  "GetMessages conversationId reqLimit =
     (let limit = (if reqLimit \<le> 0 then 20 else reqLimit);
          limit = (if limit > 100 then 100 else limit) in
      bindE (orE (messageRepo_GetByConversation conversationId 0 0 (limit + 1) False)
        (errInternal ''Failed to retrieve messages'')) (\<lambda>messages.
      let (messages, hasMore) = cut limit messages in
      returnE (map modelToProto messages, hasMore)))"

definition getAnchorMessage :: "string \<Rightarrow> string \<Rightarrow> (message_db, Message) M" where
  "getAnchorMessage conversationID anchorMessageID =
     bindE (catchE (messageRepo_GetByMessageID anchorMessageID) (\<lambda>e. if e = RecordNotFound then throwE errMsgNotFound
       else throwE (errInternal ''Failed to retrieve anchor message''))) (\<lambda>message.
     thenE (guardE (m_ConversationID message = conversationID \<and> m_Status message = MessageStatusNormal) errMsgNotFound)
       (returnE message))"

definition fetchBeforeMessages :: "string \<Rightarrow> int \<Rightarrow> int \<Rightarrow> (message_db, Message list \<times> bool) M" where
  "fetchBeforeMessages conversationID anchorSeq limit =
     (if anchorSeq \<le> 0 then returnE ([], False)
      else bindE (orE (messageRepo_GetByConversation conversationID 0 (anchorSeq - 1) (limit + 1) True)
        (errInternal ''Failed to retrieve messages before anchor'')) (\<lambda>messages.
      let (messages, hasMore) = cut limit messages in returnE (rev messages, hasMore)))"

definition fetchAfterMessages :: "string \<Rightarrow> int \<Rightarrow> int \<Rightarrow> (message_db, Message list \<times> bool) M" where
  "fetchAfterMessages conversationID anchorSeq limit =
     bindE (orE (messageRepo_GetByConversation conversationID (anchorSeq + 1) 0 (limit + 1) False)
       (errInternal ''Failed to retrieve messages after anchor'')) (\<lambda>messages. returnE (cut limit messages))"

definition requireAnchor :: "string \<Rightarrow> string \<Rightarrow> (message_db, unit) M" where
  "requireAnchor conversationId anchorMessageId =
     guardE (\<not> (conversationId = '''' \<or> anchorMessageId = ''''))
       (errParam ''conversation_id and anchor_message_id are required'')"

definition GetMessagesBefore ::
    "messageServiceImpl \<Rightarrow> string \<Rightarrow> string \<Rightarrow> string \<Rightarrow> int \<Rightarrow> (message_db, pbMessage list \<times> bool) M" where
  "GetMessagesBefore s userID conversationId anchorMessageId limit =
     thenE (requireAnchor conversationId anchorMessageId) (
     thenE (ensureConversationAccessible s userID conversationId) (
     bindE (getAnchorMessage conversationId anchorMessageId) (\<lambda>anchor.
     bindE (fetchBeforeMessages conversationId (m_Sequence anchor) (normalizeAnchorWindowLimit limit)) (\<lambda>(messages, hasMore).
     returnE (map modelToProto messages, hasMore)))))"

definition GetMessagesAfter ::
    "messageServiceImpl \<Rightarrow> string \<Rightarrow> string \<Rightarrow> string \<Rightarrow> int \<Rightarrow> (message_db, pbMessage list \<times> bool) M" where
  "GetMessagesAfter s userID conversationId anchorMessageId limit =
     thenE (requireAnchor conversationId anchorMessageId) (
     thenE (ensureConversationAccessible s userID conversationId) (
     bindE (getAnchorMessage conversationId anchorMessageId) (\<lambda>anchor.
     bindE (fetchAfterMessages conversationId (m_Sequence anchor) (normalizeAnchorWindowLimit limit)) (\<lambda>(messages, hasMore).
     returnE (map modelToProto messages, hasMore)))))"

definition GetMessagesAroundAnchor ::
    "messageServiceImpl \<Rightarrow> string \<Rightarrow> string \<Rightarrow> string \<Rightarrow> int \<Rightarrow> int \<Rightarrow> (message_db, pbMessage list \<times> bool \<times> bool) M" where
  "GetMessagesAroundAnchor s userID conversationId anchorMessageId reqBefore reqAfter =
     thenE (requireAnchor conversationId anchorMessageId) (
     thenE (ensureConversationAccessible s userID conversationId) (
     bindE (getAnchorMessage conversationId anchorMessageId) (\<lambda>anchor.
     bindE (fetchBeforeMessages conversationId (m_Sequence anchor) (normalizeAnchorWindowLimit reqBefore)) (\<lambda>(before, moreBefore).
     bindE (fetchAfterMessages conversationId (m_Sequence anchor) (normalizeAnchorWindowLimit reqAfter)) (\<lambda>(after, moreAfter).
     returnE (map modelToProto before @ [modelToProto anchor] @ map modelToProto after, moreBefore, moreAfter))))))"

definition readReceipt :: "string \<Rightarrow> string \<Rightarrow> string \<Rightarrow> (message_db, MessageReadReceipt option) M" where
  "readReceipt conversationID userID failure =
     orE (optionalE (readReceiptRepo_GetByConversationAndUser conversationID userID)) (errInternal failure)"

definition lastReadSeq :: "MessageReadReceipt option \<Rightarrow> int" where
  "lastReadSeq receipt = (case receipt of None \<Rightarrow> 0 | Some r \<Rightarrow> rr_LastReadSeq r)"

definition GetFirstUnreadAnchor ::
    "messageServiceImpl \<Rightarrow> string \<Rightarrow> string \<Rightarrow> (message_db, pbMessage option \<times> int) M" where
  "GetFirstUnreadAnchor s userID conversationId =
     thenE (guardE (conversationId \<noteq> '''') (errParam ''conversation_id is required'')) (
     thenE (ensureConversationAccessible s userID conversationId) (
     bindE (readReceipt conversationId userID ''Failed to get read receipt'') (\<lambda>receipt.
     bindE (orE (messageRepo_GetByConversation conversationId (lastReadSeq receipt + 1) 0 1 False)
       (errInternal ''Failed to retrieve first unread anchor'')) (\<lambda>unread.
     case unread of
       [] \<Rightarrow> returnE (None, 0)
     | anchor # _ \<Rightarrow> returnE (Some (modelToProto anchor), int (length unread))))))"

definition GetMessageById :: "string \<Rightarrow> (message_db, pbMessage) M" where
  "GetMessageById messageID =
     bindE (catchE (messageRepo_GetByMessageID messageID) (\<lambda>e. if e = RecordNotFound then throwE errMsgNotFound
       else throwE (errInternal ''Failed to retrieve message''))) (\<lambda>message. returnE (modelToProto message))"

definition GetConversationSequence :: "string \<Rightarrow> (message_db, int) M" where
  "GetConversationSequence conversationID =
     orE (sequenceRepo_GetCurrentSeq conversationID) (errInternal ''Failed to get sequence'')"

definition SearchMessages ::
    "messageServiceImpl \<Rightarrow> string \<Rightarrow> string \<Rightarrow> string option \<Rightarrow> int \<Rightarrow> int \<Rightarrow> (message_db, pbMessage list \<times> int) M" where
  "SearchMessages s userID keyword conversationId page reqPageSize =
     (let pageSize = (if reqPageSize \<le> 0 then 20 else reqPageSize);
          pageSize = (if pageSize > 100 then 100 else pageSize) in
      thenE (case conversationId of None \<Rightarrow> returnE () | Some c \<Rightarrow> ensureConversationAccessible s userID c) (
      bindE (orE (messageRepo_SearchMessages (ms_ilike s) keyword conversationId None pageSize (int32 (page - 1)))
        (NewBusiness CodeSearchMessageFailed '''')) (\<lambda>(messages, total).
      returnE (map modelToProto messages, total))))"

subsection \<open>Recalling and deleting\<close>

definition autoUnpinRecalledGroupMessage :: "messageServiceImpl \<Rightarrow> Message \<Rightarrow> (message_db, unit) M" where
  "autoUnpinRecalledGroupMessage s msg =
     (case ms_groupClient s of
        None \<Rightarrow> returnE ()
      | Some client \<Rightarrow>
          if m_ConversationType msg \<noteq> ConversationTypeGroup then returnE ()
          else if group_of msg = '''' then returnE ()
          else rpc (\<lambda>n. gc_UnpinGroupMessage client n (group_of msg) (m_MessageID msg)))"

definition ownMessage :: "string \<Rightarrow> string \<Rightarrow> string \<Rightarrow> (message_db, Message) M" where
  "ownMessage messageID userID denied =
     bindE (catchE (messageRepo_GetByMessageID messageID) (\<lambda>e. if e = RecordNotFound then throwE errMsgNotFound
       else throwE (errInternal ''Failed to retrieve message''))) (\<lambda>message.
     thenE (guardE (m_SenderID message = userID) (errDenied denied)) (returnE message))"

definition RecallMessage :: "messageServiceImpl \<Rightarrow> string \<Rightarrow> string \<Rightarrow> (message_db, unit) M" where
  "RecallMessage s messageID userID =
     bindE (ownMessage messageID userID ''Cannot recall other's message'') (\<lambda>message.
     bindE now (\<lambda>t.
     thenE (guardE (\<not> t - m_CreatedAt message > 2 * Minute) (NewBusiness CodeMessageRecallTimeLimit '''')) (
     thenE (orE (messageRepo_UpdateStatus messageID MessageStatusRecall) (NewBusiness CodeMessageRecallFailed '''')) (
     thenE (ignoreE (autoUnpinRecalledGroupMessage s message))
       (ignoreE (publishRecallNotification s message userID))))))"

definition DeleteMessage :: "messageServiceImpl \<Rightarrow> string \<Rightarrow> string \<Rightarrow> (message_db, unit) M" where
  "DeleteMessage s messageID userID =
     bindE (ownMessage messageID userID ''Cannot delete other's message'') (\<lambda>message.
     thenE (orE (messageRepo_Delete messageID) (NewBusiness CodeMessageDeleteFailed ''Failed to delete message''))
       (publishDeleteNotification s message userID))"

subsection \<open>Read receipts\<close>

definition MarkAsRead :: "messageServiceImpl \<Rightarrow> string \<Rightarrow> string \<Rightarrow> int option \<Rightarrow> (message_db, unit) M" where
  "MarkAsRead s userID conversationId reqLastReadSeq =
     (case ms_conversationClient s of
        None \<Rightarrow> throwE (errInternal ''conversation client is not initialized'')
      | Some _ \<Rightarrow>
     if userID = '''' \<or> conversationId = '''' then throwE (errParam ''user_id and conversation_id are required'')
     else
     bindE (getConversation s conversationId) (\<lambda>conversation.
     thenE (guardE (cv_ConversationType conversation = ConversationTypeSingle \<or>
         cv_ConversationType conversation = ConversationTypeGroup)
       (errParam ''conversation_type must be single or group'')) (
     bindE (readReceipt conversationId userID ''Failed to get read receipt'') (\<lambda>existing.
     let requested = (case reqLastReadSeq of None \<Rightarrow> 0 | Some q \<Rightarrow> q);
         effective = (case existing of None \<Rightarrow> requested
           | Some r \<Rightarrow> if rr_LastReadSeq r > requested then rr_LastReadSeq r else requested) in
     bindE now (\<lambda>t.
     let receipt = \<lparr>rr_ID = 0, rr_ConversationID = conversationId,
           rr_ConversationType = cv_ConversationType conversation, rr_TargetID = cv_TargetId conversation,
           rr_UserID = userID, rr_LastReadSeq = effective, rr_LastReadMessageID = None, rr_ReadAt = t\<rparr> in
     thenE (orE (readReceiptRepo_Upsert receipt) (NewBusiness CodeMarkReadFailed '''')) (
     if cv_ConversationType conversation = ConversationTypeSingle then
       ignoreE (publishReadReceiptNotification s receipt)
     else returnE ()))))))"

text \<open>The distinct non-empty identifiers of a request, in order.\<close>

definition distinct_ids :: "string list \<Rightarrow> string list" where
  "distinct_ids xs = fold (\<lambda>x acc. if x = '''' \<or> x \<in> set acc then acc else acc @ [x]) xs []"

definition maxSequence :: "Message list \<Rightarrow> int" where
  "maxSequence ms = fold (\<lambda>m acc. if m_Sequence m \<ge> acc then m_Sequence m else acc) ms 0"

definition MarkMessagesRead ::
    "messageServiceImpl \<Rightarrow> string \<Rightarrow> string \<Rightarrow> string list \<Rightarrow> (message_db, int \<times> string list) M" where
  "MarkMessagesRead s userID conversationId reqMessageIds =
     thenE (guardE (userID \<noteq> '''') (errParam ''user_id is required'')) (
     thenE (guardE (conversationId \<noteq> '''') (errParam ''conversation_id is required'')) (
     if reqMessageIds = [] then returnE (0, [])
     else
     thenE (ensureConversationAccessible s userID conversationId) (
     let messageIDs = distinct_ids reqMessageIds in
     if messageIDs = [] then returnE (0, [])
     else
     bindE (orE (query (\<lambda>d. filter (\<lambda>m. m_ConversationID m = conversationId \<and> m_MessageID m \<in> set messageIDs \<and>
         m_Status m = MessageStatusNormal) (messages d)))
       (errInternal ''failed to mark messages as read'')) (\<lambda>ms.
     let maxSeq = maxSequence ms;
         acceptedIDs = filter (\<lambda>i. i \<in> m_MessageID ` set ms) messageIDs in
     if acceptedIDs = [] then returnE (0, [])
     else
     bindE (readReceipt conversationId userID ''failed to mark messages as read'') (\<lambda>receipt.
     thenE (if maxSeq > lastReadSeq receipt then MarkAsRead s userID conversationId (Some maxSeq) else returnE ())
       (returnE (int (length acceptedIDs), acceptedIDs)))))))"

text \<open>What one burn-after-reading trigger writes into a message: the burn time and the effective
  expiry only ever move to an earlier time.\<close>

definition earlier :: "int \<Rightarrow> int option \<Rightarrow> bool" where
  "earlier t old = (case old of None \<Rightarrow> True | Some e \<Rightarrow> t < e)"

definition burnUpdate :: "int \<Rightarrow> Message \<Rightarrow> (Message \<Rightarrow> Message) option" where
  "burnUpdate t msg =
     (let burnExpire = t + m_BurnAfterReadingSeconds msg * Second;
          finalExpire = (case m_AutoDeleteExpireTime msg of None \<Rightarrow> burnExpire
            | Some a \<Rightarrow> if a < burnExpire then a else burnExpire);
          setBurn = earlier burnExpire (m_BurnAfterReadingExpireTime msg);
          setExpire = earlier finalExpire (m_ExpireTime msg) in
      if \<not> setBurn \<and> \<not> setExpire then None
      else Some (\<lambda>m.
        (let m = (if setBurn then m\<lparr>m_BurnAfterReadingExpireTime := Some burnExpire\<rparr> else m);
             m = (if setExpire then m\<lparr>m_ExpireTime := Some finalExpire\<rparr> else m) in m\<lparr>m_UpdatedAt := t\<rparr>)))"

definition ackOne :: "string \<Rightarrow> int \<Rightarrow> Message \<Rightarrow> (message_db, unit) M" where
  "ackOne userID t msg =
     (case burnUpdate t msg of
        None \<Rightarrow> returnE ()
      | Some f \<Rightarrow> orE (modify (\<lambda>d. d\<lparr>messages := update_where (\<lambda>m. m_MessageID m = m_MessageID msg \<and>
            m_Status m = MessageStatusNormal \<and> m_SenderID m \<noteq> userID \<and> m_BurnAfterReadingSeconds m > 0) f (messages d)\<rparr>))
          (errInternal ''failed to ack read triggers''))"

definition AckReadTriggers :: "string \<Rightarrow> string list \<Rightarrow> (message_db, int \<times> string list) M" where
  "AckReadTriggers userID eventIDs =
     thenE (guardE (userID \<noteq> '''') (errParam ''user_id is required'')) (
     if eventIDs = [] then returnE (0, [])
     else
     let messageIDs = distinct_ids eventIDs in
     if messageIDs = [] then returnE (0, [])
     else
     bindE (orE (query (\<lambda>d. filter (\<lambda>m. m_MessageID m \<in> set messageIDs \<and> m_Status m = MessageStatusNormal \<and>
         m_BurnAfterReadingSeconds m > 0) (messages d))) (errInternal ''failed to ack read triggers'')) (\<lambda>candidates.
     bindE now (\<lambda>t.
     let foreign = filter (\<lambda>m. m_SenderID m \<noteq> userID) candidates in
     thenE (forE foreign (ackOne userID t))
       (returnE (int (length foreign), map m_MessageID foreign)))))"

definition GetUnreadCount :: "messageServiceImpl \<Rightarrow> string \<Rightarrow> string \<Rightarrow> int option \<Rightarrow> (message_db, int) M" where
  "GetUnreadCount s conversationID userID reqLastReadSeq =
     thenE (ensureConversationAccessible s userID conversationID) (
     bindE (case reqLastReadSeq of
         Some q \<Rightarrow> returnE q
       | None \<Rightarrow> bindE (readReceipt conversationID userID ''Failed to get read receipt'') (\<lambda>r. returnE (lastReadSeq r))) (\<lambda>readSeq.
     orE (messageRepo_CountUnreadByConversation conversationID readSeq) (NewBusiness CodeGetUnreadCountFailed '''')))"

definition GetReadReceipts :: "messageServiceImpl \<Rightarrow> string \<Rightarrow> string \<Rightarrow> (message_db, (string \<times> int) list) M" where
  "GetReadReceipts s conversationID userID =
     thenE (ensureConversationAccessible s userID conversationID) (
     bindE (orE (readReceiptRepo_GetByConversation conversationID) (errInternal ''Failed to retrieve read receipts''))
       (\<lambda>receipts. returnE (map (\<lambda>r. (rr_UserID r, rr_ReadAt r)) receipts)))"

subsection \<open>The auto-delete worker (\<open>auto_delete_worker.go\<close>)\<close>

definition inferDeleteReason :: "Message \<Rightarrow> string" where
  "inferDeleteReason msg =
     (case (m_AutoDeleteExpireTime msg, m_BurnAfterReadingExpireTime msg) of
        (Some a, Some b) \<Rightarrow> if a < b then ''auto_delete'' else if b < a then ''burn_after_reading'' else ''both''
      | (None, Some _) \<Rightarrow> ''burn_after_reading''
      | _ \<Rightarrow> ''auto_delete'')"

definition worker_publishNotification :: "string list \<Rightarrow> string \<Rightarrow> (message_db, unit) M" where
  "worker_publishNotification messageIDs reason =
     bindE (NewNotification TypeMessageAutoDeleted '''' PriorityNormal) (\<lambda>n.
       ignoreE (Publish (AddPayloadField (AddPayloadField n ''message_ids'' (JStrs messageIDs)) ''reason'' (JStr reason))))"

text \<open>A look at the stop channel; \<open>stop\<close> says when it is closed.\<close>

definition poll :: "(nat \<Rightarrow> bool) \<Rightarrow> ('db, bool) M" where
  "poll stop w = (Inr (stop (tick w)), bump w)"

text \<open>The loop of \<open>cleanup\<close>; the result says whether it came to its end within the fuel.\<close>

fun cleanupLoop :: "nat \<Rightarrow> (nat \<Rightarrow> bool) \<Rightarrow> int \<Rightarrow> int \<Rightarrow> (message_db, bool) M" where
  "cleanupLoop 0 stop t batchSize = returnE False"
| "cleanupLoop (Suc fuel) stop t batchSize =
     bindE (poll stop) (\<lambda>stopped.
     if stopped then returnE True
     else
     bindE (attemptE (messageRepo_GetExpiredMessages t batchSize)) (\<lambda>r.
     case r of
       None \<Rightarrow> returnE True
     | Some ms \<Rightarrow>
         if ms = [] then returnE True
         else
         bindE (attemptE (messageRepo_BatchUpdateStatus (map m_MessageID ms) 2)) (\<lambda>u.
         case u of
           None \<Rightarrow> returnE True
         | Some _ \<Rightarrow>
             thenE (forE [''auto_delete'', ''burn_after_reading'', ''both''] (\<lambda>reason.
               let ids = map m_MessageID (filter (\<lambda>m. inferDeleteReason m = reason) ms) in
               if ids = [] then returnE () else worker_publishNotification ids reason))
             (cleanupLoop fuel stop t batchSize))))"

definition cleanup :: "nat \<Rightarrow> (nat \<Rightarrow> bool) \<Rightarrow> int \<Rightarrow> (message_db, bool) M" where
  "cleanup fuel stop batchSize = bindE now (\<lambda>t. cleanupLoop fuel stop t batchSize)"

end
