(* ===== verification/Message.thy ===== *)
theory Message
  imports Message_Service
begin

text \<open>
  Invariants of the message service.  \<open>send_inv\<close> is what sending keeps: the messages of a conversation
  are numbered without gaps in the order of sending, and the messages correspond one to one to the
  idempotency records.  Everything else the service does leaves the identity of a message alone.
\<close>

subsection \<open>Steps\<close>

datatype message_op =
    OpSendMessage string SendMessageRequest
  | OpSendTyping string string bool int string
  | OpRecallMessage string string
  | OpDeleteMessage string string
  | OpMarkAsRead string string "int option"
  | OpMarkMessagesRead string string "string list"
  | OpAckReadTriggers string "string list"
  | OpCleanup nat "nat \<Rightarrow> bool" int

fun message_step :: "messageServiceImpl \<Rightarrow> message_op \<Rightarrow> (message_db, unit) M" where
  "message_step s (OpSendMessage u req) = void (SendMessage s u req)"
| "message_step s (OpSendTyping u c b t d) = SendTyping s u c b t d"
| "message_step s (OpRecallMessage m u) = RecallMessage s m u"
| "message_step s (OpDeleteMessage m u) = DeleteMessage s m u"
| "message_step s (OpMarkAsRead u c q) = MarkAsRead s u c q"
| "message_step s (OpMarkMessagesRead u c ms) = void (MarkMessagesRead s u c ms)"
| "message_step s (OpAckReadTriggers u es) = void (AckReadTriggers u es)"
| "message_step s (OpCleanup fuel stop n) = void (cleanup fuel stop n)"

lemma keeps_orE [keeps_intros]: "keeps I m \<Longrightarrow> keeps I (orE m e)"
  by (simp add: orE_def keeps_intros)

lemma wp_orE [wp_simps]:
  "wp (orE m e) Q E w = wp m Q (\<lambda>x w'. case x of Panicked p \<Rightarrow> E (Panicked p) w' | _ \<Rightarrow> E e w') w"
  by (simp add: wp_def orE_def catchE_def throwE_def split: sum.splits prod.splits err.splits)

lemma wp_total:
  assumes "wp m Q (\<lambda>_ _. False) w"
  shows "\<exists>a w'. m w = (Inr a, w') \<and> Q a w'"
  using assms by (cases "fst (m w)"; cases "m w") (auto simp: wp_def)

lemma wp_anyE: "wp m Q E w \<Longrightarrow> wp m Q (\<lambda>_ _. True) w"
  by (erule wp_mono) simp_all

lemma wp_orE_any:
  assumes "wp m Q (\<lambda>_. E) w"
  shows "wp (orE m e) Q (\<lambda>_. E) w"
  unfolding wp_orE by (rule wp_mono[OF assms]) (simp_all split: err.split)

text \<open>Why a send with a new key can fail: the infrastructure, or a clash of message identifiers.\<close>

definition unlucky :: "Message list \<Rightarrow> message_db world \<Rightarrow> bool" where
  "unlucky ms w = (\<not> healthy w \<or> (\<exists>n. uuid_chars (uuid w n) \<in> m_MessageID ` set ms))"

lemma unlucky_updates [simp]:
  "unlucky ms (bump w) = unlucky ms w" "unlucky ms (w\<lparr>db := d\<rparr>) = unlucky ms w"
  "unlucky ms (w\<lparr>serial := sq\<rparr>) = unlucky ms w" "fault w n = Some x \<Longrightarrow> unlucky ms w"
  by (auto simp: unlucky_def healthy_def)

subsection \<open>Steps that leave the tables alone\<close>

lemma keeps_brokerE [keeps_intros]: "keeps I m \<Longrightarrow> keeps I (brokerE s m)"
  by (simp add: brokerE_def keeps_intros)

lemma keeps_memberPages [keeps_intros]: "keeps I (memberPages cl u g ex fuel page seen)"
  by (induction cl u g ex fuel page seen rule: memberPages.induct)
     (auto simp: Let_def intro!: keeps_intros)

lemma keeps_listGroupMemberIDs [keeps_intros]: "keeps I (listGroupMemberIDs s u g ex)"
  unfolding listGroupMemberIDs_def by (intro keeps_intros)

lemma keeps_message_publish [keeps_intros]:
  "keeps I (publishToParties s m u n)" "keeps I (publishNewMessageNotification s m)"
  "keeps I (publishMentionNotification s m)" "keeps I (publishReadReceiptNotification s r)"
  "keeps I (publishTypingNotification s a b c d e f)"
  unfolding publishToParties_def publishNewMessageNotification_def publishMentionNotification_def
    publishReadReceiptNotification_def publishTypingNotification_def Let_def
  by (intro keeps_intros)+

lemma keeps_message_publish2 [keeps_intros]:
  "keeps I (publishRecallNotification s m u)" "keeps I (publishDeleteNotification s m u)"
  unfolding publishRecallNotification_def publishDeleteNotification_def by (intro keeps_intros)+

lemma keeps_getConversation [keeps_intros]: "keeps I (getConversation s c)"
  unfolding getConversation_def by (intro keeps_intros)

lemma keeps_access [keeps_intros]:
  "keeps I (authorizeSend s u c)" "keeps I (ensureConversationAccessible s u c)" "keeps I (resolveTypingTTL s t)"
  unfolding authorizeSend_def ensureConversationAccessible_def resolveTypingTTL_def Let_def
  by (intro keeps_intros)+

lemma keeps_message_reads [keeps_intros]:
  "keeps I (messageRepo_GetByMessageID i)" "keeps I (ownMessage i u x)" "keeps I (readReceipt c u x)"
  "keeps I (messageRepo_GetExpiredMessages t n)" "keeps I (autoUnpinRecalledGroupMessage s m)"
  unfolding messageRepo_GetByMessageID_def ownMessage_def readReceipt_def readReceiptRepo_GetByConversationAndUser_def
    messageRepo_GetExpiredMessages_def autoUnpinRecalledGroupMessage_def
  by (intro keeps_intros)+

lemma keeps_poll [keeps_intros]: "keeps I (poll f)"
  by (simp add: keeps_def poll_def)

lemma wp_poll [wp_simps]: "wp (poll f) Q E w = Q (f (tick w)) (bump w)"
  by (simp add: wp_def poll_def)

lemma keeps_worker_publish [keeps_intros]: "keeps I (worker_publishNotification ids r)"
  unfolding worker_publishNotification_def by (intro keeps_intros)

subsection \<open>Conversation sequences\<close>

interpretation seq_table: keyed_table cs_ConversationID "insert_unique cs_ConversationID"
    "\<lambda>c. first_where (\<lambda>s. cs_ConversationID s = c) cs_ID"
  by (rule keyed_table_insert_unique)

definition current_seq :: "ConversationSequence list \<Rightarrow> string \<Rightarrow> int" where
  "current_seq rows c = (case first_where (\<lambda>s. cs_ConversationID s = c) cs_ID rows of
     None \<Rightarrow> 0 | Some s \<Rightarrow> cs_CurrentSeq s)"

lemma current_seq_row:
  assumes "uniq cs_ConversationID rows" "s \<in> set rows"
  shows "current_seq rows (cs_ConversationID s) = cs_CurrentSeq s"
proof -
  have "first_where (\<lambda>x. cs_ConversationID x = cs_ConversationID s) cs_ID rows = Some s"
    using assms by (rule first_where_unique) simp
  then show ?thesis by (simp add: current_seq_def)
qed

lemma current_seq_none: "c \<notin> cs_ConversationID ` set rows \<Longrightarrow> current_seq rows c = 0"
  by (auto simp: current_seq_def dest!: first_where_SomeD split: option.split)

lemma current_seq_insert:
  assumes "insert_unique cs_ConversationID s rows = Some rows'" "uniq cs_ConversationID rows" "cs_CurrentSeq s = 0"
  shows "current_seq rows' = current_seq rows"
proof
  fix c
  show "current_seq rows' c = current_seq rows c"
  proof (cases "c = cs_ConversationID s")
    case True
    then show ?thesis using seq_table.get_after_ins[OF assms(1,2)] assms(1,3) current_seq_none[of c rows]
      by (auto simp: current_seq_def insert_unique_Some)
  next
    case False
    then show ?thesis using seq_table.get_after_ins_other[OF assms(1,2) False] by (simp add: current_seq_def)
  qed
qed

lemma current_seq_increment:
  assumes "uniq cs_ConversationID rows" "c \<in> cs_ConversationID ` set rows"
  shows "current_seq (update_where (\<lambda>s. cs_ConversationID s = c) (\<lambda>s. s\<lparr>cs_CurrentSeq := cs_CurrentSeq s + 1\<rparr>) rows) =
     (current_seq rows)(c := current_seq rows c + 1)" (is "current_seq ?rows = _")
proof
  fix x
  have un: "uniq cs_ConversationID ?rows" using assms(1) by (simp add: uniq_update_where)
  show "current_seq ?rows x = ((current_seq rows)(c := current_seq rows c + 1)) x"
  proof (cases "x \<in> cs_ConversationID ` set rows")
    case True
    then obtain s where s: "s \<in> set rows" "cs_ConversationID s = x" by auto
    let ?s = "if cs_ConversationID s = c then s\<lparr>cs_CurrentSeq := cs_CurrentSeq s + 1\<rparr> else s"
    have "?s \<in> set ?rows" using s(1) by (simp add: set_update_where)
    then show ?thesis using current_seq_row[OF un] current_seq_row[OF assms(1) s(1)] s(2)
      by (fastforce split: if_splits)
  next
    case False
    then have "x \<notin> cs_ConversationID ` set ?rows" by (simp add: image_update_where)
    then show ?thesis using False assms(2) by (auto simp: current_seq_none)
  qed
qed

lemma wp_GetOrCreate:
  assumes un: "uniq cs_ConversationID (conversation_sequences (db w))"
    and post: "\<And>rows w'. db w' = (db w)\<lparr>conversation_sequences := rows\<rparr> \<Longrightarrow> uniq cs_ConversationID rows \<Longrightarrow>
       c \<in> cs_ConversationID ` set rows \<Longrightarrow> current_seq rows = current_seq (conversation_sequences (db w)) \<Longrightarrow> Q () w'"
  shows "wp (sequenceRepo_GetOrCreate c) Q (\<lambda>_. unlucky ms) w"
proof -
  let ?rows = "conversation_sequences (db w)"
  have old: "Q () w'" if "first_where (\<lambda>s. cs_ConversationID s = c) cs_ID ?rows = Some s" "db w' = db w" for s w'
    using first_where_SomeD[OF that(1)] that(2) un by (intro post[of _ ?rows]) auto
  have new: "Q () w'" if "insert_unique cs_ConversationID \<lparr>cs_ID = i, cs_ConversationID = c, cs_CurrentSeq = 0,
      cs_CreatedAt = t, cs_UpdatedAt = t\<rparr> ?rows = Some rows" "db w' = (db w)\<lparr>conversation_sequences := rows\<rparr>" for i t rows w'
    using that insert_unique_uniq[OF that(1) un] current_seq_insert[OF that(1) un]
    by (intro post[of _ rows]) (auto simp: insert_unique_Some)
  have none: "insert_unique cs_ConversationID \<lparr>cs_ID = i, cs_ConversationID = c, cs_CurrentSeq = 0, cs_CreatedAt = t,
      cs_UpdatedAt = t\<rparr> ?rows \<noteq> None" if "first_where (\<lambda>s. cs_ConversationID s = c) cs_ID ?rows = None" for i t
    using that by (auto simp: first_where_None insert_unique_None)
  show ?thesis
    apply (simp only: sequenceRepo_GetOrCreate_def find_sequence_def wp_simps exec_simps)
    apply (auto split: option.split simp: wp_simps none elim: old new)
    done
qed

lemma wp_IncrementAndGet:
  assumes un: "uniq cs_ConversationID (conversation_sequences (db w))"
    and post: "\<And>rows w'. db w' = (db w)\<lparr>conversation_sequences := rows\<rparr> \<Longrightarrow> uniq cs_ConversationID rows \<Longrightarrow>
       current_seq rows = (current_seq (conversation_sequences (db w)))(c := current_seq (conversation_sequences (db w)) c + 1) \<Longrightarrow>
       Q (current_seq (conversation_sequences (db w)) c + 1) w'"
  shows "wp (sequenceRepo_IncrementAndGet c) Q (\<lambda>_. unlucky ms) w"
proof -
  let ?inc = "update_where (\<lambda>s. cs_ConversationID s = c) (\<lambda>s. s\<lparr>cs_CurrentSeq := cs_CurrentSeq s + 1\<rparr>)"
  have fin: "Q (cs_CurrentSeq s) w'"
    if "first_where (\<lambda>s. cs_ConversationID s = c) cs_ID (?inc rows) = Some s" "uniq cs_ConversationID rows"
      "c \<in> cs_ConversationID ` set rows" "current_seq rows = current_seq (conversation_sequences (db w))"
      "db w' = (db w)\<lparr>conversation_sequences := ?inc rows\<rparr>" for rows w' s
  proof -
    have "cs_CurrentSeq s = current_seq (?inc rows) c" using that(1) by (simp add: current_seq_def)
    then show ?thesis using post[OF that(5)] current_seq_increment[OF that(2,3)] that(2,4)
      by (simp add: uniq_update_where)
  qed
  have some: "\<exists>s. first_where (\<lambda>s. cs_ConversationID s = c) cs_ID (?inc rows) = Some s"
    if c: "c \<in> cs_ConversationID ` set rows" for rows
  proof -
    obtain x where x: "x \<in> set rows" "cs_ConversationID x = c" using c by auto
    let ?x = "x\<lparr>cs_CurrentSeq := cs_CurrentSeq x + 1\<rparr>"
    have "?x \<in> set (?inc rows)" using x by (force simp: set_update_where)
    moreover have "cs_ConversationID ?x = c" using x(2) by simp
    ultimately have "first_where (\<lambda>s. cs_ConversationID s = c) cs_ID (?inc rows) \<noteq> None"
      unfolding first_where_None by blast
    then show ?thesis by simp
  qed
  show ?thesis
    unfolding sequenceRepo_IncrementAndGet_def wp_then
  proof (rule wp_GetOrCreate[OF un], goal_cases)
    case (1 rows w')
    obtain s where s: "first_where (\<lambda>s. cs_ConversationID s = c) cs_ID (?inc rows) = Some s"
      using some[OF 1(3)] by blast
    show ?case
      using 1 s by (simp add: find_sequence_def wp_simps fin[OF s] split: option.split)
  qed
qed


subsection \<open>What sending keeps\<close>

definition sent_seqs :: "message_db \<Rightarrow> string \<Rightarrow> int list" where
  "sent_seqs d c = map m_Sequence (filter (\<lambda>m. m_ConversationID m = c) (messages d))"

definition seq_inv :: "message_db \<Rightarrow> bool" where
  "seq_inv d = (uniq cs_ConversationID (conversation_sequences d) \<and>
     (\<forall>c. 0 \<le> current_seq (conversation_sequences d) c \<and>
          sent_seqs d c = [1..current_seq (conversation_sequences d) c]))"

definition once_inv :: "message_db \<Rightarrow> bool" where
  "once_inv d = (uniq send_key (message_send_idempotency d) \<and> uniq m_MessageID (messages d) \<and>
     (\<forall>r \<in> set (message_send_idempotency d). si_MessageID r \<noteq> '''') \<and>
     map (\<lambda>r. (si_MessageID r, si_SenderID r, si_ConversationID r)) (message_send_idempotency d) =
       map (\<lambda>m. (m_MessageID m, m_SenderID m, m_ConversationID m)) (messages d))"

definition send_inv :: "message_db \<Rightarrow> bool" where
  "send_inv d = (seq_inv d \<and> once_inv d)"

lemma message_by_id:
  "send_inv d \<Longrightarrow> m \<in> set (messages d) \<Longrightarrow> m' \<in> set (messages d) \<Longrightarrow> m_MessageID m' = m_MessageID m \<Longrightarrow> m' = m"
  by (auto simp: send_inv_def once_inv_def uniq_def distinct_map inj_on_def)

lemma message_id_nonempty:
  assumes "send_inv d" "m \<in> set (messages d)"
  shows "m_MessageID m \<noteq> ''''"
proof -
  have "map (\<lambda>r. (si_MessageID r, si_SenderID r, si_ConversationID r)) (message_send_idempotency d) =
      map (\<lambda>m. (m_MessageID m, m_SenderID m, m_ConversationID m)) (messages d)"
    using assms(1) by (simp add: send_inv_def once_inv_def)
  from arg_cong[OF this, of "map fst"]
  have "map si_MessageID (message_send_idempotency d) = map m_MessageID (messages d)" by (simp add: comp_def)
  then have "m_MessageID m \<in> si_MessageID ` set (message_send_idempotency d)"
    using assms(2) by (metis imageI list.set_map)
  then show ?thesis using assms(1) by (auto simp: send_inv_def once_inv_def)
qed

definition same_identity :: "Message \<Rightarrow> Message \<Rightarrow> bool" where
  "same_identity m m' = (m_MessageID m' = m_MessageID m \<and> m_SenderID m' = m_SenderID m \<and>
     m_ConversationID m' = m_ConversationID m \<and> m_Sequence m' = m_Sequence m)"

lemma send_inv_messages:
  assumes "send_inv d" "\<And>m. same_identity m (f m)"
  shows "send_inv (d\<lparr>messages := update_where p f (messages d)\<rparr>)"
proof -
  have "map m_Sequence (filter (\<lambda>m. m_ConversationID m = c) (update_where p f ms)) =
      map m_Sequence (filter (\<lambda>m. m_ConversationID m = c) ms)" for c ms
    using assms(2) by (induction ms) (auto simp: update_where_def same_identity_def)
  moreover have "map (\<lambda>m. (m_MessageID m, m_SenderID m, m_ConversationID m)) (update_where p f ms) =
      map (\<lambda>m. (m_MessageID m, m_SenderID m, m_ConversationID m)) ms" for ms
    using assms(2) by (intro map_update_where_same) (simp add: same_identity_def)
  ultimately show ?thesis using assms
    by (simp add: send_inv_def seq_inv_def once_inv_def sent_seqs_def uniq_update_where same_identity_def)
qed

lemma send_inv_other [simp]:
  "send_inv (d\<lparr>message_read_receipts := rs\<rparr>) = send_inv d" "send_inv (d\<lparr>typing_cache := tc\<rparr>) = send_inv d"
  by (simp_all add: send_inv_def seq_inv_def once_inv_def sent_seqs_def)

lemma update_where_append_last:
  "(\<forall>x \<in> set xs. \<not> p x) \<Longrightarrow> p y \<Longrightarrow> update_where p f (xs @ [y]) = xs @ [f y]"
  by (simp add: update_where_def map_idI)

text \<open>A committed transaction of a new message.\<close>

lemma send_inv_new:
  assumes inv: "send_inv d" and key: "send_key r \<notin> send_key ` set (message_send_idempotency d)"
    and seqs: "uniq cs_ConversationID rows"
      "current_seq rows = (current_seq (conversation_sequences d))(c := current_seq (conversation_sequences d) c + 1)"
    and m: "m_Sequence m = current_seq (conversation_sequences d) c + 1" "m_ConversationID m = c"
      "m_MessageID m \<notin> m_MessageID ` set (messages d)" "m_MessageID m \<noteq> ''''"
    and r: "si_SenderID r = m_SenderID m" "si_ConversationID r = c"
  shows "send_inv (d\<lparr>conversation_sequences := rows, messages := messages d @ [m],
     message_send_idempotency := update_where (\<lambda>x. send_key x = send_key r)
       (\<lambda>x. x\<lparr>si_MessageID := m_MessageID m, si_UpdatedAt := t\<rparr>) (message_send_idempotency d @ [r])\<rparr>)"
    (is "send_inv ?d")
proof -
  let ?cur = "current_seq (conversation_sequences d)"
  have old: "\<forall>x \<in> set (message_send_idempotency d). send_key x \<noteq> send_key r" using key by (metis imageI)
  have idem: "message_send_idempotency ?d =
      message_send_idempotency d @ [r\<lparr>si_MessageID := m_MessageID m, si_UpdatedAt := t\<rparr>]"
    using old by (simp add: update_where_append_last)
  have grow: "[1..?cur c + 1] = [1..?cur c] @ [?cur c + 1]"
    using upto_rec2[of 1 "?cur c + 1"] inv by (simp add: send_inv_def seq_inv_def)
  have s: "seq_inv ?d"
    using inv seqs m grow by (auto simp: send_inv_def seq_inv_def sent_seqs_def)
  have o: "once_inv ?d"
    using inv key m r unfolding once_inv_def idem send_inv_def
    by (auto simp: uniq_def send_key_def)
  show ?thesis using s o by (simp add: send_inv_def)
qed


definition fresh_record :: "string \<Rightarrow> SendMessageRequest \<Rightarrow> int \<Rightarrow> int \<Rightarrow> MessageSendIdempotency" where
  "fresh_record u req i t = \<lparr>si_ID = i, si_SenderID = u, si_ConversationID = sm_ConversationId req,
     si_LocalID = sm_LocalId req, si_MessageID = '''', si_CreatedAt = t, si_UpdatedAt = t\<rparr>"

lemma fresh_record_simps [simp]:
  "si_SenderID (fresh_record u req i t) = u" "si_ConversationID (fresh_record u req i t) = sm_ConversationId req"
  "si_MessageID (fresh_record u req i t) = ''''"
  "send_key (fresh_record u req i t) = (u, sm_ConversationId req, sm_LocalId req)"
  by (simp_all add: fresh_record_def send_key_def)

lemma newMessage_simps [simp]:
  "m_MessageID (newMessage u cv req q i t) = i" "m_SenderID (newMessage u cv req q i t) = u"
  "m_ConversationID (newMessage u cv req q i t) = sm_ConversationId req" "m_Sequence (newMessage u cv req q i t) = q"
  "m_Status (newMessage u cv req q i t) = 0" "m_ConversationType (newMessage u cv req q i t) = cv_ConversationType cv"
  "m_TargetID (newMessage u cv req q i t) = cv_TargetId cv" "m_AtUsers (newMessage u cv req q i t) = sm_AtUsers req"
  by (simp_all add: newMessage_def Let_def)

text \<open>Claiming the idempotency key: the record found is the old one, bound to a message, or the fresh
  one.\<close>

lemma wp_claim:
  assumes inv: "once_inv (db w)"
    and old: "\<And>r w'. r \<in> set (message_send_idempotency (db w)) \<Longrightarrow> send_key r = (u, sm_ConversationId req, sm_LocalId req) \<Longrightarrow>
      si_MessageID r \<noteq> '''' \<Longrightarrow> db w' = db w \<Longrightarrow> Q r w'"
    and new: "\<And>i t w'. (u, sm_ConversationId req, sm_LocalId req) \<notin> send_key ` set (message_send_idempotency (db w)) \<Longrightarrow>
      db w' = (db w)\<lparr>message_send_idempotency := message_send_idempotency (db w) @ [fresh_record u req i t]\<rparr> \<Longrightarrow>
      Q (fresh_record u req i t) w'"
    and err: "\<And>e w'. unlucky ms w' \<Longrightarrow> E e w'"
  shows "wp (thenE (sendIdempotencyRepo_CreateIfNotExists \<lparr>si_ID = 0, si_SenderID = u,
       si_ConversationID = sm_ConversationId req, si_LocalID = sm_LocalId req, si_MessageID = '''',
       si_CreatedAt = 0, si_UpdatedAt = 0\<rparr>)
     (sendIdempotencyRepo_GetForUpdateByKey u (sm_ConversationId req) (sm_LocalId req))) Q E w"
proof -
  let ?k = "(u, sm_ConversationId req, sm_LocalId req)" and ?rows = "message_send_idempotency (db w)"
  have un: "uniq send_key ?rows" using inv by (simp add: once_inv_def)
  have o: "Q r w'" if "first_where (\<lambda>r. send_key r = ?k) si_ID ?rows = Some r" "db w' = db w" for r w'
    using first_where_SomeD[OF that(1)] that(2) inv by (intro old) (auto simp: once_inv_def)
  have ins: "insert_unique send_key (fresh_record u req i t) ?rows =
      (if ?k \<in> send_key ` set ?rows then None else Some (?rows @ [fresh_record u req i t]))" for i t
    by (auto simp: insert_unique_def has_key_iff)
  have found: "first_where (\<lambda>r. send_key r = ?k) si_ID (?rows @ [fresh_record u req i t]) = Some (fresh_record u req i t)"
    if "?k \<notin> send_key ` set ?rows" for i t
  proof (rule first_where_unique)
    show "uniq send_key (?rows @ [fresh_record u req i t])" using un that by (simp add: uniq_def)
  qed auto
  have fr: "\<lparr>si_ID = 0, si_SenderID = u, si_ConversationID = sm_ConversationId req, si_LocalID = sm_LocalId req,
      si_MessageID = '''', si_CreatedAt = 0, si_UpdatedAt = 0\<rparr> = fresh_record u req 0 0"
    "(fresh_record u req 0 0)\<lparr>si_ID := i, si_CreatedAt := t, si_UpdatedAt := t\<rparr> = fresh_record u req i t" for i t
    by (simp_all add: fresh_record_def)
  have some: "first_where (\<lambda>r. send_key r = ?k) si_ID ?rows \<noteq> None" if "?k \<in> send_key ` set ?rows"
    using that by (auto simp: first_where_None image_iff)
  show ?thesis
    apply (simp only: sendIdempotencyRepo_CreateIfNotExists_def sendIdempotencyRepo_GetForUpdateByKey_def wp_simps exec_simps
      fr ins)
    apply (cases "?k \<in> send_key ` set ?rows")
    apply (simp_all split: option.split add: ins o found new some err)
    done
qed


lemma wp_messageRepo_Create:
  assumes "\<And>i w'. m_MessageID m \<notin> m_MessageID ` set (messages (db w)) \<Longrightarrow>
      db w' = (db w)\<lparr>messages := messages (db w) @ [m\<lparr>m_ID := i\<rparr>]\<rparr> \<Longrightarrow> Q (m\<lparr>m_ID := i\<rparr>) w'"
    and "conv_seq m \<notin> conv_seq ` set (messages (db w))"
    and "m_MessageID m \<in> m_MessageID ` set (messages (db w)) \<Longrightarrow> unlucky ms w"
  shows "wp (messageRepo_Create m) Q (\<lambda>_. unlucky ms) w"
proof (cases "m_MessageID m \<in> m_MessageID ` set (messages (db w))")
  case True
  then have "insert_unique m_MessageID (m\<lparr>m_ID := i\<rparr>) (messages (db w)) = None" for i
    by (simp add: insert_unique_None)
  then show ?thesis
    using assms(2,3) True by (simp add: messageRepo_Create_def wp_simps has_key_iff split: option.split)
next
  case False
  then have "insert_unique m_MessageID (m\<lparr>m_ID := i\<rparr>) (messages (db w)) = Some (messages (db w) @ [m\<lparr>m_ID := i\<rparr>])" for i
    by (simp add: insert_unique_Some)
  then show ?thesis
    using assms(1,2) False by (simp add: messageRepo_Create_def wp_simps has_key_iff split: option.split)
qed

text \<open>The next number of a conversation is free.\<close>

lemma next_seq_free:
  assumes "seq_inv d" "m_ConversationID m = c" "m_Sequence m = current_seq (conversation_sequences d) c + 1"
  shows "conv_seq m \<notin> conv_seq ` set (messages d)"
proof
  assume "conv_seq m \<in> conv_seq ` set (messages d)"
  then have "m_Sequence m \<in> set (sent_seqs d c)" using assms(2) by (auto simp: conv_seq_def sent_seqs_def)
  then show False using assms(1,3) by (simp add: seq_inv_def)
qed

lemma wp_createMessage:
  assumes inv: "send_inv d" and k: "(u, sm_ConversationId req, sm_LocalId req) \<notin> send_key ` set (message_send_idempotency d)"
    and w: "db w = d\<lparr>message_send_idempotency := message_send_idempotency d @ [fresh_record u req n t0]\<rparr>"
    and new: "\<And>q i t j r w'. q = current_seq (conversation_sequences d) (sm_ConversationId req) + 1 \<Longrightarrow> send_inv (db w') \<Longrightarrow>
      send_key r = (u, sm_ConversationId req, sm_LocalId req) \<Longrightarrow> si_MessageID r = i \<Longrightarrow>
      message_send_idempotency (db w') = message_send_idempotency d @ [r] \<Longrightarrow>
      messages (db w') = messages d @ [(newMessage u cv req q i t)\<lparr>m_ID := j\<rparr>] \<Longrightarrow>
      message_read_receipts (db w') = message_read_receipts d \<Longrightarrow> Q ((newMessage u cv req q i t)\<lparr>m_ID := j\<rparr>, True) w'"
  shows "wp (createMessage u cv req) Q (\<lambda>_. unlucky (messages d)) w"
proof -
  let ?c = "sm_ConversationId req" and ?k = "(u, sm_ConversationId req, sm_LocalId req)"
  let ?m = "\<lambda>q i t j. (newMessage u cv req q i t)\<lparr>m_ID := j\<rparr>"
  have m_ID_keeps: "m_MessageID (m\<lparr>m_ID := j\<rparr>) = m_MessageID m" for m :: Message and j by simp
  have seqs: "uniq cs_ConversationID (conversation_sequences (db w))" using inv w by (simp add: send_inv_def seq_inv_def)
  have fin: "wp (sendIdempotencyRepo_BindMessageID u ?c (sm_LocalId req) i)
      (\<lambda>_. wp (returnE (?m q i t j, True)) Q (\<lambda>_. unlucky (messages d))) (\<lambda>_. unlucky (messages d)) w'"
    if rows: "uniq cs_ConversationID rows"
        "current_seq rows = (current_seq (conversation_sequences d))(?c := current_seq (conversation_sequences d) ?c + 1)"
      and q: "q = current_seq (conversation_sequences d) ?c + 1" and i: "i \<noteq> ''''" "i \<notin> m_MessageID ` set (messages d)"
      and w': "db w' = d\<lparr>message_send_idempotency := message_send_idempotency d @ [fresh_record u req n t0],
         conversation_sequences := rows, messages := messages d @ [?m q i t j]\<rparr>"
    for q i t j rows w'
  proof -
    have "send_inv (d\<lparr>conversation_sequences := rows, messages := messages d @ [?m q i t j],
      message_send_idempotency := update_where (\<lambda>x. send_key x = ?k) (\<lambda>x. x\<lparr>si_MessageID := i, si_UpdatedAt := t'\<rparr>)
        (message_send_idempotency d @ [fresh_record u req n t0])\<rparr>)" for t'
      using send_inv_new[OF inv, of "fresh_record u req n t0" rows ?c "?m q i t j" t'] k rows q i by simp
    moreover have "update_where (\<lambda>x. send_key x = ?k) f (message_send_idempotency d @ [fresh_record u req n t0]) =
        message_send_idempotency d @ [f (fresh_record u req n t0)]" for f
      using k by (intro update_where_append_last) (auto simp: image_iff)
    ultimately show ?thesis
      using q by (simp only: sendIdempotencyRepo_BindMessageID_def wp_simps exec_simps w')
        (auto split: option.split simp: send_key_def fresh_record_def intro!: new)
  qed
  show ?thesis
    unfolding createMessage_def wp_bind
  proof (rule wp_orE_any, rule wp_IncrementAndGet[OF seqs], goal_cases)
    case (1 rows w1)
    let ?n = "newMessage u cv req (current_seq (conversation_sequences (db w)) ?c + 1) (uuid_chars (uuid (bump w1) (tick (bump w1))))
      (clock w1 (tick w1))"
    have free: "conv_seq ?n \<notin> conv_seq ` set (messages (db (bump (bump w1))))"
      using next_seq_free[of d ?n ?c] inv 1 w by (simp add: send_inv_def)
    show ?case
      unfolding wp_bind wp_now wp_new_uuid
      apply (rule wp_orE_any, rule wp_messageRepo_Create)
      apply (unfold wp_then m_ID_keeps newMessage_simps, rule fin[of rows])
      apply (use 1 w in simp_all)
      apply (use free 1 w in \<open>simp_all add: unlucky_def\<close>)
      apply blast
      done
  qed
qed

lemma wp_sendBody_fresh:
  assumes inv: "send_inv (db w)"
    and hit: "\<And>r m w'. r \<in> set (message_send_idempotency (db w)) \<Longrightarrow>
      send_key r = (u, sm_ConversationId req, sm_LocalId req) \<Longrightarrow>
      m \<in> set (messages (db w)) \<Longrightarrow> m_MessageID m = si_MessageID r \<Longrightarrow> db w' = db w \<Longrightarrow> Q (m, False) w'"
    and new: "\<And>q i t j r w'. (u, sm_ConversationId req, sm_LocalId req) \<notin> send_key ` set (message_send_idempotency (db w)) \<Longrightarrow>
      q = current_seq (conversation_sequences (db w)) (sm_ConversationId req) + 1 \<Longrightarrow> send_inv (db w') \<Longrightarrow>
      send_key r = (u, sm_ConversationId req, sm_LocalId req) \<Longrightarrow> si_MessageID r = i \<Longrightarrow>
      message_send_idempotency (db w') = message_send_idempotency (db w) @ [r] \<Longrightarrow>
      messages (db w') = messages (db w) @ [(newMessage u cv req q i t)\<lparr>m_ID := j\<rparr>] \<Longrightarrow>
      message_read_receipts (db w') = message_read_receipts (db w) \<Longrightarrow>
      Q ((newMessage u cv req q i t)\<lparr>m_ID := j\<rparr>, True) w'"
  shows "wp (sendBody u cv req) Q (\<lambda>_ w'. (u, sm_ConversationId req, sm_LocalId req) \<notin>
      send_key ` set (message_send_idempotency (db w)) \<longrightarrow> unlucky (messages (db w)) w') w"
proof -
  let ?k = "(u, sm_ConversationId req, sm_LocalId req)"
  have hit': "Q (m, False) w'" if "first_where (\<lambda>m. m_MessageID m = si_MessageID r \<and> m_Status m \<noteq> 2) m_ID (messages (db w)) = Some m"
    "r \<in> set (message_send_idempotency (db w))" "send_key r = ?k" "db w' = db w" for r m w'
    using first_where_SomeD[OF that(1)] that by (intro hit) auto
  have split: "wp (thenE A (bindE B k)) Q E w = wp (thenE A B) (\<lambda>r. wp (k r) Q E) E w"
    for A :: "(message_db, unit) M" and B :: "(message_db, MessageSendIdempotency) M" and k E
    by (simp add: wp_def thenE_def bindE_def split: prod.splits sum.splits)
  show ?thesis
    unfolding sendBody_def split
  proof (rule wp_claim[where ms = "messages (db w)"], goal_cases)
    case 1 show ?case using inv by (simp add: send_inv_def)
  next
    case (2 r w')
    then have "(u, sm_ConversationId req, sm_LocalId req) \<in> send_key ` set (message_send_idempotency (db w))"
      by (metis imageI)
    then show ?case using 2 by (simp add: messageRepo_GetByMessageID_def wp_simps split: option.split) (auto elim: hit')
  next
    case (3 n t0 w')
    have "wp (createMessage u cv req) Q (\<lambda>_. unlucky (messages (db w))) w'"
      by (intro wp_createMessage[OF inv 3] new[OF 3(1)])
    then show ?case by simp (erule wp_mono, simp_all)
  next
    case (4 e w') then show ?case by simp
  qed
qed

lemmas wp_sendBody = wp_anyE[OF wp_sendBody_fresh]

subsection \<open>Properties of what has been sent\<close>

text \<open>A property of the tables that depends on the messages only through their identity and not at
  all on receipts and typing state, and that the send transaction keeps, is kept by the whole
  service.\<close>

lemma same_identity_refl [simp]: "same_identity m m"
  by (simp add: same_identity_def)

lemma burnUpdate_same_identity: "burnUpdate t x = Some f \<Longrightarrow> same_identity m (f m)"
  by (auto simp: burnUpdate_def same_identity_def Let_def split: if_splits)

locale sent_property =
  fixes I :: "message_db \<Rightarrow> bool"
  assumes by_identity: "I d \<Longrightarrow> (\<And>m. same_identity m (f m)) \<Longrightarrow> I (d\<lparr>messages := update_where p f (messages d)\<rparr>)"
    and not_receipts: "I (d\<lparr>message_read_receipts := rs\<rparr>) = I d"
    and not_typing: "I (d\<lparr>typing_cache := tc\<rparr>) = I d"
    and sendBody: "I (db w) \<Longrightarrow> wp (sendBody u cv req) (\<lambda>_ w'. I (db w')) (\<lambda>_ _. True) w"
begin

lemma keeps_SendMessage [keeps_intros]: "keeps I (SendMessage s u req)"
  unfolding SendMessage_def announce_def by (intro keeps_intros keeps_transaction sendBody)

lemma keeps_update_messages:
  "(\<And>m. same_identity m (f m)) \<Longrightarrow> keeps I (modify (\<lambda>d. d\<lparr>messages := update_where p f (messages d)\<rparr>))"
  by (rule keeps_modify, rule by_identity)

lemma keeps_message_writes [keeps_intros]:
  "keeps I (messageRepo_UpdateStatus i st)" "keeps I (messageRepo_Delete i)"
  "keeps I (messageRepo_BatchUpdateStatus ids st)"
  unfolding messageRepo_UpdateStatus_def messageRepo_Delete_def messageRepo_BatchUpdateStatus_def
  by (intro keeps_intros keeps_update_messages; simp add: same_identity_def)+

lemma keeps_other_writes [keeps_intros]:
  "keeps I (readReceiptRepo_Upsert r)" "keeps I (typingRepo_SetState c u t)"
  "keeps I (typingRepo_ClearState c u)" "keeps I (typingRepo_AcquireEmitToken c u t)"
  unfolding readReceiptRepo_Upsert_def typingRepo_SetState_def typingRepo_ClearState_def typingRepo_AcquireEmitToken_def
  by (intro keeps_intros keeps_modify keeps_exec; auto simp: not_receipts not_typing split: if_splits)+

lemma keeps_ackOne [keeps_intros]: "keeps I (ackOne u t x)"
  unfolding ackOne_def by (intro keeps_intros keeps_update_messages) (erule burnUpdate_same_identity)

lemma keeps_cleanupLoop [keeps_intros]: "keeps I (cleanupLoop fuel stop t n)"
  by (induction fuel) (simp_all add: keeps_intros Let_def)

lemma keeps_MarkAsRead [keeps_intros]: "keeps I (MarkAsRead s u c q)"
  unfolding MarkAsRead_def Let_def by (intro keeps_intros)

lemma keeps_message_step: "keeps I (message_step s op)"
proof (cases op)
  case (OpMarkMessagesRead u c ms)
  then show ?thesis by (simp add: MarkMessagesRead_def Let_def keeps_intros)
qed (simp_all add: SendTyping_def RecallMessage_def DeleteMessage_def AckReadTriggers_def cleanup_def
  Let_def keeps_intros)

lemma run_messages: "I (db w) \<Longrightarrow> I (db (run_ops (message_step s) ops w))"
proof (induction ops arbitrary: w)
  case (Cons op ops)
  then show ?case using keeps_message_step[of s op] by (simp add: run_ops_def keeps_def)
qed (simp add: run_ops_def)

end

interpretation sent_inv: sent_property send_inv
  by unfold_locales (auto intro: send_inv_messages wp_sendBody)

interpretation message_sending: service "message_step s" any_op send_inv empty_message_db
proof (unfold_locales, goal_cases)
  case 1
  show ?case
    by (simp add: send_inv_def seq_inv_def once_inv_def sent_seqs_def empty_message_db_def current_seq_none
        uniq_def)
next
  case (2 op) show ?case by (rule sent_inv.keeps_message_step)
qed

text \<open>An idempotency key stays bound to its message.\<close>

definition bound :: "string \<times> string \<times> string \<Rightarrow> string \<Rightarrow> message_db \<Rightarrow> bool" where
  "bound k i d = (\<exists>r \<in> set (message_send_idempotency d). send_key r = k \<and> si_MessageID r = i)"

definition bound_inv :: "string \<times> string \<times> string \<Rightarrow> string \<Rightarrow> message_db \<Rightarrow> bool" where
  "bound_inv k i d = (send_inv d \<and> bound k i d)"

interpretation bound_key: sent_property "bound_inv k i"
proof (unfold_locales, goal_cases)
  case (1 d f p) then show ?case by (simp add: bound_inv_def bound_def send_inv_messages)
next
  case (4 w u cv req)
  then have inv: "send_inv (db w)" and b: "bound k i (db w)" by (simp_all add: bound_inv_def)
  show ?case by (rule wp_sendBody[OF inv]) (use inv b in \<open>auto simp: bound_inv_def bound_def\<close>)
qed (simp_all add: bound_inv_def bound_def)

end
