(* ===== verification/Message_Send.thy ===== *)
theory Message_Send
  imports Message
begin

text \<open>
  Sending: messages are numbered without gaps, a message is sent once per idempotency key and a retry
  answers with it, nobody sends without authorization, and a send of a new message stores it and
  notifies the other side -- unless the service was built by its constructor, which drops the broker.
\<close>

subsection \<open>A small history\<close>

definition chat :: messageServiceImpl where
  "chat = \<lparr>ms_conversationClient = Some (\<lambda>n c. if c = ''ann-bob''
       then Inr \<lparr>cv_ConversationType = 1, cv_TargetId = ''bob'', cv_AutoDeleteDuration = 1, cv_BurnAfterReading = 5\<rparr>
       else Inl RecordNotFound),
     ms_friendClient = Some (\<lambda>n u v. Inr False), ms_groupClient = None, ms_broker = True,
     ms_sendIdempotencyRepo = True, ms_typingRepo = True, ms_DefaultTTL = None, ms_MinTTL = None,
     ms_MaxTTL = None, ms_EmitDebounce = None, ms_text_field = (\<lambda>c. Some c), ms_ilike = (\<lambda>x p. x = p), ms_pages = 1\<rparr>"

definition hello :: "string \<Rightarrow> SendMessageRequest" where
  "hello localId = \<lparr>sm_ConversationId = ''ann-bob'', sm_ContentType = 1, sm_Content = ''hello'', sm_ReplyTo = None,
     sm_AtUsers = [], sm_LocalId = localId\<rparr>"

definition chat_world :: "message_db world" where
  "chat_world = run_ops (message_step chat) [OpSendMessage ''ann'' (hello ''1''), OpSendMessage ''ann'' (hello ''2'')] (init_world empty_message_db)"

lemma chat_reachable: "reachable (message_step chat) any_op empty_message_db (db chat_world)"
  unfolding chat_world_def by (rule run_ops_reachable) (simp_all add: reachable.reach_init any_op_def)

lemma chat_seq: "current_seq (conversation_sequences (db chat_world)) ''ann-bob'' = 2"
  by code_simp

lemma chat_nonempty: "messages (db chat_world) \<noteq> []"
proof -
  have "sent_seqs (db chat_world) ''ann-bob'' = [1..2]"
    using message_sending.reachable_inv[OF chat_reachable] chat_seq by (simp add: send_inv_def seq_inv_def)
  then show ?thesis by (auto simp: sent_seqs_def)
qed

subsection \<open>Sending\<close>

text \<open>C7: in every state the message service can reach, whatever fails on the way, the messages of a
  conversation are numbered 1, 2, 3, \<dots> without gap or repetition in the order of sending, and the last
  number is the conversation's stored sequence.\<close>

theorem message_sequence_gap_free:
  assumes "reachable (message_step s) any_op empty_message_db d"
  shows "sent_seqs d c = [1..current_seq (conversation_sequences d) c]"
  using message_sending.reachable_inv[OF assms] by (simp add: send_inv_def seq_inv_def)

theorem message_sequence_gap_free_witness: "sent_seqs (db chat_world) ''ann-bob'' = [1..2]"
  using message_sequence_gap_free[OF chat_reachable, of "''ann-bob''"] chat_seq by simp

text \<open>C8: in every reachable state the idempotency records and the messages correspond one to one: a
  record names exactly one message, of the record's sender and conversation, every message is named by
  exactly one record, and no two records have the same key.\<close>

theorem send_exactly_once:
  assumes "reachable (message_step s) any_op empty_message_db d"
  shows "(\<forall>r \<in> set (message_send_idempotency d). \<exists>!m. m \<in> set (messages d) \<and> m_MessageID m = si_MessageID r \<and>
        m_SenderID m = si_SenderID r \<and> m_ConversationID m = si_ConversationID r) \<and>
     (\<forall>m \<in> set (messages d). \<exists>!r. r \<in> set (message_send_idempotency d) \<and> si_MessageID r = m_MessageID m) \<and>
     uniq send_key (message_send_idempotency d)"
proof -
  let ?ms = "messages d" and ?rs = "message_send_idempotency d"
  have inv: "once_inv d" using message_sending.reachable_inv[OF assms] by (simp add: send_inv_def)
  then have eq: "map (\<lambda>r. (si_MessageID r, si_SenderID r, si_ConversationID r)) ?rs =
      map (\<lambda>m. (m_MessageID m, m_SenderID m, m_ConversationID m)) ?ms"
    and um: "uniq m_MessageID ?ms" by (simp_all add: once_inv_def)
  have "map si_MessageID ?rs = map m_MessageID ?ms"
    using arg_cong[OF eq, of "map fst"] by (simp add: comp_def)
  then have ur: "uniq si_MessageID ?rs" using um by (simp add: uniq_def)
  have sets: "(\<lambda>r. (si_MessageID r, si_SenderID r, si_ConversationID r)) ` set ?rs =
      (\<lambda>m. (m_MessageID m, m_SenderID m, m_ConversationID m)) ` set ?ms"
    using arg_cong[OF eq, of set] by simp
  have "\<exists>!m. m \<in> set ?ms \<and> m_MessageID m = si_MessageID r \<and> m_SenderID m = si_SenderID r \<and>
      m_ConversationID m = si_ConversationID r" if "r \<in> set ?rs" for r
  proof -
    have "(si_MessageID r, si_SenderID r, si_ConversationID r) \<in>
        (\<lambda>m. (m_MessageID m, m_SenderID m, m_ConversationID m)) ` set ?ms" using that sets by blast
    then show ?thesis using um by (auto simp: uniq_def distinct_map inj_on_def)
  qed
  moreover have "\<exists>!r. r \<in> set ?rs \<and> si_MessageID r = m_MessageID m" if "m \<in> set ?ms" for m
  proof -
    have "(m_MessageID m, m_SenderID m, m_ConversationID m) \<in>
        (\<lambda>r. (si_MessageID r, si_SenderID r, si_ConversationID r)) ` set ?rs" using that sets by blast
    then show ?thesis using ur by (auto simp: uniq_def distinct_map inj_on_def)
  qed
  ultimately show ?thesis using inv by (auto simp: once_inv_def)
qed

theorem send_exactly_once_witness:
  "uniq send_key (message_send_idempotency (db chat_world)) \<and> messages (db chat_world) \<noteq> []"
  using send_exactly_once[OF chat_reachable] chat_nonempty by blast

subsection \<open>Retrying\<close>

lemma silent_send [silent_intros]:
  "silent (authorizeSend s u c)" "silent (sendBody u cv req)"
  unfolding authorizeSend_def getConversation_def orE_def sendBody_def createMessage_def Let_def
    sendIdempotencyRepo_CreateIfNotExists_def sendIdempotencyRepo_GetForUpdateByKey_def
    messageRepo_GetByMessageID_def sequenceRepo_IncrementAndGet_def sequenceRepo_GetOrCreate_def find_sequence_def
    messageRepo_Create_def sendIdempotencyRepo_BindMessageID_def
  by (intro silent_intros)+

lemma preserves_authorizeSend: "preserves_db (authorizeSend s u c)"
  by (simp add: preserves_db_keeps keeps_intros)

lemma wp_SendMessageI:
  assumes tx: "\<And>cv w1. db w1 = db w \<Longrightarrow> same_env w w1 \<Longrightarrow>
      wp (transaction (sendBody u cv req)) T (\<lambda>_. E) w1"
    and pub: "\<And>m c w1. T (m, c) w1 \<Longrightarrow> wp (thenE (announce s req m c) (returnE (modelToProto m))) Q (\<lambda>_. E) w1"
    and err: "\<And>w'. db w' = db w \<Longrightarrow> same_env w w' \<Longrightarrow> E w'"
  shows "wp (SendMessage s u req) Q (\<lambda>_. E) w"
proof -
  have body: "wp (bindE (catchE (transaction (sendBody u cv req)) (\<lambda>e. if IsBusiness e then throwE e else throwE errSendFailed))
      (\<lambda>(m, c). thenE (announce s req m c) (returnE (modelToProto m)))) Q (\<lambda>_. E) w1"
    if "db w1 = db w" "same_env w w1" for cv w1
    unfolding wp_bind wp_catch
    by (rule wp_mono[OF tx[OF that]]) (auto simp: wp_throw pub split: err.splits prod.splits)
  show ?thesis
    unfolding SendMessage_def wp_bind
    by (intro wp_inert[OF preserves_authorizeSend silent_send(1)])
       (simp_all add: wp_then wp_guard err body)
qed

lemma SendMessage_hit:
  assumes "bound_inv (u, sm_ConversationId req, sm_LocalId req) i (db w)"
  shows "wp (SendMessage s u req) (\<lambda>p w'. same_env w w' \<and> db w' = db w \<and> pb_MessageId p = i)
    (\<lambda>_ w'. same_env w w' \<and> db w' = db w) w"
proof -
  let ?k = "(u, sm_ConversationId req, sm_LocalId req)"
  have inv: "send_inv (db w)" and b: "bound ?k i (db w)" using assms by (simp_all add: bound_inv_def)
  have same: "si_MessageID r = i" if "r \<in> set (message_send_idempotency (db w))" "send_key r = ?k" for r
    using that b inv by (auto simp: bound_def send_inv_def once_inv_def uniq_def distinct_map inj_on_def)
  have body: "wp (sendBody u cv req) (\<lambda>a w'. db w' = db w \<and> m_MessageID (fst a) = i \<and> \<not> snd a) (\<lambda>_ _. True) w0"
    if "db w0 = db w" for cv w0
  proof (rule wp_sendBody, goal_cases)
    case 1 then show ?case using that inv by simp
  next
    case (2 r m w') then show ?case using that same[of r] by simp
  next
    case (3 q j t n r w') then show ?case using that b unfolding bound_def by (metis imageI)
  qed
  have tx: "wp (transaction (sendBody u cv req))
      (\<lambda>a w'. same_env w w' \<and> db w' = db w \<and> m_MessageID (fst a) = i \<and> \<not> snd a)
      (\<lambda>_ w'. same_env w w' \<and> db w' = db w) w1" if "db w1 = db w" "same_env w w1" for cv w1
    by (rule wp_mono[OF wp_silent_transaction[OF silent_send(2), where R = "\<lambda>a d. d = db w \<and> m_MessageID (fst a) = i \<and> \<not> snd a"]])
       (use body that same_env_trans in auto)
  show ?thesis
    by (rule wp_SendMessageI, rule tx) (auto simp: announce_def modelToProto_def wp_simps)
qed

lemma SendMessage_binds:
  assumes "send_inv (db w)"
  shows "wp (SendMessage s u req) (\<lambda>p w'. bound_inv (u, sm_ConversationId req, sm_LocalId req) (pb_MessageId p) (db w'))
    (\<lambda>_ _. True) w"
proof -
  let ?k = "(u, sm_ConversationId req, sm_LocalId req)"
  have body: "wp (sendBody u cv req) (\<lambda>a w'. bound_inv ?k (m_MessageID (fst a)) (db w')) (\<lambda>_ _. True) w0"
    if "db w0 = db w" for cv w0
  proof (rule wp_sendBody, goal_cases)
    case 1 then show ?case using that assms by simp
  next
    case (2 r m w') then show ?case using that assms by (auto simp: bound_inv_def bound_def)
  next
    case (3 q j t n r w') then show ?case using that by (auto simp: bound_inv_def bound_def)
  qed
  have tx: "wp (transaction (sendBody u cv req)) (\<lambda>a w'. bound_inv ?k (m_MessageID (fst a)) (db w')) (\<lambda>_ _. True) w1"
    if "db w1 = db w" for cv w1
    by (rule wp_mono[OF wp_silent_transaction[OF silent_send(2)]]) (use body that in auto)
  have pub: "preserves_db (announce s req m c)" for m c
    by (simp add: preserves_db_keeps keeps_intros announce_def)
  show ?thesis
    by (rule wp_SendMessageI, rule tx) (auto simp: wp_then wp_return modelToProto_def intro!: wp_preserves[OF pub])
qed


subsection \<open>A new message\<close>

lemma new_key_transaction:
  assumes "send_inv (db w)" "(u, sm_ConversationId req, sm_LocalId req) \<notin> send_key ` set (message_send_idempotency (db w))"
    and "\<not> unlucky (messages (db w)) w"
  shows "wp (transaction (sendBody u cv req)) (\<lambda>a w'. same_env w w' \<and> snd a \<and> messages (db w') = messages (db w) @ [fst a] \<and>
      (\<exists>i t j. fst a = (newMessage u cv req (current_seq (conversation_sequences (db w)) (sm_ConversationId req) + 1) i t)\<lparr>m_ID := j\<rparr>))
    (\<lambda>_ _. False) w"
proof -
  let ?new = "\<lambda>a d. snd a \<and> messages d = messages (db w) @ [fst a] \<and>
      (\<exists>i t j. fst a = (newMessage u cv req (current_seq (conversation_sequences (db w)) (sm_ConversationId req) + 1) i t)\<lparr>m_ID := j\<rparr>)"
  have env: "\<not> unlucky (messages (db w)) w'" if "same_env (bump w) w'" for w'
    using that assms(3) by (simp add: unlucky_def same_env_def healthy_def)
  have "wp (sendBody u cv req) (\<lambda>a w'. ?new a (db w')) (\<lambda>_ w'. (u, sm_ConversationId req, sm_LocalId req) \<notin>
      send_key ` set (message_send_idempotency (db (bump w))) \<longrightarrow> unlucky (messages (db (bump w))) w') (bump w)"
  proof (rule wp_sendBody_fresh, goal_cases)
    case (2 r m w') then show ?case using assms(2) by (metis bump_simps(1) imageI)
  qed (use assms(1) in auto)
  from wp_silent[OF silent_send(2) this]
  have "wp (sendBody u cv req) (\<lambda>a w'. ?new a (db w')) (\<lambda>_ _. False) (bump w)"
    by (rule wp_mono) (use assms(2) env in auto)
  moreover have "healthy w" using assms(3) by (simp add: unlucky_def)
  ultimately show ?thesis by (intro wp_healthy_transaction silent_send(2))
qed

text \<open>A send to one other user that nothing stands in the way of.\<close>

definition clear_send :: "messageServiceImpl \<Rightarrow> string \<Rightarrow> SendMessageRequest \<Rightarrow> Conversation \<Rightarrow> message_db world \<Rightarrow> bool" where
  "clear_send s u req cv w =
     (\<not> unlucky (messages (db w)) w \<and>
      (u, sm_ConversationId req, sm_LocalId req) \<notin> send_key ` set (message_send_idempotency (db w)) \<and>
      u \<noteq> '''' \<and> sm_ConversationId req \<noteq> '''' \<and> sm_LocalId req \<noteq> '''' \<and> sm_AtUsers req = [] \<and> ms_sendIdempotencyRepo s \<and>
      (case ms_conversationClient s of None \<Rightarrow> False | Some get \<Rightarrow> \<forall>n. get n (sm_ConversationId req) = Inr cv) \<and>
      cv_ConversationType cv = ConversationTypeSingle \<and> cv_TargetId cv \<noteq> '''' \<and>
      (case ms_friendClient s of None \<Rightarrow> False | Some blocked \<Rightarrow> \<forall>n. blocked n u (cv_TargetId cv) = Inr False))"

lemma clear_send_authorized:
  assumes "clear_send s u req cv w"
  shows "authorizeSend s u (sm_ConversationId req) w = (Inr cv, bump (bump w))"
  using assms by (auto simp: clear_send_def authorizeSend_def getConversation_def orE_def catchE_def bindE_def thenE_def
      rpc_def guardE_def returnE_def Let_def split: option.splits)

lemma announce_single:
  assumes "m_ConversationType m = ConversationTypeSingle" "m_TargetID m \<noteq> ''''" "sm_AtUsers req = []"
  shows "ms_broker s \<Longrightarrow> healthy w \<Longrightarrow>
      \<exists>w' ev. announce s req m True w = (Inr (), w') \<and> db w' = db w \<and> outbox w' = outbox w @ [ev] \<and> sent_to (m_TargetID m) ev"
    and "\<not> ms_broker s \<Longrightarrow>
      \<exists>w'. announce s req m True w = (Inl nil_broker, w') \<and> db w' = db w \<and> outbox w' = outbox w"
proof -
  show "\<exists>w' ev. announce s req m True w = (Inr (), w') \<and> db w' = db w \<and> outbox w' = outbox w @ [ev] \<and> sent_to (m_TargetID m) ev"
    if "ms_broker s" "healthy w"
    using that assms
    by (auto simp: announce_def publishNewMessageNotification_def brokerE_def ignoreE_def NewNotification_def WithPayload_def
        run_PublishToUser catchE_def bindE_def thenE_def returnE_def new_uuid_def Let_def)
  show "\<exists>w'. announce s req m True w = (Inl nil_broker, w') \<and> db w' = db w \<and> outbox w' = outbox w"
    if "\<not> ms_broker s"
    using that assms
    by (auto simp: announce_def publishNewMessageNotification_def brokerE_def ignoreE_def NewNotification_def
        catchE_def bindE_def thenE_def returnE_def throwE_def nil_broker_def new_uuid_def Let_def)
qed

lemma SendMessage_clear:
  assumes inv: "send_inv (db w)" and clear: "clear_send s u req cv w"
  shows "\<exists>m i t j w1. m = (newMessage u cv req (current_seq (conversation_sequences (db w)) (sm_ConversationId req) + 1) i t)\<lparr>m_ID := j\<rparr> \<and>
    same_env w w1 \<and> messages (db w1) = messages (db w) @ [m] \<and>
    SendMessage s u req w = thenE (announce s req m True) (returnE (modelToProto m)) w1"
proof -
  let ?w = "bump (bump w)"
  have tot: "wp (transaction (sendBody u cv req)) (\<lambda>a w'. same_env ?w w' \<and> snd a \<and> messages (db w') = messages (db ?w) @ [fst a] \<and>
      (\<exists>i t j. fst a = (newMessage u cv req (current_seq (conversation_sequences (db ?w)) (sm_ConversationId req) + 1) i t)\<lparr>m_ID := j\<rparr>))
    (\<lambda>_ _. False) ?w"
    by (rule new_key_transaction) (use inv clear in \<open>simp_all add: clear_send_def\<close>)
  obtain m w1 i t j where tx: "transaction (sendBody u cv req) ?w = (Inr (m, True), w1)" and env: "same_env w w1"
    and ms: "messages (db w1) = messages (db w) @ [m]"
    and m: "m = (newMessage u cv req (current_seq (conversation_sequences (db w)) (sm_ConversationId req) + 1) i t)\<lparr>m_ID := j\<rparr>"
    using wp_total[OF tot, simplified] by fastforce
  have "SendMessage s u req w = thenE (announce s req m True) (returnE (modelToProto m)) w1"
    using clear_send_authorized[OF clear] clear tx
    by (simp add: SendMessage_def bindE_def thenE_def guardE_def returnE_def catchE_def clear_send_def)
  then show ?thesis using env ms m by blast
qed


text \<open>C12: the constructor of the service does not store the broker it is given.  A service built by it
  commits the new message and then panics while notifying, so the caller gets no answer and the other
  user no notification, for every send to one other user that nothing stands in the way of.\<close>

theorem NewMessageService_panics:
  assumes "reachable (message_step s) any_op empty_message_db (db w)" "s = NewMessageService args" "clear_send s u req cv w"
  shows "case SendMessage s u req w of
      (Inr _, _) \<Rightarrow> False
    | (Inl e, w') \<Rightarrow> e = nil_broker \<and> (\<exists>m. messages (db w') = messages (db w) @ [m] \<and> m_Content m = sm_Content req) \<and>
        outbox w' = outbox w"
proof -
  obtain m i t j w1 where send: "SendMessage s u req w = thenE (announce s req m True) (returnE (modelToProto m)) w1"
    and env: "same_env w w1" and ms: "messages (db w1) = messages (db w) @ [m]"
    and m: "m = (newMessage u cv req (current_seq (conversation_sequences (db w)) (sm_ConversationId req) + 1) i t)\<lparr>m_ID := j\<rparr>"
    using SendMessage_clear[OF message_sending.reachable_inv[OF assms(1)] assms(3)] by blast
  have "\<not> ms_broker s" using assms(2) by (simp add: NewMessageService_def)
  then obtain w' where "announce s req m True w1 = (Inl nil_broker, w')" "db w' = db w1" "outbox w' = outbox w1"
    using announce_single(2)[of m req s w1] assms(3) m by (auto simp: clear_send_def)
  then show ?thesis
    using send env ms m by (auto simp: thenE_def bindE_def same_env_def newMessage_def Let_def)
qed

subsection \<open>Authorization\<close>

lemma SendMessage_write_authorized:
  assumes "SendMessage s u req w = (r, w')" "db w' \<noteq> db w"
  shows "\<exists>cv w1. authorizeSend s u (sm_ConversationId req) w = (Inr cv, w1)"
proof (cases "authorizeSend s u (sm_ConversationId req) w")
  case (Pair a w1)
  then have "db w1 = db w" using preserves_authorizeSend[of s u "sm_ConversationId req"]
    by (metis preserves_db_def snd_conv)
  then show ?thesis using Pair assms by (cases a) (auto simp: SendMessage_def bindE_def)
qed

lemma authorizeSend_Inr:
  assumes "authorizeSend s u c w = (Inr cv, w1)"
  shows "\<exists>get. ms_conversationClient s = Some get \<and> get (tick w) c = Inr cv \<and>
    ((cv_ConversationType cv = ConversationTypeGroup \<and> (\<exists>g. ms_groupClient s = Some g \<and>
        gc_IsMember g (tick w + 1) (cv_TargetId cv) u = Inr True)) \<or>
     (cv_ConversationType cv = ConversationTypeSingle \<and> (\<exists>blocked. ms_friendClient s = Some blocked \<and>
        blocked (tick w + 1) u (cv_TargetId cv) = Inr False)))"
  using assms
  by (auto simp: authorizeSend_def getConversation_def orE_def catchE_def bindE_def thenE_def rpc_def guardE_def returnE_def
      throwE_def Let_def split: option.splits if_splits sum.splits err.splits prod.splits)

text \<open>C10: nobody sends without authorization: if a send, successful or not, changed the tables in any way,
  then the conversation service knew the conversation, the group service called the sender a member of
  the group or, in a conversation of two, the friend service said that the sender is not blocked.\<close>

theorem SendMessage_authorized:
  assumes "SendMessage s u req w = (r, w')" "db w' \<noteq> db w"
  shows "\<exists>get cv. ms_conversationClient s = Some get \<and> get (tick w) (sm_ConversationId req) = Inr cv \<and>
    ((cv_ConversationType cv = ConversationTypeGroup \<and> (\<exists>g. ms_groupClient s = Some g \<and>
        gc_IsMember g (tick w + 1) (cv_TargetId cv) u = Inr True)) \<or>
     (cv_ConversationType cv = ConversationTypeSingle \<and> (\<exists>blocked. ms_friendClient s = Some blocked \<and>
        blocked (tick w + 1) u (cv_TargetId cv) = Inr False)))"
  using SendMessage_write_authorized[OF assms] authorizeSend_Inr by meson

subsection \<open>Concrete sends\<close>

definition to_bob :: Conversation where
  "to_bob = \<lparr>cv_ConversationType = 1, cv_TargetId = ''bob'', cv_AutoDeleteDuration = 1, cv_BurnAfterReading = 5\<rparr>"

lemma chat_clear:
  "clear_send chat ''ann'' (hello ''1'') to_bob (init_world empty_message_db)"
  "clear_send (NewMessageService chat) ''ann'' (hello ''1'') to_bob (init_world empty_message_db)"
  by (simp_all add: clear_send_def chat_def hello_def to_bob_def NewMessageService_def unlucky_def empty_message_db_def)

lemma empty_reachable: "reachable (message_step s) any_op empty_message_db (db (init_world empty_message_db))"
  by (simp add: reachable.reach_init)

lemma clear_send_stores:
  assumes "clear_send s u req cv (init_world empty_message_db)" "ms_broker s"
  shows "\<exists>p w1. SendMessage s u req (init_world empty_message_db) = (Inr p, w1) \<and> messages (db w1) \<noteq> []"
proof -
  let ?w = "init_world empty_message_db"
  obtain m i t j w1 where send: "SendMessage s u req ?w = thenE (announce s req m True) (returnE (modelToProto m)) w1"
    and env: "same_env ?w w1" and ms: "messages (db w1) = messages (db ?w) @ [m]"
    and m: "m = (newMessage u cv req (current_seq (conversation_sequences (db ?w)) (sm_ConversationId req) + 1) i t)\<lparr>m_ID := j\<rparr>"
    using SendMessage_clear[OF _ assms(1)] message_sending.reachable_inv[OF empty_reachable] by blast
  have "healthy w1" using env by (simp add: same_env_def healthy_def init_world_def)
  then obtain w' where "announce s req m True w1 = (Inr (), w')" "db w' = db w1"
    using announce_single(1)[of m req s w1] m assms by (auto simp: clear_send_def)
  then show ?thesis using send ms by (simp add: thenE_def bindE_def returnE_def)
qed

lemma first_send:
  "\<exists>p w1. SendMessage chat ''ann'' (hello ''1'') (init_world empty_message_db) = (Inr p, w1) \<and> messages (db w1) \<noteq> []"
  using clear_send_stores[OF chat_clear(1)] by (simp add: chat_def)



theorem NewMessageService_panics_witness:
  "case SendMessage (NewMessageService chat) ''ann'' (hello ''1'') (init_world empty_message_db) of
     (Inr _, _) \<Rightarrow> False | (Inl e, w') \<Rightarrow> e = nil_broker \<and> messages (db w') \<noteq> []"
  using NewMessageService_panics[OF empty_reachable refl chat_clear(2)]
  by (auto split: sum.splits prod.splits)

theorem SendMessage_authorized_witness:
  "\<exists>blocked. ms_friendClient chat = Some blocked \<and> blocked 1 ''ann'' ''bob'' = Inr False"
proof -
  obtain p w1 where first: "SendMessage chat ''ann'' (hello ''1'') (init_world empty_message_db) = (Inr p, w1)"
      "messages (db w1) \<noteq> []"
    using first_send by blast
  then have "db w1 \<noteq> db (init_world empty_message_db)" by (auto simp: empty_message_db_def)
  then show ?thesis using SendMessage_authorized[OF first(1)] by (auto simp: chat_def hello_def init_world_def)
qed

end
