(* ===== verification/Composition.thy ===== *)
theory Composition
  imports Friend Group_Properties Group_Handler Conversation_Service Message_Send
begin

text \<open>
  The services together.  The message service asks the conversation, the friend and the group service
  whether a user may send; here its clients are the handlers of those services, run on whatever state
  they are in when they are called.  The locale states what sending relies on; its interpretation
  discharges the laws for the models of the three services.
\<close>

subsection \<open>The contract of a sender's access\<close>

locale sender_access =
  fixes get :: "nat \<Rightarrow> string \<Rightarrow> err + Conversation"
    and is_member :: "nat \<Rightarrow> string \<Rightarrow> string \<Rightarrow> err + bool"
    and is_blocked :: "nat \<Rightarrow> string \<Rightarrow> string \<Rightarrow> err + bool"
    and owns :: "nat \<Rightarrow> string \<Rightarrow> Conversation \<Rightarrow> bool"
    and member :: "nat \<Rightarrow> string \<Rightarrow> string \<Rightarrow> bool"
    and blocks :: "nat \<Rightarrow> string \<Rightarrow> string \<Rightarrow> bool"
  assumes get_owned: "get n c = Inr cv \<Longrightarrow> owns n c cv"
    and member_true: "is_member n g v = Inr True \<Longrightarrow> member n g v"
    and blocked_false: "is_blocked n v x = Inr False \<Longrightarrow> \<not> blocks n v x"
begin

lemma send_guarded:
  assumes "ms_conversationClient s = Some get" "ms_groupClient s = Some gc" "gc_IsMember gc = is_member"
    and "ms_friendClient s = Some is_blocked" "SendMessage s u req w = (r, w')" "db w' \<noteq> db w"
  shows "\<exists>cv. owns (tick w) (sm_ConversationId req) cv \<and>
    ((cv_ConversationType cv = ConversationTypeGroup \<and> member (tick w + 1) (cv_TargetId cv) u) \<or>
     (cv_ConversationType cv = ConversationTypeSingle \<and> \<not> blocks (tick w + 1) u (cv_TargetId cv)))"
proof -
  obtain cv w1 where "authorizeSend s u (sm_ConversationId req) w = (Inr cv, w1)"
    using SendMessage_write_authorized[OF assms(5,6)] by blast
  from authorizeSend_Inr[OF this] show ?thesis
    using assms(1-4) get_owned[of "tick w" "sm_ConversationId req" cv] member_true[of "tick w + 1" "cv_TargetId cv" u]
      blocked_false[of "tick w + 1" u "cv_TargetId cv"] by fastforce
qed

end

subsection \<open>The other services as clients of the message service\<close>

text \<open>\<open>ws n\<close> is the world of the called service at the time of the call, \<open>ctx\<close> the metadata that arrives
  there: what of the caller's metadata the gRPC libraries put on an outgoing call is a parameter.\<close>

definition conversation_client :: "ctx \<Rightarrow> (nat \<Rightarrow> conversation_db world) \<Rightarrow> nat \<Rightarrow> string \<Rightarrow> err + Conversation" where
  "conversation_client ctx ws n c =
     (case fst (ConversationHandler_GetConversation ctx c (ws n)) of
        Inl e \<Rightarrow> Inl e
      | Inr p \<Rightarrow> Inr \<lparr>cv_ConversationType = pc_ConversationType p, cv_TargetId = pc_TargetId p,
          cv_AutoDeleteDuration = pc_AutoDeleteDuration p, cv_BurnAfterReading = pc_BurnAfterReading p\<rparr>)"

definition blocked_client :: "(nat \<Rightarrow> friend_db world) \<Rightarrow> nat \<Rightarrow> string \<Rightarrow> string \<Rightarrow> err + bool" where
  "blocked_client ws n u v = fst (FriendHandler_IsBlocked u v (ws n))"

definition member_client :: "(nat \<Rightarrow> group_db world) \<Rightarrow> nat \<Rightarrow> string \<Rightarrow> string \<Rightarrow> err + bool" where
  "member_client ws n g u =
     (case fst (GroupHandler_IsMember g u (ws n)) of Inl e \<Rightarrow> Inl e | Inr (b, _) \<Rightarrow> Inr b)"

definition group_clients :: "ctx \<Rightarrow> (nat \<Rightarrow> group_db world) \<Rightarrow> group_client" where
  "group_clients ctx ws = \<lparr>gc_IsMember = member_client ws,
     gc_GetGroupMembers = (\<lambda>n g v page. case fst (GroupHandler_GetGroupMembers v g (Some page) (Some 100) (ws n)) of
         Inl e \<Rightarrow> Inl e | Inr (ms, n) \<Rightarrow> Inr (map gmi_UserId ms, n)),
     gc_UnpinGroupMessage = (\<lambda>n g m. fst (GroupHandler_UnpinGroupMessage ctx g m (ws n)))\<rparr>"

definition row_of :: "ctx \<Rightarrow> conversation_db \<Rightarrow> string \<Rightarrow> Conversation \<Rightarrow> bool" where
  "row_of ctx d c cv = (\<exists>x \<in> set (conversations d). c_ConversationID x = c \<and> GetUserID ctx = (c_UserID x, True) \<and>
     c_ConversationType x = cv_ConversationType cv \<and> c_TargetID x = cv_TargetId cv)"

definition is_member_row :: "group_db \<Rightarrow> string \<Rightarrow> string \<Rightarrow> bool" where
  "is_member_row d g u = (\<exists>m \<in> set (group_members d). gm_GroupID m = g \<and> gm_UserID m = u)"

definition block_row :: "friend_db \<Rightarrow> string \<Rightarrow> string \<Rightarrow> bool" where
  "block_row d u v = (\<exists>b \<in> set (blacklists d). (bl_UserID b = u \<and> bl_BlockedUserID b = v) \<or>
     (bl_UserID b = v \<and> bl_BlockedUserID b = u))"

lemma convertE_Inr: "fst (convertE m w) = Inr a \<Longrightarrow> fst (m w) = Inr a"
  by (auto simp: convertE_def catchE_def throwE_def split: sum.splits prod.splits err.splits option.splits)

lemma ConversationHandler_GetConversation_Inr:
  assumes "fst (ConversationHandler_GetConversation ctx c w) = Inr p"
  shows "\<exists>u. GetUserID ctx = (u, True) \<and> fst (GetConversation u c w) = Inr p"
  using assms
  by (cases "GetUserID ctx")
    (auto simp: ConversationHandler_GetConversation_def ownConversation_def badRequestE_eq MustGetUserID_def RequireUserID_def
      throwE_def bindE_def returnE_def split: if_splits bool.splits dest: convertE_Inr)

lemma conversation_client_sound:
  assumes "conversation_client ctx ws n c = Inr cv"
  shows "row_of ctx (db (ws n)) c cv"
proof -
  obtain p where p: "fst (ConversationHandler_GetConversation ctx c (ws n)) = Inr p"
      "cv_ConversationType cv = pc_ConversationType p" "cv_TargetId cv = pc_TargetId p"
    using assms by (auto simp: conversation_client_def split: sum.splits)
  then obtain u where "GetUserID ctx = (u, True)" "fst (GetConversation u c (ws n)) = Inr p"
    using ConversationHandler_GetConversation_Inr by blast
  then show ?thesis using p
    by (auto simp: GetConversation_def conversationRepo_GetByID_def find_one_def query_def infra_def row_of_def toProtoConversation_def
        bindE_def thenE_def catchE_def throwE_def returnE_def
        split: option.splits sum.splits prod.splits if_splits err.splits dest!: first_where_SomeD)
qed

lemma member_client_sound:
  assumes "member_client ws n g u = Inr True"
  shows "is_member_row (db (ws n)) g u"
proof -
  obtain k where "fst (GroupHandler_IsMember g u (ws n)) = Inr (True, k)"
    using assms by (auto simp: member_client_def split: sum.splits)
  from convertE_Inr[OF this[unfolded GroupHandler_IsMember_def]] show ?thesis
    by (auto simp: GroupIsMember_def memberRepo_GetMember_def find_one_def query_def infra_def optionalE_def is_member_row_def
        bindE_def thenE_def catchE_def throwE_def returnE_def
        split: option.splits sum.splits prod.splits if_splits err.splits dest!: first_where_SomeD)
qed

lemma blocked_client_sound:
  assumes "blocked_client ws n u v = Inr False"
  shows "\<not> block_row (db (ws n)) u v"
  using convertE_Inr[OF assms[unfolded blocked_client_def FriendHandler_IsBlocked_def]]
  by (auto simp: IsBlocked_def blacklistRepo_IsBlocked_def query_def infra_def bindE_def thenE_def block_row_def count_where_def
      filter_empty_conv split: option.splits)

interpretation sending: sender_access "conversation_client ctx cs" "member_client gs" "blocked_client fs"
    "\<lambda>n. row_of ctx (db (cs n))" "\<lambda>n. is_member_row (db (gs n))" "\<lambda>n. block_row (db (fs n))"
  by unfold_locales (simp_all add: conversation_client_sound member_client_sound blocked_client_sound)

text \<open>C18: end to end, with the conversation, friend and group services behind the message service's
  clients: if a send changed the message tables in any way, then the metadata that reached the
  conversation service named a user, the conversation is a conversation of that user, and at the time of
  the check the sender was a member of the group, or neither of the two had blocked the other.  Where no
  user is forwarded nothing is ever sent.\<close>

theorem send_end_to_end:
  assumes "ms_conversationClient s = Some (conversation_client ctx cs)" "ms_groupClient s = Some (group_clients ctx gs)"
    and "ms_friendClient s = Some (blocked_client fs)" "SendMessage s u req w = (r, w')" "db w' \<noteq> db w"
  shows "\<exists>x \<in> set (conversations (db (cs (tick w)))). c_ConversationID x = sm_ConversationId req \<and>
    GetUserID ctx = (c_UserID x, True) \<and>
    ((c_ConversationType x = ConversationTypeGroup \<and> is_member_row (db (gs (tick w + 1))) (c_TargetID x) u) \<or>
     (c_ConversationType x = ConversationTypeSingle \<and> \<not> block_row (db (fs (tick w + 1))) u (c_TargetID x)))"
proof -
  have "gc_IsMember (group_clients ctx gs) = member_client gs" by (simp add: group_clients_def)
  from sending.send_guarded[OF assms(1,2) this assms(3-5)] show ?thesis unfolding row_of_def by metis
qed

text \<open>Ann, whose only conversation is with Bob, sends to him.\<close>

definition ann_inbox :: conversation_db where
  "ann_inbox = \<lparr>conversations = [\<lparr>c_ConversationID = ''ann-bob'', c_ConversationType = 1, c_UserID = ''ann'', c_TargetID = ''bob'',
     c_LastMessageID = '''', c_LastMessageContent = '''', c_LastMessageTime = None, c_UnreadCount = 0, c_IsPinned = False,
     c_IsMuted = False, c_PinTime = None, c_BurnAfterReading = 5, c_AutoDeleteDuration = 1, c_CreatedAt = 0, c_UpdatedAt = 0\<rparr>]\<rparr>"

definition wired_chat :: messageServiceImpl where
  "wired_chat = chat\<lparr>ms_conversationClient := Some (conversation_client (user_ctx ''ann'') (\<lambda>_. init_world ann_inbox)),
     ms_groupClient := Some (group_clients (user_ctx ''ann'') (\<lambda>_. init_world empty_group_db)),
     ms_friendClient := Some (blocked_client (\<lambda>_. init_world empty_friend_db))\<rparr>"

lemma ann_client: "conversation_client (user_ctx ''ann'') (\<lambda>_. init_world ann_inbox) n ''ann-bob'' = Inr to_bob"
  by (simp add: conversation_client_def) code_simp

lemma bob_client: "blocked_client (\<lambda>_. init_world empty_friend_db) n ''ann'' (cv_TargetId to_bob) = Inr False"
  by (simp add: blocked_client_def) code_simp

lemma wired_chat_clear: "clear_send wired_chat ''ann'' (hello ''1'') to_bob (init_world empty_message_db)"
  by (simp add: clear_send_def wired_chat_def chat_def hello_def unlucky_def empty_message_db_def ann_client bob_client)
    (simp add: to_bob_def)

theorem send_end_to_end_witness:
  "\<exists>x \<in> set (conversations ann_inbox). c_UserID x = ''ann'' \<and> c_ConversationType x = ConversationTypeSingle \<and>
     \<not> block_row empty_friend_db ''ann'' (c_TargetID x)"
proof -
  obtain p w1 where first: "SendMessage wired_chat ''ann'' (hello ''1'') (init_world empty_message_db) = (Inr p, w1)"
      "messages (db w1) \<noteq> []"
    using clear_send_stores[OF wired_chat_clear] by (auto simp: wired_chat_def chat_def)
  then have "db w1 \<noteq> db (init_world empty_message_db)" by (auto simp: empty_message_db_def)
  from send_end_to_end[OF _ _ _ first(1) this, of "user_ctx ''ann''" "\<lambda>_. init_world ann_inbox" "\<lambda>_. init_world empty_group_db"
      "\<lambda>_. init_world empty_friend_db"] show ?thesis
    by (auto simp: wired_chat_def ann_inbox_def)
qed

lemma member_client_row:
  assumes "healthy (ws n)" "is_member_row (db (ws n)) g u"
  shows "member_client ws n g u = Inr True"
proof -
  have "first_where (\<lambda>m. gm_GroupID m = g \<and> gm_UserID m = u) gm_ID (group_members (db (ws n))) \<noteq> None"
    using assms(2) unfolding first_where_None is_member_row_def by blast
  then show ?thesis using assms(1)
    by (auto simp: member_client_def GroupHandler_IsMember_def GroupIsMember_def memberRepo_GetMember_def find_one_def query_def
        infra_def healthy_def optionalE_def convertE_def bindE_def thenE_def catchE_def returnE_def split: option.splits)
qed

lemma DisbandGroup_effect:
  assumes "DisbandGroup owner g w = (Inr (), w')"
  shows "\<exists>t. db w' = (db w)\<lparr>groups := update_where (\<lambda>x. g_GroupID x = g)
    (\<lambda>x. x\<lparr>g_Status := GroupStatusDissolved, g_UpdatedAt := t\<rparr>) (groups (db w))\<rparr>"
proof -
  let ?Q = "\<lambda>w'. \<exists>t. db w' = (db w)\<lparr>groups := update_where (\<lambda>x. g_GroupID x = g)
    (\<lambda>x. x\<lparr>g_Status := GroupStatusDissolved, g_UpdatedAt := t\<rparr>) (groups (db w))\<rparr>"
  have "wp (DisbandGroup owner g) (\<lambda>_ w'. ?Q w') (\<lambda>_ _. True) w"
    apply (simp only: DisbandGroup_def memberRepo_GetMember_def groupRepo_Delete_def groupRepo_GetByGroupID_def wp_simps exec_simps)
    apply (auto split: option.split intro!: wp_quiet[OF quiet_group_publish(13)])
    done
  from wp_result[OF assms this] show ?thesis by simp
qed

text \<open>Dissolving a group does not end its conversation: once the owner has dissolved it the group is
  no longer active, and yet the group service, when its infrastructure works, still calls every former
  member a member, which is all that sending asks it.\<close>

theorem dissolved_group_keeps_members:
  assumes "DisbandGroup owner g w = (Inr (), w')" "is_member_row (db w) g u" "db v = db w'" "healthy v"
  shows "(\<forall>x \<in> set (groups (db w')). g_GroupID x = g \<longrightarrow> \<not> Group_IsActive x) \<and>
    member_client (\<lambda>_. v) n g u = Inr True"
proof -
  obtain t where w': "db w' = (db w)\<lparr>groups := update_where (\<lambda>x. g_GroupID x = g)
      (\<lambda>x. x\<lparr>g_Status := GroupStatusDissolved, g_UpdatedAt := t\<rparr>) (groups (db w))\<rparr>"
    using DisbandGroup_effect[OF assms(1)] by blast
  have "\<forall>x \<in> set (groups (db w')). g_GroupID x = g \<longrightarrow> \<not> Group_IsActive x"
    unfolding w' by (simp add: ball_update_where Group_IsActive_def)
  moreover have "is_member_row (db v) g u" using assms(2,3) by (simp add: w' is_member_row_def)
  ultimately show ?thesis using member_client_row[of "\<lambda>_. v"] assms(4) by simp
qed

theorem dissolved_group_keeps_members_witness:
  "member_client (\<lambda>_. init_world (db (snd (DisbandGroup ''ann'' ''uuid-0'' (init_world duo_db))))) 0 ''uuid-0'' ''bob'' = Inr True"
proof -
  have "fst (DisbandGroup ''ann'' ''uuid-0'' (init_world duo_db)) = Inr ()" by code_simp
  then have "DisbandGroup ''ann'' ''uuid-0'' (init_world duo_db) = (Inr (), snd (DisbandGroup ''ann'' ''uuid-0'' (init_world duo_db)))"
    by (metis prod.collapse)
  moreover have "is_member_row (db (init_world duo_db)) ''uuid-0'' ''bob''" by code_simp
  ultimately show ?thesis using dissolved_group_keeps_members by auto
qed

end
