(* ===== verification/Message_Properties.thy ===== *)
theory Message_Properties
  imports Message_Send
begin

text \<open>
  What happens to messages after they are sent: a message only ever moves towards deletion and keeps
  what it says, read receipts only move forward, the window before an anchor is the run of messages that
  ends at it, and the auto-delete worker comes to an end and deletes exactly what has expired.
\<close>

subsection \<open>The life of a message\<close>

text \<open>Times only move forward to an earlier expiry; a status goes from normal to recalled to deleted.\<close>

definition not_later :: "int option \<Rightarrow> int option \<Rightarrow> bool" where
  "not_later e' e = (case e of None \<Rightarrow> True | Some t \<Rightarrow> (case e' of None \<Rightarrow> False | Some t' \<Rightarrow> t' \<le> t))"

definition advances :: "Message \<Rightarrow> Message \<Rightarrow> bool" where
  "advances m m' = (same_identity m m' \<and> m_Content m' = m_Content m \<and> m_ContentType m' = m_ContentType m \<and>
     m_ConversationType m' = m_ConversationType m \<and> m_TargetID m' = m_TargetID m \<and> m_CreatedAt m' = m_CreatedAt m \<and>
     m_ReplyTo m' = m_ReplyTo m \<and> m_AtUsers m' = m_AtUsers m \<and>
     m_Status m \<le> m_Status m' \<and> not_later (m_ExpireTime m') (m_ExpireTime m))"

lemma advances_refl [simp]: "advances m m"
  by (simp add: advances_def not_later_def split: option.split)

lemma advances_trans: "advances a b \<Longrightarrow> advances b c \<Longrightarrow> advances a c"
  by (auto simp: advances_def same_identity_def not_later_def split: option.splits)

definition status_inv :: "message_db \<Rightarrow> bool" where
  "status_inv d = (send_inv d \<and> (\<forall>m \<in> set (messages d). m_Status m \<in> {0, 1, 2}))"

definition life_inv :: "message_db \<Rightarrow> message_db \<Rightarrow> bool" where
  "life_inv d0 d = (status_inv d \<and> (\<forall>m \<in> set (messages d0). \<exists>m' \<in> set (messages d). advances m m'))"

lemma life_update:
  assumes "life_inv d0 d" "\<And>m. same_identity m (f m)"
    and "\<And>m. m \<in> set (messages d) \<Longrightarrow> p m \<Longrightarrow> advances m (f m) \<and> m_Status (f m) \<in> {0, 1, 2}"
  shows "life_inv d0 (d\<lparr>messages := update_where p f (messages d)\<rparr>)"
proof -
  have "\<exists>m'' \<in> set (update_where p f (messages d)). advances m m''"
    if m: "m' \<in> set (messages d)" "advances m m'" for m m'
  proof (cases "p m'")
    case True
    then have "f m' \<in> set (update_where p f (messages d))" using m(1) by (force simp: set_update_where)
    then show ?thesis using m True assms(3) advances_trans by blast
  next
    case False
    then have "m' \<in> set (update_where p f (messages d))" using m(1) by (force simp: set_update_where)
    then show ?thesis using m(2) by blast
  qed
  moreover have "\<forall>m \<in> set (update_where p f (messages d)). m_Status m \<in> {0, 1, 2}"
    using assms(1,3) unfolding ball_update_where life_inv_def status_inv_def by simp
  ultimately show ?thesis
    using assms(1) send_inv_messages[OF _ assms(2), of d p] by (fastforce simp: life_inv_def status_inv_def)
qed

lemma life_other [simp]:
  "life_inv d0 (d\<lparr>message_read_receipts := rs\<rparr>) = life_inv d0 d" "life_inv d0 (d\<lparr>typing_cache := tc\<rparr>) = life_inv d0 d"
  by (simp_all add: life_inv_def status_inv_def)

lemma keeps_life_send: "keeps (life_inv d0) (SendMessage s u req)"
proof -
  have "wp (sendBody u cv req) (\<lambda>_ w'. life_inv d0 (db w')) (\<lambda>_ _. True) w" if "life_inv d0 (db w)" for cv w
  proof (rule wp_sendBody, goal_cases)
    case (3 q i t j r w')
    then show ?case using that by (auto simp: life_inv_def status_inv_def)
  qed (use that in \<open>auto simp: life_inv_def status_inv_def\<close>)
  then show ?thesis unfolding SendMessage_def announce_def by (intro keeps_intros keeps_transaction)
qed

lemma deleting_advances: "m_Status m \<in> {0, 1, 2} \<Longrightarrow> advances m (m\<lparr>m_Status := 2, m_UpdatedAt := t\<rparr>)"
  by (auto simp: advances_def same_identity_def not_later_def split: option.split)

lemma keeps_life_delete [keeps_intros]:
  "keeps (life_inv d0) (messageRepo_Delete i)" "keeps (life_inv d0) (messageRepo_BatchUpdateStatus ids 2)"
  unfolding messageRepo_UpdateStatus_def messageRepo_Delete_def messageRepo_BatchUpdateStatus_def
  by (intro keeps_intros keeps_modify life_update; auto simp: same_identity_def life_inv_def status_inv_def intro!: deleting_advances)+

lemma keeps_life_other [keeps_intros]:
  "keeps (life_inv d0) (readReceiptRepo_Upsert r)" "keeps (life_inv d0) (typingRepo_SetState c u t)"
  "keeps (life_inv d0) (typingRepo_ClearState c u)" "keeps (life_inv d0) (typingRepo_AcquireEmitToken c u t)"
  unfolding readReceiptRepo_Upsert_def typingRepo_SetState_def typingRepo_ClearState_def typingRepo_AcquireEmitToken_def
  by (intro keeps_intros keeps_modify keeps_exec; auto split: if_splits)+

lemma wp_ownMessage:
  assumes "\<And>m w'. m \<in> set (messages (db w)) \<Longrightarrow> m_MessageID m = i \<Longrightarrow> m_Status m \<noteq> MessageStatusDeleted \<Longrightarrow>
      m_SenderID m = u \<Longrightarrow> db w' = db w \<Longrightarrow> Q m w'"
    and "\<And>e w'. db w' = db w \<Longrightarrow> E e w'"
  shows "wp (ownMessage i u x) Q E w"
proof (cases "first_where (\<lambda>m. m_MessageID m = i \<and> m_Status m \<noteq> 2) m_ID (messages (db w))")
  case None
  then show ?thesis
    using assms(2) by (simp add: ownMessage_def messageRepo_GetByMessageID_def wp_simps split: option.split)
next
  case (Some m)
  then show ?thesis
    using first_where_SomeD[OF Some] assms by (simp add: ownMessage_def messageRepo_GetByMessageID_def wp_simps split: option.split)
qed

lemma keeps_life_recall: "keeps (life_inv d0) (RecallMessage s i u)"
proof (rule keepsI)
  fix w :: "message_db world" assume inv: "life_inv d0 (db w)"
  let ?I = "\<lambda>_ w'. life_inv d0 (db w')"
  have rest: "keeps (life_inv d0) (thenE (ignoreE (autoUnpinRecalledGroupMessage s m)) (ignoreE (publishRecallNotification s m u)))" for m
    by (intro keeps_intros)
  have upd: "wp (orE (messageRepo_UpdateStatus i MessageStatusRecall) x) ?I ?I w'"
    if m: "m \<in> set (messages (db w))" "m_MessageID m = i" "m_Status m \<noteq> 2" and w': "db w' = db w" for m w' x
  proof -
    have one: "m' = m" if "m' \<in> set (messages (db w))" "m_MessageID m' = i" for m'
      using that m inv by (auto simp: life_inv_def status_inv_def dest: message_by_id)
    have "m_Status m \<in> {0, 1}" using m inv by (auto simp: life_inv_def status_inv_def)
    then have "advances m (m\<lparr>m_Status := 1, m_UpdatedAt := t\<rparr>)" for t
      by (auto simp: advances_def same_identity_def not_later_def split: option.split)
    then have "life_inv d0 (db w\<lparr>messages := update_where (\<lambda>m. m_MessageID m = i) (\<lambda>m. m\<lparr>m_Status := 1, m_UpdatedAt := t\<rparr>)
        (messages (db w))\<rparr>)" for t
      by (intro life_update[OF inv]) (auto simp: same_identity_def dest!: one)
    then show ?thesis
      using inv w' by (simp add: messageRepo_UpdateStatus_def wp_simps split: option.split err.split)
  qed
  have "wp (thenE (orE (messageRepo_UpdateStatus i MessageStatusRecall) x)
      (thenE (ignoreE (autoUnpinRecalledGroupMessage s m)) (ignoreE (publishRecallNotification s m u)))) ?I ?I w'"
    if "m \<in> set (messages (db w))" "m_MessageID m = i" "m_Status m \<noteq> 2" "db w' = db w" for m w' x
    unfolding wp_then[of "orE _ _"]
    by (rule wp_mono[OF upd[OF that]]) (use rest in \<open>auto simp: keeps_wp\<close>)
  then show "wp (RecallMessage s i u) ?I ?I w"
    unfolding RecallMessage_def wp_bind using inv
    by (intro wp_ownMessage) (auto simp: wp_now wp_then[of "guardE _ _"] wp_guard)
qed

lemma burnUpdate_advances:
  assumes "burnUpdate t x = Some f"
  shows "advances x (f x)" "m_Status (f x) = m_Status x"
  using assms by (auto simp: burnUpdate_def advances_def same_identity_def not_later_def earlier_def Let_def
      split: if_splits option.splits)

text \<open>The loop over the candidates: the rows it has yet to treat are the rows it read.\<close>

lemma wp_ack_loop:
  assumes "life_inv d0 (db w)" "uniq m_MessageID xs" "set xs \<subseteq> set (messages (db w))"
  shows "wp (forE xs (ackOne u t)) (\<lambda>_ w'. life_inv d0 (db w')) (\<lambda>_ w'. life_inv d0 (db w')) w"
  using assms
proof (induction xs arbitrary: w)
  case Nil then show ?case by (simp add: wp_simps)
next
  case (Cons x xs)
  let ?p = "\<lambda>m. m_MessageID m = m_MessageID x \<and> m_Status m = MessageStatusNormal \<and> m_SenderID m \<noteq> u \<and> m_BurnAfterReadingSeconds m > 0"
  have one: "m = x" if "m \<in> set (messages (db w))" "m_MessageID m = m_MessageID x" for m
    using that Cons.prems message_by_id[of "db w" x m] by (simp add: life_inv_def status_inv_def)
  show ?case
  proof (cases "burnUpdate t x")
    case None
    then show ?thesis using Cons by (simp add: ackOne_def[of u t x] wp_simps uniq_def)
  next
    case (Some f)
    let ?d = "db w\<lparr>messages := update_where ?p f (messages (db w))\<rparr>"
    have "life_inv d0 ?d"
      using Cons.prems(1) burnUpdate_same_identity[OF Some] burnUpdate_advances[OF Some]
      by (intro life_update) (auto dest!: one simp: life_inv_def status_inv_def)
    moreover have "set xs \<subseteq> set (messages ?d)"
    proof
      fix y assume y: "y \<in> set xs"
      then have "m_MessageID y \<noteq> m_MessageID x" using Cons.prems(2) by (simp add: uniq_def) (metis imageI)
      then have "(if ?p y then f y else y) = y" by simp
      moreover have "y \<in> set (messages (db w))" using y Cons.prems(3) by auto
      ultimately have "y \<in> (\<lambda>r. if ?p r then f r else r) ` set (messages (db w))" by (rule image_eqI[OF sym])
      then show "y \<in> set (messages ?d)" by (simp add: set_update_where)
    qed
    ultimately have "wp (forE xs (ackOne u t)) (\<lambda>_ w'. life_inv d0 (db w')) (\<lambda>_ w'. life_inv d0 (db w')) w'"
      if "db w' = ?d" for w' using that Cons.prems(2) by (intro Cons.IH) (simp_all add: uniq_def)
    then show ?thesis using Some Cons.prems(1)
      by (simp add: ackOne_def[of u t x] wp_simps split: option.split err.split)
  qed
qed

lemma keeps_life_ack: "keeps (life_inv d0) (AckReadTriggers u es)"
proof (rule keepsI)
  fix w :: "message_db world" assume inv: "life_inv d0 (db w)"
  have loop: "wp (forE (filter P (messages (db w))) (ackOne u t)) (\<lambda>_ w'. life_inv d0 (db w'))
      (\<lambda>_ w'. life_inv d0 (db w')) w'" if "db w' = db w" for P t w'
    using that inv by (intro wp_ack_loop)
      (auto simp: life_inv_def status_inv_def send_inv_def once_inv_def uniq_def distinct_map_filter)
  show "wp (AckReadTriggers u es) (\<lambda>_ w'. life_inv d0 (db w')) (\<lambda>_ w'. life_inv d0 (db w')) w"
    using inv by (simp add: AckReadTriggers_def wp_simps wp_return_fun Let_def loop split: option.split err.split)
qed

lemma keeps_life_cleanup: "keeps (life_inv d0) (cleanupLoop fuel stop t n)"
  by (induction fuel) (simp_all add: keeps_intros Let_def)

lemma message_step_life: "keeps (life_inv d0) (message_step s op)"
proof (cases op)
  case (OpMarkMessagesRead u c ms)
  then show ?thesis by (simp add: MarkMessagesRead_def MarkAsRead_def Let_def keeps_intros)
qed (simp_all add: SendTyping_def DeleteMessage_def MarkAsRead_def cleanup_def Let_def keeps_intros
  keeps_life_send keeps_life_recall keeps_life_ack keeps_life_cleanup)

interpretation message_life: service "message_step s" any_op "life_inv empty_message_db" empty_message_db
proof (unfold_locales, goal_cases)
  case 1
  show ?case using message_sending.init_inv by (simp add: life_inv_def status_inv_def empty_message_db_def)
next
  case (2 op) show ?case by (rule message_step_life)
qed

text \<open>C13: whatever operations run and whatever fails, a message never disappears from the table and never
  says anything else: it keeps its identifier, number, sender, addressee and content, its status only
  goes from normal to recalled to deleted, and its expiry only moves to an earlier time.\<close>

theorem message_evolution:
  assumes "reachable (message_step s) any_op empty_message_db d" "reachable (message_step s) any_op d d'"
    and "m \<in> set (messages d)"
  shows "\<exists>m' \<in> set (messages d'). advances m m'"
proof -
  have "life_inv d d" using message_life.reachable_inv[OF assms(1)] by (auto simp: life_inv_def intro: advances_refl)
  with assms(2) have "life_inv d d'"
  proof (induction rule: reachable.induct)
    case (reach_step w op r w')
    then show ?case using message_step_life[of d s op] by (metis keeps_def snd_conv)
  qed
  then show ?thesis using assms(3) by (simp add: life_inv_def)
qed

theorem message_evolution_witness: "\<exists>m' \<in> set (messages (db chat_world)). advances (hd (messages (db chat_world))) m'"
  using message_evolution[OF chat_reachable reachable.reach_init, of "hd (messages (db chat_world))"] chat_nonempty by simp

subsection \<open>The auto-delete worker\<close>

lemma worker_publish_env: "\<exists>w'. worker_publishNotification ids r w = (Inr (), w') \<and> db w' = db w \<and> same_env w w'"
  by (simp add: worker_publishNotification_def NewNotification_def Publish_def AddPayloadField_def ignoreE_def catchE_def
      bindE_def thenE_def returnE_def throwE_def new_uuid_def)

text \<open>A step that always returns, leaves the tables alone and publishes nothing.\<close>

definition inert :: "('db, 'a) M \<Rightarrow> bool" where
  "inert m = (\<forall>w. \<exists>a w'. m w = (Inr a, w') \<and> db w' = db w \<and> same_env w w')"

lemma inert_forE: "(\<And>x. inert (f x)) \<Longrightarrow> inert (forE xs f)"
proof (induction xs)
  case Nil then show ?case by (simp add: inert_def returnE_def)
next
  case (Cons x xs)
  then show ?case unfolding inert_def by (simp add: thenE_def bindE_def) (metis (no_types, lifting) case_prod_conv same_env_trans sum.simps(6))
qed

lemma wp_inert_step: "inert m \<Longrightarrow> (\<And>a w'. db w' = db w \<Longrightarrow> same_env w w' \<Longrightarrow> Q a w') \<Longrightarrow> wp m Q E w"
  unfolding inert_def wp_def by (metis (no_types, lifting) case_prod_conv sum.simps(6))

definition notify_reasons :: "Message list \<Rightarrow> (message_db, unit) M" where
  "notify_reasons ms = forE [''auto_delete'', ''burn_after_reading'', ''both''] (\<lambda>reason.
     let ids = map m_MessageID (filter (\<lambda>m. inferDeleteReason m = reason) ms) in
     if ids = [] then returnE () else worker_publishNotification ids reason)"

lemma inert_notify: "inert (notify_reasons ms)"
  unfolding notify_reasons_def Let_def
  by (rule inert_forE) (use worker_publish_env in \<open>auto simp: inert_def returnE_def\<close>)

lemma count_update_less:
  assumes "\<And>m. p m \<Longrightarrow> \<not> q (f m)" "x \<in> set rows" "p x" "q x"
  shows "count_where q (update_where p f rows) < count_where q rows"
proof -
  have le: "count_where q (update_where p f ys) \<le> count_where q ys" for ys
    using assms(1) by (induction ys) (auto simp: count_where_def update_where_def)
  show ?thesis using assms(2)
  proof (induction rows)
    case (Cons y ys)
    then show ?case using le[of ys] assms(1,3,4) by (auto simp: count_where_def update_where_def)
  qed simp
qed

definition sweep :: "string list \<Rightarrow> int \<Rightarrow> message_db \<Rightarrow> message_db" where
  "sweep ids at d = d\<lparr>messages := update_where (\<lambda>m. m_MessageID m \<in> set ids)
     (\<lambda>m. m\<lparr>m_Status := 2, m_UpdatedAt := at\<rparr>) (messages d)\<rparr>"

lemma set_expired_batch: "m \<in> set (expired_batch t n d) \<Longrightarrow> m \<in> set (messages d) \<and> expired t m"
  unfolding expired_batch_def by (metis (no_types, lifting) in_set_takeD mem_Collect_eq set_select_where)

lemma sweep_count:
  assumes "expired_batch t n d \<noteq> []"
  shows "count_where (expired t) (messages (sweep (map m_MessageID (expired_batch t n d)) at d)) <
    count_where (expired t) (messages d)"
proof -
  obtain x where x: "x \<in> set (expired_batch t n d)" using assms by (cases "expired_batch t n d") auto
  have "count_where (expired t) (update_where (\<lambda>m. m_MessageID m \<in> set (map m_MessageID (expired_batch t n d)))
      (\<lambda>m. m\<lparr>m_Status := 2, m_UpdatedAt := at\<rparr>) (messages d)) < count_where (expired t) (messages d)"
    by (rule count_update_less[of _ _ _ x]) (use x set_expired_batch[OF x] in \<open>auto simp: expired_def\<close>)
  then show ?thesis by (simp add: sweep_def)
qed

text \<open>One round of the worker.\<close>

lemma wp_cleanup_round:
  assumes stop: "\<And>w'. stop (tick w) \<or> expired_batch t n (db w) = [] \<Longrightarrow> db w' = db w \<Longrightarrow> same_env w w' \<Longrightarrow> Q True w'"
    and failed: "\<And>w' x y. fault w x = Some y \<Longrightarrow> db w' = db w \<Longrightarrow> same_env w w' \<Longrightarrow> Q True w'"
    and round: "\<And>w' at. \<not> stop (tick w) \<Longrightarrow> expired_batch t n (db w) \<noteq> [] \<Longrightarrow>
      db w' = sweep (map m_MessageID (expired_batch t n (db w))) at (db w) \<Longrightarrow> same_env w w' \<Longrightarrow>
      wp (cleanupLoop fuel stop t n) Q (\<lambda>_ _. False) w'"
  shows "wp (cleanupLoop (Suc fuel) stop t n) Q (\<lambda>_ _. False) w"
proof -
  have pub: "wp (notify_reasons ms) (\<lambda>_. wp (cleanupLoop fuel stop t n) Q (\<lambda>_ _. False)) (\<lambda>_ _. False) w'"
    if "\<not> stop (tick w)" "expired_batch t n (db w) \<noteq> []"
      "db w' = sweep (map m_MessageID (expired_batch t n (db w))) at (db w)" "same_env w w'" for ms w' at
    using that by (intro wp_inert_step[OF inert_notify] round) (auto intro: same_env_trans)
  show ?thesis
    unfolding cleanupLoop.simps notify_reasons_def[symmetric]
    by (cases "stop (tick w)")
       (auto simp: wp_simps stop messageRepo_GetExpiredMessages_def messageRepo_BatchUpdateStatus_def attemptE_def sweep_def
        split: option.split intro: failed stop intro!: pub[unfolded sweep_def])
qed

text \<open>C14: a run of the auto-delete worker comes to an end, however many messages have expired, whatever
  fails and whenever it is stopped: one round more than there are expired messages is enough.\<close>

theorem cleanup_terminates:
  assumes "count_where (expired (clock w (tick w))) (messages (db w)) < fuel"
  shows "\<exists>w'. cleanup fuel stop batchSize w = (Inr True, w')"
proof -
  have loop: "wp (cleanupLoop fuel stop t batchSize) (\<lambda>r _. r) (\<lambda>_ _. False) w"
    if "count_where (expired t) (messages (db w)) < fuel" for t w
    using that
  proof (induction fuel arbitrary: w)
    case (Suc fuel)
    show ?case
    proof (rule wp_cleanup_round)
      fix w' :: "message_db world" and at
      assume "expired_batch t batchSize (db w) \<noteq> []"
        "db w' = sweep (map m_MessageID (expired_batch t batchSize (db w))) at (db w)"
      then show "wp (cleanupLoop fuel stop t batchSize) (\<lambda>r _. r) (\<lambda>_ _. False) w'"
        using Suc.prems sweep_count[of t batchSize "db w" at] by (intro Suc.IH) simp
    qed simp_all
  qed simp
  have "wp (cleanupLoop fuel stop (clock w (tick w)) batchSize) (\<lambda>r _. r) (\<lambda>_ _. False) (bump w)"
    by (rule loop) (use assms in simp)
  from wp_total[OF this] show ?thesis by (auto simp: cleanup_def bindE_def now_def)
qed

text \<open>A state with one expired message, seen by a clock that has moved on.\<close>

definition late_world :: "message_db world" where
  "late_world = (init_world (db (run_ops (message_step chat) [OpSendMessage ''ann'' (hello ''1'')]
     (init_world empty_message_db))))\<lparr>clock := \<lambda>_. 1000000000000\<rparr>"

lemma late_world_simps [simp]:
  "clock late_world n = 1000000000000" "healthy late_world" "outbox late_world = []"
  by (simp_all add: late_world_def init_world_def healthy_def)

lemma late_reachable: "reachable (message_step chat) any_op empty_message_db (db late_world)"
  unfolding late_world_def by simp (rule run_ops_reachable, simp_all add: reachable.reach_init any_op_def)

lemma late_expired: "map (expired 1000000000000) (messages (db late_world)) = [True]"
  by code_simp

lemma late_count: "count_where (expired 1000000000000) (messages (db late_world)) = 1"
  using late_expired by (auto simp: count_where_def Cons_eq_map_conv map_eq_Cons_conv)

theorem cleanup_terminates_witness: "\<exists>w'. cleanup 3 (\<lambda>_. False) 100 late_world = (Inr True, w')"
  using cleanup_terminates[of late_world 3] late_count by simp

definition swept :: "int \<Rightarrow> Message \<Rightarrow> Message \<Rightarrow> bool" where
  "swept t m m' = (if expired t m then m_Status m' = MessageStatusDeleted \<and> advances m m' else m' = m)"

lemma expired_batch_empty: "0 < n \<Longrightarrow> expired_batch t n d = [] \<Longrightarrow> m \<in> set (messages d) \<Longrightarrow> \<not> expired t m"
  unfolding expired_batch_def by (metis (no_types, lifting) empty_iff empty_set mem_Collect_eq nat_0_iff not_le set_select_where take_eq_Nil)

lemma sweep_swept:
  assumes "status_inv d" "list_all2 (swept t) (messages (sweep (map m_MessageID (expired_batch t n d)) at d)) ms"
  shows "list_all2 (swept t) (messages d) ms"
proof -
  let ?ids = "set (map m_MessageID (expired_batch t n d))" and ?f = "\<lambda>m. m\<lparr>m_Status := 2, m_UpdatedAt := at\<rparr>"
  have hit: "expired t m" if m: "m \<in> set (messages d)" "m_MessageID m \<in> ?ids" for m
  proof -
    obtain x where x: "x \<in> set (expired_batch t n d)" "m_MessageID x = m_MessageID m" using m(2) by auto
    then show ?thesis using m(1) assms(1) set_expired_batch[OF x(1)] message_by_id[of d x m] by (simp add: status_inv_def)
  qed
  have adv: "advances m (?f m)" if "m \<in> set (messages d)" for m
    using that assms(1) by (intro deleting_advances) (simp add: status_inv_def)
  have "list_all2 (\<lambda>m m'. swept t (if m_MessageID m \<in> ?ids then ?f m else m) m') (messages d) ms"
    using assms(2) by (simp add: sweep_def update_where_def list_all2_map1)
  then show ?thesis
    by (rule list.rel_mono_strong) (use hit adv in \<open>auto simp: swept_def expired_def split: if_splits\<close>)
qed

lemma cleanup_sweep_loop:
  assumes "status_inv (db w)" "healthy w" "0 < n" "count_where (expired t) (messages (db w)) < fuel"
  shows "wp (cleanupLoop fuel (\<lambda>_. False) t n) (\<lambda>r w'. r \<and> outbox w' = outbox w \<and>
      list_all2 (swept t) (messages (db w)) (messages (db w'))) (\<lambda>_ _. False) w"
  using assms
proof (induction fuel arbitrary: w)
  case (Suc fuel)
  have f: "fault w x = None" for x using Suc.prems(2) by (rule healthy_fault)
  show ?case
  proof (rule wp_cleanup_round)
    fix w' :: "message_db world"
    assume "False \<or> expired_batch t n (db w) = []" "db w' = db w" "same_env w w'"
    then show "True \<and> outbox w' = outbox w \<and> list_all2 (swept t) (messages (db w)) (messages (db w'))"
      using expired_batch_empty[OF Suc.prems(3), of t "db w"]
      by (auto simp: same_env_def swept_def intro!: list.rel_refl_strong)
  next
    fix w' :: "message_db world" and at
    let ?ids = "map m_MessageID (expired_batch t n (db w))"
    assume ne: "expired_batch t n (db w) \<noteq> []" and w': "db w' = sweep ?ids at (db w)" and env: "same_env w w'"
    have "life_inv empty_message_db (sweep ?ids at (db w))"
      unfolding sweep_def using Suc.prems(1)
      by (intro life_update) (auto simp: life_inv_def status_inv_def same_identity_def empty_message_db_def intro!: deleting_advances)
    then have "wp (cleanupLoop fuel (\<lambda>_. False) t n) (\<lambda>r w''. r \<and> outbox w'' = outbox w' \<and>
        list_all2 (swept t) (messages (db w')) (messages (db w''))) (\<lambda>_ _. False) w'"
      using Suc.prems sweep_count[OF ne, of at] w' env
      by (intro Suc.IH) (auto simp: life_inv_def same_env_def healthy_def)
    then show "wp (cleanupLoop fuel (\<lambda>_. False) t n) (\<lambda>r w'. r \<and> outbox w' = outbox w \<and>
        list_all2 (swept t) (messages (db w)) (messages (db w'))) (\<lambda>_ _. False) w'"
      by (rule wp_mono) (use env w' sweep_swept[OF Suc.prems(1)] in \<open>auto simp: same_env_def\<close>)
  qed (simp add: f)
qed simp

text \<open>C15: in a healthy world a run of the auto-delete worker marks exactly the messages deleted that have
  expired when it starts and are neither recalled nor deleted; every other message is untouched.  It
  publishes nothing: the worker's notifications have no recipient and are refused by the broker.\<close>

theorem cleanup_sweeps:
  assumes "reachable (message_step s) any_op empty_message_db (db w)" "healthy w" "0 < batchSize"
    and "count_where (expired (clock w (tick w))) (messages (db w)) < fuel"
  shows "\<exists>w'. cleanup fuel (\<lambda>_. False) batchSize w = (Inr True, w') \<and> outbox w' = outbox w \<and>
    list_all2 (swept (clock w (tick w))) (messages (db w)) (messages (db w'))"
proof -
  have "status_inv (db (bump w))" using message_life.reachable_inv[OF assms(1)] by (simp add: life_inv_def)
  from wp_total[OF cleanup_sweep_loop[OF this, of batchSize "clock w (tick w)" fuel]] assms
  show ?thesis by (auto simp: cleanup_def bindE_def now_def)
qed

theorem cleanup_sweeps_witness:
  "\<exists>w'. cleanup 3 (\<lambda>_. False) 100 late_world = (Inr True, w') \<and> map m_Status (messages (db w')) = [2] \<and> outbox w' = []"
proof -
  obtain w' where w': "cleanup 3 (\<lambda>_. False) 100 late_world = (Inr True, w')" "outbox w' = []"
      "list_all2 (swept 1000000000000) (messages (db late_world)) (messages (db w'))"
    using cleanup_sweeps[OF late_reachable, of 100 3] late_count by auto
  moreover have "map m_Status (messages (db w')) = [2]"
    using w'(3) late_expired by (auto simp: map_eq_Cons_conv list_all2_Cons1 swept_def)
  ultimately show ?thesis by (intro exI[of _ w'] conjI)
qed

subsection \<open>The pages of members\<close>

text \<open>The bound on the pages is enough: a group that never reports more than \<open>100 * n\<close> members is read with
  \<open>n\<close> pages, so the loop of the source ends there, with the answer it has whatever larger bound is chosen.\<close>

lemma memberPages_enough:
  assumes "\<And>k i ms total. gc_GetGroupMembers client k g u i = Inr (ms, total) \<Longrightarrow> total \<le> 100 * int n"
    and "1 \<le> page" "int n - page + 1 \<le> int fuel" "0 < fuel"
  shows "memberPages client u g ex (fuel + extra_fuel) page seen = memberPages client u g ex fuel page seen"
  using assms(2-)
proof (induction fuel arbitrary: page seen)
  case (Suc fuel)
  show ?case
  proof (rule ext)
    fix w
    have "memberPages client u g ex (fuel + extra_fuel) (page + 1) seen' = memberPages client u g ex fuel (page + 1) seen'"
      if "gc_GetGroupMembers client k g u page = Inr (ms, total)" "\<not> page * 100 \<ge> total" for seen' k ms total
    proof -
      have "int n > page" using assms(1)[OF that(1)] that(2) by linarith
      then have "0 < fuel" "int n - (page + 1) + 1 \<le> int fuel" using Suc.prems by linarith+
      then show ?thesis using Suc.IH[of "page + 1" seen'] Suc.prems(1) by simp
    qed
    then show "memberPages client u g ex (Suc fuel + extra_fuel) page seen w = memberPages client u g ex (Suc fuel) page seen w"
      by (auto simp: bindE_def rpc_def orE_def catchE_def throwE_def Let_def split: sum.split err.split)
  qed
qed simp

lemma enough_pages_return:
  assumes "\<And>k i ms total. gc_GetGroupMembers client k g u i = Inr (ms, total) \<Longrightarrow> total \<le> 100 * int n"
    and "1 \<le> page" "int n - page + 1 \<le> int fuel" "0 < fuel"
  shows "fst (memberPages client u g ex fuel page seen w) \<noteq> Inl out_of_pages"
  using assms(2-)
proof (induction fuel arbitrary: page seen w)
  case (Suc fuel)
  have rest: "fst (memberPages client u g ex fuel (page + 1) seen' w') \<noteq> Inl out_of_pages"
    if "gc_GetGroupMembers client k g u page = Inr (ms, total)" "\<not> page * 100 \<ge> total" for seen' k ms total w'
  proof -
    have "int n > page" using assms(1)[OF that(1)] that(2) by linarith
    then have "0 < fuel" "int n - (page + 1) + 1 \<le> int fuel" using Suc.prems by linarith+
    then show ?thesis using Suc.IH[of "page + 1" seen' w'] Suc.prems(1) by simp
  qed
  have other: "errInternal msg \<noteq> out_of_pages" for msg by (simp add: errInternal_def out_of_pages_def NewBusiness_def Let_def)
  show ?case
    using rest other
    by (auto simp: bindE_def rpc_def orE_def catchE_def throwE_def returnE_def Let_def split: sum.split err.split)
qed simp

end
