(* ===== verification/Message_Window.thy ===== *)
theory Message_Window
  imports Message_Send "HOL-Library.Multiset"
begin

text \<open>
  Reading around an anchor.  The table keeps a conversation in the order of its numbers, so a page of
  the database, read downwards from the anchor and reversed, is the end of the list of the earlier
  messages.
\<close>

definition shown :: "string \<Rightarrow> Message \<Rightarrow> bool" where
  "shown c m = (m_ConversationID m = c \<and> m_Status m = MessageStatusNormal)"

text \<open>The last \<open>k\<close> elements of a list.\<close>

definition last_of :: "nat \<Rightarrow> 'a list \<Rightarrow> 'a list" where
  "last_of k xs = drop (length xs - k) xs"

lemma shown_sorted:
  assumes "seq_inv d" "\<And>m. p m \<Longrightarrow> m_ConversationID m = c"
  shows "sorted_wrt (<) (map m_Sequence (filter p (messages d)))"
proof -
  have "sorted_wrt (<) (sent_seqs d c)" using assms(1) by (simp add: seq_inv_def)
  moreover have "filter p (messages d) = filter p (filter (\<lambda>m. m_ConversationID m = c) (messages d))"
    using assms(2) by (auto intro: filter_cong)
  ultimately show ?thesis unfolding sent_seqs_def sorted_wrt_map by (simp only: sorted_wrt_filter)
qed

lemma select_ascending:
  assumes "sorted_wrt (<) (map f (filter p rows))"
  shows "select_where p f rows = filter p rows" "select_where p (\<lambda>m. - f m :: int) rows = rev (filter p rows)"
proof -
  have inj: "inj_on f (set (filter p rows))"
    using assms strict_sorted_iff by (metis distinct_map)
  have "sorted (map f (filter p rows))" using assms strict_sorted_imp_sorted by blast
  then show "select_where p f rows = filter p rows"
    unfolding select_where_def by (intro sort_key_inj_key_eq refl inj)
  have "sorted (map (\<lambda>m. - f m) (rev (filter p rows)))"
    using assms by (simp add: rev_map[symmetric] sorted_wrt_rev sorted_wrt_map) (auto elim: sorted_wrt_mono_rel[rotated])
  then show "select_where p (\<lambda>m. - f m) rows = rev (filter p rows)"
    unfolding select_where_def by (intro sort_key_inj_key_eq) (use inj in \<open>auto simp: inj_on_def\<close>)
qed

text \<open>Reading one row more than asked for tells whether there are more.\<close>

lemma cut_last:
  assumes "0 < k"
  shows "(case cut k (take (nat (k + 1)) (rev xs)) of (ms, b) \<Rightarrow> (rev ms, b)) = (last_of (nat k) xs, length xs > nat k)"
proof -
  have "nat (k + 1) = Suc (nat k)" using assms by simp
  moreover have "int (length xs) > k \<longleftrightarrow> length xs > nat k" using assms by linarith
  ultimately show ?thesis
    using assms by (auto simp: cut_def last_of_def rev_take min_def)
qed

lemma fetchBeforeMessages_run:
  assumes "seq_inv (db w)" "healthy w" "0 < q" "0 < k"
  shows "fetchBeforeMessages c q k w =
    (let xs = filter (\<lambda>m. shown c m \<and> (q = 1 \<or> m_Sequence m < q)) (messages (db w))
     in (Inr (last_of (nat k) xs, length xs > nat k), bump w))"
proof -
  let ?p = "\<lambda>m. shown c m \<and> (q = 1 \<or> m_Sequence m < q)"
  have eq: "(\<lambda>m. m_ConversationID m = c \<and> m_Status m = MessageStatusNormal \<and> ((0::int) > 0 \<longrightarrow> m_Sequence m \<ge> 0) \<and>
      (q - 1 > 0 \<longrightarrow> m_Sequence m \<le> q - 1)) = ?p"
    using assms(3) by (auto simp: shown_def fun_eq_iff)
  have win: "conversation_window c 0 (q - 1) (k + 1) True (db w) = take (nat (k + 1)) (rev (filter ?p (messages (db w))))"
    using select_ascending(2)[OF shown_sorted[OF assms(1), of ?p c]] assms(4) eq
    by (simp add: conversation_window_def Let_def shown_def)
  show ?thesis
    using assms win cut_last[OF assms(4), of "filter ?p (messages (db w))"]
    by (simp add: fetchBeforeMessages_def messageRepo_GetByConversation_def orE_def catchE_def bindE_def run_query
        returnE_def Let_def split: prod.splits)
qed

text \<open>A request for the messages before an anchor that is served: the conversation is known, the anchor is
  one of its messages and has neither been recalled nor deleted.\<close>

definition anchored :: "messageServiceImpl \<Rightarrow> string \<Rightarrow> string \<Rightarrow> Message \<Rightarrow> message_db world \<Rightarrow> bool" where
  "anchored s u c a w = (healthy w \<and> u \<noteq> '''' \<and> c \<noteq> '''' \<and> m_MessageID a \<noteq> '''' \<and> a \<in> set (messages (db w)) \<and> shown c a \<and>
     (case ms_conversationClient s of None \<Rightarrow> False | Some get \<Rightarrow> (case get (tick w) c of Inl _ \<Rightarrow> False | Inr _ \<Rightarrow> True)))"

lemma GetMessagesBefore_run:
  assumes inv: "send_inv (db w)" and a: "anchored s u c a w"
  shows "fst (GetMessagesBefore s u c (m_MessageID a) limit w) =
    (let k = nat (normalizeAnchorWindowLimit limit);
         xs = filter (\<lambda>m. shown c m \<and> (m_Sequence a = 1 \<or> m_Sequence m < m_Sequence a)) (messages (db w))
     in Inr (map modelToProto (last_of k xs), length xs > k))"
proof -
  have st: "m_Status x \<noteq> MessageStatusDeleted" if "x \<in> set (messages (db w))" "m_MessageID x = m_MessageID a" for x
  proof -
    have "x = a" using message_by_id[OF inv _ that(1), of a] that(2) a by (simp add: anchored_def)
    then show ?thesis using a by (simp add: anchored_def shown_def)
  qed
  have find: "first_where (\<lambda>m. m_MessageID m = m_MessageID a \<and> m_Status m \<noteq> MessageStatusDeleted) m_ID (messages (db w)) = Some a"
    by (rule first_where_unique[of m_MessageID])
       (use inv a in \<open>auto dest: st simp: send_inv_def once_inv_def anchored_def shown_def\<close>)
  have anchor: "getAnchorMessage c (m_MessageID a) w' = (Inr a, bump w')" if "healthy w'" "db w' = db w" for w'
    using find that a by (simp add: getAnchorMessage_def messageRepo_GetByMessageID_def catchE_def bindE_def run_find thenE_def
        guardE_def returnE_def anchored_def shown_def)
  have access: "ensureConversationAccessible s u c w = (Inr (), bump w)"
    using a by (auto simp: anchored_def ensureConversationAccessible_def getConversation_def orE_def catchE_def rpc_def
        thenE_def bindE_def returnE_def split: option.splits sum.splits)
  have "m_Sequence a \<in> set (sent_seqs (db w) c)" using a by (auto simp: sent_seqs_def anchored_def shown_def)
  then have "0 < m_Sequence a" using inv by (simp add: send_inv_def seq_inv_def)
  moreover have "0 < normalizeAnchorWindowLimit limit" by (simp add: normalizeAnchorWindowLimit_def)
  ultimately have fetch: "fetchBeforeMessages c (m_Sequence a) (normalizeAnchorWindowLimit limit) (bump (bump w)) =
    (let k = nat (normalizeAnchorWindowLimit limit);
         xs = filter (\<lambda>m. shown c m \<and> (m_Sequence a = 1 \<or> m_Sequence m < m_Sequence a)) (messages (db w))
     in (Inr (last_of k xs, length xs > k), bump (bump (bump w))))"
    using fetchBeforeMessages_run[of "bump (bump w)"] inv a by (simp add: send_inv_def anchored_def Let_def)
  show ?thesis
    using access anchor[of "bump w"] fetch a
    by (simp add: GetMessagesBefore_def requireAnchor_def thenE_def bindE_def guardE_def returnE_def anchored_def Let_def)
qed

text \<open>C16: the messages before an anchor other than the first message are exactly the visible messages of
  the conversation with smaller numbers, the last ones up to the limit, in ascending order, together
  with whether there are more.\<close>

theorem GetMessagesBefore_window:
  assumes "reachable (message_step s) any_op empty_message_db (db w)" "anchored s u c a w" "m_Sequence a \<noteq> 1"
  shows "fst (GetMessagesBefore s u c (m_MessageID a) limit w) =
    (let k = nat (normalizeAnchorWindowLimit limit);
         xs = filter (\<lambda>m. shown c m \<and> m_Sequence m < m_Sequence a) (messages (db w))
     in Inr (map modelToProto (last_of k xs), length xs > k))"
  using GetMessagesBefore_run[OF message_sending.reachable_inv[OF assms(1)] assms(2), of limit] assms(3) by simp

text \<open>For the first message of a conversation as anchor the lower bound is lost: instead of no message
  the answer is the newest messages of the conversation, the anchor and later ones among them.\<close>

theorem GetMessagesBefore_first:
  assumes "reachable (message_step s) any_op empty_message_db (db w)" "anchored s u c a w" "m_Sequence a = 1"
  shows "fst (GetMessagesBefore s u c (m_MessageID a) limit w) =
    (let k = nat (normalizeAnchorWindowLimit limit); xs = filter (shown c) (messages (db w))
     in Inr (map modelToProto (last_of k xs), length xs > k))"
  using GetMessagesBefore_run[OF message_sending.reachable_inv[OF assms(1)] assms(2), of limit] assms(3) by simp

subsection \<open>Concrete anchors\<close>

lemma chat_messages: "map (\<lambda>m. (m_ConversationID m, m_Status m, m_Sequence m)) (messages (db chat_world)) =
    [(''ann-bob'', 0, 1), (''ann-bob'', 0, 2)]"
  by code_simp

definition chat_view :: "message_db world" where
  "chat_view = init_world (db chat_world)"

lemma chat_view_db [simp]: "db chat_view = db chat_world"
  by (simp add: chat_view_def)

lemma chat_anchored:
  assumes "a \<in> set (messages (db chat_world))"
  shows "anchored chat ''bob'' ''ann-bob'' a chat_view"
proof -
  have "m_MessageID a \<noteq> ''''"
    using message_id_nonempty[OF message_sending.reachable_inv[OF chat_reachable] assms] .
  moreover have "shown ''ann-bob'' a" using assms chat_messages by (auto simp: shown_def map_eq_Cons_conv)
  ultimately show ?thesis
    using assms by (simp add: anchored_def chat_view_def chat_def)
qed

theorem GetMessagesBefore_window_witness:
  "\<exists>a \<in> set (messages (db chat_world)). \<exists>p. fst (GetMessagesBefore chat ''bob'' ''ann-bob'' (m_MessageID a) 20 chat_view) = Inr ([p], False) \<and> pb_Seq p = 1"
proof -
  obtain m1 m2 where ms: "messages (db chat_world) = [m1, m2]" "m_Sequence m1 = 1" "m_Sequence m2 = 2" "shown ''ann-bob'' m1" "shown ''ann-bob'' m2"
    using chat_messages by (auto simp: shown_def map_eq_Cons_conv)
  have "fst (GetMessagesBefore chat ''bob'' ''ann-bob'' (m_MessageID m2) 20 chat_view) = Inr ([modelToProto m1], False)"
    using GetMessagesBefore_window[of chat chat_view "''bob''" "''ann-bob''" m2 20] chat_reachable chat_anchored[of m2] ms
    by (simp add: normalizeAnchorWindowLimit_def last_of_def)
  then show ?thesis using ms by (auto simp: modelToProto_def)
qed

theorem GetMessagesBefore_first_witness:
  "\<exists>a \<in> set (messages (db chat_world)). \<exists>ps. fst (GetMessagesBefore chat ''bob'' ''ann-bob'' (m_MessageID a) 20 chat_view) = Inr (ps, False) \<and>
     map pb_Seq ps = [1, 2] \<and> m_Sequence a = 1"
proof -
  obtain m1 m2 where ms: "messages (db chat_world) = [m1, m2]" "m_Sequence m1 = 1" "m_Sequence m2 = 2" "shown ''ann-bob'' m1" "shown ''ann-bob'' m2"
    using chat_messages by (auto simp: shown_def map_eq_Cons_conv)
  have "fst (GetMessagesBefore chat ''bob'' ''ann-bob'' (m_MessageID m1) 20 chat_view) = Inr (map modelToProto [m1, m2], False)"
    using GetMessagesBefore_first[of chat chat_view "''bob''" "''ann-bob''" m1 20] chat_reachable chat_anchored[of m1] ms
    by (simp add: normalizeAnchorWindowLimit_def last_of_def)
  then show ?thesis using ms by (auto simp: modelToProto_def)
qed

end
