(* ===== verification/Message_Handler.thy ===== *)
theory Message_Handler
  imports Message
begin

text \<open>
  The gRPC handlers of the message service (\<open>internal/handler/message_handler.go\<close>).  A handler takes the
  user from the metadata where the source does, refuses malformed requests and translates the service's
  error into a status.  \<open>GetMessages\<close>, \<open>GetMessageById\<close> and \<open>GetConversationSequence\<close> look at nobody's
  identity.
\<close>

definition MessageHandler_SendMessage :: "ctx \<Rightarrow> messageServiceImpl \<Rightarrow> SendMessageRequest \<Rightarrow> (message_db, pbMessage) M" where
  "MessageHandler_SendMessage ctx s req =
     bindE (MustGetUserID ctx) (\<lambda>userID.
     if userID = '''' then badRequestE ''sender_id is required''
     else if sm_ConversationId req = '''' then badRequestE ''conversation_id is required''
     else if sm_ContentType req = 0 then badRequestE ''content_type is required''
     else if sm_Content req = '''' then badRequestE ''content is required''
     else if sm_LocalId req = '''' then badRequestE ''local_id is required''
     else convertE (SendMessage s userID req))"

definition MessageHandler_GetMessages :: "string \<Rightarrow> int \<Rightarrow> (message_db, pbMessage list \<times> bool) M" where
  "MessageHandler_GetMessages conversationId limit =
     (if conversationId = '''' then badRequestE ''conversation_id is required''
     else convertE (GetMessages conversationId limit))"

definition MessageHandler_GetMessagesBefore :: "ctx \<Rightarrow> messageServiceImpl \<Rightarrow> string \<Rightarrow> string \<Rightarrow> int \<Rightarrow> (message_db, pbMessage list \<times> bool) M" where
  "MessageHandler_GetMessagesBefore ctx s conversationId anchorMessageId limit =
     bindE (MustGetUserID ctx) (\<lambda>userID.
     if conversationId = '''' then badRequestE ''conversation_id is required''
     else if anchorMessageId = '''' then badRequestE ''anchor_message_id is required''
     else if userID = '''' then badRequestE ''x-user-id metadata is required''
     else convertE (GetMessagesBefore s userID conversationId anchorMessageId limit))"

definition MessageHandler_GetMessagesAfter :: "ctx \<Rightarrow> messageServiceImpl \<Rightarrow> string \<Rightarrow> string \<Rightarrow> int \<Rightarrow> (message_db, pbMessage list \<times> bool) M" where
  "MessageHandler_GetMessagesAfter ctx s conversationId anchorMessageId limit =
     bindE (MustGetUserID ctx) (\<lambda>userID.
     if conversationId = '''' then badRequestE ''conversation_id is required''
     else if anchorMessageId = '''' then badRequestE ''anchor_message_id is required''
     else if userID = '''' then badRequestE ''x-user-id metadata is required''
     else convertE (GetMessagesAfter s userID conversationId anchorMessageId limit))"

definition MessageHandler_GetMessagesAroundAnchor :: "ctx \<Rightarrow> messageServiceImpl \<Rightarrow> string \<Rightarrow> string \<Rightarrow> int \<Rightarrow> int \<Rightarrow> (message_db, pbMessage list \<times> bool \<times> bool) M" where
  "MessageHandler_GetMessagesAroundAnchor ctx s conversationId anchorMessageId before after =
     bindE (MustGetUserID ctx) (\<lambda>userID.
     if conversationId = '''' then badRequestE ''conversation_id is required''
     else if anchorMessageId = '''' then badRequestE ''anchor_message_id is required''
     else if userID = '''' then badRequestE ''x-user-id metadata is required''
     else convertE (GetMessagesAroundAnchor s userID conversationId anchorMessageId before after))"

definition MessageHandler_GetFirstUnreadAnchor :: "ctx \<Rightarrow> messageServiceImpl \<Rightarrow> string \<Rightarrow> (message_db, pbMessage option \<times> int) M" where
  "MessageHandler_GetFirstUnreadAnchor ctx s conversationId =
     bindE (MustGetUserID ctx) (\<lambda>userID.
     if conversationId = '''' then badRequestE ''conversation_id is required''
     else if userID = '''' then badRequestE ''x-user-id metadata is required''
     else convertE (GetFirstUnreadAnchor s userID conversationId))"

definition MessageHandler_GetMessageById :: "string \<Rightarrow> (message_db, pbMessage) M" where
  "MessageHandler_GetMessageById messageId =
     (if messageId = '''' then badRequestE ''message_id is required''
     else convertE (GetMessageById messageId))"

definition MessageHandler_RecallMessage :: "ctx \<Rightarrow> messageServiceImpl \<Rightarrow> string \<Rightarrow> (message_db, unit) M" where
  "MessageHandler_RecallMessage ctx s messageId =
     bindE (MustGetUserID ctx) (\<lambda>userID.
     if messageId = '''' then badRequestE ''message_id is required''
     else if userID = '''' then badRequestE ''x-user-id metadata is required''
     else convertE (RecallMessage s messageId userID))"

definition MessageHandler_DeleteMessage :: "ctx \<Rightarrow> messageServiceImpl \<Rightarrow> string \<Rightarrow> (message_db, unit) M" where
  "MessageHandler_DeleteMessage ctx s messageId =
     bindE (MustGetUserID ctx) (\<lambda>userID.
     if messageId = '''' then badRequestE ''message_id is required''
     else if userID = '''' then badRequestE ''x-user-id metadata is required''
     else convertE (DeleteMessage s messageId userID))"

definition MessageHandler_MarkAsRead :: "ctx \<Rightarrow> messageServiceImpl \<Rightarrow> string \<Rightarrow> int option \<Rightarrow> (message_db, unit) M" where
  "MessageHandler_MarkAsRead ctx s conversationId reqLastReadSeq =
     bindE (MustGetUserID ctx) (\<lambda>userID.
     if conversationId = '''' then badRequestE ''conversation_id is required''
     else if userID = '''' then badRequestE ''x-user-id metadata is required''
     else convertE (MarkAsRead s userID conversationId reqLastReadSeq))"

definition MessageHandler_MarkMessagesRead :: "ctx \<Rightarrow> messageServiceImpl \<Rightarrow> string \<Rightarrow> string list \<Rightarrow> (message_db, int \<times> string list) M" where
  "MessageHandler_MarkMessagesRead ctx s conversationId messageIds =
     bindE (MustGetUserID ctx) (\<lambda>userID.
     if conversationId = '''' then badRequestE ''conversation_id is required''
     else if userID = '''' then badRequestE ''x-user-id metadata is required''
     else if messageIds = [] then badRequestE ''message_ids is required''
     else convertE (MarkMessagesRead s userID conversationId messageIds))"

definition MessageHandler_AckReadTriggers :: "ctx \<Rightarrow> string list \<Rightarrow> (message_db, int \<times> string list) M" where
  "MessageHandler_AckReadTriggers ctx events =
     bindE (MustGetUserID ctx) (\<lambda>userID.
     if userID = '''' then badRequestE ''x-user-id metadata is required''
     else if events = [] then badRequestE ''events is required''
     else convertE (AckReadTriggers userID events))"

definition MessageHandler_GetUnreadCount :: "ctx \<Rightarrow> messageServiceImpl \<Rightarrow> string \<Rightarrow> int option \<Rightarrow> (message_db, int) M" where
  "MessageHandler_GetUnreadCount ctx s conversationId reqLastReadSeq =
     bindE (MustGetUserID ctx) (\<lambda>userID.
     if conversationId = '''' then badRequestE ''conversation_id is required''
     else if userID = '''' then badRequestE ''x-user-id metadata is required''
     else convertE (GetUnreadCount s conversationId userID reqLastReadSeq))"

definition MessageHandler_GetReadReceipts :: "ctx \<Rightarrow> messageServiceImpl \<Rightarrow> string \<Rightarrow> (message_db, (string \<times> int) list) M" where
  "MessageHandler_GetReadReceipts ctx s conversationId =
     bindE (MustGetUserID ctx) (\<lambda>userID.
     if conversationId = '''' then badRequestE ''conversation_id is required''
     else if userID = '''' then badRequestE ''x-user-id metadata is required''
     else convertE (GetReadReceipts s conversationId userID))"

definition MessageHandler_GetConversationSequence :: "string \<Rightarrow> (message_db, int) M" where
  "MessageHandler_GetConversationSequence conversationId =
     (if conversationId = '''' then badRequestE ''conversation_id is required''
     else convertE (GetConversationSequence conversationId))"

definition MessageHandler_SearchMessages :: "ctx \<Rightarrow> messageServiceImpl \<Rightarrow> string \<Rightarrow> string option \<Rightarrow> int \<Rightarrow> int \<Rightarrow> (message_db, pbMessage list \<times> int) M" where
  "MessageHandler_SearchMessages ctx s keyword conversationId page pageSize =
     bindE (MustGetUserID ctx) (\<lambda>userID.
     if userID = '''' then badRequestE ''x-user-id metadata is required''
     else if keyword = '''' then badRequestE ''keyword is required''
     else if conversationId = None \<or> conversationId = Some '''' then badRequestE ''conversation_id is required''
     else convertE (SearchMessages s userID keyword conversationId page pageSize))"

definition MessageHandler_SendTyping :: "ctx \<Rightarrow> messageServiceImpl \<Rightarrow> string \<Rightarrow> bool \<Rightarrow> int \<Rightarrow> string \<Rightarrow> (message_db, unit) M" where
  "MessageHandler_SendTyping ctx s conversationId typing ttlSeconds deviceID =
     bindE (MustGetUserID ctx) (\<lambda>userID.
     if userID = '''' then badRequestE ''from_user_id is required''
     else if conversationId = '''' then badRequestE ''conversation_id is required''
     else convertE (SendTyping s userID conversationId typing ttlSeconds deviceID))"

lemmas message_handler_defs = MessageHandler_SendMessage_def
  MessageHandler_GetMessages_def
  MessageHandler_GetMessagesBefore_def
  MessageHandler_GetMessagesAfter_def
  MessageHandler_GetMessagesAroundAnchor_def
  MessageHandler_GetFirstUnreadAnchor_def
  MessageHandler_GetMessageById_def
  MessageHandler_RecallMessage_def
  MessageHandler_DeleteMessage_def
  MessageHandler_MarkAsRead_def
  MessageHandler_MarkMessagesRead_def
  MessageHandler_AckReadTriggers_def
  MessageHandler_GetUnreadCount_def
  MessageHandler_GetReadReceipts_def
  MessageHandler_GetConversationSequence_def
  MessageHandler_SearchMessages_def
  MessageHandler_SendTyping_def

text \<open>Nothing the handlers add touches the tables: a property that the service keeps is kept by the
  requests.\<close>

context sent_property
begin

lemma keeps_handlers:
  "keeps I (MessageHandler_SendMessage ctx s req)"
  "keeps I (MessageHandler_RecallMessage ctx s m)"
  "keeps I (MessageHandler_DeleteMessage ctx s m)"
  "keeps I (MessageHandler_MarkAsRead ctx s c q)"
  "keeps I (MessageHandler_MarkMessagesRead ctx s c ms)"
  "keeps I (MessageHandler_AckReadTriggers ctx es)"
  "keeps I (MessageHandler_SendTyping ctx s c b t d)"
  unfolding message_handler_defs RecallMessage_def DeleteMessage_def MarkMessagesRead_def AckReadTriggers_def
    SendTyping_def Let_def
  by (intro keeps_intros)+

end

end
