(* ===== verification/Cache.thy ===== *)
theory Cache
  imports Metadata
begin

text \<open>
  The Redis client of \<open>pkg/cache/redis.go\<close>.  Every method of \<open>CacheClient\<close> is one Redis command; the
  commands are given here as functions on a store of keys with their values and expiry times, read at
  the time the command runs.  A value is a decimal number (\<open>SETNX\<close>, \<open>INCR\<close>) or a hash.  A field of a
  hash is a text, or the RFC 3339 text of an instant, which is kept as the second it denotes.  The
  locale \<open>redis\<close> states what the clients rely on, its interpretation discharges it for the store.
\<close>

datatype hval = HText string | HTime int

datatype cval = CNum int | CHash "(string \<times> hval) list"

type_synonym cache_store = "(string \<times> cval \<times> int option) list"

definition live_at :: "int \<Rightarrow> int option \<Rightarrow> bool" where
  "live_at t e = (case e of None \<Rightarrow> True | Some x \<Rightarrow> t < x)"

definition stored :: "int \<Rightarrow> string \<Rightarrow> cache_store \<Rightarrow> (cval \<times> int option) option" where
  "stored t key c = (case map_of c key of
       None \<Rightarrow> None
     | Some (v, e) \<Rightarrow> if live_at t e then Some (v, e) else None)"

definition put :: "string \<Rightarrow> cval \<Rightarrow> int option \<Rightarrow> cache_store \<Rightarrow> cache_store" where
  "put key v e c = (key, v, e) # filter (\<lambda>x. fst x \<noteq> key) c"

definition wrong_type :: err where
  "wrong_type = Plain ''WRONGTYPE Operation against a key holding the wrong kind of value''"

subsection \<open>Commands\<close>

definition cache_Del :: "string \<Rightarrow> cache_store \<Rightarrow> cache_store" where
  "cache_Del key c = filter (\<lambda>x. fst x \<noteq> key) c"

definition cache_SetNX :: "int \<Rightarrow> string \<Rightarrow> int \<Rightarrow> int \<Rightarrow> cache_store \<Rightarrow> bool \<times> cache_store" where
  "cache_SetNX t key value expiration c =
     (case stored t key c of
        Some _ \<Rightarrow> (False, c)
      | None \<Rightarrow> (True, put key (CNum value) (if expiration = 0 then None else Some (t + expiration)) c))"

definition cache_Incr :: "int \<Rightarrow> string \<Rightarrow> cache_store \<Rightarrow> err + int \<times> cache_store" where
  "cache_Incr t key c =
     (case stored t key c of
        None \<Rightarrow> Inr (1, put key (CNum 1) None c)
      | Some (CNum n, e) \<Rightarrow> Inr (n + 1, put key (CNum (n + 1)) e c)
      | Some (CHash _, _) \<Rightarrow> Inl wrong_type)"

definition cache_Expire :: "int \<Rightarrow> string \<Rightarrow> int \<Rightarrow> cache_store \<Rightarrow> cache_store" where
  "cache_Expire t key expiration c =
     (case stored t key c of
        None \<Rightarrow> c
      | Some (v, _) \<Rightarrow> if expiration \<le> 0 then cache_Del key c else put key v (Some (t + expiration)) c)"

fun set_fields :: "(string \<times> hval) list \<Rightarrow> (string \<times> hval) list \<Rightarrow> (string \<times> hval) list" where
  "set_fields [] h = h"
| "set_fields ((f, v) # fs) h = set_fields fs (AList.update f v h)"

definition cache_HSet :: "int \<Rightarrow> string \<Rightarrow> (string \<times> hval) list \<Rightarrow> cache_store \<Rightarrow> err + unit \<times> cache_store" where
  "cache_HSet t key fs c =
     (case stored t key c of
        None \<Rightarrow> Inr ((), put key (CHash (set_fields fs [])) None c)
      | Some (CHash h, e) \<Rightarrow> Inr ((), put key (CHash (set_fields fs h)) e c)
      | Some (CNum _, _) \<Rightarrow> Inl wrong_type)"

definition cache_HGetAll :: "int \<Rightarrow> string \<Rightarrow> cache_store \<Rightarrow> err + (string \<times> hval) list" where
  "cache_HGetAll t key c =
     (case stored t key c of
        None \<Rightarrow> Inr []
      | Some (CHash h, _) \<Rightarrow> Inr h
      | Some (CNum _, _) \<Rightarrow> Inl wrong_type)"

definition not_integer :: err where
  "not_integer = Plain ''ERR hash value is not an integer''"

definition cache_HIncrBy :: "int \<Rightarrow> string \<Rightarrow> string \<Rightarrow> int \<Rightarrow> cache_store \<Rightarrow> err + int \<times> cache_store" where
  "cache_HIncrBy t key field incr c =
     (case stored t key c of
        None \<Rightarrow> Inr (incr, put key (CHash [(field, HText (itoa incr))]) None c)
      | Some (CNum _, _) \<Rightarrow> Inl wrong_type
      | Some (CHash h, e) \<Rightarrow>
          (case map_of h field of
             None \<Rightarrow> Inr (incr, put key (CHash (AList.update field (HText (itoa incr)) h)) e c)
           | Some (HTime _) \<Rightarrow> Inl not_integer
           | Some (HText s) \<Rightarrow>
               (case ParseInt s of
                  (_, False) \<Rightarrow> Inl not_integer
                | (n, True) \<Rightarrow> Inr (n + incr, put key (CHash (AList.update field (HText (itoa (n + incr))) h)) e c))))"

subsection \<open>Laws\<close>

lemma stored_put: "stored t k (put key v e c) = (if k = key then (if live_at t e then Some (v, e) else None) else stored t k c)"
proof -
  have "map_of (filter (\<lambda>x. fst x \<noteq> key) c) k = map_of c k" if "k \<noteq> key"
    using that by (induction c) auto
  then show ?thesis by (simp add: stored_def put_def)
qed

lemma stored_Del: "stored t k (cache_Del key c) = (if k = key then None else stored t k c)"
proof -
  have "map_of (filter (\<lambda>x. fst x \<noteq> key) c) k = (if k = key then None else map_of c k)"
    by (induction c) auto
  then show ?thesis by (simp add: stored_def cache_Del_def)
qed

text \<open>What the clients of the cache rely on: a counter that is absent is created with its time to live,
  one that is present is incremented and keeps it, a deleted key is absent, and no command touches
  another key.\<close>

locale redis =
  fixes lookup :: "int \<Rightarrow> string \<Rightarrow> 'c \<Rightarrow> (cval \<times> int option) option"
    and setnx :: "int \<Rightarrow> string \<Rightarrow> int \<Rightarrow> int \<Rightarrow> 'c \<Rightarrow> bool \<times> 'c"
    and incr :: "int \<Rightarrow> string \<Rightarrow> 'c \<Rightarrow> err + int \<times> 'c"
    and del :: "string \<Rightarrow> 'c \<Rightarrow> 'c"
  assumes setnx_present: "lookup t k c = Some x \<Longrightarrow> setnx t k v ttl c = (False, c)"
    and setnx_absent: "lookup t k c = None \<Longrightarrow> 0 < ttl \<Longrightarrow>
      \<exists>c'. setnx t k v ttl c = (True, c') \<and> (\<forall>t'. lookup t' k c' = (if t' < t + ttl then Some (CNum v, Some (t + ttl)) else None))
        \<and> (\<forall>t' k'. k' \<noteq> k \<longrightarrow> lookup t' k' c' = lookup t' k' c)"
    and incr_present: "lookup t k c = Some (CNum n, Some e) \<Longrightarrow>
      \<exists>c'. incr t k c = Inr (n + 1, c') \<and> (\<forall>t'. lookup t' k c' = (if t' < e then Some (CNum (n + 1), Some e) else None))
        \<and> (\<forall>t' k'. k' \<noteq> k \<longrightarrow> lookup t' k' c' = lookup t' k' c)"
    and del_lookup: "lookup t k' (del k c) = (if k' = k then None else lookup t k' c)"
begin

text \<open>One use of a counter with a limit: create or increment it, and delete it when the limit is exceeded.
  Two commands run at two times.\<close>

definition count_use :: "int \<Rightarrow> int \<Rightarrow> int \<Rightarrow> string \<Rightarrow> int \<Rightarrow> 'c \<Rightarrow> bool \<times> 'c" where
  "count_use t1 t2 ttl key limit c =
     (case setnx t1 key 1 ttl c of
        (True, c') \<Rightarrow> if 1 > limit then (False, del key c') else (True, c')
      | (False, c') \<Rightarrow>
          (case incr t2 key c' of
             Inl e \<Rightarrow> (False, c')
           | Inr (n, c'') \<Rightarrow> if n > limit then (False, del key c'') else (True, c'')))"

lemma full_counter_deleted:
  assumes "lookup t1 key c = Some (CNum n, Some e)" "lookup t2 key c = Some (CNum n, Some e)" "1 \<le> limit" "limit \<le> n"
  shows "\<exists>c'. count_use t1 t2 ttl key limit c = (False, c') \<and> (\<forall>t. lookup t key c' = None)"
proof -
  obtain c1 where "incr t2 key c = Inr (n + 1, c1)" using incr_present[OF assms(2)] by blast
  then have "count_use t1 t2 ttl key limit c = (False, del key c1)"
    using setnx_present[OF assms(1)] assms(4) by (simp add: count_use_def)
  then show ?thesis using del_lookup by auto
qed

lemma absent_counter_passes:
  assumes "lookup t1 key c = None" "0 < ttl" "1 \<le> limit"
  shows "fst (count_use t1 t2 ttl key limit c)"
  using setnx_absent[OF assms(1,2), of 1] assms(3) by (auto simp: count_use_def)

end

interpretation store: redis stored cache_SetNX cache_Incr cache_Del
proof
  show "cache_SetNX t k v ttl c = (False, c)" if "stored t k c = Some x" for t k c x v ttl
    using that by (simp add: cache_SetNX_def)
  show "\<exists>c'. cache_SetNX t k v ttl c = (True, c') \<and>
      (\<forall>t'. stored t' k c' = (if t' < t + ttl then Some (CNum v, Some (t + ttl)) else None)) \<and>
      (\<forall>t' k'. k' \<noteq> k \<longrightarrow> stored t' k' c' = stored t' k' c)"
    if "stored t k c = None" "0 < ttl" for t k c ttl v
    using that by (simp add: cache_SetNX_def stored_put live_at_def)
  show "\<exists>c'. cache_Incr t k c = Inr (n + 1, c') \<and>
      (\<forall>t'. stored t' k c' = (if t' < e then Some (CNum (n + 1), Some e) else None)) \<and>
      (\<forall>t' k'. k' \<noteq> k \<longrightarrow> stored t' k' c' = stored t' k' c)"
    if "stored t k c = Some (CNum n, Some e)" for t k c n e
    using that by (simp add: cache_Incr_def stored_put live_at_def)
  show "stored t k' (cache_Del k c) = (if k' = k then None else stored t k' c)" for t k' k c
    by (rule stored_Del)
qed

end
