(* ===== verification/Credentials.thy ===== *)
theory Credentials
  imports Metadata
begin

text \<open>
  What the services check and issue credentials with: the validators of \<open>pkg/validator\<close>, the helpers of
  \<open>pkg/crypto\<close> and the token manager of \<open>pkg/auth\<close>.  The phone-number, JWT and bcrypt libraries and
  the source of random bytes are parameters; the regular expressions of the sources are recognisers.
  The text of a parse error is dropped: every caller replaces it with a business error.
\<close>

subsection \<open>Validators\<close>

text \<open>The operations of the phone-number library: parse for a default region, validity, E164 format,
  the digits of a text.  A parsed number is an opaque text.\<close>

record phone_lib =
  ph_Parse :: "string \<Rightarrow> string \<Rightarrow> string option"
  ph_IsValidNumber :: "string \<Rightarrow> bool"
  ph_Format :: "string \<Rightarrow> string"
  ph_NormalizeDigitsOnly :: "string \<Rightarrow> string"

definition formatValid :: "phone_lib \<Rightarrow> string \<Rightarrow> string option" where
  "formatValid lib raw = (case ph_Parse lib raw ''CN'' of
       None \<Rightarrow> None
     | Some pn \<Rightarrow> if \<not> ph_IsValidNumber lib pn then None else Some (ph_Format lib pn))"

definition NormalizePhone :: "phone_lib \<Rightarrow> string \<Rightarrow> string option" where
  "NormalizePhone lib raw0 =
     (let raw = trim_space raw0 in
      if raw = '''' then None
      else if hd raw = CHR ''+'' then formatValid lib raw
      else let ds = ph_NormalizeDigitsOnly lib raw in
           if ds = '''' then None else formatValid lib ds)"

definition ValidatePhone :: "phone_lib \<Rightarrow> string \<Rightarrow> bool" where
  "ValidatePhone lib phone0 =
     (let phone = trim_space phone0 in
      if phone = '''' then False
      else if hd phone = CHR ''+'' then
        (case ph_Parse lib phone ''CN'' of None \<Rightarrow> False | Some pn \<Rightarrow> ph_IsValidNumber lib pn)
      else (case NormalizePhone lib phone of None \<Rightarrow> False | Some e164 \<Rightarrow> e164 \<noteq> ''''))"

definition is_letter :: "char \<Rightarrow> bool" where
  "is_letter c = ((65 \<le> (of_char c :: nat) \<and> (of_char c :: nat) \<le> 90) \<or>
     (97 \<le> (of_char c :: nat) \<and> (of_char c :: nat) \<le> 122))"

definition local_char :: "char \<Rightarrow> bool" where
  "local_char c = (is_letter c \<or> is_digit c \<or> c \<in> set ''._%+-'')"

definition domain_char :: "char \<Rightarrow> bool" where
  "domain_char c = (is_letter c \<or> is_digit c \<or> c \<in> set ''.-'')"

text \<open>The recogniser of \<open>^[a-zA-Z0-9._%+-]+@[a-zA-Z0-9.-]+\.[a-zA-Z]{2,}$\<close>: the part before the first
  \<open>@\<close>, and the part after it read from its end.\<close>

definition ValidateEmail :: "string \<Rightarrow> bool" where
  "ValidateEmail email =
     (let name = takeWhile (\<lambda>c. c \<noteq> CHR ''@'') email;
          dom = rev (drop (Suc (length name)) email);
          tld = takeWhile is_letter dom;
          rest = dropWhile is_letter dom
      in length name < length email \<and> name \<noteq> '''' \<and> list_all local_char name \<and> 2 \<le> length tld \<and>
         rest \<noteq> '''' \<and> hd rest = CHR ''.'' \<and> tl rest \<noteq> '''' \<and> list_all domain_char (tl rest))"

definition ValidateNickname :: "string \<Rightarrow> bool" where
  "ValidateNickname nickname =
     (if nickname = '''' then False
      else \<not> (rune_count nickname < 1 \<or> rune_count nickname > 20))"

fun contains :: "string \<Rightarrow> string \<Rightarrow> bool" where
  "contains [] sub = (sub = [])"
| "contains (c # cs) sub = (take (length sub) (c # cs) = sub \<or> contains cs sub)"

definition ContainsSensitiveWords :: "string \<Rightarrow> bool" where
  "ContainsSensitiveWords txt =
     (let lowerText = to_lower txt in
      list_ex (\<lambda>word. contains lowerText (to_lower word)) [''admin'', ''system'', ''customer service'', ''official''])"

definition ValidateDeviceType :: "string \<Rightarrow> bool" where
  "ValidateDeviceType deviceType = (deviceType \<in> set [''iOS'', ''Android'', ''Web'', ''PC''])"

definition ValidateGender :: "int \<Rightarrow> bool" where
  "ValidateGender gender = (gender \<ge> 0 \<and> gender \<le> 2)"

definition SanitizeString :: "string \<Rightarrow> string" where
  "SanitizeString str = trim_space str"

subsection \<open>Passwords and random texts\<close>

text \<open>bcrypt: a hash made at a time, which may fail, and the comparison.\<close>

record bcrypt_lib =
  bc_GenerateFromPassword :: "nat \<Rightarrow> string \<Rightarrow> err + string"
  bc_CompareHashAndPassword :: "string \<Rightarrow> string \<Rightarrow> bool"

definition HashPassword :: "bcrypt_lib \<Rightarrow> string \<Rightarrow> ('db, string) M" where
  "HashPassword lib password w = (bc_GenerateFromPassword lib (tick w) password, bump w)"

definition CheckPassword :: "bcrypt_lib \<Rightarrow> string \<Rightarrow> string \<Rightarrow> bool" where
  "CheckPassword lib password hash = bc_CompareHashAndPassword lib hash password"

definition ValidatePasswordStrength :: "string \<Rightarrow> bool" where
  "ValidatePasswordStrength password =
     (if length password < 8 \<or> length password > 32 then False
      else list_ex is_digit password \<and> list_ex is_letter password)"

text \<open>\<open>crypto/rand\<close>: \<open>rs_Read n len\<close> are the bytes read at time \<open>n\<close>, \<open>rs_Int n\<close> the number drawn.\<close>

record rand_source =
  rs_Read :: "nat \<Rightarrow> nat \<Rightarrow> nat list option"
  rs_Int :: "nat \<Rightarrow> nat option"

definition rand_Read :: "rand_source \<Rightarrow> nat \<Rightarrow> ('db, nat list) M" where
  "rand_Read rs len w = (case rs_Read rs (tick w) len of
       None \<Rightarrow> (Inl (Plain ''rand: read failed''), bump w)
     | Some bs \<Rightarrow> (Inr (map (\<lambda>b. b mod 256) (take len (bs @ replicate len 0))), bump w))"

definition hex_digit :: "nat \<Rightarrow> char" where
  "hex_digit n = (if n < 10 then char_of (48 + n) else char_of (87 + n))"

definition hex_encode :: "nat list \<Rightarrow> string" where
  "hex_encode bs = concat (map (\<lambda>b. [hex_digit (b div 16), hex_digit (b mod 16)]) bs)"

definition GenerateRandomString :: "rand_source \<Rightarrow> nat \<Rightarrow> ('db, string) M" where
  "GenerateRandomString rs len =
     bindE (rand_Read rs len) (\<lambda>bytes. returnE (take len (hex_encode bytes)))"

definition GenerateVerifyCode :: "rand_source \<Rightarrow> int \<Rightarrow> ('db, string) M" where
  "GenerateVerifyCode rs len =
     (let n = nat (if len \<le> 0 then 6 else len) in
      mapE (\<lambda>_. bindE (rand_Read rs 1) (\<lambda>b. returnE (''0123456789'' ! (hd b mod 10)))) [0..<n])"

definition GenerateQRCodeToken :: "rand_source \<Rightarrow> string \<Rightarrow> ('db, string) M" where
  "GenerateQRCodeToken rs userID =
     bindE (GenerateRandomString rs 16) (\<lambda>randomStr. returnE (userID @ ''_'' @ randomStr))"

subsection \<open>Tokens\<close>

text \<open>The dates of a claim are whole seconds.\<close>

record Claims =
  cl_UserID :: string
  cl_DeviceID :: string
  cl_DeviceType :: int
  cl_TokenType :: string
  cl_ExpiresAt :: int
  cl_IssuedAt :: int
  cl_NotBefore :: int

text \<open>The JWT library: \<open>SignedString\<close> under the method HS256 with a key, and \<open>ParseWithClaims\<close>, which asks
  its key function for the key of the token's method and answers with the claims and whether the token
  is valid at the time of the call.\<close>

record jwt_lib =
  jl_SignedString :: "string \<Rightarrow> Claims \<Rightarrow> err + string"
  jl_ParseWithClaims :: "int \<Rightarrow> (string \<Rightarrow> err + string) \<Rightarrow> string \<Rightarrow> err + Claims option \<times> bool"

record AuthConf =
  ac_Secret :: string
  ac_AccessTokenExpire :: int
  ac_RefreshTokenExpire :: int

definition NewJWTManager :: "AuthConf \<Rightarrow> err + AuthConf" where
  "NewJWTManager conf =
     (if ac_Secret conf = '''' then Inl (Plain ''jwt secret is required'')
      else if ac_AccessTokenExpire conf \<le> 0 then Inl (Plain ''jwt access_token_expire must be positive'')
      else if ac_RefreshTokenExpire conf \<le> 0 then Inl (Plain ''jwt refresh_token_expire must be positive'')
      else Inr conf)"

definition liftE :: "err + 'a \<Rightarrow> ('db, 'a) M" where
  "liftE r w = (r, w)"

definition signClaims :: "jwt_lib \<Rightarrow> AuthConf \<Rightarrow> string \<Rightarrow> int \<Rightarrow> string \<Rightarrow> string \<Rightarrow> int \<Rightarrow> ('db, string) M" where
  "signClaims lib conf tokenType expire userID deviceID deviceType =
     bindE now (\<lambda>t. liftE (jl_SignedString lib (ac_Secret conf)
       \<lparr>cl_UserID = userID, cl_DeviceID = deviceID, cl_DeviceType = deviceType, cl_TokenType = tokenType,
        cl_ExpiresAt = unix (t + expire), cl_IssuedAt = unix t, cl_NotBefore = unix t\<rparr>))"

definition GenerateAccessToken :: "jwt_lib \<Rightarrow> AuthConf \<Rightarrow> string \<Rightarrow> string \<Rightarrow> int \<Rightarrow> ('db, string) M" where
  "GenerateAccessToken lib conf = signClaims lib conf ''access'' (ac_AccessTokenExpire conf)"

definition GenerateRefreshToken :: "jwt_lib \<Rightarrow> AuthConf \<Rightarrow> string \<Rightarrow> string \<Rightarrow> int \<Rightarrow> ('db, string) M" where
  "GenerateRefreshToken lib conf = signClaims lib conf ''refresh'' (ac_RefreshTokenExpire conf)"

definition ParseToken :: "jwt_lib \<Rightarrow> AuthConf \<Rightarrow> string \<Rightarrow> ('db, Claims) M" where
  "ParseToken lib conf tokenString =
     bindE now (\<lambda>t.
     bindE (liftE (jl_ParseWithClaims lib t (\<lambda>alg.
         if alg \<notin> set [''HS256'', ''HS384'', ''HS512''] then Inl (Plain (''unexpected signing method: '' @ alg))
         else Inr (ac_Secret conf)) tokenString)) (\<lambda>token.
     case token of
       (Some claims, True) \<Rightarrow> returnE claims
     | _ \<Rightarrow> throwE (Plain ''invalid token'')))"

definition ValidateAccessToken :: "jwt_lib \<Rightarrow> AuthConf \<Rightarrow> string \<Rightarrow> ('db, Claims) M" where
  "ValidateAccessToken lib conf tokenString =
     bindE (ParseToken lib conf tokenString) (\<lambda>claims.
     if cl_TokenType claims \<noteq> ''access'' then throwE (Plain ''invalid token type'') else returnE claims)"

definition ValidateRefreshToken :: "jwt_lib \<Rightarrow> AuthConf \<Rightarrow> string \<Rightarrow> ('db, Claims) M" where
  "ValidateRefreshToken lib conf tokenString =
     bindE (ParseToken lib conf tokenString) (\<lambda>claims.
     if cl_TokenType claims \<noteq> ''refresh'' then throwE (Plain ''invalid token type'') else returnE claims)"

subsection \<open>The language of addresses\<close>

lemma local_char_no_at: "local_char c \<Longrightarrow> c \<noteq> CHR ''@''"
  by (auto simp: local_char_def is_letter_def is_digit_def)

lemma takeWhile_stop: "list_all p xs \<Longrightarrow> \<not> p y \<Longrightarrow> takeWhile p (xs @ y # ys) = xs \<and> dropWhile p (xs @ y # ys) = y # ys"
  by (induction xs) auto

text \<open>C25: the address check accepts exactly the language of the regular expression of the source: a
  non-empty name, an at sign, a non-empty domain, a dot and a top-level domain of at least two letters.\<close>

theorem ValidateEmail_language:
  "ValidateEmail email \<longleftrightarrow> (\<exists>name dom tld. email = name @ ''@'' @ dom @ ''.'' @ tld \<and>
     name \<noteq> [] \<and> list_all local_char name \<and> dom \<noteq> [] \<and> list_all domain_char dom \<and> 2 \<le> length tld \<and> list_all is_letter tld)"
    (is "_ \<longleftrightarrow> ?spec")
proof
  assume ok: "ValidateEmail email"
  let ?name = "takeWhile (\<lambda>c. c \<noteq> CHR ''@'') email"
  let ?rdom = "rev (drop (Suc (length ?name)) email)"
  let ?tld = "takeWhile is_letter ?rdom" and ?rest = "dropWhile is_letter ?rdom"
  have parts: "length ?name < length email" "?name \<noteq> []" "list_all local_char ?name" "2 \<le> length ?tld"
      "?rest \<noteq> []" "hd ?rest = CHR ''.''" "tl ?rest \<noteq> []" "list_all domain_char (tl ?rest)"
    using ok by (simp_all add: ValidateEmail_def Let_def)
  have "email = ?name @ CHR ''@'' # drop (Suc (length ?name)) email"
    using parts(1) nth_length_takeWhile[OF parts(1)] by (metis Cons_nth_drop_Suc append_take_drop_id takeWhile_eq_take)
  also have "drop (Suc (length ?name)) email = rev (tl ?rest) @ CHR ''.'' # rev ?tld"
    using parts(5,6) takeWhile_dropWhile_id[of is_letter ?rdom]
    by (metis append.assoc append_Cons append_Nil hd_Cons_tl rev.simps(2) rev_append rev_rev_ident)
  finally have "email = ?name @ ''@'' @ rev (tl ?rest) @ ''.'' @ rev ?tld" by simp
  moreover have "list_all is_letter (rev ?tld)" by (auto simp: list_all_iff dest: set_takeWhileD)
  moreover have "list_all domain_char (rev (tl ?rest))" "rev (tl ?rest) \<noteq> []" "2 \<le> length (rev ?tld)"
    using parts by (simp_all add: list_all_iff)
  ultimately show ?spec using parts(2,3) by blast
next
  assume ?spec
  then obtain name dom tld where e: "email = name @ CHR ''@'' # dom @ CHR ''.'' # tld" and name: "name \<noteq> []" "list_all local_char name"
    and dom: "dom \<noteq> []" "list_all domain_char dom" and tld: "2 \<le> length tld" "list_all is_letter tld" by auto
  have "list_all (\<lambda>c. c \<noteq> CHR ''@'') name" using name(2) local_char_no_at by (auto simp: list_all_iff)
  then have n: "takeWhile (\<lambda>c. c \<noteq> CHR ''@'') email = name"
    using takeWhile_stop[of "\<lambda>c. c \<noteq> CHR ''@''" name "CHR ''@''"] e by simp
  have r: "rev (drop (Suc (length name)) email) = rev tld @ CHR ''.'' # rev dom" by (simp add: e)
  have "list_all is_letter (rev tld)" "\<not> is_letter CHR ''.''" using tld(2) by (simp_all add: list_all_iff is_letter_def)
  then have "takeWhile is_letter (rev tld @ CHR ''.'' # rev dom) = rev tld \<and>
      dropWhile is_letter (rev tld @ CHR ''.'' # rev dom) = CHR ''.'' # rev dom" by (rule takeWhile_stop)
  then show "ValidateEmail email"
    unfolding ValidateEmail_def n Let_def r using name dom tld by (simp add: e list_all_iff)
qed

end
