(* ===== verification/User_Model.thy ===== *)
theory User_Model
  imports Cache Credentials "HOL-Library.Product_Lexorder" "HOL-Library.List_Lexorder" "HOL-Library.Char_ord"
begin

text \<open>
  The data of the user service (\<open>app/user/internal/model\<close>) and its repositories: users, devices, sessions,
  profiles, settings, QR codes, push tokens and the records of verification codes.  The Redis keys of
  the verification manager are part of the same state; no transaction of the service contains a Redis
  command, so restoring the state of a failed transaction restores tables only.
\<close>

subsection \<open>Enumerations\<close>

abbreviation (input) UserStatusNormal :: int where "UserStatusNormal \<equiv> 1"
abbreviation (input) UserStatusDisabled :: int where "UserStatusDisabled \<equiv> 2"
abbreviation (input) GenderUnknown :: int where "GenderUnknown \<equiv> 0"
abbreviation (input) TargetTypeUnknown :: int where "TargetTypeUnknown \<equiv> 0"
abbreviation (input) TargetTypeSMS :: int where "TargetTypeSMS \<equiv> 1"
abbreviation (input) TargetTypeEmail :: int where "TargetTypeEmail \<equiv> 2"
abbreviation (input) PurposeUnknown :: int where "PurposeUnknown \<equiv> 0"
abbreviation (input) PurposeRegister :: int where "PurposeRegister \<equiv> 1"
abbreviation (input) PurposeLogin :: int where "PurposeLogin \<equiv> 2"
abbreviation (input) PurposeResetPassword :: int where "PurposeResetPassword \<equiv> 3"
abbreviation (input) PurposeBindPhone :: int where "PurposeBindPhone \<equiv> 4"
abbreviation (input) PurposeChangePhone :: int where "PurposeChangePhone \<equiv> 5"
abbreviation (input) PurposeBindEmail :: int where "PurposeBindEmail \<equiv> 6"
abbreviation (input) PurposeChangeEmail :: int where "PurposeChangeEmail \<equiv> 7"
abbreviation (input) CodeStatusUnknown :: int where "CodeStatusUnknown \<equiv> 0"
abbreviation (input) CodeStatusPending :: int where "CodeStatusPending \<equiv> 1"
abbreviation (input) CodeStatusVerified :: int where "CodeStatusVerified \<equiv> 2"
abbreviation (input) CodeStatusExpired :: int where "CodeStatusExpired \<equiv> 3"
abbreviation (input) CodeStatusLocked :: int where "CodeStatusLocked \<equiv> 4"
abbreviation (input) CodeStatusCancelled :: int where "CodeStatusCancelled \<equiv> 5"

definition name_of :: "(int \<times> string) list \<Rightarrow> int \<Rightarrow> string" where
  "name_of names v = (case map_of names v of Some s \<Rightarrow> s | None \<Rightarrow> ''unknown'')"

definition parse_name :: "(int \<times> string) list \<Rightarrow> string \<Rightarrow> string \<Rightarrow> err + int" where
  "parse_name names what value =
     (case map_of (map (\<lambda>(v, s). (s, v)) names) (to_lower (trim_space value)) of
        Some v \<Rightarrow> Inr v
      | None \<Rightarrow> Inl (Plain (''unsupported '' @ what @ '': '' @ value)))"

definition deviceTypeValueToString :: "(int \<times> string) list" where
  "deviceTypeValueToString = [(1, ''ios''), (2, ''android''), (3, ''web''), (4, ''pc''), (5, ''h5'')]"

definition DeviceType_String :: "int \<Rightarrow> string" where
  "DeviceType_String t = name_of deviceTypeValueToString t"

definition DeviceType_IsValid :: "int \<Rightarrow> bool" where
  "DeviceType_IsValid t = (t \<ge> 1 \<and> t \<le> 5)"

definition ParseDeviceType :: "string \<Rightarrow> err + int" where
  "ParseDeviceType value = parse_name deviceTypeValueToString ''device type'' value"

definition targetTypeValueToString :: "(int \<times> string) list" where
  "targetTypeValueToString = [(TargetTypeSMS, ''sms''), (TargetTypeEmail, ''email'')]"

definition VerificationTargetType_String :: "int \<Rightarrow> string" where
  "VerificationTargetType_String t = name_of targetTypeValueToString t"

definition VerificationTargetType_IsValid :: "int \<Rightarrow> bool" where
  "VerificationTargetType_IsValid t = (t = TargetTypeSMS \<or> t = TargetTypeEmail)"

definition ParseVerificationTargetType :: "string \<Rightarrow> err + int" where
  "ParseVerificationTargetType value = parse_name targetTypeValueToString ''verification target type'' value"

definition purposeValueToString :: "(int \<times> string) list" where
  "purposeValueToString = [(PurposeRegister, ''register''), (PurposeLogin, ''login''),
     (PurposeResetPassword, ''reset_password''), (PurposeBindPhone, ''bind_phone''),
     (PurposeChangePhone, ''change_phone''), (PurposeBindEmail, ''bind_email''), (PurposeChangeEmail, ''change_email'')]"

definition VerificationPurpose_String :: "int \<Rightarrow> string" where
  "VerificationPurpose_String p = name_of purposeValueToString p"

definition VerificationPurpose_IsValid :: "int \<Rightarrow> bool" where
  "VerificationPurpose_IsValid p = (p \<ge> PurposeRegister \<and> p \<le> PurposeChangeEmail)"

definition ParseVerificationPurpose :: "string \<Rightarrow> err + int" where
  "ParseVerificationPurpose value = parse_name purposeValueToString ''verification purpose'' value"

definition statusValueToString :: "(int \<times> string) list" where
  "statusValueToString = [(CodeStatusPending, ''pending''), (CodeStatusVerified, ''verified''),
     (CodeStatusExpired, ''expired''), (CodeStatusLocked, ''locked''), (CodeStatusCancelled, ''cancelled'')]"

definition VerificationCodeStatus_String :: "int \<Rightarrow> string" where
  "VerificationCodeStatus_String s = name_of statusValueToString s"

definition VerificationCodeStatus_IsValid :: "int \<Rightarrow> bool" where
  "VerificationCodeStatus_IsValid s = (s \<ge> CodeStatusPending \<and> s \<le> CodeStatusCancelled)"

definition ParseVerificationCodeStatus :: "string \<Rightarrow> err + int" where
  "ParseVerificationCodeStatus value = parse_name statusValueToString ''verification code status'' value"

subsection \<open>Rows\<close>

record User =
  u_ID :: string
  u_Phone :: "string option"
  u_Email :: "string option"
  u_PasswordHash :: string
  u_Status :: int
  u_CreatedAt :: int
  u_UpdatedAt :: int
  u_DeletedAt :: "int option"

definition User_IsActive :: "User \<Rightarrow> bool" where
  "User_IsActive u = (u_Status u = UserStatusNormal)"

record UserDevice =
  ud_ID :: int
  ud_UserID :: string
  ud_DeviceID :: string
  ud_DeviceType :: int
  ud_ClientVersion :: string
  ud_LastLoginAt :: "int option"
  ud_LastLoginIP :: string
  ud_CreatedAt :: int
  ud_UpdatedAt :: int

record UserSession =
  us_ID :: int
  us_UserID :: string
  us_DeviceID :: string
  us_AccessToken :: string
  us_RefreshToken :: string
  us_AccessTokenExpiresAt :: int
  us_RefreshTokenExpiresAt :: int
  us_CreatedAt :: int
  us_UpdatedAt :: int

definition IsAccessTokenExpired :: "int \<Rightarrow> UserSession \<Rightarrow> bool" where
  "IsAccessTokenExpired t s = (t > us_AccessTokenExpiresAt s)"

definition IsRefreshTokenExpired :: "int \<Rightarrow> UserSession \<Rightarrow> bool" where
  "IsRefreshTokenExpired t s = (t > us_RefreshTokenExpiresAt s)"

record UserProfile =
  up_ID :: int
  up_UserID :: string
  up_Nickname :: string
  up_Avatar :: string
  up_Signature :: string
  up_Gender :: int
  up_Birthday :: "int option"
  up_Region :: string
  up_QRCodeURL :: string
  up_QRCodeUpdatedAt :: "int option"
  up_CreatedAt :: int
  up_UpdatedAt :: int

record UserSettings =
  st_ID :: int
  st_UserID :: string
  st_NotificationEnabled :: bool
  st_SoundEnabled :: bool
  st_VibrationEnabled :: bool
  st_MessagePreviewEnabled :: bool
  st_FriendVerifyRequired :: bool
  st_SearchByPhone :: bool
  st_SearchByID :: bool
  st_Language :: string
  st_CreatedAt :: int
  st_UpdatedAt :: int

record UserQRCode =
  uq_ID :: int
  uq_UserID :: string
  uq_QRCodeToken :: string
  uq_QRCodeURL :: string
  uq_ExpiresAt :: int
  uq_CreatedAt :: int

definition UserQRCode_IsExpired :: "int \<Rightarrow> UserQRCode \<Rightarrow> bool" where
  "UserQRCode_IsExpired t q = (t > uq_ExpiresAt q)"

record UserPushToken =
  pt_ID :: int
  pt_UserID :: string
  pt_DeviceID :: string
  pt_PushToken :: string
  pt_Platform :: int
  pt_CreatedAt :: int
  pt_UpdatedAt :: int

record VerificationCode =
  vc_ID :: int
  vc_CodeID :: string
  vc_Target :: string
  vc_TargetType :: int
  vc_CodeHash :: string
  vc_Purpose :: int
  vc_ExpiresAt :: int
  vc_VerifiedAt :: "int option"
  vc_Status :: int
  vc_SendIP :: string
  vc_SendDeviceID :: string
  vc_AttemptCount :: int
  vc_CreatedAt :: int
  vc_UpdatedAt :: int

record VerificationTemplate =
  vt_ID :: int
  vt_Purpose :: int
  vt_Name :: string
  vt_SMSTemplateID :: string
  vt_SMSContent :: string
  vt_EmailSubject :: string
  vt_EmailContent :: string
  vt_IsActive :: bool

record user_db =
  users :: "User list"
  user_devices :: "UserDevice list"
  user_sessions :: "UserSession list"
  user_profiles :: "UserProfile list"
  user_settings :: "UserSettings list"
  user_qrcodes :: "UserQRCode list"
  user_push_tokens :: "UserPushToken list"
  verification_codes :: "VerificationCode list"
  verification_templates :: "VerificationTemplate list"
  vcache :: cache_store

definition empty_user_db :: user_db where
  "empty_user_db = \<lparr>users = [], user_devices = [], user_sessions = [], user_profiles = [], user_settings = [],
     user_qrcodes = [], user_push_tokens = [], verification_codes = [], verification_templates = [], vcache = []\<rparr>"

subsection \<open>The user repository\<close>

text \<open>A unique column admits any number of NULLs.\<close>

definition taken :: "('r \<Rightarrow> 'k option) \<Rightarrow> 'k option \<Rightarrow> 'r list \<Rightarrow> bool" where
  "taken col v rows = (v \<noteq> None \<and> has_key col v rows)"

definition insert_user :: "User \<Rightarrow> User list \<Rightarrow> err + User list" where
  "insert_user u rows =
     (if has_key u_ID (u_ID u) rows then Inl (UniqueViolation ''users_pkey'')
      else if taken u_Phone (u_Phone u) rows then Inl (UniqueViolation ''users_phone_key'')
      else if taken u_Email (u_Email u) rows then Inl (UniqueViolation ''users_email_key'')
      else Inr (rows @ [u]))"

definition userRepo_Create :: "User \<Rightarrow> (user_db, unit) M" where
  "userRepo_Create user =
     bindE now (\<lambda>t. exec (\<lambda>d.
       case insert_user (user\<lparr>u_Status := or_default 1 (u_Status user), u_CreatedAt := t, u_UpdatedAt := t\<rparr>) (users d) of
         Inl e \<Rightarrow> Inl e
       | Inr rows \<Rightarrow> Inr ((), d\<lparr>users := rows\<rparr>)))"

definition first_user :: "(User \<Rightarrow> bool) \<Rightarrow> user_db \<Rightarrow> User option" where
  "first_user p d = first_where (\<lambda>u. p u \<and> u_DeletedAt u = None) u_ID (users d)"

definition userRepo_GetByID :: "string \<Rightarrow> (user_db, User) M" where
  "userRepo_GetByID i = find_one (first_user (\<lambda>u. u_ID u = i))"

definition userRepo_GetByPhone :: "string \<Rightarrow> (user_db, User) M" where
  "userRepo_GetByPhone phone = find_one (first_user (\<lambda>u. u_Phone u = Some phone))"

definition userRepo_GetByEmail :: "string \<Rightarrow> (user_db, User) M" where
  "userRepo_GetByEmail email = find_one (first_user (\<lambda>u. u_Email u = Some email))"

definition userRepo_GetByAccount :: "string \<Rightarrow> (user_db, User) M" where
  "userRepo_GetByAccount account =
     find_one (first_user (\<lambda>u. u_Phone u = Some account \<or> u_Email u = Some account))"

definition updateUser :: "string \<Rightarrow> (User \<Rightarrow> User) \<Rightarrow> (user_db, unit) M" where
  "updateUser userID f = bindE now (\<lambda>t. modify (\<lambda>d. d\<lparr>users :=
     update_where (\<lambda>u. u_ID u = userID \<and> u_DeletedAt u = None) (\<lambda>u. (f u)\<lparr>u_UpdatedAt := t\<rparr>) (users d)\<rparr>))"

text \<open>Writing a unique column fails when another row has the value.\<close>

definition updateUnique :: "string \<Rightarrow> (User \<Rightarrow> string option) \<Rightarrow> string \<Rightarrow> string option \<Rightarrow> (User \<Rightarrow> User) \<Rightarrow> (user_db, unit) M" where
  "updateUnique constraint col userID v f = bindE now (\<lambda>t. exec (\<lambda>d.
     if has_key u_ID userID (users d) \<and> taken col v (filter (\<lambda>u. u_ID u \<noteq> userID) (users d)) then Inl (UniqueViolation constraint)
     else Inr ((), d\<lparr>users := update_where (\<lambda>u. u_ID u = userID \<and> u_DeletedAt u = None)
       (\<lambda>u. (f u)\<lparr>u_UpdatedAt := t\<rparr>) (users d)\<rparr>)))"

definition userRepo_UpdatePhone :: "string \<Rightarrow> string option \<Rightarrow> (user_db, unit) M" where
  "userRepo_UpdatePhone userID phone = updateUnique ''users_phone_key'' u_Phone userID phone (\<lambda>u. u\<lparr>u_Phone := phone\<rparr>)"

definition userRepo_UpdateEmail :: "string \<Rightarrow> string option \<Rightarrow> (user_db, unit) M" where
  "userRepo_UpdateEmail userID email = updateUnique ''users_email_key'' u_Email userID email (\<lambda>u. u\<lparr>u_Email := email\<rparr>)"

definition userRepo_UpdatePassword :: "string \<Rightarrow> string \<Rightarrow> (user_db, unit) M" where
  "userRepo_UpdatePassword userID passwordHash = updateUser userID (\<lambda>u. u\<lparr>u_PasswordHash := passwordHash\<rparr>)"

definition userRepo_UpdateStatus :: "string \<Rightarrow> int \<Rightarrow> (user_db, unit) M" where
  "userRepo_UpdateStatus userID status = updateUser userID (\<lambda>u. u\<lparr>u_Status := status\<rparr>)"

subsection \<open>Devices and sessions\<close>

definition device_key :: "UserDevice \<Rightarrow> string \<times> string" where
  "device_key d = (ud_UserID d, ud_DeviceID d)"

definition deviceRepo_Create :: "UserDevice \<Rightarrow> (user_db, unit) M" where
  "deviceRepo_Create device =
     bindE (next_serial SeqUserDevices) (\<lambda>i. bindE now (\<lambda>t. exec (\<lambda>d.
       case insert_unique device_key (device\<lparr>ud_ID := i, ud_CreatedAt := t, ud_UpdatedAt := t\<rparr>) (user_devices d) of
         None \<Rightarrow> Inl (UniqueViolation ''user_devices_user_id_device_id_key'')
       | Some rows \<Rightarrow> Inr ((), d\<lparr>user_devices := rows\<rparr>))))"

definition deviceRepo_GetByUserIDAndDeviceID :: "string \<Rightarrow> string \<Rightarrow> (user_db, UserDevice) M" where
  "deviceRepo_GetByUserIDAndDeviceID userID deviceID =
     find_one (\<lambda>d. first_where (\<lambda>x. ud_UserID x = userID \<and> ud_DeviceID x = deviceID) ud_ID (user_devices d))"

text \<open>\<open>ORDER BY last_login_at DESC\<close>: devices that never logged in come first.\<close>

definition last_login :: "UserDevice \<Rightarrow> int \<times> int" where
  "last_login d = (case ud_LastLoginAt d of None \<Rightarrow> (0, 0) | Some t \<Rightarrow> (1, - t))"

definition deviceRepo_GetByUserID :: "string \<Rightarrow> (user_db, UserDevice list) M" where
  "deviceRepo_GetByUserID userID = query (\<lambda>d. select_where (\<lambda>x. ud_UserID x = userID) last_login (user_devices d))"

definition deviceRepo_GetByUserIDAndDeviceType :: "string \<Rightarrow> int \<Rightarrow> (user_db, UserDevice list) M" where
  "deviceRepo_GetByUserIDAndDeviceType userID deviceType =
     query (\<lambda>d. select_where (\<lambda>x. ud_UserID x = userID \<and> ud_DeviceType x = deviceType) last_login (user_devices d))"

definition deviceRepo_UpdateLastLogin :: "string \<Rightarrow> string \<Rightarrow> string \<Rightarrow> (user_db, unit) M" where
  "deviceRepo_UpdateLastLogin userID deviceID ip =
     bindE now (\<lambda>t. bindE now (\<lambda>dbNow. modify (\<lambda>d. d\<lparr>user_devices :=
       update_where (\<lambda>x. ud_UserID x = userID \<and> ud_DeviceID x = deviceID)
         (\<lambda>x. x\<lparr>ud_LastLoginAt := Some dbNow, ud_LastLoginIP := ip, ud_UpdatedAt := t\<rparr>) (user_devices d)\<rparr>)))"

definition sessionRepo_Create :: "UserSession \<Rightarrow> (user_db, unit) M" where
  "sessionRepo_Create session =
     bindE (next_serial SeqUserSessions) (\<lambda>i. bindE now (\<lambda>t. exec (\<lambda>d.
       case insert_unique us_ID (session\<lparr>us_ID := i, us_CreatedAt := t, us_UpdatedAt := t\<rparr>) (user_sessions d) of
         None \<Rightarrow> Inl (UniqueViolation ''user_sessions_pkey'')
       | Some rows \<Rightarrow> Inr ((), d\<lparr>user_sessions := rows\<rparr>))))"

definition sessionRepo_GetByAccessToken :: "string \<Rightarrow> (user_db, UserSession) M" where
  "sessionRepo_GetByAccessToken accessToken =
     find_one (\<lambda>d. first_where (\<lambda>s. us_AccessToken s = accessToken) us_ID (user_sessions d))"

definition sessionRepo_GetByRefreshToken :: "string \<Rightarrow> (user_db, UserSession) M" where
  "sessionRepo_GetByRefreshToken refreshToken =
     find_one (\<lambda>d. first_where (\<lambda>s. us_RefreshToken s = refreshToken) us_ID (user_sessions d))"

definition sessionRepo_GetByUserIDAndDeviceID :: "string \<Rightarrow> string \<Rightarrow> (user_db, UserSession) M" where
  "sessionRepo_GetByUserIDAndDeviceID userID deviceID =
     find_one (\<lambda>d. first_where (\<lambda>s. us_UserID s = userID \<and> us_DeviceID s = deviceID) us_ID (user_sessions d))"

text \<open>gorm's \<open>Save\<close>: update the row with the key, or insert it when there is none.\<close>

definition save_row :: "('r \<Rightarrow> int) \<Rightarrow> 'r \<Rightarrow> 'r list \<Rightarrow> 'r list" where
  "save_row key r rows = (if has_key key (key r) rows then update_where (\<lambda>x. key x = key r) (\<lambda>_. r) rows else rows @ [r])"

definition sessionRepo_Update :: "UserSession \<Rightarrow> (user_db, unit) M" where
  "sessionRepo_Update session =
     bindE now (\<lambda>t. modify (\<lambda>d. d\<lparr>user_sessions := save_row us_ID (session\<lparr>us_UpdatedAt := t\<rparr>) (user_sessions d)\<rparr>))"

definition sessionRepo_DeleteByUserIDAndDeviceID :: "string \<Rightarrow> string \<Rightarrow> (user_db, unit) M" where
  "sessionRepo_DeleteByUserIDAndDeviceID userID deviceID =
     modify (\<lambda>d. d\<lparr>user_sessions := delete_where (\<lambda>s. us_UserID s = userID \<and> us_DeviceID s = deviceID) (user_sessions d)\<rparr>)"

definition sessionRepo_DeleteByUserID :: "string \<Rightarrow> (user_db, unit) M" where
  "sessionRepo_DeleteByUserID userID =
     modify (\<lambda>d. d\<lparr>user_sessions := delete_where (\<lambda>s. us_UserID s = userID) (user_sessions d)\<rparr>)"

definition sessionRepo_DeleteByUserIDExceptDeviceID :: "string \<Rightarrow> string \<Rightarrow> (user_db, unit) M" where
  "sessionRepo_DeleteByUserIDExceptDeviceID userID deviceID =
     modify (\<lambda>d. d\<lparr>user_sessions :=
       delete_where (\<lambda>s. us_UserID s = userID \<and> (deviceID = '''' \<or> us_DeviceID s \<noteq> deviceID)) (user_sessions d)\<rparr>)"

subsection \<open>Profiles, settings and QR codes\<close>

text \<open>An insertion into a table whose \<open>user_id\<close> refers to the users: the foreign key, the primary key and
  the unique column \<open>key\<close> are checked.\<close>

definition insert_of_user :: "string \<Rightarrow> ('r \<Rightarrow> string) \<Rightarrow> ('r \<Rightarrow> int) \<Rightarrow> ('r \<Rightarrow> 'k) \<Rightarrow> string \<Rightarrow> 'r \<Rightarrow> User list \<Rightarrow> 'r list \<Rightarrow> err + 'r list" where
  "insert_of_user table owner pk key column r us rows =
     (if \<not> has_key u_ID (owner r) us then
        Inl (Plain (''ERROR: insert or update on table violates foreign key constraint '' @ table @ ''_user_id_fkey''))
      else if has_key pk (pk r) rows then Inl (UniqueViolation (table @ ''_pkey''))
      else if has_key key (key r) rows then Inl (UniqueViolation (table @ ''_'' @ column @ ''_key''))
      else Inr (rows @ [r]))"

definition profileRepo_Create :: "UserProfile \<Rightarrow> (user_db, unit) M" where
  "profileRepo_Create profile =
     bindE (next_serial SeqUserProfiles) (\<lambda>i. bindE now (\<lambda>t. exec (\<lambda>d.
       case insert_of_user ''user_profiles'' up_UserID up_ID up_UserID ''user_id''
           (profile\<lparr>up_ID := i, up_CreatedAt := t, up_UpdatedAt := t\<rparr>) (users d) (user_profiles d) of
         Inl e \<Rightarrow> Inl e
       | Inr rows \<Rightarrow> Inr ((), d\<lparr>user_profiles := rows\<rparr>))))"

definition profileRepo_GetByUserID :: "string \<Rightarrow> (user_db, UserProfile) M" where
  "profileRepo_GetByUserID userID = find_one (\<lambda>d. first_where (\<lambda>p. up_UserID p = userID) up_ID (user_profiles d))"

definition profileRepo_Update :: "UserProfile \<Rightarrow> (user_db, UserProfile) M" where
  "profileRepo_Update profile =
     bindE now (\<lambda>t. let p = profile\<lparr>up_UpdatedAt := t\<rparr> in
       thenE (modify (\<lambda>d. d\<lparr>user_profiles := save_row up_ID p (user_profiles d)\<rparr>)) (returnE p))"

definition profileRepo_UpdateQRCode :: "string \<Rightarrow> string \<Rightarrow> (user_db, unit) M" where
  "profileRepo_UpdateQRCode userID qrcodeURL =
     bindE now (\<lambda>t. bindE now (\<lambda>dbNow. modify (\<lambda>d. d\<lparr>user_profiles :=
       update_where (\<lambda>p. up_UserID p = userID)
         (\<lambda>p. p\<lparr>up_QRCodeURL := qrcodeURL, up_QRCodeUpdatedAt := Some dbNow, up_UpdatedAt := t\<rparr>) (user_profiles d)\<rparr>)))"

definition profileRepo_CheckNicknameExists :: "string \<Rightarrow> string \<Rightarrow> (user_db, bool) M" where
  "profileRepo_CheckNicknameExists nickname excludeUserID =
     query (\<lambda>d. count_where (\<lambda>p. up_Nickname p = nickname \<and> (excludeUserID \<noteq> '''' \<longrightarrow> up_UserID p \<noteq> excludeUserID))
       (user_profiles d) > 0)"

text \<open>\<open>like\<close> is the database's LIKE.\<close>

definition profileRepo_SearchByKeyword ::
    "(string \<Rightarrow> string \<Rightarrow> bool) \<Rightarrow> string \<Rightarrow> int \<Rightarrow> int \<Rightarrow> (user_db, UserProfile list \<times> int) M" where
  "profileRepo_SearchByKeyword like keyword lim off =
     (let hit = (\<lambda>p. like (up_Nickname p) (''%'' @ keyword @ ''%'')) in
      bindE (query (\<lambda>d. int (count_where hit (user_profiles d)))) (\<lambda>cnt.
      bindE (query (\<lambda>d. limit_offset lim off (filter hit (user_profiles d)))) (\<lambda>profiles.
      returnE (profiles, cnt))))"

definition settingsRepo_Create :: "UserSettings \<Rightarrow> (user_db, unit) M" where
  "settingsRepo_Create settings =
     bindE (next_serial SeqUserSettings) (\<lambda>i. bindE now (\<lambda>t. exec (\<lambda>d.
       case insert_of_user ''user_settings'' st_UserID st_ID st_UserID ''user_id''
           (settings\<lparr>st_ID := i, st_CreatedAt := t, st_UpdatedAt := t\<rparr>) (users d) (user_settings d) of
         Inl e \<Rightarrow> Inl e
       | Inr rows \<Rightarrow> Inr ((), d\<lparr>user_settings := rows\<rparr>))))"

definition settingsRepo_GetByUserID :: "string \<Rightarrow> (user_db, UserSettings) M" where
  "settingsRepo_GetByUserID userID = find_one (\<lambda>d. first_where (\<lambda>s. st_UserID s = userID) st_ID (user_settings d))"

definition settingsRepo_Update :: "UserSettings \<Rightarrow> (user_db, unit) M" where
  "settingsRepo_Update settings =
     bindE now (\<lambda>t. modify (\<lambda>d. d\<lparr>user_settings := save_row st_ID (settings\<lparr>st_UpdatedAt := t\<rparr>) (user_settings d)\<rparr>))"

definition userQRCodeRepo_Create :: "UserQRCode \<Rightarrow> (user_db, unit) M" where
  "userQRCodeRepo_Create qrcode =
     bindE (next_serial SeqUserQRCodes) (\<lambda>i. bindE now (\<lambda>t. exec (\<lambda>d.
       case insert_of_user ''user_qrcodes'' uq_UserID uq_ID uq_QRCodeToken ''qrcode_token''
           (qrcode\<lparr>uq_ID := i, uq_CreatedAt := t\<rparr>) (users d) (user_qrcodes d) of
         Inl e \<Rightarrow> Inl e
       | Inr rows \<Rightarrow> Inr ((), d\<lparr>user_qrcodes := rows\<rparr>))))"

definition userQRCodeRepo_GetByToken :: "string \<Rightarrow> (user_db, UserQRCode) M" where
  "userQRCodeRepo_GetByToken token = find_one (\<lambda>d. first_where (\<lambda>q. uq_QRCodeToken q = token) uq_ID (user_qrcodes d))"

definition userQRCodeRepo_GetLatestByUserID :: "string \<Rightarrow> (user_db, UserQRCode) M" where
  "userQRCodeRepo_GetLatestByUserID userID =
     find_one (\<lambda>d. first_where (\<lambda>q. uq_UserID q = userID) (\<lambda>q. (- uq_CreatedAt q, uq_ID q)) (user_qrcodes d))"

definition userQRCodeRepo_DeleteExpired :: "(user_db, unit) M" where
  "userQRCodeRepo_DeleteExpired =
     bindE now (\<lambda>t. modify (\<lambda>d. d\<lparr>user_qrcodes := delete_where (\<lambda>q. uq_ExpiresAt q < t) (user_qrcodes d)\<rparr>))"

text \<open>\<open>Where(...).Assign(token).FirstOrCreate(token)\<close>: the destination and the assigned attributes are the
  same object, so what the library writes into a row it finds is a parameter \<open>assign\<close> of the row and the
  token.\<close>

definition pushTokenRepo_CreateOrUpdate ::
    "(UserPushToken \<Rightarrow> UserPushToken \<Rightarrow> UserPushToken) \<Rightarrow> UserPushToken \<Rightarrow> (user_db, unit) M" where
  "pushTokenRepo_CreateOrUpdate assign token =
     (let own = (\<lambda>p. pt_UserID p = pt_UserID token \<and> pt_DeviceID p = pt_DeviceID token) in
      bindE (query (\<lambda>d. first_where own pt_ID (user_push_tokens d))) (\<lambda>found.
      bindE now (\<lambda>t.
      case found of
        None \<Rightarrow> bindE (next_serial SeqUserPushTokens) (\<lambda>i. modify (\<lambda>d. d\<lparr>user_push_tokens :=
            user_push_tokens d @ [token\<lparr>pt_ID := i, pt_CreatedAt := t, pt_UpdatedAt := t\<rparr>]\<rparr>))
      | Some p \<Rightarrow> modify (\<lambda>d. d\<lparr>user_push_tokens :=
            update_where (\<lambda>x. pt_ID x = pt_ID p) (\<lambda>x. (assign x token)\<lparr>pt_UpdatedAt := t\<rparr>) (user_push_tokens d)\<rparr>))))"

definition pushTokenRepo_GetByUserID :: "string \<Rightarrow> (user_db, UserPushToken list) M" where
  "pushTokenRepo_GetByUserID userID = query (\<lambda>d. filter (\<lambda>p. pt_UserID p = userID) (user_push_tokens d))"

definition pushTokenRepo_Delete :: "string \<Rightarrow> string \<Rightarrow> (user_db, unit) M" where
  "pushTokenRepo_Delete userID deviceID =
     modify (\<lambda>d. d\<lparr>user_push_tokens := delete_where (\<lambda>p. pt_UserID p = userID \<and> pt_DeviceID p = deviceID) (user_push_tokens d)\<rparr>)"

subsection \<open>Verification codes and templates\<close>

definition codeRepo_Create :: "VerificationCode \<Rightarrow> (user_db, unit) M" where
  "codeRepo_Create code =
     bindE (next_serial SeqVerificationCodes) (\<lambda>i. bindE now (\<lambda>t. exec (\<lambda>d.
       case insert_unique vc_CodeID (code\<lparr>vc_ID := i, vc_CreatedAt := t, vc_UpdatedAt := t\<rparr>) (verification_codes d) of
         None \<Rightarrow> Inl (UniqueViolation ''verification_codes_code_id_key'')
       | Some rows \<Rightarrow> Inr ((), d\<lparr>verification_codes := rows\<rparr>))))"

definition codeRepo_GetByCodeID :: "string \<Rightarrow> (user_db, VerificationCode) M" where
  "codeRepo_GetByCodeID codeID = find_one (\<lambda>d. first_where (\<lambda>c. vc_CodeID c = codeID) vc_ID (verification_codes d))"

definition latest_code :: "string \<Rightarrow> int \<Rightarrow> int \<Rightarrow> user_db \<Rightarrow> VerificationCode option" where
  "latest_code target targetType purpose d =
     first_where (\<lambda>c. vc_Target c = target \<and> vc_TargetType c = targetType \<and> vc_Purpose c = purpose)
       (\<lambda>c. (- vc_CreatedAt c, vc_ID c)) (verification_codes d)"

definition codeRepo_GetLatestByTarget :: "string \<Rightarrow> int \<Rightarrow> int \<Rightarrow> (user_db, VerificationCode) M" where
  "codeRepo_GetLatestByTarget target targetType purpose = find_one (latest_code target targetType purpose)"

definition updateCode :: "string \<Rightarrow> (VerificationCode \<Rightarrow> VerificationCode) \<Rightarrow> user_db \<Rightarrow> user_db" where
  "updateCode codeID f d = d\<lparr>verification_codes := update_where (\<lambda>c. vc_CodeID c = codeID) f (verification_codes d)\<rparr>"

definition codeRepo_UpdateStatus :: "string \<Rightarrow> int \<Rightarrow> (user_db, unit) M" where
  "codeRepo_UpdateStatus codeID status =
     bindE now (\<lambda>t. modify (updateCode codeID (\<lambda>c. c\<lparr>vc_Status := status, vc_UpdatedAt := t\<rparr>)))"

definition codeRepo_UpdateVerifiedAt :: "string \<Rightarrow> int \<Rightarrow> (user_db, unit) M" where
  "codeRepo_UpdateVerifiedAt codeID verifiedAt =
     bindE now (\<lambda>t. modify (updateCode codeID
       (\<lambda>c. c\<lparr>vc_Status := CodeStatusVerified, vc_VerifiedAt := Some verifiedAt, vc_UpdatedAt := t\<rparr>)))"

definition codeRepo_IncrementAttempts :: "string \<Rightarrow> (user_db, unit) M" where
  "codeRepo_IncrementAttempts codeID =
     modify (updateCode codeID (\<lambda>c. c\<lparr>vc_AttemptCount := vc_AttemptCount c + 1\<rparr>))"

definition codeRepo_Delete :: "string \<Rightarrow> (user_db, unit) M" where
  "codeRepo_Delete codeID =
     modify (\<lambda>d. d\<lparr>verification_codes := delete_where (\<lambda>c. vc_CodeID c = codeID) (verification_codes d)\<rparr>)"

definition codeRepo_DeleteExpired :: "(user_db, int) M" where
  "codeRepo_DeleteExpired =
     bindE now (\<lambda>t. exec (\<lambda>d.
       let old = (\<lambda>c. vc_ExpiresAt c < t \<and> vc_Status c = CodeStatusPending) in
       Inr (int (count_where old (verification_codes d)),
            d\<lparr>verification_codes := delete_where old (verification_codes d)\<rparr>)))"

definition templateRepo_GetByPurpose :: "int \<Rightarrow> (user_db, VerificationTemplate) M" where
  "templateRepo_GetByPurpose purpose =
     find_one (\<lambda>d. first_where (\<lambda>t. vt_Purpose t = purpose \<and> vt_IsActive t) vt_ID (verification_templates d))"

definition templateRepo_GetActive :: "(user_db, VerificationTemplate list) M" where
  "templateRepo_GetActive = query (\<lambda>d. filter vt_IsActive (verification_templates d))"

subsection \<open>Redis commands\<close>

definition cacheE :: "(int \<Rightarrow> cache_store \<Rightarrow> err + 'a \<times> cache_store) \<Rightarrow> (user_db, 'a) M" where
  "cacheE f = bindE now (\<lambda>t. exec (\<lambda>d. case f t (vcache d) of
       Inl e \<Rightarrow> Inl e
     | Inr (a, c) \<Rightarrow> Inr (a, d\<lparr>vcache := c\<rparr>)))"

definition delE :: "string \<Rightarrow> (user_db, unit) M" where
  "delE key = cacheE (\<lambda>t c. Inr ((), cache_Del key c))"

end
