(* ===== verification/Verification.thy ===== *)
theory Verification
  imports User_Model
begin

text \<open>
  The verification manager of the user service (\<open>verification_manager.go\<close>): sending a code under rate
  limits, verifying it with a bounded number of attempts, and the audit record of every code.  The
  senders, the hash functions and the random source are parameters.
\<close>

record verificationManagerImpl =
  vm_Length :: int
  vm_ExpireSeconds :: int
  vm_MaxAttempts :: int
  vm_HashSecret :: string
  vm_DebugFixedCode :: string
  vm_AllowDevBypass :: bool
  vm_TargetPerMinute :: int
  vm_TargetPerDay :: int
  vm_IPPerHour :: int
  vm_DevicePerDay :: int
  vm_SMSProvider :: string
  vm_IsProd :: bool
  vm_templateRepo :: bool
  vm_cache :: bool
  vm_smsSender :: "(nat \<Rightarrow> string \<Rightarrow> string \<Rightarrow> string \<Rightarrow> err + unit) option"
  vm_emailSender :: "(nat \<Rightarrow> string \<Rightarrow> string \<Rightarrow> string \<Rightarrow> err + unit) option"
  vm_sha256 :: "string \<Rightarrow> string"
  vm_hmac :: "string \<Rightarrow> string \<Rightarrow> string"
  vm_rand :: rand_source
  vm_phone :: phone_lib

definition NewVerificationManager :: "verificationManagerImpl \<Rightarrow> err + verificationManagerImpl" where
  "NewVerificationManager conf0 =
     (let conf = conf0\<lparr>vm_Length := or_default 6 (vm_Length conf0),
          vm_ExpireSeconds := or_default 300 (vm_ExpireSeconds conf0),
          vm_MaxAttempts := or_default 5 (vm_MaxAttempts conf0),
          vm_TargetPerMinute := or_default 1 (vm_TargetPerMinute conf0),
          vm_TargetPerDay := or_default 10 (vm_TargetPerDay conf0),
          vm_IPPerHour := or_default 200 (vm_IPPerHour conf0),
          vm_DevicePerDay := or_default 100 (vm_DevicePerDay conf0)\<rparr> in
      if vm_IsProd conf \<and> vm_HashSecret conf = '''' then
        Inl (Panicked ''verification: hash_secret must be configured in production'')
      else if vm_IsProd conf \<and> (vm_DebugFixedCode conf \<noteq> '''' \<or> vm_AllowDevBypass conf) then
        Inl (Panicked ''verification: DebugFixedCode / AllowDevBypass must not be enabled in production'')
      else if vm_IsProd conf \<and> vm_SMSProvider conf = '''' then
        Inl (Panicked ''verification: SMS provider must be configured in production (noop sender will not deliver codes)'')
      else Inr conf)"

subsection \<open>Targets, purposes, keys and codes\<close>

definition validateAndNormalizeTarget :: "verificationManagerImpl \<Rightarrow> string \<Rightarrow> int \<Rightarrow> err + string" where
  "validateAndNormalizeTarget s target targetType =
     (let normalized = trim_space target in
      if targetType = TargetTypeSMS then
        (case NormalizePhone (vm_phone s) normalized of
           None \<Rightarrow> Inl (NewBusiness CodeTargetFormatInvalid ''invalid phone number format'')
         | Some e164 \<Rightarrow> Inr e164)
      else if targetType = TargetTypeEmail then
        (if \<not> ValidateEmail (to_lower normalized) then Inl (NewBusiness CodeTargetFormatInvalid ''invalid email format'')
         else Inr (to_lower normalized))
      else Inl (NewBusiness CodeTargetFormatInvalid ''invalid target type''))"

definition validatePurpose :: "int \<Rightarrow> (user_db, unit) M" where
  "validatePurpose purpose =
     guardE (VerificationPurpose_IsValid purpose) (NewBusiness CodeParamError ''verification purpose not supported'')"

definition targetHash :: "verificationManagerImpl \<Rightarrow> string \<Rightarrow> string" where
  "targetHash s target = vm_sha256 s target"

definition codeCacheKey :: "verificationManagerImpl \<Rightarrow> int \<Rightarrow> string \<Rightarrow> string" where
  "codeCacheKey s purpose target = ''auth:vc:'' @ VerificationPurpose_String purpose @ '':'' @ targetHash s target"

definition hashCode :: "verificationManagerImpl \<Rightarrow> int \<Rightarrow> string \<Rightarrow> string \<Rightarrow> string" where
  "hashCode s purpose target code =
     vm_hmac s (if vm_HashSecret s = '''' then ''anychat-verification-secret'' else vm_HashSecret s)
       (VerificationPurpose_String purpose @ '':'' @ target @ '':'' @ code)"

definition isReleaseMode :: "verificationManagerImpl \<Rightarrow> bool" where
  "isReleaseMode s = vm_IsProd s"

definition shouldUseDebugCode :: "verificationManagerImpl \<Rightarrow> bool" where
  "shouldUseDebugCode s = (\<not> isReleaseMode s \<and> vm_DebugFixedCode s \<noteq> '''')"

definition shouldAllowDevBypass :: "verificationManagerImpl \<Rightarrow> string \<Rightarrow> bool" where
  "shouldAllowDevBypass s code =
     (\<not> isReleaseMode s \<and> vm_AllowDevBypass s \<and> vm_DebugFixedCode s \<noteq> '''' \<and> code = vm_DebugFixedCode s)"

definition randomChar :: "rand_source \<Rightarrow> string \<Rightarrow> (user_db, char) M" where
  "randomChar rs charset w = (case rs_Int rs (tick w) of
       None \<Rightarrow> (Inl (Panicked ''crypto/rand exhausted''), bump w)
     | Some v \<Rightarrow> (Inr (charset ! (v mod length charset)), bump w))"

definition randomString :: "rand_source \<Rightarrow> string \<Rightarrow> int \<Rightarrow> (user_db, string) M" where
  "randomString rs charset len =
     (if len < 0 then throwE (Panicked ''makeslice: len out of range'')
      else mapE (\<lambda>_. randomChar rs charset) [0..<nat len])"

definition randString :: "rand_source \<Rightarrow> int \<Rightarrow> (user_db, string) M" where
  "randString rs n = randomString rs ''abcdefghijklmnopqrstuvwxyzABCDEFGHIJKLMNOPQRSTUVWXYZ0123456789'' n"

definition generateCode :: "verificationManagerImpl \<Rightarrow> (user_db, string) M" where
  "generateCode s =
     (if shouldUseDebugCode s then returnE (vm_DebugFixedCode s)
      else randomString (vm_rand s) ''0123456789'' (vm_Length s))"

subsection \<open>Rate limits\<close>

definition rollbackRateLimits :: "string list \<Rightarrow> (user_db, unit) M" where
  "rollbackRateLimits keys = forE keys (\<lambda>key. ignoreE (delE key))"

definition incrementAndCheck :: "string \<Rightarrow> int \<Rightarrow> int \<Rightarrow> int \<Rightarrow> (user_db, unit) M" where
  "incrementAndCheck key ttl limit errorCode =
     (let exceeded = NewBusiness errorCode ''verification rate limit exceeded'' in
      bindE (catchE (cacheE (\<lambda>t c. Inr (cache_SetNX t key 1 ttl c)))
        (\<lambda>_. throwE (NewBusiness CodeInternalError ''failed to initialize rate limit counter''))) (\<lambda>ok.
      if ok then
        (if limit > 0 \<and> 1 > limit then thenE (ignoreE (delE key)) (throwE exceeded) else returnE ())
      else
        bindE (catchE (cacheE (\<lambda>t c. cache_Incr t key c))
          (\<lambda>_. throwE (NewBusiness CodeInternalError ''failed to increment rate limit counter''))) (\<lambda>current.
        if limit > 0 \<and> current > limit then thenE (ignoreE (delE key)) (throwE exceeded)
        else returnE ())))"

definition targetMinuteKey :: "verificationManagerImpl \<Rightarrow> string \<Rightarrow> int \<Rightarrow> string" where
  "targetMinuteKey s target purpose =
     ''auth:vc:rl:target:'' @ VerificationPurpose_String purpose @ '':'' @ targetHash s target @ '':1m''"

definition targetDayKey :: "verificationManagerImpl \<Rightarrow> string \<Rightarrow> int \<Rightarrow> string" where
  "targetDayKey s target purpose =
     ''auth:vc:rl:target:'' @ VerificationPurpose_String purpose @ '':'' @ targetHash s target @ '':24h''"

text \<open>A further limit: the counters applied so far are given back when it is exceeded.\<close>

definition limitOr :: "string list \<Rightarrow> (user_db, unit) M \<Rightarrow> (user_db, unit) M" where
  "limitOr keys m = catchE m (\<lambda>e. thenE (rollbackRateLimits keys) (throwE e))"

definition applyRateLimits :: "verificationManagerImpl \<Rightarrow> string \<Rightarrow> int \<Rightarrow> string \<Rightarrow> string \<Rightarrow> (user_db, string list) M" where
  "applyRateLimits s target purpose deviceID ipAddress =
     thenE (incrementAndCheck (targetMinuteKey s target purpose) Minute (vm_TargetPerMinute s) CodeSendRateLimited) (
     let keys1 = [targetMinuteKey s target purpose] in
     thenE (limitOr keys1 (incrementAndCheck (targetDayKey s target purpose) (24 * Hour) (vm_TargetPerDay s) CodeSendLimitReached)) (
     let keys2 = keys1 @ [targetDayKey s target purpose] in
     bindE (if ipAddress \<noteq> '''' then
         let ipKey = ''auth:vc:rl:ip:'' @ ipAddress @ '':1h'' in
         thenE (limitOr keys2 (incrementAndCheck ipKey Hour (vm_IPPerHour s) CodeSendRateLimited)) (returnE (keys2 @ [ipKey]))
       else returnE keys2) (\<lambda>keys3.
     if deviceID \<noteq> '''' then
       let deviceKey = ''auth:vc:rl:device:'' @ deviceID @ '':24h'' in
       thenE (limitOr keys3 (incrementAndCheck deviceKey (24 * Hour) (vm_DevicePerDay s) CodeSendLimitReached))
         (returnE (keys3 @ [deviceKey]))
     else returnE keys3)))"

subsection \<open>Sending a code\<close>

definition cancelPreviousCode :: "string \<Rightarrow> int \<Rightarrow> int \<Rightarrow> (user_db, unit) M" where
  "cancelPreviousCode target targetType purpose =
     bindE (catchE (optionalE (codeRepo_GetLatestByTarget target targetType purpose))
       (\<lambda>_. throwE (NewBusiness CodeInternalError ''failed to query previous verification code''))) (\<lambda>code.
     case code of
       None \<Rightarrow> returnE ()
     | Some c \<Rightarrow>
         if vc_Status c = CodeStatusPending then
           catchE (codeRepo_UpdateStatus (vc_CodeID c) CodeStatusCancelled)
             (\<lambda>_. throwE (NewBusiness CodeInternalError ''failed to cancel previous verification code''))
         else returnE ())"

function (sequential) replace_all :: "string \<Rightarrow> string \<Rightarrow> string \<Rightarrow> string" where
  "replace_all [] old new = []"
| "replace_all (c # cs) old new =
     (if old \<noteq> [] \<and> take (length old) (c # cs) = old then new @ replace_all (drop (length old) (c # cs)) old new
      else c # replace_all cs old new)"
  by pat_completeness auto

termination replace_all
  by (relation "measure (\<lambda>(s, _, _). length s)") (auto simp: neq_Nil_conv)

definition sendE :: "string \<Rightarrow> (nat \<Rightarrow> string \<Rightarrow> string \<Rightarrow> string \<Rightarrow> err + unit) \<Rightarrow> string \<Rightarrow> string \<Rightarrow> string \<Rightarrow> (user_db, unit) M" where
  "sendE channel send to a b = thenE (rpc (\<lambda>n. send n to a b)) (emit (Called channel [to, a, b]))"

text \<open>Go's integer division truncates toward zero.\<close>

definition quot :: "int \<Rightarrow> int \<Rightarrow> int" where
  "quot a b = sgn a * sgn b * (\<bar>a\<bar> div \<bar>b\<bar>)"

definition dispatchCode :: "verificationManagerImpl \<Rightarrow> string \<Rightarrow> int \<Rightarrow> int \<Rightarrow> string \<Rightarrow> (user_db, unit) M" where
  "dispatchCode s target targetType purpose code =
     (let subject0 = ''AnyChat Verification Code'';
          content0 = ''Your verification code is: '' @ code @ '', valid for '' @ itoa (quot (vm_ExpireSeconds s) 60) @ '' minutes.'' in
      bindE (if vm_templateRepo s then attemptE (templateRepo_GetByPurpose purpose) else returnE None) (\<lambda>template.
      let templateID = (case template of None \<Rightarrow> '''' | Some t \<Rightarrow> vt_SMSTemplateID t);
          emailSubject = (case template of None \<Rightarrow> subject0 | Some t \<Rightarrow> if vt_EmailSubject t \<noteq> '''' then vt_EmailSubject t else subject0);
          emailContent = (case template of None \<Rightarrow> content0
            | Some t \<Rightarrow> if vt_EmailContent t \<noteq> '''' then replace_all (vt_EmailContent t) ''{code}'' code else content0) in
      if targetType = TargetTypeSMS then
        (case vm_smsSender s of
           None \<Rightarrow> guardE (\<not> isReleaseMode s) (NewBusiness CodeSMSServiceError ''SMS service is not configured'')
         | Some send \<Rightarrow> catchE (sendE ''sms'' send target templateID code)
             (\<lambda>_. throwE (NewBusiness CodeSMSServiceError ''failed to send SMS verification code'')))
      else if targetType = TargetTypeEmail then
        (case vm_emailSender s of
           None \<Rightarrow> guardE (\<not> isReleaseMode s) (NewBusiness CodeEmailServiceError ''email service is not configured'')
         | Some send \<Rightarrow> catchE (sendE ''email'' send target emailSubject emailContent)
             (\<lambda>_. throwE (NewBusiness CodeEmailServiceError ''failed to send email verification code'')))
      else throwE (NewBusiness CodeTargetFormatInvalid ''unsupported verification target type'')))"

record SendCodeRequest =
  sc_Target :: string
  sc_TargetType :: int
  sc_Purpose :: int
  sc_DeviceID :: string

record SendCodeResponse =
  sr_CodeID :: string
  sr_ExpiresIn :: int
  sr_Sent :: bool
  sr_Message :: string

definition ttl_of :: "verificationManagerImpl \<Rightarrow> int" where
  "ttl_of s = int64 (vm_ExpireSeconds s * Second)"

text \<open>What is stored under the cache key of a target and purpose; \<open>expires_at\<close> is written with RFC 3339,
  to the second.\<close>

definition code_fields :: "verificationManagerImpl \<Rightarrow> SendCodeRequest \<Rightarrow> string \<Rightarrow> string \<Rightarrow> int \<Rightarrow> (string \<times> hval) list" where
  "code_fields s req codeID codeHash expiresAt =
     [(''code_id'', HText codeID), (''code_hash'', HText codeHash),
      (''target_type'', HText (VerificationTargetType_String (sc_TargetType req))),
      (''expires_at'', HTime (unix expiresAt)), (''attempts'', HText ''0''),
      (''max_attempts'', HText (itoa (vm_MaxAttempts s))), (''device_id'', HText (sc_DeviceID req))]"

text \<open>From the generated code on: store it, record it, dispatch it, undoing the earlier steps on failure.\<close>

definition storeAndDispatch :: "verificationManagerImpl \<Rightarrow> SendCodeRequest \<Rightarrow> string \<Rightarrow> string \<Rightarrow> string list \<Rightarrow> string \<Rightarrow> string \<Rightarrow> int \<Rightarrow> (user_db, SendCodeResponse) M" where
  "storeAndDispatch s req target ipAddress rollbackKeys code codeID expiresAt =
     (let codeHash = hashCode s (sc_Purpose req) target code;
          cacheKey = codeCacheKey s (sc_Purpose req) target;
          undo = thenE (ignoreE (delE cacheKey)) (rollbackRateLimits rollbackKeys) in
      thenE (catchE (cacheE (\<lambda>t c. cache_HSet t cacheKey (code_fields s req codeID codeHash expiresAt) c))
        (\<lambda>_. thenE (rollbackRateLimits rollbackKeys) (throwE (NewBusiness CodeInternalError ''failed to store verification code'')))) (
      thenE (catchE (cacheE (\<lambda>t c. Inr ((), cache_Expire t cacheKey (ttl_of s) c)))
        (\<lambda>_. thenE undo (throwE (NewBusiness CodeInternalError ''failed to set verification code expiry'')))) (
      thenE (catchE (codeRepo_Create \<lparr>vc_ID = 0, vc_CodeID = codeID, vc_Target = target, vc_TargetType = sc_TargetType req,
          vc_CodeHash = codeHash, vc_Purpose = sc_Purpose req, vc_ExpiresAt = expiresAt, vc_VerifiedAt = None,
          vc_Status = CodeStatusPending, vc_SendIP = ipAddress, vc_SendDeviceID = sc_DeviceID req, vc_AttemptCount = 0,
          vc_CreatedAt = 0, vc_UpdatedAt = 0\<rparr>)
        (\<lambda>_. thenE undo (throwE (NewBusiness CodeInternalError ''failed to create verification record'')))) (
      thenE (catchE (dispatchCode s target (sc_TargetType req) (sc_Purpose req) code)
        (\<lambda>e. thenE undo (thenE (ignoreE (codeRepo_UpdateStatus codeID CodeStatusCancelled)) (throwE e)))) (
      returnE \<lparr>sr_CodeID = codeID, sr_ExpiresIn = vm_ExpireSeconds s, sr_Sent = True, sr_Message = ''verification code sent''\<rparr>)))))"

definition SendCode :: "verificationManagerImpl \<Rightarrow> SendCodeRequest \<Rightarrow> string \<Rightarrow> (user_db, SendCodeResponse) M" where
  "SendCode s req ipAddress =
     bindE (liftE (validateAndNormalizeTarget s (sc_Target req) (sc_TargetType req))) (\<lambda>target.
     thenE (validatePurpose (sc_Purpose req)) (
     thenE (guardE (vm_cache s) (NewBusiness CodeInternalError ''verification cache is not configured'')) (
     bindE (applyRateLimits s target (sc_Purpose req) (sc_DeviceID req) ipAddress) (\<lambda>rollbackKeys.
     thenE (limitOr rollbackKeys (cancelPreviousCode target (sc_TargetType req) (sc_Purpose req))) (
     bindE (generateCode s) (\<lambda>code.
     bindE now (\<lambda>t.
     bindE (randString (vm_rand s) 8) (\<lambda>suffix.
     bindE now (\<lambda>t'.
     storeAndDispatch s req target ipAddress rollbackKeys code (''vc_'' @ itoa t @ ''_'' @ suffix) (t' + ttl_of s))))))))))"

subsection \<open>Verifying a code\<close>

definition resolveMissingCodeError :: "string \<Rightarrow> int \<Rightarrow> int \<Rightarrow> (user_db, 'a) M" where
  "resolveMissingCodeError target targetType purpose =
     bindE (catchE (optionalE (codeRepo_GetLatestByTarget target targetType purpose))
       (\<lambda>_. throwE (NewBusiness CodeInternalError ''failed to load verification audit record''))) (\<lambda>code.
     case code of
       None \<Rightarrow> throwE (NewBusiness CodeVerifyCodeNotFound ''verification code not found'')
     | Some c \<Rightarrow>
         if vc_Status c = CodeStatusVerified then throwE (NewBusiness CodeVerifyCodeAlreadyUsed ''verification code has already been used'')
         else if vc_Status c = CodeStatusExpired then throwE (NewBusiness CodeVerifyCodeExpired ''verification code has expired'')
         else if vc_Status c = CodeStatusLocked then throwE (NewBusiness CodeVerifyAttemptsExceeded ''verification attempts exceeded, code locked'')
         else throwE (NewBusiness CodeVerifyCodeNotFound ''verification code not found''))"

record VerifyCodeRequest =
  vr_Target :: string
  vr_TargetType :: int
  vr_Purpose :: int
  vr_Code :: string

record VerifyCodeResponse =
  vs_Valid :: bool
  vs_CodeID :: string
  vs_Message :: string

definition field :: "(string \<times> hval) list \<Rightarrow> string \<Rightarrow> string" where
  "field fs name = (case map_of fs name of Some (HText s) \<Rightarrow> s | _ \<Rightarrow> '''')"

text \<open>\<open>time.Parse(time.RFC3339, fields["expires_at"])\<close>.\<close>

definition expiry_field :: "(string \<times> hval) list \<Rightarrow> int option" where
  "expiry_field fs = (case map_of fs ''expires_at'' of Some (HTime sec) \<Rightarrow> Some (sec * Second) | _ \<Rightarrow> None)"

definition max_attempts_of :: "verificationManagerImpl \<Rightarrow> (string \<times> hval) list \<Rightarrow> int" where
  "max_attempts_of s fs =
     (if field fs ''max_attempts'' \<noteq> '''' then
        (case ParseInt (field fs ''max_attempts'') of (parsed, True) \<Rightarrow> parsed | _ \<Rightarrow> vm_MaxAttempts s)
      else vm_MaxAttempts s)"

definition wrongCode :: "verificationManagerImpl \<Rightarrow> string \<Rightarrow> (string \<times> hval) list \<Rightarrow> (user_db, VerifyCodeResponse) M" where
  "wrongCode s cacheKey fs =
     (let codeID = field fs ''code_id'' in
      bindE (catchE (cacheE (\<lambda>t c. cache_HIncrBy t cacheKey ''attempts'' 1 c))
        (\<lambda>_. throwE (NewBusiness CodeInternalError ''failed to track verification attempt''))) (\<lambda>attempts.
      thenE (ignoreE (codeRepo_IncrementAttempts codeID)) (
      if attempts \<ge> max_attempts_of s fs then
        thenE (ignoreE (delE cacheKey)) (
        thenE (ignoreE (codeRepo_UpdateStatus codeID CodeStatusLocked)) (
        throwE (NewBusiness CodeVerifyAttemptsExceeded ''too many verification attempts, code locked'')))
      else throwE (NewBusiness CodeVerifyCodeError ''incorrect verification code''))))"

text \<open>From the loaded fields on.\<close>

definition checkStored :: "verificationManagerImpl \<Rightarrow> VerifyCodeRequest \<Rightarrow> string \<Rightarrow> string \<Rightarrow> (string \<times> hval) list \<Rightarrow> (user_db, VerifyCodeResponse) M" where
  "checkStored s req target cacheKey fs =
     (let codeID = field fs ''code_id'' in
      thenE (guardE (field fs ''target_type'' = VerificationTargetType_String (vr_TargetType req))
        (NewBusiness CodeVerifyCodeNotFound ''verification code not found for this target'')) (
      case expiry_field fs of
        None \<Rightarrow> throwE (NewBusiness CodeInternalError ''invalid verification code expiry'')
      | Some expiresAt \<Rightarrow>
          bindE now (\<lambda>t.
          if t > expiresAt then
            thenE (ignoreE (delE cacheKey)) (
            thenE (ignoreE (codeRepo_UpdateStatus codeID CodeStatusExpired)) (
            throwE (NewBusiness CodeVerifyCodeExpired ''verification code has expired'')))
          else if hashCode s (vr_Purpose req) target (vr_Code req) \<noteq> field fs ''code_hash'' then wrongCode s cacheKey fs
          else
            bindE now (\<lambda>t'.
            thenE (catchE (codeRepo_UpdateVerifiedAt codeID t')
              (\<lambda>_. throwE (NewBusiness CodeInternalError ''failed to mark verification code as used''))) (
            thenE (ignoreE (delE cacheKey)) (
            returnE \<lparr>vs_Valid = True, vs_CodeID = codeID, vs_Message = ''verification successful''\<rparr>))))))"

definition loadFields :: "string \<Rightarrow> (user_db, (string \<times> hval) list) M" where
  "loadFields cacheKey =
     catchE (cacheE (\<lambda>t c. case cache_HGetAll t cacheKey c of Inl e \<Rightarrow> Inl e | Inr fs \<Rightarrow> Inr (fs, c)))
       (\<lambda>_. throwE (NewBusiness CodeInternalError ''failed to load verification code''))"

definition VerifyCode :: "verificationManagerImpl \<Rightarrow> VerifyCodeRequest \<Rightarrow> (user_db, VerifyCodeResponse) M" where
  "VerifyCode s req =
     bindE (liftE (validateAndNormalizeTarget s (vr_Target req) (vr_TargetType req))) (\<lambda>target.
     thenE (validatePurpose (vr_Purpose req)) (
     thenE (guardE (vm_cache s) (NewBusiness CodeInternalError ''verification cache is not configured'')) (
     let cacheKey = codeCacheKey s (vr_Purpose req) target in
     bindE (loadFields cacheKey) (\<lambda>fs.
     if fs = [] then
       (if shouldAllowDevBypass s (vr_Code req) then
          returnE \<lparr>vs_Valid = True, vs_CodeID = ''dev-bypass'', vs_Message = ''verification successful''\<rparr>
        else resolveMissingCodeError target (vr_TargetType req) (vr_Purpose req))
     else checkStored s req target cacheKey fs))))"

definition CheckCodeStatus :: "string \<Rightarrow> (user_db, int \<times> int) M" where
  "CheckCodeStatus codeID =
     bindE (catchE (codeRepo_GetByCodeID codeID)
       (\<lambda>_. throwE (NewBusiness CodeVerifyCodeNotFound ''verification code not found''))) (\<lambda>code.
     returnE (vc_Status code, vc_ExpiresAt code))"

end
