(* ===== verification/User_Service.thy ===== *)
theory User_Service
  imports Verification
begin

text \<open>
  The operations of the user service (\<open>app/user/internal/service/user_service.go\<close>): registration, login and
  sessions, passwords, profiles, settings, QR codes, push tokens and the binding of telephone numbers and
  e-mail addresses.  The verification manager is the one of \<open>Verification\<close>; the friend service, the JWT
  and bcrypt libraries, the database's LIKE and gorm's \<open>Assign\<close> are fields of the service record.
\<close>

record userServiceImpl =
  sv_authConf :: AuthConf
  sv_verifyManager :: verificationManagerImpl
  sv_jwtManager :: AuthConf
  sv_jwt :: jwt_lib
  sv_bcrypt :: bcrypt_lib
  sv_like :: "string \<Rightarrow> string \<Rightarrow> bool"
  sv_assign :: "UserPushToken \<Rightarrow> UserPushToken \<Rightarrow> UserPushToken"
  sv_IsBlocked :: "nat \<Rightarrow> string \<Rightarrow> string \<Rightarrow> err + bool"
  sv_IsFriend :: "nat \<Rightarrow> string \<Rightarrow> string \<Rightarrow> err + bool"

abbreviation sv_phone :: "userServiceImpl \<Rightarrow> phone_lib" where
  "sv_phone s \<equiv> vm_phone (sv_verifyManager s)"

abbreviation sv_rand :: "userServiceImpl \<Rightarrow> rand_source" where
  "sv_rand s \<equiv> vm_rand (sv_verifyManager s)"

text \<open>\<open>fmt.Errorf("what: %w", err)\<close>.\<close>

definition wrapE :: "string \<Rightarrow> ('db, 'a) M \<Rightarrow> ('db, 'a) M" where
  "wrapE what m = catchE m (\<lambda>e. throwE (Plain (what @ '': '' @ err_string e)))"

subsection \<open>Texts\<close>

definition isEmail :: "string \<Rightarrow> bool" where
  "isEmail account = (CHR ''@'' \<in> set account)"

definition maskPhone :: "string \<Rightarrow> string" where
  "maskPhone phone =
     (if length phone < 7 then ''***'' else take 3 phone @ ''****'' @ drop (length phone - 4) phone)"

definition maskEmail :: "string \<Rightarrow> string" where
  "maskEmail email =
     (let before = takeWhile (\<lambda>c. c \<noteq> CHR ''@'') email;
          at = (if CHR ''@'' \<in> set email then length before else 0) in
      if at = 0 \<or> at = length email - 1 then ''***''
      else let name = take at email; domain = drop (at + 1) email in
        if length name \<le> 2 then ''***@'' @ domain else take 2 name @ ''***@'' @ domain)"

definition toPtr :: "string \<Rightarrow> string option" where
  "toPtr s = Some s"

definition normalizeAccountForLookup :: "userServiceImpl \<Rightarrow> string \<Rightarrow> err + string" where
  "normalizeAccountForLookup s account =
     (let account = trim_space account in
      if isEmail account then Inr (to_lower account)
      else (case NormalizePhone (sv_phone s) account of
              None \<Rightarrow> Inl (NewBusiness CodeParamError ''invalid account format'')
            | Some e164 \<Rightarrow> Inr e164))"

definition normalizePhoneE :: "userServiceImpl \<Rightarrow> string \<Rightarrow> (user_db, string) M" where
  "normalizePhoneE s phone =
     (case NormalizePhone (sv_phone s) phone of
        None \<Rightarrow> throwE (NewBusiness CodePhoneFormatInvalid ''invalid phone number format'')
      | Some e164 \<Rightarrow> returnE e164)"

subsection \<open>QR codes and the data of a new user\<close>

definition refreshQRCodeInTx :: "userServiceImpl \<Rightarrow> string \<Rightarrow> (user_db, string \<times> int) M" where
  "refreshQRCodeInTx s userID =
     bindE (GenerateQRCodeToken (sv_rand s) userID) (\<lambda>qrcodeToken.
     let qrcodeURL = ''anychat://qrcode?token='' @ qrcodeToken in
     bindE now (\<lambda>t.
     let expiresAt = t + 24 * Hour in
     thenE (userQRCodeRepo_Create \<lparr>uq_ID = 0, uq_UserID = userID, uq_QRCodeToken = qrcodeToken,
       uq_QRCodeURL = qrcodeURL, uq_ExpiresAt = expiresAt, uq_CreatedAt = 0\<rparr>) (
     thenE (profileRepo_UpdateQRCode userID qrcodeURL) (
     returnE (qrcodeURL, expiresAt)))))"

definition RefreshQRCode :: "userServiceImpl \<Rightarrow> string \<Rightarrow> (user_db, string \<times> int) M" where
  "RefreshQRCode s userID =
     bindE (GenerateQRCodeToken (sv_rand s) userID) (\<lambda>qrcodeToken.
     let qrcodeURL = ''anychat://qrcode?token='' @ qrcodeToken in
     bindE now (\<lambda>t.
     let expiresAt = t + 24 * Hour in
     thenE (userQRCodeRepo_Create \<lparr>uq_ID = 0, uq_UserID = userID, uq_QRCodeToken = qrcodeToken,
       uq_QRCodeURL = qrcodeURL, uq_ExpiresAt = expiresAt, uq_CreatedAt = 0\<rparr>) (
     thenE (profileRepo_UpdateQRCode userID qrcodeURL) (
     returnE (qrcodeURL, expiresAt)))))"

text \<open>\<open>userID[:8]\<close> panics when the text is shorter.\<close>

definition initUserDataInTx :: "userServiceImpl \<Rightarrow> string \<Rightarrow> string \<Rightarrow> (user_db, unit) M" where
  "initUserDataInTx s userID nickname =
     bindE (if nickname = '''' then
         (if length userID < 8 then throwE (Panicked ''slice bounds out of range'') else returnE (''User_'' @ take 8 userID))
       else returnE nickname) (\<lambda>nickname.
     thenE (profileRepo_Create \<lparr>up_ID = 0, up_UserID = userID, up_Nickname = nickname, up_Avatar = '''', up_Signature = '''',
       up_Gender = GenderUnknown, up_Birthday = None, up_Region = '''', up_QRCodeURL = '''', up_QRCodeUpdatedAt = None,
       up_CreatedAt = 0, up_UpdatedAt = 0\<rparr>) (
     thenE (settingsRepo_Create \<lparr>st_ID = 0, st_UserID = userID, st_NotificationEnabled = True, st_SoundEnabled = True,
       st_VibrationEnabled = True, st_MessagePreviewEnabled = True, st_FriendVerifyRequired = True, st_SearchByPhone = True,
       st_SearchByID = True, st_Language = ''zh_CN'', st_CreatedAt = 0, st_UpdatedAt = 0\<rparr>) (
     void (refreshQRCodeInTx s userID))))"

subsection \<open>Verification\<close>

definition SendVerificationCode :: "userServiceImpl \<Rightarrow> string \<Rightarrow> int \<Rightarrow> int \<Rightarrow> string \<Rightarrow> string \<Rightarrow> (user_db, string \<times> int) M" where
  "SendVerificationCode s target targetType purpose deviceId ipAddress =
     bindE (SendCode (sv_verifyManager s) \<lparr>sc_Target = target, sc_TargetType = int16 targetType, sc_Purpose = int16 purpose,
       sc_DeviceID = deviceId\<rparr> ipAddress) (\<lambda>resp.
     returnE (sr_CodeID resp, sr_ExpiresIn resp))"

definition verifyCode :: "userServiceImpl \<Rightarrow> string \<Rightarrow> int \<Rightarrow> int \<Rightarrow> string \<Rightarrow> (user_db, unit) M" where
  "verifyCode s target targetType purpose code =
     bindE (VerifyCode (sv_verifyManager s) \<lparr>vr_Target = target, vr_TargetType = targetType, vr_Purpose = purpose, vr_Code = code\<rparr>)
       (\<lambda>resp. guardE (vs_Valid resp) (NewBusiness CodeVerifyCodeError ''invalid verification code''))"

subsection \<open>Registration\<close>

record RegisterRequest =
  rq_PhoneNumber :: string
  rq_Email :: string
  rq_Password :: string
  rq_VerifyCode :: string
  rq_Nickname :: string
  rq_DeviceType :: int
  rq_DeviceId :: string
  rq_ClientVersion :: string

record AuthResponse =
  ar_UserId :: string
  ar_AccessToken :: string
  ar_RefreshToken :: string
  ar_ExpiresIn :: int

definition expires_in :: "userServiceImpl \<Rightarrow> int" where
  "expires_in s = quot (ac_AccessTokenExpire (sv_authConf s)) Second"

definition newSession :: "string \<Rightarrow> string \<Rightarrow> string \<Rightarrow> string \<Rightarrow> int \<Rightarrow> int \<Rightarrow> UserSession" where
  "newSession userID deviceID accessToken refreshToken accessExpiresAt refreshExpiresAt =
     \<lparr>us_ID = 0, us_UserID = userID, us_DeviceID = deviceID, us_AccessToken = accessToken, us_RefreshToken = refreshToken,
      us_AccessTokenExpiresAt = accessExpiresAt, us_RefreshTokenExpiresAt = refreshExpiresAt, us_CreatedAt = 0, us_UpdatedAt = 0\<rparr>"

definition newDevice :: "string \<Rightarrow> string \<Rightarrow> int \<Rightarrow> string \<Rightarrow> UserDevice" where
  "newDevice userID deviceID deviceType clientVersion =
     \<lparr>ud_ID = 0, ud_UserID = userID, ud_DeviceID = deviceID, ud_DeviceType = deviceType, ud_ClientVersion = clientVersion,
      ud_LastLoginAt = None, ud_LastLoginIP = '''', ud_CreatedAt = 0, ud_UpdatedAt = 0\<rparr>"

text \<open>The body of the registration transaction.\<close>

definition registerTx :: "userServiceImpl \<Rightarrow> string \<Rightarrow> string \<Rightarrow> string \<Rightarrow> string \<Rightarrow> string \<Rightarrow> string \<Rightarrow> int \<Rightarrow> string \<Rightarrow> (user_db, string \<times> string) M" where
  "registerTx s userID phoneNumber email passwordHash nickname deviceID deviceType clientVersion =
     thenE (wrapE ''create user'' (userRepo_Create \<lparr>u_ID = userID, u_Phone = toPtr phoneNumber, u_Email = toPtr email,
       u_PasswordHash = passwordHash, u_Status = UserStatusNormal, u_CreatedAt = 0, u_UpdatedAt = 0, u_DeletedAt = None\<rparr>)) (
     thenE (wrapE ''init user data'' (initUserDataInTx s userID nickname)) (
     thenE (wrapE ''create device'' (deviceRepo_Create (newDevice userID deviceID deviceType clientVersion))) (
     bindE (wrapE ''generate access token'' (GenerateAccessToken (sv_jwt s) (sv_jwtManager s) userID deviceID deviceType)) (\<lambda>accessToken.
     bindE (wrapE ''generate refresh token'' (GenerateRefreshToken (sv_jwt s) (sv_jwtManager s) userID deviceID deviceType)) (\<lambda>refreshToken.
     bindE now (\<lambda>t.
     bindE now (\<lambda>t'.
     thenE (wrapE ''create session'' (sessionRepo_Create (newSession userID deviceID accessToken refreshToken
       (t + ac_AccessTokenExpire (sv_authConf s)) (t' + ac_RefreshTokenExpire (sv_authConf s))))) (
     returnE (accessToken, refreshToken)))))))))"

text \<open>The number to register with, and the target and kind of target of the code to be verified.\<close>

definition registerTarget :: "userServiceImpl \<Rightarrow> RegisterRequest \<Rightarrow> (user_db, string \<times> int \<times> string) M" where
  "registerTarget s req =
     (if rq_PhoneNumber req \<noteq> '''' then
        bindE (normalizePhoneE s (rq_PhoneNumber req)) (\<lambda>e164. returnE (e164, TargetTypeSMS, e164))
      else if \<not> ValidateEmail (rq_Email req) then throwE (NewBusiness CodeEmailFormatInvalid ''invalid email format'')
      else returnE ('''', TargetTypeEmail, rq_Email req))"

text \<open>From the verified code on.\<close>

definition createAccount :: "userServiceImpl \<Rightarrow> RegisterRequest \<Rightarrow> string \<Rightarrow> (user_db, AuthResponse) M" where
  "createAccount s req phoneNumber =
     (let email = rq_Email req; exists = NewBusiness CodeUserExists ''user already exists'' in
      thenE (if phoneNumber \<noteq> '''' then bindE (optionalE (userRepo_GetByPhone phoneNumber)) (\<lambda>u. guardE (u = None) exists)
        else returnE ()) (
      thenE (if email \<noteq> '''' then bindE (optionalE (userRepo_GetByEmail email)) (\<lambda>u. guardE (u = None) exists)
        else returnE ()) (
      bindE new_uuid (\<lambda>userID.
      bindE (if rq_DeviceId req = '''' then new_uuid else returnE (rq_DeviceId req)) (\<lambda>deviceID.
      bindE (HashPassword (sv_bcrypt s) (rq_Password req)) (\<lambda>passwordHash.
      bindE (transaction (registerTx s userID phoneNumber email passwordHash (rq_Nickname req) deviceID
        (int16 (rq_DeviceType req)) (rq_ClientVersion req))) (\<lambda>(accessToken, refreshToken).
      returnE \<lparr>ar_UserId = userID, ar_AccessToken = accessToken, ar_RefreshToken = refreshToken,
        ar_ExpiresIn = expires_in s\<rparr>)))))))"

definition Register :: "userServiceImpl \<Rightarrow> RegisterRequest \<Rightarrow> (user_db, AuthResponse) M" where
  "Register s req =
     bindE (registerTarget s req) (\<lambda>(phoneNumber, targetType, verifyTarget).
     thenE (verifyCode s verifyTarget targetType PurposeRegister (rq_VerifyCode req)) (
     createAccount s req phoneNumber))"

subsection \<open>Login, sessions and forced logout\<close>

definition publishForceLogout :: "string \<Rightarrow> UserDevice \<Rightarrow> string \<Rightarrow> (user_db, unit) M" where
  "publishForceLogout userID device reason =
     bindE (NewNotification TypeAuthForceLogout userID PriorityHigh) (\<lambda>notif.
     ignoreE (PublishToUser userID (WithPayload notif
       [(''device_id'', JStr (ud_DeviceID device)), (''device_type'', JStr (DeviceType_String (ud_DeviceType device))),
        (''reason'', JStr reason)])))"

definition handleSameTypeDeviceKick :: "string \<Rightarrow> string \<Rightarrow> int \<Rightarrow> (user_db, unit) M" where
  "handleSameTypeDeviceKick userID deviceID deviceType =
     bindE (deviceRepo_GetByUserIDAndDeviceType userID deviceType) (\<lambda>devices.
     forE devices (\<lambda>device.
       if ud_DeviceID device = deviceID then returnE ()
       else thenE (ignoreE (sessionRepo_DeleteByUserIDAndDeviceID userID (ud_DeviceID device)))
              (publishForceLogout userID device ''new_device_login'')))"

text \<open>One round of the loops of \<open>forceLogoutAllDevices\<close> and \<open>forceLogoutOtherDevices\<close>.\<close>

definition logoutDevice :: "string \<Rightarrow> string \<Rightarrow> UserDevice \<Rightarrow> (user_db, unit) M" where
  "logoutDevice userID reason device =
     bindE (attemptE (sessionRepo_DeleteByUserIDAndDeviceID userID (ud_DeviceID device))) (\<lambda>r.
     case r of None \<Rightarrow> returnE () | Some _ \<Rightarrow> publishForceLogout userID device reason)"

definition forceLogoutAllDevices :: "string \<Rightarrow> string \<Rightarrow> (user_db, unit) M" where
  "forceLogoutAllDevices userID reason =
     bindE (deviceRepo_GetByUserID userID) (\<lambda>devices. forE devices (logoutDevice userID reason))"

definition forceLogoutOtherDevices :: "string \<Rightarrow> string \<Rightarrow> string \<Rightarrow> (user_db, unit) M" where
  "forceLogoutOtherDevices userID excludeDeviceID reason =
     bindE (deviceRepo_GetByUserID userID) (\<lambda>devices.
     forE devices (\<lambda>device.
       if ud_DeviceID device = excludeDeviceID then returnE () else logoutDevice userID reason device))"

record LoginRequest =
  lq_Account :: string
  lq_Password :: string
  lq_DeviceType :: int
  lq_DeviceId :: string
  lq_ClientVersion :: string
  lq_IpAddress :: string

record LoginResponse =
  lr_UserId :: string
  lr_AccessToken :: string
  lr_RefreshToken :: string
  lr_ExpiresIn :: int
  lr_Phone :: "string option"
  lr_Email :: "string option"

text \<open>The device of a login: a new row, or a fresh time in the row there is.\<close>

definition recordDevice :: "string \<Rightarrow> LoginRequest \<Rightarrow> (user_db, unit) M" where
  "recordDevice userID req =
     bindE (optionalE (deviceRepo_GetByUserIDAndDeviceID userID (lq_DeviceId req))) (\<lambda>existingDevice.
     case existingDevice of
       None \<Rightarrow> deviceRepo_Create (newDevice userID (lq_DeviceId req) (int16 (lq_DeviceType req)) (lq_ClientVersion req))
     | Some _ \<Rightarrow> deviceRepo_UpdateLastLogin userID (lq_DeviceId req) (lq_IpAddress req))"

text \<open>The session of a login: a new row, or new tokens in the row there is.\<close>

definition storeSession :: "string \<Rightarrow> string \<Rightarrow> string \<Rightarrow> string \<Rightarrow> int \<Rightarrow> int \<Rightarrow> (user_db, unit) M" where
  "storeSession userID deviceID accessToken refreshToken accessExpiresAt refreshExpiresAt =
     bindE (optionalE (sessionRepo_GetByUserIDAndDeviceID userID deviceID)) (\<lambda>session.
     case session of
       None \<Rightarrow> sessionRepo_Create (newSession userID deviceID accessToken refreshToken accessExpiresAt refreshExpiresAt)
     | Some x \<Rightarrow> sessionRepo_Update (x\<lparr>us_AccessToken := accessToken, us_RefreshToken := refreshToken,
         us_AccessTokenExpiresAt := accessExpiresAt, us_RefreshTokenExpiresAt := refreshExpiresAt\<rparr>))"

text \<open>What follows the checks of a login.\<close>

definition openSession :: "userServiceImpl \<Rightarrow> User \<Rightarrow> LoginRequest \<Rightarrow> (user_db, LoginResponse) M" where
  "openSession s user req =
     (let deviceType = int16 (lq_DeviceType req) in
      thenE (ignoreE (handleSameTypeDeviceKick (u_ID user) (lq_DeviceId req) deviceType)) (
      thenE (recordDevice (u_ID user) req) (
      bindE (GenerateAccessToken (sv_jwt s) (sv_jwtManager s) (u_ID user) (lq_DeviceId req) deviceType) (\<lambda>accessToken.
      bindE (GenerateRefreshToken (sv_jwt s) (sv_jwtManager s) (u_ID user) (lq_DeviceId req) deviceType) (\<lambda>refreshToken.
      bindE now (\<lambda>t.
      bindE now (\<lambda>t'.
      thenE (storeSession (u_ID user) (lq_DeviceId req) accessToken refreshToken
        (t + ac_AccessTokenExpire (sv_authConf s)) (t' + ac_RefreshTokenExpire (sv_authConf s))) (
      returnE \<lparr>lr_UserId = u_ID user, lr_AccessToken = accessToken, lr_RefreshToken = refreshToken,
        lr_ExpiresIn = expires_in s, lr_Phone = u_Phone user, lr_Email = u_Email user\<rparr>))))))))"

definition Login :: "userServiceImpl \<Rightarrow> LoginRequest \<Rightarrow> (user_db, LoginResponse) M" where
  "Login s req =
     bindE (liftE (normalizeAccountForLookup s (lq_Account req))) (\<lambda>lookupAccount.
     bindE (optionalE (userRepo_GetByAccount lookupAccount)) (\<lambda>found.
     case found of
       None \<Rightarrow> throwE (NewBusiness CodeUserNotFound ''user not found'')
     | Some user \<Rightarrow>
         thenE (guardE (User_IsActive user) (NewBusiness CodeAccountDisabled ''account has been disabled'')) (
         thenE (guardE (CheckPassword (sv_bcrypt s) (lq_Password req) (u_PasswordHash user))
           (NewBusiness CodePasswordError ''incorrect password'')) (
         openSession s user req))))"

definition Logout :: "string \<Rightarrow> string \<Rightarrow> (user_db, unit) M" where
  "Logout userID deviceID = sessionRepo_DeleteByUserIDAndDeviceID userID deviceID"

definition RefreshToken :: "userServiceImpl \<Rightarrow> string \<Rightarrow> (user_db, string \<times> string \<times> int) M" where
  "RefreshToken s refreshTokenIn =
     (let invalid = NewBusiness CodeRefreshTokenInvalid ''invalid refresh token'' in
      bindE (catchE (ValidateRefreshToken (sv_jwt s) (sv_jwtManager s) refreshTokenIn) (\<lambda>_. throwE invalid)) (\<lambda>claims.
      bindE (catchE (sessionRepo_GetByRefreshToken refreshTokenIn) (\<lambda>_. throwE invalid)) (\<lambda>session.
      bindE now (\<lambda>t0.
      thenE (guardE (\<not> IsRefreshTokenExpired t0 session) (NewBusiness CodeRefreshTokenExpired ''refresh token expired'')) (
      bindE (GenerateAccessToken (sv_jwt s) (sv_jwtManager s) (cl_UserID claims) (cl_DeviceID claims) (cl_DeviceType claims)) (\<lambda>accessToken.
      bindE (GenerateRefreshToken (sv_jwt s) (sv_jwtManager s) (cl_UserID claims) (cl_DeviceID claims) (cl_DeviceType claims)) (\<lambda>refreshToken.
      bindE now (\<lambda>t.
      bindE now (\<lambda>t'.
      thenE (sessionRepo_Update (session\<lparr>us_RefreshToken := refreshToken,
        us_RefreshTokenExpiresAt := t + ac_RefreshTokenExpire (sv_authConf s), us_AccessToken := accessToken,
        us_AccessTokenExpiresAt := t' + ac_AccessTokenExpire (sv_authConf s)\<rparr>)) (
      returnE (accessToken, refreshToken, expires_in s)))))))))))"

subsection \<open>Passwords\<close>

definition ChangePassword :: "userServiceImpl \<Rightarrow> string \<Rightarrow> string \<Rightarrow> string \<Rightarrow> string \<Rightarrow> (user_db, unit) M" where
  "ChangePassword s userID oldPassword newPassword deviceID =
     bindE (catchE (userRepo_GetByID userID) (\<lambda>_. throwE (NewBusiness CodeUserNotFound ''user not found''))) (\<lambda>user.
     thenE (guardE (CheckPassword (sv_bcrypt s) oldPassword (u_PasswordHash user))
       (NewBusiness CodePasswordError ''incorrect password'')) (
     bindE (HashPassword (sv_bcrypt s) newPassword) (\<lambda>passwordHash.
     thenE (userRepo_UpdatePassword userID passwordHash) (
     forceLogoutOtherDevices userID deviceID ''password_changed''))))"

definition resetTx :: "string \<Rightarrow> string \<Rightarrow> (user_db, unit) M" where
  "resetTx userID passwordHash =
     thenE (wrapE ''update password'' (userRepo_UpdatePassword userID passwordHash))
       (wrapE ''delete sessions'' (sessionRepo_DeleteByUserID userID))"

definition ResetPassword :: "userServiceImpl \<Rightarrow> string \<Rightarrow> string \<Rightarrow> string \<Rightarrow> (user_db, unit) M" where
  "ResetPassword s account0 code newPassword =
     bindE (liftE (normalizeAccountForLookup s account0)) (\<lambda>account.
     let targetType = (if isEmail account then TargetTypeEmail else TargetTypeSMS) in
     bindE (notFoundE (userRepo_GetByAccount account) (NewBusiness CodeUserNotFound ''user not found'')) (\<lambda>user.
     thenE (VerifyCode (sv_verifyManager s) \<lparr>vr_Target = account, vr_TargetType = targetType,
       vr_Purpose = PurposeResetPassword, vr_Code = code\<rparr>) (
     bindE (HashPassword (sv_bcrypt s) newPassword) (\<lambda>passwordHash.
     thenE (transaction (resetTx (u_ID user) passwordHash)) (
     forceLogoutAllDevices (u_ID user) ''password_reset'')))))"

subsection \<open>Profiles and settings\<close>

record UserProfileResponse =
  pr_UserId :: string
  pr_Nickname :: string
  pr_Avatar :: string
  pr_Signature :: string
  pr_Gender :: int
  pr_Birthday :: "int option"
  pr_Region :: string
  pr_Phone :: "string option"
  pr_Email :: "string option"
  pr_QrcodeUrl :: string
  pr_CreatedAt :: int

definition toUserProfileResponse :: "UserProfile \<Rightarrow> UserProfileResponse" where
  "toUserProfileResponse p =
     \<lparr>pr_UserId = up_UserID p, pr_Nickname = up_Nickname p, pr_Avatar = up_Avatar p, pr_Signature = up_Signature p,
      pr_Gender = int32 (up_Gender p), pr_Birthday = up_Birthday p, pr_Region = up_Region p, pr_Phone = None, pr_Email = None,
      pr_QrcodeUrl = up_QRCodeURL p, pr_CreatedAt = up_CreatedAt p\<rparr>"

definition GetProfile :: "string \<Rightarrow> (user_db, UserProfileResponse) M" where
  "GetProfile userID =
     bindE (notFoundE (profileRepo_GetByUserID userID) (NewBusiness CodeUserProfileNotFound ''user profile not found'')) (\<lambda>profile.
     bindE (notFoundE (userRepo_GetByID userID) (NewBusiness CodeUserNotFound ''user not found'')) (\<lambda>user.
     returnE ((toUserProfileResponse profile)\<lparr>pr_Phone := u_Phone user, pr_Email := u_Email user\<rparr>)))"

record UpdateProfileRequest =
  uf_Nickname :: "string option"
  uf_Avatar :: "string option"
  uf_Signature :: "string option"
  uf_Gender :: "int option"
  uf_Birthday :: "int option"
  uf_Region :: "string option"

definition checkNickname :: "string \<Rightarrow> string \<Rightarrow> (user_db, unit) M" where
  "checkNickname userID nickname =
     thenE (guardE (ValidateNickname nickname) (NewBusiness CodeParamError ''invalid nickname format'')) (
     thenE (guardE (\<not> ContainsSensitiveWords nickname) (NewBusiness CodeNicknameSensitive ''nickname contains sensitive words'')) (
     bindE (profileRepo_CheckNicknameExists nickname userID) (\<lambda>exists.
     guardE (\<not> exists) (NewBusiness CodeNicknameUsed ''nickname is already taken''))))"

definition or_keep :: "'a option \<Rightarrow> 'a \<Rightarrow> 'a" where
  "or_keep new old = (case new of None \<Rightarrow> old | Some v \<Rightarrow> v)"

definition applyProfile :: "UpdateProfileRequest \<Rightarrow> UserProfile \<Rightarrow> UserProfile" where
  "applyProfile req p = p\<lparr>up_Nickname := or_keep (uf_Nickname req) (up_Nickname p), up_Avatar := or_keep (uf_Avatar req) (up_Avatar p),
     up_Signature := or_keep (uf_Signature req) (up_Signature p), up_Gender := or_keep (uf_Gender req) (up_Gender p),
     up_Birthday := (case uf_Birthday req of None \<Rightarrow> up_Birthday p | Some b \<Rightarrow> Some b),
     up_Region := or_keep (uf_Region req) (up_Region p)\<rparr>"

definition UpdateProfile :: "string \<Rightarrow> UpdateProfileRequest \<Rightarrow> (user_db, UserProfileResponse) M" where
  "UpdateProfile userID req =
     bindE (profileRepo_GetByUserID userID) (\<lambda>profile.
     thenE (case uf_Nickname req of None \<Rightarrow> returnE () | Some nickname \<Rightarrow> checkNickname userID nickname) (
     thenE (case uf_Gender req of None \<Rightarrow> returnE ()
       | Some g \<Rightarrow> guardE (ValidateGender g) (NewBusiness CodeParamError ''invalid gender value'')) (
     bindE (profileRepo_Update (applyProfile req profile)) (\<lambda>p.
     returnE (toUserProfileResponse p)))))"

record UserInfoResponse =
  ui_UserId :: string
  ui_Nickname :: string
  ui_Avatar :: string
  ui_Signature :: string
  ui_Gender :: int
  ui_Region :: string
  ui_IsFriend :: bool
  ui_IsBlocked :: bool

definition GetUserInfo :: "userServiceImpl \<Rightarrow> string \<Rightarrow> string \<Rightarrow> (user_db, UserInfoResponse) M" where
  "GetUserInfo s userID targetUserId =
     bindE (notFoundE (profileRepo_GetByUserID targetUserId) (NewBusiness CodeUserProfileNotFound ''user profile not found'')) (\<lambda>profile.
     bindE (rpc (\<lambda>n. sv_IsBlocked s n userID targetUserId)) (\<lambda>isBlocked.
     thenE (guardE (\<not> isBlocked) (NewBusiness CodePermissionDenied ''you have been blocked by this user'')) (
     bindE (rpc (\<lambda>n. sv_IsFriend s n userID targetUserId)) (\<lambda>isFriend.
     returnE \<lparr>ui_UserId = up_UserID profile, ui_Nickname = up_Nickname profile, ui_Avatar = up_Avatar profile,
       ui_Signature = up_Signature profile, ui_Gender = int32 (up_Gender profile), ui_Region = up_Region profile,
       ui_IsFriend = isFriend, ui_IsBlocked = isBlocked\<rparr>))))"

text \<open>The answer: the total and, for each user of the page, identifier, nickname, avatar and signature.\<close>

definition SearchUsers :: "userServiceImpl \<Rightarrow> string \<Rightarrow> int \<Rightarrow> int \<Rightarrow> (user_db, int \<times> (string \<times> string \<times> string \<times> string) list) M" where
  "SearchUsers s keyword page0 pageSize0 =
     (let page = (if page0 \<le> 0 then 1 else page0);
          pageSize = (if pageSize0 \<le> 0 \<or> pageSize0 > 100 then 20 else pageSize0) in
      bindE (profileRepo_SearchByKeyword (sv_like s) keyword pageSize ((page - 1) * pageSize)) (\<lambda>(profiles, total).
      returnE (total, map (\<lambda>p. (up_UserID p, up_Nickname p, up_Avatar p, up_Signature p)) profiles)))"

record UserSettingsResponse =
  sg_UserId :: string
  sg_NotificationEnabled :: bool
  sg_SoundEnabled :: bool
  sg_VibrationEnabled :: bool
  sg_MessagePreviewEnabled :: bool
  sg_FriendVerifyRequired :: bool
  sg_SearchByPhone :: bool
  sg_SearchById :: bool
  sg_Language :: string

definition settingsResponse :: "UserSettings \<Rightarrow> UserSettingsResponse" where
  "settingsResponse x =
     \<lparr>sg_UserId = st_UserID x, sg_NotificationEnabled = st_NotificationEnabled x, sg_SoundEnabled = st_SoundEnabled x,
      sg_VibrationEnabled = st_VibrationEnabled x, sg_MessagePreviewEnabled = st_MessagePreviewEnabled x,
      sg_FriendVerifyRequired = st_FriendVerifyRequired x, sg_SearchByPhone = st_SearchByPhone x,
      sg_SearchById = st_SearchByID x, sg_Language = st_Language x\<rparr>"

definition GetSettings :: "string \<Rightarrow> (user_db, UserSettingsResponse) M" where
  "GetSettings userID =
     bindE (notFoundE (settingsRepo_GetByUserID userID) (NewBusiness CodeUserProfileNotFound ''user profile not found'')) (\<lambda>settings.
     returnE (settingsResponse settings))"

record UpdateSettingsRequest =
  ut_NotificationEnabled :: "bool option"
  ut_SoundEnabled :: "bool option"
  ut_VibrationEnabled :: "bool option"
  ut_MessagePreviewEnabled :: "bool option"
  ut_FriendVerifyRequired :: "bool option"
  ut_SearchByPhone :: "bool option"
  ut_SearchById :: "bool option"
  ut_Language :: "string option"

definition applySettings :: "UpdateSettingsRequest \<Rightarrow> UserSettings \<Rightarrow> UserSettings" where
  "applySettings req x = x\<lparr>st_NotificationEnabled := or_keep (ut_NotificationEnabled req) (st_NotificationEnabled x),
     st_SoundEnabled := or_keep (ut_SoundEnabled req) (st_SoundEnabled x),
     st_VibrationEnabled := or_keep (ut_VibrationEnabled req) (st_VibrationEnabled x),
     st_MessagePreviewEnabled := or_keep (ut_MessagePreviewEnabled req) (st_MessagePreviewEnabled x),
     st_FriendVerifyRequired := or_keep (ut_FriendVerifyRequired req) (st_FriendVerifyRequired x),
     st_SearchByPhone := or_keep (ut_SearchByPhone req) (st_SearchByPhone x),
     st_SearchByID := or_keep (ut_SearchById req) (st_SearchByID x), st_Language := or_keep (ut_Language req) (st_Language x)\<rparr>"

definition UpdateSettings :: "string \<Rightarrow> UpdateSettingsRequest \<Rightarrow> (user_db, UserSettingsResponse) M" where
  "UpdateSettings userID req =
     bindE (settingsRepo_GetByUserID userID) (\<lambda>settings.
     thenE (settingsRepo_Update (applySettings req settings)) (
     returnE (settingsResponse (applySettings req settings))))"

definition GetUserByQRCode :: "string \<Rightarrow> (user_db, UserInfoResponse) M" where
  "GetUserByQRCode code =
     bindE (notFoundE (userQRCodeRepo_GetByToken code) (NewBusiness CodeQRCodeInvalid ''invalid QR code'')) (\<lambda>qrcode.
     bindE now (\<lambda>t.
     thenE (guardE (\<not> UserQRCode_IsExpired t qrcode) (NewBusiness CodeQRCodeExpired ''QR code has expired'')) (
     bindE (profileRepo_GetByUserID (uq_UserID qrcode)) (\<lambda>profile.
     returnE \<lparr>ui_UserId = up_UserID profile, ui_Nickname = up_Nickname profile, ui_Avatar = up_Avatar profile,
       ui_Signature = up_Signature profile, ui_Gender = 0, ui_Region = '''', ui_IsFriend = False, ui_IsBlocked = False\<rparr>))))"

definition UpdatePushToken :: "userServiceImpl \<Rightarrow> string \<Rightarrow> string \<Rightarrow> string \<Rightarrow> int \<Rightarrow> (user_db, unit) M" where
  "UpdatePushToken s userID deviceId pushToken platform =
     pushTokenRepo_CreateOrUpdate (sv_assign s) \<lparr>pt_ID = 0, pt_UserID = userID, pt_DeviceID = deviceId, pt_PushToken = pushToken,
       pt_Platform = int16 platform, pt_CreatedAt = 0, pt_UpdatedAt = 0\<rparr>"

subsection \<open>Binding of telephone numbers and e-mail addresses\<close>

definition requireAuthUser :: "string \<Rightarrow> (user_db, User) M" where
  "requireAuthUser userID = notFoundE (userRepo_GetByID userID) (NewBusiness CodeUserNotFound ''user not found'')"

definition ensurePhoneAvailable :: "string \<Rightarrow> string \<Rightarrow> (user_db, unit) M" where
  "ensurePhoneAvailable phone excludeUserID =
     bindE (optionalE (userRepo_GetByPhone phone)) (\<lambda>r. case r of
       None \<Rightarrow> returnE ()
     | Some user \<Rightarrow> guardE (u_ID user = excludeUserID)
         (NewBusiness CodePhoneAlreadyBound ''phone number is already bound to another account''))"

definition ensureEmailAvailable :: "string \<Rightarrow> string \<Rightarrow> (user_db, unit) M" where
  "ensureEmailAvailable email excludeUserID =
     bindE (optionalE (userRepo_GetByEmail email)) (\<lambda>r. case r of
       None \<Rightarrow> returnE ()
     | Some user \<Rightarrow> guardE (u_ID user = excludeUserID)
         (NewBusiness CodeEmailAlreadyBound ''email is already bound to another account''))"

definition invalidateSessionsAfterContactChange :: "string \<Rightarrow> string \<Rightarrow> (user_db, unit) M" where
  "invalidateSessionsAfterContactChange userID deviceID = sessionRepo_DeleteByUserIDExceptDeviceID userID deviceID"

definition BindPhone :: "userServiceImpl \<Rightarrow> string \<Rightarrow> string \<Rightarrow> string \<Rightarrow> (user_db, string \<times> bool) M" where
  "BindPhone s userID phoneNumber code =
     bindE (normalizePhoneE s phoneNumber) (\<lambda>e164.
     bindE (requireAuthUser userID) (\<lambda>user.
     case u_Phone user of
       Some phone \<Rightarrow>
         if phone = e164 then returnE (maskPhone e164, True)
         else throwE (NewBusiness CodeParamError ''phone already bound, please use change phone API'')
     | None \<Rightarrow>
         thenE (ensurePhoneAvailable e164 userID) (
         thenE (verifyCode s e164 TargetTypeSMS PurposeBindPhone code) (
         thenE (userRepo_UpdatePhone userID (Some e164)) (
         returnE (maskPhone e164, True))))))"

text \<open>The code for the old contact is optional.\<close>

definition verifyOld :: "userServiceImpl \<Rightarrow> string \<Rightarrow> int \<Rightarrow> int \<Rightarrow> string option \<Rightarrow> (user_db, unit) M" where
  "verifyOld s target targetType purpose oldCode =
     (case oldCode of None \<Rightarrow> returnE ()
      | Some code \<Rightarrow> if code \<noteq> '''' then verifyCode s target targetType purpose code else returnE ())"

definition ChangePhone :: "userServiceImpl \<Rightarrow> string \<Rightarrow> string \<Rightarrow> string \<Rightarrow> string option \<Rightarrow> string \<Rightarrow> string \<Rightarrow> (user_db, string \<times> string) M" where
  "ChangePhone s userID oldPhoneNumber newPhoneNumber oldCode newCode deviceId =
     bindE (normalizePhoneE s newPhoneNumber) (\<lambda>newE164.
     bindE (normalizePhoneE s oldPhoneNumber) (\<lambda>oldE164.
     bindE (requireAuthUser userID) (\<lambda>user.
     thenE (guardE (u_Phone user = Some oldE164) (NewBusiness CodeOldPhoneNotMatch ''old phone number does not match'')) (
     thenE (guardE (newE164 \<noteq> oldE164)
       (NewBusiness CodeParamError ''new phone number cannot be the same as old phone number'')) (
     thenE (verifyOld s oldE164 TargetTypeSMS PurposeChangePhone oldCode) (
     thenE (ensurePhoneAvailable newE164 userID) (
     thenE (verifyCode s newE164 TargetTypeSMS PurposeChangePhone newCode) (
     thenE (userRepo_UpdatePhone userID (Some newE164)) (
     thenE (invalidateSessionsAfterContactChange userID deviceId) (
     returnE (maskPhone oldE164, maskPhone newE164)))))))))))"

definition BindEmail :: "userServiceImpl \<Rightarrow> string \<Rightarrow> string \<Rightarrow> string \<Rightarrow> (user_db, string \<times> bool) M" where
  "BindEmail s userID email code =
     thenE (guardE (ValidateEmail email) (NewBusiness CodeEmailFormatInvalid ''invalid email format'')) (
     bindE (requireAuthUser userID) (\<lambda>user.
     case u_Email user of
       Some bound \<Rightarrow>
         if bound = email then returnE (maskEmail email, True)
         else throwE (NewBusiness CodeParamError ''email already bound, please use change email API'')
     | None \<Rightarrow>
         thenE (ensureEmailAvailable email userID) (
         thenE (verifyCode s email TargetTypeEmail PurposeBindEmail code) (
         thenE (userRepo_UpdateEmail userID (Some email)) (
         returnE (maskEmail email, True))))))"

definition ChangeEmail :: "userServiceImpl \<Rightarrow> string \<Rightarrow> string \<Rightarrow> string \<Rightarrow> string option \<Rightarrow> string \<Rightarrow> string \<Rightarrow> (user_db, string \<times> string) M" where
  "ChangeEmail s userID oldEmail newEmail oldCode newCode deviceId =
     thenE (guardE (ValidateEmail newEmail) (NewBusiness CodeEmailFormatInvalid ''invalid email format'')) (
     bindE (requireAuthUser userID) (\<lambda>user.
     thenE (guardE (u_Email user = Some oldEmail) (NewBusiness CodeOldEmailNotMatch ''old email does not match'')) (
     thenE (guardE (newEmail \<noteq> oldEmail) (NewBusiness CodeParamError ''new email cannot be the same as old email'')) (
     thenE (verifyOld s oldEmail TargetTypeEmail PurposeChangeEmail oldCode) (
     thenE (ensureEmailAvailable newEmail userID) (
     thenE (verifyCode s newEmail TargetTypeEmail PurposeChangeEmail newCode) (
     thenE (userRepo_UpdateEmail userID (Some newEmail)) (
     thenE (invalidateSessionsAfterContactChange userID deviceId) (
     returnE (maskEmail oldEmail, newEmail))))))))))"

end
