(* ===== verification/User_Handler.thy ===== *)
theory User_Handler
  imports User_Service
begin

text \<open>
  The gRPC handlers of the user service (\<open>app/user/internal/handler/user_handler.go\<close>): the checks on the
  request, the operator of the metadata, the call and the translation of its error into a status.
\<close>

definition UserHandler_SendVerificationCode ::
    "userServiceImpl \<Rightarrow> string \<Rightarrow> int \<Rightarrow> int \<Rightarrow> string \<Rightarrow> string \<Rightarrow> (user_db, string \<times> int) M" where
  "UserHandler_SendVerificationCode s target targetType purpose deviceId ipAddress =
     (if \<not> VerificationTargetType_IsValid (int16 targetType) then badRequestE ''invalid target_type''
      else if \<not> VerificationPurpose_IsValid (int16 purpose) then badRequestE ''invalid purpose''
      else if target = '''' then badRequestE ''target is required''
      else convertE (SendVerificationCode s target targetType purpose deviceId ipAddress))"

definition UserHandler_Register :: "userServiceImpl \<Rightarrow> RegisterRequest \<Rightarrow> (user_db, AuthResponse) M" where
  "UserHandler_Register s req =
     (if rq_PhoneNumber req = '''' \<and> rq_Email req = '''' then badRequestE ''phone or email required''
      else if rq_Password req = '''' then badRequestE ''password is required''
      else if \<not> ValidatePasswordStrength (rq_Password req) then badRequestE ''password does not meet strength requirements''
      else if \<not> DeviceType_IsValid (int16 (rq_DeviceType req)) then badRequestE ''invalid device_type''
      else convertE (Register s req))"

definition UserHandler_Login :: "userServiceImpl \<Rightarrow> LoginRequest \<Rightarrow> (user_db, LoginResponse) M" where
  "UserHandler_Login s req =
     (if \<not> DeviceType_IsValid (int16 (lq_DeviceType req)) then badRequestE ''invalid device_type''
      else if lq_Account req = '''' then badRequestE ''account is required''
      else if lq_Password req = '''' then badRequestE ''password required''
      else convertE (Login s req))"

definition UserHandler_Logout :: "ctx \<Rightarrow> string \<Rightarrow> (user_db, unit) M" where
  "UserHandler_Logout ctx deviceId = bindE (MustGetUserID ctx) (\<lambda>userID. convertE (Logout userID deviceId))"

definition UserHandler_RefreshToken :: "userServiceImpl \<Rightarrow> string \<Rightarrow> (user_db, string \<times> string \<times> int) M" where
  "UserHandler_RefreshToken s refreshToken = convertE (RefreshToken s refreshToken)"

definition UserHandler_ChangePassword :: "userServiceImpl \<Rightarrow> ctx \<Rightarrow> string \<Rightarrow> string \<Rightarrow> string \<Rightarrow> (user_db, unit) M" where
  "UserHandler_ChangePassword s ctx oldPassword newPassword deviceId =
     bindE (MustGetUserID ctx) (\<lambda>userID.
     if oldPassword = '''' then badRequestE ''old_password is required''
     else if newPassword = '''' then badRequestE ''new_password is required''
     else if \<not> ValidatePasswordStrength newPassword then badRequestE ''password does not meet strength requirements''
     else convertE (ChangePassword s userID oldPassword newPassword deviceId))"

definition UserHandler_ResetPassword :: "userServiceImpl \<Rightarrow> string \<Rightarrow> string \<Rightarrow> string \<Rightarrow> (user_db, unit) M" where
  "UserHandler_ResetPassword s account code newPassword =
     (if account = '''' then badRequestE ''account is required''
      else if code = '''' then badRequestE ''verify_code is required''
      else if newPassword = '''' then badRequestE ''new_password is required''
      else if \<not> ValidatePasswordStrength newPassword then badRequestE ''password does not meet strength requirements''
      else convertE (ResetPassword s account code newPassword))"

definition UserHandler_GetProfile :: "ctx \<Rightarrow> (user_db, UserProfileResponse) M" where
  "UserHandler_GetProfile ctx = bindE (MustGetUserID ctx) (\<lambda>userID. convertE (GetProfile userID))"

definition UserHandler_UpdateProfile :: "ctx \<Rightarrow> UpdateProfileRequest \<Rightarrow> (user_db, UserProfileResponse) M" where
  "UserHandler_UpdateProfile ctx req = bindE (MustGetUserID ctx) (\<lambda>userID. convertE (UpdateProfile userID req))"

definition UserHandler_GetUserInfo :: "userServiceImpl \<Rightarrow> ctx \<Rightarrow> string \<Rightarrow> (user_db, UserInfoResponse) M" where
  "UserHandler_GetUserInfo s ctx targetUserId = bindE (MustGetUserID ctx) (\<lambda>userID. convertE (GetUserInfo s userID targetUserId))"

definition UserHandler_SearchUsers ::
    "userServiceImpl \<Rightarrow> string \<Rightarrow> int \<Rightarrow> int \<Rightarrow> (user_db, int \<times> (string \<times> string \<times> string \<times> string) list) M" where
  "UserHandler_SearchUsers s keyword page pageSize = convertE (SearchUsers s keyword page pageSize)"

text \<open>With a user in the request the settings of that user are read, for whoever asks.\<close>

definition UserHandler_GetSettings :: "ctx \<Rightarrow> string \<Rightarrow> (user_db, UserSettingsResponse) M" where
  "UserHandler_GetSettings ctx userId =
     bindE (if userId = '''' then MustGetUserID ctx else returnE userId) (\<lambda>userID. convertE (GetSettings userID))"

definition UserHandler_UpdateSettings :: "ctx \<Rightarrow> UpdateSettingsRequest \<Rightarrow> (user_db, UserSettingsResponse) M" where
  "UserHandler_UpdateSettings ctx req = bindE (MustGetUserID ctx) (\<lambda>userID. convertE (UpdateSettings userID req))"

definition UserHandler_RefreshQRCode :: "userServiceImpl \<Rightarrow> ctx \<Rightarrow> (user_db, string \<times> int) M" where
  "UserHandler_RefreshQRCode s ctx = bindE (MustGetUserID ctx) (\<lambda>userID. convertE (RefreshQRCode s userID))"

definition UserHandler_GetUserByQRCode :: "string \<Rightarrow> (user_db, UserInfoResponse) M" where
  "UserHandler_GetUserByQRCode qrcode = convertE (GetUserByQRCode qrcode)"

definition UserHandler_UpdatePushToken :: "userServiceImpl \<Rightarrow> ctx \<Rightarrow> string \<Rightarrow> string \<Rightarrow> int \<Rightarrow> (user_db, unit) M" where
  "UserHandler_UpdatePushToken s ctx deviceId pushToken platform =
     bindE (MustGetUserID ctx) (\<lambda>userID. convertE (UpdatePushToken s userID deviceId pushToken platform))"

definition UserHandler_BindPhone :: "userServiceImpl \<Rightarrow> ctx \<Rightarrow> string \<Rightarrow> string \<Rightarrow> (user_db, string \<times> bool) M" where
  "UserHandler_BindPhone s ctx phoneNumber code =
     bindE (MustGetUserID ctx) (\<lambda>userID. convertE (BindPhone s userID phoneNumber code))"

definition UserHandler_ChangePhone ::
    "userServiceImpl \<Rightarrow> ctx \<Rightarrow> string \<Rightarrow> string \<Rightarrow> string option \<Rightarrow> string \<Rightarrow> string \<Rightarrow> (user_db, string \<times> string) M" where
  "UserHandler_ChangePhone s ctx oldPhone newPhone oldCode newCode deviceId =
     bindE (MustGetUserID ctx) (\<lambda>userID. convertE (ChangePhone s userID oldPhone newPhone oldCode newCode deviceId))"

definition UserHandler_BindEmail :: "userServiceImpl \<Rightarrow> ctx \<Rightarrow> string \<Rightarrow> string \<Rightarrow> (user_db, string \<times> bool) M" where
  "UserHandler_BindEmail s ctx email code =
     bindE (MustGetUserID ctx) (\<lambda>userID. convertE (BindEmail s userID email code))"

definition UserHandler_ChangeEmail ::
    "userServiceImpl \<Rightarrow> ctx \<Rightarrow> string \<Rightarrow> string \<Rightarrow> string option \<Rightarrow> string \<Rightarrow> string \<Rightarrow> (user_db, string \<times> string) M" where
  "UserHandler_ChangeEmail s ctx oldEmail newEmail oldCode newCode deviceId =
     bindE (MustGetUserID ctx) (\<lambda>userID. convertE (ChangeEmail s userID oldEmail newEmail oldCode newCode deviceId))"

end
