(* ===== verification/Triples.thy ===== *)
theory Triples
  imports Credentials
begin

text \<open>
  A calculus of triples on the tables, for operations that read, decide and write once: \<open>ensures P J m\<close>
  says that from tables with \<open>P\<close> the tables satisfy \<open>J\<close> after \<open>m\<close>, however \<open>m\<close> ends;
  \<open>attains P Q m\<close> says that they satisfy \<open>Q\<close> when \<open>m\<close> returns.  With a fixed first state,
  \<open>ensures\<close> describes the possible changes of one operation.
\<close>

subsection \<open>Triples on the tables\<close>

definition ensures :: "('db \<Rightarrow> bool) \<Rightarrow> ('db \<Rightarrow> bool) \<Rightarrow> ('db, 'a) M \<Rightarrow> bool" where
  "ensures P J m = (\<forall>w. P (db w) \<longrightarrow> J (db (snd (m w))))"

lemma ensures_keeps: "keeps I m \<longleftrightarrow> ensures I I m"
  by (simp add: keeps_def ensures_def)

lemma ensures_weaken: "keeps J m \<Longrightarrow> (\<And>d. P d \<Longrightarrow> J d) \<Longrightarrow> ensures P J m"
  by (simp add: keeps_def ensures_def)

lemma ensures_still: "preserves_db m \<Longrightarrow> (\<And>d. P d \<Longrightarrow> J d) \<Longrightarrow> ensures P J m"
  by (simp add: preserves_db_def ensures_def)

lemma ensures_skip:
  "preserves_db m \<Longrightarrow> (\<And>d. P d \<Longrightarrow> J d) \<Longrightarrow> (\<And>a. ensures P J (f a)) \<Longrightarrow> ensures P J (bindE m f)"
  unfolding ensures_def preserves_db_def bindE_def by (auto split: sum.splits prod.splits) (metis snd_conv)+

lemma ensures_skip_then:
  "preserves_db m \<Longrightarrow> (\<And>d. P d \<Longrightarrow> J d) \<Longrightarrow> ensures P J k \<Longrightarrow> ensures P J (thenE m k)"
  unfolding thenE_def by (rule ensures_skip)

lemma ensures_find:
  "(\<And>d. P d \<Longrightarrow> J d) \<Longrightarrow> (\<And>a. ensures (\<lambda>d. P d \<and> g d = Some a) J (f a)) \<Longrightarrow> ensures P J (bindE (find_one g) f)"
  unfolding ensures_def find_one_def query_def
  by (auto simp: monad_defs infra_def split: option.splits sum.splits prod.splits)

lemma ensures_optional:
  "(\<And>d. P d \<Longrightarrow> J d) \<Longrightarrow> ensures P J (f None) \<Longrightarrow> (\<And>a. ensures (\<lambda>d. P d \<and> g d = Some a) J (f (Some a))) \<Longrightarrow>
     ensures P J (bindE (optionalE (find_one g)) f)"
  unfolding ensures_def find_one_def query_def optionalE_def
  by (auto simp: monad_defs infra_def split: option.splits sum.splits prod.splits err.splits)

lemma ensures_then_keeps: "ensures P J m \<Longrightarrow> keeps J k \<Longrightarrow> ensures P J (thenE m k)"
  unfolding ensures_def keeps_def thenE_def bindE_def by (auto split: sum.splits prod.splits)

lemma ensures_bind_keeps: "ensures P J m \<Longrightarrow> (\<And>a. keeps J (f a)) \<Longrightarrow> ensures P J (bindE m f)"
  unfolding ensures_def keeps_def bindE_def by (auto split: sum.splits prod.splits)

lemma ensures_modify: "(\<And>d. P d \<Longrightarrow> J d) \<Longrightarrow> (\<And>d. P d \<Longrightarrow> J (f d)) \<Longrightarrow> ensures P J (modify f)"
  unfolding ensures_def modify_def exec_def by (auto simp: monad_defs infra_def split: option.splits)

lemma ensures_catch_throw: "ensures P J m \<Longrightarrow> ensures P J (catchE m (\<lambda>e. throwE (h e)))"
  unfolding ensures_def catchE_def throwE_def by (auto split: sum.splits prod.splits err.splits)

lemma ensures_convert: "ensures P J m \<Longrightarrow> ensures P J (convertE m)"
proof -
  have "snd (convertE m w) = snd (m w)" for w
    by (simp add: convertE_result split: prod.split sum.split err.split)
  then show "ensures P J m \<Longrightarrow> ensures P J (convertE m)" by (simp add: ensures_def)
qed

lemma ensures_guard: "(b \<Longrightarrow> ensures P J k) \<Longrightarrow> (\<And>d. P d \<Longrightarrow> J d) \<Longrightarrow> ensures P J (thenE (guardE b e) k)"
  unfolding ensures_def by (simp add: monad_defs)

lemma ensures_catch_find:
  "(\<And>d. P d \<Longrightarrow> J d) \<Longrightarrow> (\<And>a. ensures (\<lambda>d. P d \<and> g d = Some a) J (f a)) \<Longrightarrow>
     ensures P J (bindE (catchE (find_one g) (\<lambda>e. throwE (h e))) f)"
  unfolding ensures_def find_one_def query_def
  by (auto simp: monad_defs infra_def split: option.splits sum.splits prod.splits err.splits)

lemma ensures_exec:
  "(\<And>d. P d \<Longrightarrow> J d) \<Longrightarrow> (\<And>d a d'. P d \<Longrightarrow> f d = Inr (a, d') \<Longrightarrow> J d') \<Longrightarrow> ensures P J (exec f)"
  unfolding ensures_def exec_def by (auto simp: monad_defs infra_def split: option.splits sum.splits)

lemma ensures_ignore: "ensures P J m \<Longrightarrow> ensures P J (ignoreE m)"
  unfolding ensures_def ignoreE_def catchE_def thenE_def bindE_def returnE_def
  by (auto split: sum.splits prod.splits err.splits)

lemma ensures_if: "(b \<Longrightarrow> ensures P J m) \<Longrightarrow> (\<not> b \<Longrightarrow> ensures P J m') \<Longrightarrow> ensures P J (if b then m else m')"
  by simp

lemma ensures_return: "(\<And>d. P d \<Longrightarrow> J d) \<Longrightarrow> ensures P J (returnE a)"
  by (simp add: ensures_def returnE_def)

lemma ensuresD: "ensures P J m \<Longrightarrow> m w = (r, w') \<Longrightarrow> P (db w) \<Longrightarrow> J (db w')"
  unfolding ensures_def by (metis snd_conv)

lemma ensures_post: "ensures P J m \<Longrightarrow> (\<And>d. J d \<Longrightarrow> J' d) \<Longrightarrow> ensures P J' m"
  by (simp add: ensures_def)

text \<open>The answer of a call to another service is known afterwards.\<close>

lemma ensures_rpc:
  "(\<And>d. P d \<Longrightarrow> J d) \<Longrightarrow> (\<And>n a. g n = Inr a \<Longrightarrow> ensures P J (f a)) \<Longrightarrow> ensures P J (bindE (rpc g) f)"
  unfolding ensures_def bindE_def rpc_def by (auto split: sum.splits)

lemma ensures_catch_rpc:
  "(\<And>d. P d \<Longrightarrow> J d) \<Longrightarrow> (\<And>n a. g n = Inr a \<Longrightarrow> ensures P J (f a)) \<Longrightarrow>
     ensures P J (bindE (catchE (rpc g) (\<lambda>e. throwE (h e))) f)"
  unfolding ensures_def bindE_def rpc_def catchE_def throwE_def by (auto split: sum.splits err.splits)

text \<open>The frame of a handler.\<close>

lemma ensures_MustGetUserID:
  assumes "ensures P J (f (fst (GetUserID ctx)))" "\<And>d. P d \<Longrightarrow> J d"
  shows "ensures P J (bindE (MustGetUserID ctx) f)"
  using assms by (cases "GetUserID ctx"; cases "snd (GetUserID ctx)")
    (auto simp: MustGetUserID_def RequireUserID_def ensures_def bindE_def throwE_def returnE_def)

lemma ensures_void: "ensures P J m \<Longrightarrow> ensures P J (void m)"
  unfolding ensures_def void_def thenE_def bindE_def returnE_def by (auto split: sum.splits prod.splits)

lemma ensures_badRequest: "(\<And>d. P d \<Longrightarrow> J d) \<Longrightarrow> ensures P J (badRequestE msg)"
  by (simp add: badRequestE_eq ensures_def throwE_def)

subsection \<open>Keyed tables\<close>

text \<open>One row replaced by another with the same key, and one row more.\<close>

lemma uniq_replace:
  assumes "uniq key rows" "uniq pk rows" "r \<in> set rows" "key r' = key r"
  shows "uniq key (update_where (\<lambda>x. pk x = pk r) (\<lambda>_. r') rows)"
proof -
  have "key (if pk x = pk r then r' else x) = key x" if "x \<in> set rows" for x
    using assms that by (metis uniq_def distinct_map inj_onD)
  then have "map key (update_where (\<lambda>x. pk x = pk r) (\<lambda>_. r') rows) = map key rows"
    by (simp add: update_where_def)
  then show ?thesis using assms(1) by (simp add: uniq_def)
qed

lemma uniq_snoc: "key r \<notin> key ` set rows \<Longrightarrow> uniq key rows \<Longrightarrow> uniq key (rows @ [r])"
  by (auto simp: uniq_def)

subsection \<open>What holds when an operation returns\<close>

definition attains :: "('db \<Rightarrow> bool) \<Rightarrow> ('db \<Rightarrow> bool) \<Rightarrow> ('db, 'a) M \<Rightarrow> bool" where
  "attains P Q m = (\<forall>w a w'. P (db w) \<longrightarrow> m w = (Inr a, w') \<longrightarrow> Q (db w'))"

lemma attains_bind: "attains P Q m \<Longrightarrow> (\<And>a. attains Q R (f a)) \<Longrightarrow> attains P R (bindE m f)"
  unfolding attains_def bindE_def by (auto split: sum.splits prod.splits)

lemma attains_then: "attains P Q m \<Longrightarrow> attains Q R k \<Longrightarrow> attains P R (thenE m k)"
  unfolding thenE_def by (rule attains_bind)

lemma attains_keeps: "keeps P m \<Longrightarrow> attains P P m"
  by (metis attains_def keeps_def snd_conv)

lemma attains_exec: "(\<And>d a d'. P d \<Longrightarrow> f d = Inr (a, d') \<Longrightarrow> Q d') \<Longrightarrow> attains P Q (exec f)"
  by (auto simp: attains_def exec_def monad_defs infra_def split: option.splits sum.splits prod.splits)

lemma keeps_transaction_attains: "attains I I m \<Longrightarrow> keeps I (transaction m)"
  by (rule keeps_transaction) (auto simp: attains_def wp_def split: prod.split sum.split)

subsection \<open>Steps of the libraries\<close>

lemma keeps_liftE [keeps_intros]: "keeps I (liftE r)"
  by (simp add: keeps_def liftE_def)

lemma keeps_library_steps [keeps_intros]: "keeps I (HashPassword lib pw)" "keeps I (rand_Read rs n)"
  by (simp_all add: keeps_def HashPassword_def rand_Read_def split: option.split)

lemma preserves_keeps: "(\<And>I. keeps I m) \<Longrightarrow> preserves_db m"
  by (simp add: preserves_db_keeps)

end
