(* ===== verification/User.thy ===== *)
theory User
  imports User_Handler Triples
begin

text \<open>
  The user service as a service with an invariant: accounts are complete (every user has exactly one
  profile and one settings row), the unique columns are unique, and devices, sessions and QR codes belong
  to users.  The first part gives the frame of the verification manager (it never touches the tables of
  the accounts).
\<close>

subsection \<open>What the libraries and the verification manager leave alone\<close>

lemma keeps_wrapE [keeps_intros]: "keeps I m \<Longrightarrow> keeps I (wrapE what m)"
  by (simp add: wrapE_def keeps_intros)

lemma keeps_libraries [keeps_intros]:
  "keeps I (GenerateAccessToken jl c u dv ty)" "keeps I (GenerateRefreshToken jl c u dv ty)"
  "keeps I (ValidateRefreshToken jl c tok)" "keeps I (GenerateQRCodeToken rs u)"
  unfolding GenerateAccessToken_def GenerateRefreshToken_def signClaims_def ValidateRefreshToken_def ParseToken_def
    GenerateQRCodeToken_def GenerateRandomString_def
  by (intro keeps_intros; simp add: keeps_intros split: bool.split)+

lemma keeps_normalizePhoneE [keeps_intros]: "keeps I (normalizePhoneE s p)"
  by (simp add: normalizePhoneE_def keeps_intros split: option.split)

lemma keeps_publishForceLogout [keeps_intros]: "keeps I (publishForceLogout u dv r)"
  unfolding publishForceLogout_def by (intro keeps_intros)

text \<open>The tables of the accounts.\<close>

definition accounts :: "user_db \<Rightarrow> User list \<times> UserDevice list \<times> UserSession list \<times> UserProfile list \<times> UserSettings list \<times> UserQRCode list" where
  "accounts d = (users d, user_devices d, user_sessions d, user_profiles d, user_settings d, user_qrcodes d)"

definition apart :: "(user_db, 'a) M \<Rightarrow> bool" where
  "apart m = (\<forall>k. keeps (\<lambda>d. accounts d = k) m)"

lemma apart_keeps: "apart m \<Longrightarrow> (\<And>d d'. accounts d = accounts d' \<Longrightarrow> I d = I d') \<Longrightarrow> keeps I m"
  unfolding apart_def keeps_def by metis

lemma accounts_updates [simp]:
  "accounts (d\<lparr>verification_codes := vc\<rparr>) = accounts d" "accounts (d\<lparr>vcache := c\<rparr>) = accounts d"
  "accounts (d\<lparr>user_push_tokens := pt\<rparr>) = accounts d" "accounts (updateCode i f d) = accounts d"
  by (simp_all add: accounts_def updateCode_def)

lemma keeps_cacheE: "keeps (\<lambda>d. accounts d = k) (cacheE f)"
  unfolding cacheE_def by (intro keeps_intros keeps_exec) (auto split: sum.splits)

lemma keeps_codeRepo:
  "keeps (\<lambda>d. accounts d = k) (codeRepo_Create c)" "keeps (\<lambda>d. accounts d = k) (codeRepo_UpdateStatus i st)"
  "keeps (\<lambda>d. accounts d = k) (codeRepo_UpdateVerifiedAt i t)" "keeps (\<lambda>d. accounts d = k) (codeRepo_IncrementAttempts i)"
  "keeps (\<lambda>d. accounts d = k) (codeRepo_GetLatestByTarget tg ty p)" "keeps (\<lambda>d. accounts d = k) (templateRepo_GetByPurpose p)"
  "keeps (\<lambda>d. accounts d = k) (delE key)"
  unfolding codeRepo_Create_def codeRepo_UpdateStatus_def codeRepo_UpdateVerifiedAt_def codeRepo_IncrementAttempts_def
    codeRepo_GetLatestByTarget_def templateRepo_GetByPurpose_def delE_def
  by (intro keeps_intros keeps_exec keeps_modify keeps_cacheE; auto split: option.splits)+

lemmas manager_keeps = keeps_codeRepo keeps_cacheE

lemma keeps_randomString [keeps_intros]: "keeps I (randomString rs cs n)"
proof -
  have "keeps I (randomChar rs cs)" by (simp add: keeps_def randomChar_def split: option.split)
  then show ?thesis unfolding randomString_def by (intro keeps_intros)
qed

lemma apart_manager: "apart (SendCode vm req ip)" "apart (VerifyCode vm vreq)"
  unfolding apart_def SendCode_def VerifyCode_def storeAndDispatch_def dispatchCode_def sendE_def validatePurpose_def Let_def
    applyRateLimits_def limitOr_def incrementAndCheck_def rollbackRateLimits_def cancelPreviousCode_def generateCode_def
    randString_def loadFields_def checkStored_def wrongCode_def resolveMissingCodeError_def
  by (intro allI keeps_intros manager_keeps)+

lemma apart_verifyCode: "apart (verifyCode s t ty p c)" "apart (verifyOld s t ty p oc)"
  using apart_manager(2) unfolding apart_def verifyOld_def verifyCode_def
  by (auto intro!: keeps_intros split: option.split)

lemma apart_UpdatePushToken: "apart (UpdatePushToken s u dv tok pl)"
  unfolding apart_def UpdatePushToken_def pushTokenRepo_CreateOrUpdate_def Let_def
  by (intro allI keeps_intros keeps_modify) simp_all

subsection \<open>The invariant\<close>

text \<open>No two rows with the same value in a column that may be NULL.\<close>

definition uniq_some :: "('r \<Rightarrow> 'k option) \<Rightarrow> 'r list \<Rightarrow> bool" where
  "uniq_some col rows = uniq col (filter (\<lambda>r. col r \<noteq> None) rows)"

definition user_ids :: "user_db \<Rightarrow> string set" where
  "user_ids d = u_ID ` set (users d)"

lemma user_ids_updates [simp]:
  "user_ids (d\<lparr>user_devices := ds\<rparr>) = user_ids d" "user_ids (d\<lparr>user_sessions := ss\<rparr>) = user_ids d"
  "user_ids (d\<lparr>user_profiles := ps\<rparr>) = user_ids d" "user_ids (d\<lparr>user_settings := ts\<rparr>) = user_ids d"
  "user_ids (d\<lparr>user_qrcodes := qs\<rparr>) = user_ids d"
  by (simp_all add: user_ids_def)

definition sound_tables :: "user_db \<Rightarrow> bool" where
  "sound_tables d = (uniq u_ID (users d) \<and> uniq_some u_Phone (users d) \<and> uniq_some u_Email (users d) \<and>
     uniq up_ID (user_profiles d) \<and> uniq up_UserID (user_profiles d) \<and> uniq st_ID (user_settings d) \<and>
     uniq st_UserID (user_settings d) \<and> uniq us_ID (user_sessions d) \<and> uniq device_key (user_devices d) \<and>
     ud_UserID ` set (user_devices d) \<subseteq> user_ids d \<and> us_UserID ` set (user_sessions d) \<subseteq> user_ids d \<and>
     uq_UserID ` set (user_qrcodes d) \<subseteq> user_ids d)"

definition keyed :: "user_db \<Rightarrow> string set \<times> string set \<times> string set" where
  "keyed d = (user_ids d, up_UserID ` set (user_profiles d), st_UserID ` set (user_settings d))"

definition user_inv :: "user_db \<Rightarrow> bool" where
  "user_inv d = (sound_tables d \<and> keyed d = (user_ids d, user_ids d, user_ids d))"

datatype user_op =
    OpSendVerificationCode string int int string string
  | OpRegister RegisterRequest
  | OpLogin LoginRequest
  | OpLogout ctx string
  | OpRefreshToken string
  | OpChangePassword ctx string string string
  | OpResetPassword string string string
  | OpGetProfile ctx
  | OpUpdateProfile ctx UpdateProfileRequest
  | OpGetUserInfo ctx string
  | OpSearchUsers string int int
  | OpGetSettings ctx string
  | OpUpdateSettings ctx UpdateSettingsRequest
  | OpRefreshQRCode ctx
  | OpGetUserByQRCode string
  | OpUpdatePushToken ctx string string int
  | OpBindPhone ctx string string
  | OpChangePhone ctx string string "string option" string string
  | OpBindEmail ctx string string
  | OpChangeEmail ctx string string "string option" string string

fun user_step :: "userServiceImpl \<Rightarrow> user_op \<Rightarrow> (user_db, unit) M" where
  "user_step s (OpSendVerificationCode t ty p dv ip) = void (UserHandler_SendVerificationCode s t ty p dv ip)"
| "user_step s (OpRegister req) = void (UserHandler_Register s req)"
| "user_step s (OpLogin req) = void (UserHandler_Login s req)"
| "user_step s (OpLogout ctx dv) = UserHandler_Logout ctx dv"
| "user_step s (OpRefreshToken tok) = void (UserHandler_RefreshToken s tok)"
| "user_step s (OpChangePassword ctx old new dv) = UserHandler_ChangePassword s ctx old new dv"
| "user_step s (OpResetPassword acc code new) = UserHandler_ResetPassword s acc code new"
| "user_step s (OpGetProfile ctx) = void (UserHandler_GetProfile ctx)"
| "user_step s (OpUpdateProfile ctx req) = void (UserHandler_UpdateProfile ctx req)"
| "user_step s (OpGetUserInfo ctx u) = void (UserHandler_GetUserInfo s ctx u)"
| "user_step s (OpSearchUsers kw pg ps) = void (UserHandler_SearchUsers s kw pg ps)"
| "user_step s (OpGetSettings ctx u) = void (UserHandler_GetSettings ctx u)"
| "user_step s (OpUpdateSettings ctx req) = void (UserHandler_UpdateSettings ctx req)"
| "user_step s (OpRefreshQRCode ctx) = void (UserHandler_RefreshQRCode s ctx)"
| "user_step s (OpGetUserByQRCode q) = void (UserHandler_GetUserByQRCode q)"
| "user_step s (OpUpdatePushToken ctx dv tok pl) = UserHandler_UpdatePushToken s ctx dv tok pl"
| "user_step s (OpBindPhone ctx p c) = void (UserHandler_BindPhone s ctx p c)"
| "user_step s (OpChangePhone ctx old new oc nc dv) = void (UserHandler_ChangePhone s ctx old new oc nc dv)"
| "user_step s (OpBindEmail ctx e c) = void (UserHandler_BindEmail s ctx e c)"
| "user_step s (OpChangeEmail ctx old new oc nc dv) = void (UserHandler_ChangeEmail s ctx old new oc nc dv)"

subsection \<open>Rows\<close>

lemma uniq_wrt: "uniq key rows = sorted_wrt (\<lambda>x y. key x \<noteq> key y) rows"
  by (induction rows) (auto simp: uniq_def)

lemma uniq_some_wrt: "uniq_some col rows = sorted_wrt (\<lambda>x y. col x = None \<or> col x \<noteq> col y) rows"
  by (induction rows) (auto simp: uniq_some_def uniq_def)

lemma uniq_some_same: "map col rows' = map col rows \<Longrightarrow> uniq_some col rows' = uniq_some col rows"
proof -
  have "uniq_some col rows = sorted_wrt (\<lambda>x y. x = None \<or> x \<noteq> y) (map col rows)" for rows
    by (simp add: uniq_some_wrt sorted_wrt_map)
  then show "map col rows' = map col rows \<Longrightarrow> uniq_some col rows' = uniq_some col rows" by simp
qed

lemma uniq_some_update_same: "(\<And>r. col (f r) = col r) \<Longrightarrow> uniq_some col (update_where p f rows) = uniq_some col rows"
  by (rule uniq_some_same) (simp add: map_update_where_same)

lemma uniq_some_append: "uniq_some col (rows @ [r]) \<longleftrightarrow> uniq_some col rows \<and> \<not> taken col (col r) rows"
  by (auto simp: uniq_some_wrt sorted_wrt_append taken_def table_simps image_iff)

text \<open>A unique column of the one row with a primary key is set to a value no other row has.\<close>

lemma uniq_some_update:
  assumes "uniq_some col rows" "uniq pk rows" "\<not> taken col v (filter (\<lambda>r. pk r \<noteq> i) rows)"
    and "\<And>r. col (f r) = v" "\<And>r. p r \<Longrightarrow> pk r = i"
  shows "uniq_some col (update_where p f rows)"
proof -
  have "sorted_wrt (\<lambda>x y. pk x \<noteq> pk y \<and> (col x = None \<or> col x \<noteq> col y)) rows"
    using assms(1,2) by (induction rows) (auto simp: uniq_wrt uniq_some_wrt)
  then have "sorted_wrt (\<lambda>x y. col (if p x then f x else x) = None \<or>
      col (if p x then f x else x) \<noteq> col (if p y then f y else y)) rows"
    by (rule sorted_wrt_mono_rel[rotated])
       (use assms(3-5) in \<open>auto simp: taken_def table_simps image_iff dest: sym\<close>)
  then show ?thesis by (simp add: uniq_some_wrt update_where_def sorted_wrt_map)
qed

lemma save_row_map:
  assumes "uniq pk rows" "r \<in> set rows" "pk r' = pk r" "key r' = key r"
  shows "map key (save_row pk r' rows) = map key rows"
proof -
  have "pk x = pk r \<Longrightarrow> x \<in> set rows \<Longrightarrow> x = r" for x
    using assms(1,2) by (auto simp: uniq_def distinct_map dest: inj_onD)
  then show ?thesis using assms by (auto simp: save_row_def update_where_def table_simps)
qed

lemma save_row_uniq:
  "uniq pk rows \<Longrightarrow> r \<in> set rows \<Longrightarrow> pk r' = pk r \<Longrightarrow> key r' = key r \<Longrightarrow> uniq key (save_row pk r' rows) = uniq key rows"
  using save_row_map[of pk rows r r' key] by (simp add: uniq_def)

lemma save_row_image:
  "uniq pk rows \<Longrightarrow> r \<in> set rows \<Longrightarrow> pk r' = pk r \<Longrightarrow> key r' = key r \<Longrightarrow> key ` set (save_row pk r' rows) = key ` set rows"
  using save_row_map[of pk rows r r' key] by (metis list.set_map)

lemma insert_of_user_Inr:
  "insert_of_user table owner pk key column r us rows = Inr rows' \<longleftrightarrow>
     owner r \<in> u_ID ` set us \<and> pk r \<notin> pk ` set rows \<and> key r \<notin> key ` set rows \<and> rows' = rows @ [r]"
  by (auto simp: insert_of_user_def table_simps)

lemma insert_user_Inr:
  "insert_user u rows = Inr rows' \<longleftrightarrow>
     u_ID u \<notin> u_ID ` set rows \<and> \<not> taken u_Phone (u_Phone u) rows \<and> \<not> taken u_Email (u_Email u) rows \<and> rows' = rows @ [u]"
  by (auto simp: insert_user_def table_simps)

lemma uniq_append1: "uniq key (rows @ [r]) \<longleftrightarrow> uniq key rows \<and> key r \<notin> key ` set rows"
  by (auto simp: uniq_def)

subsection \<open>Every operation keeps the invariant\<close>

lemmas inv_defs = user_inv_def sound_tables_def keyed_def user_ids_def

lemma user_inv_accounts: "accounts d = accounts d' \<Longrightarrow> user_inv d = user_inv d'"
  by (simp add: inv_defs accounts_def)

lemma keeps_verification:
  "keeps user_inv (VerifyCode vm vreq)" "keeps user_inv (verifyCode s t ty p c)" "keeps user_inv (verifyOld s t ty p oc)"
  "keeps user_inv (SendCode vm sreq ip)" "keeps user_inv (UpdatePushToken s u dv tok pl)"
  by (rule apart_keeps[OF _ user_inv_accounts], simp_all add: apart_manager apart_verifyCode apart_UpdatePushToken)+

lemma user_inv_users:
  assumes "user_inv d" "map u_ID us = map u_ID (users d)" "uniq_some u_Phone us" "uniq_some u_Email us"
  shows "user_inv (d\<lparr>users := us\<rparr>)"
proof -
  have "u_ID ` set us = u_ID ` set (users d)" using assms(2) by (metis list.set_map)
  then show ?thesis using assms by (simp add: inv_defs uniq_def)
qed

lemma keeps_updateUser:
  assumes "\<And>u. u_ID (f u) = u_ID u" "\<And>u. u_Phone (f u) = u_Phone u" "\<And>u. u_Email (f u) = u_Email u"
  shows "keeps user_inv (updateUser i f)"
proof -
  have "user_inv (d\<lparr>users := update_where p (\<lambda>u. (f u)\<lparr>u_UpdatedAt := t\<rparr>) (users d)\<rparr>)" if "user_inv d" for d p t
  proof (rule user_inv_users[OF that])
    show "uniq_some u_Phone (update_where p (\<lambda>u. (f u)\<lparr>u_UpdatedAt := t\<rparr>) (users d))"
      "uniq_some u_Email (update_where p (\<lambda>u. (f u)\<lparr>u_UpdatedAt := t\<rparr>) (users d))"
      using that assms by (simp_all add: inv_defs uniq_some_update_same)
  qed (simp add: map_update_where_same assms)
  then show ?thesis unfolding updateUser_def by (intro keeps_intros keeps_modify) simp
qed

lemma keeps_updateUnique:
  assumes "\<And>u. u_ID (f u) = u_ID u" "col = u_Phone \<and> (\<forall>u. u_Email (f u) = u_Email u) \<or> col = u_Email \<and> (\<forall>u. u_Phone (f u) = u_Phone u)"
    and "\<And>u. col (f u) = v"
  shows "keeps user_inv (updateUnique c col i v f)"
proof -
  have step: "user_inv (d\<lparr>users := update_where (\<lambda>u. u_ID u = i \<and> u_DeletedAt u = None) (\<lambda>u. (f u)\<lparr>u_UpdatedAt := t\<rparr>) (users d)\<rparr>)"
      (is "user_inv (d\<lparr>users := ?us\<rparr>)")
    if inv: "user_inv d" and free: "\<not> (has_key u_ID i (users d) \<and> taken col v (filter (\<lambda>u. u_ID u \<noteq> i) (users d)))" for d t
  proof (cases "has_key u_ID i (users d)")
    case False
    then have "?us = users d" by (auto simp: update_where_def table_simps intro!: map_idI)
    then show ?thesis using inv by simp
  next
    case True
    then have "uniq_some col ?us"
      using uniq_some_update[of col "users d" u_ID v i "\<lambda>u. (f u)\<lparr>u_UpdatedAt := t\<rparr>"
        "\<lambda>u. u_ID u = i \<and> u_DeletedAt u = None"] free inv assms(2,3)
      by (auto simp: inv_defs)
    moreover have "uniq_some u_Email ?us" if "col = u_Phone"
      using inv that assms(2) by (auto simp: inv_defs uniq_some_update_same)
    moreover have "uniq_some u_Phone ?us" if "col = u_Email"
      using inv that assms(2) by (auto simp: inv_defs uniq_some_update_same)
    ultimately show ?thesis using assms(2) by (intro user_inv_users[OF inv]) (auto simp: map_update_where_same assms(1))
  qed
  show ?thesis unfolding updateUnique_def
    by (intro keeps_intros keeps_exec) (auto split: if_splits intro: step)
qed

lemma keeps_userRepo:
  "keeps user_inv (userRepo_UpdatePassword u h)" "keeps user_inv (userRepo_UpdatePhone u p)" "keeps user_inv (userRepo_UpdateEmail u e)"
  unfolding userRepo_UpdatePassword_def userRepo_UpdatePhone_def userRepo_UpdateEmail_def
  by (intro keeps_updateUser keeps_updateUnique; simp)+

lemma keeps_lookups [keeps_intros]:
  "keeps I (userRepo_GetByID u)" "keeps I (userRepo_GetByPhone p)" "keeps I (userRepo_GetByEmail e)" "keeps I (userRepo_GetByAccount a)"
  "keeps I (deviceRepo_GetByUserID u)" "keeps I (deviceRepo_GetByUserIDAndDeviceType u ty)"
  "keeps I (profileRepo_GetByUserID u)" "keeps I (profileRepo_CheckNicknameExists n u)" "keeps I (settingsRepo_GetByUserID u)"
  "keeps I (userQRCodeRepo_GetByToken q)" "keeps I (profileRepo_SearchByKeyword like kw lim off)"
  "keeps I (sessionRepo_GetByRefreshToken tok)"
  unfolding userRepo_GetByID_def userRepo_GetByPhone_def userRepo_GetByEmail_def userRepo_GetByAccount_def deviceRepo_GetByUserID_def
    deviceRepo_GetByUserIDAndDeviceType_def profileRepo_GetByUserID_def profileRepo_CheckNicknameExists_def
    settingsRepo_GetByUserID_def userQRCodeRepo_GetByToken_def profileRepo_SearchByKeyword_def sessionRepo_GetByRefreshToken_def Let_def
  by (intro keeps_intros)+

lemma user_inv_tables:
  "user_inv d \<Longrightarrow> uq_UserID ` set qs \<subseteq> user_ids d \<Longrightarrow> user_inv (d\<lparr>user_qrcodes := qs\<rparr>)"
  "user_inv d \<Longrightarrow> us_UserID ` set ss \<subseteq> user_ids d \<Longrightarrow> uniq us_ID ss \<Longrightarrow> user_inv (d\<lparr>user_sessions := ss\<rparr>)"
  "user_inv d \<Longrightarrow> ud_UserID ` set ds \<subseteq> user_ids d \<Longrightarrow> uniq device_key ds \<Longrightarrow> user_inv (d\<lparr>user_devices := ds\<rparr>)"
  by (simp_all add: inv_defs)

lemma user_inv_owners:
  assumes "user_inv d"
  shows "uq_UserID ` set (user_qrcodes d) \<subseteq> user_ids d" "us_UserID ` set (user_sessions d) \<subseteq> user_ids d"
    "ud_UserID ` set (user_devices d) \<subseteq> user_ids d" "uniq us_ID (user_sessions d)" "uniq device_key (user_devices d)"
  using assms by (simp_all add: user_inv_def sound_tables_def)

lemma user_inv_owner:
  assumes "user_inv d"
  shows "q \<in> set (user_qrcodes d) \<Longrightarrow> uq_UserID q \<in> user_ids d" "x \<in> set (user_sessions d) \<Longrightarrow> us_UserID x \<in> user_ids d"
    "v \<in> set (user_devices d) \<Longrightarrow> ud_UserID v \<in> user_ids d"
  using user_inv_owners[OF assms] by blast+

lemma keeps_sessionRepo_Delete:
  "keeps user_inv (sessionRepo_DeleteByUserIDAndDeviceID u dv)" "keeps user_inv (sessionRepo_DeleteByUserID u)"
  "keeps user_inv (sessionRepo_DeleteByUserIDExceptDeviceID u dv)"
  unfolding sessionRepo_DeleteByUserIDAndDeviceID_def sessionRepo_DeleteByUserID_def sessionRepo_DeleteByUserIDExceptDeviceID_def
  by (intro keeps_modify user_inv_tables; auto simp: uniq_delete_where table_simps dest: user_inv_owners user_inv_owner)+

lemma keeps_profileRepo_UpdateQRCode: "keeps user_inv (profileRepo_UpdateQRCode u url)"
  unfolding profileRepo_UpdateQRCode_def
  by (intro keeps_intros keeps_modify) (simp add: inv_defs uniq_update_where image_update_where)

lemma keeps_QRCode_Create: "keeps user_inv (userQRCodeRepo_Create q)"
  unfolding userQRCodeRepo_Create_def
  by (intro keeps_intros keeps_exec)
     (auto split: sum.splits simp: insert_of_user_Inr user_ids_def[symmetric] intro!: user_inv_tables dest: user_inv_owners user_inv_owner)

lemma keeps_deviceRepo_UpdateLastLogin: "keeps user_inv (deviceRepo_UpdateLastLogin u dv ip)"
  unfolding deviceRepo_UpdateLastLogin_def
  by (intro keeps_intros keeps_modify) (simp add: inv_defs uniq_update_where image_update_where device_key_def)

lemmas repo_keeps = keeps_userRepo keeps_sessionRepo_Delete keeps_profileRepo_UpdateQRCode keeps_QRCode_Create
  keeps_deviceRepo_UpdateLastLogin

text \<open>A device or session is made for a user that is in the table.\<close>

definition has_account :: "string \<Rightarrow> user_db \<Rightarrow> bool" where
  "has_account u d = (user_inv d \<and> u \<in> user_ids d)"

lemma ensures_account: "keeps (has_account u) m \<Longrightarrow> (\<And>d. P d \<Longrightarrow> has_account u d) \<Longrightarrow> ensures P user_inv m"
  by (auto simp: ensures_def keeps_def has_account_def)

lemma keeps_account: "keeps user_inv m \<Longrightarrow> (\<And>k. keeps (\<lambda>d. user_ids d = k) m) \<Longrightarrow> keeps (has_account u) m"
  by (auto simp: keeps_def has_account_def)

lemma keeps_account_base:
  "keeps (has_account u) (sessionRepo_DeleteByUserIDAndDeviceID v dv)" "keeps (has_account u) (deviceRepo_UpdateLastLogin v dv ip)"
  unfolding sessionRepo_DeleteByUserIDAndDeviceID_def deviceRepo_UpdateLastLogin_def
  by (intro keeps_account repo_keeps[unfolded sessionRepo_DeleteByUserIDAndDeviceID_def deviceRepo_UpdateLastLogin_def]
      keeps_intros keeps_modify; simp add: user_ids_def)+

lemma keeps_account_create:
  "keeps (has_account (ud_UserID dv)) (deviceRepo_Create dv)" "keeps (has_account (us_UserID x)) (sessionRepo_Create x)"
  unfolding deviceRepo_Create_def sessionRepo_Create_def
  by (intro keeps_intros keeps_exec;
      auto simp: has_account_def table_simps uniq_append1 device_key_def split: option.splits
        intro!: user_inv_tables dest: user_inv_owners user_inv_owner)+

lemma ensures_sessionRepo_Update:
  "ensures (\<lambda>d. user_inv d \<and> x \<in> set (user_sessions d) \<and> us_ID x' = us_ID x \<and> us_UserID x' = us_UserID x) user_inv (sessionRepo_Update x')"
  unfolding sessionRepo_Update_def
  by (intro ensures_skip preserves_keeps keeps_intros ensures_modify)
     (simp_all add: user_inv_tables user_inv_owners save_row_uniq[of us_ID _ x] save_row_image[of us_ID _ x])

lemma ensures_profileRepo_Update:
  "ensures (\<lambda>d. user_inv d \<and> p \<in> set (user_profiles d) \<and> up_ID p' = up_ID p \<and> up_UserID p' = up_UserID p) user_inv (profileRepo_Update p')"
  unfolding profileRepo_Update_def Let_def
  by (intro ensures_skip ensures_then_keeps preserves_keeps keeps_intros ensures_modify)
     (simp_all add: inv_defs save_row_uniq[of up_ID _ p] save_row_image[of up_ID _ p])

lemma ensures_settingsRepo_Update:
  "ensures (\<lambda>d. user_inv d \<and> x \<in> set (user_settings d) \<and> st_ID x' = st_ID x \<and> st_UserID x' = st_UserID x) user_inv (settingsRepo_Update x')"
  unfolding settingsRepo_Update_def
  by (intro ensures_skip preserves_keeps keeps_intros ensures_modify)
     (simp_all add: inv_defs save_row_uniq[of st_ID _ x] save_row_image[of st_ID _ x])

lemma keeps_kick: "keeps (has_account u) (handleSameTypeDeviceKick v dv ty)"
  unfolding handleSameTypeDeviceKick_def by (intro keeps_intros keeps_account_base)

lemma keeps_recordDevice: "keeps (has_account u) (recordDevice u req)"
  using keeps_account_create(1)[of "newDevice u (lq_DeviceId req) (int16 (lq_DeviceType req)) (lq_ClientVersion req)"]
  unfolding recordDevice_def deviceRepo_GetByUserIDAndDeviceID_def
  by (intro keeps_intros keeps_account_base) (simp add: newDevice_def)

lemma ensures_storeSession: "ensures (has_account u) user_inv (storeSession u dv at rt ae re)"
proof -
  have "keeps (has_account u) (sessionRepo_Create (newSession u dv at rt ae re))"
    using keeps_account_create(2)[of "newSession u dv at rt ae re"] by (simp add: newSession_def)
  then have create: "ensures (has_account u) user_inv (sessionRepo_Create (newSession u dv at rt ae re))"
    by (rule ensures_account)
  show ?thesis unfolding storeSession_def sessionRepo_GetByUserIDAndDeviceID_def
  proof (intro ensures_optional, unfold option.case)
    fix x :: UserSession
    let ?x = "x\<lparr>us_AccessToken := at, us_RefreshToken := rt, us_AccessTokenExpiresAt := ae, us_RefreshTokenExpiresAt := re\<rparr>"
    show "ensures (\<lambda>d. has_account u d \<and> first_where (\<lambda>s. us_UserID s = u \<and> us_DeviceID s = dv) us_ID (user_sessions d) = Some x)
        user_inv (sessionRepo_Update ?x)"
      using ensures_sessionRepo_Update[of x ?x] by (auto simp: ensures_def has_account_def dest: first_where_SomeD)
  qed (simp_all add: create has_account_def)
qed

lemma ensures_find_catch:
  "(\<And>d. P d \<Longrightarrow> J d) \<Longrightarrow> (\<And>a. ensures (\<lambda>d. P d \<and> g d = Some a) J (f a)) \<Longrightarrow>
     ensures P J (bindE (catchE (find_one g) (\<lambda>e. throwE (h e))) f)"
  unfolding ensures_def find_one_def query_def
  by (auto simp: monad_defs infra_def split: option.splits sum.splits prod.splits err.splits)

lemma ensures_step: "keeps P m \<Longrightarrow> (\<And>d. P d \<Longrightarrow> J d) \<Longrightarrow> (\<And>a. ensures P J (f a)) \<Longrightarrow> ensures P J (bindE m f)"
  unfolding ensures_def keeps_def bindE_def by (auto split: sum.splits prod.splits)

lemma ensures_step_then: "keeps P m \<Longrightarrow> (\<And>d. P d \<Longrightarrow> J d) \<Longrightarrow> ensures P J k \<Longrightarrow> ensures P J (thenE m k)"
  unfolding thenE_def by (rule ensures_step)

lemma ensures_pre: "ensures P' J m \<Longrightarrow> (\<And>d. P d \<Longrightarrow> P' d) \<Longrightarrow> ensures P J m"
  by (simp add: ensures_def)

lemma ensures_bind_return: "ensures P J m \<Longrightarrow> ensures P J (bindE m (\<lambda>a. returnE (g a)))"
  unfolding ensures_def bindE_def returnE_def by (auto split: sum.splits prod.splits)

lemma ensures_throw: "(\<And>d. P d \<Longrightarrow> J d) \<Longrightarrow> ensures P J (throwE e)"
  by (simp add: ensures_def throwE_def)

lemma has_account_inv: "has_account u d \<Longrightarrow> user_inv d"
  by (simp add: has_account_def)

lemma first_user_account: "user_inv d \<Longrightarrow> first_user p d = Some u \<Longrightarrow> has_account (u_ID u) d"
  by (auto simp: has_account_def first_user_def user_ids_def dest: first_where_SomeD)

lemma ensures_openSession: "ensures (has_account (u_ID u)) user_inv (openSession s u req)"
  unfolding openSession_def Let_def
  by (rule ensures_step_then[OF keeps_ignore[OF keeps_kick] has_account_inv], assumption,
      rule ensures_step_then[OF keeps_recordDevice has_account_inv], assumption,
      rule ensures_step[OF keeps_libraries(1) has_account_inv], assumption,
      rule ensures_step[OF keeps_libraries(2) has_account_inv], assumption,
      (rule ensures_step[OF keeps_now has_account_inv], assumption)+,
      rule ensures_then_keeps[OF ensures_storeSession keeps_return])

lemma keeps_Login: "keeps user_inv (Login s req)"
  unfolding ensures_keeps Login_def userRepo_GetByAccount_def
  by (intro ensures_step[OF keeps_liftE] ensures_optional)
     (auto intro!: ensures_throw ensures_step_then[OF keeps_guard] ensures_pre[OF ensures_openSession] first_user_account)

lemma keeps_RefreshToken: "keeps user_inv (RefreshToken s tok)"
proof -
  have "ensures (\<lambda>d. user_inv d \<and> first_where p us_ID (user_sessions d) = Some x) user_inv (sessionRepo_Update x')"
    if "us_ID x' = us_ID x" "us_UserID x' = us_UserID x" for p x x'
    using that ensures_sessionRepo_Update[of x x'] by (auto elim!: ensures_pre dest: first_where_SomeD)
  then show ?thesis
    unfolding ensures_keeps RefreshToken_def Let_def sessionRepo_GetByRefreshToken_def
    by (intro ensures_skip[OF preserves_keeps] ensures_skip_then[OF preserves_keeps] ensures_find_catch ensures_then_keeps
        keeps_intros) auto
qed

lemma keeps_logout: "keeps user_inv (logoutDevice u r dv)" "keeps user_inv (forceLogoutAllDevices u r)"
    "keeps user_inv (forceLogoutOtherDevices u x r)"
  unfolding forceLogoutAllDevices_def forceLogoutOtherDevices_def logoutDevice_def
  by (intro keeps_intros repo_keeps)+

lemma keeps_ChangePassword: "keeps user_inv (ChangePassword s u old new dv)"
  unfolding ChangePassword_def by (intro keeps_intros repo_keeps keeps_logout)

lemma keeps_ResetPassword: "keeps user_inv (ResetPassword s acc code new)"
  unfolding ResetPassword_def resetTx_def Let_def
  by (intro keeps_intros keeps_transaction_body repo_keeps keeps_logout keeps_verification)

lemma keeps_RefreshQRCode: "keeps user_inv (RefreshQRCode s u)" "keeps user_inv (refreshQRCodeInTx s u)"
  unfolding RefreshQRCode_def refreshQRCodeInTx_def Let_def by (intro keeps_intros repo_keeps)+

lemma keeps_contacts:
  "keeps user_inv (BindPhone s u p c)" "keeps user_inv (ChangePhone s u p1 p2 oc nc dv)"
  "keeps user_inv (BindEmail s u e c)" "keeps user_inv (ChangeEmail s u e1 e2 oc nc dv)"
  unfolding BindPhone_def ChangePhone_def BindEmail_def ChangeEmail_def requireAuthUser_def ensurePhoneAvailable_def
    ensureEmailAvailable_def invalidateSessionsAfterContactChange_def
  by (intro keeps_intros repo_keeps keeps_verification)+

lemma keeps_checkNickname [keeps_intros]: "keeps I (checkNickname u n)"
  unfolding checkNickname_def by (intro keeps_intros)

lemma keeps_UpdateProfile: "keeps user_inv (UpdateProfile u req)"
proof -
  have "ensures (\<lambda>d. user_inv d \<and> first_where q up_ID (user_profiles d) = Some p) user_inv (profileRepo_Update (applyProfile req p))" for p q
    using ensures_profileRepo_Update[of p "applyProfile req p"]
    by (auto simp: applyProfile_def elim!: ensures_pre dest: first_where_SomeD)
  then show ?thesis
    unfolding ensures_keeps UpdateProfile_def profileRepo_GetByUserID_def
    by (intro ensures_find ensures_skip_then[OF preserves_keeps] ensures_bind_return keeps_intros)
       auto
qed

lemma keeps_UpdateSettings: "keeps user_inv (UpdateSettings u req)"
proof -
  have "ensures (\<lambda>d. user_inv d \<and> first_where q st_ID (user_settings d) = Some x) user_inv (settingsRepo_Update (applySettings req x))" for x q
    using ensures_settingsRepo_Update[of x "applySettings req x"]
    by (auto simp: applySettings_def elim!: ensures_pre dest: first_where_SomeD)
  then show ?thesis
    unfolding ensures_keeps UpdateSettings_def settingsRepo_GetByUserID_def
    by (intro ensures_find ensures_then_keeps keeps_intros) auto
qed

lemma keeps_reads:
  "keeps I (GetProfile u)" "keeps I (GetUserInfo s u v)" "keeps I (SearchUsers s kw pg ps)" "keeps I (GetSettings u)"
  "keeps I (GetUserByQRCode q)"
  unfolding GetProfile_def GetUserInfo_def SearchUsers_def GetSettings_def GetUserByQRCode_def Let_def
  by (intro keeps_intros)+

subsection \<open>Registration\<close>

text \<open>What a successful run establishes.\<close>

lemma attains_wrap: "attains P Q m \<Longrightarrow> attains P Q (wrapE what m)"
  by (auto simp: attains_def wrapE_def catchE_def throwE_def split: prod.splits sum.splits err.splits)

text \<open>A user without profile, then without settings.\<close>

definition unfinished :: "string \<Rightarrow> string set \<Rightarrow> string set \<Rightarrow> user_db \<Rightarrow> bool" where
  "unfinished u P S d = (sound_tables d \<and> u \<in> user_ids d \<and> keyed d = (user_ids d, user_ids d - P, user_ids d - S))"

lemma unfinished_done: "unfinished u {} {} d = has_account u d"
  by (auto simp: unfinished_def has_account_def user_inv_def keyed_def)

lemma user_ids_append [simp]: "user_ids (d\<lparr>users := users d @ [u]\<rparr>) = insert (u_ID u) (user_ids d)"
  by (simp add: user_ids_def)

lemma new_user:
  assumes "user_inv d" "insert_user u (users d) = Inr us"
  shows "unfinished (u_ID u) {u_ID u} {u_ID u} (d\<lparr>users := us\<rparr>)"
proof -
  have us: "us = users d @ [u]" "u_ID u \<notin> user_ids d" "\<not> taken u_Phone (u_Phone u) (users d)" "\<not> taken u_Email (u_Email u) (users d)"
    using assms(2) by (simp_all add: insert_user_Inr user_ids_def)
  show ?thesis using assms(1) us
    by (simp add: unfinished_def user_inv_def sound_tables_def keyed_def uniq_append1 uniq_some_append user_ids_def[of d, symmetric]
        subset_insertI2)
qed

lemma new_profile:
  assumes "unfinished u {u} S d" "up_UserID p = u" "insert_of_user tb up_UserID up_ID up_UserID col p (users d) (user_profiles d) = Inr ps"
  shows "unfinished u {} S (d\<lparr>user_profiles := ps\<rparr>)"
  using assms by (simp add: unfinished_def sound_tables_def keyed_def insert_of_user_Inr uniq_append1 insert_absorb)

lemma new_settings:
  assumes "unfinished u {} {u} d" "st_UserID x = u" "insert_of_user tb st_UserID st_ID st_UserID col x (users d) (user_settings d) = Inr ss"
  shows "unfinished u {} {} (d\<lparr>user_settings := ss\<rparr>)"
  using assms by (simp add: unfinished_def sound_tables_def keyed_def insert_of_user_Inr uniq_append1 insert_absorb)

lemma attains_userRepo_Create: "attains user_inv (unfinished (u_ID u) {u_ID u} {u_ID u}) (userRepo_Create u)"
  unfolding userRepo_Create_def
  by (intro attains_bind[OF attains_keeps] attains_exec keeps_intros) (auto split: sum.splits dest: new_user)

lemma attains_profileRepo_Create: "attains (unfinished (up_UserID p) {up_UserID p} S) (unfinished (up_UserID p) {} S) (profileRepo_Create p)"
  unfolding profileRepo_Create_def
  by (intro attains_bind[OF attains_keeps] attains_exec keeps_intros) (auto split: sum.splits elim!: new_profile[rotated 2])

lemma attains_settingsRepo_Create: "attains (unfinished (st_UserID x) {} {st_UserID x}) (has_account (st_UserID x)) (settingsRepo_Create x)"
  unfolding settingsRepo_Create_def unfinished_done[abs_def, symmetric]
  by (intro attains_bind[OF attains_keeps] attains_exec keeps_intros)
     (auto split: sum.splits simp: unfinished_done[symmetric] elim!: new_settings[rotated 2])

lemma keeps_account_QR: "keeps (has_account u) (refreshQRCodeInTx s v)"
  by (rule keeps_account[OF keeps_RefreshQRCode(2)])
     (unfold refreshQRCodeInTx_def Let_def userQRCodeRepo_Create_def profileRepo_UpdateQRCode_def,
      intro keeps_intros keeps_exec keeps_modify, auto split: sum.splits)

lemma attains_initUserData: "attains (unfinished u {u} {u}) (has_account u) (initUserDataInTx s u nick)"
  unfolding initUserDataInTx_def
proof (rule attains_bind)
  show "attains (unfinished u {u} {u}) (unfinished u {u} {u}) (if nick = '''' then
      (if length u < 8 then throwE (Panicked ''slice bounds out of range'') else returnE (''User_'' @ take 8 u)) else returnE nick)"
    by (intro attains_keeps keeps_intros)
  fix n
  let ?p = "\<lparr>up_ID = 0, up_UserID = u, up_Nickname = n, up_Avatar = '''', up_Signature = '''', up_Gender = GenderUnknown,
    up_Birthday = None, up_Region = '''', up_QRCodeURL = '''', up_QRCodeUpdatedAt = None, up_CreatedAt = 0, up_UpdatedAt = 0\<rparr>"
  let ?x = "\<lparr>st_ID = 0, st_UserID = u, st_NotificationEnabled = True, st_SoundEnabled = True,
       st_VibrationEnabled = True, st_MessagePreviewEnabled = True, st_FriendVerifyRequired = True, st_SearchByPhone = True,
       st_SearchByID = True, st_Language = ''zh_CN'', st_CreatedAt = 0, st_UpdatedAt = 0\<rparr>"
  show "attains (unfinished u {u} {u}) (has_account u)
      (thenE (profileRepo_Create ?p) (thenE (settingsRepo_Create ?x) (void (refreshQRCodeInTx s u))))"
    using attains_profileRepo_Create[of ?p "{u}"] attains_settingsRepo_Create[of ?x]
    by (intro attains_then[where Q = "unfinished u {} {u}"] attains_then[where Q = "has_account u"] attains_keeps keeps_void keeps_account_QR)
       simp_all
qed

lemma keeps_Register: "keeps user_inv (Register s req)"
proof -
  have "attains user_inv (has_account u) (registerTx s u ph em pw nick dv ty cv)" for u ph em pw nick dv ty cv
    unfolding registerTx_def
    using keeps_account_create(1)[of "newDevice u dv ty cv"] keeps_account_create(2)[of "newSession u dv at rt ae re" for at rt ae re]
    by (intro attains_then[where Q = "unfinished u {u} {u}"] attains_wrap attains_userRepo_Create[of "\<lparr>u_ID = u, u_Phone = toPtr ph, u_Email = toPtr em,
       u_PasswordHash = pw, u_Status = UserStatusNormal, u_CreatedAt = 0, u_UpdatedAt = 0, u_DeletedAt = None\<rparr>", simplified]
        attains_then[where Q = "has_account u", OF attains_wrap[OF attains_initUserData]] attains_keeps keeps_intros)
       (simp_all add: newDevice_def newSession_def)
  then have "attains user_inv user_inv (registerTx s u ph em pw nick dv ty cv)" for u ph em pw nick dv ty cv
    by (auto simp: attains_def has_account_def)
  then show ?thesis
    unfolding Register_def registerTarget_def createAccount_def Let_def
    by (intro keeps_intros keeps_verification keeps_transaction_attains) auto
qed

lemma user_step_keeps: "keeps user_inv (user_step s op)"
  by (cases op)
     (simp_all add: UserHandler_SendVerificationCode_def UserHandler_Register_def UserHandler_Login_def UserHandler_Logout_def
       UserHandler_RefreshToken_def UserHandler_ChangePassword_def UserHandler_ResetPassword_def UserHandler_GetProfile_def
       UserHandler_UpdateProfile_def UserHandler_GetUserInfo_def UserHandler_SearchUsers_def UserHandler_GetSettings_def
       UserHandler_UpdateSettings_def UserHandler_RefreshQRCode_def UserHandler_GetUserByQRCode_def UserHandler_UpdatePushToken_def
       UserHandler_BindPhone_def UserHandler_ChangePhone_def UserHandler_BindEmail_def UserHandler_ChangeEmail_def
       Logout_def SendVerificationCode_def keeps_intros repo_keeps keeps_verification keeps_Register keeps_Login keeps_RefreshToken
       keeps_ChangePassword keeps_ResetPassword keeps_reads keeps_UpdateProfile keeps_UpdateSettings keeps_RefreshQRCode keeps_contacts)

lemma user_inv_empty: "user_inv empty_user_db"
  by (simp add: inv_defs empty_user_db_def uniq_some_def)

interpretation user_service: service "user_step s" any_op user_inv empty_user_db for s
  by unfold_locales (rule user_inv_empty, rule user_step_keeps)

end
