(* ===== verification/Verification_Codes.thy ===== *)
theory Verification_Codes
  imports Verification
begin

text \<open>
  Properties of the verification manager: a code is accepted only when it was stored for that target and
  purpose and has not expired, it is accepted once, a bounded number of wrong guesses locks it, the code
  that was sent is the one that is accepted; and what the rate limiter does when a limit is exceeded.
\<close>

subsection \<open>Steps that leave the environment alone\<close>

text \<open>Every computation reads its clock and fault schedule and moves the logical time forward.\<close>

definition steady :: "('db, 'a) M \<Rightarrow> bool" where
  "steady m = (\<forall>w. fault (snd (m w)) = fault w \<and> clock (snd (m w)) = clock w \<and> tick w \<le> tick (snd (m w)))"

named_theorems steady_intros \<open>computations that keep clock and fault schedule\<close>

lemma steady_base [steady_intros]:
  "steady (returnE a)" "steady (throwE e)" "steady (guardE b e)" "steady infra" "steady now" "steady new_uuid"
  "steady (next_serial sq)" "steady (rpc f)" "steady (emit ev)"
  by (simp_all add: steady_def monad_defs infra_def now_def new_uuid_def next_serial_def rpc_def emit_def Let_def
      split: option.splits sum.splits)

lemma steady_bind [steady_intros]:
  assumes "steady m" "\<And>a. steady (f a)" shows "steady (bindE m f)"
proof -
  have "fault (snd (bindE m f w)) = fault w \<and> clock (snd (bindE m f w)) = clock w \<and> tick w \<le> tick (snd (bindE m f w))" for w
  proof (cases "m w")
    case (Pair r w1)
    then have "fault w1 = fault w" "clock w1 = clock w" "tick w \<le> tick w1"
      using assms(1) unfolding steady_def by (metis snd_conv)+
    then show ?thesis using Pair assms(2) order_trans by (fastforce simp: bindE_def steady_def split: sum.splits)
  qed
  then show ?thesis by (simp add: steady_def)
qed

lemma steady_then [steady_intros]: "steady m \<Longrightarrow> steady k \<Longrightarrow> steady (thenE m k)"
  by (simp add: thenE_def steady_bind)

lemma steady_catch [steady_intros]:
  assumes "steady m" "\<And>e. steady (h e)" shows "steady (catchE m h)"
proof -
  have "fault (snd (catchE m h w)) = fault w \<and> clock (snd (catchE m h w)) = clock w \<and> tick w \<le> tick (snd (catchE m h w))" for w
  proof (cases "m w")
    case (Pair r w1)
    then have "fault w1 = fault w" "clock w1 = clock w" "tick w \<le> tick w1"
      using assms(1) unfolding steady_def by (metis snd_conv)+
    then show ?thesis using Pair assms(2) order_trans by (fastforce simp: catchE_def steady_def split: sum.splits err.splits)
  qed
  then show ?thesis by (simp add: steady_def)
qed

lemma steady_if [steady_intros]: "steady m \<Longrightarrow> steady m' \<Longrightarrow> steady (if b then m else m')"
  by simp

lemma steady_option [steady_intros]:
  "steady m \<Longrightarrow> (\<And>a. steady (f a)) \<Longrightarrow> steady (case x of None \<Rightarrow> m | Some a \<Rightarrow> f a)"
  by (simp split: option.splits)

lemma steady_db [steady_intros]: "steady (query f)" "steady (find_one g)" "steady (exec h)" "steady (modify k)"
  by (auto simp: steady_def query_def find_one_def exec_def modify_def monad_defs infra_def split: option.splits sum.splits)

lemma steady_wrappers [steady_intros]:
  "steady m \<Longrightarrow> steady (ignoreE m)" "steady a \<Longrightarrow> steady (attemptE a)" "steady b \<Longrightarrow> steady (optionalE b)"
  by (simp_all add: ignoreE_def attemptE_def optionalE_def steady_intros)

lemma steady_loops [steady_intros]:
  "(\<And>x. steady (f x)) \<Longrightarrow> steady (forE xs f)" "(\<And>x. steady (g x)) \<Longrightarrow> steady (mapE g ys)"
  by (induction xs; simp add: steady_intros) (induction ys; simp add: steady_intros)

lemma wp_steady:
  assumes "steady m" "\<And>a w'. fault w' = fault w \<Longrightarrow> clock w' = clock w \<Longrightarrow> tick w \<le> tick w' \<Longrightarrow> Q a w'"
  shows "wp m Q (\<lambda>_ _. True) w"
proof -
  obtain r w' where m: "m w = (r, w')" by (cases "m w")
  then have "fault w' = fault w" "clock w' = clock w" "tick w \<le> tick w'"
    using assms(1) unfolding steady_def by (metis snd_conv)+
  then show ?thesis using m assms(2) by (simp add: wp_def split: sum.splits)
qed

subsection \<open>Redis commands in a healthy world\<close>

lemma wp_cacheE:
  "wp (cacheE f) Q E w =
     (case fault w (Suc (tick w)) of Some s \<Rightarrow> E (InfraError s) (bump (bump w))
      | None \<Rightarrow> (case f (clock w (tick w)) (vcache (db w)) of
            Inl e \<Rightarrow> E e (bump (bump w))
          | Inr (a, c) \<Rightarrow> Q a ((bump (bump w))\<lparr>db := (db w)\<lparr>vcache := c\<rparr>\<rparr>)))"
  by (simp add: cacheE_def wp_simps split: option.split sum.split prod.split)

lemma run_cacheE:
  "healthy w \<Longrightarrow> cacheE f w =
     (case f (clock w (tick w)) (vcache (db w)) of
        Inl e \<Rightarrow> (Inl e, bump (bump w))
      | Inr (a, c) \<Rightarrow> (Inr a, (bump (bump w))\<lparr>db := (db w)\<lparr>vcache := c\<rparr>\<rparr>))"
  by (simp add: cacheE_def bindE_def run_now run_exec split: sum.splits prod.splits)

lemma run_delE:
  "healthy w \<Longrightarrow> ignoreE (delE key) w = (Inr (), (bump (bump w))\<lparr>db := (db w)\<lparr>vcache := cache_Del key (vcache (db w))\<rparr>\<rparr>)"
  by (simp add: ignoreE_def delE_def catchE_def thenE_def bindE_def run_cacheE returnE_def)

lemma steady_cacheE [steady_intros]: "steady (cacheE f)" "steady (delE key)"
  by (simp_all add: cacheE_def delE_def steady_intros)

subsection \<open>The rate limiter\<close>

text \<open>In a healthy world the limiter is one use of the counter, unless the key holds something else.\<close>

definition no_hash :: "int \<Rightarrow> string \<Rightarrow> cache_store \<Rightarrow> bool" where
  "no_hash t key c = (case stored t key c of Some (CHash _, _) \<Rightarrow> False | _ \<Rightarrow> True)"

lemma incrementAndCheck_run:
  assumes "healthy w" "1 \<le> limit"
    and "no_hash (clock w (Suc (Suc (tick w)))) key (vcache (db w))"
  shows "case store.count_use (clock w (tick w)) (clock w (Suc (Suc (tick w)))) ttl key limit (vcache (db w)) of
      (True, c') \<Rightarrow> \<exists>w1. incrementAndCheck key ttl limit code w = (Inr (), w1) \<and> healthy w1 \<and> vcache (db w1) = c'
    | (False, c') \<Rightarrow> \<exists>w1. incrementAndCheck key ttl limit code w = (Inl (NewBusiness code ''verification rate limit exceeded''), w1)
        \<and> healthy w1 \<and> vcache (db w1) = c'"
proof (cases "cache_SetNX (clock w (tick w)) key 1 ttl (vcache (db w))")
  case (Pair ok c1)
  show ?thesis
  proof (cases ok)
    case True
    then show ?thesis using Pair assms(1,2)
      by (simp add: incrementAndCheck_def Let_def store.count_use_def bindE_def catchE_def run_cacheE run_simps)
  next
    case False
    then have c1: "c1 = vcache (db w)" using Pair by (simp add: cache_SetNX_def split: option.splits)
    obtain n c2 where incr: "cache_Incr (clock w (Suc (Suc (tick w)))) key c1 = Inr (n, c2)"
      using assms(3) that unfolding c1 by (auto simp: cache_Incr_def no_hash_def split: option.splits cval.splits)
    show ?thesis
    proof (cases "n > limit")
      case True
      then show ?thesis using Pair False incr assms(1,2)
        by (simp add: incrementAndCheck_def Let_def store.count_use_def bindE_def thenE_def catchE_def run_cacheE run_delE run_simps)
    next
      case le: False
      then show ?thesis using Pair False incr assms(1,2)
        by (simp add: incrementAndCheck_def Let_def store.count_use_def bindE_def thenE_def catchE_def run_cacheE run_simps)
    qed
  qed
qed

text \<open>Exceeding a rate limit removes it: when a counter has reached its limit the next request is refused,
  and the one after it is let through, since the refusal deletes the counter.\<close>

theorem rate_limit_resets:
  assumes "healthy w" "\<forall>t. stored t key (vcache (db w)) = (if t < e then Some (CNum n, Some e) else None)"
    and "clock w (tick w) < e" "clock w (tick w + 2) < e" "1 \<le> limit" "limit \<le> n" "0 < ttl"
  shows "case incrementAndCheck key ttl limit code w of (r, w1) \<Rightarrow>
    r = Inl (NewBusiness code ''verification rate limit exceeded'') \<and> fst (incrementAndCheck key ttl limit code w1) = Inr ()"
proof -
  have live: "stored (clock w (tick w)) key (vcache (db w)) = Some (CNum n, Some e)"
      "stored (clock w (Suc (Suc (tick w)))) key (vcache (db w)) = Some (CNum n, Some e)"
    using assms(2-4) by simp_all
  from store.full_counter_deleted[OF live assms(5,6), of ttl]
  obtain c1 where c1: "store.count_use (clock w (tick w)) (clock w (Suc (Suc (tick w)))) ttl key limit (vcache (db w)) = (False, c1)"
    and none: "\<And>t. stored t key c1 = None" by blast
  obtain w1 where first: "incrementAndCheck key ttl limit code w = (Inl (NewBusiness code ''verification rate limit exceeded''), w1)"
      and w1: "healthy w1" "vcache (db w1) = c1"
    using incrementAndCheck_run[OF assms(1,5), of key ttl code] live(2) unfolding c1 by (auto simp: no_hash_def)
  have "fst (store.count_use (clock w1 (tick w1)) (clock w1 (Suc (Suc (tick w1)))) ttl key limit c1)"
    by (rule store.absent_counter_passes[OF none assms(7,5)])
  then have "fst (incrementAndCheck key ttl limit code w1) = Inr ()"
    using incrementAndCheck_run[OF w1(1) assms(5), of key ttl code] w1(2) none by (auto simp: no_hash_def split: prod.splits bool.splits)
  then show ?thesis using first by simp
qed

subsection \<open>Accepting a code\<close>

lemma wp_liftE [wp_simps]: "wp (liftE r) Q E w = (case r of Inl e \<Rightarrow> E e w | Inr a \<Rightarrow> Q a w)"
  by (simp add: wp_def liftE_def split: sum.splits)

lemma wp_ignore_delE:
  "wp (ignoreE (delE key)) Q E w = Q () (case fault w (Suc (tick w)) of Some _ \<Rightarrow> bump (bump w)
     | None \<Rightarrow> (bump (bump w))\<lparr>db := (db w)\<lparr>vcache := cache_Del key (vcache (db w))\<rparr>\<rparr>)"
  by (simp add: ignoreE_def delE_def wp_simps wp_cacheE split: option.split)

definition verified_in :: "string \<Rightarrow> user_db \<Rightarrow> bool" where
  "verified_in codeID d = (\<forall>c \<in> set (verification_codes d). vc_CodeID c = codeID \<longrightarrow> vc_Status c = CodeStatusVerified)"

lemma verified_in_update [simp]:
  "verified_in codeID (updateCode codeID (\<lambda>c. c\<lparr>vc_Status := CodeStatusVerified, vc_VerifiedAt := v, vc_UpdatedAt := t\<rparr>) d)"
  "verified_in codeID (d\<lparr>vcache := c\<rparr>) = verified_in codeID d"
  by (simp_all add: verified_in_def updateCode_def ball_update_where)

text \<open>Computations that never return a value.\<close>

definition fails :: "('db, 'a) M \<Rightarrow> bool" where
  "fails m = (\<forall>w. \<exists>e w'. m w = (Inl e, w'))"

named_theorems fails_intros \<open>computations that never return a value\<close>

lemma fails_rules [fails_intros]:
  "fails (throwE e)" "(\<And>a. fails (f a)) \<Longrightarrow> fails (bindE m f)" "fails k \<Longrightarrow> fails (thenE m k)"
  "fails m1 \<Longrightarrow> fails m2 \<Longrightarrow> fails (if b then m1 else m2)"
  "fails m1 \<Longrightarrow> (\<And>x. fails (g x)) \<Longrightarrow> fails (case y of None \<Rightarrow> m1 | Some x \<Rightarrow> g x)"
  by (auto simp: fails_def throwE_def bindE_def thenE_def split: sum.splits prod.splits option.splits)

lemma fails_Inr: "fails m \<Longrightarrow> m w \<noteq> (Inr a, w')"
  unfolding fails_def by (metis Inl_Inr_False prod.inject)

lemma verify_failures [fails_intros]:
  "fails (resolveMissingCodeError target ty p)" "fails (wrongCode s key fs)"
  by (simp_all add: resolveMissingCodeError_def wrongCode_def Let_def fails_intros)

text \<open>Loading the fields of a key.\<close>

definition fields_at :: "user_db world \<Rightarrow> string \<Rightarrow> (string \<times> hval) list option" where
  "fields_at w key = (case stored (clock w (tick w)) key (vcache (db w)) of
       None \<Rightarrow> Some [] | Some (CHash h, _) \<Rightarrow> Some h | Some (CNum _, _) \<Rightarrow> None)"

lemma bump_db_same [simp]: "(bump w)\<lparr>db := db w\<rparr> = bump w" "(bump (bump w))\<lparr>db := db w\<rparr> = bump (bump w)"
  by (simp_all add: bump_def)

lemma loadFields_run:
  "loadFields key w = (case fault w (Suc (tick w)) of
       Some _ \<Rightarrow> (Inl (NewBusiness CodeInternalError ''failed to load verification code''), bump (bump w))
     | None \<Rightarrow> (case fields_at w key of
           None \<Rightarrow> (Inl (NewBusiness CodeInternalError ''failed to load verification code''), bump (bump w))
         | Some fs \<Rightarrow> (Inr fs, bump (bump w))))"
  by (auto simp: loadFields_def fields_at_def cacheE_def catchE_def bindE_def thenE_def now_def exec_def infra_def throwE_def
      cache_HGetAll_def wrong_type_def split: option.split cval.split)

text \<open>The outcome of a verification whose fields were loaded.\<close>

lemma VerifyCode_run:
  assumes "validateAndNormalizeTarget s (vr_Target req) (vr_TargetType req) = Inr target"
    and "VerificationPurpose_IsValid (vr_Purpose req)" "vm_cache s"
  shows "VerifyCode s req w = (case loadFields (codeCacheKey s (vr_Purpose req) target) w of
      (Inl e, w1) \<Rightarrow> (Inl e, w1)
    | (Inr fs, w1) \<Rightarrow>
        (if fs = [] then
          (if shouldAllowDevBypass s (vr_Code req)
           then (Inr \<lparr>vs_Valid = True, vs_CodeID = ''dev-bypass'', vs_Message = ''verification successful''\<rparr>, w1)
           else resolveMissingCodeError target (vr_TargetType req) (vr_Purpose req) w1)
         else checkStored s req target (codeCacheKey s (vr_Purpose req) target) fs w1))"
  using assms by (simp add: VerifyCode_def validatePurpose_def bindE_def thenE_def liftE_def guardE_def returnE_def Let_def
      split: sum.split prod.split)

lemma VerifyCode_Inr:
  assumes "VerifyCode s req w = (Inr r, w')"
  shows "\<exists>target fs. validateAndNormalizeTarget s (vr_Target req) (vr_TargetType req) = Inr target \<and>
    VerificationPurpose_IsValid (vr_Purpose req) \<and> vm_cache s \<and>
    fields_at w (codeCacheKey s (vr_Purpose req) target) = Some fs \<and>
    (if fs = [] then shouldAllowDevBypass s (vr_Code req)
     else checkStored s req target (codeCacheKey s (vr_Purpose req) target) fs (bump (bump w)) = (Inr r, w'))"
proof -
  obtain target where pre: "validateAndNormalizeTarget s (vr_Target req) (vr_TargetType req) = Inr target"
      "VerificationPurpose_IsValid (vr_Purpose req)" "vm_cache s"
    using assms by (auto simp: VerifyCode_def validatePurpose_def bindE_def thenE_def liftE_def guardE_def throwE_def returnE_def
        split: sum.splits if_splits)
  then show ?thesis
    using assms unfolding VerifyCode_run[OF pre] loadFields_run
    by (auto split: option.splits if_splits dest: fails_Inr[OF verify_failures(1), THEN notE])
qed

lemma checkStored_run:
  assumes "field fs ''target_type'' = VerificationTargetType_String (vr_TargetType req)" "expiry_field fs = Some x"
  shows "checkStored s req target key fs w =
    (if clock w (tick w) > x then
       thenE (ignoreE (delE key)) (
       thenE (ignoreE (codeRepo_UpdateStatus (field fs ''code_id'') CodeStatusExpired)) (
       throwE (NewBusiness CodeVerifyCodeExpired ''verification code has expired''))) (bump w)
     else if hashCode s (vr_Purpose req) target (vr_Code req) \<noteq> field fs ''code_hash'' then wrongCode s key fs (bump w)
     else
       thenE (catchE (codeRepo_UpdateVerifiedAt (field fs ''code_id'') (clock w (Suc (tick w))))
         (\<lambda>_. throwE (NewBusiness CodeInternalError ''failed to mark verification code as used''))) (
       thenE (ignoreE (delE key)) (
       returnE \<lparr>vs_Valid = True, vs_CodeID = field fs ''code_id'', vs_Message = ''verification successful''\<rparr>)) (bump (bump w)))"
proof -
  have "thenE (guardE True e) m = m" for e and m :: "(user_db, VerifyCodeResponse) M"
    by (rule ext) (simp add: thenE_def bindE_def guardE_def returnE_def)
  moreover have "bindE now f v = f (clock v (tick v)) (bump v)" for f :: "int \<Rightarrow> (user_db, VerifyCodeResponse) M" and v
    by (simp add: bindE_def now_def)
  ultimately show ?thesis using assms by (simp add: checkStored_def Let_def)
qed

lemma vcache_updateCode [simp]: "vcache (updateCode i f d) = vcache d"
  by (simp add: updateCode_def)

lemma checkStored_Inr:
  assumes "checkStored s req target key fs w = (Inr r, w')"
  shows "field fs ''target_type'' = VerificationTargetType_String (vr_TargetType req)"
    and "field fs ''code_hash'' = hashCode s (vr_Purpose req) target (vr_Code req)"
    and "\<exists>x. expiry_field fs = Some x \<and> clock w (tick w) \<le> x"
    and "vs_CodeID r = field fs ''code_id'' \<and> verified_in (vs_CodeID r) (db w')"
    and "healthy w \<Longrightarrow> stored t key (vcache (db w')) = None"
    and "vcache (db w') \<in> {vcache (db w), cache_Del key (vcache (db w))}"
proof -
  show tt: "field fs ''target_type'' = VerificationTargetType_String (vr_TargetType req)"
    using assms by (auto simp: checkStored_def Let_def thenE_def bindE_def guardE_def throwE_def split: if_splits)
  obtain x where x: "expiry_field fs = Some x"
    using assms by (cases "expiry_field fs") (auto simp: checkStored_def Let_def thenE_def bindE_def guardE_def throwE_def returnE_def split: if_splits)
  note run = assms[unfolded checkStored_run[OF tt x]]
  have le: "clock w (tick w) \<le> x" and hash: "hashCode s (vr_Purpose req) target (vr_Code req) = field fs ''code_hash''"
    using run fails_Inr[OF verify_failures(2)] fails_Inr[OF fails_rules(3)[OF fails_rules(3)[OF fails_rules(1)]]]
    by (force split: if_splits)+
  show "field fs ''code_hash'' = hashCode s (vr_Purpose req) target (vr_Code req)" using hash by simp
  show "\<exists>x. expiry_field fs = Some x \<and> clock w (tick w) \<le> x" using x le by blast
  let ?m = "thenE (catchE (codeRepo_UpdateVerifiedAt (field fs ''code_id'') (clock w (Suc (tick w))))
         (\<lambda>_. throwE (NewBusiness CodeInternalError ''failed to mark verification code as used''))) (
       thenE (ignoreE (delE key)) (
       returnE \<lparr>vs_Valid = True, vs_CodeID = field fs ''code_id'', vs_Message = ''verification successful''\<rparr>))"
  have m: "?m (bump (bump w)) = (Inr r, w')" using run le hash by simp
  have "wp ?m (\<lambda>r w'. vs_CodeID r = field fs ''code_id'' \<and> verified_in (vs_CodeID r) (db w') \<and>
      (healthy w \<longrightarrow> stored t key (vcache (db w')) = None) \<and>
      vcache (db w') \<in> {vcache (db w), cache_Del key (vcache (db w))}) (\<lambda>_ _. True) (bump (bump w))"
    by (simp add: codeRepo_UpdateVerifiedAt_def wp_simps wp_ignore_delE stored_Del healthy_def split: option.split)
  from wp_result[OF m this] show "vs_CodeID r = field fs ''code_id'' \<and> verified_in (vs_CodeID r) (db w')"
    and "healthy w \<Longrightarrow> stored t key (vcache (db w')) = None"
    and "vcache (db w') \<in> {vcache (db w), cache_Del key (vcache (db w))}" by auto
qed

text \<open>In production a code is accepted only if it is the code stored for that target and purpose: the
  hash of what was presented equals the stored hash, the kind of target is the one it was sent to, and
  it has not expired; and then its record is marked as used.  This holds under every schedule of faults.\<close>

theorem VerifyCode_sound:
  assumes "vm_IsProd s" "VerifyCode s req w = (Inr r, w')"
  shows "\<exists>target fs x. validateAndNormalizeTarget s (vr_Target req) (vr_TargetType req) = Inr target \<and>
    fields_at w (codeCacheKey s (vr_Purpose req) target) = Some fs \<and>
    field fs ''code_hash'' = hashCode s (vr_Purpose req) target (vr_Code req) \<and>
    field fs ''target_type'' = VerificationTargetType_String (vr_TargetType req) \<and>
    expiry_field fs = Some x \<and> clock w (tick w + 2) \<le> x \<and>
    vs_CodeID r = field fs ''code_id'' \<and> verified_in (vs_CodeID r) (db w')"
proof -
  obtain target fs where target: "validateAndNormalizeTarget s (vr_Target req) (vr_TargetType req) = Inr target"
    and fs: "fields_at w (codeCacheKey s (vr_Purpose req) target) = Some fs"
    and run: "if fs = [] then shouldAllowDevBypass s (vr_Code req)
      else checkStored s req target (codeCacheKey s (vr_Purpose req) target) fs (bump (bump w)) = (Inr r, w')"
    using VerifyCode_Inr[OF assms(2)] by blast
  have "fs \<noteq> []" using run assms(1) by (auto simp: shouldAllowDevBypass_def isReleaseMode_def)
  then have "checkStored s req target (codeCacheKey s (vr_Purpose req) target) fs (bump (bump w)) = (Inr r, w')" using run by simp
  from checkStored_Inr(1-4)[OF this] target fs show ?thesis by auto
qed

text \<open>A code is good for one use: after a successful verification in production no code at all is
  accepted for that target and purpose until a new one is sent.\<close>

theorem VerifyCode_once:
  assumes "vm_IsProd s" "healthy w" "VerifyCode s req w = (Inr r, w')"
    and "vr_Target req' = vr_Target req" "vr_TargetType req' = vr_TargetType req" "vr_Purpose req' = vr_Purpose req"
    and "vcache (db v) = vcache (db w')"
  shows "\<exists>e v'. VerifyCode s req' v = (Inl e, v')"
proof -
  obtain target fs where target: "validateAndNormalizeTarget s (vr_Target req) (vr_TargetType req) = Inr target"
    and run: "if fs = [] then shouldAllowDevBypass s (vr_Code req)
      else checkStored s req target (codeCacheKey s (vr_Purpose req) target) fs (bump (bump w)) = (Inr r, w')"
    using VerifyCode_Inr[OF assms(3)] by blast
  have "fs \<noteq> []" using run assms(1) by (auto simp: shouldAllowDevBypass_def isReleaseMode_def)
  then have gone: "stored t (codeCacheKey s (vr_Purpose req) target) (vcache (db v)) = None" for t
    using run checkStored_Inr(5)[of s req target _ fs "bump (bump w)" r w'] assms(2,7) by simp
  have "VerifyCode s req' v \<noteq> (Inr a, v')" for a v'
  proof
    assume "VerifyCode s req' v = (Inr a, v')"
    from VerifyCode_Inr[OF this] gone target assms(1,4-6) show False
      by (auto simp: fields_at_def shouldAllowDevBypass_def isReleaseMode_def)
  qed
  then show ?thesis by (metis surj_pair sum.exhaust)
qed

subsection \<open>Guessing a code\<close>

text \<open>The key of a code holds \<open>n\<close> counted attempts of \<open>m\<close>; or no code can be accepted under it any more.\<close>

definition counted :: "verificationManagerImpl \<Rightarrow> string \<Rightarrow> int \<Rightarrow> string \<Rightarrow> string \<Rightarrow> int \<Rightarrow> user_db \<Rightarrow> bool" where
  "counted s ty m key hash n d = (\<exists>fs e. map_of (vcache d) key = Some (CHash fs, e) \<and>
     map_of fs ''attempts'' = Some (HText (itoa n)) \<and> max_attempts_of s fs = m \<and>
     field fs ''target_type'' = ty \<and> field fs ''code_hash'' = hash \<and> expiry_field fs \<noteq> None)"

definition dead :: "string \<Rightarrow> user_db world \<Rightarrow> bool" where
  "dead key w = (\<forall>t \<ge> clock w (tick w). case stored t key (vcache (db w)) of
       None \<Rightarrow> True | Some (CHash fs, _) \<Rightarrow> field fs ''target_type'' = '''' | Some (CNum _, _) \<Rightarrow> False)"

definition forward :: "user_db world \<Rightarrow> bool" where
  "forward w = (healthy w \<and> mono (clock w))"

lemma field_update_attempts [simp]:
  "name \<noteq> ''attempts'' \<Longrightarrow> field (AList.update ''attempts'' v fs) name = field fs name"
  "expiry_field (AList.update ''attempts'' v fs) = expiry_field fs"
  "max_attempts_of s (AList.update ''attempts'' v fs) = max_attempts_of s fs"
  "map_of (AList.update ''attempts'' v fs) ''attempts'' = Some v"
  by (simp_all add: field_def expiry_field_def max_attempts_of_def update_conv')

lemma not_live_later: "mono c \<Longrightarrow> \<not> live_at (c i) e \<Longrightarrow> i \<le> j \<Longrightarrow> c j \<le> t \<Longrightarrow> \<not> live_at t e"
  using monoD[of c i j] by (auto simp: live_at_def split: option.splits)

lemma run_ignore_modify:
  "healthy w \<Longrightarrow> ignoreE (modify f) w = (Inr (), (bump w)\<lparr>db := f (db w)\<rparr>)"
  "healthy w \<Longrightarrow> ignoreE (bindE now (\<lambda>t. modify (g t))) w = (Inr (), (bump (bump w))\<lparr>db := g (clock w (tick w)) (db w)\<rparr>)"
  by (simp_all add: ignoreE_def catchE_def thenE_def bindE_def run_now run_modify returnE_def)

text \<open>A wrong code: the attempts are counted, or the key is deleted, or it had expired meanwhile.\<close>

lemma wrongCode_counts:
  assumes "forward w" "map_of (vcache (db w)) key = Some (CHash fs, e)" "map_of fs ''attempts'' = Some (HText (itoa n))"
    and "max_attempts_of s fs = m" "0 \<le> n" "n < m" "m \<le> 9223372036854775807"
    and "field fs ''target_type'' = ty" "field fs ''code_hash'' = hash" "expiry_field fs \<noteq> None"
  shows "case wrongCode s key fs w of (r, w') \<Rightarrow> forward w' \<and>
    (dead key w' \<or> (n + 1 < m \<and> counted s ty m key hash (n + 1) (db w')))"
proof -
  have h: "healthy w" and mono: "mono (clock w)" using assms(1) by (simp_all add: forward_def)
  have parse: "ParseInt (itoa n) = (n, True)" using assms(5-7) by (intro ParseInt_itoa) auto
  show ?thesis
  proof (cases "live_at (clock w (tick w)) e")
    case True
    let ?c = "put key (CHash (AList.update ''attempts'' (HText (itoa (n + 1))) fs)) e (vcache (db w))"
    have incr: "cache_HIncrBy (clock w (tick w)) key ''attempts'' 1 (vcache (db w)) = Inr (n + 1, ?c)"
      using True assms(2,3) parse by (simp add: cache_HIncrBy_def stored_def)
    show ?thesis
    proof (cases "n + 1 \<ge> m")
      case lock: True
      then show ?thesis using h mono incr assms(4)
        by (simp add: wrongCode_def Let_def bindE_def thenE_def catchE_def run_cacheE codeRepo_IncrementAttempts_def
            codeRepo_UpdateStatus_def run_ignore_modify run_delE throwE_def forward_def dead_def stored_Del)
    next
      case False
      have "map_of ?c key = Some (CHash (AList.update ''attempts'' (HText (itoa (n + 1))) fs), e)" by (simp add: put_def)
      then show ?thesis using h mono incr assms(4,8-10) False
        by (simp add: wrongCode_def Let_def bindE_def thenE_def catchE_def run_cacheE codeRepo_IncrementAttempts_def
            run_ignore_modify throwE_def forward_def counted_def)
    qed
  next
    case False
    let ?c = "put key (CHash [(''attempts'', HText (itoa 1))]) None (vcache (db w))"
    have incr: "cache_HIncrBy (clock w (tick w)) key ''attempts'' 1 (vcache (db w)) = Inr (1, ?c)"
      using False assms(2) by (simp add: cache_HIncrBy_def stored_def)
    show ?thesis
    proof (cases "1 \<ge> m")
      case True
      then show ?thesis using h mono incr assms(4)
        by (simp add: wrongCode_def Let_def bindE_def thenE_def catchE_def run_cacheE codeRepo_IncrementAttempts_def
            codeRepo_UpdateStatus_def run_ignore_modify run_delE throwE_def forward_def dead_def stored_Del)
    next
      case False
      have "stored t key ?c = Some (CHash [(''attempts'', HText (itoa 1))], None)" for t by (simp add: stored_put live_at_def)
      then show ?thesis using h mono incr assms(4) False
        by (simp add: wrongCode_def Let_def bindE_def thenE_def catchE_def run_cacheE codeRepo_IncrementAttempts_def
            run_ignore_modify throwE_def forward_def dead_def field_def)
    qed
  qed
qed

text \<open>The requests about one target and purpose.\<close>

definition about :: "verificationManagerImpl \<Rightarrow> string \<Rightarrow> string \<Rightarrow> VerifyCodeRequest \<Rightarrow> bool" where
  "about s target key req = (validateAndNormalizeTarget s (vr_Target req) (vr_TargetType req) = Inr target \<and>
     VerificationPurpose_IsValid (vr_Purpose req) \<and> vm_cache s \<and> vm_IsProd s \<and> codeCacheKey s (vr_Purpose req) target = key)"

lemma target_type_named: "VerificationTargetType_String ty \<noteq> ''''"
  by (simp add: VerificationTargetType_String_def name_of_def targetTypeValueToString_def split: option.splits)

lemma steady_missing [steady_intros]: "steady (resolveMissingCodeError target ty p)"
  by (simp add: resolveMissingCodeError_def codeRepo_GetLatestByTarget_def steady_intros)

lemma keeps_missing: "keeps I (resolveMissingCodeError target ty p)"
  by (simp add: resolveMissingCodeError_def codeRepo_GetLatestByTarget_def keeps_intros)

lemma dead_later: "dead key w \<Longrightarrow> mono (clock w) \<Longrightarrow> clock w' = clock w \<Longrightarrow> tick w \<le> tick w' \<Longrightarrow> vcache (db w') = vcache (db w) \<Longrightarrow> dead key w'"
  using monoD[of "clock w" "tick w" "tick w'"] order_trans unfolding dead_def by fastforce

lemma missing_run:
  assumes "forward w" "resolveMissingCodeError target ty p w = (r, w')"
  shows "db w' = db w" "clock w' = clock w" "tick w \<le> tick w'" "forward w'"
proof -
  show "db w' = db w" using keeps_missing[of "\<lambda>d. d = db w"] assms(2) unfolding keeps_def by (metis snd_conv)
  have st: "fault w' = fault w \<and> clock w' = clock w \<and> tick w \<le> tick w'"
    using steady_missing assms(2) unfolding steady_def by (metis snd_conv)
  then show "clock w' = clock w" "tick w \<le> tick w'" by simp_all
  show "forward w'" using st assms(1) by (simp add: forward_def healthy_def)
qed

lemma dead_refuses:
  assumes "forward w" "dead key w" "about s target key req"
  shows "\<exists>e w'. VerifyCode s req w = (Inl e, w') \<and> forward w' \<and> dead key w'"
proof -
  have h: "healthy w" and mono: "mono (clock w)" using assms(1) by (simp_all add: forward_def)
  let ?w = "bump (bump w)"
  have fw: "forward ?w" "dead key ?w" using assms(1) dead_later[OF assms(2) mono, of ?w] by (simp_all add: forward_def)
  obtain fs where fs: "fields_at w key = Some fs" "fs = [] \<or> field fs ''target_type'' = ''''"
    using assms(2) order_refl[of "clock w (tick w)"] unfolding dead_def fields_at_def by (fastforce split: option.splits cval.splits)
  have run: "VerifyCode s req w = (if fs = [] then resolveMissingCodeError target (vr_TargetType req) (vr_Purpose req) ?w
      else checkStored s req target key fs ?w)"
    using VerifyCode_run[of s req target w] assms(3) fs(1) h
    by (simp add: about_def loadFields_run healthy_def shouldAllowDevBypass_def isReleaseMode_def)
  show ?thesis
  proof (cases "fs = []")
    case True
    obtain e w' where r: "(resolveMissingCodeError target (vr_TargetType req) (vr_Purpose req) :: (user_db, VerifyCodeResponse) M) ?w = (Inl e, w')"
      using verify_failures(1) unfolding fails_def by blast
    have "forward w' \<and> dead key w'"
      using missing_run[OF fw(1) r] dead_later[OF fw(2), of w'] fw(1) by (simp add: forward_def)
    then show ?thesis using run r True by simp
  next
    case False
    then have "checkStored s req target key fs ?w =
        (Inl (NewBusiness CodeVerifyCodeNotFound ''verification code not found for this target''), ?w)"
      using fs(2) target_type_named[of "vr_TargetType req"]
      by (simp add: checkStored_def Let_def thenE_def bindE_def guardE_def throwE_def)
    then show ?thesis using run False fw by simp
  qed
qed

text \<open>One wrong guess.\<close>

lemma guess_counts:
  assumes "forward w" "counted s (VerificationTargetType_String (vr_TargetType req)) m key hash n (db w)" "about s target key req"
    and "hashCode s (vr_Purpose req) target (vr_Code req) \<noteq> hash" "0 \<le> n" "n < m" "m \<le> 9223372036854775807"
  shows "\<exists>e w'. VerifyCode s req w = (Inl e, w') \<and> forward w' \<and>
    (dead key w' \<or> (n + 1 < m \<and> counted s (VerificationTargetType_String (vr_TargetType req)) m key hash (n + 1) (db w')))"
proof -
  have h: "healthy w" and mono: "mono (clock w)" using assms(1) by (simp_all add: forward_def)
  let ?w = "bump (bump w)"
  have fw: "forward ?w" "forward (bump ?w)" using assms(1) by (simp_all add: forward_def)
  obtain fs e x where fs: "map_of (vcache (db w)) key = Some (CHash fs, e)" "map_of fs ''attempts'' = Some (HText (itoa n))"
      "max_attempts_of s fs = m" "field fs ''target_type'' = VerificationTargetType_String (vr_TargetType req)"
      "field fs ''code_hash'' = hash" "expiry_field fs = Some x"
    using assms(2) unfolding counted_def by auto
  have ne: "fs \<noteq> []" using fs(2) by auto
  show ?thesis
  proof (cases "live_at (clock w (tick w)) e")
    case False
    have "dead key w" using False mono not_live_later[of "clock w" "tick w" e "tick w"] fs(1)
      by (auto simp: dead_def stored_def)
    from dead_refuses[OF assms(1) this assms(3)] show ?thesis by blast
  next
    case True
    have run: "VerifyCode s req w = checkStored s req target key fs ?w"
      using VerifyCode_run[of s req target w] assms(3) fs(1) True h ne
      by (simp add: about_def loadFields_run fields_at_def stored_def healthy_def)
    show ?thesis
    proof (cases "clock ?w (tick ?w) > x")
      case True
      then show ?thesis using run fw h mono checkStored_run[OF fs(4,6), of s target key ?w]
        by (simp add: thenE_def bindE_def run_delE codeRepo_UpdateStatus_def run_ignore_modify throwE_def forward_def dead_def stored_Del)
    next
      case False
      then have "VerifyCode s req w = wrongCode s key fs (bump ?w)"
        using run checkStored_run[OF fs(4,6), of s target key ?w] assms(4) fs(5) by simp
      moreover obtain e' w' where "wrongCode s key fs (bump ?w) = (Inl e', w')"
        using verify_failures(2) unfolding fails_def by blast
      ultimately show ?thesis
        using wrongCode_counts[OF fw(2), of key fs e n s m] fs assms(5-7) by auto
    qed
  qed
qed

text \<open>A sequence of requests, whatever their outcomes.\<close>

definition attempts :: "verificationManagerImpl \<Rightarrow> VerifyCodeRequest list \<Rightarrow> user_db world \<Rightarrow> user_db world" where
  "attempts s reqs w = fold (\<lambda>req w. snd (VerifyCode s req w)) reqs w"

lemma attempts_exhaust:
  assumes "forward w" "dead key w \<or> (n < m \<and> counted s (VerificationTargetType_String ty) m key hash n (db w))"
    and "\<forall>req \<in> set reqs. about s target key req \<and> vr_TargetType req = ty \<and> hashCode s (vr_Purpose req) target (vr_Code req) \<noteq> hash"
    and "0 \<le> n" "m \<le> 9223372036854775807" "m - n \<le> int (length reqs)"
  shows "forward (attempts s reqs w) \<and> dead key (attempts s reqs w)"
  using assms
proof (induction reqs arbitrary: w n)
  case Nil then show ?case by (simp add: attempts_def)
next
  case (Cons req reqs)
  have step: "attempts s (req # reqs) w = attempts s reqs (snd (VerifyCode s req w))" by (simp add: attempts_def)
  have req: "about s target key req" "vr_TargetType req = ty" "hashCode s (vr_Purpose req) target (vr_Code req) \<noteq> hash"
    using Cons.prems(3) by simp_all
  have rest: "\<forall>req \<in> set reqs. about s target key req \<and> vr_TargetType req = ty \<and> hashCode s (vr_Purpose req) target (vr_Code req) \<noteq> hash"
    using Cons.prems(3) by simp
  show ?case
  proof (cases "dead key w")
    case True
    then have "forward (snd (VerifyCode s req w)) \<and> dead key (snd (VerifyCode s req w))"
      using dead_refuses[OF Cons.prems(1) True req(1)] by auto
    then show ?thesis unfolding step using Cons.IH[of "snd (VerifyCode s req w)" "n + 1"] rest Cons.prems(4-6) by simp
  next
    case False
    then obtain e w' where "VerifyCode s req w = (Inl e, w')" "forward w'"
        "dead key w' \<or> (n + 1 < m \<and> counted s (VerificationTargetType_String ty) m key hash (n + 1) (db w'))"
      using guess_counts[OF Cons.prems(1), of s req m key hash n target] Cons.prems(2,4,5) req by auto
    then show ?thesis unfolding step using Cons.IH[of w' "n + 1"] rest Cons.prems(4-6) by simp
  qed
qed


subsection \<open>The code that was sent\<close>

definition vacant :: "string \<Rightarrow> int \<Rightarrow> user_db \<Rightarrow> bool" where
  "vacant key t0 d = (\<forall>t \<ge> t0. stored t key (vcache d) = None)"

lemma keeps_vacant_cacheE:
  assumes "\<And>t c a c'. f t c = Inr (a, c') \<Longrightarrow> \<forall>t. stored t key c' = None \<or> stored t key c' = stored t key c"
  shows "keeps (vacant key t0) (cacheE f)"
proof -
  have "vacant key t0 (d\<lparr>vcache := c'\<rparr>)" if "vacant key t0 d" "f t (vcache d) = Inr (a, c')" for d t a c'
    using that(1) assms[OF that(2)] unfolding vacant_def by fastforce
  then show ?thesis
    unfolding cacheE_def by (intro keeps_bind keeps_now keeps_exec) (auto split: sum.splits)
qed

lemma keeps_vacant_delE: "keeps (vacant key t0) (delE k)"
  unfolding delE_def by (rule keeps_vacant_cacheE) (auto simp: stored_Del)

lemma keeps_vacant_limit:
  assumes "k \<noteq> key"
  shows "keeps (vacant key t0) (incrementAndCheck k ttl limit code)"
proof -
  have "keeps (vacant key t0) (cacheE (\<lambda>t c. Inr (cache_SetNX t k 1 ttl c)))" "keeps (vacant key t0) (cacheE (\<lambda>t c. cache_Incr t k c))"
    by (rule keeps_vacant_cacheE, use assms in \<open>auto simp: cache_SetNX_def cache_Incr_def stored_put split: option.splits cval.splits\<close>)+
  then show ?thesis unfolding incrementAndCheck_def Let_def by (intro keeps_intros keeps_vacant_delE)
qed

lemma rate_keys_differ:
  assumes "VerificationPurpose_IsValid p"
  shows "codeCacheKey s p target \<noteq> ''auth:vc:rl:'' @ rest"
proof -
  have "p \<in> {1, 2, 3, 4, 5, 6, 7}" using assms by (auto simp: VerificationPurpose_IsValid_def)
  then show ?thesis
    by (auto simp: codeCacheKey_def VerificationPurpose_String_def name_of_def purposeValueToString_def)
qed

lemma keeps_vacant_limits:
  assumes "VerificationPurpose_IsValid p"
  shows "keeps (vacant (codeCacheKey s p target) t0) (applyRateLimits s' target' p' dev ip)"
proof -
  have ne: "''auth:vc:rl:'' @ rest \<noteq> codeCacheKey s p target" for rest using rate_keys_differ[OF assms] by metis
  have lim: "keeps (vacant (codeCacheKey s p target) t0) (incrementAndCheck (''auth:vc:rl:'' @ rest) ttl limit code)" for rest ttl limit code
    by (rule keeps_vacant_limit[OF ne])
  have keys: "targetMinuteKey s' target' p' = ''auth:vc:rl:'' @ (''target:'' @ VerificationPurpose_String p' @ '':'' @ targetHash s' target' @ '':1m'')"
    "targetDayKey s' target' p' = ''auth:vc:rl:'' @ (''target:'' @ VerificationPurpose_String p' @ '':'' @ targetHash s' target' @ '':24h'')"
    "''auth:vc:rl:ip:'' @ ip @ '':1h'' = ''auth:vc:rl:'' @ (''ip:'' @ ip @ '':1h'')"
    "''auth:vc:rl:device:'' @ dev @ '':24h'' = ''auth:vc:rl:'' @ (''device:'' @ dev @ '':24h'')"
    by (simp_all add: targetMinuteKey_def targetDayKey_def)
  show ?thesis
    unfolding applyRateLimits_def keys limitOr_def rollbackRateLimits_def Let_def
    by (intro keeps_intros keeps_vacant_delE lim)
qed

text \<open>What is on record after a code was sent.\<close>

definition on_record :: "verificationManagerImpl \<Rightarrow> SendCodeRequest \<Rightarrow> string \<Rightarrow> string \<Rightarrow> string \<Rightarrow> int \<Rightarrow> user_db \<Rightarrow> bool" where
  "on_record s req target code codeID x d =
     (\<exists>e \<ge> x. map_of (vcache d) (codeCacheKey s (sc_Purpose req) target) =
        Some (CHash (code_fields s req codeID (hashCode s (sc_Purpose req) target code) x), Some e))"

definition told :: "verificationManagerImpl \<Rightarrow> SendCodeRequest \<Rightarrow> string \<Rightarrow> string \<Rightarrow> event list \<Rightarrow> bool" where
  "told s req target code evs =
     (sc_TargetType req = TargetTypeSMS \<and> vm_smsSender s \<noteq> None \<longrightarrow> (\<exists>tid. Called ''sms'' [target, tid, code] \<in> set evs))"

lemma set_code_fields: "set_fields (code_fields s req i h x) [] = code_fields s req i h x"
  by (simp add: code_fields_def)

lemma keeps_dispatchCode: "keeps I (dispatchCode s target ty p code)"
  unfolding dispatchCode_def Let_def sendE_def templateRepo_GetByPurpose_def by (intro keeps_intros)

lemma wp_skip: "(\<And>a v. wp (k a) Q (\<lambda>_ _. True) v) \<Longrightarrow> wp (bindE m k) Q (\<lambda>_ _. True) w"
  by (simp add: wp_bind) (simp add: wp_def split: sum.split prod.split)

lemma dispatchCode_told:
  assumes "dispatchCode s target (sc_TargetType req) p code w = (Inr (), w')"
  shows "db w' = db w \<and> told s req target code (outbox w')"
proof
  show "db w' = db w" using keeps_dispatchCode[of "\<lambda>d. d = db w"] assms unfolding keeps_def by (metis snd_conv)
  show "told s req target code (outbox w')"
  proof (cases "sc_TargetType req = TargetTypeSMS \<and> vm_smsSender s \<noteq> None")
    case False then show ?thesis by (auto simp: told_def)
  next
    case True
    then obtain send where sms: "sc_TargetType req = TargetTypeSMS" "vm_smsSender s = Some send" by auto
    have "wp (catchE (sendE ''sms'' send target tid code) (\<lambda>_. throwE e)) (\<lambda>_ w'. told s req target code (outbox w')) (\<lambda>_ _. True) v" for tid e v
      by (auto simp: sendE_def wp_simps told_def split: sum.split err.split)
    then have "wp (dispatchCode s target (sc_TargetType req) p code) (\<lambda>_ w'. told s req target code (outbox w')) (\<lambda>_ _. True) w"
      unfolding dispatchCode_def Let_def by (intro wp_skip) (simp add: sms)
    from wp_result[OF assms this] show ?thesis by simp
  qed
qed

lemma wp_catch_fails:
  assumes "\<And>e. fails (h e)" "wp m Q (\<lambda>_ _. True) w"
  shows "wp (catchE m h) Q (\<lambda>_ _. True) w"
proof -
  have "wp (h e) Q (\<lambda>_ _. True) v" for e v
    using assms(1)[of e] by (auto simp: wp_def fails_def split: sum.splits prod.splits) (metis Inl_Inr_False prod.inject)
  then show ?thesis by (simp add: wp_catch) (rule wp_mono[OF assms(2)], auto split: err.splits)
qed

lemma storeAndDispatch_Inr:
  assumes "healthy w" "mono (clock w)" "vacant (codeCacheKey s (sc_Purpose req) target) (clock w (tick w)) (db w)"
    and "x \<le> clock w (tick w) + ttl_of s" "0 < ttl_of s"
  shows "wp (storeAndDispatch s req target ip keys code codeID x)
    (\<lambda>r w'. sr_CodeID r = codeID \<and> on_record s req target code codeID x (db w') \<and> told s req target code (outbox w')) (\<lambda>_ _. True) w"
proof -
  let ?key = "codeCacheKey s (sc_Purpose req) target"
  let ?h = "hashCode s (sc_Purpose req) target code"
  let ?F = "code_fields s req codeID ?h x"
  let ?c1 = "put ?key (CHash ?F) None (vcache (db w))"
  let ?t1 = "clock w (Suc (Suc (tick w)))"
  let ?c2 = "put ?key (CHash ?F) (Some (?t1 + ttl_of s)) ?c1"
  have "clock w (tick w) \<le> ?t1" using assms(2) by (simp add: monoD)
  then have rec: "on_record s req target code codeID x d" if "vcache d = ?c2" for d
    using that assms(4) by (auto simp: on_record_def put_def intro!: exI[of _ "?t1 + ttl_of s"])
  have create: "wp (codeRepo_Create row) (\<lambda>_ w'. vcache (db w') = vcache (db v)) (\<lambda>_ _. True) v" for row v
    unfolding codeRepo_Create_def
    by (simp only: wp_simps) (auto split: option.split)
  have dispatch: "wp (dispatchCode s target (sc_TargetType req) (sc_Purpose req) code)
      (\<lambda>_ w'. db w' = db v \<and> told s req target code (outbox w')) (\<lambda>_ _. True) v" for v
    using dispatchCode_told[of s target req "sc_Purpose req" code v]
    by (cases "dispatchCode s target (sc_TargetType req) (sc_Purpose req) code v") (simp add: wp_def split: sum.splits)
  have hset: "cache_HSet (clock w (tick w)) ?key ?F (vcache (db w)) = Inr ((), ?c1)"
    using assms(3) by (simp add: cache_HSet_def vacant_def set_code_fields)
  have expire: "cache_Expire ?t1 ?key (ttl_of s) ?c1 = ?c2"
    using assms(5) by (simp add: cache_Expire_def stored_put live_at_def)
  show ?thesis
    unfolding storeAndDispatch_def Let_def wp_then
    apply (rule wp_catch_fails, intro fails_intros)
    apply (simp add: wp_cacheE hset healthy_fault[OF assms(1)])
    apply (rule wp_catch_fails, intro fails_intros)
    apply (simp add: wp_cacheE expire healthy_fault[OF assms(1)])
    apply (rule wp_catch_fails, intro fails_intros)
    apply (rule wp_mono[OF create])
     apply (rule wp_catch_fails, intro fails_intros)
     apply (rule wp_mono[OF dispatch])
      apply (simp_all add: wp_return rec)
    done
qed

lemma steady_send [steady_intros]:
  "steady (incrementAndCheck key ttl limit code)" "steady (rollbackRateLimits keys)" "steady (generateCode s)" "steady (randString rs n)"
  "steady (cancelPreviousCode target ty p)"
proof -
  have "steady (randomChar rs cs)" for rs cs
    by (simp add: steady_def randomChar_def split: option.splits)
  then have r: "steady (randomString rs cs n)" for rs cs n by (simp add: randomString_def steady_intros)
  show "steady (incrementAndCheck key ttl limit code)" "steady (rollbackRateLimits keys)" "steady (generateCode s)"
      "steady (randString rs n)" "steady (cancelPreviousCode target ty p)"
    by (simp_all add: incrementAndCheck_def rollbackRateLimits_def generateCode_def randString_def cancelPreviousCode_def Let_def
        codeRepo_GetLatestByTarget_def codeRepo_UpdateStatus_def steady_intros r)
qed

lemma steady_limits [steady_intros]: "steady (applyRateLimits s target p dev ip)" "steady m \<Longrightarrow> steady (limitOr keys m)"
  by (simp_all add: applyRateLimits_def limitOr_def Let_def steady_intros)

lemma keeps_vacant_send:
  "keeps (vacant key t0) (limitOr keys (cancelPreviousCode target ty p))" "keeps (vacant key t0) (generateCode s)"
  "keeps (vacant key t0) (randString rs n)"
proof -
  have upd: "vacant key t0 (updateCode i f d) = vacant key t0 d" for i f d by (simp add: vacant_def)
  have rc: "keeps I (randomChar rs cs)" for I rs cs by (simp add: keeps_def randomChar_def split: option.splits)
  have "keeps (vacant key t0) (codeRepo_UpdateStatus i st)" for i st
    unfolding codeRepo_UpdateStatus_def by (intro keeps_intros keeps_modify) (simp add: upd)
  then show "keeps (vacant key t0) (limitOr keys (cancelPreviousCode target ty p))"
    unfolding limitOr_def cancelPreviousCode_def rollbackRateLimits_def codeRepo_GetLatestByTarget_def
    by (intro keeps_intros keeps_vacant_delE)
  show "keeps (vacant key t0) (generateCode s)" "keeps (vacant key t0) (randString rs n)"
    unfolding generateCode_def randString_def randomString_def by (intro keeps_intros rc)+
qed

text \<open>A step that keeps the clock, the fault schedule and the vacancy of a key is skipped.\<close>

lemma wp_prefix:
  assumes "steady m" "keeps I m" "I (db w)" "\<And>a v. fault v = fault w \<Longrightarrow> clock v = clock w \<Longrightarrow> tick w \<le> tick v \<Longrightarrow> I (db v) \<Longrightarrow> wp (k a) Q (\<lambda>_ _. True) v"
  shows "wp (bindE m k) Q (\<lambda>_ _. True) w"
proof -
  obtain r v where m: "m w = (r, v)" by (cases "m w")
  then have "fault v = fault w" "clock v = clock w" "tick w \<le> tick v" "I (db v)"
    using assms(1-3) unfolding steady_def keeps_def by (metis snd_conv)+
  then show ?thesis using m assms(4) by (auto simp: wp_bind) (auto simp: wp_def split: sum.splits)
qed

definition since :: "user_db world \<Rightarrow> string \<Rightarrow> user_db world \<Rightarrow> bool" where
  "since w key v = (fault v = fault w \<and> clock v = clock w \<and> tick w \<le> tick v \<and> vacant key (clock w (tick w)) (db v))"

lemma wp_since:
  assumes "since w key v" "steady m" "keeps (vacant key (clock w (tick w))) m"
    and "\<And>a v. since w key v \<Longrightarrow> wp (k a) Q (\<lambda>_ _. True) v"
  shows "wp (bindE m k) Q (\<lambda>_ _. True) v"
  by (rule wp_prefix[OF assms(2,3)]) (use assms(1,4) in \<open>auto simp: since_def\<close>)

lemma SendCode_wp:
  assumes "healthy w" "mono (clock w)" "0 < ttl_of s"
    and "validateAndNormalizeTarget s (sc_Target req) (sc_TargetType req) = Inr target" "VerificationPurpose_IsValid (sc_Purpose req)"
    and "vacant (codeCacheKey s (sc_Purpose req) target) (clock w (tick w)) (db w)"
  shows "wp (SendCode s req ip) (\<lambda>r w'. \<exists>code x. clock w (tick w) + ttl_of s \<le> x \<and> told s req target code (outbox w') \<and>
    on_record s req target code (sr_CodeID r) x (db w')) (\<lambda>_ _. True) w" (is "wp _ ?P _ _")
proof -
  let ?key = "codeCacheKey s (sc_Purpose req) target" and ?t0 = "clock w (tick w)"
  let ?env = "since w ?key"
  have last: "wp (bindE now (\<lambda>t'. storeAndDispatch s req target ip keys code codeID (t' + ttl_of s))) ?P (\<lambda>_ _. True) v"
    if "?env v" for keys code codeID v
  proof -
    have v: "fault v = fault w" "clock v = clock w" "tick w \<le> tick v" "vacant ?key ?t0 (db v)" using that by (simp_all add: since_def)
    have mono: "clock w (tick v) \<le> clock w (Suc (tick v))" "?t0 \<le> clock w (Suc (tick v))" "?t0 \<le> clock w (tick v)" using v(3) assms(2) by (simp_all add: monoD)
    then have "vacant ?key (clock (bump v) (tick (bump v))) (db (bump v))" using v(2,4) by (auto simp: vacant_def)
    from storeAndDispatch_Inr[OF _ _ this, of "clock v (tick v) + ttl_of s" ip keys code codeID] v(1,2) mono assms(1-3)
    have stored: "wp (storeAndDispatch s req target ip keys code codeID (clock v (tick v) + ttl_of s)) (\<lambda>r w'. sr_CodeID r = codeID \<and>
        on_record s req target code codeID (clock v (tick v) + ttl_of s) (db w') \<and> told s req target code (outbox w')) (\<lambda>_ _. True) (bump v)"
      by (simp add: healthy_def)
    have "?t0 + ttl_of s \<le> clock v (tick v) + ttl_of s" using mono(3) v(2) by simp
    then have "wp (storeAndDispatch s req target ip keys code codeID (clock v (tick v) + ttl_of s)) ?P (\<lambda>_ _. True) (bump v)"
      by (intro wp_mono[OF stored]) blast+
    then show ?thesis by (simp add: wp_bind wp_now)
  qed
  have suffix: "wp (bindE (randString (vm_rand s) 8) (\<lambda>suffix. bindE now (\<lambda>t'.
      storeAndDispatch s req target ip keys code (''vc_'' @ itoa t @ ''_'' @ suffix) (t' + ttl_of s)))) ?P (\<lambda>_ _. True) v"
    if "?env v" for keys code t v
    by (rule wp_since[OF that steady_send(4) keeps_vacant_send(3) last])
  have codes: "wp (bindE (generateCode s) (\<lambda>code. bindE now (\<lambda>t. bindE (randString (vm_rand s) 8) (\<lambda>suffix. bindE now (\<lambda>t'.
      storeAndDispatch s req target ip keys code (''vc_'' @ itoa t @ ''_'' @ suffix) (t' + ttl_of s)))))) ?P (\<lambda>_ _. True) v"
    if "?env v" for keys v
    by (rule wp_since[OF that steady_send(3) keeps_vacant_send(2) wp_since[OF _ steady_base(5) keeps_now suffix]])
  have cancel: "wp (bindE (limitOr keys (cancelPreviousCode target (sc_TargetType req) (sc_Purpose req))) (\<lambda>_.
      bindE (generateCode s) (\<lambda>code. bindE now (\<lambda>t. bindE (randString (vm_rand s) 8) (\<lambda>suffix. bindE now (\<lambda>t'.
      storeAndDispatch s req target ip keys code (''vc_'' @ itoa t @ ''_'' @ suffix) (t' + ttl_of s))))))) ?P (\<lambda>_ _. True) v"
    if "?env v" for keys v
    by (rule wp_since[OF that steady_limits(2)[OF steady_send(5)] keeps_vacant_send(1) codes])
  have "?env w" using assms(6) by (simp add: since_def)
  then show ?thesis
    unfolding SendCode_def thenE_def validatePurpose_def wp_bind[of "liftE _"] wp_liftE assms(4) wp_bind[of "guardE _ _"] wp_guard
    using wp_since[OF _ steady_limits(1) keeps_vacant_limits[OF assms(5)] cancel] by (simp only: assms(5) sum.case if_True if_split) simp
qed

lemma VerifyCode_on_record:
  assumes "validateAndNormalizeTarget s (sc_Target req) (sc_TargetType req) = Inr target" "VerificationPurpose_IsValid (sc_Purpose req)"
    and "vm_cache s" "healthy v" "on_record s req target code codeID x (db v)" "\<forall>n. clock v n < unix x * Second"
  shows "fst (VerifyCode s \<lparr>vr_Target = sc_Target req, vr_TargetType = sc_TargetType req, vr_Purpose = sc_Purpose req, vr_Code = code\<rparr> v)
    = Inr \<lparr>vs_Valid = True, vs_CodeID = codeID, vs_Message = ''verification successful''\<rparr>"
proof -
  let ?req = "\<lparr>vr_Target = sc_Target req, vr_TargetType = sc_TargetType req, vr_Purpose = sc_Purpose req, vr_Code = code\<rparr>"
  let ?key = "codeCacheKey s (sc_Purpose req) target"
  let ?F = "code_fields s req codeID (hashCode s (sc_Purpose req) target code) x"
  obtain e where e: "x \<le> e" "map_of (vcache (db v)) ?key = Some (CHash ?F, Some e)" using assms(5) by (auto simp: on_record_def)
  have "unix x * Second \<le> x" by (simp add: unix_def Second_def)
  then have "fields_at v ?key = Some ?F" using e assms(6)[rule_format, of "tick v"] by (simp add: fields_at_def stored_def live_at_def)
  then have "VerifyCode s ?req v = checkStored s ?req target ?key ?F (bump (bump v))"
    using VerifyCode_run[of s ?req target v] assms(1-4) by (simp add: loadFields_run healthy_def code_fields_def)
  moreover have fs: "field ?F ''target_type'' = VerificationTargetType_String (vr_TargetType ?req)" "expiry_field ?F = Some (unix x * Second)"
      "field ?F ''code_hash'' = hashCode s (vr_Purpose ?req) target (vr_Code ?req)" "field ?F ''code_id'' = codeID"
    by (simp_all add: field_def expiry_field_def code_fields_def)
  moreover have "\<not> unix x * Second < clock v n" for n using assms(6) by (simp add: not_less less_imp_le)
  ultimately show ?thesis using assms(4) checkStored_run[OF fs(1,2), of s target ?key "bump (bump v)"]
    by (simp add: thenE_def bindE_def catchE_def codeRepo_UpdateVerifiedAt_def run_now run_modify run_delE returnE_def)
qed


subsection \<open>An example\<close>

text \<open>A manager in production whose hash functions keep their arguments apart.\<close>

definition manager :: verificationManagerImpl where
  "manager = \<lparr>vm_Length = 2, vm_ExpireSeconds = 300, vm_MaxAttempts = 2, vm_HashSecret = ''k'', vm_DebugFixedCode = '''',
     vm_AllowDevBypass = False, vm_TargetPerMinute = 1, vm_TargetPerDay = 10, vm_IPPerHour = 200, vm_DevicePerDay = 100,
     vm_SMSProvider = ''x'', vm_IsProd = True, vm_templateRepo = False, vm_cache = True, vm_smsSender = Some (\<lambda>_ _ _ _. Inr ()),
     vm_emailSender = None, vm_sha256 = (\<lambda>x. x), vm_hmac = (\<lambda>k x. k @ x),
     vm_rand = \<lparr>rs_Read = (\<lambda>_ _. Some []), rs_Int = (\<lambda>n. Some n)\<rparr>,
     vm_phone = \<lparr>ph_Parse = (\<lambda>x _. Some x), ph_IsValidNumber = (\<lambda>_. True), ph_Format = (\<lambda>x. x), ph_NormalizeDigitsOnly = (\<lambda>x. x)\<rparr>\<rparr>"

definition ask :: SendCodeRequest where
  "ask = \<lparr>sc_Target = ''+1'', sc_TargetType = 1, sc_Purpose = 1, sc_DeviceID = ''''\<rparr>"

definition answer :: "string \<Rightarrow> VerifyCodeRequest" where
  "answer code = \<lparr>vr_Target = ''+1'', vr_TargetType = 1, vr_Purpose = 1, vr_Code = code\<rparr>"

definition asked :: "user_db world" where
  "asked = snd (SendCode manager ask '''' (init_world empty_user_db))"

lemma not_isl_pair: "\<not> isl (fst p) \<Longrightarrow> \<exists>r. p = (Inr r, snd p)"
  by (cases p; cases "fst p") auto

lemma answer_fits:
  "vm_IsProd manager" "vm_cache manager" "validateAndNormalizeTarget manager ''+1'' 1 = Inr ''+1''" "VerificationPurpose_IsValid 1"
  by code_simp+

lemma fst_bindE: "fst (m w) = Inr a \<Longrightarrow> fst (bindE m f w) = fst (f a (snd (m w)))"
  by (cases "m w") (simp add: bindE_def)

lemma fst_thenE: "fst (m w) = Inr a \<Longrightarrow> fst (thenE m k w) = fst (k (snd (m w)))"
  by (cases "m w") (simp add: bindE_def thenE_def)

lemma asked_ok: "\<exists>r. SendCode manager ask '''' (init_world empty_user_db) = (Inr r, asked)"
proof -
  let ?keys = "[''auth:vc:rl:target:register:+1:1m'', ''auth:vc:rl:target:register:+1:24h'']"
  let ?w1 = "snd (applyRateLimits manager ''+1'' 1 '''' '''' (init_world empty_user_db))"
  let ?w2 = "snd (limitOr ?keys (cancelPreviousCode ''+1'' 1 1) ?w1)"
  let ?w3 = "snd (now (snd (generateCode manager ?w2)))"
  let ?w4 = "snd (now (snd (randString (vm_rand manager) 8 ?w3)))"
  have start: "liftE (validateAndNormalizeTarget manager ''+1'' 1) w = (Inr ''+1'', w)"
      "validatePurpose 1 w = (Inr (), w)" "guardE (vm_cache manager) e w = (Inr (), w)"
      "sc_Target ask = ''+1''" "sc_TargetType ask = 1" "sc_Purpose ask = 1" "sc_DeviceID ask = ''''" for w :: "user_db world" and e
    using answer_fits by (simp_all add: ask_def liftE_def validatePurpose_def guardE_def returnE_def)
  have "fst (applyRateLimits manager ''+1'' 1 '''' '''' (init_world empty_user_db)) = Inr ?keys"
      "fst (limitOr ?keys (cancelPreviousCode ''+1'' 1 1) ?w1) = Inr ()" "fst (generateCode manager ?w2) = Inr ''56''"
      "fst (now (snd (generateCode manager ?w2))) = Inr 7" "fst (randString (vm_rand manager) 8 ?w3) = Inr ''ijklmnop''"
      "fst (now (snd (randString (vm_rand manager) 8 ?w3))) = Inr 16"
    by code_simp+
  then have "fst (SendCode manager ask '''' (init_world empty_user_db)) =
      fst (storeAndDispatch manager ask ''+1'' '''' ?keys ''56'' (''vc_'' @ itoa 7 @ ''_'' @ ''ijklmnop'') (16 + ttl_of manager) ?w4)"
    unfolding SendCode_def
    by (simp add: fst_bindE fst_thenE start)
  moreover have "\<not> isl (fst (storeAndDispatch manager ask ''+1'' '''' ?keys ''56'' (''vc_'' @ itoa 7 @ ''_'' @ ''ijklmnop'') (16 + ttl_of manager) ?w4))"
    by code_simp
  ultimately show ?thesis unfolding asked_def by (intro not_isl_pair) simp
qed

lemma forward_init: "forward (init_world d)"
  by (simp add: forward_def init_world_def healthy_def mono_def)

text \<open>A world in which a code was issued at second 0 and the clock stands.\<close>

definition issued :: "user_db world" where
  "issued = (init_world (empty_user_db\<lparr>vcache := [(codeCacheKey manager 1 ''+1'',
     CHash (code_fields manager ask ''c'' (hashCode manager 1 ''+1'' ''56'') (300 * Second)), Some (300 * Second))]\<rparr>))\<lparr>clock := \<lambda>_. 0\<rparr>"

lemma issued_forward: "forward issued"
  by (simp add: issued_def forward_def init_world_def healthy_def mono_def)

lemma issued_record: "on_record manager ask ''+1'' ''56'' ''c'' (300 * Second) (db issued)"
  by (simp add: on_record_def issued_def ask_def)

lemma answer_accepted: "\<exists>r. VerifyCode manager (answer ''56'') issued = (Inr r, snd (VerifyCode manager (answer ''56'') issued))"
proof (rule not_isl_pair)
  have "healthy issued" "\<forall>n. clock issued n < unix (300 * Second) * Second"
    by (simp_all add: issued_def init_world_def healthy_def unix_def Second_def)
  then show "\<not> isl (fst (VerifyCode manager (answer ''56'') issued))"
    using VerifyCode_on_record[of manager ask "''+1''" issued "''56''" "''c''" "300 * Second"] issued_record answer_fits
    by (simp add: ask_def answer_def)
qed

theorem VerifyCode_sound_witness:
  "\<exists>fs. fields_at issued (codeCacheKey manager 1 ''+1'') = Some fs \<and> field fs ''code_hash'' = hashCode manager 1 ''+1'' ''56''"
proof -
  obtain r where ok: "VerifyCode manager (answer ''56'') issued = (Inr r, snd (VerifyCode manager (answer ''56'') issued))"
    using answer_accepted by blast
  have "validateAndNormalizeTarget manager (vr_Target (answer ''56'')) (vr_TargetType (answer ''56'')) = Inr ''+1''"
    using answer_fits by (simp add: answer_def)
  then show ?thesis using VerifyCode_sound[OF answer_fits(1) ok] by (auto simp: answer_def)
qed

theorem VerifyCode_once_witness:
  "\<exists>e v'. VerifyCode manager (answer ''56'') (snd (VerifyCode manager (answer ''56'') issued)) = (Inl e, v')"
proof -
  obtain r where ok: "VerifyCode manager (answer ''56'') issued = (Inr r, snd (VerifyCode manager (answer ''56'') issued))"
    using answer_accepted by blast
  then show ?thesis using VerifyCode_once[OF answer_fits(1) _ ok refl refl refl refl] issued_forward by (simp add: forward_def)
qed

lemma issued_counted: "counted manager (VerificationTargetType_String 1) 2 (codeCacheKey manager 1 ''+1'') (hashCode manager 1 ''+1'' ''56'') 0 (db issued)"
proof -
  let ?fs = "code_fields manager ask ''c'' (hashCode manager 1 ''+1'' ''56'') (300 * Second)"
  have "map_of (vcache (db issued)) (codeCacheKey manager 1 ''+1'') = Some (CHash ?fs, Some (300 * Second))" by (simp add: issued_def)
  moreover have "map_of ?fs ''attempts'' = Some (HText (itoa 0))" "max_attempts_of manager ?fs = 2"
      "field ?fs ''target_type'' = VerificationTargetType_String 1" "field ?fs ''code_hash'' = hashCode manager 1 ''+1'' ''56''"
      "expiry_field ?fs \<noteq> None"
    by code_simp+
  ultimately show ?thesis unfolding counted_def by blast
qed



theorem rate_limit_resets_witness:
  "let w = init_world (empty_user_db\<lparr>vcache := [(''k'', CNum 1, Some 100)]\<rparr>) in
   fst (incrementAndCheck ''k'' Minute 1 CodeSendRateLimited (snd (incrementAndCheck ''k'' Minute 1 CodeSendRateLimited w))) = Inr ()"
proof -
  let ?w = "init_world (empty_user_db\<lparr>vcache := [(''k'', CNum 1, Some 100)]\<rparr>)"
  have "\<forall>t. stored t ''k'' (vcache (db ?w)) = (if t < 100 then Some (CNum 1, Some 100) else None)"
    by (simp add: stored_def live_at_def)
  from rate_limit_resets[OF _ this, of 1 Minute CodeSendRateLimited] show ?thesis
    by (auto simp: init_world_def Minute_def Second_def healthy_def split: prod.splits)
qed

end
