(* ===== verification/User_Properties.thy ===== *)
theory User_Properties
  imports User Verification_Codes
begin

text \<open>
  The properties of the user service: well-formed accounts in every reachable state, the reset of a
  password, changes of telephone number and e-mail address, logins and registrations.
\<close>

subsection \<open>Accounts\<close>

lemma uniq_inj: "uniq key rows \<Longrightarrow> x \<in> set rows \<Longrightarrow> y \<in> set rows \<Longrightarrow> key x = key y \<Longrightarrow> x = y"
  by (auto simp: uniq_def distinct_map dest: inj_onD)

lemma ex1_row: "uniq key rows \<Longrightarrow> k \<in> key ` set rows \<Longrightarrow> \<exists>!r. r \<in> set rows \<and> key r = k"
  by (auto dest: uniq_inj)

lemma uniq_some_inj: "uniq_some col rows \<Longrightarrow> x \<in> set rows \<Longrightarrow> y \<in> set rows \<Longrightarrow> col x \<noteq> None \<Longrightarrow> col x = col y \<Longrightarrow> x = y"
  using uniq_inj[of col "filter (\<lambda>r. col r \<noteq> None) rows" x y] by (simp add: uniq_some_def)

text \<open>C19: in every state the user service can reach, with any sequence of operations, any behaviour of the
  JWT, bcrypt and telephone libraries and of the friend service and any schedule of faults, the accounts
  are well-formed: every user has exactly one profile and exactly one settings row and every profile and
  settings row belongs to a user, no telephone number and no e-mail address belongs to two users, and every
  session, device and QR code belongs to a user.\<close>

theorem accounts_well_formed:
  assumes "reachable (user_step s) any_op empty_user_db d"
  shows "(\<forall>u \<in> set (users d). (\<exists>!p. p \<in> set (user_profiles d) \<and> up_UserID p = u_ID u) \<and>
            (\<exists>!x. x \<in> set (user_settings d) \<and> st_UserID x = u_ID u)) \<and>
         (\<forall>u \<in> set (users d). \<forall>v \<in> set (users d). u_ID u = u_ID v \<or> u_Phone u \<noteq> None \<and> u_Phone u = u_Phone v \<or>
            u_Email u \<noteq> None \<and> u_Email u = u_Email v \<longrightarrow> u = v) \<and>
         up_UserID ` set (user_profiles d) \<union> st_UserID ` set (user_settings d) \<union> us_UserID ` set (user_sessions d) \<union>
            ud_UserID ` set (user_devices d) \<union> uq_UserID ` set (user_qrcodes d) \<subseteq> u_ID ` set (users d)"
proof -
  have inv: "user_inv d" by (rule user_service.reachable_inv[OF assms])
  then have "\<exists>!p. p \<in> set (user_profiles d) \<and> up_UserID p = u_ID u" "\<exists>!x. x \<in> set (user_settings d) \<and> st_UserID x = u_ID u"
    if "u \<in> set (users d)" for u
    using that by (intro ex1_row; simp add: inv_defs)+
  moreover have "u = v" if "u \<in> set (users d)" "v \<in> set (users d)"
      "u_ID u = u_ID v \<or> u_Phone u \<noteq> None \<and> u_Phone u = u_Phone v \<or> u_Email u \<noteq> None \<and> u_Email u = u_Email v" for u v
    using that inv uniq_inj[of u_ID "users d" u v] uniq_some_inj[of u_Phone "users d" u v] uniq_some_inj[of u_Email "users d" u v]
    unfolding user_inv_def sound_tables_def by blast
  ultimately show ?thesis using inv by (auto simp: user_inv_def sound_tables_def keyed_def user_ids_def)
qed

subsection \<open>What an accepted code shows\<close>

text \<open>In production: the code presented is the one stored for the target and purpose in the cache.\<close>

definition accepted :: "verificationManagerImpl \<Rightarrow> string \<Rightarrow> int \<Rightarrow> int \<Rightarrow> string \<Rightarrow> cache_store \<Rightarrow> bool" where
  "accepted vm tgt ty p code c = (vm_IsProd vm \<longrightarrow> (\<exists>target fs e. validateAndNormalizeTarget vm tgt ty = Inr target \<and>
     map_of c (codeCacheKey vm p target) = Some (CHash fs, e) \<and> field fs ''code_hash'' = hashCode vm p target code))"

lemma VerifyCode_accepted:
  assumes "VerifyCode vm req w = (Inr r, w')"
  shows "accepted vm (vr_Target req) (vr_TargetType req) (vr_Purpose req) (vr_Code req) (vcache (db w))"
proof (unfold accepted_def, intro impI)
  assume "vm_IsProd vm"
  obtain target fs where t: "validateAndNormalizeTarget vm (vr_Target req) (vr_TargetType req) = Inr target"
    and fs: "fields_at w (codeCacheKey vm (vr_Purpose req) target) = Some fs"
    and run: "if fs = [] then shouldAllowDevBypass vm (vr_Code req)
       else checkStored vm req target (codeCacheKey vm (vr_Purpose req) target) fs (bump (bump w)) = (Inr r, w')"
    using VerifyCode_Inr[OF assms] by blast
  have "fs \<noteq> []" using run \<open>vm_IsProd vm\<close> by (auto simp: shouldAllowDevBypass_def isReleaseMode_def)
  then have "field fs ''code_hash'' = hashCode vm (vr_Purpose req) target (vr_Code req)"
    using run checkStored_Inr(2) by fastforce
  moreover have "\<exists>e. map_of (vcache (db w)) (codeCacheKey vm (vr_Purpose req) target) = Some (CHash fs, e)"
    using fs \<open>fs \<noteq> []\<close> by (auto simp: fields_at_def stored_def split: option.splits cval.splits if_splits)
  ultimately show "\<exists>target fs e. validateAndNormalizeTarget vm (vr_Target req) (vr_TargetType req) = Inr target \<and>
      map_of (vcache (db w)) (codeCacheKey vm (vr_Purpose req) target) = Some (CHash fs, e) \<and>
      field fs ''code_hash'' = hashCode vm (vr_Purpose req) target (vr_Code req)"
    using t by blast
qed

lemma wp_VerifyCode:
  assumes "\<And>e w'. accounts (db w') = accounts (db w) \<Longrightarrow> E e w'"
    and "\<And>r w'. accounts (db w') = accounts (db w) \<Longrightarrow>
      accepted vm (vr_Target req) (vr_TargetType req) (vr_Purpose req) (vr_Code req) (vcache (db w)) \<Longrightarrow> Q r w'"
  shows "wp (VerifyCode vm req) Q E w"
proof -
  obtain r w' where run: "VerifyCode vm req w = (r, w')" by fastforce
  have "accounts (db w') = accounts (db w)"
    using apart_manager(2)[of vm req] run unfolding apart_def keeps_def by (metis snd_conv)
  then show ?thesis using assms VerifyCode_accepted[of vm req w] run by (cases r) (simp_all add: wp_def)
qed

subsection \<open>The reset of a password\<close>

text \<open>When no session of a user is left, forcing the user's devices out changes nothing more.\<close>

lemma keeps_logout_done:
  assumes "\<forall>x \<in> set S. us_UserID x \<noteq> u"
  shows "keeps (\<lambda>d. users d = U \<and> user_sessions d = S) (forceLogoutAllDevices u r)"
proof -
  have "delete_where (\<lambda>x. us_UserID x = u \<and> us_DeviceID x = dv) S = S" for dv
    using assms by (auto simp: delete_where_def intro!: filter_True)
  then show ?thesis
    unfolding forceLogoutAllDevices_def logoutDevice_def sessionRepo_DeleteByUserIDAndDeviceID_def
    by (intro keeps_intros keeps_modify) auto
qed

definition password_reset :: "userServiceImpl \<Rightarrow> string \<Rightarrow> string \<Rightarrow> string \<Rightarrow> user_db \<Rightarrow> user_db \<Rightarrow> bool" where
  "password_reset s account code pw d d' = (\<exists>acc u h n t.
     normalizeAccountForLookup s account = Inr acc \<and> first_user (\<lambda>u. u_Phone u = Some acc \<or> u_Email u = Some acc) d = Some u \<and>
     accepted (sv_verifyManager s) acc (if isEmail acc then TargetTypeEmail else TargetTypeSMS) PurposeResetPassword code (vcache d) \<and>
     bc_GenerateFromPassword (sv_bcrypt s) n pw = Inr h \<and>
     users d' = update_where (\<lambda>x. u_ID x = u_ID u \<and> u_DeletedAt x = None) (\<lambda>x. x\<lparr>u_PasswordHash := h, u_UpdatedAt := t\<rparr>) (users d) \<and>
     user_sessions d' = delete_where (\<lambda>x. us_UserID x = u_ID u) (user_sessions d))"

definition untouched :: "user_db \<Rightarrow> user_db \<Rightarrow> bool" where
  "untouched d d' = (users d' = users d \<and> user_sessions d' = user_sessions d)"

lemma wp_keeps:
  assumes "keeps I m" "I (db w)" "\<And>a w'. I (db w') \<Longrightarrow> Q a w'" "\<And>e w'. I (db w') \<Longrightarrow> E e w'"
  shows "wp m Q E w"
  using assms(1,2) unfolding keeps_wp by (rule_tac wp_mono[of m "\<lambda>_ w'. I (db w')" "\<lambda>_ w'. I (db w')"]) (auto intro: assms(3,4))

lemma wp_resetTx:
  "wp (transaction (resetTx u h))
     (\<lambda>_ w'. \<exists>t. users (db w') = update_where (\<lambda>x. u_ID x = u \<and> u_DeletedAt x = None) (\<lambda>x. x\<lparr>u_PasswordHash := h, u_UpdatedAt := t\<rparr>) (users (db w)) \<and>
        user_sessions (db w') = delete_where (\<lambda>x. us_UserID x = u) (user_sessions (db w)))
     (\<lambda>_ w'. db w' = db w) w"
  unfolding resetTx_def wrapE_def userRepo_UpdatePassword_def updateUser_def sessionRepo_DeleteByUserID_def
  by (auto simp: wp_simps split: option.splits)

lemma untouched_accounts: "accounts d' = accounts d \<Longrightarrow> untouched d d'"
  by (simp add: untouched_def accounts_def)

lemma ResetPassword_wp:
  "wp (ResetPassword s account code pw) (\<lambda>_ w'. password_reset s account code pw (db w) (db w'))
     (\<lambda>_ w'. untouched (db w) (db w') \<or> password_reset s account code pw (db w) (db w')) w"
proof -
  let ?R = "password_reset s account code pw (db w)"
  have tail: "wp (bindE (HashPassword (sv_bcrypt s) pw) (\<lambda>h. thenE (transaction (resetTx (u_ID u) h))
        (forceLogoutAllDevices (u_ID u) ''password_reset''))) (\<lambda>_ w'. ?R (db w')) (\<lambda>_ w'. untouched (db w) (db w') \<or> ?R (db w')) v"
    if acc: "normalizeAccountForLookup s account = Inr acc"
      and u: "first_user (\<lambda>u. u_Phone u = Some acc \<or> u_Email u = Some acc) (db w) = Some u"
      and ok: "accepted (sv_verifyManager s) acc (if isEmail acc then TargetTypeEmail else TargetTypeSMS) PurposeResetPassword code (vcache (db w))"
      and v: "accounts (db v) = accounts (db w)" for acc u v
  proof -
    have reset: "wp (thenE (transaction (resetTx (u_ID u) h)) (forceLogoutAllDevices (u_ID u) ''password_reset''))
        (\<lambda>_ w'. ?R (db w')) (\<lambda>_ w'. untouched (db w) (db w') \<or> ?R (db w')) x"
      if h: "bc_GenerateFromPassword (sv_bcrypt s) n pw = Inr h" and x: "accounts (db x) = accounts (db w)" for h n x
    proof (simp only: wp_then, rule wp_mono[OF wp_resetTx])
      fix y :: "user_db world"
      assume "\<exists>t. users (db y) = update_where (\<lambda>x. u_ID x = u_ID u \<and> u_DeletedAt x = None) (\<lambda>x. x\<lparr>u_PasswordHash := h, u_UpdatedAt := t\<rparr>) (users (db x)) \<and>
        user_sessions (db y) = delete_where (\<lambda>x. us_UserID x = u_ID u) (user_sessions (db x))"
      then obtain t where y: "users (db y) = update_where (\<lambda>x. u_ID x = u_ID u \<and> u_DeletedAt x = None) (\<lambda>x. x\<lparr>u_PasswordHash := h, u_UpdatedAt := t\<rparr>) (users (db w))"
        "user_sessions (db y) = delete_where (\<lambda>x. us_UserID x = u_ID u) (user_sessions (db w))" using x by (auto simp: accounts_def)
      then have "?R d" if "users d = users (db y) \<and> user_sessions d = user_sessions (db y)" for d
        using acc u ok h that unfolding password_reset_def by force
      moreover have "\<forall>x \<in> set (user_sessions (db y)). us_UserID x \<noteq> u_ID u" using y(2) by (simp add: table_simps)
      ultimately show "wp (forceLogoutAllDevices (u_ID u) ''password_reset'') (\<lambda>_ w'. ?R (db w')) (\<lambda>_ w'. untouched (db w) (db w') \<or> ?R (db w')) y"
        by (intro wp_keeps[OF keeps_logout_done[of "user_sessions (db y)" "u_ID u" "users (db y)"]]) auto
    qed (use x in \<open>simp add: untouched_accounts\<close>)
    show ?thesis using reset v untouched_accounts
      by (auto simp: wp_bind wp_def[of "HashPassword (sv_bcrypt s) pw"] HashPassword_def split: sum.split)
  qed
  have verified: "wp (thenE (VerifyCode (sv_verifyManager s) \<lparr>vr_Target = acc, vr_TargetType = ty,
        vr_Purpose = PurposeResetPassword, vr_Code = code\<rparr>) (bindE (HashPassword (sv_bcrypt s) pw) (\<lambda>h. thenE (transaction (resetTx (u_ID u) h))
        (forceLogoutAllDevices (u_ID u) ''password_reset'')))) (\<lambda>_ w'. ?R (db w')) (\<lambda>_ w'. untouched (db w) (db w') \<or> ?R (db w')) v"
    if "normalizeAccountForLookup s account = Inr acc" "db v = db w"
      "first_user (\<lambda>u. u_Phone u = Some acc \<or> u_Email u = Some acc) (db w) = Some u"
      "ty = (if isEmail acc then TargetTypeEmail else TargetTypeSMS)" for acc u v ty
    using that by (simp only: wp_then) (rule wp_VerifyCode, simp add: untouched_accounts, rule tail, simp_all)
  have same: "untouched (db w) (db w)" by (simp add: untouched_def)
  show ?thesis
    unfolding ResetPassword_def Let_def userRepo_GetByAccount_def
    by (subst wp_bind, simp only: wp_liftE, rule sum.split[THEN iffD2], intro conjI allI impI,
        simp add: same, subst wp_bind, simp only: wp_notFound_find)
       (auto simp: same intro!: verified split: option.split)
qed


subsection \<open>Changes of telephone number and e-mail address\<close>

text \<open>An accepted code leaves the cache as it is or takes keys away.\<close>

definition shrinks :: "cache_store \<Rightarrow> cache_store \<Rightarrow> bool" where
  "shrinks c c' = (\<forall>k x. map_of c' k = Some x \<longrightarrow> map_of c k = Some x)"

lemma shrinks_refl [simp]: "shrinks c c"
  by (simp add: shrinks_def)

lemma shrinks_Del [simp]: "shrinks c (cache_Del key c)"
proof -
  have "map_of (filter (\<lambda>x. fst x \<noteq> key) c) k = (if k = key then None else map_of c k)" for k
    by (induction c) auto
  then show ?thesis by (simp add: shrinks_def cache_Del_def)
qed

lemma accepted_shrinks: "accepted vm t ty p code c' \<Longrightarrow> shrinks c c' \<Longrightarrow> accepted vm t ty p code c"
  unfolding accepted_def shrinks_def by blast

lemma VerifyCode_shrinks:
  assumes "VerifyCode vm req w = (Inr r, w')"
  shows "shrinks (vcache (db w)) (vcache (db w'))"
proof -
  obtain target fs where t: "validateAndNormalizeTarget vm (vr_Target req) (vr_TargetType req) = Inr target"
      "VerificationPurpose_IsValid (vr_Purpose req)" "vm_cache vm"
    and fs: "fields_at w (codeCacheKey vm (vr_Purpose req) target) = Some fs"
    and run: "if fs = [] then shouldAllowDevBypass vm (vr_Code req)
       else checkStored vm req target (codeCacheKey vm (vr_Purpose req) target) fs (bump (bump w)) = (Inr r, w')"
    using VerifyCode_Inr[OF assms] by blast
  show ?thesis
  proof (cases "fs = []")
    case True
    then show ?thesis using assms run fs unfolding VerifyCode_run[OF t] loadFields_run
      by (auto simp: returnE_def split: option.splits)
  next
    case False
    then show ?thesis using run checkStored_Inr(6)[of vm req target "codeCacheKey vm (vr_Purpose req) target" fs "bump (bump w)" r w'] by auto
  qed
qed

lemma wp_verifyCode:
  assumes "\<And>e w'. accounts (db w') = accounts (db w) \<Longrightarrow> E e w'"
    and "\<And>w'. accounts (db w') = accounts (db w) \<Longrightarrow> shrinks (vcache (db w)) (vcache (db w')) \<Longrightarrow>
      accepted (sv_verifyManager s) tgt ty p code (vcache (db w)) \<Longrightarrow> Q () w'"
  shows "wp (verifyCode s tgt ty p code) Q E w"
proof -
  let ?req = "\<lparr>vr_Target = tgt, vr_TargetType = ty, vr_Purpose = p, vr_Code = code\<rparr>"
  obtain r w' where run: "VerifyCode (sv_verifyManager s) ?req w = (r, w')" by fastforce
  have "accounts (db w') = accounts (db w)"
    using apart_manager(2)[of "sv_verifyManager s" ?req] run unfolding apart_def keeps_def by (metis snd_conv)
  then show ?thesis
    using assms VerifyCode_accepted[of "sv_verifyManager s" ?req w] VerifyCode_shrinks[of "sv_verifyManager s" ?req w] run
    by (cases r) (simp_all add: verifyCode_def wp_bind wp_guard wp_def[of "VerifyCode (sv_verifyManager s) ?req"])
qed

lemma wp_verifyOld:
  assumes "\<And>e w'. accounts (db w') = accounts (db w) \<Longrightarrow> E e w'"
    and "\<And>w'. accounts (db w') = accounts (db w) \<Longrightarrow> shrinks (vcache (db w)) (vcache (db w')) \<Longrightarrow> Q () w'"
  shows "wp (verifyOld s tgt ty p oc) Q E w"
  unfolding verifyOld_def using assms
  by (auto simp: wp_return intro!: wp_verifyCode split: option.split)

text \<open>The identifiers, numbers and addresses of all users, and those that only grow.\<close>

definition contacts :: "user_db \<Rightarrow> (string \<times> string option \<times> string option) list" where
  "contacts d = map (\<lambda>u. (u_ID u, u_Phone u, u_Email u)) (users d)"

definition extends :: "(string \<times> string option \<times> string option) list \<Rightarrow> user_db \<Rightarrow> bool" where
  "extends K d = (\<exists>xs. contacts d = K @ xs)"

lemma extends_users: "users d = users d' \<Longrightarrow> extends K d = extends K d'"
  by (simp add: extends_def contacts_def)

lemma extends_updates [simp]:
  "extends K (d\<lparr>user_devices := ds\<rparr>) = extends K d" "extends K (d\<lparr>user_sessions := ss\<rparr>) = extends K d"
  "extends K (d\<lparr>user_profiles := ps\<rparr>) = extends K d" "extends K (d\<lparr>user_settings := ts\<rparr>) = extends K d"
  "extends K (d\<lparr>user_qrcodes := qs\<rparr>) = extends K d"
  by (rule extends_users, simp)+

lemma keeps_extends_repos:
  "keeps (extends K) (sessionRepo_DeleteByUserIDAndDeviceID u dv)" "keeps (extends K) (sessionRepo_DeleteByUserID u)"
  "keeps (extends K) (sessionRepo_DeleteByUserIDExceptDeviceID u dv)" "keeps (extends K) (sessionRepo_Create x)" "keeps (extends K) (sessionRepo_Update x)"
  "keeps (extends K) (deviceRepo_Create v)" "keeps (extends K) (deviceRepo_UpdateLastLogin u dv ip)"
  "keeps (extends K) (profileRepo_Create p)" "keeps (extends K) (profileRepo_Update p)" "keeps (extends K) (profileRepo_UpdateQRCode u url)"
  "keeps (extends K) (settingsRepo_Create y)" "keeps (extends K) (settingsRepo_Update y)" "keeps (extends K) (userQRCodeRepo_Create q)"
  unfolding sessionRepo_DeleteByUserIDAndDeviceID_def sessionRepo_DeleteByUserID_def sessionRepo_DeleteByUserIDExceptDeviceID_def
    sessionRepo_Create_def sessionRepo_Update_def deviceRepo_Create_def deviceRepo_UpdateLastLogin_def profileRepo_Create_def
    profileRepo_Update_def profileRepo_UpdateQRCode_def settingsRepo_Create_def settingsRepo_Update_def userQRCodeRepo_Create_def Let_def
  by (intro keeps_intros keeps_exec keeps_modify; auto split: option.splits sum.splits)+

lemma keeps_extends_users:
  "keeps (extends K) (userRepo_Create u)" "keeps (extends K) (userRepo_UpdatePassword i h)"
proof -
  show "keeps (extends K) (userRepo_Create u)" unfolding userRepo_Create_def
    by (intro keeps_intros keeps_exec) (auto simp: insert_user_Inr extends_def contacts_def split: sum.splits)
  have "contacts (d\<lparr>users := update_where q (\<lambda>x. x\<lparr>u_PasswordHash := h, u_UpdatedAt := t\<rparr>) (users d)\<rparr>) = contacts d" for d q t
    by (simp add: contacts_def map_update_where_same)
  then show "keeps (extends K) (userRepo_UpdatePassword i h)" unfolding userRepo_UpdatePassword_def updateUser_def
    by (intro keeps_intros keeps_modify) (simp add: extends_def)
qed

lemma keeps_extends_verification:
  "keeps (extends K) (VerifyCode vm vreq)" "keeps (extends K) (verifyCode s t ty p c)" "keeps (extends K) (verifyOld s t ty p oc)"
  "keeps (extends K) (SendCode vm sreq ip)" "keeps (extends K) (UpdatePushToken s u dv tok pl)"
  by (rule apart_keeps[OF _ extends_users], simp_all add: apart_manager apart_verifyCode apart_UpdatePushToken accounts_def)+

lemmas extends_intros = keeps_extends_repos keeps_extends_users keeps_extends_verification

fun contact_op :: "user_op \<Rightarrow> bool" where
  "contact_op (OpBindPhone _ _ _) = True"
| "contact_op (OpChangePhone _ _ _ _ _ _) = True"
| "contact_op (OpBindEmail _ _ _) = True"
| "contact_op (OpChangeEmail _ _ _ _ _ _) = True"
| "contact_op _ = False"

lemma keeps_extends_services:
  "keeps (extends K) (Register s req)" "keeps (extends K) (Login s lreq)" "keeps (extends K) (RefreshToken s tok)"
  "keeps (extends K) (ChangePassword s u old new dv)" "keeps (extends K) (ResetPassword s acc code new)"
  "keeps (extends K) (UpdateProfile u preq)" "keeps (extends K) (UpdateSettings u sreq)" "keeps (extends K) (RefreshQRCode s u)"
  unfolding Register_def registerTarget_def createAccount_def registerTx_def initUserDataInTx_def refreshQRCodeInTx_def Login_def openSession_def handleSameTypeDeviceKick_def
    recordDevice_def storeSession_def RefreshToken_def ChangePassword_def ResetPassword_def resetTx_def forceLogoutAllDevices_def
    forceLogoutOtherDevices_def logoutDevice_def UpdateProfile_def UpdateSettings_def RefreshQRCode_def Let_def
    deviceRepo_GetByUserIDAndDeviceID_def sessionRepo_GetByUserIDAndDeviceID_def
  by (intro keeps_intros extends_intros keeps_transaction_body)+

lemma keeps_extends_step: "\<not> contact_op op \<Longrightarrow> keeps (extends K) (user_step s op)"
  by (cases op)
     (simp_all add: UserHandler_SendVerificationCode_def UserHandler_Register_def UserHandler_Login_def UserHandler_Logout_def
       UserHandler_RefreshToken_def UserHandler_ChangePassword_def UserHandler_ResetPassword_def UserHandler_GetProfile_def
       UserHandler_UpdateProfile_def UserHandler_GetUserInfo_def UserHandler_SearchUsers_def UserHandler_GetSettings_def
       UserHandler_UpdateSettings_def UserHandler_RefreshQRCode_def UserHandler_GetUserByQRCode_def UserHandler_UpdatePushToken_def
       Logout_def SendVerificationCode_def keeps_intros extends_intros keeps_extends_services keeps_reads)

text \<open>The codes that allow a new number or address, and what a call may do to the contacts.\<close>

definition phone_verified :: "userServiceImpl \<Rightarrow> user_db \<Rightarrow> string \<Rightarrow> bool" where
  "phone_verified s d q = (\<exists>code. accepted (sv_verifyManager s) q TargetTypeSMS PurposeBindPhone code (vcache d) \<or>
     accepted (sv_verifyManager s) q TargetTypeSMS PurposeChangePhone code (vcache d))"

definition email_verified :: "userServiceImpl \<Rightarrow> user_db \<Rightarrow> string \<Rightarrow> bool" where
  "email_verified s d q = (\<exists>code. accepted (sv_verifyManager s) q TargetTypeEmail PurposeBindEmail code (vcache d) \<or>
     accepted (sv_verifyManager s) q TargetTypeEmail PurposeChangeEmail code (vcache d))"

definition moved :: "userServiceImpl \<Rightarrow> user_db \<Rightarrow> user_db \<Rightarrow> bool" where
  "moved s d d' = (extends (contacts d) d' \<or>
     (\<exists>p q t. users d' = update_where p (\<lambda>x. x\<lparr>u_Phone := Some q, u_UpdatedAt := t\<rparr>) (users d) \<and> phone_verified s d q) \<or>
     (\<exists>p q t. users d' = update_where p (\<lambda>x. x\<lparr>u_Email := Some q, u_UpdatedAt := t\<rparr>) (users d) \<and> email_verified s d q))"

definition near :: "user_db \<Rightarrow> user_db \<Rightarrow> bool" where
  "near d0 d = (accounts d = accounts d0 \<and> shrinks (vcache d0) (vcache d))"

lemma moved_same: "accounts d = accounts d0 \<Longrightarrow> moved s d0 d"
  using extends_users[of d d0 "contacts d0"] by (simp add: moved_def accounts_def extends_def)

lemma near_moved: "near d0 d \<Longrightarrow> moved s d0 d"
  by (simp add: near_def moved_same)

lemma wp_both: "wp m (\<lambda>_ w'. J (db w')) (\<lambda>_ w'. J (db w')) w = J (db (snd (m w)))"
  by (simp add: wp_def split: prod.split sum.split)

lemma ensures_wp: "(\<And>w. P (db w) \<Longrightarrow> wp m (\<lambda>_ w'. J (db w')) (\<lambda>_ w'. J (db w')) w) \<Longrightarrow> ensures P J m"
  by (simp add: ensures_def wp_both)

lemma ensures_wpD: "ensures P J m \<Longrightarrow> P (db w) \<Longrightarrow> wp m (\<lambda>_ w'. J (db w')) (\<lambda>_ w'. J (db w')) w"
  by (simp add: ensures_def wp_both)

lemma ensures_verifyOld: "ensures (near d0) (moved s d0) k \<Longrightarrow> ensures (near d0) (moved s d0) (thenE (verifyOld s tgt ty p oc) k)"
proof (rule ensures_wp, simp only: wp_then, rule wp_verifyOld)
  fix w w' :: "user_db world"
  assume "ensures (near d0) (moved s d0) k" "near d0 (db w)" "accounts (db w') = accounts (db w)" "shrinks (vcache (db w)) (vcache (db w'))"
  then show "wp k (\<lambda>_ w'. moved s d0 (db w')) (\<lambda>_ w'. moved s d0 (db w')) w'"
    by (intro ensures_wpD[of "near d0"]) (auto simp: near_def shrinks_def)
qed (auto simp: near_def intro: moved_same)

text \<open>The last steps of a change: the code for the new contact, the update, and what leaves the users alone.\<close>

lemma movedI:
  "users d' = update_where p (\<lambda>x. x\<lparr>u_Phone := Some q, u_UpdatedAt := t\<rparr>) (users d) \<Longrightarrow> phone_verified s d q \<Longrightarrow> moved s d d'"
  "users d' = update_where p (\<lambda>x. x\<lparr>u_Email := Some q, u_UpdatedAt := t\<rparr>) (users d) \<Longrightarrow> email_verified s d q \<Longrightarrow> moved s d d'"
  unfolding moved_def by blast+

lemma moved_users: "users d = users d' \<Longrightarrow> moved s d0 d = moved s d0 d'"
  using extends_users[of d d' "contacts d0"] by (simp add: moved_def)

lemma ensures_change:
  assumes step: "\<And>d t. accounts d = accounts d0 \<Longrightarrow> accepted (sv_verifyManager s) q ty p code (vcache d0) \<Longrightarrow>
      moved s d0 (d\<lparr>users := update_where (\<lambda>x. u_ID x = u \<and> u_DeletedAt x = None) (\<lambda>x. (f x)\<lparr>u_UpdatedAt := t\<rparr>) (users d)\<rparr>)"
    and k: "keeps (moved s d0) k"
  shows "ensures (near d0) (moved s d0) (thenE (verifyCode s q ty p code) (thenE (updateUnique c col u v f) k))"
proof (rule ensures_wp, simp only: wp_then, rule wp_verifyCode)
  fix w w' :: "user_db world"
  assume "near d0 (db w)" "accounts (db w') = accounts (db w)" "accepted (sv_verifyManager s) q ty p code (vcache (db w))"
  then have acc: "accounts (db w') = accounts d0" "accepted (sv_verifyManager s) q ty p code (vcache d0)"
    by (auto simp: near_def intro: accepted_shrinks)
  then have "wp (updateUnique c col u v f) (\<lambda>_ w'. moved s d0 (db w')) (\<lambda>_ w'. moved s d0 (db w')) w'"
    unfolding updateUnique_def by (auto simp: wp_simps moved_same intro: step split: option.split)
  then show "wp (thenE (updateUnique c col u v f) k) (\<lambda>_ w'. moved s d0 (db w')) (\<lambda>_ w'. moved s d0 (db w')) w'"
    unfolding wp_then by (rule wp_mono) (use k in \<open>auto simp: keeps_wp\<close>)
qed (auto simp: near_def intro: moved_same)

lemma ensures_change_phone:
  assumes "keeps (moved s d0) k" "p \<in> {PurposeBindPhone, PurposeChangePhone}"
  shows "ensures (near d0) (moved s d0) (thenE (verifyCode s q TargetTypeSMS p code) (thenE (userRepo_UpdatePhone u (Some q)) k))"
  unfolding userRepo_UpdatePhone_def
  by (rule ensures_change[OF _ assms(1)]) (use assms(2) in \<open>auto simp: phone_verified_def accounts_def intro!: movedI(1)\<close>)

lemma ensures_change_email:
  assumes "keeps (moved s d0) k" "p \<in> {PurposeBindEmail, PurposeChangeEmail}"
  shows "ensures (near d0) (moved s d0) (thenE (verifyCode s q TargetTypeEmail p code) (thenE (userRepo_UpdateEmail u (Some q)) k))"
  unfolding userRepo_UpdateEmail_def
  by (rule ensures_change[OF _ assms(1)]) (use assms(2) in \<open>auto simp: email_verified_def accounts_def intro!: movedI(2)\<close>)

lemma keeps_moved_delete: "keeps (moved s d0) (sessionRepo_DeleteByUserIDExceptDeviceID u dv)"
  unfolding sessionRepo_DeleteByUserIDExceptDeviceID_def
  by (intro keeps_modify) (simp add: moved_users[of "_\<lparr>user_sessions := _\<rparr>"])

lemma ensures_option:
  "(x = None \<Longrightarrow> ensures P J m) \<Longrightarrow> (\<And>a. x = Some a \<Longrightarrow> ensures P J (f a)) \<Longrightarrow> ensures P J (case x of None \<Rightarrow> m | Some a \<Rightarrow> f a)"
  by (simp split: option.split)

lemma near_keeps: "keeps (near d0) m \<Longrightarrow> (\<And>a. ensures (near d0) (moved s d0) (f a)) \<Longrightarrow> ensures (near d0) (moved s d0) (bindE m f)"
    "keeps (near d0) m \<Longrightarrow> ensures (near d0) (moved s d0) k \<Longrightarrow> ensures (near d0) (moved s d0) (thenE m k)"
  by (auto intro: ensures_step ensures_step_then near_moved)

lemma ensures_available:
  "keeps I (ensurePhoneAvailable q u)" "keeps I (ensureEmailAvailable q u)" "keeps I (requireAuthUser u)"
  unfolding ensurePhoneAvailable_def ensureEmailAvailable_def requireAuthUser_def by (intro keeps_intros)+

lemma ensures_end: "ensures (near d0) (moved s d0) (returnE a)" "ensures (near d0) (moved s d0) (throwE e)"
  by (simp_all add: ensures_def returnE_def throwE_def near_moved)

lemma ensures_contact_services:
  "ensures (near d0) (moved s d0) (BindPhone s u ph c)" "ensures (near d0) (moved s d0) (ChangePhone s u p1 p2 oc nc dv)"
  "ensures (near d0) (moved s d0) (BindEmail s u e c)" "ensures (near d0) (moved s d0) (ChangeEmail s u e1 e2 oc nc dv)"
  unfolding BindPhone_def ChangePhone_def BindEmail_def ChangeEmail_def invalidateSessionsAfterContactChange_def
  by (auto intro!: near_keeps(1)[OF keeps_normalizePhoneE] near_keeps(1)[OF ensures_available(3)] near_keeps(2)[OF ensures_available(1)]
      near_keeps(2)[OF ensures_available(2)] near_keeps(2)[OF keeps_guard] ensures_option ensures_end ensures_verifyOld
      ensures_change_phone ensures_change_email keeps_return keeps_then[OF keeps_moved_delete])

lemma near_refl: "near d d"
  by (simp add: near_def)

lemma user_step_moved: "moved s (db w) (db (snd (user_step s op w)))"
proof (cases "contact_op op")
  case False
  have "extends (contacts (db w)) (db w)" by (simp add: extends_def)
  then have "extends (contacts (db w)) (db (snd (user_step s op w)))"
    using keeps_extends_step[OF False, of "contacts (db w)" s] by (simp add: keeps_def)
  then show ?thesis by (simp add: moved_def)
next
  case True
  have void: "ensures P J m \<Longrightarrow> ensures P J (void m)" for P J and m :: "(user_db, 'x) M"
    unfolding void_def thenE_def by (rule ensures_bind_return)
  have user: "ensures (near d0) (moved s d0) (bindE (MustGetUserID ctx) f)" if "\<And>u. ensures (near d0) (moved s d0) (f u)" for d0 ctx and f :: "string \<Rightarrow> (user_db, 'x) M"
    by (intro near_keeps(1) keeps_MustGetUserID that)
  have "ensures (near (db w)) (moved s (db w)) (user_step s op)"
    using True
    by (cases op) (simp_all add: UserHandler_BindPhone_def UserHandler_ChangePhone_def UserHandler_BindEmail_def UserHandler_ChangeEmail_def
        void user ensures_convert ensures_contact_services)
  then show ?thesis using near_refl unfolding ensures_def by blast
qed


end
