(* ===== verification/User_Login.thy ===== *)
theory User_Login
  imports User_Properties
begin

text \<open>
  Logins and registrations: what a successful login shows and establishes, that it leaves at most one
  device of a kind with a session, and two ways in which registration and login do not fit together.
\<close>

subsection \<open>Logins\<close>

lemma wp_bind_any: "(\<And>a v. wp (f a) Q (\<lambda>_ _. True) v) \<Longrightarrow> wp (bindE m f) Q (\<lambda>_ _. True) w"
  by (simp add: wp_bind wp_def[of m] split: prod.split sum.split)

lemma wp_then_any: "(\<And>v. wp k Q (\<lambda>_ _. True) v) \<Longrightarrow> wp (thenE m k) Q (\<lambda>_ _. True) w"
  unfolding thenE_def by (rule wp_bind_any)

lemma Login_Inr:
  assumes "Login s req w = (Inr r, w')"
  shows "\<exists>acc u. normalizeAccountForLookup s (lq_Account req) = Inr acc \<and>
    first_user (\<lambda>u. u_Phone u = Some acc \<or> u_Email u = Some acc) (db w) = Some u \<and> User_IsActive u \<and>
    CheckPassword (sv_bcrypt s) (lq_Password req) (u_PasswordHash u) \<and> openSession s u req (bump w) = (Inr r, w')"
proof -
  obtain acc where acc: "normalizeAccountForLookup s (lq_Account req) = Inr acc"
    using assms by (cases "normalizeAccountForLookup s (lq_Account req)") (simp_all add: Login_def bindE_def liftE_def)
  then show ?thesis using assms
    by (auto simp: Login_def userRepo_GetByAccount_def find_one_def query_def optionalE_def monad_defs liftE_def infra_def
        split: option.splits if_splits)
qed

lemma save_row_in: "r \<in> set (save_row pk r rows)"
  by (auto simp: save_row_def update_where_def table_simps image_iff)

definition session_with :: "string \<Rightarrow> string \<Rightarrow> string \<Rightarrow> string \<Rightarrow> user_db \<Rightarrow> bool" where
  "session_with u dv at rt d = (\<exists>x \<in> set (user_sessions d). us_UserID x = u \<and> us_DeviceID x = dv \<and>
     us_AccessToken x = at \<and> us_RefreshToken x = rt)"

lemma storeSession_stores:
  "wp (storeSession u dv at rt ae re) (\<lambda>_ w'. session_with u dv at rt (db w')) (\<lambda>_ _. True) w"
proof -
  have create: "wp (sessionRepo_Create (newSession u dv at rt ae re)) (\<lambda>_ w'. session_with u dv at rt (db w')) (\<lambda>_ _. True) v" for v
    unfolding sessionRepo_Create_def
    by (auto simp: wp_simps insert_unique_def session_with_def newSession_def split: option.split)
  have update: "wp (sessionRepo_Update x) (\<lambda>_ w'. session_with u dv at rt (db w')) (\<lambda>_ _. True) v"
    if "us_UserID x = u" "us_DeviceID x = dv" "us_AccessToken x = at" "us_RefreshToken x = rt" for x v
    unfolding sessionRepo_Update_def
    using that by (auto simp: wp_simps session_with_def split: option.split intro!: bexI[OF _ save_row_in])
  show ?thesis
    unfolding storeSession_def sessionRepo_GetByUserIDAndDeviceID_def
    by (auto simp: wp_bind wp_optional_find create dest: first_where_SomeD split: option.split intro!: update)
qed

lemma openSession_result:
  "wp (openSession s u req) (\<lambda>r w'. lr_UserId r = u_ID u \<and>
     session_with (u_ID u) (lq_DeviceId req) (lr_AccessToken r) (lr_RefreshToken r) (db w')) (\<lambda>_ _. True) w"
  unfolding openSession_def Let_def
  by (rule wp_then_any, rule wp_then_any, (rule wp_bind_any)+, unfold wp_then, rule wp_mono[OF storeSession_stores])
     (simp_all add: wp_return)

text \<open>C24: a login succeeds only for an active user with that telephone number or e-mail address whose stored
  hash matches the password; it answers for that user and leaves a session of the user's device with
  exactly the tokens it returned.  This holds under every schedule of faults.\<close>

theorem Login_sound:
  assumes "Login s req w = (Inr r, w')"
  shows "\<exists>acc u. normalizeAccountForLookup s (lq_Account req) = Inr acc \<and>
    first_user (\<lambda>u. u_Phone u = Some acc \<or> u_Email u = Some acc) (db w) = Some u \<and> User_IsActive u \<and>
    CheckPassword (sv_bcrypt s) (lq_Password req) (u_PasswordHash u) \<and> lr_UserId r = u_ID u \<and>
    session_with (u_ID u) (lq_DeviceId req) (lr_AccessToken r) (lr_RefreshToken r) (db w')"
proof -
  obtain acc u where "normalizeAccountForLookup s (lq_Account req) = Inr acc"
    "first_user (\<lambda>u. u_Phone u = Some acc \<or> u_Email u = Some acc) (db w) = Some u" "User_IsActive u"
    "CheckPassword (sv_bcrypt s) (lq_Password req) (u_PasswordHash u)" and run: "openSession s u req (bump w) = (Inr r, w')"
    using Login_Inr[OF assms] by blast
  then show ?thesis using wp_result[OF run openSession_result] by auto
qed

subsection \<open>One device of a kind\<close>

text \<open>Of the devices \<open>D\<close>, only \<open>dv\<close> may have a session of the user.\<close>

definition alone :: "string \<Rightarrow> string \<Rightarrow> string set \<Rightarrow> user_db \<Rightarrow> bool" where
  "alone u dv D d = (\<forall>x \<in> set (user_sessions d). us_UserID x = u \<longrightarrow> us_DeviceID x = dv \<or> us_DeviceID x \<notin> D)"

lemma alone_sessions: "user_sessions d = user_sessions d' \<Longrightarrow> alone u dv D d = alone u dv D d'"
  by (simp add: alone_def)

lemma quiet_publishForceLogout: "quiet (publishForceLogout u v r)"
  unfolding publishForceLogout_def by (intro quiet_intros quiet_ignore benign_PublishToUser)

lemma thenE_run: "m w = (Inr a, w1) \<Longrightarrow> thenE m k w = k w1"
  by (simp add: thenE_def bindE_def)

lemma kick_one:
  assumes "healthy w" "alone u dv D (db w)" "ud_DeviceID v \<noteq> dv"
  shows "\<exists>w'. thenE (ignoreE (sessionRepo_DeleteByUserIDAndDeviceID u (ud_DeviceID v))) (publishForceLogout u v r) w = (Inr (), w') \<and>
    healthy w' \<and> alone u dv (insert (ud_DeviceID v) D) (db w') \<and> user_devices (db w') = user_devices (db w)"
proof -
  let ?d = "(db w)\<lparr>user_sessions := delete_where (\<lambda>s. us_UserID s = u \<and> us_DeviceID s = ud_DeviceID v) (user_sessions (db w))\<rparr>"
  have "ignoreE (sessionRepo_DeleteByUserIDAndDeviceID u (ud_DeviceID v)) w = (Inr (), (bump w)\<lparr>db := ?d\<rparr>)"
    using assms(1) by (simp add: sessionRepo_DeleteByUserIDAndDeviceID_def ignoreE_def catchE_def run_simps)
  moreover obtain w' where "publishForceLogout u v r ((bump w)\<lparr>db := ?d\<rparr>) = (Inr (), w')" "db w' = ?d" "fault w' = fault w"
    using quiet_publishForceLogout[of u v r] unfolding quiet_def by (auto elim!: allE[of _ "(bump w)\<lparr>db := ?d\<rparr>"])
  ultimately show ?thesis
    using assms by (auto simp: thenE_def bindE_def healthy_def alone_def table_simps)
qed

lemma kick_all:
  assumes "healthy w" "alone u dv D (db w)"
  shows "\<exists>w'. forE vs (\<lambda>v. if ud_DeviceID v = dv then returnE ()
      else thenE (ignoreE (sessionRepo_DeleteByUserIDAndDeviceID u (ud_DeviceID v))) (publishForceLogout u v r)) w = (Inr (), w') \<and>
    healthy w' \<and> alone u dv (ud_DeviceID ` set vs \<union> D) (db w')"
  using assms
proof (induction vs arbitrary: w D)
  case Nil then show ?case by (simp add: returnE_def)
next
  case (Cons v vs)
  show ?case
  proof (cases "ud_DeviceID v = dv")
    case True
    have "alone u dv (insert dv E) d = alone u dv E d" for E d by (auto simp: alone_def)
    then show ?thesis using True Cons.IH[OF Cons.prems] by (simp add: thenE_def bindE_def returnE_def)
  next
    case False
    obtain w1 where "thenE (ignoreE (sessionRepo_DeleteByUserIDAndDeviceID u (ud_DeviceID v))) (publishForceLogout u v r) w = (Inr (), w1)"
      "healthy w1" "alone u dv (insert (ud_DeviceID v) D) (db w1)"
      using kick_one[OF Cons.prems False] by blast
    then show ?thesis using False Cons.IH[of w1 "insert (ud_DeviceID v) D"] by (simp add: thenE_run)
  qed
qed

lemma kick_alone:
  assumes "healthy w"
  shows "\<exists>w'. ignoreE (handleSameTypeDeviceKick u dv ty) w = (Inr (), w') \<and>
    alone u dv {ud_DeviceID v | v. v \<in> set (user_devices (db w)) \<and> ud_UserID v = u \<and> ud_DeviceType v = ty} (db w')"
proof -
  let ?vs = "select_where (\<lambda>x. ud_UserID x = u \<and> ud_DeviceType x = ty) last_login (user_devices (db w))"
  have "ud_DeviceID ` set ?vs = {ud_DeviceID v | v. v \<in> set (user_devices (db w)) \<and> ud_UserID v = u \<and> ud_DeviceType v = ty}"
    by (auto simp: select_where_def)
  moreover obtain w' where "forE ?vs (\<lambda>v. if ud_DeviceID v = dv then returnE ()
      else thenE (ignoreE (sessionRepo_DeleteByUserIDAndDeviceID u (ud_DeviceID v))) (publishForceLogout u v ''new_device_login'')) (bump w) = (Inr (), w')"
      "alone u dv (ud_DeviceID ` set ?vs) (db w')"
    using kick_all[of "bump w" u dv "{}" ?vs "''new_device_login''"] assms by (auto simp: alone_def)
  ultimately show ?thesis
    using assms by (simp add: ignoreE_def catchE_def handleSameTypeDeviceKick_def deviceRepo_GetByUserIDAndDeviceType_def run_simps)
qed

lemma alone_append: "alone u dv D (d\<lparr>user_sessions := user_sessions d @ [x]\<rparr>) =
    (alone u dv D d \<and> (us_UserID x = u \<longrightarrow> us_DeviceID x = dv \<or> us_DeviceID x \<notin> D))"
  by (auto simp: alone_def)

lemma keeps_alone:
  "keeps (alone u dv D) (recordDevice v req)" "keeps (alone u dv D) (storeSession u dv at rt ae re)"
proof -
  show "keeps (alone u dv D) (recordDevice v req)"
    unfolding recordDevice_def deviceRepo_GetByUserIDAndDeviceID_def deviceRepo_Create_def deviceRepo_UpdateLastLogin_def
    by (intro keeps_intros keeps_exec keeps_modify) (auto simp: alone_def split: option.splits)
  have "keeps (alone u dv D) (sessionRepo_Create (newSession u dv at rt ae re))" unfolding sessionRepo_Create_def
    by (intro keeps_intros keeps_exec) (auto simp: insert_unique_def alone_append newSession_def split: option.splits if_splits)
  then have create: "ensures (alone u dv D) (alone u dv D) (sessionRepo_Create (newSession u dv at rt ae re))" by (simp add: ensures_keeps)
  have update: "keeps (alone u dv D) (sessionRepo_Update x)" if "us_DeviceID x = dv" for x
    unfolding sessionRepo_Update_def using that
    by (intro keeps_intros keeps_modify) (auto simp: alone_def save_row_def set_update_where)
  show "keeps (alone u dv D) (storeSession u dv at rt ae re)"
    unfolding ensures_keeps storeSession_def sessionRepo_GetByUserIDAndDeviceID_def
  proof (intro ensures_optional, unfold option.case)
    fix x :: UserSession
    let ?x = "x\<lparr>us_AccessToken := at, us_RefreshToken := rt, us_AccessTokenExpiresAt := ae, us_RefreshTokenExpiresAt := re\<rparr>"
    show "ensures (\<lambda>d. alone u dv D d \<and> first_where (\<lambda>s. us_UserID s = u \<and> us_DeviceID s = dv) us_ID (user_sessions d) = Some x)
        (alone u dv D) (sessionRepo_Update ?x)"
      using update[of ?x] by (auto simp: ensures_def keeps_def dest: first_where_SomeD)
  qed (simp_all add: create)
qed

lemma keepsD: "keeps I m \<Longrightarrow> I (db w) \<Longrightarrow> I (db (snd (m w)))"
  by (simp add: keeps_def)

text \<open>After a login without infrastructure faults, no other device of the same kind has a session: every session
  of the user is of the device that logged in, or of a device that was not registered with that kind.\<close>

theorem Login_one_device_per_type:
  assumes "healthy w" "Login s req w = (Inr r, w')"
    and "x \<in> set (user_sessions (db w'))" "us_UserID x = lr_UserId r" "us_DeviceID x \<noteq> lq_DeviceId req"
    and "v \<in> set (user_devices (db w))" "device_key v = (us_UserID x, us_DeviceID x)"
  shows "ud_DeviceType v \<noteq> int16 (lq_DeviceType req)"
proof
  assume ty: "ud_DeviceType v = int16 (lq_DeviceType req)"
  obtain u where run: "openSession s u req (bump w) = (Inr r, w')" using Login_Inr[OF assms(2)] by blast
  have "lr_UserId r = u_ID u" using wp_result[OF run openSession_result] by simp
  let ?D = "{ud_DeviceID v | v. v \<in> set (user_devices (db w)) \<and> ud_UserID v = u_ID u \<and> ud_DeviceType v = int16 (lq_DeviceType req)}"
  obtain w1 where kick: "ignoreE (handleSameTypeDeviceKick (u_ID u) (lq_DeviceId req) (int16 (lq_DeviceType req))) (bump w) = (Inr (), w1)"
      "alone (u_ID u) (lq_DeviceId req) ?D (db w1)"
    using kick_alone[of "bump w" "u_ID u" "lq_DeviceId req" "int16 (lq_DeviceType req)"] assms(1) by (simp only: bump_simps) blast
  have "alone (u_ID u) (lq_DeviceId req) ?D (db (snd (openSession s u req (bump w))))"
    unfolding openSession_def Let_def
      thenE_run[of "ignoreE (handleSameTypeDeviceKick (u_ID u) (lq_DeviceId req) (int16 (lq_DeviceType req)))" "bump w", OF kick(1)]
    by (rule keepsD[where I = "alone (u_ID u) (lq_DeviceId req) ?D"]) (intro keeps_intros keeps_alone kick(2))+
  then have "us_DeviceID x \<notin> ?D" using run assms(3-5) \<open>lr_UserId r = u_ID u\<close> by (auto simp: alone_def)
  then show False using assms(4,6,7) ty \<open>lr_UserId r = u_ID u\<close> by (auto simp: device_key_def)
qed

subsection \<open>Registrations\<close>

text \<open>A user with an identifier, number and address is in the table.\<close>

definition enrolled :: "(User \<Rightarrow> bool) \<Rightarrow> user_db \<Rightarrow> bool" where
  "enrolled p d = (\<exists>u \<in> set (users d). p u)"

lemma enrolled_accounts: "accounts d = accounts d' \<Longrightarrow> enrolled p d = enrolled p d'"
  by (simp add: enrolled_def accounts_def)

lemma keeps_enrolled_verifyCode: "keeps (enrolled p) (verifyCode s t ty pu c)"
  by (rule apart_keeps[OF apart_verifyCode(1) enrolled_accounts])

lemma keeps_enrolled_rest:
  "keeps (enrolled p) (initUserDataInTx s i nick)" "keeps (enrolled p) (deviceRepo_Create dv)" "keeps (enrolled p) (sessionRepo_Create x)"
  unfolding initUserDataInTx_def refreshQRCodeInTx_def profileRepo_Create_def settingsRepo_Create_def userQRCodeRepo_Create_def
    profileRepo_UpdateQRCode_def deviceRepo_Create_def sessionRepo_Create_def Let_def
  by (intro keeps_intros keeps_exec keeps_modify; auto simp: enrolled_def split: option.splits sum.splits)+

lemma attains_any: "attains P (\<lambda>_. True) m"
  by (simp add: attains_def)

lemma attains_transaction: "attains P Q m \<Longrightarrow> attains P Q (transaction m)"
  unfolding attains_def transaction_def infra_def
  by (auto split: option.splits prod.splits sum.splits) (metis bump_simps(1))

lemma wp_True [simp]: "wp m (\<lambda>_ _. True) (\<lambda>_ _. True) w"
  by (simp add: wp_def split: prod.split sum.split)

lemma attains_wp: "attains P Q m \<Longrightarrow> P (db w) \<Longrightarrow> wp m (\<lambda>_ w'. Q (db w')) (\<lambda>_ _. True) w"
  by (auto simp: attains_def wp_def split: prod.split sum.split)

lemma registerTx_enrols:
  "attains P (enrolled (\<lambda>u. u_ID u = i \<and> u_Phone u = Some ph \<and> u_Email u = Some em)) (registerTx s i ph em pw nick dv ty cv)"
proof -
  let ?p = "\<lambda>u. u_ID u = i \<and> u_Phone u = Some ph \<and> u_Email u = Some em"
  have "attains P (enrolled ?p) (userRepo_Create u)" if "?p u" for u
    unfolding userRepo_Create_def using that
    by (intro attains_bind[OF attains_any] attains_exec) (auto simp: insert_user_Inr enrolled_def split: sum.splits)
  then show ?thesis
    unfolding registerTx_def
    by (intro attains_then[where Q = "enrolled ?p"] attains_wrap attains_keeps keeps_intros keeps_enrolled_rest) (simp add: toPtr_def)
qed

lemma registerTarget_phone:
  "wp (registerTarget s req) (\<lambda>a _. rq_PhoneNumber req = '''' \<longrightarrow> fst a = '''') (\<lambda>_ _. True) w"
  by (simp add: registerTarget_def wp_if wp_throw wp_return)

lemma Register_enrols:
  assumes "Register s req w = (Inr r, w')"
  shows "\<exists>ph. enrolled (\<lambda>u. u_ID u = ar_UserId r \<and> u_Phone u = Some ph \<and> u_Email u = Some (rq_Email req)) (db w') \<and>
    (rq_PhoneNumber req = '''' \<longrightarrow> ph = '''')"
proof -
  let ?goal = "\<lambda>r w'. \<exists>ph. enrolled (\<lambda>u. u_ID u = ar_UserId r \<and> u_Phone u = Some ph \<and> u_Email u = Some (rq_Email req)) (db w') \<and>
    (rq_PhoneNumber req = '''' \<longrightarrow> ph = '''')"
  have tx: "wp (bindE (transaction (registerTx s i ph (rq_Email req) pw nick dv ty cv)) (\<lambda>(at, rt). returnE
      \<lparr>ar_UserId = i, ar_AccessToken = at, ar_RefreshToken = rt, ar_ExpiresIn = ex\<rparr>)) ?goal (\<lambda>_ _. True) v"
    if "rq_PhoneNumber req = '''' \<longrightarrow> ph = ''''" for i ph pw nick dv ty cv ex v
    unfolding wp_bind
    by (rule wp_mono[OF attains_wp[OF attains_transaction[OF registerTx_enrols[where P = "\<lambda>_. True"]]]])
       (use that in \<open>auto simp: wp_return split: prod.split\<close>)
  have "wp (createAccount s req ph) ?goal (\<lambda>_ _. True) v" if "rq_PhoneNumber req = '''' \<longrightarrow> ph = ''''" for ph v
    unfolding createAccount_def Let_def
    by (rule wp_then_any, rule wp_then_any, rule wp_bind_any, rule wp_bind_any, rule wp_bind_any, rule tx[OF that])
  then have body: "wp (thenE (verifyCode s tg ty PurposeRegister (rq_VerifyCode req)) (createAccount s req ph)) ?goal (\<lambda>_ _. True) v"
    if "rq_PhoneNumber req = '''' \<longrightarrow> ph = ''''" for ph ty tg v using that by (intro wp_then_any) auto
  have "wp (Register s req) ?goal (\<lambda>_ _. True) w"
    unfolding Register_def wp_bind by (rule wp_mono[OF registerTarget_phone]) (auto simp: case_prod_beta intro: body)
  from wp_result[OF assms this] show ?thesis by simp
qed

lemma attains_pre: "attains P' Q m \<Longrightarrow> (\<And>d. P d \<Longrightarrow> P' d) \<Longrightarrow> attains P Q m"
  unfolding attains_def by blast

lemma attains_False: "attains P (\<lambda>_. False) m \<Longrightarrow> P (db w) \<Longrightarrow> \<exists>e w'. m w = (Inl e, w')"
  by (cases "m w"; cases "fst (m w)") (auto simp: attains_def)

lemma registerTx_taken:
  "attains (enrolled (\<lambda>u. u_Phone u = Some ph \<or> u_Email u = Some em)) (\<lambda>_. False) (registerTx s i ph em pw nick dv ty cv)"
proof -
  let ?P = "enrolled (\<lambda>u. u_Phone u = Some ph \<or> u_Email u = Some em)"
  have "attains ?P (\<lambda>_. False) (userRepo_Create u)" if "u_Phone u = Some ph" "u_Email u = Some em" for u
    unfolding userRepo_Create_def using that
    by (intro attains_bind[OF attains_keeps[OF keeps_now]] attains_exec)
       (auto simp: insert_user_Inr enrolled_def taken_def table_simps image_iff split: sum.splits)
  then show ?thesis
    unfolding registerTx_def by (intro attains_then[where Q = "\<lambda>_. False"] attains_wrap) (auto simp: attains_def toPtr_def)
qed

lemma Register_taken:
  assumes "rq_PhoneNumber req = '''' \<and> P = (\<lambda>u. u_Phone u = Some '''') \<or> rq_Email req = '''' \<and> P = (\<lambda>u. u_Email u = Some '''')"
  shows "attains (enrolled P) (\<lambda>_. False) (Register s req)"
proof -
  have "attains (enrolled P) (\<lambda>_. False) (createAccount s req ph)" if ph: "rq_PhoneNumber req = '''' \<longrightarrow> ph = ''''" for ph
  proof -
    have tx: "attains (enrolled P) (\<lambda>_. False) (registerTx s i ph (rq_Email req) pw nick dv ty cv)" for i pw nick dv ty cv
      by (rule attains_pre[OF registerTx_taken]) (use assms ph in \<open>auto simp: enrolled_def\<close>)
    show ?thesis
      unfolding createAccount_def Let_def
      by (intro attains_then[OF attains_keeps] attains_bind[OF attains_keeps] attains_bind[OF attains_transaction[OF tx]] keeps_intros)
         (auto simp: attains_def)
  qed
  then have body: "attains (enrolled P) (\<lambda>_. False) (thenE (verifyCode s tg ty PurposeRegister (rq_VerifyCode req)) (createAccount s req ph))"
    if "rq_PhoneNumber req = '''' \<longrightarrow> ph = ''''" for ph ty tg
    using that by (intro attains_then[OF attains_keeps[OF keeps_enrolled_verifyCode]]) auto
  have target: "keeps (enrolled P) (registerTarget s req)" unfolding registerTarget_def by (intro keeps_intros)
  show ?thesis
  proof (cases "rq_PhoneNumber req = ''''")
    case True
    then have "Register s req w = (if ValidateEmail (rq_Email req) then
        thenE (verifyCode s (rq_Email req) TargetTypeEmail PurposeRegister (rq_VerifyCode req)) (createAccount s req '''') w
        else (Inl (NewBusiness CodeEmailFormatInvalid ''invalid email format''), w))" for w
      by (simp add: Register_def registerTarget_def bindE_def[of "throwE _"] bindE_def[of "returnE _"] throwE_def returnE_def)
    then show ?thesis using body[of "''''" "rq_Email req" TargetTypeEmail] by (simp add: attains_def)
  next
    case False
    then show ?thesis unfolding Register_def
      by (intro attains_bind[OF attains_keeps[OF target]]) (auto simp: case_prod_beta intro: body)
  qed
qed

text \<open>The service admits one registration without an e-mail address and one without a telephone number.  After
  a successful registration without an address every further registration without an address fails, whatever the
  number and the code, and likewise without a number: the missing contact is stored as the empty text,
  which is unique.\<close>

theorem second_registration_fails:
  assumes "Register s req w = (Inr r, w')"
    and "rq_Email req = '''' \<and> rq_Email req' = '''' \<or> rq_PhoneNumber req = '''' \<and> rq_PhoneNumber req' = ''''"
  shows "\<exists>e v. Register s req' w' = (Inl e, v)"
proof -
  obtain u ph where u: "u \<in> set (users (db w'))" "u_Phone u = Some ph" "u_Email u = Some (rq_Email req)" "rq_PhoneNumber req = '''' \<longrightarrow> ph = ''''"
    using Register_enrols[OF assms(1)] by (auto simp: enrolled_def)
  show ?thesis
  proof (cases "rq_Email req = '''' \<and> rq_Email req' = ''''")
    case True
    then show ?thesis using attains_False[OF Register_taken[of req' "\<lambda>u. u_Email u = Some ''''"], of w' s] u by (auto simp: enrolled_def)
  next
    case False
    then show ?thesis
      using attains_False[OF Register_taken[of req' "\<lambda>u. u_Phone u = Some ''''"], of w' s] u assms(2) by (auto simp: enrolled_def)
  qed
qed

text \<open>An address is stored as it was typed and looked up in lower case: a user who registered with an address
  that has an upper-case letter can never log in with it.  Right after the registration no login with the same
  address, whatever the password, answers for that user.\<close>

theorem mixed_case_email_no_login:
  assumes "reachable (user_step s) any_op empty_user_db (db w)"
    and "Register s req w = (Inr r, w')" "rq_PhoneNumber req = ''''"
    and "to_lower (trim_space (rq_Email req)) \<noteq> rq_Email req" "isEmail (trim_space (rq_Email req))"
    and "lq_Account lreq = rq_Email req"
  shows "\<nexists>lr. fst (Login s lreq w') = Inr lr \<and> lr_UserId lr = ar_UserId r"
proof
  assume "\<exists>lr. fst (Login s lreq w') = Inr lr \<and> lr_UserId lr = ar_UserId r"
  then obtain lr w'' where login: "Login s lreq w' = (Inr lr, w'')" and same: "lr_UserId lr = ar_UserId r"
    by (metis prod.collapse)
  have "user_inv (db w')"
    using keepsD[OF keeps_Register, of w s req] user_service.reachable_inv[OF assms(1)] assms(2) by simp
  then have uniq: "uniq u_ID (users (db w'))" by (simp add: user_inv_def sound_tables_def)
  obtain u where u: "u \<in> set (users (db w'))" "u_ID u = ar_UserId r" "u_Phone u = Some ''''" "u_Email u = Some (rq_Email req)"
    using Register_enrols[OF assms(2)] assms(3) by (auto simp: enrolled_def)
  obtain acc v where acc: "normalizeAccountForLookup s (lq_Account lreq) = Inr acc"
      "first_user (\<lambda>u. u_Phone u = Some acc \<or> u_Email u = Some acc) (db w') = Some v" "openSession s v lreq (bump w') = (Inr lr, w'')"
    using Login_Inr[OF login] by blast
  have "lr_UserId lr = u_ID v" using wp_result[OF acc(3) openSession_result] by simp
  moreover have v: "v \<in> set (users (db w'))" "u_Phone v = Some acc \<or> u_Email v = Some acc"
    using acc(2) by (auto simp: first_user_def dest: first_where_SomeD)
  ultimately have "v = u" using uniq_inj[OF uniq _ u(1)] same u(2) by simp
  moreover have "acc = to_lower (trim_space (rq_Email req))" using acc(1) assms(5,6) by (simp add: normalizeAccountForLookup_def)
  moreover have "to_lower (trim_space (rq_Email req)) \<noteq> ''''" using assms(5) by (auto simp: isEmail_def to_lower_def)
  ultimately show False using v(2) u assms(4) by auto
qed

end
