(* ===== verification/User_Examples.thy ===== *)
theory User_Examples
  imports User_Login
begin

text \<open>
  One user of a development set-up, from registration on: the properties of the user service applied to
  concrete worlds.  The verification manager accepts its fixed code, the libraries are simple functions.
\<close>

definition dev_manager :: verificationManagerImpl where
  "dev_manager = \<lparr>vm_Length = 2, vm_ExpireSeconds = 300, vm_MaxAttempts = 2, vm_HashSecret = ''k'', vm_DebugFixedCode = ''0'',
     vm_AllowDevBypass = True, vm_TargetPerMinute = 1, vm_TargetPerDay = 10, vm_IPPerHour = 200, vm_DevicePerDay = 100,
     vm_SMSProvider = '''', vm_IsProd = False, vm_templateRepo = False, vm_cache = True, vm_smsSender = None,
     vm_emailSender = None, vm_sha256 = (\<lambda>x. x), vm_hmac = (\<lambda>k x. k @ x),
     vm_rand = \<lparr>rs_Read = (\<lambda>_ _. Some []), rs_Int = (\<lambda>n. Some n)\<rparr>,
     vm_phone = \<lparr>ph_Parse = (\<lambda>x _. Some x), ph_IsValidNumber = (\<lambda>_. True), ph_Format = (\<lambda>x. x), ph_NormalizeDigitsOnly = (\<lambda>x. x)\<rparr>\<rparr>"

definition example_service :: userServiceImpl where
  "example_service = \<lparr>sv_authConf = \<lparr>ac_Secret = ''s'', ac_AccessTokenExpire = 60 * Second, ac_RefreshTokenExpire = 600 * Second\<rparr>,
     sv_verifyManager = dev_manager, sv_jwtManager = \<lparr>ac_Secret = ''s'', ac_AccessTokenExpire = 60 * Second, ac_RefreshTokenExpire = 600 * Second\<rparr>,
     sv_jwt = \<lparr>jl_SignedString = (\<lambda>k c. Inr (cl_TokenType c @ cl_UserID c)), jl_ParseWithClaims = (\<lambda>t kf tok. Inl (Plain ''no''))\<rparr>,
     sv_bcrypt = \<lparr>bc_GenerateFromPassword = (\<lambda>_ p. Inr p), bc_CompareHashAndPassword = (\<lambda>h p. h = p)\<rparr>,
     sv_like = (\<lambda>_ _. False), sv_assign = (\<lambda>x t. t), sv_IsBlocked = (\<lambda>_ _ _. Inr False), sv_IsFriend = (\<lambda>_ _ _. Inr False)\<rparr>"

definition by_phone :: "string \<Rightarrow> RegisterRequest" where
  "by_phone p = \<lparr>rq_PhoneNumber = p, rq_Email = '''', rq_Password = ''password1'', rq_VerifyCode = ''0'', rq_Nickname = ''n'', rq_DeviceType = 1,
     rq_DeviceId = ''d'', rq_ClientVersion = ''''\<rparr>"

definition registered_db :: user_db where
  "registered_db = \<lparr>users = [\<lparr>u_ID = ''uuid-3'', u_Phone = Some ''+1'', u_Email = Some '''', u_PasswordHash = ''password1'', u_Status = 1,
       u_CreatedAt = 6, u_UpdatedAt = 6, u_DeletedAt = None\<rparr>],
     user_devices = [\<lparr>ud_ID = 1, ud_UserID = ''uuid-3'', ud_DeviceID = ''d'', ud_DeviceType = 1, ud_ClientVersion = '''', ud_LastLoginAt = None,
       ud_LastLoginIP = '''', ud_CreatedAt = 19, ud_UpdatedAt = 19\<rparr>],
     user_sessions = [\<lparr>us_ID = 1, us_UserID = ''uuid-3'', us_DeviceID = ''d'', us_AccessToken = ''accessuuid-3'', us_RefreshToken = ''refreshuuid-3'',
       us_AccessTokenExpiresAt = 60000000023, us_RefreshTokenExpiresAt = 600000000024, us_CreatedAt = 25, us_UpdatedAt = 25\<rparr>],
     user_profiles = [\<lparr>up_ID = 1, up_UserID = ''uuid-3'', up_Nickname = ''n'', up_Avatar = '''', up_Signature = '''', up_Gender = 0, up_Birthday = None,
       up_Region = '''', up_QRCodeURL = ''anychat://qrcode?token=uuid-3_0000000000000000'', up_QRCodeUpdatedAt = Some 17, up_CreatedAt = 8, up_UpdatedAt = 16\<rparr>],
     user_settings = [\<lparr>st_ID = 1, st_UserID = ''uuid-3'', st_NotificationEnabled = True, st_SoundEnabled = True, st_VibrationEnabled = True,
       st_MessagePreviewEnabled = True, st_FriendVerifyRequired = True, st_SearchByPhone = True, st_SearchByID = True, st_Language = ''zh_CN'',
       st_CreatedAt = 10, st_UpdatedAt = 10\<rparr>],
     user_qrcodes = [\<lparr>uq_ID = 1, uq_UserID = ''uuid-3'', uq_QRCodeToken = ''uuid-3_0000000000000000'',
       uq_QRCodeURL = ''anychat://qrcode?token=uuid-3_0000000000000000'', uq_ExpiresAt = 86400000000013, uq_CreatedAt = 14\<rparr>],
     user_push_tokens = [], verification_codes = [], verification_templates = [], vcache = []\<rparr>"

lemma registration:
  "\<exists>r w'. Register example_service (by_phone ''+1'') (init_world empty_user_db) = (Inr r, w') \<and> db w' = registered_db"
proof -
  have "case Register example_service (by_phone ''+1'') (init_world empty_user_db) of (r, w') \<Rightarrow> \<not> isl r \<and> db w' = registered_db"
    by code_simp
  then show ?thesis by (auto simp: isl_def not_isl_pair split: prod.splits) (metis sum.collapse(2) isl_def)
qed

lemma email_registration:
  "\<exists>r. Register example_service ((by_phone '''')\<lparr>rq_Email := ''A@b.co''\<rparr>) (init_world empty_user_db) =
     (Inr r, snd (Register example_service ((by_phone '''')\<lparr>rq_Email := ''A@b.co''\<rparr>) (init_world empty_user_db)))"
  by (rule not_isl_pair) code_simp

lemma registered_reachable: "reachable (user_step example_service) any_op empty_user_db registered_db"
proof -
  obtain r w' where run: "Register example_service (by_phone ''+1'') (init_world empty_user_db) = (Inr r, w')" "db w' = registered_db"
    using registration by blast
  have "rq_PhoneNumber (by_phone ''+1'') \<noteq> ''''" "rq_Password (by_phone ''+1'') \<noteq> ''''"
    "ValidatePasswordStrength (rq_Password (by_phone ''+1''))" "DeviceType_IsValid (int16 (rq_DeviceType (by_phone ''+1'')))"
    by code_simp+
  then have "user_step example_service (OpRegister (by_phone ''+1'')) (init_world empty_user_db) = (Inr (), w')"
    using run(1) by (simp add: UserHandler_Register_def void_def thenE_def bindE_def returnE_def convertE_result)
  then show ?thesis using reach_step[OF reach_init, of any_op "OpRegister (by_phone ''+1'')" "user_step example_service" "init_world empty_user_db"]
    run(2) by (metis any_op_def db_init)
qed

theorem accounts_well_formed_witness:
  "\<exists>!p. p \<in> set (user_profiles registered_db) \<and> up_UserID p = ''uuid-3''"
  using accounts_well_formed[OF registered_reachable] by (simp add: registered_db_def)

theorem second_registration_fails_witness:
  "\<exists>w' e v. db w' = registered_db \<and> Register example_service (by_phone ''+2'') w' = (Inl e, v)"
proof -
  obtain r w' where run: "Register example_service (by_phone ''+1'') (init_world empty_user_db) = (Inr r, w')" "db w' = registered_db"
    using registration by blast
  then show ?thesis using second_registration_fails[OF run(1), of "by_phone ''+2''"] by (auto simp: by_phone_def)
qed

definition email_login :: LoginRequest where
  "email_login = \<lparr>lq_Account = ''A@b.co'', lq_Password = ''password1'', lq_DeviceType = 1, lq_DeviceId = ''d'', lq_ClientVersion = '''', lq_IpAddress = ''''\<rparr>"

theorem mixed_case_email_no_login_witness:
  "\<exists>r w'. Register example_service ((by_phone '''')\<lparr>rq_Email := ''A@b.co''\<rparr>) (init_world empty_user_db) = (Inr r, w') \<and>
     \<not> (\<exists>lr. fst (Login example_service email_login w') = Inr lr \<and> lr_UserId lr = ar_UserId r)"
proof -
  let ?req = "(by_phone '''')\<lparr>rq_Email := ''A@b.co''\<rparr>"
  obtain r w' where run: "Register example_service ?req (init_world empty_user_db) = (Inr r, w')" using email_registration by blast
  have "rq_PhoneNumber ?req = ''''" "to_lower (trim_space (rq_Email ?req)) \<noteq> rq_Email ?req" "isEmail (trim_space (rq_Email ?req))"
      "lq_Account email_login = rq_Email ?req"
    by code_simp+
  moreover have "reachable (user_step example_service) any_op empty_user_db (db (init_world empty_user_db))" by (simp add: reach_init)
  ultimately show ?thesis using run mixed_case_email_no_login[of example_service "init_world empty_user_db" ?req r w' email_login] by blast
qed

definition web_login :: LoginRequest where
  "web_login = \<lparr>lq_Account = ''+1'', lq_Password = ''password1'', lq_DeviceType = 3, lq_DeviceId = ''e'', lq_ClientVersion = '''', lq_IpAddress = ''''\<rparr>"

definition later :: "user_db world" where
  "later = (init_world registered_db)\<lparr>serial := \<lambda>_. 9\<rparr>"

lemma web_login_ok:
  "\<exists>r w'. Login example_service web_login later = (Inr r, w') \<and> lr_UserId r = ''uuid-3'' \<and>
     hd (user_sessions registered_db) \<in> set (user_sessions (db w'))"
proof -
  have "case Login example_service web_login later of (r, w') \<Rightarrow> \<not> isl r \<and> lr_UserId (projr r) = ''uuid-3'' \<and>
      hd (user_sessions registered_db) \<in> set (user_sessions (db w'))" by code_simp
  then show ?thesis by (auto split: prod.splits) (metis sum.collapse(2))
qed

theorem Login_sound_witness:
  "\<exists>r w'. Login example_service web_login later = (Inr r, w') \<and> session_with ''uuid-3'' ''e'' (lr_AccessToken r) (lr_RefreshToken r) (db w')"
proof -
  obtain r w' where run: "Login example_service web_login later = (Inr r, w')" "lr_UserId r = ''uuid-3''" using web_login_ok by blast
  then show ?thesis using Login_sound[OF run(1)] by (auto simp: web_login_def)
qed

theorem Login_one_device_per_type_witness:
  "ud_DeviceType (hd (user_devices registered_db)) \<noteq> int16 (lq_DeviceType web_login)"
proof -
  obtain r w' where run: "Login example_service web_login later = (Inr r, w')" "lr_UserId r = ''uuid-3''"
      "hd (user_sessions registered_db) \<in> set (user_sessions (db w'))" using web_login_ok by blast
  have "healthy later" "hd (user_devices registered_db) \<in> set (user_devices (db later))"
    by (simp_all add: later_def init_world_def healthy_def registered_db_def)
  then show ?thesis
    using Login_one_device_per_type[OF _ run(1,3), of "hd (user_devices registered_db)"] run(2)
    by (simp add: registered_db_def device_key_def web_login_def)
qed



end
