(* ===== verification/Rtc_Model.thy ===== *)
theory Rtc_Model
  imports Credentials
begin

text \<open>
  Calls and meetings (\<open>app/rtc\<close>): the rows of migration 000008, the repositories, the service and the
  gRPC handlers.  LiveKit (rooms and access tokens), bcrypt and the friend service are parameters; the
  requests for rooms are recorded in the outbox.  The goroutine that deletes a room runs where it is
  started; its error is logged.
\<close>

subsection \<open>Rows (\<open>internal/model/calling.go\<close>)\<close>

abbreviation (input) CallTypeAudio :: int where "CallTypeAudio \<equiv> 0"
abbreviation (input) CallTypeVideo :: int where "CallTypeVideo \<equiv> 1"

abbreviation (input) CallStatusRinging :: int where "CallStatusRinging \<equiv> 0"
abbreviation (input) CallStatusConnected :: int where "CallStatusConnected \<equiv> 1"
abbreviation (input) CallStatusEnded :: int where "CallStatusEnded \<equiv> 2"
abbreviation (input) CallStatusRejected :: int where "CallStatusRejected \<equiv> 3"
abbreviation (input) CallStatusMissed :: int where "CallStatusMissed \<equiv> 4"
abbreviation (input) CallStatusCancelled :: int where "CallStatusCancelled \<equiv> 5"

abbreviation (input) MeetingStatusActive :: int where "MeetingStatusActive \<equiv> 0"
abbreviation (input) MeetingStatusEnded :: int where "MeetingStatusEnded \<equiv> 1"

record CallSession =
  cs_ID :: int
  cs_CallID :: string
  cs_CallerID :: string
  cs_CalleeID :: string
  cs_CallType :: int
  cs_Status :: int
  cs_RoomName :: string
  cs_StartedAt :: int
  cs_ConnectedAt :: "int option"
  cs_EndedAt :: "int option"
  cs_Duration :: int
  cs_CreatedAt :: int
  cs_UpdatedAt :: int

record MeetingRoom =
  mr_ID :: int
  mr_RoomID :: string
  mr_CreatorID :: string
  mr_Title :: string
  mr_RoomName :: string
  mr_PasswordHash :: string
  mr_MaxParticipants :: int
  mr_Status :: int
  mr_StartedAt :: int
  mr_EndedAt :: "int option"
  mr_CreatedAt :: int
  mr_UpdatedAt :: int

record rtc_db =
  call_sessions :: "CallSession list"
  meeting_rooms :: "MeetingRoom list"

definition empty_rtc_db :: rtc_db where
  "empty_rtc_db = \<lparr>call_sessions = [], meeting_rooms = []\<rparr>"

text \<open>The zero value of \<open>time.Time\<close>: 1 January of the year 1.\<close>

definition ZeroTime :: int where
  "ZeroTime = - 62135596800 * Second"

definition time_or :: "int \<Rightarrow> int \<Rightarrow> int" where
  "time_or t x = (if x = ZeroTime then t else x)"

subsection \<open>Repositories\<close>

text \<open>The database refuses a value that does not fit the 32-bit columns \<open>duration\<close> and
  \<open>max_participants\<close>.\<close>

definition fits_int32 :: "int \<Rightarrow> bool" where
  "fits_int32 x = (int32 x = x)"

abbreviation (input) out_of_range :: err where
  "out_of_range \<equiv> Plain ''ERROR: integer out of range''"

definition insert_call :: "CallSession \<Rightarrow> rtc_db \<Rightarrow> err + unit \<times> rtc_db" where
  "insert_call c d =
     (if \<not> fits_int32 (cs_Duration c) then Inl out_of_range
      else if has_key cs_ID (cs_ID c) (call_sessions d) then Inl (UniqueViolation ''call_sessions_pkey'')
      else if has_key cs_CallID (cs_CallID c) (call_sessions d) then Inl (UniqueViolation ''call_sessions_call_id_key'')
      else Inr ((), d\<lparr>call_sessions := call_sessions d @ [c]\<rparr>))"

definition callRepo_CreateCallSession :: "CallSession \<Rightarrow> (rtc_db, unit) M" where
  "callRepo_CreateCallSession session =
     bindE (next_serial SeqCallSessions) (\<lambda>i. bindE now (\<lambda>t.
     exec (insert_call (session\<lparr>cs_ID := i, cs_StartedAt := time_or t (cs_StartedAt session),
       cs_CreatedAt := t, cs_UpdatedAt := t\<rparr>))))"

definition callRepo_GetCallSession :: "string \<Rightarrow> (rtc_db, CallSession) M" where
  "callRepo_GetCallSession callID =
     find_one (\<lambda>d. first_where (\<lambda>c. cs_CallID c = callID) cs_ID (call_sessions d))"

text \<open>\<open>Save\<close>: all columns of the row with the primary key, or an insertion when there is none.\<close>

definition save_call :: "CallSession \<Rightarrow> rtc_db \<Rightarrow> err + unit \<times> rtc_db" where
  "save_call c d =
     (if has_key cs_ID (cs_ID c) (call_sessions d) then
        (if \<not> fits_int32 (cs_Duration c) then Inl out_of_range
         else if list_ex (\<lambda>x. cs_ID x \<noteq> cs_ID c \<and> cs_CallID x = cs_CallID c) (call_sessions d) then
           Inl (UniqueViolation ''call_sessions_call_id_key'')
         else Inr ((), d\<lparr>call_sessions := update_where (\<lambda>x. cs_ID x = cs_ID c) (\<lambda>_. c) (call_sessions d)\<rparr>))
      else insert_call c d)"

definition callRepo_UpdateCallSession :: "CallSession \<Rightarrow> (rtc_db, unit) M" where
  "callRepo_UpdateCallSession session = bindE now (\<lambda>t. exec (save_call (session\<lparr>cs_UpdatedAt := t\<rparr>)))"

definition page_of :: "int \<Rightarrow> int" where
  "page_of page = (if page < 1 then 1 else page)"

definition page_size_of :: "int \<Rightarrow> int" where
  "page_size_of pageSize = (if pageSize < 1 \<or> pageSize > 100 then 20 else pageSize)"

text \<open>The count and the page are two statements.\<close>

definition callRepo_ListCallLogs :: "string \<Rightarrow> int \<Rightarrow> int \<Rightarrow> (rtc_db, CallSession list \<times> int) M" where
  "callRepo_ListCallLogs userID page pageSize =
     (let mine = (\<lambda>c. cs_CallerID c = userID \<or> cs_CalleeID c = userID);
          size = page_size_of pageSize in
      bindE (query (\<lambda>d. int (count_where mine (call_sessions d)))) (\<lambda>total.
      bindE (query (\<lambda>d. limit_offset size ((page_of page - 1) * size)
        (select_where mine (\<lambda>c. - cs_CreatedAt c) (call_sessions d)))) (\<lambda>rows.
      returnE (rows, total))))"

definition insert_meeting :: "MeetingRoom \<Rightarrow> rtc_db \<Rightarrow> err + unit \<times> rtc_db" where
  "insert_meeting m d =
     (if \<not> fits_int32 (mr_MaxParticipants m) then Inl out_of_range
      else if has_key mr_ID (mr_ID m) (meeting_rooms d) then Inl (UniqueViolation ''meeting_rooms_pkey'')
      else if has_key mr_RoomID (mr_RoomID m) (meeting_rooms d) then Inl (UniqueViolation ''meeting_rooms_room_id_key'')
      else if has_key mr_RoomName (mr_RoomName m) (meeting_rooms d) then Inl (UniqueViolation ''meeting_rooms_room_name_key'')
      else Inr ((), d\<lparr>meeting_rooms := meeting_rooms d @ [m]\<rparr>))"

text \<open>\<open>Create\<close> fills the timestamps of the caller's struct, which is returned.\<close>

definition meetingRepo_CreateMeeting :: "MeetingRoom \<Rightarrow> (rtc_db, MeetingRoom) M" where
  "meetingRepo_CreateMeeting meeting =
     bindE (next_serial SeqMeetingRooms) (\<lambda>i. bindE now (\<lambda>t.
     let m = meeting\<lparr>mr_ID := i, mr_StartedAt := time_or t (mr_StartedAt meeting), mr_CreatedAt := t, mr_UpdatedAt := t\<rparr> in
     thenE (exec (insert_meeting m)) (returnE m)))"

definition meetingRepo_GetMeetingByRoomID :: "string \<Rightarrow> (rtc_db, MeetingRoom) M" where
  "meetingRepo_GetMeetingByRoomID roomID =
     find_one (\<lambda>d. first_where (\<lambda>m. mr_RoomID m = roomID) mr_ID (meeting_rooms d))"

definition save_meeting :: "MeetingRoom \<Rightarrow> rtc_db \<Rightarrow> err + unit \<times> rtc_db" where
  "save_meeting m d =
     (if has_key mr_ID (mr_ID m) (meeting_rooms d) then
        (if \<not> fits_int32 (mr_MaxParticipants m) then Inl out_of_range
         else if list_ex (\<lambda>x. mr_ID x \<noteq> mr_ID m \<and> mr_RoomID x = mr_RoomID m) (meeting_rooms d) then
           Inl (UniqueViolation ''meeting_rooms_room_id_key'')
         else if list_ex (\<lambda>x. mr_ID x \<noteq> mr_ID m \<and> mr_RoomName x = mr_RoomName m) (meeting_rooms d) then
           Inl (UniqueViolation ''meeting_rooms_room_name_key'')
         else Inr ((), d\<lparr>meeting_rooms := update_where (\<lambda>x. mr_ID x = mr_ID m) (\<lambda>_. m) (meeting_rooms d)\<rparr>))
      else insert_meeting m d)"

definition meetingRepo_UpdateMeeting :: "MeetingRoom \<Rightarrow> (rtc_db, unit) M" where
  "meetingRepo_UpdateMeeting meeting = bindE now (\<lambda>t. exec (save_meeting (meeting\<lparr>mr_UpdatedAt := t\<rparr>)))"

definition meetingRepo_ListActiveMeetings :: "int \<Rightarrow> int \<Rightarrow> (rtc_db, MeetingRoom list \<times> int) M" where
  "meetingRepo_ListActiveMeetings page pageSize =
     (let active = (\<lambda>m. mr_Status m = MeetingStatusActive);
          size = page_size_of pageSize in
      bindE (query (\<lambda>d. int (count_where active (meeting_rooms d)))) (\<lambda>total.
      bindE (query (\<lambda>d. limit_offset size ((page_of page - 1) * size)
        (select_where active (\<lambda>m. - mr_CreatedAt m) (meeting_rooms d)))) (\<lambda>rows.
      returnE (rows, total))))"

lemmas rtc_repo_defs = callRepo_CreateCallSession_def callRepo_GetCallSession_def callRepo_UpdateCallSession_def
  callRepo_ListCallLogs_def meetingRepo_CreateMeeting_def meetingRepo_GetMeetingByRoomID_def
  meetingRepo_UpdateMeeting_def meetingRepo_ListActiveMeetings_def

end
