(* ===== verification/Rtc_Service.thy ===== *)
theory Rtc_Service
  imports Rtc_Model
begin

text \<open>
  The operations of the rtc service (\<open>internal/service/rtc_service.go\<close>) and the gRPC handlers above them
  (\<open>internal/handler/rtc_handler.go\<close>).
\<close>

subsection \<open>The service\<close>

record VideoGrant =
  vg_RoomJoin :: bool
  vg_Room :: string
  vg_RoomAdmin :: bool

text \<open>\<open>rt_ToJWT\<close> is LiveKit's token: key, secret, grant, identity, validity and the time of issue.  The
  room requests are answered at a logical time; \<open>rt_CreateRoom\<close> gets the name, the empty timeout and the
  participant limit.\<close>

record rtcServiceImpl =
  rt_APIKey :: string
  rt_APISecret :: string
  rt_friendClient :: "(nat \<Rightarrow> string \<Rightarrow> string \<Rightarrow> err + bool) option"
  rt_CreateRoom :: "nat \<Rightarrow> string \<Rightarrow> int \<Rightarrow> int \<Rightarrow> err + unit"
  rt_DeleteRoom :: "nat \<Rightarrow> string \<Rightarrow> err + unit"
  rt_ToJWT :: "string \<Rightarrow> string \<Rightarrow> VideoGrant \<Rightarrow> string \<Rightarrow> int \<Rightarrow> int \<Rightarrow> err + string"
  rt_bcrypt :: bcrypt_lib

definition tokenTTL :: int where
  "tokenTTL = 2 * Hour"

definition generateToken :: "rtcServiceImpl \<Rightarrow> string \<Rightarrow> string \<Rightarrow> bool \<Rightarrow> (rtc_db, string) M" where
  "generateToken s roomName identity isAdmin =
     bindE now (\<lambda>t. liftE (rt_ToJWT s (rt_APIKey s) (rt_APISecret s)
       \<lparr>vg_RoomJoin = True, vg_Room = roomName, vg_RoomAdmin = isAdmin\<rparr> identity tokenTTL t))"

definition createRoom :: "rtcServiceImpl \<Rightarrow> string \<Rightarrow> int \<Rightarrow> int \<Rightarrow> (rtc_db, unit) M" where
  "createRoom s roomName emptyTimeout maxParticipants =
     thenE (emit (Called ''CreateRoom'' [roomName, itoa emptyTimeout, itoa maxParticipants]))
       (rpc (\<lambda>n. rt_CreateRoom s n roomName emptyTimeout maxParticipants))"

definition deleteRoom :: "rtcServiceImpl \<Rightarrow> string \<Rightarrow> (rtc_db, unit) M" where
  "deleteRoom s roomName =
     thenE (emit (Called ''DeleteRoom'' [roomName])) (ignoreE (rpc (\<lambda>n. rt_DeleteRoom s n roomName)))"

text \<open>\<open>return nil, status.Errorf(codes.Internal, "what: %v", err)\<close>, and a status in place of every error.\<close>

definition internalE :: "string \<Rightarrow> ('db, 'a) M \<Rightarrow> ('db, 'a) M" where
  "internalE what m = catchE m (\<lambda>e. throwE (Status Internal (what @ '': '' @ err_string e)))"

definition statusE :: "grpc_code \<Rightarrow> string \<Rightarrow> ('db, 'a) M \<Rightarrow> ('db, 'a) M" where
  "statusE code msg m = catchE m (\<lambda>_. throwE (Status code msg))"

definition uint32 :: "int \<Rightarrow> int" where
  "uint32 x = x mod 4294967296"

subsection \<open>Answers\<close>

record CallSessionPb =
  pc_CallId :: string
  pc_CallerId :: string
  pc_CalleeId :: string
  pc_CallType :: int
  pc_Status :: int
  pc_StartedAt :: "int option"
  pc_EndedAt :: "int option"
  pc_Duration :: int
  pc_RoomName :: string
  pc_Token :: string

record CallLogPb =
  lg_CallId :: string
  lg_TargetId :: string
  lg_CallType :: int
  lg_Status :: int
  lg_Duration :: int

record MeetingPb =
  pm_RoomId :: string
  pm_Title :: string
  pm_CreatorId :: string
  pm_HasPassword :: bool
  pm_MaxParticipants :: int
  pm_CurrentParticipants :: int
  pm_StartedAt :: "int option"
  pm_EndedAt :: "int option"
  pm_IsActive :: bool
  pm_Token :: string

definition toProtoCallSession :: "CallSession \<Rightarrow> CallSessionPb" where
  "toProtoCallSession s =
     \<lparr>pc_CallId = cs_CallID s, pc_CallerId = cs_CallerID s, pc_CalleeId = cs_CalleeID s, pc_CallType = cs_CallType s,
      pc_Status = cs_Status s, pc_StartedAt = (if cs_StartedAt s = ZeroTime then None else Some (cs_StartedAt s)),
      pc_EndedAt = cs_EndedAt s, pc_Duration = cs_Duration s, pc_RoomName = cs_RoomName s, pc_Token = ''''\<rparr>"

definition toProtoCallLog :: "CallSession \<Rightarrow> CallLogPb" where
  "toProtoCallLog s =
     \<lparr>lg_CallId = cs_CallID s, lg_TargetId = cs_CalleeID s, lg_CallType = cs_CallType s, lg_Status = cs_Status s,
      lg_Duration = cs_Duration s\<rparr>"

definition toProtoMeeting :: "MeetingRoom \<Rightarrow> string \<Rightarrow> MeetingPb" where
  "toProtoMeeting m token =
     \<lparr>pm_RoomId = mr_RoomID m, pm_Title = mr_Title m, pm_CreatorId = mr_CreatorID m,
      pm_HasPassword = (mr_PasswordHash m \<noteq> ''''), pm_MaxParticipants = int32 (mr_MaxParticipants m),
      pm_CurrentParticipants = 0, pm_StartedAt = (if mr_StartedAt m = ZeroTime then None else Some (mr_StartedAt m)),
      pm_EndedAt = mr_EndedAt m, pm_IsActive = (mr_Status m = MeetingStatusActive), pm_Token = token\<rparr>"

definition callTicket :: "string \<Rightarrow> string \<Rightarrow> string \<Rightarrow> CallSessionPb" where
  "callTicket callID roomName token =
     \<lparr>pc_CallId = callID, pc_CallerId = '''', pc_CalleeId = '''', pc_CallType = 0, pc_Status = 0, pc_StartedAt = None,
      pc_EndedAt = None, pc_Duration = 0, pc_RoomName = roomName, pc_Token = token\<rparr>"

subsection \<open>Calls\<close>

definition notifyPeer :: "string \<Rightarrow> string \<Rightarrow> string \<Rightarrow> payload \<Rightarrow> (rtc_db, unit) M" where
  "notifyPeer notificationType fromUserID toUserID entries =
     bindE (NewNotification notificationType fromUserID PriorityHigh) (\<lambda>notif.
     ignoreE (PublishToUser toUserID (fold (\<lambda>(k, v) n. AddPayloadField n k v) entries notif)))"

definition newCall :: "string \<Rightarrow> string \<Rightarrow> string \<Rightarrow> int \<Rightarrow> CallSession" where
  "newCall callID callerID calleeID callType =
     \<lparr>cs_ID = 0, cs_CallID = callID, cs_CallerID = callerID, cs_CalleeID = calleeID, cs_CallType = callType,
      cs_Status = CallStatusRinging, cs_RoomName = ''call_'' @ callID, cs_StartedAt = ZeroTime, cs_ConnectedAt = None,
      cs_EndedAt = None, cs_Duration = 0, cs_CreatedAt = ZeroTime, cs_UpdatedAt = ZeroTime\<rparr>"

definition InitiateCall :: "rtcServiceImpl \<Rightarrow> string \<Rightarrow> string \<Rightarrow> int \<Rightarrow> (rtc_db, CallSessionPb) M" where
  "InitiateCall s callerID calleeID callType =
     (case rt_friendClient s of
        None \<Rightarrow> throwE (Status Internal ''friend client is not initialized'')
      | Some isBlocked \<Rightarrow>
          bindE (internalE ''failed to verify blacklist'' (rpc (\<lambda>n. isBlocked n callerID calleeID))) (\<lambda>blocked.
          thenE (guardE (\<not> blocked) (Status PermissionDenied ''user blocked'')) (
          bindE new_uuid (\<lambda>callID.
          let roomName = ''call_'' @ callID in
          thenE (internalE ''create room'' (createRoom s roomName 300 0)) (
          bindE (internalE ''generate token'' (generateToken s roomName callerID True)) (\<lambda>token.
          thenE (internalE ''save session'' (callRepo_CreateCallSession (newCall callID callerID calleeID callType))) (
          thenE (notifyPeer TypeLiveKitCallInvite callerID calleeID
            [(''call_id'', JStr callID), (''caller_id'', JStr callerID), (''call_type'', JInt callType)]) (
          returnE (callTicket callID roomName token))))))))) "

definition findCall :: "string \<Rightarrow> (rtc_db, CallSession) M" where
  "findCall callID = statusE NotFound ''call session not found'' (callRepo_GetCallSession callID)"

definition ringingFor :: "CallSession \<Rightarrow> string \<Rightarrow> (rtc_db, unit) M" where
  "ringingFor session userID =
     thenE (guardE (cs_Status session = CallStatusRinging)
       (Status FailedPrecondition (''call is not in ringing state: '' @ itoa (cs_Status session))))
     (guardE (cs_CalleeID session = userID) (Status PermissionDenied ''not the callee of this call''))"

definition JoinCall :: "rtcServiceImpl \<Rightarrow> string \<Rightarrow> string \<Rightarrow> (rtc_db, CallSessionPb) M" where
  "JoinCall s callID userID =
     bindE (findCall callID) (\<lambda>session.
     thenE (ringingFor session userID) (
     bindE (internalE ''generate token'' (generateToken s (cs_RoomName session) userID False)) (\<lambda>token.
     bindE now (\<lambda>t.
     thenE (ignoreE (callRepo_UpdateCallSession (session\<lparr>cs_Status := CallStatusConnected, cs_ConnectedAt := Some t\<rparr>))) (
     thenE (notifyPeer TypeLiveKitCallStatus userID (cs_CallerID session)
       [(''call_id'', JStr callID), (''status'', JInt CallStatusConnected)]) (
     returnE (callTicket callID (cs_RoomName session) token)))))))"

definition RejectCall :: "rtcServiceImpl \<Rightarrow> string \<Rightarrow> string \<Rightarrow> (rtc_db, unit) M" where
  "RejectCall s callID userID =
     bindE (findCall callID) (\<lambda>session.
     thenE (ringingFor session userID) (
     bindE now (\<lambda>t.
     thenE (ignoreE (callRepo_UpdateCallSession (session\<lparr>cs_Status := CallStatusRejected, cs_EndedAt := Some t\<rparr>))) (
     thenE (deleteRoom s (cs_RoomName session)) (
     notifyPeer TypeLiveKitCallRejected userID (cs_CallerID session)
       [(''call_id'', JStr callID), (''callee_id'', JStr userID)])))))"

text \<open>\<open>int(now.Sub(t).Seconds())\<close>: the difference saturates at the bounds of \<open>time.Duration\<close> and is cut
  towards zero.  \<open>Seconds\<close> is computed exactly here; in floating point the last second of a call of more
  than \<open>2\<^sup>2\<^sup>2\<close> seconds may be rounded up.\<close>

definition time_Sub :: "int \<Rightarrow> int \<Rightarrow> int" where
  "time_Sub t u = max (- 9223372036854775808) (min 9223372036854775807 (t - u))"

definition whole_seconds :: "int \<Rightarrow> int" where
  "whole_seconds x = (if x < 0 then - (- x div Second) else x div Second)"

definition endedCall :: "int \<Rightarrow> CallSession \<Rightarrow> CallSession" where
  "endedCall t session =
     session\<lparr>cs_Status := (if cs_Status session = CallStatusRinging then CallStatusCancelled else CallStatusEnded),
       cs_EndedAt := Some t,
       cs_Duration := (case cs_ConnectedAt session of None \<Rightarrow> cs_Duration session | Some c \<Rightarrow> whole_seconds (time_Sub t c))\<rparr>"

definition participant :: "CallSession \<Rightarrow> string \<Rightarrow> bool" where
  "participant session userID = (cs_CallerID session = userID \<or> cs_CalleeID session = userID)"

definition EndCall :: "rtcServiceImpl \<Rightarrow> string \<Rightarrow> string \<Rightarrow> (rtc_db, unit) M" where
  "EndCall s callID userID =
     bindE (findCall callID) (\<lambda>session.
     thenE (guardE (participant session userID) (Status PermissionDenied ''not a participant of this call'')) (
     if cs_Status session = CallStatusEnded \<or> cs_Status session = CallStatusRejected then returnE ()
     else
       bindE now (\<lambda>t.
       thenE (ignoreE (callRepo_UpdateCallSession (endedCall t session))) (
       thenE (deleteRoom s (cs_RoomName session)) (
       notifyPeer TypeLiveKitCallStatus userID
         (if userID = cs_CallerID session then cs_CalleeID session else cs_CallerID session)
         [(''call_id'', JStr callID), (''status'', JInt (cs_Status (endedCall t session)))])))))"

definition GetCallSession :: "string \<Rightarrow> string \<Rightarrow> (rtc_db, CallSessionPb) M" where
  "GetCallSession callID userID =
     bindE (findCall callID) (\<lambda>session.
     thenE (guardE (participant session userID) (Status PermissionDenied ''not a participant of this call'')) (
     returnE (toProtoCallSession session)))"

definition ListCallLogs :: "string \<Rightarrow> int \<Rightarrow> int \<Rightarrow> (rtc_db, CallLogPb list \<times> int) M" where
  "ListCallLogs userID page pageSize =
     bindE (internalE ''list call logs'' (callRepo_ListCallLogs userID page pageSize)) (\<lambda>(sessions, total).
     returnE (map toProtoCallLog sessions, total))"

subsection \<open>Meetings\<close>

definition meetingHash :: "rtcServiceImpl \<Rightarrow> string \<Rightarrow> (rtc_db, string) M" where
  "meetingHash s password = (if password \<noteq> '''' then internalE ''hash meeting password'' (HashPassword (rt_bcrypt s) password)
     else returnE '''')"

definition newMeeting :: "string \<Rightarrow> string \<Rightarrow> string \<Rightarrow> string \<Rightarrow> int \<Rightarrow> MeetingRoom" where
  "newMeeting roomID creatorID title passwordHash maxParticipants =
     \<lparr>mr_ID = 0, mr_RoomID = roomID, mr_CreatorID = creatorID, mr_Title = title, mr_RoomName = ''meeting_'' @ roomID,
      mr_PasswordHash = passwordHash, mr_MaxParticipants = maxParticipants, mr_Status = MeetingStatusActive,
      mr_StartedAt = ZeroTime, mr_EndedAt = None, mr_CreatedAt = ZeroTime, mr_UpdatedAt = ZeroTime\<rparr>"

definition CreateMeeting :: "rtcServiceImpl \<Rightarrow> string \<Rightarrow> string \<Rightarrow> string \<Rightarrow> int \<Rightarrow> (rtc_db, MeetingPb) M" where
  "CreateMeeting s creatorID title password maxParticipants =
     bindE new_uuid (\<lambda>roomID.
     let roomName = ''meeting_'' @ roomID in
     thenE (internalE ''create room'' (createRoom s roomName 0 (uint32 maxParticipants))) (
     bindE (meetingHash s password) (\<lambda>passwordHash.
     bindE (internalE ''save meeting''
       (meetingRepo_CreateMeeting (newMeeting roomID creatorID title passwordHash maxParticipants))) (\<lambda>meeting.
     bindE (internalE ''generate token'' (generateToken s roomName creatorID True)) (\<lambda>token.
     returnE (toProtoMeeting meeting token))))))"

definition findMeeting :: "string \<Rightarrow> (rtc_db, MeetingRoom) M" where
  "findMeeting roomID = statusE NotFound ''meeting not found'' (meetingRepo_GetMeetingByRoomID roomID)"

definition JoinMeeting :: "rtcServiceImpl \<Rightarrow> string \<Rightarrow> string \<Rightarrow> string \<Rightarrow> (rtc_db, MeetingPb) M" where
  "JoinMeeting s userID roomID password =
     bindE (findMeeting roomID) (\<lambda>meeting.
     thenE (guardE (mr_Status meeting = MeetingStatusActive) (Status FailedPrecondition ''meeting has ended'')) (
     thenE (guardE (\<not> (mr_PasswordHash meeting \<noteq> '''' \<and> \<not> CheckPassword (rt_bcrypt s) password (mr_PasswordHash meeting)))
       (Status PermissionDenied ''incorrect password'')) (
     bindE (internalE ''generate token'' (generateToken s (mr_RoomName meeting) userID (mr_CreatorID meeting = userID))) (\<lambda>token.
     returnE (toProtoMeeting meeting token)))))"

definition EndMeeting :: "rtcServiceImpl \<Rightarrow> string \<Rightarrow> string \<Rightarrow> (rtc_db, unit) M" where
  "EndMeeting s roomID creatorID =
     bindE (findMeeting roomID) (\<lambda>meeting.
     thenE (guardE (mr_CreatorID meeting = creatorID) (Status PermissionDenied ''only creator can end the meeting'')) (
     if mr_Status meeting = MeetingStatusEnded then returnE ()
     else
       bindE now (\<lambda>t.
       thenE (ignoreE (meetingRepo_UpdateMeeting (meeting\<lparr>mr_Status := MeetingStatusEnded, mr_EndedAt := Some t\<rparr>))) (
       deleteRoom s (mr_RoomName meeting)))))"

definition GetMeeting :: "string \<Rightarrow> (rtc_db, MeetingPb) M" where
  "GetMeeting roomID = bindE (findMeeting roomID) (\<lambda>meeting. returnE (toProtoMeeting meeting ''''))"

definition ListMeetings :: "int \<Rightarrow> int \<Rightarrow> (rtc_db, MeetingPb list \<times> int) M" where
  "ListMeetings page pageSize =
     bindE (internalE ''list meetings'' (meetingRepo_ListActiveMeetings page pageSize)) (\<lambda>(meetings, total).
     returnE (map (\<lambda>m. toProtoMeeting m '''') meetings, total))"

subsection \<open>Handlers\<close>

text \<open>The call and meeting requests; an absent password is the empty one.\<close>

definition RtcHandler_InitiateCall :: "rtcServiceImpl \<Rightarrow> ctx \<Rightarrow> string \<Rightarrow> int \<Rightarrow> (rtc_db, CallSessionPb) M" where
  "RtcHandler_InitiateCall s ctx calleeId callType =
     bindE (MustGetUserID ctx) (\<lambda>callerID.
     if callerID = '''' \<or> calleeId = '''' then badRequestE ''caller_id and callee_id are required''
     else if callerID = calleeId then badRequestE ''caller and callee cannot be the same''
     else convertE (InitiateCall s callerID calleeId (int16 callType)))"

definition withCall :: "ctx \<Rightarrow> string \<Rightarrow> (string \<Rightarrow> (rtc_db, 'a) M) \<Rightarrow> (rtc_db, 'a) M" where
  "withCall ctx callId op =
     bindE (MustGetUserID ctx) (\<lambda>userID.
     if callId = '''' \<or> userID = '''' then badRequestE ''call_id and user_id are required''
     else convertE (op userID))"

definition RtcHandler_JoinCall :: "rtcServiceImpl \<Rightarrow> ctx \<Rightarrow> string \<Rightarrow> (rtc_db, CallSessionPb) M" where
  "RtcHandler_JoinCall s ctx callId = withCall ctx callId (JoinCall s callId)"

definition RtcHandler_RejectCall :: "rtcServiceImpl \<Rightarrow> ctx \<Rightarrow> string \<Rightarrow> (rtc_db, unit) M" where
  "RtcHandler_RejectCall s ctx callId = withCall ctx callId (RejectCall s callId)"

definition RtcHandler_EndCall :: "rtcServiceImpl \<Rightarrow> ctx \<Rightarrow> string \<Rightarrow> (rtc_db, unit) M" where
  "RtcHandler_EndCall s ctx callId = withCall ctx callId (EndCall s callId)"

definition RtcHandler_GetCallSession :: "ctx \<Rightarrow> string \<Rightarrow> (rtc_db, CallSessionPb) M" where
  "RtcHandler_GetCallSession ctx callId = withCall ctx callId (GetCallSession callId)"

definition RtcHandler_ListCallLogs :: "ctx \<Rightarrow> int \<Rightarrow> int \<Rightarrow> (rtc_db, CallLogPb list \<times> int) M" where
  "RtcHandler_ListCallLogs ctx page pageSize =
     bindE (MustGetUserID ctx) (\<lambda>userID.
     if userID = '''' then badRequestE ''user_id is required''
     else convertE (ListCallLogs userID page pageSize))"

definition RtcHandler_CreateMeeting ::
    "rtcServiceImpl \<Rightarrow> ctx \<Rightarrow> string \<Rightarrow> string option \<Rightarrow> int \<Rightarrow> (rtc_db, MeetingPb) M" where
  "RtcHandler_CreateMeeting s ctx title password maxParticipants =
     bindE (MustGetUserID ctx) (\<lambda>creatorID.
     if creatorID = '''' \<or> title = '''' then badRequestE ''creator_id and title are required''
     else convertE (CreateMeeting s creatorID title (case password of None \<Rightarrow> '''' | Some p \<Rightarrow> p) maxParticipants))"

definition RtcHandler_JoinMeeting :: "rtcServiceImpl \<Rightarrow> ctx \<Rightarrow> string \<Rightarrow> string option \<Rightarrow> (rtc_db, MeetingPb) M" where
  "RtcHandler_JoinMeeting s ctx roomId password =
     bindE (MustGetUserID ctx) (\<lambda>userID.
     if userID = '''' \<or> roomId = '''' then badRequestE ''user_id and room_id are required''
     else convertE (JoinMeeting s userID roomId (case password of None \<Rightarrow> '''' | Some p \<Rightarrow> p)))"

definition RtcHandler_EndMeeting :: "rtcServiceImpl \<Rightarrow> ctx \<Rightarrow> string \<Rightarrow> (rtc_db, unit) M" where
  "RtcHandler_EndMeeting s ctx roomId =
     bindE (MustGetUserID ctx) (\<lambda>creatorID.
     if roomId = '''' \<or> creatorID = '''' then badRequestE ''room_id and creator_id are required''
     else convertE (EndMeeting s roomId creatorID))"

definition RtcHandler_GetMeeting :: "string \<Rightarrow> (rtc_db, MeetingPb) M" where
  "RtcHandler_GetMeeting roomId =
     (if roomId = '''' then badRequestE ''room_id is required'' else convertE (GetMeeting roomId))"

definition RtcHandler_ListMeetings :: "int \<Rightarrow> int \<Rightarrow> (rtc_db, MeetingPb list \<times> int) M" where
  "RtcHandler_ListMeetings page pageSize = convertE (ListMeetings page pageSize)"

end
