(* ===== verification/Rtc.thy ===== *)
theory Rtc
  imports Rtc_Service Triples
begin

text \<open>
  Correctness of calls and meetings.  A call is a state machine: \<open>call_move\<close> is the relation of the
  transitions a user may cause, and every operation of the service, under every schedule of faults, either
  leaves a stored call alone or makes one of them.  The invariant says which columns belong together and is
  kept by every operation.
\<close>

subsection \<open>What one operation does to the tables\<close>

text \<open>The transitions of a call by a user: answer and decline are the callee's, ending is open to both.\<close>

inductive call_move :: "string \<Rightarrow> CallSession \<Rightarrow> CallSession \<Rightarrow> bool" where
  answer: "cs_Status c = CallStatusRinging \<Longrightarrow> cs_CalleeID c = u \<Longrightarrow>
    call_move u c (c\<lparr>cs_Status := CallStatusConnected, cs_ConnectedAt := Some t, cs_UpdatedAt := t'\<rparr>)"
| decline: "cs_Status c = CallStatusRinging \<Longrightarrow> cs_CalleeID c = u \<Longrightarrow>
    call_move u c (c\<lparr>cs_Status := CallStatusRejected, cs_EndedAt := Some t, cs_UpdatedAt := t'\<rparr>)"
| withdraw: "cs_Status c = CallStatusRinging \<Longrightarrow> participant c u \<Longrightarrow>
    call_move u c ((endedCall t c)\<lparr>cs_UpdatedAt := t'\<rparr>)"
| hang_up: "cs_Status c \<notin> {CallStatusRinging, CallStatusEnded, CallStatusRejected} \<Longrightarrow> participant c u \<Longrightarrow>
    call_move u c ((endedCall t c)\<lparr>cs_UpdatedAt := t'\<rparr>)"

inductive meeting_move :: "string \<Rightarrow> MeetingRoom \<Rightarrow> MeetingRoom \<Rightarrow> bool" where
  close: "mr_Status m \<noteq> MeetingStatusEnded \<Longrightarrow> mr_CreatorID m = u \<Longrightarrow>
    meeting_move u m (m\<lparr>mr_Status := MeetingStatusEnded, mr_EndedAt := Some t, mr_UpdatedAt := t'\<rparr>)"

definition current_call :: "rtc_db \<Rightarrow> string \<Rightarrow> CallSession option" where
  "current_call d callID = first_where (\<lambda>c. cs_CallID c = callID) cs_ID (call_sessions d)"

definition current_meeting :: "rtc_db \<Rightarrow> string \<Rightarrow> MeetingRoom option" where
  "current_meeting d roomID = first_where (\<lambda>m. mr_RoomID m = roomID) mr_ID (meeting_rooms d)"

text \<open>The change an operation of user \<open>u\<close> may make: none, a transition of one call or meeting, or a new
  row; a new call was admitted by the friend service.\<close>

definition permitted :: "rtcServiceImpl \<Rightarrow> string \<Rightarrow> CallSession \<Rightarrow> bool" where
  "permitted s u c = (cs_CallerID c = u \<and> cs_CalleeID c \<noteq> u \<and> cs_Duration c = 0 \<and> cs_Status c = CallStatusRinging \<and> cs_ConnectedAt c = None \<and> cs_EndedAt c = None \<and>
     cs_RoomName c = ''call_'' @ cs_CallID c \<and>
     (\<exists>isBlocked n. rt_friendClient s = Some isBlocked \<and> isBlocked n u (cs_CalleeID c) = Inr False))"

definition opened :: "string \<Rightarrow> MeetingRoom \<Rightarrow> bool" where
  "opened u m = (mr_CreatorID m = u \<and> mr_Status m = MeetingStatusActive \<and> mr_EndedAt m = None \<and>
     mr_RoomName m = ''meeting_'' @ mr_RoomID m)"

definition rtc_change :: "rtcServiceImpl \<Rightarrow> string \<Rightarrow> rtc_db \<Rightarrow> rtc_db \<Rightarrow> bool" where
  "rtc_change s u d d' = (d' = d \<or>
     (\<exists>c c'. current_call d (cs_CallID c) = Some c \<and> call_move u c c' \<and> save_call c' d = Inr ((), d')) \<or>
     (\<exists>m m'. current_meeting d (mr_RoomID m) = Some m \<and> meeting_move u m m' \<and> save_meeting m' d = Inr ((), d')) \<or>
     (\<exists>c. permitted s u c \<and> insert_call c d = Inr ((), d')) \<or>
     (\<exists>m. opened u m \<and> insert_meeting m d = Inr ((), d')))"

lemma rtc_change_refl [simp]: "rtc_change s u d d"
  by (simp add: rtc_change_def)

subsection \<open>Calls\<close>

lemma keeps_rtc_steps [keeps_intros]:
  "keeps I (notifyPeer ty f t p)" "keeps I (deleteRoom s rn)" "keeps I (createRoom s rn et mp)"
  "keeps I (generateToken s rn u adm)" "keeps I m \<Longrightarrow> keeps I (internalE what m)" "keeps I m \<Longrightarrow> keeps I (statusE c msg m)"
  unfolding notifyPeer_def deleteRoom_def createRoom_def generateToken_def internalE_def statusE_def
  by (intro keeps_intros; simp)+

lemma keeps_rtc_reads [keeps_intros]:
  "keeps I (findCall c)" "keeps I (findMeeting r)" "keeps I (ringingFor x u)" "keeps I (meetingHash s p)"
  unfolding findCall_def findMeeting_def ringingFor_def meetingHash_def rtc_repo_defs by (intro keeps_intros)+

lemma ensures_findCall:
  "(\<And>d. P d \<Longrightarrow> J d) \<Longrightarrow> (\<And>c. ensures (\<lambda>d. P d \<and> current_call d callID = Some c) J (f c)) \<Longrightarrow>
     ensures P J (bindE (findCall callID) f)"
  unfolding findCall_def statusE_def callRepo_GetCallSession_def current_call_def by (rule ensures_catch_find)

lemma ensures_findMeeting:
  "(\<And>d. P d \<Longrightarrow> J d) \<Longrightarrow> (\<And>m. ensures (\<lambda>d. P d \<and> current_meeting d roomID = Some m) J (f m)) \<Longrightarrow>
     ensures P J (bindE (findMeeting roomID) f)"
  unfolding findMeeting_def statusE_def meetingRepo_GetMeetingByRoomID_def current_meeting_def by (rule ensures_catch_find)

lemma current_call_id: "current_call d callID = Some c \<Longrightarrow> cs_CallID c = callID"
  unfolding current_call_def by (drule first_where_SomeD) simp

lemma current_meeting_id: "current_meeting d roomID = Some m \<Longrightarrow> mr_RoomID m = roomID"
  unfolding current_meeting_def by (drule first_where_SomeD) simp

lemma ensures_ringing:
  "(cs_Status c = CallStatusRinging \<Longrightarrow> cs_CalleeID c = u \<Longrightarrow> ensures P J k) \<Longrightarrow> (\<And>d. P d \<Longrightarrow> J d) \<Longrightarrow>
     ensures P J (thenE (ringingFor c u) k)"
  unfolding ensures_def ringingFor_def by (simp add: monad_defs)

text \<open>The write of a transition and the notifications after it.\<close>

lemma ensures_transition:
  assumes "\<And>t'. call_move u c (c'\<lparr>cs_UpdatedAt := t'\<rparr>)" "\<And>I. keeps I k"
  shows "ensures (\<lambda>d. d = d0 \<and> current_call d callID = Some c) (rtc_change s u d0)
    (thenE (ignoreE (callRepo_UpdateCallSession c')) k)"
proof -
  have "rtc_change s u d0 d'" if "save_call (c'\<lparr>cs_UpdatedAt := t'\<rparr>) d0 = Inr ((), d')" "current_call d0 callID = Some c" for d' t'
    using that assms(1) current_call_id[OF that(2)] unfolding rtc_change_def by metis
  then show ?thesis
    unfolding callRepo_UpdateCallSession_def
    by (intro ensures_then_keeps assms ensures_ignore ensures_skip ensures_exec preserves_keeps keeps_intros) auto
qed

lemma ensures_closing:
  assumes "\<And>t'. meeting_move u m (m'\<lparr>mr_UpdatedAt := t'\<rparr>)" "\<And>I. keeps I k"
  shows "ensures (\<lambda>d. d = d0 \<and> current_meeting d roomID = Some m) (rtc_change s u d0)
    (thenE (ignoreE (meetingRepo_UpdateMeeting m')) k)"
proof -
  have "rtc_change s u d0 d'" if "save_meeting (m'\<lparr>mr_UpdatedAt := t'\<rparr>) d0 = Inr ((), d')" "current_meeting d0 roomID = Some m" for d' t'
    using that assms(1) current_meeting_id[OF that(2)] unfolding rtc_change_def by metis
  then show ?thesis
    unfolding meetingRepo_UpdateMeeting_def
    by (intro ensures_then_keeps assms ensures_ignore ensures_skip ensures_exec preserves_keeps keeps_intros) auto
qed

lemma JoinCall_change: "ensures (\<lambda>d. d = d0) (rtc_change s u d0) (JoinCall s callID u)"
  unfolding JoinCall_def
  by (intro ensures_findCall ensures_ringing ensures_skip[OF preserves_keeps] ensures_transition keeps_intros)
     (auto intro: call_move.answer)

lemma RejectCall_change: "ensures (\<lambda>d. d = d0) (rtc_change s u d0) (RejectCall s callID u)"
  unfolding RejectCall_def
  by (intro ensures_findCall ensures_ringing ensures_skip[OF preserves_keeps] ensures_transition keeps_intros)
     (auto intro: call_move.decline)

lemma EndCall_change: "ensures (\<lambda>d. d = d0) (rtc_change s u d0) (EndCall s callID u)"
proof -
  have "call_move u c ((endedCall t c)\<lparr>cs_UpdatedAt := t'\<rparr>)"
    if "participant c u" "\<not> (cs_Status c = CallStatusEnded \<or> cs_Status c = CallStatusRejected)" for c t t'
    using that call_move.withdraw[of c u t' t] call_move.hang_up[of c u t' t] by auto
  then show ?thesis
    unfolding EndCall_def
    by (intro ensures_findCall ensures_guard ensures_if ensures_return ensures_skip[OF preserves_keeps] ensures_transition
        keeps_intros) auto
qed

lemma InitiateCall_change: "u \<noteq> v \<Longrightarrow> ensures (\<lambda>d. d = d0) (rtc_change s u d0) (InitiateCall s u v ty)"
proof (cases "rt_friendClient s")
  case None then show ?thesis by (simp add: InitiateCall_def ensures_def throwE_def)
next
  case (Some isBlocked)
  assume "u \<noteq> v"
  have new: "rtc_change s u d0 d'" if "insert_call ((newCall i u v ty)\<lparr>cs_ID := j, cs_StartedAt := t, cs_CreatedAt := t', cs_UpdatedAt := t''\<rparr>) d0 = Inr ((), d')"
    "isBlocked n u v = Inr False" for i j t t' t'' d' n
  proof -
    have "permitted s u ((newCall i u v ty)\<lparr>cs_ID := j, cs_StartedAt := t, cs_CreatedAt := t', cs_UpdatedAt := t''\<rparr>)"
      using that(2) Some \<open>u \<noteq> v\<close> by (auto simp: permitted_def newCall_def)
    then show ?thesis using that(1) unfolding rtc_change_def by blast
  qed
  show ?thesis
    unfolding InitiateCall_def Some option.case Let_def internalE_def callRepo_CreateCallSession_def
    by (intro ensures_catch_rpc ensures_guard ensures_skip[OF preserves_keeps] ensures_skip_then[OF preserves_keeps]
        ensures_then_keeps ensures_catch_throw ensures_exec keeps_intros) (auto intro: new)
qed

subsection \<open>Meetings\<close>

lemma EndMeeting_change: "ensures (\<lambda>d. d = d0) (rtc_change s u d0) (EndMeeting s roomID u)"
  unfolding EndMeeting_def
  by (intro ensures_findMeeting ensures_guard ensures_if ensures_return ensures_skip[OF preserves_keeps] ensures_closing
      keeps_intros) (auto intro: meeting_move.close)

lemma CreateMeeting_change: "ensures (\<lambda>d. d = d0) (rtc_change s u d0) (CreateMeeting s u title pw mp)"
proof -
  have new: "rtc_change s u d0 d'" if "insert_meeting ((newMeeting i u title h mp)\<lparr>mr_ID := j, mr_StartedAt := t, mr_CreatedAt := t', mr_UpdatedAt := t''\<rparr>) d0 = Inr ((), d')"
    for i h j t t' t'' d'
  proof -
    have "opened u ((newMeeting i u title h mp)\<lparr>mr_ID := j, mr_StartedAt := t, mr_CreatedAt := t', mr_UpdatedAt := t''\<rparr>)"
      by (simp add: opened_def newMeeting_def)
    then show ?thesis using that unfolding rtc_change_def by blast
  qed
  have create: "ensures (\<lambda>d. d = d0) (rtc_change s u d0)
      (internalE ''save meeting'' (meetingRepo_CreateMeeting (newMeeting i u title h mp)))" for i h
    unfolding internalE_def meetingRepo_CreateMeeting_def Let_def
    by (intro ensures_catch_throw ensures_skip[OF preserves_keeps] ensures_then_keeps ensures_exec keeps_intros)
       (auto intro: new)
  show ?thesis
    unfolding CreateMeeting_def Let_def
    by (intro ensures_bind_keeps[OF create] ensures_skip[OF preserves_keeps] ensures_skip_then[OF preserves_keeps] keeps_intros) auto
qed

subsection \<open>The service\<close>

datatype rtc_op =
    OpInitiateCall ctx string int
  | OpJoinCall ctx string
  | OpRejectCall ctx string
  | OpEndCall ctx string
  | OpGetCallSession ctx string
  | OpListCallLogs ctx int int
  | OpCreateMeeting ctx string "string option" int
  | OpJoinMeeting ctx string "string option"
  | OpEndMeeting ctx string
  | OpGetMeeting string
  | OpListMeetings int int

fun rtc_step :: "rtcServiceImpl \<Rightarrow> rtc_op \<Rightarrow> (rtc_db, unit) M" where
  "rtc_step s (OpInitiateCall ctx v ty) = void (RtcHandler_InitiateCall s ctx v ty)"
| "rtc_step s (OpJoinCall ctx c) = void (RtcHandler_JoinCall s ctx c)"
| "rtc_step s (OpRejectCall ctx c) = RtcHandler_RejectCall s ctx c"
| "rtc_step s (OpEndCall ctx c) = RtcHandler_EndCall s ctx c"
| "rtc_step s (OpGetCallSession ctx c) = void (RtcHandler_GetCallSession ctx c)"
| "rtc_step s (OpListCallLogs ctx p n) = void (RtcHandler_ListCallLogs ctx p n)"
| "rtc_step s (OpCreateMeeting ctx t pw n) = void (RtcHandler_CreateMeeting s ctx t pw n)"
| "rtc_step s (OpJoinMeeting ctx r pw) = void (RtcHandler_JoinMeeting s ctx r pw)"
| "rtc_step s (OpEndMeeting ctx r) = RtcHandler_EndMeeting s ctx r"
| "rtc_step s (OpGetMeeting r) = void (RtcHandler_GetMeeting r)"
| "rtc_step s (OpListMeetings p n) = void (RtcHandler_ListMeetings p n)"

fun rtc_ctx :: "rtc_op \<Rightarrow> ctx" where
  "rtc_ctx (OpInitiateCall ctx _ _) = ctx"
| "rtc_ctx (OpJoinCall ctx _) = ctx"
| "rtc_ctx (OpRejectCall ctx _) = ctx"
| "rtc_ctx (OpEndCall ctx _) = ctx"
| "rtc_ctx (OpGetCallSession ctx _) = ctx"
| "rtc_ctx (OpListCallLogs ctx _ _) = ctx"
| "rtc_ctx (OpCreateMeeting ctx _ _ _) = ctx"
| "rtc_ctx (OpJoinMeeting ctx _ _) = ctx"
| "rtc_ctx (OpEndMeeting ctx _) = ctx"
| "rtc_ctx (OpGetMeeting _) = None"
| "rtc_ctx (OpListMeetings _ _) = None"

text \<open>The user an operation is run for, as the incoming metadata name them.\<close>

definition operator :: "rtc_op \<Rightarrow> string" where
  "operator op = fst (GetUserID (rtc_ctx op))"

lemma keeps_rtc_queries:
  "keeps I (GetCallSession c u)" "keeps I (ListCallLogs u p n)" "keeps I (JoinMeeting s u r pw)"
  "keeps I (GetMeeting r)" "keeps I (ListMeetings p n)"
  unfolding GetCallSession_def ListCallLogs_def JoinMeeting_def GetMeeting_def ListMeetings_def rtc_repo_defs Let_def
  by (intro keeps_intros)+

lemmas rtc_handler_defs = RtcHandler_InitiateCall_def RtcHandler_JoinCall_def RtcHandler_RejectCall_def RtcHandler_EndCall_def
  RtcHandler_GetCallSession_def RtcHandler_ListCallLogs_def RtcHandler_CreateMeeting_def RtcHandler_JoinMeeting_def
  RtcHandler_EndMeeting_def RtcHandler_GetMeeting_def RtcHandler_ListMeetings_def withCall_def

text \<open>Every operation changes the tables as \<open>rtc_change\<close> allows its operator; a call is never recorded
  between a user and themselves.\<close>

lemma rtc_step_change: "ensures (\<lambda>d. d = d0) (rtc_change s (operator op) d0) (rtc_step s op)"
  unfolding operator_def
  by (cases op)
     (simp_all only: rtc_step.simps rtc_handler_defs rtc_ctx.simps,
      intro ensures_void ensures_MustGetUserID ensures_if ensures_badRequest ensures_convert InitiateCall_change JoinCall_change
        RejectCall_change EndCall_change CreateMeeting_change EndMeeting_change ensures_still[OF preserves_keeps]
        keeps_rtc_queries; simp)+

subsection \<open>The invariant\<close>

definition call_ok :: "CallSession \<Rightarrow> bool" where
  "call_ok c = (cs_Status c \<in> {CallStatusRinging, CallStatusConnected, CallStatusEnded, CallStatusRejected, CallStatusCancelled} \<and>
     (cs_EndedAt c = None \<longleftrightarrow> cs_Status c \<in> {CallStatusRinging, CallStatusConnected}) \<and>
     (cs_Status c \<in> {CallStatusRinging, CallStatusRejected, CallStatusCancelled} \<longrightarrow> cs_ConnectedAt c = None) \<and>
     (cs_Status c = CallStatusConnected \<longrightarrow> cs_ConnectedAt c \<noteq> None) \<and> (cs_ConnectedAt c = None \<longrightarrow> cs_Duration c = 0) \<and>
     cs_RoomName c = ''call_'' @ cs_CallID c \<and> cs_CallerID c \<noteq> cs_CalleeID c)"

definition meeting_ok :: "MeetingRoom \<Rightarrow> bool" where
  "meeting_ok m = (mr_Status m \<in> {MeetingStatusActive, MeetingStatusEnded} \<and>
     (mr_EndedAt m = None \<longleftrightarrow> mr_Status m = MeetingStatusActive) \<and> mr_RoomName m = ''meeting_'' @ mr_RoomID m)"

definition rtc_inv :: "rtc_db \<Rightarrow> bool" where
  "rtc_inv d = (uniq cs_ID (call_sessions d) \<and> uniq cs_CallID (call_sessions d) \<and> (\<forall>c \<in> set (call_sessions d). call_ok c) \<and>
     uniq mr_ID (meeting_rooms d) \<and> uniq mr_RoomID (meeting_rooms d) \<and> (\<forall>m \<in> set (meeting_rooms d). meeting_ok m))"

lemma call_move_keys: "call_move u c c' \<Longrightarrow> cs_ID c' = cs_ID c \<and> cs_CallID c' = cs_CallID c \<and> cs_CallerID c' = cs_CallerID c \<and>
    cs_CalleeID c' = cs_CalleeID c \<and> cs_RoomName c' = cs_RoomName c"
  by (induction rule: call_move.induct) (simp_all add: endedCall_def)

lemma call_move_ok: "call_move u c c' \<Longrightarrow> call_ok c \<Longrightarrow> call_ok c'"
  by (induction rule: call_move.induct) (auto simp: call_ok_def endedCall_def split: option.splits)

lemma permitted_ok: "permitted s u c \<Longrightarrow> call_ok c"
  by (auto simp: permitted_def call_ok_def)

lemma meeting_move_keys: "meeting_move u m m' \<Longrightarrow> mr_ID m' = mr_ID m \<and> mr_RoomID m' = mr_RoomID m \<and> mr_RoomName m' = mr_RoomName m"
  by (induction rule: meeting_move.induct) simp

lemma meeting_move_ok: "meeting_move u m m' \<Longrightarrow> meeting_ok m \<Longrightarrow> meeting_ok m'"
  by (induction rule: meeting_move.induct) (auto simp: meeting_ok_def)

lemma opened_ok: "opened u m \<Longrightarrow> meeting_ok m"
  by (auto simp: opened_def meeting_ok_def)

text \<open>The effect of the two writes on a table with unique keys.\<close>

lemma save_call_Inr:
  assumes "save_call c' d = Inr ((), d')" "c \<in> set (call_sessions d)" "cs_ID c' = cs_ID c"
  shows "d' = d\<lparr>call_sessions := update_where (\<lambda>x. cs_ID x = cs_ID c) (\<lambda>_. c') (call_sessions d)\<rparr>"
  using assms by (auto simp: save_call_def has_key_iff split: if_splits)

lemma save_meeting_Inr:
  assumes "save_meeting m' d = Inr ((), d')" "m \<in> set (meeting_rooms d)" "mr_ID m' = mr_ID m"
  shows "d' = d\<lparr>meeting_rooms := update_where (\<lambda>x. mr_ID x = mr_ID m) (\<lambda>_. m') (meeting_rooms d)\<rparr>"
  using assms by (auto simp: save_meeting_def has_key_iff split: if_splits)

lemma insert_call_Inr: "insert_call c d = Inr ((), d') \<longleftrightarrow> d' = d\<lparr>call_sessions := call_sessions d @ [c]\<rparr> \<and> fits_int32 (cs_Duration c) \<and>
    cs_ID c \<notin> cs_ID ` set (call_sessions d) \<and> cs_CallID c \<notin> cs_CallID ` set (call_sessions d)"
  by (auto simp: insert_call_def has_key_iff)

lemma insert_meeting_Inr: "insert_meeting m d = Inr ((), d') \<longleftrightarrow> d' = d\<lparr>meeting_rooms := meeting_rooms d @ [m]\<rparr> \<and>
    fits_int32 (mr_MaxParticipants m) \<and> mr_ID m \<notin> mr_ID ` set (meeting_rooms d) \<and> mr_RoomID m \<notin> mr_RoomID ` set (meeting_rooms d) \<and>
    mr_RoomName m \<notin> mr_RoomName ` set (meeting_rooms d)"
  by (auto simp: insert_meeting_def has_key_iff)

lemma current_call_in: "current_call d callID = Some c \<Longrightarrow> c \<in> set (call_sessions d)"
  unfolding current_call_def by (drule first_where_SomeD) simp

lemma current_meeting_in: "current_meeting d roomID = Some m \<Longrightarrow> m \<in> set (meeting_rooms d)"
  unfolding current_meeting_def by (drule first_where_SomeD) simp

text \<open>A change, by cases: the tables before and after.\<close>

lemma rtc_changeE [consumes 1, case_names same call meeting new_call new_meeting]:
  assumes "rtc_change s u d d'"
  obtains "d' = d"
  | c c' where "c \<in> set (call_sessions d)" "call_move u c c'"
      "d' = d\<lparr>call_sessions := update_where (\<lambda>x. cs_ID x = cs_ID c) (\<lambda>_. c') (call_sessions d)\<rparr>"
  | m m' where "m \<in> set (meeting_rooms d)" "meeting_move u m m'"
      "d' = d\<lparr>meeting_rooms := update_where (\<lambda>x. mr_ID x = mr_ID m) (\<lambda>_. m') (meeting_rooms d)\<rparr>"
  | c where "permitted s u c" "insert_call c d = Inr ((), d')"
  | m where "opened u m" "insert_meeting m d = Inr ((), d')"
proof -
  from assms[unfolded rtc_change_def] show thesis
  proof (elim disjE exE conjE)
    fix c c' assume m: "current_call d (cs_CallID c) = Some c" "call_move u c c'" "save_call c' d = Inr ((), d')"
    show thesis
      using that(2)[OF current_call_in[OF m(1)] m(2) save_call_Inr[OF m(3) current_call_in[OF m(1)]]] call_move_keys[OF m(2)] by blast
  next
    fix r r' assume m: "current_meeting d (mr_RoomID r) = Some r" "meeting_move u r r'" "save_meeting r' d = Inr ((), d')"
    show thesis
      using that(3)[OF current_meeting_in[OF m(1)] m(2) save_meeting_Inr[OF m(3) current_meeting_in[OF m(1)]]] meeting_move_keys[OF m(2)]
      by blast
  qed (use that in blast)+
qed

lemma rtc_change_inv:
  assumes "rtc_change s u d d'" "rtc_inv d"
  shows "rtc_inv d'"
  using assms(1)
proof (cases rule: rtc_changeE)
  case (call c c')
  then have "call_ok c'" "cs_ID c' = cs_ID c" "cs_CallID c' = cs_CallID c"
    using assms(2) call_move_ok[of u c c'] call_move_keys[of u c c'] by (auto simp: rtc_inv_def)
  then show ?thesis using assms(2) call
    by (auto simp: rtc_inv_def ball_update_where intro!: uniq_replace)
next
  case (meeting m m')
  then have "meeting_ok m'" "mr_ID m' = mr_ID m" "mr_RoomID m' = mr_RoomID m"
    using assms(2) meeting_move_ok[of u m m'] meeting_move_keys[of u m m'] by (auto simp: rtc_inv_def)
  then show ?thesis using assms(2) meeting
    by (auto simp: rtc_inv_def ball_update_where intro!: uniq_replace)
next
  case (new_call c)
  then show ?thesis using assms(2) permitted_ok[of s u c] by (auto simp: rtc_inv_def insert_call_Inr intro!: uniq_snoc)
next
  case (new_meeting m)
  then show ?thesis using assms(2) opened_ok[of u m] by (auto simp: rtc_inv_def insert_meeting_Inr intro!: uniq_snoc)
qed (use assms(2) in simp)

lemma rtc_step_keeps: "keeps rtc_inv (rtc_step s op)"
  using ensuresD[OF rtc_step_change] rtc_change_inv unfolding keeps_def by (metis prod.collapse)

interpretation rtc_service: service "rtc_step s" any_op rtc_inv empty_rtc_db for s
  by unfold_locales (simp add: rtc_inv_def empty_rtc_db_def, rule rtc_step_keeps)

end
