(* ===== verification/Rtc_Properties.thy ===== *)
theory Rtc_Properties
  imports Rtc
begin

text \<open>
  Properties of calls and meetings: the life of a call, its final states, the state that should be final
  and is not, and who gets into a meeting.
\<close>

text \<open>C26: every call there ever was is still stored after an operation, as it was or moved along one
  transition that its operator may make: only the callee answers or declines a ringing call, only the two
  participants end one.  A call that is new was started by the operator, for another user, after the
  friend service said that neither has blocked the other.\<close>

theorem call_lifecycle:
  assumes "reachable (rtc_step s) any_op empty_rtc_db (db w)" "rtc_step s op w = (r, w')"
  shows "(\<forall>c \<in> set (call_sessions (db w)). \<exists>c' \<in> set (call_sessions (db w')).
      cs_CallID c' = cs_CallID c \<and> (c' = c \<or> call_move (operator op) c c')) \<and>
    (\<forall>c' \<in> set (call_sessions (db w')). permitted s (operator op) c' \<or>
      (\<exists>c \<in> set (call_sessions (db w)). c' = c \<or> call_move (operator op) c c'))"
proof -
  let ?u = "operator op"
  have inv: "rtc_inv (db w)" by (rule rtc_service.reachable_inv[OF assms(1)])
  have "rtc_change s ?u (db w) (db w')" by (rule ensuresD[OF rtc_step_change assms(2)]) simp
  then show ?thesis
  proof (cases rule: rtc_changeE)
    case (call c c')
    have same: "x = c" if "x \<in> set (call_sessions (db w))" "cs_ID x = cs_ID c" for x
      using inv call(1) that by (metis rtc_inv_def uniq_def distinct_map inj_onD)
    show ?thesis using call same call_move_keys[OF call(2)]
      by (auto simp: bex_update_where ball_update_where)
  qed (auto simp: insert_call_Inr insert_meeting_Inr)
qed

text \<open>A call that has ended or was rejected is never changed again.\<close>

theorem finished_call_frozen:
  assumes "reachable (rtc_step s) any_op empty_rtc_db d" "reachable (rtc_step s) any_op d d'"
    and "c \<in> set (call_sessions d)" "cs_Status c = CallStatusEnded \<or> cs_Status c = CallStatusRejected"
  shows "c \<in> set (call_sessions d')"
proof -
  have stuck: "\<not> call_move u c c'" for u c'
    using assms(4) by (auto elim!: call_move.cases)
  have "rtc_inv d' \<and> c \<in> set (call_sessions d')"
    using assms(2)
  proof (induction rule: reachable.induct)
    case reach_init
    show ?case using rtc_service.reachable_inv[OF assms(1)] assms(3) by simp
  next
    case (reach_step w op r w')
    then have "rtc_change s (operator op) (db w) (db w')" by (auto intro: ensuresD[OF rtc_step_change])
    moreover have "c \<in> set (call_sessions (db w'))"
      using calculation
    proof (cases rule: rtc_changeE)
      case (call x x')
      then have "cs_ID c \<noteq> cs_ID x"
        using reach_step stuck by (metis rtc_inv_def uniq_def distinct_map inj_onD)
      then show ?thesis using call reach_step by (force simp: set_update_where)
    qed (use reach_step in \<open>auto simp: insert_call_Inr insert_meeting_Inr\<close>)
    ultimately show ?case using rtc_change_inv reach_step by blast
  qed
  then show ?thesis by simp
qed

lemma quiet_rtc: "quiet (deleteRoom s rn)" "quiet (notifyPeer ty f t p)"
  unfolding deleteRoom_def notifyPeer_def
  by (intro quiet_intros quiet_ignore benign_rpc benign_PublishToUser)+

lemma reachable_current:
  assumes "reachable (rtc_step s) any_op empty_rtc_db d" "c \<in> set (call_sessions d)"
  shows "current_call d (cs_CallID c) = Some c"
  using rtc_service.reachable_inv[OF assms(1)] assms(2) unfolding current_call_def rtc_inv_def
  by (intro first_where_unique[where key = cs_CallID]) auto

text \<open>A caller who cancels and then ends the same call (or a callee who ends a call that was cancelled)
  turns the cancelled call into an ended one with a new end, although nobody ever answered it.\<close>

theorem cancelled_call_ended_again:
  assumes "reachable (rtc_step s) any_op empty_rtc_db (db w)" "healthy w" "c \<in> set (call_sessions (db w))"
    and "cs_Status c = CallStatusCancelled" "participant c u"
  shows "\<exists>w' t t'. EndCall s (cs_CallID c) u w = (Inr (), w') \<and>
    c\<lparr>cs_Status := CallStatusEnded, cs_EndedAt := Some t, cs_UpdatedAt := t'\<rparr> \<in> set (call_sessions (db w'))"
proof -
  have inv: "rtc_inv (db w)" by (rule rtc_service.reachable_inv[OF assms(1)])
  then have ok: "call_ok c" using assms(3) by (simp add: rtc_inv_def)
  then have none: "cs_ConnectedAt c = None" "cs_Duration c = 0" using assms(4) by (auto simp: call_ok_def)
  have cur: "first_where (\<lambda>x. cs_CallID x = cs_CallID c) cs_ID (call_sessions (db w)) = Some c"
    using reachable_current[OF assms(1,3)] by (simp add: current_call_def)
  let ?c = "\<lambda>t t'. c\<lparr>cs_Status := CallStatusEnded, cs_EndedAt := Some t, cs_UpdatedAt := t'\<rparr>"
  have "cs_ID x = cs_ID c" if "x \<in> set (call_sessions (db w))" "cs_CallID x = cs_CallID c" for x
    using inv assms(3) that by (metis rtc_inv_def uniq_def distinct_map inj_onD)
  then have own: "\<not> list_ex (\<lambda>x. cs_ID x \<noteq> cs_ID c \<and> cs_CallID x = cs_CallID c) (call_sessions (db w))"
    by (auto simp: list_ex_iff)
  have save: "save_call (?c t t') (db w) = Inr ((), (db w)\<lparr>call_sessions := update_where (\<lambda>x. cs_ID x = cs_ID c) (\<lambda>_. ?c t t') (call_sessions (db w))\<rparr>)" for t t'
    using assms(3) none own by (simp add: save_call_def has_key_iff fits_int32_def int32_id)
  have in_tbl: "?c t t' \<in> set (update_where (\<lambda>x. cs_ID x = cs_ID c) (\<lambda>_. ?c t t') (call_sessions (db w)))" for t t'
    using assms(3) by (force simp: set_update_where)
  have ended: "(endedCall t c)\<lparr>cs_UpdatedAt := t'\<rparr> = ?c t t'" for t t'
    using assms(4) none by (simp add: endedCall_def)
  have "wp (EndCall s (cs_CallID c) u) (\<lambda>_ w'. \<exists>t t'. ?c t t' \<in> set (call_sessions (db w'))) (\<lambda>_ _. False) w"
    using assms(2,4,5)
    by (auto simp: EndCall_def findCall_def statusE_def callRepo_GetCallSession_def callRepo_UpdateCallSession_def ignoreE_def
        wp_simps cur healthy_fault ended save intro!: wp_quiet[OF quiet_rtc(1)] wp_quiet[OF quiet_rtc(2)])
       (use in_tbl in blast)+
  then show ?thesis by (auto simp: wp_def split: prod.splits sum.splits)
qed

text \<open>C27: whoever is let into a meeting named an active meeting and its password, if it has one, and the
  token opens that room for that user, with the rights of an administrator exactly for the creator.\<close>

theorem JoinMeeting_sound:
  assumes "JoinMeeting s u roomID pw w = (Inr p, w')"
  shows "\<exists>m \<in> set (meeting_rooms (db w)). mr_RoomID m = roomID \<and> mr_Status m = MeetingStatusActive \<and>
    (mr_PasswordHash m = '''' \<or> CheckPassword (rt_bcrypt s) pw (mr_PasswordHash m)) \<and>
    (\<exists>t. rt_ToJWT s (rt_APIKey s) (rt_APISecret s) \<lparr>vg_RoomJoin = True, vg_Room = mr_RoomName m, vg_RoomAdmin = (mr_CreatorID m = u)\<rparr>
       u (2 * Hour) t = Inr (pm_Token p)) \<and> db w' = db w"
proof -
  let ?R = "\<lambda>p w'. \<exists>m \<in> set (meeting_rooms (db w)). mr_RoomID m = roomID \<and> mr_Status m = MeetingStatusActive \<and>
    (mr_PasswordHash m = '''' \<or> CheckPassword (rt_bcrypt s) pw (mr_PasswordHash m)) \<and>
    (\<exists>t. rt_ToJWT s (rt_APIKey s) (rt_APISecret s) \<lparr>vg_RoomJoin = True, vg_Room = mr_RoomName m, vg_RoomAdmin = (mr_CreatorID m = u)\<rparr>
       u (2 * Hour) t = Inr (pm_Token p)) \<and> db w' = db w"
  have lift: "wp (liftE r) Q E v = (case r of Inl e \<Rightarrow> E e v | Inr a \<Rightarrow> Q a v)" for r :: "err + string" and Q E and v :: "rtc_db world"
    by (simp add: wp_def liftE_def split: sum.split)
  have "wp (JoinMeeting s u roomID pw) ?R (\<lambda>_ _. True) w"
    unfolding JoinMeeting_def findMeeting_def statusE_def internalE_def generateToken_def meetingRepo_GetMeetingByRoomID_def tokenTTL_def
    by (auto simp: wp_simps lift toProtoMeeting_def dest!: first_where_SomeD split: option.splits err.splits sum.splits)
  then show ?thesis using assms by (simp add: wp_def)
qed

subsection \<open>What is reported of a call\<close>

text \<open>The enumeration \<open>CallStatus\<close> of the API (\<open>api/rtc/v1/calling.proto\<close>) by the name of a stored status; it
  has no name for a cancelled call.\<close>

definition api_status :: "int \<Rightarrow> int option" where
  "api_status st = map_of [(CallStatusRinging, 1), (CallStatusConnected, 2), (CallStatusEnded, 3), (CallStatusRejected, 5), (CallStatusMissed, 4)] st"

text \<open>In every reachable state every call is reported under the wrong name, since the stored number is cast
  to the enumeration of the API: only a missed call would be reported as one, and no call is ever missed.\<close>

theorem call_status_misreported:
  assumes "reachable (rtc_step s) any_op empty_rtc_db d" "c \<in> set (call_sessions d)"
  shows "api_status (cs_Status c) \<noteq> Some (pc_Status (toProtoCallSession c))"
proof -
  have "call_ok c" using rtc_service.reachable_inv[OF assms(1)] assms(2) by (simp add: rtc_inv_def)
  then have "cs_Status c \<in> {CallStatusRinging, CallStatusConnected, CallStatusEnded, CallStatusRejected, CallStatusCancelled}"
    by (auto simp: call_ok_def)
  then show ?thesis by (auto simp: api_status_def toProtoCallSession_def)
qed

subsection \<open>An evening with two users\<close>

definition example_rtc :: rtcServiceImpl where
  "example_rtc = \<lparr>rt_APIKey = ''k'', rt_APISecret = ''s'', rt_friendClient = Some (\<lambda>_ _ _. Inr False),
     rt_CreateRoom = (\<lambda>_ _ _ _. Inr ()), rt_DeleteRoom = (\<lambda>_ _. Inr ()),
     rt_ToJWT = (\<lambda>_ _ g u _ _. Inr (vg_Room g @ (if vg_RoomAdmin g then ''!'' else ''?'') @ u)),
     rt_bcrypt = \<lparr>bc_GenerateFromPassword = (\<lambda>_ p. Inr p), bc_CompareHashAndPassword = (\<lambda>h p. h = p)\<rparr>\<rparr>"

definition called_world :: "rtc_db world" where
  "called_world = run_ops (rtc_step example_rtc) [OpInitiateCall (user_ctx ''ann'') ''bob'' 1, OpEndCall (user_ctx ''ann'') ''uuid-1'',
     OpCreateMeeting (user_ctx ''ann'') ''t'' (Some ''p'') 3] (init_world empty_rtc_db)"

definition finished_world :: "rtc_db world" where
  "finished_world = run_ops (rtc_step example_rtc) [OpEndCall (user_ctx ''bob'') ''uuid-1''] called_world"

lemma called_reachable: "reachable (rtc_step example_rtc) any_op empty_rtc_db (db called_world)"
  unfolding called_world_def by (rule run_ops_reachable) (simp_all add: reachable.reach_init any_op_def)

lemma finished_reachable: "reachable (rtc_step example_rtc) any_op empty_rtc_db (db finished_world)"
  unfolding finished_world_def by (rule run_ops_reachable) (simp_all add: called_reachable any_op_def)

lemma called_calls: "call_sessions (db called_world) = [\<lparr>cs_ID = 1, cs_CallID = ''uuid-1'', cs_CallerID = ''ann'',
    cs_CalleeID = ''bob'', cs_CallType = 1, cs_Status = 5, cs_RoomName = ''call_uuid-1'', cs_StartedAt = 4, cs_ConnectedAt = None,
    cs_EndedAt = Some 10, cs_Duration = 0, cs_CreatedAt = 4, cs_UpdatedAt = 11\<rparr>]"
  by code_simp

lemma finished_calls: "call_sessions (db finished_world) = [\<lparr>cs_ID = 1, cs_CallID = ''uuid-1'', cs_CallerID = ''ann'',
    cs_CalleeID = ''bob'', cs_CallType = 1, cs_Status = 2, cs_RoomName = ''call_uuid-1'', cs_StartedAt = 4, cs_ConnectedAt = None,
    cs_EndedAt = Some 24, cs_Duration = 0, cs_CreatedAt = 4, cs_UpdatedAt = 25\<rparr>]"
  by code_simp

theorem call_lifecycle_witness:
  "\<exists>c \<in> set (call_sessions (db called_world)). \<exists>c' \<in> set (call_sessions (db finished_world)). call_move ''bob'' c c'"
proof -
  have "rtc_step example_rtc (OpEndCall (user_ctx ''bob'') ''uuid-1'') called_world =
      (fst (rtc_step example_rtc (OpEndCall (user_ctx ''bob'') ''uuid-1'') called_world), finished_world)"
    by (simp add: finished_world_def run_ops_def)
  from call_lifecycle[OF called_reachable this] show ?thesis
    by (simp add: called_calls finished_calls operator_def GetUserID_def user_ctx_def)
qed

theorem finished_call_frozen_witness:
  "hd (call_sessions (db finished_world)) \<in> set (call_sessions (db (run_ops (rtc_step example_rtc)
     [OpEndCall (user_ctx ''ann'') ''uuid-1'', OpInitiateCall (user_ctx ''bob'') ''ann'' 0] finished_world)))"
  by (rule finished_call_frozen[OF finished_reachable run_ops_reachable])
     (simp_all add: finished_calls reachable.reach_init any_op_def)

theorem cancelled_call_ended_again_witness:
  "\<exists>w' c'. EndCall example_rtc ''uuid-1'' ''bob'' (init_world (db called_world)) = (Inr (), w') \<and> c' \<in> set (call_sessions (db w')) \<and>
     cs_Status c' = CallStatusEnded \<and> cs_ConnectedAt c' = None"
  using cancelled_call_ended_again[of example_rtc "init_world (db called_world)" "hd (call_sessions (db called_world))" "''bob''"]
    called_reachable
  by (fastforce simp: called_calls participant_def)

theorem JoinMeeting_sound_witness:
  "\<exists>p w'. JoinMeeting example_rtc ''ann'' ''uuid-17'' ''p'' called_world = (Inr p, w') \<and> db w' = db called_world"
proof -
  have "\<not> isl (fst (JoinMeeting example_rtc ''ann'' ''uuid-17'' ''p'' called_world))" by code_simp
  then obtain p w' where run: "JoinMeeting example_rtc ''ann'' ''uuid-17'' ''p'' called_world = (Inr p, w')"
    by (metis fst_conv isl_def sum.exhaust surj_pair)
  then show ?thesis using JoinMeeting_sound[OF run] by blast
qed

end
