(* ===== verification/Realtime_Model.thy ===== *)
theory Realtime_Model
  imports Message_Handler Credentials
begin

text \<open>
  The WebSocket gateway (\<open>app/realtime\<close>): the registry of connections (\<open>handler/manager.go\<close>), the
  connection with its queue and writer (\<open>handler/client.go\<close>), the subscriptions of the users to their
  notifications (\<open>service/subscriber.go\<close>) and the handler of a connection (\<open>handler/handler.go\<close>).

  All state is in memory and shared by goroutines.  A pointer to a client is its index in \<open>rt_heap\<close>; the
  goroutine of a connection is its program counter in \<open>rt_pc\<close>, and every critical section is one atomic
  step, so a history is an arbitrary interleaving.  JSON is not modelled: a frame carries its decoded value,
  or nothing when it does not parse.  The iteration order of Go maps does not matter here, an association
  list stands for a map.
\<close>

subsection \<open>Frames\<close>

record sendMessagePayload =
  sp_ConversationID :: string
  sp_ContentType :: int
  sp_Content :: string
  sp_ReplyTo :: string
  sp_AtUsers :: "string list"
  sp_LocalID :: string

record sendTypingPayload =
  tp_ConversationID :: string
  tp_Typing :: "bool option"
  tp_TTLSeconds :: "int option"
  tp_ClientTs :: "int option"

record sendMessageResult =
  rm_MessageID :: string
  rm_Sequence :: int
  rm_Timestamp :: int
  rm_LocalID :: string

record sendMessageError =
  se_Code :: string
  se_Message :: string
  se_LocalID :: string

record sendTypingError =
  te_Code :: string
  te_Message :: string

text \<open>What the server writes: a type and a payload.\<close>

datatype server_payload = NoPayload | PNotification Notification | PResult sendMessageResult
  | PSendError sendMessageError | PTypingError sendTypingError

record wsMessage =
  wm_Type :: string
  wm_Payload :: server_payload

text \<open>What a client writes: the type, and the payload as a \<open>message.send\<close> and as a \<open>message.typing\<close>.\<close>

record clientMessage =
  cm_Type :: string
  cm_Send :: "sendMessagePayload option"
  cm_Typing :: "sendTypingPayload option"

subsection \<open>State\<close>

record WebSocketClient =
  wc_UserID :: string
  wc_DeviceID :: string
  wc_Send :: "wsMessage list"
  wc_Done :: bool
  wc_Open :: bool
  wc_Pump :: bool
  wc_Written :: "wsMessage list"

datatype phase = Accepted | Registered | Serving | Unregistered | Leaving | Gone

record realtime =
  rt_heap :: "WebSocketClient list"
  rt_pc :: "phase list"
  rt_clients :: "(string \<times> (string \<times> nat) list) list"
  rt_subs :: "string list"
  rt_live :: "string list"

definition empty_realtime :: realtime where
  "empty_realtime = \<lparr>rt_heap = [], rt_pc = [], rt_clients = [], rt_subs = [], rt_live = []\<rparr>"

definition upd_client :: "nat \<Rightarrow> (WebSocketClient \<Rightarrow> WebSocketClient) \<Rightarrow> realtime \<Rightarrow> realtime" where
  "upd_client c f d = d\<lparr>rt_heap := (rt_heap d)[c := f (rt_heap d ! c)]\<rparr>"

definition NewWebSocketClient :: "string \<Rightarrow> string \<Rightarrow> WebSocketClient" where
  "NewWebSocketClient userID deviceID =
     \<lparr>wc_UserID = userID, wc_DeviceID = deviceID, wc_Send = [], wc_Done = False, wc_Open = True, wc_Pump = False, wc_Written = []\<rparr>"

subsection \<open>The connection manager\<close>

definition devices_of :: "string \<Rightarrow> realtime \<Rightarrow> (string \<times> nat) list" where
  "devices_of u d = (case map_of (rt_clients d) u of None \<Rightarrow> [] | Some m \<Rightarrow> m)"

text \<open>A second \<open>close\<close> of a channel panics.\<close>

definition close_done :: "nat \<Rightarrow> realtime \<Rightarrow> err + realtime" where
  "close_done c d = (if wc_Done (rt_heap d ! c) then Inl (Panicked ''close of closed channel'')
     else Inr (upd_client c (\<lambda>x. x\<lparr>wc_Done := True\<rparr>) d))"

definition ConnectionManager_Register :: "nat \<Rightarrow> realtime \<Rightarrow> err + realtime" where
  "ConnectionManager_Register c d =
     (let u = wc_UserID (rt_heap d ! c); dev = wc_DeviceID (rt_heap d ! c);
          put = (\<lambda>d'. d'\<lparr>rt_clients := AList.update u (AList.update dev c (devices_of u d)) (rt_clients d)\<rparr>) in
      case map_of (devices_of u d) dev of
        None \<Rightarrow> Inr (put d)
      | Some old \<Rightarrow> (case close_done old d of Inl e \<Rightarrow> Inl e | Inr d' \<Rightarrow> Inr (put d')))"

definition ConnectionManager_Unregister :: "nat \<Rightarrow> realtime \<Rightarrow> realtime" where
  "ConnectionManager_Unregister c d =
     (let u = wc_UserID (rt_heap d ! c); dev = wc_DeviceID (rt_heap d ! c) in
      case map_of (rt_clients d) u of
        None \<Rightarrow> d
      | Some userClients \<Rightarrow>
          if map_of userClients dev = Some c then
            (let rest = AList.delete dev userClients in
             if rest = [] then d\<lparr>rt_clients := AList.delete u (rt_clients d)\<rparr>
             else d\<lparr>rt_clients := AList.update u rest (rt_clients d)\<rparr>)
          else d)"

definition queue_cap :: nat where
  "queue_cap = 256"

text \<open>One non-blocking send on the queue of a connection: whether it was taken.\<close>

definition offer :: "nat \<Rightarrow> wsMessage \<Rightarrow> realtime \<Rightarrow> bool \<times> realtime" where
  "offer c m d =
     (if length (wc_Send (rt_heap d ! c)) < queue_cap
      then (True, upd_client c (\<lambda>x. x\<lparr>wc_Send := wc_Send x @ [m]\<rparr>) d) else (False, d))"

definition SendToUser :: "string \<Rightarrow> wsMessage \<Rightarrow> realtime \<Rightarrow> bool \<times> realtime" where
  "SendToUser u m d =
     fold (\<lambda>(dev, c) (sent, d). case offer c m d of (ok, d') \<Rightarrow> (sent \<or> ok, d')) (devices_of u d) (False, d)"

definition SendNotificationToUser :: "string \<Rightarrow> Notification \<Rightarrow> realtime \<Rightarrow> bool \<times> realtime" where
  "SendNotificationToUser u n = SendToUser u \<lparr>wm_Type = ''notification'', wm_Payload = PNotification n\<rparr>"

definition IsOnline :: "string \<Rightarrow> realtime \<Rightarrow> bool" where
  "IsOnline u d = (devices_of u d \<noteq> [])"

definition OnlineCount :: "realtime \<Rightarrow> int" where
  "OnlineCount d = int (length (rt_clients d))"

subsection \<open>Steps in memory\<close>

definition localE :: "(realtime \<Rightarrow> err + 'a \<times> realtime) \<Rightarrow> (realtime, 'a) M" where
  "localE f w = (case f (db w) of Inl e \<Rightarrow> (Inl e, w) | Inr (a, d) \<Rightarrow> (Inr a, w\<lparr>db := d\<rparr>))"

definition updE :: "(realtime \<Rightarrow> realtime) \<Rightarrow> (realtime, unit) M" where
  "updE f = localE (\<lambda>d. Inr ((), f d))"

definition set_pc :: "nat \<Rightarrow> phase \<Rightarrow> realtime \<Rightarrow> realtime" where
  "set_pc c p d = d\<lparr>rt_pc := (rt_pc d)[c := p]\<rparr>"

definition SendMessageToUser :: "string \<Rightarrow> wsMessage \<Rightarrow> (realtime, bool) M" where
  "SendMessageToUser u m = localE (\<lambda>d. Inr (SendToUser u m d))"

subsection \<open>The gateway and its clients\<close>

record SentMessage =
  sr_MessageId :: string
  sr_Seq :: int
  sr_Timestamp :: "int option"

record SendTypingRequest =
  ty_ConversationId :: string
  ty_Typing :: bool
  ty_TtlSeconds :: int
  ty_DeviceId :: string

text \<open>The message service, the broker's subscriptions and the subject matching of NATS are parameters, as
  are the token library and the environment variable \<open>ALLOWED_ORIGINS\<close>.\<close>

record gateway =
  gw_SendMessage :: "ctx \<Rightarrow> nat \<Rightarrow> SendMessageRequest \<Rightarrow> err + SentMessage option"
  gw_SendTyping :: "ctx \<Rightarrow> nat \<Rightarrow> SendTypingRequest \<Rightarrow> err + unit"
  gw_Subscribe :: "nat \<Rightarrow> string \<Rightarrow> err + unit"
  gw_Unsubscribe :: "nat \<Rightarrow> string \<Rightarrow> err + unit"
  gw_matches :: "string \<Rightarrow> string \<Rightarrow> bool"
  gw_jwt :: jwt_lib
  gw_jwtManager :: AuthConf
  gw_ALLOWED_ORIGINS :: string

text \<open>\<open>context.Background()\<close> carries no metadata: none reach the service that is called with it.\<close>

definition background :: ctx where
  "background = None"

subsection \<open>Subscriptions\<close>

definition user_topic :: "string \<Rightarrow> string" where
  "user_topic userID = ''notification.*.*.'' @ userID"

definition SubscribeUser :: "gateway \<Rightarrow> string \<Rightarrow> (realtime, unit) M" where
  "SubscribeUser s userID =
     bindE (localE (\<lambda>d. Inr (userID \<in> set (rt_subs d), d))) (\<lambda>exists.
     if exists then returnE ()
     else
       thenE (catchE (rpc (\<lambda>n. gw_Subscribe s n (user_topic userID)))
           (\<lambda>e. throwE (Plain (''failed to subscribe for user '' @ userID @ '': '' @ err_string e))))
         (updE (\<lambda>d. d\<lparr>rt_subs := userID # rt_subs d, rt_live := userID # rt_live d\<rparr>)))"

definition UnsubscribeUser :: "gateway \<Rightarrow> string \<Rightarrow> (realtime, unit) M" where
  "UnsubscribeUser s userID =
     bindE (localE (\<lambda>d. Inr (userID \<in> set (rt_subs d), d))) (\<lambda>exists.
     if \<not> exists then returnE ()
     else
       thenE (ignoreE (thenE (rpc (\<lambda>n. gw_Unsubscribe s n (user_topic userID)))
           (updE (\<lambda>d. d\<lparr>rt_live := remove1 userID (rt_live d)\<rparr>))))
         (updE (\<lambda>d. d\<lparr>rt_subs := removeAll userID (rt_subs d)\<rparr>)))"

definition handleNotification :: "string \<Rightarrow> Notification \<Rightarrow> (realtime, unit) M" where
  "handleNotification userID n = updE (\<lambda>d. snd (SendNotificationToUser userID n d))"

text \<open>The broker hands a published notification to every subscription whose subject matches.\<close>

definition deliver :: "gateway \<Rightarrow> string \<Rightarrow> Notification \<Rightarrow> (realtime, unit) M" where
  "deliver s topic n =
     bindE (localE (\<lambda>d. Inr (filter (\<lambda>u. gw_matches s (user_topic u) topic) (rt_live d), d))) (\<lambda>us.
     forE us (\<lambda>u. handleNotification u n))"

subsection \<open>Admission\<close>

fun split_on :: "char \<Rightarrow> string \<Rightarrow> string list" where
  "split_on sep [] = [[]]"
| "split_on sep (c # cs) = (if c = sep then [] # split_on sep cs
     else (case split_on sep cs of [] \<Rightarrow> [[c]] | x # xs \<Rightarrow> (c # x) # xs))"

definition allowedOrigins :: "gateway \<Rightarrow> string list" where
  "allowedOrigins s =
     (let v = trim_space (gw_ALLOWED_ORIGINS s) in if v \<noteq> '''' then split_on (CHR '','') v else [])"

text \<open>\<open>strings.EqualFold\<close> on ASCII text.\<close>

definition EqualFold :: "string \<Rightarrow> string \<Rightarrow> bool" where
  "EqualFold a b = (to_lower a = to_lower b)"

definition validateOrigin :: "gateway \<Rightarrow> string \<Rightarrow> bool" where
  "validateOrigin s origin0 =
     (let origin = trim_space origin0 in
      if origin = '''' then True
      else list_ex (\<lambda>o'. EqualFold (trim_space o') origin) (allowedOrigins s))"

definition extractToken :: "string \<Rightarrow> string" where
  "extractToken authorization =
     (let a = trim_space authorization in
      if take 7 a = ''Bearer '' then trim_space (drop 7 a) else '''')"

record ws_request =
  wr_Origin :: string
  wr_Authorization :: string

text \<open>\<open>HandleWebSocket\<close> up to the upgraded connection; the answer is the new client.\<close>

definition accept :: "gateway \<Rightarrow> ws_request \<Rightarrow> (realtime, nat) M" where
  "accept s r =
     (let token = extractToken (wr_Authorization r) in
      if token = '''' then throwE (Plain ''unauthorized: token is required'')
      else
        bindE (catchE (ValidateAccessToken (gw_jwt s) (gw_jwtManager s) token)
          (\<lambda>_. throwE (Plain ''unauthorized: invalid token''))) (\<lambda>claims.
        if \<not> validateOrigin s (wr_Origin r) then throwE (Plain ''websocket: request origin not allowed'')
        else thenE infra
          (localE (\<lambda>d. Inr (length (rt_heap d), d\<lparr>rt_heap := rt_heap d @ [NewWebSocketClient (cl_UserID claims) (cl_DeviceID claims)],
             rt_pc := rt_pc d @ [Accepted]\<rparr>)))))"

subsection \<open>Client messages\<close>

definition handleSendMessage :: "gateway \<Rightarrow> WebSocketClient \<Rightarrow> sendMessagePayload option \<Rightarrow> (realtime, unit) M" where
  "handleSendMessage s c payload = (case payload of
       None \<Rightarrow> returnE ()
     | Some req \<Rightarrow>
         let grpcReq = \<lparr>sm_ConversationId = sp_ConversationID req, sm_ContentType = int32 (sp_ContentType req), sm_Content = sp_Content req,
               sm_ReplyTo = (if sp_ReplyTo req \<noteq> '''' then Some (sp_ReplyTo req) else None), sm_AtUsers = sp_AtUsers req,
               sm_LocalId = sp_LocalID req\<rparr> in
         bindE (catchE (bindE (rpc (\<lambda>n. gw_SendMessage s background n grpcReq)) (\<lambda>m. returnE (Inr m))) (\<lambda>e. returnE (Inl e))) (\<lambda>resp.
         case resp of
           Inl e \<Rightarrow> void (SendMessageToUser (wc_UserID c) \<lparr>wm_Type = ''message.error'',
               wm_Payload = PSendError \<lparr>se_Code = ''send_failed'', se_Message = err_string e, se_LocalID = sp_LocalID req\<rparr>\<rparr>)
         | Inr None \<Rightarrow> throwE (Panicked ''invalid memory address or nil pointer dereference'')
         | Inr (Some m) \<Rightarrow> void (SendMessageToUser (wc_UserID c) \<lparr>wm_Type = ''message.sent'',
               wm_Payload = PResult \<lparr>rm_MessageID = sr_MessageId m, rm_Sequence = sr_Seq m,
                 rm_Timestamp = (case sr_Timestamp m of Some t \<Rightarrow> t | None \<Rightarrow> 0), rm_LocalID = sp_LocalID req\<rparr>\<rparr>)))"

definition handleSendTyping :: "gateway \<Rightarrow> WebSocketClient \<Rightarrow> sendTypingPayload option \<Rightarrow> (realtime, unit) M" where
  "handleSendTyping s c payload = (case payload of
       None \<Rightarrow> returnE ()
     | Some req \<Rightarrow> (case tp_Typing req of
           None \<Rightarrow> returnE ()
         | Some typing \<Rightarrow>
             if tp_ConversationID req = '''' then returnE ()
             else catchE (rpc (\<lambda>n. gw_SendTyping s background n \<lparr>ty_ConversationId = tp_ConversationID req, ty_Typing = typing,
                 ty_TtlSeconds = (case tp_TTLSeconds req of Some t \<Rightarrow> t | None \<Rightarrow> 0), ty_DeviceId = wc_DeviceID c\<rparr>))
               (\<lambda>e. void (SendMessageToUser (wc_UserID c) \<lparr>wm_Type = ''message.error'',
                 wm_Payload = PTypingError \<lparr>te_Code = ''typing_failed'', te_Message = err_string e\<rparr>\<rparr>))))"

definition handleClientMessage :: "gateway \<Rightarrow> WebSocketClient \<Rightarrow> clientMessage \<Rightarrow> (realtime, unit) M" where
  "handleClientMessage s c msg =
     (if cm_Type msg = ''ping'' then void (SendMessageToUser (wc_UserID c) \<lparr>wm_Type = ''pong'', wm_Payload = NoPayload\<rparr>)
      else if cm_Type msg = ''message.send'' then handleSendMessage s c (cm_Send msg)
      else if cm_Type msg = ''message.typing'' then handleSendTyping s c (cm_Typing msg)
      else returnE ())"

subsection \<open>The goroutines of a connection\<close>

text \<open>\<open>WritePump\<close>: the branch \<open>select\<close> takes.  A write fails when the connection is closed or the network
  fails; the pump then closes the connection and ends.  Nothing ever closes the queue itself, so the branch for
  a closed queue is never taken.\<close>

datatype pump_branch = TakeMessage | TakeTick | TakeDone

definition end_pump :: "nat \<Rightarrow> (realtime, unit) M" where
  "end_pump c = updE (upd_client c (\<lambda>x. x\<lparr>wc_Pump := False, wc_Open := False\<rparr>))"

definition write_frame :: "WebSocketClient \<Rightarrow> (realtime, unit) M" where
  "write_frame x = thenE (guardE (wc_Open x) (InfraError ''use of closed network connection'')) infra"

definition WritePump :: "nat \<Rightarrow> pump_branch \<Rightarrow> (realtime, unit) M" where
  "WritePump c branch =
     bindE (localE (\<lambda>d. Inr (rt_heap d ! c, d))) (\<lambda>x.
     if \<not> wc_Pump x then returnE ()
     else (case branch of
       TakeMessage \<Rightarrow> (case wc_Send x of
           [] \<Rightarrow> returnE ()
         | m # ms \<Rightarrow>
             thenE (updE (upd_client c (\<lambda>x. x\<lparr>wc_Send := ms\<rparr>)))
               (catchE (thenE (write_frame x) (updE (upd_client c (\<lambda>x. x\<lparr>wc_Written := wc_Written x @ [m]\<rparr>))))
                 (\<lambda>_. end_pump c)))
     | TakeTick \<Rightarrow> catchE (write_frame x) (\<lambda>_. end_pump c)
     | TakeDone \<Rightarrow> if wc_Done x then end_pump c else returnE ()))"

definition at :: "nat \<Rightarrow> phase \<Rightarrow> (WebSocketClient \<Rightarrow> (realtime, unit) M) \<Rightarrow> (realtime, unit) M" where
  "at c p k =
     bindE (localE (\<lambda>d. Inr (if c < length (rt_heap d) \<and> rt_pc d ! c = p then Some (rt_heap d ! c) else None, d))) (\<lambda>x.
     case x of None \<Rightarrow> returnE () | Some x \<Rightarrow> k x)"

text \<open>The deferred end of \<open>ReadPump\<close>: unregister and close the connection.\<close>

definition leave :: "nat \<Rightarrow> phase \<Rightarrow> (realtime, unit) M" where
  "leave c p = updE (\<lambda>d. set_pc c p (upd_client c (\<lambda>x. x\<lparr>wc_Open := False\<rparr>) (ConnectionManager_Unregister c d)))"

definition goRegister :: "nat \<Rightarrow> (realtime, unit) M" where
  "goRegister c = at c Accepted (\<lambda>_. localE (\<lambda>d. case ConnectionManager_Register c d of
     Inl e \<Rightarrow> Inl e | Inr d' \<Rightarrow> Inr ((), set_pc c Registered d')))"

definition goSubscribe :: "gateway \<Rightarrow> nat \<Rightarrow> (realtime, unit) M" where
  "goSubscribe s c = at c Registered (\<lambda>x.
     thenE (ignoreE (SubscribeUser s (wc_UserID x)))
       (updE (\<lambda>d. set_pc c Serving (upd_client c (\<lambda>x. x\<lparr>wc_Pump := True\<rparr>) d))))"

text \<open>A frame read by \<open>ReadPump\<close>; a panic of the handler runs the deferred end and leaves the rest out.\<close>

definition goReceive :: "gateway \<Rightarrow> nat \<Rightarrow> clientMessage option \<Rightarrow> (realtime, unit) M" where
  "goReceive s c frame = at c Serving (\<lambda>x. case frame of
       None \<Rightarrow> returnE ()
     | Some msg \<Rightarrow> (\<lambda>w. case handleClientMessage s x msg w of
           (Inl e, w') \<Rightarrow> leave c Gone w'
         | (Inr (), w') \<Rightarrow> (Inr (), w')))"

definition goDisconnect :: "nat \<Rightarrow> (realtime, unit) M" where
  "goDisconnect c = at c Serving (\<lambda>_. leave c Unregistered)"

definition goCheck :: "nat \<Rightarrow> (realtime, unit) M" where
  "goCheck c = at c Unregistered (\<lambda>x. updE (\<lambda>d. set_pc c (if IsOnline (wc_UserID x) d then Gone else Leaving) d))"

definition goUnsubscribe :: "gateway \<Rightarrow> nat \<Rightarrow> (realtime, unit) M" where
  "goUnsubscribe s c = at c Leaving (\<lambda>x. thenE (UnsubscribeUser s (wc_UserID x)) (updE (set_pc c Gone)))"

datatype rt_op =
    OpAccept ws_request
  | OpRegister nat
  | OpSubscribe nat
  | OpReceive nat "clientMessage option"
  | OpDisconnect nat
  | OpCheck nat
  | OpUnsubscribe nat
  | OpWrite nat pump_branch
  | OpDeliver string Notification

fun rt_step :: "gateway \<Rightarrow> rt_op \<Rightarrow> (realtime, unit) M" where
  "rt_step s (OpAccept r) = void (accept s r)"
| "rt_step s (OpRegister c) = goRegister c"
| "rt_step s (OpSubscribe c) = goSubscribe s c"
| "rt_step s (OpReceive c m) = goReceive s c m"
| "rt_step s (OpDisconnect c) = goDisconnect c"
| "rt_step s (OpCheck c) = goCheck c"
| "rt_step s (OpUnsubscribe c) = goUnsubscribe s c"
| "rt_step s (OpWrite c b) = WritePump c b"
| "rt_step s (OpDeliver topic n) = deliver s topic n"

end
