(* ===== verification/Realtime.thy ===== *)
theory Realtime
  imports Realtime_Model Triples
begin

text \<open>
  The registry of connections under every interleaving of the goroutines: what is registered is exactly
  the connections that run and were not replaced, one per user and device, and no channel is closed twice.
\<close>

subsection \<open>The registry as a function\<close>

definition reg :: "realtime \<Rightarrow> string \<Rightarrow> string \<Rightarrow> nat option" where
  "reg d u dev = map_of (devices_of u d) dev"

abbreviation (input) user_of :: "realtime \<Rightarrow> nat \<Rightarrow> string" where
  "user_of d c \<equiv> wc_UserID (rt_heap d ! c)"

abbreviation (input) device_of :: "realtime \<Rightarrow> nat \<Rightarrow> string" where
  "device_of d c \<equiv> wc_DeviceID (rt_heap d ! c)"

definition running :: "realtime \<Rightarrow> nat \<Rightarrow> bool" where
  "running d c = (c < length (rt_heap d) \<and> rt_pc d ! c \<in> {Registered, Serving} \<and> \<not> wc_Done (rt_heap d ! c))"

text \<open>The keys of both levels are distinct and no user is left without devices.\<close>

definition maps_ok :: "realtime \<Rightarrow> bool" where
  "maps_ok d = (distinct (map fst (rt_clients d)) \<and>
     (\<forall>u m. map_of (rt_clients d) u = Some m \<longrightarrow> m \<noteq> [] \<and> distinct (map fst m)))"

definition registry_ok :: "realtime \<Rightarrow> bool" where
  "registry_ok d = (length (rt_pc d) = length (rt_heap d) \<and> maps_ok d \<and>
     (\<forall>u dev c. reg d u dev = Some c \<longrightarrow> running d c \<and> user_of d c = u \<and> device_of d c = dev) \<and>
     (\<forall>c. running d c \<longrightarrow> reg d (user_of d c) (device_of d c) = Some c) \<and>
     (\<forall>c < length (rt_heap d). rt_pc d ! c = Accepted \<longrightarrow> \<not> wc_Done (rt_heap d ! c)))"

lemma reg_holder: "registry_ok d \<Longrightarrow> reg d u dev = Some c \<Longrightarrow> running d c \<and> user_of d c = u \<and> device_of d c = dev"
  by (simp add: registry_ok_def)

lemma running_holds: "registry_ok d \<Longrightarrow> running d c \<Longrightarrow> reg d (user_of d c) (device_of d c) = Some c"
  by (simp add: registry_ok_def)

lemma map_of_nonempty: "m \<noteq> [] \<longleftrightarrow> (\<exists>k v. map_of m k = Some v)"
  by (cases m) auto

lemma IsOnline_reg: "IsOnline u d \<longleftrightarrow> (\<exists>dev c. reg d u dev = Some c)"
  by (simp add: IsOnline_def reg_def map_of_nonempty)

lemma devices_frame [simp]:
  "devices_of u (upd_client c f d) = devices_of u d" "devices_of u (set_pc c p d) = devices_of u d"
  "devices_of u (d\<lparr>rt_subs := s\<rparr>) = devices_of u d" "devices_of u (d\<lparr>rt_live := s\<rparr>) = devices_of u d"
  "devices_of u (d\<lparr>rt_heap := h\<rparr>) = devices_of u d" "devices_of u (d\<lparr>rt_pc := ps\<rparr>) = devices_of u d"
  by (simp_all add: devices_of_def upd_client_def set_pc_def)

lemma state_frame [simp]:
  "rt_pc (upd_client c f d) = rt_pc d" "rt_clients (upd_client c f d) = rt_clients d" "rt_subs (upd_client c f d) = rt_subs d"
  "rt_live (upd_client c f d) = rt_live d" "rt_heap (upd_client c f d) = (rt_heap d)[c := f (rt_heap d ! c)]"
  "rt_heap (set_pc c p d) = rt_heap d" "rt_clients (set_pc c p d) = rt_clients d" "rt_subs (set_pc c p d) = rt_subs d"
  "rt_live (set_pc c p d) = rt_live d" "rt_pc (set_pc c p d) = (rt_pc d)[c := p]"
  by (simp_all add: upd_client_def set_pc_def)

lemma reg_frame: "reg (set_pc c p d) = reg d"
  by (simp add: reg_def fun_eq_iff)

lemma maps_ok_devices: "maps_ok d \<Longrightarrow> distinct (map fst (devices_of u d))"
  by (simp add: maps_ok_def devices_of_def split: option.split)

lemma maps_ok_put:
  "maps_ok d \<Longrightarrow> m \<noteq> [] \<Longrightarrow> distinct (map fst m) \<Longrightarrow> rt_clients d' = AList.update u m (rt_clients d) \<Longrightarrow> maps_ok d'"
  by (simp add: maps_ok_def distinct_update update_conv')

lemma maps_ok_delete: "maps_ok d \<Longrightarrow> rt_clients d' = AList.delete u (rt_clients d) \<Longrightarrow> maps_ok d'"
  by (simp add: maps_ok_def distinct_delete delete_conv')

lemma maps_ok_frame: "rt_clients d' = rt_clients d \<Longrightarrow> maps_ok d' = maps_ok d"
  by (simp add: maps_ok_def)

text \<open>Registration and its inverse, as updates of the registry.\<close>

lemma Register_effect:
  assumes "ConnectionManager_Register c d = Inr d'" "maps_ok d"
  shows "maps_ok d'" "rt_pc d' = rt_pc d" "rt_subs d' = rt_subs d" "rt_live d' = rt_live d"
    "reg d' u dev = (if u = user_of d c \<and> dev = device_of d c then Some c else reg d u dev)"
    "rt_heap d' = (case reg d (user_of d c) (device_of d c) of None \<Rightarrow> rt_heap d
       | Some old \<Rightarrow> (rt_heap d)[old := (rt_heap d ! old)\<lparr>wc_Done := True\<rparr>])"
proof -
  let ?u = "user_of d c" and ?dev = "device_of d c"
  let ?m = "AList.update ?dev c (devices_of ?u d)"
  have cl: "rt_clients d' = AList.update ?u ?m (rt_clients d)" and rest: "rt_pc d' = rt_pc d" "rt_subs d' = rt_subs d" "rt_live d' = rt_live d"
    "rt_heap d' = (case reg d ?u ?dev of None \<Rightarrow> rt_heap d | Some old \<Rightarrow> (rt_heap d)[old := (rt_heap d ! old)\<lparr>wc_Done := True\<rparr>])"
    using assms(1) by (auto simp: ConnectionManager_Register_def reg_def Let_def close_done_def split: option.splits if_splits sum.splits)
  show "maps_ok d'" using assms(2) cl by (rule_tac maps_ok_put) (simp_all add: distinct_update maps_ok_devices)
  show "reg d' u dev = (if u = ?u \<and> dev = ?dev then Some c else reg d u dev)"
    by (simp add: reg_def devices_of_def cl update_conv' split: option.split)
  show "rt_pc d' = rt_pc d" "rt_subs d' = rt_subs d" "rt_live d' = rt_live d"
    "rt_heap d' = (case reg d ?u ?dev of None \<Rightarrow> rt_heap d | Some old \<Rightarrow> (rt_heap d)[old := (rt_heap d ! old)\<lparr>wc_Done := True\<rparr>])"
    by (fact rest)+
qed

lemma Unregister_effect:
  assumes "maps_ok d"
  shows "maps_ok (ConnectionManager_Unregister c d)" "rt_pc (ConnectionManager_Unregister c d) = rt_pc d"
    "rt_subs (ConnectionManager_Unregister c d) = rt_subs d" "rt_live (ConnectionManager_Unregister c d) = rt_live d"
    "rt_heap (ConnectionManager_Unregister c d) = rt_heap d"
    "reg (ConnectionManager_Unregister c d) u dev =
       (if u = user_of d c \<and> dev = device_of d c \<and> reg d u dev = Some c then None else reg d u dev)"
proof -
  let ?u = "user_of d c" and ?dev = "device_of d c" and ?d' = "ConnectionManager_Unregister c d"
  show "rt_pc ?d' = rt_pc d" "rt_subs ?d' = rt_subs d" "rt_live ?d' = rt_live d" "rt_heap ?d' = rt_heap d"
    by (simp_all add: ConnectionManager_Unregister_def Let_def split: option.split)
  show "maps_ok ?d'"
    using assms by (simp add: ConnectionManager_Unregister_def Let_def distinct_delete maps_ok_def delete_conv' distinct_update update_conv'
        del: map_of_eq_Some_iff split: option.split)
  show "reg ?d' u dev = (if u = ?u \<and> dev = ?dev \<and> reg d u dev = Some c then None else reg d u dev)"
  proof (cases "map_of (rt_clients d) ?u")
    case None then show ?thesis by (simp add: ConnectionManager_Unregister_def reg_def devices_of_def)
  next
    case (Some m)
    have del: "AList.delete ?dev m = [] \<Longrightarrow> map_of m x = None" if "x \<noteq> ?dev" for x
      using map_of_delete[OF that, of m] by simp
    show ?thesis
      using Some del by (auto simp: ConnectionManager_Unregister_def Let_def reg_def devices_of_def delete_conv' update_conv')
  qed
qed

subsection \<open>The invariant of the registry\<close>

text \<open>What the invariant depends on: program counters, the two maps, and who a connection is.\<close>

definition ident :: "WebSocketClient \<Rightarrow> string \<times> string \<times> bool" where
  "ident x = (wc_UserID x, wc_DeviceID x, wc_Done x)"

definition core :: "realtime \<Rightarrow> phase list \<times> (string \<times> (string \<times> nat) list) list \<times> (string \<times> string \<times> bool) list" where
  "core d = (rt_pc d, rt_clients d, map ident (rt_heap d))"

lemma core_ident:
  assumes "core d' = core d"
  shows "length (rt_heap d') = length (rt_heap d)"
    "c < length (rt_heap d) \<Longrightarrow> user_of d' c = user_of d c \<and> device_of d' c = device_of d c \<and> wc_Done (rt_heap d' ! c) = wc_Done (rt_heap d ! c)"
proof -
  have m: "map ident (rt_heap d') = map ident (rt_heap d)" using assms by (simp add: core_def)
  show len: "length (rt_heap d') = length (rt_heap d)" using m by (rule map_eq_imp_length_eq)
  assume "c < length (rt_heap d)"
  then have "ident (rt_heap d' ! c) = ident (rt_heap d ! c)" using m len by (metis nth_map)
  then show "user_of d' c = user_of d c \<and> device_of d' c = device_of d c \<and> wc_Done (rt_heap d' ! c) = wc_Done (rt_heap d ! c)"
    by (simp add: ident_def)
qed

lemma core_reg: "core d' = core d \<Longrightarrow> reg d' = reg d"
  by (simp add: core_def reg_def devices_of_def fun_eq_iff)

lemma core_running: "core d' = core d \<Longrightarrow> running d' c = running d c"
  using core_ident[of d' d] by (auto simp: running_def core_def)

lemma registry_ok_core:
  assumes "core d' = core d" "registry_ok d"
  shows "registry_ok d'"
proof -
  note same = core_ident[OF assms(1)] core_reg[OF assms(1)] core_running[OF assms(1)]
  have bound: "running d c \<Longrightarrow> c < length (rt_heap d)" for c by (simp add: running_def)
  show ?thesis
    unfolding registry_ok_def
  proof (intro conjI allI impI)
    show "maps_ok d'" "length (rt_pc d') = length (rt_heap d')"
      using assms same(1) maps_ok_frame[of d' d] by (simp_all add: core_def registry_ok_def)
  next
    fix u dev c assume "reg d' u dev = Some c"
    then have "running d c \<and> user_of d c = u \<and> device_of d c = dev" using assms(2) same(3) by (simp add: registry_ok_def)
    then show "running d' c" "user_of d' c = u" "device_of d' c = dev" using same bound by simp_all
  next
    fix c assume "running d' c"
    then have "running d c" using same by simp
    then have "reg d (user_of d c) (device_of d c) = Some c" using assms(2) by (simp add: registry_ok_def)
    then show "reg d' (user_of d' c) (device_of d' c) = Some c" using same bound[OF \<open>running d c\<close>] by simp
  next
    fix c assume "c < length (rt_heap d')" "rt_pc d' ! c = Accepted"
    then show "\<not> wc_Done (rt_heap d' ! c)" using assms same by (simp add: core_def registry_ok_def)
  qed
qed

lemma nth_update_field: "(\<And>y. g (f y) = g y) \<Longrightarrow> g (xs[i := f (xs ! i)] ! x) = g (xs ! x)"
  by (cases "i < length xs"; cases "i = x") (simp_all add: not_less list_update_beyond)

lemma core_upd: "ident (f (rt_heap d ! c)) = ident (rt_heap d ! c) \<Longrightarrow> core (upd_client c f d) = core d"
  by (cases "c < length (rt_heap d)") (simp_all add: core_def map_update list_update_same_conv list_update_beyond)

lemma registry_accept:
  "registry_ok d \<Longrightarrow> registry_ok (d\<lparr>rt_heap := rt_heap d @ [NewWebSocketClient u dev], rt_pc := rt_pc d @ [Accepted]\<rparr>)"
proof -
  let ?d = "d\<lparr>rt_heap := rt_heap d @ [NewWebSocketClient u dev], rt_pc := rt_pc d @ [Accepted]\<rparr>"
  assume ok: "registry_ok d"
  then have run: "running ?d c = running d c" for c
    by (auto simp: running_def nth_append registry_ok_def less_Suc_eq)
  have same: "rt_heap ?d ! c = rt_heap d ! c" if "running d c" for c using that by (simp add: running_def nth_append)
  have "reg ?d = reg d" by (simp add: reg_def fun_eq_iff)
  then show ?thesis using ok run same maps_ok_frame[of ?d d]
    by (auto simp: registry_ok_def nth_append less_Suc_eq NewWebSocketClient_def)
qed

lemma registry_register:
  assumes "registry_ok d" "ConnectionManager_Register c d = Inr d'" "c < length (rt_heap d)" "rt_pc d ! c = Accepted"
  shows "registry_ok (set_pc c Registered d')"
proof -
  let ?u = "user_of d c" and ?dev = "device_of d c"
  have maps: "maps_ok d" using assms(1) by (simp add: registry_ok_def)
  note eff = Register_effect[OF assms(2) maps]
  have ids: "user_of d' x = user_of d x" "device_of d' x = device_of d x" "length (rt_heap d') = length (rt_heap d)" for x
    by (simp_all add: eff(6) nth_update_field[where f = "wc_Done_update (\<lambda>_. True)"] split: option.split)
  have don: "wc_Done (rt_heap d' ! x) \<longleftrightarrow> wc_Done (rt_heap d ! x) \<or> reg d ?u ?dev = Some x" if "x < length (rt_heap d)" for x
  proof (cases "reg d ?u ?dev")
    case (Some old) then show ?thesis using that by (cases "old = x") (simp_all add: eff(6))
  qed (simp add: eff(6))
  have notrun: "\<not> running d c" using assms(4) by (simp add: running_def)
  have fresh: "reg d u dev \<noteq> Some c" for u dev using assms(1) notrun by (auto simp: registry_ok_def)
  have run: "running (set_pc c Registered d') x \<longleftrightarrow> x = c \<or> (running d x \<and> reg d ?u ?dev \<noteq> Some x)" for x
    using assms don fresh ids by (auto simp: running_def eff(2) nth_list_update registry_ok_def)
  have reg: "reg (set_pc c Registered d') a b = (if a = ?u \<and> b = ?dev then Some c else reg d a b)" for a b
    by (simp add: reg_frame eff(5))
  show ?thesis
    unfolding registry_ok_def
  proof (intro conjI allI impI)
    show "maps_ok (set_pc c Registered d')" using eff(1) by (simp add: maps_ok_def)
  next
    fix x assume "running (set_pc c Registered d') x"
    then have "x = c \<or> (reg d (user_of d x) (device_of d x) = Some x \<and> reg d ?u ?dev \<noteq> Some x)"
      using running_holds[OF assms(1)] run by blast
    then have "reg (set_pc c Registered d') (user_of d x) (device_of d x) = Some x" unfolding reg by metis
    then show "reg (set_pc c Registered d') (user_of (set_pc c Registered d') x) (device_of (set_pc c Registered d') x) = Some x"
      by (simp add: ids)
  next
    fix u dev x assume "reg (set_pc c Registered d') u dev = Some x"
    then consider "x = c" "u = ?u" "dev = ?dev" | "reg d u dev = Some x" "\<not> (u = ?u \<and> dev = ?dev)"
      unfolding reg by (metis option.inject)
    then have "running (set_pc c Registered d') x \<and> user_of (set_pc c Registered d') x = u \<and> device_of (set_pc c Registered d') x = dev"
    proof cases
      case 1 then show ?thesis by (simp add: run ids)
    next
      case 2
      note h = reg_holder[OF assms(1) 2(1)]
      then have "reg d ?u ?dev \<noteq> Some x" using reg_holder[OF assms(1), of ?u ?dev x] 2(2) by auto
      then show ?thesis using h by (simp add: run ids)
    qed
    then show "running (set_pc c Registered d') x" "user_of (set_pc c Registered d') x = u" "device_of (set_pc c Registered d') x = dev"
      by simp_all
  next
    fix x assume "x < length (rt_heap (set_pc c Registered d'))" "rt_pc (set_pc c Registered d') ! x = Accepted"
    then have x: "x < length (rt_heap d)" "rt_pc d ! x = Accepted"
      using assms(1,3) ids(3) by (auto simp: eff(2) nth_list_update registry_ok_def split: if_splits)
    then have "\<not> running d x" "\<not> wc_Done (rt_heap d ! x)" using assms(1) by (simp_all add: running_def registry_ok_def)
    then show "\<not> wc_Done (rt_heap (set_pc c Registered d') ! x)"
      using don[OF x(1)] reg_holder[OF assms(1), of ?u ?dev x] by auto
  qed (use assms(1) ids eff(2) in \<open>simp_all add: registry_ok_def\<close>)
qed

lemma registry_pc:
  assumes "registry_ok d" "c < length (rt_heap d)" "p \<noteq> Accepted"
    and "p \<in> {Registered, Serving} \<longleftrightarrow> rt_pc d ! c \<in> {Registered, Serving}"
  shows "registry_ok (set_pc c p d)"
proof -
  have run: "running (set_pc c p d) x = running d x" for x
    using assms by (auto simp: running_def nth_list_update registry_ok_def)
  have "reg (set_pc c p d) = reg d" by (simp add: reg_def fun_eq_iff)
  then show ?thesis using assms run maps_ok_frame[of "set_pc c p d" d]
    by (auto simp: registry_ok_def nth_list_update split: if_splits)
qed

lemma registry_leave:
  assumes "registry_ok d" "c < length (rt_heap d)" "rt_pc d ! c = Serving" "p \<notin> {Accepted, Registered, Serving}"
  shows "registry_ok (set_pc c p (ConnectionManager_Unregister c d))"
proof -
  let ?d = "set_pc c p (ConnectionManager_Unregister c d)"
  have maps: "maps_ok d" using assms(1) by (simp add: registry_ok_def)
  note eff = Unregister_effect[OF maps, of c]
  have len: "length (rt_pc d) = length (rt_heap d)" using assms(1) by (simp add: registry_ok_def)
  have run: "running ?d x \<longleftrightarrow> running d x \<and> x \<noteq> c" for x
    using assms(2-4) len by (auto simp: running_def eff(2,5) nth_list_update)
  have reg: "reg ?d a b = (if a = user_of d c \<and> b = device_of d c \<and> reg d a b = Some c then None else reg d a b)" for a b
    by (simp add: reg_frame eff(6))
  have gone: "reg ?d u dev \<noteq> Some c" for u dev
    using reg_holder[OF assms(1), of u dev c] unfolding reg by (metis option.distinct(1))
  show ?thesis
    unfolding registry_ok_def
  proof (intro conjI allI impI)
    show "maps_ok ?d" using eff(1) by (simp add: maps_ok_def)
  next
    fix x assume "running ?d x"
    then have x: "reg d (user_of d x) (device_of d x) = Some x" "x \<noteq> c" using running_holds[OF assms(1)] run by simp_all
    have "reg ?d (user_of d x) (device_of d x) = Some x"
      unfolding reg using x by (metis option.inject)
    then show "reg ?d (user_of ?d x) (device_of ?d x) = Some x" by (simp add: eff(5))
  next
    fix u dev x assume x: "reg ?d u dev = Some x"
    then have "x \<noteq> c" "reg d u dev = Some x" using gone unfolding reg by (metis option.distinct(1))+
    then show "running ?d x" "user_of ?d x = u" "device_of ?d x = dev"
      using reg_holder[OF assms(1), of u dev x] by (simp_all add: run eff(5))
  next
    fix x assume "x < length (rt_heap ?d)" "rt_pc ?d ! x = Accepted"
    then have "x < length (rt_heap d)" "rt_pc d ! x = Accepted"
      using assms(2-4) len by (auto simp: eff(2,5) nth_list_update split: if_splits)
    then show "\<not> wc_Done (rt_heap ?d ! x)" using assms(1) by (simp add: registry_ok_def eff(5))
  qed (use len in \<open>simp_all add: eff(2,5)\<close>)
qed

subsection \<open>Every step keeps it\<close>

lemma keeps_local: "(\<And>d a d'. I d \<Longrightarrow> f d = Inr (a, d') \<Longrightarrow> I d') \<Longrightarrow> keeps I (localE f)"
  by (auto simp: keeps_def localE_def split: sum.split)

lemma keeps_upd: "(\<And>d. I d \<Longrightarrow> I (f d)) \<Longrightarrow> keeps I (updE f)"
  unfolding updE_def by (rule keeps_local) auto

lemma ensures_local:
  "(\<And>d. P d \<Longrightarrow> J d) \<Longrightarrow> (\<And>d a d'. P d \<Longrightarrow> f d = Inr (a, d') \<Longrightarrow> J d') \<Longrightarrow> ensures P J (localE f)"
  by (auto simp: ensures_def localE_def split: sum.split)

lemma ensures_upd: "(\<And>d. P d \<Longrightarrow> J (f d)) \<Longrightarrow> ensures P J (updE f)"
  unfolding ensures_def updE_def localE_def by simp

lemma ensures_at:
  assumes "\<And>d. P d \<Longrightarrow> J d" "\<And>x. ensures (\<lambda>d. P d \<and> c < length (rt_heap d) \<and> rt_pc d ! c = p \<and> rt_heap d ! c = x) J (k x)"
  shows "ensures P J (at c p k)"
  using assms unfolding ensures_def at_def localE_def bindE_def returnE_def by auto

text \<open>Steps that only touch queues, sockets and subscriptions.\<close>

definition core_stable :: "(realtime, 'a) M \<Rightarrow> bool" where
  "core_stable m = (\<forall>k. keeps (\<lambda>d. core d = k) m)"

lemma stable_keeps: "core_stable m \<Longrightarrow> keeps registry_ok m"
  unfolding core_stable_def keeps_def by (metis registry_ok_core)

lemma core_offer: "core (snd (offer c m d)) = core d"
  by (simp add: offer_def core_upd ident_def)

lemma core_SendToUser: "core (snd (SendToUser u m d)) = core d"
proof -
  have "core (snd (fold (\<lambda>(dev, c) (sent, d). case offer c m d of (ok, d') \<Rightarrow> (sent \<or> ok, d')) xs (b, d))) = core d" for xs b d
  proof (induction xs arbitrary: b d)
    case (Cons x xs)
    obtain dev c where x: "x = (dev, c)" by (cases x)
    obtain ok d' where o: "offer c m d = (ok, d')" by (cases "offer c m d")
    then have "core d' = core d" using core_offer[of c m d] by simp
    then show ?case using Cons.IH by (simp add: x o)
  qed simp
  then show ?thesis by (simp add: SendToUser_def)
qed

lemma core_subs: "core (d\<lparr>rt_subs := us, rt_live := vs\<rparr>) = core d" "core (d\<lparr>rt_subs := us\<rparr>) = core d" "core (d\<lparr>rt_live := vs\<rparr>) = core d"
  by (simp_all add: core_def)

lemma keeps_core_send:
  "keeps (\<lambda>d. core d = k) (SendMessageToUser u m)" "keeps (\<lambda>d. core d = k) (handleNotification u n)"
  unfolding SendMessageToUser_def handleNotification_def SendNotificationToUser_def
  using core_SendToUser by (auto intro!: keeps_local keeps_upd dest!: arg_cong[of "SendToUser u m _" _ snd])

lemma keeps_core_subscribe:
  "keeps (\<lambda>d. core d = k) (SubscribeUser s u)" "keeps (\<lambda>d. core d = k) (UnsubscribeUser s u)" "keeps (\<lambda>d. core d = k) (end_pump c)"
  unfolding SubscribeUser_def UnsubscribeUser_def end_pump_def
  by (intro keeps_intros keeps_local keeps_upd; simp add: core_subs core_upd ident_def)+

lemmas keeps_core_steps = keeps_core_send keeps_core_subscribe

lemma stable_messages: "core_stable (handleClientMessage s x msg)"
  unfolding core_stable_def handleClientMessage_def handleSendMessage_def handleSendTyping_def Let_def
  by (intro allI keeps_intros keeps_core_steps; simp add: keeps_intros keeps_core_steps split: sum.split option.split)

lemma stable_deliver: "core_stable (deliver s topic n)"
  unfolding core_stable_def deliver_def by (intro allI keeps_intros keeps_core_steps keeps_local) simp

lemma stable_WritePump: "core_stable (WritePump c b)"
  unfolding core_stable_def WritePump_def write_frame_def
  by (intro allI keeps_intros keeps_local)
     (auto split: pump_branch.split list.split intro!: keeps_intros keeps_core_steps keeps_upd simp: core_upd ident_def)

lemma keeps_accept: "keeps registry_ok (accept s r)"
  unfolding accept_def Let_def ValidateAccessToken_def ParseToken_def
  by (intro keeps_intros keeps_local; auto simp: registry_accept intro: keeps_intros split: option.split bool.split)

lemma keeps_via_at:
  "(\<And>x. ensures (\<lambda>d. registry_ok d \<and> c < length (rt_heap d) \<and> rt_pc d ! c = p \<and> rt_heap d ! c = x) registry_ok (k x)) \<Longrightarrow>
     keeps registry_ok (at c p k)"
  unfolding ensures_keeps by (rule ensures_at) auto

lemma keeps_goRegister: "keeps registry_ok (goRegister c)"
  unfolding goRegister_def
  by (intro keeps_via_at ensures_local) (auto split: sum.splits simp: registry_register)

text \<open>Moving a program counter after steps that leave the core alone.\<close>

definition at_phase :: "nat \<Rightarrow> phase \<Rightarrow> realtime \<Rightarrow> bool" where
  "at_phase c p d = (registry_ok d \<and> c < length (rt_heap d) \<and> rt_pc d ! c = p)"

lemma at_phase_core: "core d' = core d \<Longrightarrow> at_phase c p d \<Longrightarrow> at_phase c p d'"
  using registry_ok_core[of d' d] core_ident(1)[of d' d] by (simp add: at_phase_def core_def)

lemma stable_at_phase: "core_stable m \<Longrightarrow> keeps (at_phase c p) m"
  unfolding core_stable_def keeps_def by (metis at_phase_core)

lemma ensures_stable_then:
  assumes "core_stable m" "ensures (at_phase c p) registry_ok k"
  shows "ensures (at_phase c p) registry_ok (thenE m k)"
  using stable_at_phase[OF assms(1), of c p] assms(2)
  unfolding ensures_def keeps_def thenE_def bindE_def by (auto simp: at_phase_def split: prod.splits sum.splits)

lemma stable_rest: "core_stable (ignoreE (SubscribeUser s u))" "core_stable (UnsubscribeUser s u)"
  unfolding core_stable_def by (intro allI keeps_intros keeps_core_steps)+

lemma keeps_via_phase:
  "(\<And>x. ensures (at_phase c p) registry_ok (k x)) \<Longrightarrow> keeps registry_ok (at c p k)"
  by (rule keeps_via_at) (auto simp: ensures_def at_phase_def)

lemma core_set_pc_upd: "ident (f (rt_heap d ! c)) = ident (rt_heap d ! c) \<Longrightarrow> core (set_pc c p (upd_client c f d)) = core (set_pc c p d)"
  using core_upd[of f d c] by (simp add: core_def)

lemma keeps_leave: "p \<notin> {Accepted, Registered, Serving} \<Longrightarrow> ensures (at_phase c Serving) registry_ok (leave c p)"
  unfolding leave_def
  by (rule ensures_upd, rule registry_ok_core[OF core_set_pc_upd])
     (auto simp: ident_def at_phase_def intro!: registry_leave)

lemma keeps_goReceive: "keeps registry_ok (goReceive s c frame)"
proof -
  have "ensures (at_phase c Serving) registry_ok (\<lambda>w. case handleClientMessage s x msg w of
       (Inl e, w') \<Rightarrow> leave c Gone w' | (Inr (), w') \<Rightarrow> (Inr (), w'))" for x msg
    using stable_at_phase[OF stable_messages[of s x msg], of c Serving] keeps_leave[of Gone c]
    unfolding ensures_def keeps_def by (auto simp: at_phase_def split: prod.splits sum.splits unit.splits)
  then show ?thesis
    unfolding goReceive_def
    by (intro keeps_via_phase) (auto split: option.split intro: ensures_return simp: at_phase_def)
qed

lemma rt_step_keeps: "keeps registry_ok (rt_step s op)"
proof (cases op)
  case (OpSubscribe c)
  have "ensures (at_phase c Registered) registry_ok (updE (\<lambda>d. set_pc c Serving (upd_client c (\<lambda>x. x\<lparr>wc_Pump := True\<rparr>) d)))"
    by (rule ensures_upd, rule registry_ok_core[OF core_set_pc_upd]) (auto simp: ident_def at_phase_def intro!: registry_pc)
  then show ?thesis unfolding OpSubscribe rt_step.simps goSubscribe_def
    by (intro keeps_via_phase ensures_stable_then stable_rest)
next
  case (OpUnsubscribe c)
  have "ensures (at_phase c Leaving) registry_ok (updE (set_pc c Gone))"
    by (rule ensures_upd) (auto simp: at_phase_def intro!: registry_pc)
  then show ?thesis unfolding OpUnsubscribe rt_step.simps goUnsubscribe_def
    by (intro keeps_via_phase ensures_stable_then stable_rest)
next
  case (OpCheck c)
  show ?thesis unfolding OpCheck rt_step.simps goCheck_def
    by (intro keeps_via_phase ensures_upd) (auto simp: at_phase_def intro!: registry_pc)
next
  case (OpDisconnect c)
  show ?thesis unfolding OpDisconnect rt_step.simps goDisconnect_def by (intro keeps_via_phase keeps_leave) simp
qed (simp_all add: keeps_void keeps_accept keeps_goRegister keeps_goReceive stable_keeps stable_WritePump stable_deliver)

lemma registry_empty: "registry_ok empty_realtime"
  by (simp add: registry_ok_def empty_realtime_def maps_ok_def running_def reg_def devices_of_def)

interpretation realtime_service: service "rt_step s" any_op registry_ok empty_realtime for s
  by unfold_locales (rule registry_empty, rule rt_step_keeps)

end
