(* ===== verification/Realtime_Properties.thy ===== *)
theory Realtime_Properties
  imports Realtime Message_Send
begin

text \<open>
  Properties of the WebSocket gateway: the registry under every interleaving, the fate of a user's
  subscription, who receives a notification, and what becomes of a message a client sends.
\<close>

subsection \<open>The registry\<close>

text \<open>C28: in every reachable state, for every interleaving of the goroutines, the registry holds a
  connection under a user and a device exactly if that connection runs for that user and device and was not
  replaced; so there is at most one such connection, and registering never closes a channel twice.\<close>

theorem registry_exact:
  assumes "reachable (rt_step s) any_op empty_realtime (db w)"
  shows "(reg (db w) u dev = Some c \<longleftrightarrow> running (db w) c \<and> wc_UserID (rt_heap (db w) ! c) = u \<and> wc_DeviceID (rt_heap (db w) ! c) = dev) \<and>
    (\<forall>c' m. fst (rt_step s (OpRegister c') w) \<noteq> Inl (Panicked m))"
proof -
  have ok: "registry_ok (db w)" by (rule realtime_service.reachable_inv[OF assms])
  have "fst (goRegister c' w) \<noteq> Inl (Panicked m)" for c' m
  proof -
    have "\<not> wc_Done (rt_heap (db w) ! old)" if "map_of (devices_of x (db w)) y = Some old" for x y old
      using reg_holder[OF ok, of x y old] that by (auto simp: reg_def running_def)
    then show ?thesis
      by (auto simp: goRegister_def at_def localE_def bindE_def returnE_def ConnectionManager_Register_def close_done_def Let_def
          split: option.splits sum.splits if_splits)
  qed
  then show ?thesis using reg_holder[OF ok, of u dev c] running_holds[OF ok, of c] by auto
qed

subsection \<open>Subscriptions\<close>


text \<open>With a broker that accepts every subscription, what the two operations do.\<close>

definition broker_up :: "gateway \<Rightarrow> bool" where
  "broker_up s = ((\<forall>n t. gw_Subscribe s n t = Inr ()) \<and> (\<forall>n t. gw_Unsubscribe s n t = Inr ()))"

lemma SubscribeUser_up:
  assumes "broker_up s"
  shows "\<exists>w'. SubscribeUser s u w = (Inr (), w') \<and>
    db w' = (if u \<in> set (rt_subs (db w)) then db w else (db w)\<lparr>rt_subs := u # rt_subs (db w), rt_live := u # rt_live (db w)\<rparr>)"
  using assms by (simp add: SubscribeUser_def localE_def updE_def bindE_def thenE_def returnE_def catchE_def rpc_def broker_up_def)

lemma UnsubscribeUser_up:
  assumes "broker_up s"
  shows "\<exists>w'. UnsubscribeUser s u w = (Inr (), w') \<and>
    db w' = (if u \<in> set (rt_subs (db w)) then (db w)\<lparr>rt_live := remove1 u (rt_live (db w)), rt_subs := removeAll u (rt_subs (db w))\<rparr> else db w)"
  using assms by (simp add: UnsubscribeUser_def localE_def updE_def bindE_def thenE_def returnE_def ignoreE_def catchE_def rpc_def broker_up_def)

text \<open>An interleaving is calm when no connection of a user subscribes between the moment another one of
  the same user finds the user offline and the moment it unsubscribes.\<close>

fun calm :: "rt_op \<Rightarrow> realtime \<Rightarrow> bool" where
  "calm (OpSubscribe c) d = (\<forall>c' < length (rt_heap d). rt_pc d ! c' = Leaving \<longrightarrow> wc_UserID (rt_heap d ! c') \<noteq> wc_UserID (rt_heap d ! c))"
| "calm _ d = True"

definition calm_step :: "gateway \<Rightarrow> rt_op \<Rightarrow> (realtime, unit) M" where
  "calm_step s op w = (if calm op (db w) then rt_step s op w else (Inr (), w))"

definition served :: "realtime \<Rightarrow> nat \<Rightarrow> bool" where
  "served d c = (c < length (rt_heap d) \<and> rt_pc d ! c = Serving \<and> \<not> wc_Done (rt_heap d ! c))"

definition leaving :: "realtime \<Rightarrow> nat \<Rightarrow> bool" where
  "leaving d c = (c < length (rt_heap d) \<and> rt_pc d ! c = Leaving)"

definition calm_inv :: "realtime \<Rightarrow> bool" where
  "calm_inv d = (registry_ok d \<and> rt_live d = rt_subs d \<and> distinct (rt_subs d) \<and>
     (\<forall>c. served d c \<longrightarrow> user_of d c \<in> set (rt_subs d)) \<and>
     (\<forall>c c'. leaving d c \<longrightarrow> served d c' \<longrightarrow> user_of d c \<noteq> user_of d c'))"

text \<open>The part of the invariant beside the registry, for a change that serves nobody new, lets nobody
  leave and keeps the subscriptions.\<close>

lemma calm_inv_fewer:
  assumes "calm_inv d" "registry_ok d'" "rt_subs d' = rt_subs d" "rt_live d' = rt_live d"
    and "\<And>c. served d' c \<Longrightarrow> served d c \<and> user_of d' c = user_of d c"
    and "\<And>c. leaving d' c \<Longrightarrow> leaving d c \<and> user_of d' c = user_of d c"
  shows "calm_inv d'"
  using assms unfolding calm_inv_def by metis

lemma served_core: "core d' = core d \<Longrightarrow> served d' c = served d c \<and> leaving d' c = leaving d c"
  using core_ident(2)[of d' d c] core_ident(1)[of d' d] by (auto simp: served_def leaving_def core_def)

lemma calm_inv_core:
  assumes "calm_inv d" "core d' = core d" "rt_subs d' = rt_subs d" "rt_live d' = rt_live d"
  shows "calm_inv d'"
proof (rule calm_inv_fewer[OF assms(1) _ assms(3,4)])
  show "registry_ok d'" using registry_ok_core[OF assms(2)] assms(1) by (simp add: calm_inv_def)
  show "served d c \<and> user_of d' c = user_of d c" if "served d' c" for c
    using that served_core[OF assms(2), of c] core_ident(2)[OF assms(2), of c] by (auto simp: served_def)
  show "leaving d c \<and> user_of d' c = user_of d c" if "leaving d' c" for c
    using that served_core[OF assms(2), of c] core_ident(2)[OF assms(2), of c] by (auto simp: leaving_def)
qed

text \<open>Steps that leave both the core and the subscriptions alone.\<close>

definition quiet_part :: "realtime \<Rightarrow> (phase list \<times> (string \<times> (string \<times> nat) list) list \<times> (string \<times> string \<times> bool) list) \<times> string list \<times> string list" where
  "quiet_part d = (core d, rt_subs d, rt_live d)"

definition aside :: "(realtime, 'a) M \<Rightarrow> bool" where
  "aside m = (\<forall>k. keeps (\<lambda>d. quiet_part d = k) m)"

lemma aside_keeps: "aside m \<Longrightarrow> keeps calm_inv m"
  unfolding aside_def keeps_def quiet_part_def by (metis calm_inv_core prod.inject)

lemma quiet_part_upd: "ident (f (rt_heap d ! c)) = ident (rt_heap d ! c) \<Longrightarrow> quiet_part (upd_client c f d) = quiet_part d"
  by (simp add: quiet_part_def core_upd)

lemma offer_subs: "rt_subs (snd (offer c m d)) = rt_subs d \<and> rt_live (snd (offer c m d)) = rt_live d"
  by (simp add: offer_def)

lemma SendToUser_subs: "rt_subs (snd (SendToUser u m d)) = rt_subs d \<and> rt_live (snd (SendToUser u m d)) = rt_live d"
proof -
  have "rt_subs (snd (fold (\<lambda>(dev, c) (sent, d). case offer c m d of (ok, d') \<Rightarrow> (sent \<or> ok, d')) xs (b, d))) = rt_subs d \<and>
      rt_live (snd (fold (\<lambda>(dev, c) (sent, d). case offer c m d of (ok, d') \<Rightarrow> (sent \<or> ok, d')) xs (b, d))) = rt_live d" for xs b d
  proof (induction xs arbitrary: b d)
    case (Cons x xs)
    obtain dev c where x: "x = (dev, c)" by (cases x)
    obtain ok d' where o: "offer c m d = (ok, d')" by (cases "offer c m d")
    then show ?case using Cons.IH[of "b \<or> ok" d'] offer_subs[of c m d] by (simp add: x o)
  qed simp
  then show ?thesis by (simp add: SendToUser_def)
qed

lemma keeps_aside_send: "keeps (\<lambda>d. quiet_part d = k) (SendMessageToUser u m)" "keeps (\<lambda>d. quiet_part d = k) (handleNotification u n)"
proof -
  have "quiet_part (snd (SendToUser u m d)) = quiet_part d" for u m d
    using core_SendToUser SendToUser_subs by (simp add: quiet_part_def)
  then show "keeps (\<lambda>d. quiet_part d = k) (SendMessageToUser u m)" "keeps (\<lambda>d. quiet_part d = k) (handleNotification u n)"
    unfolding SendMessageToUser_def handleNotification_def SendNotificationToUser_def
    by (auto intro!: keeps_local keeps_upd dest!: arg_cong[of "SendToUser u m _" _ snd])
qed

lemma aside_steps: "aside (handleClientMessage s x msg)" "aside (deliver s topic n)" "aside (WritePump c b)"
proof -
  show "aside (handleClientMessage s x msg)"
    unfolding aside_def handleClientMessage_def handleSendMessage_def handleSendTyping_def Let_def
    by (intro allI keeps_intros keeps_aside_send; simp add: keeps_intros keeps_aside_send split: sum.split option.split)
  show "aside (deliver s topic n)"
    unfolding aside_def deliver_def by (intro allI keeps_intros keeps_aside_send keeps_local) simp
  show "aside (WritePump c b)"
    unfolding aside_def WritePump_def write_frame_def end_pump_def
    by (intro allI keeps_intros keeps_local)
       (auto split: pump_branch.split list.split intro!: keeps_intros keeps_upd simp: quiet_part_upd ident_def)
qed

text \<open>The steps of a connection.\<close>

lemma served_pc: "length (rt_pc d) = length (rt_heap d) \<Longrightarrow> c < length (rt_heap d) \<Longrightarrow> p \<noteq> Serving \<Longrightarrow> served (set_pc c p d) x \<Longrightarrow> served d x"
  by (auto simp: served_def nth_list_update split: if_splits)

lemma leaving_pc: "length (rt_pc d) = length (rt_heap d) \<Longrightarrow> c < length (rt_heap d) \<Longrightarrow> p \<noteq> Leaving \<Longrightarrow> leaving (set_pc c p d) x \<Longrightarrow> leaving d x"
  by (auto simp: leaving_def nth_list_update split: if_splits)

lemma calm_pc:
  assumes "calm_inv d" "registry_ok (set_pc c p d)" "c < length (rt_heap d)" "p \<noteq> Serving" "p \<noteq> Leaving"
  shows "calm_inv (set_pc c p d)"
  by (rule calm_inv_fewer[OF assms(1,2)])
     (use assms served_pc[of d c p] leaving_pc[of d c p] in \<open>simp_all add: calm_inv_def registry_ok_def\<close>)

lemma calm_Register:
  assumes "calm_inv d" "ConnectionManager_Register c d = Inr d'" "c < length (rt_heap d)" "rt_pc d ! c = Accepted"
  shows "calm_inv (set_pc c Registered d')"
proof -
  have maps: "maps_ok d" and len: "length (rt_pc d) = length (rt_heap d)" and ok: "registry_ok d"
    using assms(1) by (simp_all add: calm_inv_def registry_ok_def)
  note eff = Register_effect[OF assms(2) maps]
  have ids: "user_of d' x = user_of d x" "length (rt_heap d') = length (rt_heap d)" for x
    by (simp_all add: eff(6) nth_update_field[where f = "wc_Done_update (\<lambda>_. True)"] split: option.split)
  have don: "wc_Done (rt_heap d ! x) \<Longrightarrow> x < length (rt_heap d) \<Longrightarrow> wc_Done (rt_heap d' ! x)" for x
  proof -
    assume x: "wc_Done (rt_heap d ! x)" "x < length (rt_heap d)"
    show "wc_Done (rt_heap d' ! x)"
    proof (cases "reg d (user_of d c) (device_of d c)")
      case (Some old) then show ?thesis using x by (cases "old = x") (simp_all add: eff(6))
    qed (simp add: eff(6) x)
  qed
  show ?thesis
  proof (rule calm_inv_fewer[OF assms(1) registry_register[OF ok assms(2-4)]])
    show "served d x \<and> user_of (set_pc c Registered d') x = user_of d x" if "served (set_pc c Registered d') x" for x
      using that ids don len assms(3) by (auto simp: served_def eff(2) nth_list_update split: if_splits)
    show "leaving d x \<and> user_of (set_pc c Registered d') x = user_of d x" if "leaving (set_pc c Registered d') x" for x
      using that ids len assms(3) by (auto simp: leaving_def eff(2) nth_list_update split: if_splits)
  qed (simp_all add: eff)
qed

lemma calm_leave:
  assumes "calm_inv d" "c < length (rt_heap d)" "rt_pc d ! c = Serving" "p \<notin> {Accepted, Registered, Serving, Leaving}"
  shows "calm_inv (set_pc c p (upd_client c (\<lambda>x. x\<lparr>wc_Open := False\<rparr>) (ConnectionManager_Unregister c d)))"
proof -
  let ?d = "ConnectionManager_Unregister c d"
  have maps: "maps_ok d" and len: "length (rt_pc d) = length (rt_heap d)" and ok: "registry_ok d"
    using assms(1) by (simp_all add: calm_inv_def registry_ok_def)
  note eff = Unregister_effect[OF maps, of c]
  have "calm_inv (set_pc c p ?d)"
  proof (rule calm_inv_fewer[OF assms(1) registry_leave[OF ok assms(2,3)]])
    show "served d x \<and> user_of (set_pc c p ?d) x = user_of d x" if "served (set_pc c p ?d) x" for x
      using that len assms(2-4) by (auto simp: served_def eff(2,5) nth_list_update split: if_splits)
    show "leaving d x \<and> user_of (set_pc c p ?d) x = user_of d x" if "leaving (set_pc c p ?d) x" for x
      using that len assms(2-4) by (auto simp: leaving_def eff(2,5) nth_list_update split: if_splits)
  qed (use assms(4) in \<open>simp_all add: eff(3,4)\<close>)
  then show ?thesis by (rule calm_inv_core) (simp_all add: core_set_pc_upd ident_def)
qed

lemma calm_accept:
  assumes "calm_inv d"
  shows "calm_inv (d\<lparr>rt_heap := rt_heap d @ [NewWebSocketClient u dev], rt_pc := rt_pc d @ [Accepted]\<rparr>)"
proof (rule calm_inv_fewer[OF assms registry_accept])
  show "registry_ok d" using assms by (simp add: calm_inv_def)
  then have len: "length (rt_pc d) = length (rt_heap d)" by (simp add: registry_ok_def)
  show "served d x \<and> user_of (d\<lparr>rt_heap := rt_heap d @ [NewWebSocketClient u dev], rt_pc := rt_pc d @ [Accepted]\<rparr>) x = user_of d x"
    if "served (d\<lparr>rt_heap := rt_heap d @ [NewWebSocketClient u dev], rt_pc := rt_pc d @ [Accepted]\<rparr>) x" for x
    using that len by (auto simp: served_def nth_append less_Suc_eq split: if_splits)
  show "leaving d x \<and> user_of (d\<lparr>rt_heap := rt_heap d @ [NewWebSocketClient u dev], rt_pc := rt_pc d @ [Accepted]\<rparr>) x = user_of d x"
    if "leaving (d\<lparr>rt_heap := rt_heap d @ [NewWebSocketClient u dev], rt_pc := rt_pc d @ [Accepted]\<rparr>) x" for x
    using that len by (auto simp: leaving_def nth_append less_Suc_eq split: if_splits)
qed simp_all

text \<open>The check: who is found offline has no running connection.\<close>

lemma calm_check:
  assumes "calm_inv d" "c < length (rt_heap d)" "rt_pc d ! c = Unregistered"
  shows "calm_inv (set_pc c (if IsOnline (user_of d c) d then Gone else Leaving) d)"
proof (cases "IsOnline (user_of d c) d")
  case True
  moreover have "registry_ok (set_pc c Gone d)" using assms by (auto simp: calm_inv_def intro!: registry_pc)
  ultimately show ?thesis using calm_pc[OF assms(1) _ assms(2), of Gone] by simp
next
  case False
  have ok: "registry_ok d" and len: "length (rt_pc d) = length (rt_heap d)" using assms(1) by (simp_all add: calm_inv_def registry_ok_def)
  have "user_of d x \<noteq> user_of d c" if "served d x" for x
  proof -
    have "running d x" using that by (simp add: served_def running_def)
    then show ?thesis using running_holds[OF ok] False by (metis IsOnline_reg)
  qed
  moreover have "served (set_pc c Leaving d) x = served d x" for x
    using assms(2,3) len by (auto simp: served_def nth_list_update)
  moreover have "leaving (set_pc c Leaving d) x \<Longrightarrow> leaving d x \<or> x = c" for x
    by (auto simp: leaving_def nth_list_update split: if_splits)
  moreover have "registry_ok (set_pc c Leaving d)" using ok assms(2,3) by (auto intro!: registry_pc)
  ultimately show ?thesis using False assms(1) unfolding calm_inv_def by (simp add: state_frame) metis
qed

text \<open>Subscribing, when nobody of the same user is about to unsubscribe, and unsubscribing.\<close>

lemma calm_subscribe:
  assumes "calm_inv d" "c < length (rt_heap d)" "rt_pc d ! c = Registered" "\<And>x. leaving d x \<Longrightarrow> user_of d x \<noteq> user_of d c"
    and "d1 = (if user_of d c \<in> set (rt_subs d) then d else d\<lparr>rt_subs := user_of d c # rt_subs d, rt_live := user_of d c # rt_live d\<rparr>)"
  shows "calm_inv (set_pc c Serving (upd_client c (\<lambda>x. x\<lparr>wc_Pump := True\<rparr>) d1))"
proof -
  have ok: "registry_ok d" and len: "length (rt_pc d) = length (rt_heap d)" using assms(1) by (simp_all add: calm_inv_def registry_ok_def)
  have d1: "core d1 = core d" "rt_heap d1 = rt_heap d" "rt_pc d1 = rt_pc d" "rt_live d1 = rt_subs d1" "distinct (rt_subs d1)"
    "set (rt_subs d1) = insert (user_of d c) (set (rt_subs d))"
    using assms(1,5) by (auto simp: core_subs calm_inv_def)
  let ?d = "set_pc c Serving d1"
  have "served ?d x \<Longrightarrow> served d x \<or> x = c" "leaving ?d x \<Longrightarrow> leaving d x" for x
    using assms(2) len by (auto simp: served_def leaving_def d1 nth_list_update split: if_splits)
  moreover have "registry_ok ?d"
    using registry_ok_core[OF d1(1) ok] assms(2,3) by (auto simp: d1 intro!: registry_pc)
  ultimately have "calm_inv ?d"
    using assms(1,4) unfolding calm_inv_def by (simp add: d1) (metis insertE insertI1 insertI2)
  then show ?thesis by (rule calm_inv_core) (simp_all add: core_set_pc_upd ident_def)
qed

lemma calm_unsubscribe:
  assumes "calm_inv d" "c < length (rt_heap d)" "rt_pc d ! c = Leaving"
    and "d1 = (if user_of d c \<in> set (rt_subs d)
      then d\<lparr>rt_live := remove1 (user_of d c) (rt_live d), rt_subs := removeAll (user_of d c) (rt_subs d)\<rparr> else d)"
  shows "calm_inv (set_pc c Gone d1)"
proof -
  have ok: "registry_ok d" and len: "length (rt_pc d) = length (rt_heap d)" using assms(1) by (simp_all add: calm_inv_def registry_ok_def)
  have d1: "core d1 = core d" "rt_heap d1 = rt_heap d" "rt_pc d1 = rt_pc d" "rt_live d1 = rt_subs d1" "distinct (rt_subs d1)"
    "set (rt_subs d1) = set (rt_subs d) - {user_of d c}"
    using assms(1,4) by (auto simp: core_subs calm_inv_def distinct_remove1_removeAll distinct_removeAll core_def)
  let ?d = "set_pc c Gone d1"
  have "leaving d c" using assms(2,3) by (simp add: leaving_def)
  then have away: "served d x \<Longrightarrow> user_of d x \<noteq> user_of d c" for x using assms(1) unfolding calm_inv_def by metis
  have "served ?d x \<Longrightarrow> served d x" "leaving ?d x \<Longrightarrow> leaving d x" for x
    using assms(2,3) len by (auto simp: served_def leaving_def d1 nth_list_update split: if_splits)
  moreover note away
  moreover have "registry_ok ?d"
    using registry_ok_core[OF d1(1) ok] assms(2,3) by (auto simp: d1 intro!: registry_pc)
  ultimately show ?thesis
    using assms(1) unfolding calm_inv_def by (simp add: d1)
qed

lemma calm_step_ensures:
  assumes "broker_up s" "calm_inv d0"
  shows "ensures (\<lambda>d. d = d0 \<and> calm op d) calm_inv (rt_step s op)"
proof -
  have phase: "ensures (\<lambda>d. d = d0 \<and> calm op d) calm_inv (at c p k)"
    if "\<And>w. calm_inv (db w) \<Longrightarrow> calm op (db w) \<Longrightarrow> c < length (rt_heap (db w)) \<Longrightarrow> rt_pc (db w) ! c = p \<Longrightarrow> db w = d0 \<Longrightarrow>
      calm_inv (db (snd (k (rt_heap (db w) ! c) w)))" for c p k
    by (rule ensures_at) (use that assms(2) in \<open>auto simp: ensures_def\<close>)
  have plain: "ensures (\<lambda>d. d = d0 \<and> calm op d) calm_inv m" if "aside m" for m :: "(realtime, unit) M"
    by (rule ensures_weaken[OF aside_keeps[OF that]]) (use assms(2) in auto)
  have leave: "calm_inv (db (snd (leave c p w)))"
    if "calm_inv (db w)" "c < length (rt_heap (db w))" "rt_pc (db w) ! c = Serving" "p \<in> {Gone, Unregistered}" for c p and w :: "realtime world"
    using calm_leave[OF that(1-3), of p] that(4) by (auto simp: leave_def updE_def localE_def)
  show ?thesis
  proof (cases op)
    case (OpAccept r)
    have "keeps calm_inv (accept s r)"
      unfolding accept_def Let_def ValidateAccessToken_def ParseToken_def
      by (intro keeps_intros keeps_local; auto simp: calm_accept intro: keeps_intros split: option.split bool.split)
    then show ?thesis unfolding OpAccept rt_step.simps by (intro ensures_weaken keeps_void) (use assms(2) in auto)
  next
    case (OpRegister c)
    show ?thesis unfolding OpRegister rt_step.simps goRegister_def
      by (rule phase[unfolded OpRegister]) (auto simp: localE_def calm_Register split: sum.split)
  next
    case (OpSubscribe c)
    show ?thesis unfolding OpSubscribe rt_step.simps goSubscribe_def
    proof (rule phase[unfolded OpSubscribe])
      fix w :: "realtime world"
      assume w: "calm_inv (db w)" "calm (OpSubscribe c) (db w)" "c < length (rt_heap (db w))" "rt_pc (db w) ! c = Registered"
      let ?u = "user_of (db w) c"
      obtain w' where sub: "SubscribeUser s ?u w = (Inr (), w')"
        "db w' = (if ?u \<in> set (rt_subs (db w)) then db w else (db w)\<lparr>rt_subs := ?u # rt_subs (db w), rt_live := ?u # rt_live (db w)\<rparr>)"
        using SubscribeUser_up[OF assms(1)] by blast
      have "calm_inv (set_pc c Serving (upd_client c (\<lambda>x. x\<lparr>wc_Pump := True\<rparr>) (db w')))"
        by (rule calm_subscribe[OF w(1,3,4) _ sub(2)]) (use w(2) in \<open>auto simp: leaving_def\<close>)
      then show "calm_inv (db (snd (thenE (ignoreE (SubscribeUser s ?u))
          (updE (\<lambda>d. set_pc c Serving (upd_client c (\<lambda>x. x\<lparr>wc_Pump := True\<rparr>) d))) w)))"
        by (simp add: thenE_def bindE_def ignoreE_def catchE_def returnE_def sub(1) updE_def localE_def)
    qed
  next
    case (OpReceive c frame)
    show ?thesis unfolding OpReceive rt_step.simps goReceive_def
    proof (rule phase[unfolded OpReceive])
      fix w :: "realtime world"
      assume w: "calm_inv (db w)" "c < length (rt_heap (db w))" "rt_pc (db w) ! c = Serving"
      have "calm_inv (db (snd (case handleClientMessage s x msg w of (Inl e, w') \<Rightarrow> leave c Gone w' | (Inr (), w') \<Rightarrow> (Inr (), w'))))" for x msg
      proof -
        obtain r w' where run: "handleClientMessage s x msg w = (r, w')" by (cases "handleClientMessage s x msg w")
        then have "quiet_part (db w') = quiet_part (db w)"
          using aside_steps(1)[of s x msg] unfolding aside_def keeps_def by (metis snd_conv)
        then have "calm_inv (db w')" "c < length (rt_heap (db w'))" "rt_pc (db w') ! c = Serving"
          using w calm_inv_core[of "db w" "db w'"] core_ident(1)[of "db w'" "db w"] by (simp_all add: quiet_part_def core_def)
        then show ?thesis using leave[of w' c Gone] by (simp add: run split: sum.split unit.split)
      qed
      then show "calm_inv (db (snd ((case frame of None \<Rightarrow> returnE ()
         | Some msg \<Rightarrow> (\<lambda>v. case handleClientMessage s (rt_heap (db w) ! c) msg v of
             (Inl e, w') \<Rightarrow> leave c Gone w' | (Inr (), w') \<Rightarrow> (Inr (), w'))) w)))"
        using w(1) by (simp add: returnE_def split: option.split)
    qed
  next
    case (OpDisconnect c)
    show ?thesis unfolding OpDisconnect rt_step.simps goDisconnect_def
      by (rule phase[unfolded OpDisconnect]) (simp add: leave)
  next
    case (OpCheck c)
    show ?thesis unfolding OpCheck rt_step.simps goCheck_def
      by (rule phase[unfolded OpCheck]) (simp add: updE_def localE_def calm_check del: if_split)
  next
    case (OpUnsubscribe c)
    show ?thesis unfolding OpUnsubscribe rt_step.simps goUnsubscribe_def
    proof (rule phase[unfolded OpUnsubscribe])
      fix w :: "realtime world"
      assume w: "calm_inv (db w)" "c < length (rt_heap (db w))" "rt_pc (db w) ! c = Leaving"
      let ?u = "user_of (db w) c"
      obtain w' where sub: "UnsubscribeUser s ?u w = (Inr (), w')"
        "db w' = (if ?u \<in> set (rt_subs (db w)) then (db w)\<lparr>rt_live := remove1 ?u (rt_live (db w)), rt_subs := removeAll ?u (rt_subs (db w))\<rparr> else db w)"
        using UnsubscribeUser_up[OF assms(1)] by blast
      show "calm_inv (db (snd (thenE (UnsubscribeUser s ?u) (updE (set_pc c Gone)) w)))"
        using calm_unsubscribe[OF w sub(2)] by (simp add: thenE_def bindE_def sub(1) updE_def localE_def)
    qed
  next
    case (OpWrite c b)
    show ?thesis unfolding OpWrite rt_step.simps by (rule plain[OF aside_steps(3), unfolded OpWrite])
  next
    case (OpDeliver topic n)
    show ?thesis unfolding OpDeliver rt_step.simps by (rule plain[OF aside_steps(2), unfolded OpDeliver])
  qed
qed

lemma calm_step_keeps: "broker_up s \<Longrightarrow> keeps calm_inv (calm_step s op)"
  using calm_step_ensures[of s _ op] unfolding keeps_def ensures_def calm_step_def by auto

lemma calm_inv_empty: "calm_inv empty_realtime"
  unfolding calm_inv_def using registry_empty by (simp add: empty_realtime_def served_def leaving_def)


text \<open>Without calm it fails.\<close>

definition subs_agree :: "realtime \<Rightarrow> bool" where
  "subs_agree d = (rt_live d = rt_subs d \<and> distinct (rt_subs d))"

text \<open>C30: in any other interleaving a user loses notifications: when a connection found its user offline,
  a new connection of the same user subscribes before the old one unsubscribes, the new connection stays
  registered and served while the broker no longer serves the user.\<close>

theorem lost_subscription:
  assumes "broker_up s" "reachable (rt_step s) any_op empty_realtime (db w)" "subs_agree (db w)" "leaving (db w) c" "c' < length (rt_heap (db w))"
    and "rt_pc (db w) ! c' = Registered" "\<not> wc_Done (rt_heap (db w) ! c')"
    and "wc_UserID (rt_heap (db w) ! c) = u" "wc_UserID (rt_heap (db w) ! c') = u" "u \<in> set (rt_subs (db w))"
  shows "let d' = db (run_ops (rt_step s) [OpSubscribe c', OpUnsubscribe c] w) in
    served d' c' \<and> IsOnline u d' \<and> u \<notin> set (rt_live d')"
proof -
  let ?d = "db w"
  have ok: "registry_ok ?d" by (rule realtime_service.reachable_inv[OF assms(2)])
  then have len: "length (rt_pc ?d) = length (rt_heap ?d)" by (simp add: registry_ok_def)
  have c: "c < length (rt_heap ?d)" "rt_pc ?d ! c = Leaving" "c \<noteq> c'" using assms(4,6) by (auto simp: leaving_def)
  obtain w1 where s1: "SubscribeUser s u w = (Inr (), w1)" "db w1 = ?d"
    using SubscribeUser_up[OF assms(1), of u w] assms(10) by auto
  let ?d1 = "set_pc c' Serving (upd_client c' (\<lambda>x. x\<lparr>wc_Pump := True\<rparr>) ?d)"
  have step1: "rt_step s (OpSubscribe c') w = (Inr (), w1\<lparr>db := ?d1\<rparr>)"
    using assms(5,6,9) s1 by (simp add: goSubscribe_def at_def localE_def updE_def bindE_def thenE_def ignoreE_def catchE_def returnE_def)
  let ?w1 = "w1\<lparr>db := ?d1\<rparr>"
  have u1: "wc_UserID (rt_heap ?d1 ! c) = u" using assms(8) c by simp
  obtain w2 where s2: "UnsubscribeUser s u ?w1 = (Inr (), w2)"
      "db w2 = ?d1\<lparr>rt_live := remove1 u (rt_live ?d), rt_subs := removeAll u (rt_subs ?d)\<rparr>"
    using UnsubscribeUser_up[OF assms(1), of u ?w1] assms(10) by auto
  have step2: "rt_step s (OpUnsubscribe c) ?w1 = (Inr (), w2\<lparr>db := set_pc c Gone (db w2)\<rparr>)"
    using c u1 s2(1) len by (simp add: goUnsubscribe_def at_def localE_def updE_def bindE_def thenE_def returnE_def)
  have final: "db (run_ops (rt_step s) [OpSubscribe c', OpUnsubscribe c] w) = set_pc c Gone (db w2)"
    using step1 step2 by (simp add: run_ops_def)
  have "running ?d c'" using assms(5-7) by (simp add: running_def)
  then have "reg ?d u (wc_DeviceID (rt_heap ?d ! c')) = Some c'" using running_holds[OF ok] assms(9) by metis
  moreover have "reg (set_pc c Gone (db w2)) = reg ?d" by (simp add: reg_def fun_eq_iff s2(2))
  ultimately have "IsOnline u (set_pc c Gone (db w2))" unfolding IsOnline_reg by metis
  moreover have "u \<notin> set (rt_live (set_pc c Gone (db w2)))"
    using assms(3) by (simp add: s2(2) subs_agree_def distinct_remove1_removeAll)
  moreover have "served (set_pc c Gone (db w2)) c'"
    using assms(5-7) c len by (simp add: served_def s2(2))
  ultimately show ?thesis by (simp add: final)
qed

subsection \<open>Delivery\<close>

lemma offer_heap: "rt_heap (snd (offer c m d)) ! x =
    (if x = c \<and> c < length (rt_heap d) \<and> length (wc_Send (rt_heap d ! c)) < queue_cap
     then (rt_heap d ! c)\<lparr>wc_Send := wc_Send (rt_heap d ! c) @ [m]\<rparr> else rt_heap d ! x)"
  "length (rt_heap (snd (offer c m d))) = length (rt_heap d)"
  by (auto simp: offer_def nth_list_update list_update_beyond not_less)

definition pushed :: "wsMessage \<Rightarrow> WebSocketClient \<Rightarrow> WebSocketClient" where
  "pushed m x = (if length (wc_Send x) < queue_cap then x\<lparr>wc_Send := wc_Send x @ [m]\<rparr> else x)"

text \<open>Every device of the user is offered the frame once, nobody else is.\<close>

lemma SendToUser_heap:
  assumes "distinct (map snd (devices_of u d))" "x < length (rt_heap d)"
  shows "rt_heap (snd (SendToUser u m d)) ! x =
    (if x \<in> snd ` set (devices_of u d) then pushed m (rt_heap d ! x) else rt_heap d ! x)"
proof -
  have "rt_heap (snd (fold (\<lambda>(dev, c) (sent, d). case offer c m d of (ok, d') \<Rightarrow> (sent \<or> ok, d')) xs (b, d))) ! x =
      (if x \<in> snd ` set xs then pushed m (rt_heap d ! x) else rt_heap d ! x)"
    if "distinct (map snd xs)" "x < length (rt_heap d)" for xs b d
    using that
  proof (induction xs arbitrary: b d)
    case (Cons y ys)
    obtain dev c where y: "y = (dev, c)" by (cases y)
    obtain ok d' where o: "offer c m d = (ok, d')" by (cases "offer c m d")
    have d': "rt_heap d' ! x = (if x = c then pushed m (rt_heap d ! x) else rt_heap d ! x)" "x < length (rt_heap d')"
      using offer_heap[of c m d] o Cons.prems(2) by (auto simp: pushed_def)
    show ?case
      using Cons.IH[of d' "b \<or> ok"] Cons.prems(1) d' by (auto simp: y o)
  qed simp
  from this[OF assms] show ?thesis unfolding SendToUser_def .
qed

lemma devices_distinct:
  assumes "registry_ok d"
  shows "distinct (map snd (devices_of u d))" "x \<in> snd ` set (devices_of u d) \<longleftrightarrow> (\<exists>dev. reg d u dev = Some x)"
proof -
  have keys: "distinct (map fst (devices_of u d))" using assms maps_ok_devices by (simp add: registry_ok_def)
  then have mem: "(dev, c) \<in> set (devices_of u d) \<longleftrightarrow> reg d u dev = Some c" for dev c by (simp add: reg_def)
  then show "x \<in> snd ` set (devices_of u d) \<longleftrightarrow> (\<exists>dev. reg d u dev = Some x)" by force
  have "inj_on snd (set (devices_of u d))"
    using reg_holder[OF assms] mem by (intro inj_onI) (metis prod.collapse)
  then show "distinct (map snd (devices_of u d))"
    using keys by (simp add: distinct_map)
qed

text \<open>Subjects: the documented matching of NATS, token by token, for patterns without the wildcard \<open>>\<close>.\<close>

definition subject_match :: "string \<Rightarrow> string \<Rightarrow> bool" where
  "subject_match pattern subject = list_all2 (\<lambda>p t. p = ''*'' \<or> p = t) (split_on (CHR ''.'') pattern) (split_on (CHR ''.'') subject)"

definition documented_matching :: "gateway \<Rightarrow> bool" where
  "documented_matching s = (\<forall>p t. CHR ''>'' \<notin> set p \<longrightarrow> gw_matches s p t = subject_match p t)"

text \<open>An identifier that is one token of a subject and no wildcard.\<close>

definition token :: "string \<Rightarrow> bool" where
  "token u = (CHR ''.'' \<notin> set u \<and> CHR ''>'' \<notin> set u \<and> u \<noteq> ''*'')"

lemma split_on_token: "sep \<notin> set xs \<Longrightarrow> split_on sep xs = [xs]"
  by (induction xs) auto

lemma split_on_append: "sep \<notin> set xs \<Longrightarrow> split_on sep (xs @ sep # ys) = xs # split_on sep ys"
  by (induction xs) auto

definition two_tokens :: "string \<Rightarrow> bool" where
  "two_tokens ty = (\<exists>a b. ty = a @ ''.'' @ b \<and> CHR ''.'' \<notin> set a \<and> CHR ''.'' \<notin> set b)"

lemma topic_match:
  assumes "documented_matching s" "token u" "token v" "two_tokens ty"
  shows "gw_matches s (user_topic v) (BuildUserNotificationTopic ty u) \<longleftrightarrow> u = v"
proof -
  obtain a b where ty: "ty = a @ ''.'' @ b" "CHR ''.'' \<notin> set a" "CHR ''.'' \<notin> set b" using assms(4) by (auto simp: two_tokens_def)
  have sep: "CHR ''.'' \<notin> set ''notification''" "CHR ''.'' \<notin> set ''*''" by simp_all
  have "split_on (CHR ''.'') (user_topic v) = [''notification'', ''*'', ''*'', v]"
    using split_on_append[OF sep(1), of "''*.*.'' @ v"] split_on_append[OF sep(2), of "''*.'' @ v"] split_on_append[OF sep(2), of v] assms(3)
    by (simp add: user_topic_def token_def split_on_token)
  moreover have "split_on (CHR ''.'') (BuildUserNotificationTopic ty u) = [''notification'', a, b, u]"
    using split_on_append[OF sep(1), of "a @ ''.'' @ b @ ''.'' @ u"] split_on_append[OF ty(2), of "b @ ''.'' @ u"] split_on_append[OF ty(3), of u] assms(2)
    by (simp add: BuildUserNotificationTopic_def ty(1) token_def split_on_token)
  moreover have "CHR ''>'' \<notin> set (user_topic v)" using assms(3) by (simp add: user_topic_def token_def)
  ultimately show ?thesis using assms(1,3) by (auto simp: documented_matching_def subject_match_def token_def)
qed

lemma deliver_to:
  assumes "filter (\<lambda>v. gw_matches s (user_topic v) topic) (rt_live (db w)) = us"
  shows "\<exists>w'. deliver s topic n w = (Inr (), w') \<and>
    db w' = fold (\<lambda>u d. snd (SendNotificationToUser u n d)) us (db w)"
proof -
  have "\<exists>w'. forE us (\<lambda>u. handleNotification u n) w = (Inr (), w') \<and> db w' = fold (\<lambda>u d. snd (SendNotificationToUser u n d)) us (db w)" for us w
  proof (induction us arbitrary: w)
    case Nil show ?case by (simp add: returnE_def)
  next
    case (Cons u us)
    let ?w = "w\<lparr>db := snd (SendNotificationToUser u n (db w))\<rparr>"
    have "handleNotification u n w = (Inr (), ?w)" by (simp add: handleNotification_def updE_def localE_def)
    then show ?case using Cons.IH[of ?w] by (simp add: thenE_def bindE_def)
  qed
  from this[of us w] show ?thesis using assms by (simp add: deliver_def localE_def bindE_def)
qed

lemma filter_single: "u \<in> set xs \<Longrightarrow> distinct xs \<Longrightarrow> filter (\<lambda>v. v = u) xs = [u]"
proof (induction xs)
  case (Cons x xs)
  have "u \<notin> set xs \<Longrightarrow> filter (\<lambda>v. v = u) xs = []" by (induction xs) auto
  then show ?case using Cons by (cases "x = u") auto
qed simp


text \<open>A notification published to a group reaches no connection: the gateway subscribes to the topics
  of users only, and the topic of a group is that of a user only if a user has the identifier of the group.\<close>

theorem group_notification_unheard:
  assumes "documented_matching s" "token g" "\<forall>v \<in> set (rt_live (db w)). token v" "two_tokens (n_Type n)" "g \<notin> set (rt_live (db w))"
  shows "\<exists>w'. deliver s (BuildGroupNotificationTopic (n_Type n) g) n w = (Inr (), w') \<and> db w' = db w"
proof -
  have "BuildGroupNotificationTopic (n_Type n) g = BuildUserNotificationTopic (n_Type n) g"
    by (simp add: BuildGroupNotificationTopic_def BuildUserNotificationTopic_def)
  then have "filter (\<lambda>v. gw_matches s (user_topic v) (BuildGroupNotificationTopic (n_Type n) g)) (rt_live (db w)) = []"
    using topic_match[OF assms(1,2) _ assms(4)] assms(3,5) by (auto simp: filter_empty_conv)
  from deliver_to[OF this, of n] show ?thesis by simp
qed

subsection \<open>Messages sent over the connection\<close>

text \<open>The message service behind the gateway: its handler run with the metadata that reach it.\<close>

definition message_client :: "ctx \<Rightarrow> messageServiceImpl \<Rightarrow> (nat \<Rightarrow> message_db world) \<Rightarrow> nat \<Rightarrow> SendMessageRequest \<Rightarrow> err + SentMessage option" where
  "message_client ctx ms ws n req = (case fst (MessageHandler_SendMessage ctx ms req (ws n)) of
       Inl e \<Rightarrow> Inl e
     | Inr m \<Rightarrow> Inr (Some \<lparr>sr_MessageId = pb_MessageId m, sr_Seq = pb_Seq m, sr_Timestamp = Some (unix (pb_Timestamp m))\<rparr>))"

text \<open>C32: the gateway calls the message service from a fresh context, without the operator's identity, and
  the handler panics when that is missing: every \<open>message.send\<close> is answered with \<open>message.error\<close>, none with
  \<open>message.sent\<close>, and the service stores nothing.\<close>

theorem websocket_send_fails:
  assumes "gw_SendMessage s = (\<lambda>ctx. message_client ctx ms ws)"
  shows "\<exists>w' e. handleSendMessage s c (Some req) w = (Inr (), w') \<and>
    db w' = snd (SendToUser (wc_UserID c) \<lparr>wm_Type = ''message.error'',
      wm_Payload = PSendError \<lparr>se_Code = ''send_failed'', se_Message = e, se_LocalID = sp_LocalID req\<rparr>\<rparr> (db w)) \<and>
    (\<forall>n r. db (snd (MessageHandler_SendMessage background ms r (ws n))) = db (ws n))"
proof -
  let ?e = "Status Unauthenticated ''missing user_id metadata''"
  have none: "MessageHandler_SendMessage background ms r v = (Inl (Panicked (err_string ?e)), v)" for r v
    by (simp add: MessageHandler_SendMessage_def MustGetUserID_def RequireUserID_def GetUserID_def bindE_def throwE_def background_def)
  then have "gw_SendMessage s background n r = Inl (Panicked (err_string ?e))" for n r
    by (simp add: assms message_client_def)
  then have "\<exists>w'. handleSendMessage s c (Some req) w = (Inr (), w') \<and>
    db w' = snd (SendToUser (wc_UserID c) \<lparr>wm_Type = ''message.error'',
      wm_Payload = PSendError \<lparr>se_Code = ''send_failed'', se_Message = ''unknown request error'', se_LocalID = sp_LocalID req\<rparr>\<rparr> (db w))"
    by (auto simp: handleSendMessage_def rpc_def remote_err_def bindE_def catchE_def returnE_def SendMessageToUser_def localE_def void_def
        thenE_def Let_def split: prod.split)
  moreover have "\<forall>n r. db (snd (MessageHandler_SendMessage background ms r (ws n))) = db (ws n)" by (simp add: none)
  ultimately show ?thesis by blast
qed

subsection \<open>Two devices and a lost subscription\<close>

definition example_gateway :: gateway where
  "example_gateway = \<lparr>gw_SendMessage = (\<lambda>_ _ _. Inl (Plain ''down'')), gw_SendTyping = (\<lambda>_ _ _. Inr ()),
     gw_Subscribe = (\<lambda>_ _. Inr ()), gw_Unsubscribe = (\<lambda>_ _. Inr ()), gw_matches = subject_match,
     gw_jwt = \<lparr>jl_SignedString = (\<lambda>_ c. Inr (cl_UserID c)),
       jl_ParseWithClaims = (\<lambda>_ _ tok. Inr (Some \<lparr>cl_UserID = tl tok, cl_DeviceID = [hd tok], cl_DeviceType = 1, cl_TokenType = ''access'',
         cl_ExpiresAt = 0, cl_IssuedAt = 0, cl_NotBefore = 0\<rparr>, True))\<rparr>,
     gw_jwtManager = \<lparr>ac_Secret = ''s'', ac_AccessTokenExpire = 1, ac_RefreshTokenExpire = 1\<rparr>, gw_ALLOWED_ORIGINS = ''''\<rparr>"

definition connect :: "string \<Rightarrow> rt_op" where
  "connect tok = OpAccept \<lparr>wr_Origin = '''', wr_Authorization = ''Bearer '' @ tok\<rparr>"

text \<open>Ann's first device goes, is found offline, and comes back before the old goroutine unsubscribes.\<close>

definition race_ops :: "rt_op list" where
  "race_ops = [connect ''1ann'', OpRegister 0, OpSubscribe 0, OpDisconnect 0, OpCheck 0, connect ''2ann'', OpRegister 1]"

definition race_world :: "realtime world" where
  "race_world = run_ops (rt_step example_gateway) race_ops (init_world empty_realtime)"

definition online_world :: "realtime world" where
  "online_world = run_ops (rt_step example_gateway) [connect ''1ann'', OpRegister 0, OpSubscribe 0] (init_world empty_realtime)"

definition calm_world :: "realtime world" where
  "calm_world = run_ops (calm_step example_gateway) [connect ''1ann'', OpRegister 0, OpSubscribe 0] (init_world empty_realtime)"

lemma race_reachable: "reachable (rt_step example_gateway) any_op empty_realtime (db race_world)"
  "reachable (rt_step example_gateway) any_op empty_realtime (db online_world)"
  "reachable (calm_step example_gateway) any_op empty_realtime (db calm_world)"
  unfolding race_world_def online_world_def calm_world_def
  by (rule run_ops_reachable, simp_all add: reachable.reach_init any_op_def race_ops_def)+

lemma example_broker_up: "broker_up example_gateway"
  by (simp add: broker_up_def example_gateway_def)

lemma race_state: "rt_heap (db race_world) = [(NewWebSocketClient ''ann'' ''1'')\<lparr>wc_Open := False, wc_Pump := True\<rparr>, NewWebSocketClient ''ann'' ''2'']"
  "rt_pc (db race_world) = [Leaving, Registered]" "rt_subs (db race_world) = [''ann'']" "rt_live (db race_world) = [''ann'']"
  by code_simp+

lemma online_state: "rt_heap (db online_world) = [(NewWebSocketClient ''ann'' ''1'')\<lparr>wc_Pump := True\<rparr>]"
  "rt_pc (db online_world) = [Serving]" "rt_live (db online_world) = [''ann'']" "rt_clients (db online_world) = [(''ann'', [(''1'', 0)])]"
  by code_simp+

lemma calm_state: "rt_heap (db calm_world) = [(NewWebSocketClient ''ann'' ''1'')\<lparr>wc_Pump := True\<rparr>]" "rt_pc (db calm_world) = [Serving]"
  by code_simp+

theorem registry_exact_witness: "running (db online_world) 0 \<and> \<not> running (db online_world) 1"
  using registry_exact[OF race_reachable(2), of "''ann''" "''1''" 0] registry_exact[OF race_reachable(2), of "''ann''" "''1''" 1]
  by (auto simp: online_state reg_def devices_of_def running_def NewWebSocketClient_def)


theorem lost_subscription_witness:
  "let d = db (run_ops (rt_step example_gateway) [OpSubscribe 1, OpUnsubscribe 0] race_world) in
     served d 1 \<and> IsOnline ''ann'' d \<and> ''ann'' \<notin> set (rt_live d)"
  by (rule lost_subscription[OF example_broker_up race_reachable(1)])
     (simp_all add: race_state subs_agree_def leaving_def NewWebSocketClient_def)

definition a_call :: Notification where
  "a_call = \<lparr>n_ID = ''1'', n_Type = ''call.invite'', n_Timestamp = 0, n_FromUserID = ''bob'', n_ToUserID = ''ann'', n_Priority = PriorityHigh,
     n_Payload = [], n_Metadata = []\<rparr>"

lemma a_call_type: "two_tokens (n_Type a_call)"
  unfolding two_tokens_def a_call_def by (intro exI[of _ "''call''"] exI[of _ "''invite''"]) simp

lemma example_matching: "documented_matching example_gateway"
  by (simp add: documented_matching_def example_gateway_def)


theorem group_notification_unheard_witness:
  "\<exists>w'. deliver example_gateway (BuildGroupNotificationTopic ''call.invite'' ''team'') a_call online_world = (Inr (), w') \<and> db w' = db online_world"
proof -
  have type: "n_Type a_call = ''call.invite''" by (simp add: a_call_def)
  show ?thesis
    using group_notification_unheard[OF example_matching _ _ a_call_type, of "''team''" online_world]
    by (simp add: online_state token_def type)
qed

definition chat_gateway :: gateway where
  "chat_gateway = example_gateway\<lparr>gw_SendMessage := (\<lambda>ctx. message_client ctx chat (\<lambda>_. init_world empty_message_db))\<rparr>"

theorem websocket_send_fails_witness:
  "\<exists>w' e. handleSendMessage chat_gateway (NewWebSocketClient ''ann'' ''1'')
      (Some \<lparr>sp_ConversationID = ''c1'', sp_ContentType = 1, sp_Content = ''hi'', sp_ReplyTo = '''', sp_AtUsers = [], sp_LocalID = ''l1''\<rparr>) online_world = (Inr (), w') \<and>
     wc_Send (rt_heap (db w') ! 0) = [\<lparr>wm_Type = ''message.error'',
       wm_Payload = PSendError \<lparr>se_Code = ''send_failed'', se_Message = e, se_LocalID = ''l1''\<rparr>\<rparr>]"
proof -
  have up: "gw_SendMessage chat_gateway = (\<lambda>ctx. message_client ctx chat (\<lambda>_. init_world empty_message_db))" by (simp add: chat_gateway_def)
  let ?p = "\<lparr>sp_ConversationID = ''c1'', sp_ContentType = 1, sp_Content = ''hi'', sp_ReplyTo = '''', sp_AtUsers = [], sp_LocalID = ''l1''\<rparr>"
  obtain w' e where w': "handleSendMessage chat_gateway (NewWebSocketClient ''ann'' ''1'') (Some ?p) online_world = (Inr (), w')"
      "db w' = snd (SendToUser ''ann'' \<lparr>wm_Type = ''message.error'',
        wm_Payload = PSendError \<lparr>se_Code = ''send_failed'', se_Message = e, se_LocalID = ''l1''\<rparr>\<rparr> (db online_world))"
    using websocket_send_fails[OF up, of "NewWebSocketClient ''ann'' ''1''" ?p online_world] by (auto simp: NewWebSocketClient_def)
  have "devices_of ''ann'' (db online_world) = [(''1'', 0)]" by (simp add: devices_of_def online_state)
  then have "wc_Send (rt_heap (db w') ! 0) = [\<lparr>wm_Type = ''message.error'',
       wm_Payload = PSendError \<lparr>se_Code = ''send_failed'', se_Message = e, se_LocalID = ''l1''\<rparr>\<rparr>]"
    by (simp add: w'(2) SendToUser_def offer_def queue_cap_def upd_client_def online_state NewWebSocketClient_def)
  with w'(1) show ?thesis by blast
qed

end
