(* ===== verification/Gateway_Model.thy ===== *)
theory Gateway_Model
  imports Group_Handler Credentials
begin

text \<open>
  The HTTP gateway (\<open>app/gateway/internal/middleware\<close> and \<open>internal/server/http.go\<close>) and the client side
  of the business codes (\<open>pkg/grpc/errorcode.go\<close>): which operations need a token, how the operator of a
  request reaches a service, and what becomes of a service's error on its way to the HTTP client.

  A proxy forwards a request to the gRPC client of a service, so a request is the handler of the service,
  run with the metadata that reach it.  The JWT middleware of the framework and its rate limiter are
  parameters.  JSON is not modelled: a response carries the values the envelope is written from.
\<close>

subsection \<open>Business codes at the client (\<open>pkg/grpc/errorcode.go\<close>)\<close>

text \<open>An error the gateway holds: the error of the call, or that error with a business code around it.\<close>

datatype client_err = Raw err | errorCodeCarrier int err

fun carried :: "client_err \<Rightarrow> err" where
  "carried (Raw e) = e"
| "carried (errorCodeCarrier _ e) = e"

text \<open>\<open>status.FromError\<close>: the status of the error, if it has one.\<close>

fun FromError :: "err \<Rightarrow> (grpc_code \<times> string) option" where
  "FromError (Status c m) = Some (c, m)"
| "FromError _ = None"

text \<open>The interceptor: \<open>trailer\<close> are the values of \<open>x-error-code\<close> in the trailing metadata.  The error of
  \<open>Atoi\<close> is dropped, its value is that of \<open>ParseInt\<close>.\<close>

definition ErrorCodeClient :: "string list \<Rightarrow> err \<Rightarrow> client_err" where
  "ErrorCodeClient trailer e =
     (if FromError e = None then Raw e
      else (case trailer of
          [] \<Rightarrow> Raw e
        | c # _ \<Rightarrow>
            let bizCode = fst (ParseInt c) in
            if bizCode = 0 then Raw e else errorCodeCarrier bizCode e))"

fun ExtractBusinessCode :: "client_err \<Rightarrow> int" where
  "ExtractBusinessCode (errorCodeCarrier c _) = c"
| "ExtractBusinessCode (Raw _) = 0"

subsection \<open>Responses (\<open>middleware/response.go\<close>, \<open>statuscode.go\<close>)\<close>

definition http_status :: "grpc_code \<Rightarrow> int" where
  "http_status g = (case g of
       InvalidArgument \<Rightarrow> 400
     | Unauthenticated \<Rightarrow> 401
     | PermissionDenied \<Rightarrow> 403
     | NotFound \<Rightarrow> 404
     | AlreadyExists \<Rightarrow> 409
     | FailedPrecondition \<Rightarrow> 412
     | ResourceExhausted \<Rightarrow> 429
     | _ \<Rightarrow> 500)"

definition mapBusinessCodeToHTTP :: "int \<Rightarrow> client_err \<Rightarrow> int" where
  "mapBusinessCodeToHTTP bizCode e =
     (if bizCode \<ge> 400 \<and> bizCode \<le> 599 then bizCode
      else (case FromError (carried e) of Some (c, _) \<Rightarrow> http_status c | None \<Rightarrow> 500))"

text \<open>\<open>err.Error()\<close> of a status, which is used when its message is empty.\<close>

definition code_name :: "grpc_code \<Rightarrow> string" where
  "code_name g = (case g of
       OK \<Rightarrow> ''OK'' | Canceled \<Rightarrow> ''Canceled'' | Unknown \<Rightarrow> ''Unknown'' | InvalidArgument \<Rightarrow> ''InvalidArgument''
     | DeadlineExceeded \<Rightarrow> ''DeadlineExceeded'' | NotFound \<Rightarrow> ''NotFound'' | AlreadyExists \<Rightarrow> ''AlreadyExists''
     | PermissionDenied \<Rightarrow> ''PermissionDenied'' | ResourceExhausted \<Rightarrow> ''ResourceExhausted''
     | FailedPrecondition \<Rightarrow> ''FailedPrecondition'' | Aborted \<Rightarrow> ''Aborted'' | OutOfRange \<Rightarrow> ''OutOfRange''
     | Unimplemented \<Rightarrow> ''Unimplemented'' | Internal \<Rightarrow> ''Internal'' | Unavailable \<Rightarrow> ''Unavailable''
     | DataLoss \<Rightarrow> ''DataLoss'' | Unauthenticated \<Rightarrow> ''Unauthenticated'')"

definition error_text :: "err \<Rightarrow> string" where
  "error_text e = (case FromError e of
       Some (c, m) \<Rightarrow> ''rpc error: code = '' @ code_name c @ '' desc = '' @ m
     | None \<Rightarrow> err_string e)"

definition extractErrorInfo :: "client_err \<Rightarrow> int \<times> string" where
  "extractErrorInfo e =
     (let bizCode = ExtractBusinessCode e;
          msg = (case FromError (carried e) of Some (_, m) \<Rightarrow> m | None \<Rightarrow> '''');
          msg = (if msg = '''' then error_text (carried e) else msg) in
      if bizCode = 0 then (0, msg)
      else
        let codeMsg = GetMessage bizCode in
        if codeMsg \<noteq> '''' then (bizCode, codeMsg) else (bizCode, msg))"

record 'a http_response =
  hr_Status :: int
  hr_ErrorCodeHeader :: "string option"
  hr_Code :: int
  hr_Message :: string
  hr_Data :: "'a option"

definition ResponseEncoder :: "'a \<Rightarrow> 'a http_response" where
  "ResponseEncoder v = \<lparr>hr_Status = 200, hr_ErrorCodeHeader = None, hr_Code = 0, hr_Message = ''success'', hr_Data = Some v\<rparr>"

definition ErrorEncoder :: "client_err \<Rightarrow> 'a http_response" where
  "ErrorEncoder e =
     (let (bizCode, msg) = extractErrorInfo e;
          bizCode = (if bizCode = 0 then CodeInternalError else bizCode) in
      \<lparr>hr_Status = mapBusinessCodeToHTTP bizCode e, hr_ErrorCodeHeader = Some (itoa bizCode), hr_Code = bizCode,
       hr_Message = msg, hr_Data = None\<rparr>)"

text \<open>\<open>ErrorCodeMiddleware\<close> sets the same header earlier; the encoder sets it again.\<close>

definition ErrorCodeMiddleware :: "client_err \<Rightarrow> string option" where
  "ErrorCodeMiddleware e = (let code = ExtractBusinessCode e in if code = 0 then None else Some (itoa code))"

subsection \<open>The operator of a request (\<open>middleware/user.go\<close>, \<open>server/http.go\<close>)\<close>

text \<open>What \<open>metadata.AppendToOutgoingContext\<close> adds is what the service reads; without claims nothing is
  added.\<close>

definition UserIDMiddleware :: "Claims option \<Rightarrow> ctx" where
  "UserIDMiddleware claims = (case claims of
       Some c \<Rightarrow> if cl_UserID c \<noteq> '''' then Some [(OperatorUserIDMetadataKey, [cl_UserID c])] else Some []
     | None \<Rightarrow> Some [])"

definition whiteList :: "string list" where
  "whiteList = [''/user.v1.UserService/Register'', ''/user.v1.UserService/Login'', ''/user.v1.UserService/RefreshToken'',
     ''/user.v1.UserService/SendVerificationCode'', ''/user.v1.UserService/ResetPassword'',
     ''/group.v1.GroupService/RefreshGroupQRCode'', ''/group.v1.GroupService/GetGroupPreviewByQRCode'', ''/metrics'']"

text \<open>Whether the token check applies to an operation.\<close>

definition NewWhiteListMatcher :: "string \<Rightarrow> bool" where
  "NewWhiteListMatcher operation = (operation \<notin> set whiteList)"

text \<open>The JWT middleware gets the time, the key function of the gateway (which answers the secret for every
  algorithm), the only signing method it accepts and the \<open>Authorization\<close> header.\<close>

record http_gateway =
  hg_jwtServer :: "int \<Rightarrow> string \<Rightarrow> string \<Rightarrow> string \<Rightarrow> err + Claims"
  hg_ratelimit :: "nat \<Rightarrow> err option"
  hg_Secret :: string

definition authenticate :: "http_gateway \<Rightarrow> string \<Rightarrow> string \<Rightarrow> ('db, Claims option) M" where
  "authenticate g operation authorization =
     (if NewWhiteListMatcher operation then
        bindE now (\<lambda>t. bindE (liftE (hg_jwtServer g t (hg_Secret g) ''HS256'' authorization)) (\<lambda>c. returnE (Some c)))
      else returnE None)"

definition ratelimit :: "http_gateway \<Rightarrow> ('db, unit) M" where
  "ratelimit g w = (case hg_ratelimit g (tick w) of Some e \<Rightarrow> (Inl e, bump w) | None \<Rightarrow> (Inr (), bump w))"

text \<open>A request: the chain of the middleware, the call of the service through the proxy and the encoder.
  \<open>trailer\<close> is what the service puts into the trailing metadata for an error; a panic of the service is
  caught by its recovery middleware.\<close>

definition gateway_request ::
    "http_gateway \<Rightarrow> (err \<Rightarrow> string list) \<Rightarrow> string \<Rightarrow> string \<Rightarrow> (ctx \<Rightarrow> ('db, 'a) M) \<Rightarrow> ('db, 'a http_response) M" where
  "gateway_request g trailer operation authorization handler w =
     (case bindE (authenticate g operation authorization) (\<lambda>claims. thenE (ratelimit g) (returnE claims)) w of
        (Inl e, w') \<Rightarrow> (Inr (ErrorEncoder (Raw e)), w')
      | (Inr claims, w') \<Rightarrow> (case handler (UserIDMiddleware claims) w' of
            (Inl e, w'') \<Rightarrow> (Inr (ErrorEncoder (ErrorCodeClient (trailer e) (remote_err e))), w'')
          | (Inr a, w'') \<Rightarrow> (Inr (ResponseEncoder a), w'')))"

text \<open>The services put nothing into the trailing metadata: \<open>ConvertError\<close> drops the context it builds.\<close>

definition no_trailer :: "err \<Rightarrow> string list" where
  "no_trailer e = []"

end
