(* ===== verification/Gateway.thy ===== *)
theory Gateway
  imports Gateway_Model Message_Send Realtime_Model Group_Properties
begin

text \<open>
  What an HTTP client gets from the services: who the operator of a request is, what becomes of a business
  error on its way out, and which requests need no credentials.
\<close>

subsection \<open>Errors\<close>

text \<open>The status a service answers with for a business code.\<close>

definition grpc_of :: "int \<Rightarrow> grpc_code" where
  "grpc_of c = (case map_of grpcCodeMapping c of Some g \<Rightarrow> g | None \<Rightarrow> Internal)"

lemma ConvertError_business: "ConvertError (Some (Business c msg)) = Some (Status (grpc_of c) msg)"
  using grpcCodeMapping_no_OK[of c] by (auto simp: grpc_of_def Let_def split: option.split)

lemma convertE_business: "m w = (Inl (Business c msg), w') \<Longrightarrow> convertE m w = (Inl (Status (grpc_of c) msg), w')"
  by (simp add: convertE_result ConvertError_business del: ConvertError.simps)

lemma GetMessage_nonempty: "GetMessage c \<noteq> ''''"
proof -
  have "list_all (\<lambda>(c, m). m \<noteq> '''') errorMessages" by code_simp
  then have "map_of errorMessages c = Some m \<Longrightarrow> m \<noteq> ''''" for m
    by (auto simp: list_all_iff dest!: map_of_SomeD)
  then show ?thesis by (auto simp: GetMessage_def split: option.split)
qed

text \<open>A request whose sender is admitted, with the claims of its token or none.\<close>

definition admitted :: "http_gateway \<Rightarrow> string \<Rightarrow> string \<Rightarrow> 'db world \<Rightarrow> Claims option \<Rightarrow> 'db world \<Rightarrow> bool" where
  "admitted g operation authorization w claims w' =
     (bindE (authenticate g operation authorization) (\<lambda>claims. thenE (ratelimit g) (returnE claims)) w = (Inr claims, w'))"

lemma authenticate_run:
  "authenticate g operation authorization w = (if NewWhiteListMatcher operation then
      (case hg_jwtServer g (clock w (tick w)) (hg_Secret g) ''HS256'' authorization of
         Inl e \<Rightarrow> (Inl e, bump w) | Inr c \<Rightarrow> (Inr (Some c), bump w)) else (Inr None, w))"
  by (simp add: authenticate_def now_def liftE_def bindE_def returnE_def split: sum.split)

lemma ratelimit_run: "\<exists>r. ratelimit g w = (r, bump w)"
  by (simp add: ratelimit_def split: option.split)

lemma admitted_request:
  "admitted g operation authorization w claims w' \<Longrightarrow>
     gateway_request g trailer operation authorization handler w = (case handler (UserIDMiddleware claims) w' of
         (Inl e, w'') \<Rightarrow> (Inr (ErrorEncoder (ErrorCodeClient (trailer e) (remote_err e))), w'')
       | (Inr a, w'') \<Rightarrow> (Inr (ResponseEncoder a), w''))"
  by (simp add: admitted_def gateway_request_def)

text \<open>C39: the business code of an error never reaches the HTTP client: whatever code a service method
  fails with, the response carries the code of an internal error, in the body and in the header, next to
  the message of the service; only the HTTP status still tells the kind of error.\<close>

theorem business_code_lost:
  assumes "admitted g operation authorization w claims w1"
    and "m (UserIDMiddleware claims) w1 = (Inl (Business c msg), w2)" "msg \<noteq> ''''"
  shows "gateway_request g no_trailer operation authorization (\<lambda>ctx. convertE (m ctx)) w =
    (Inr \<lparr>hr_Status = http_status (grpc_of c), hr_ErrorCodeHeader = Some (itoa CodeInternalError),
       hr_Code = CodeInternalError, hr_Message = msg, hr_Data = None\<rparr>, w2)"
  using assms(3)
  by (simp add: admitted_request[OF assms(1)] convertE_business[where m = "m (UserIDMiddleware claims)", OF assms(2)] no_trailer_def ErrorCodeClient_def remote_err_def
      ErrorEncoder_def extractErrorInfo_def mapBusinessCodeToHTTP_def Let_def)

text \<open>The two ends fit together: if a service put the decimal code into the trailing metadata, as the
  comment of \<open>ConvertError\<close> says it does, every non-zero code would come out of the gateway unchanged, with
  its registered message.\<close>

theorem business_code_roundtrip:
  assumes "admitted g operation authorization w claims w1"
    and "m (UserIDMiddleware claims) w1 = (Inl (Business c msg), w2)" "c \<noteq> 0" "int64 c = c"
  shows "gateway_request g (\<lambda>_. [itoa c]) operation authorization (\<lambda>ctx. convertE (m ctx)) w =
    (Inr \<lparr>hr_Status = (if 400 \<le> c \<and> c \<le> 599 then c else http_status (grpc_of c)), hr_ErrorCodeHeader = Some (itoa c),
       hr_Code = c, hr_Message = GetMessage c, hr_Data = None\<rparr>, w2)"
proof -
  have "- 9223372036854775808 \<le> c" "c \<le> 9223372036854775807" using assms(4) by (simp_all add: int64_def)
  then have "ParseInt (itoa c) = (c, True)" by (rule ParseInt_itoa)
  then show ?thesis
    using assms(3) GetMessage_nonempty[of c]
    by (simp add: admitted_request[OF assms(1)] convertE_business[where m = "m (UserIDMiddleware claims)", OF assms(2)] ErrorCodeClient_def remote_err_def
        ErrorEncoder_def extractErrorInfo_def mapBusinessCodeToHTTP_def Let_def)
qed

subsection \<open>The operator\<close>

text \<open>A request that changes the tables of a service was admitted; outside the white list it ran the
  handler for the subject of a token the JWT middleware accepted.\<close>

lemma gateway_operator:
  assumes "NewWhiteListMatcher operation" "gateway_request g trailer operation authorization handler w = (resp, w')" "db w' \<noteq> db w"
  shows "\<exists>c t v r. hg_jwtServer g t (hg_Secret g) ''HS256'' authorization = Inr c \<and> db v = db w \<and>
    handler (if cl_UserID c = '''' then Some [] else user_ctx (cl_UserID c)) v = (r, w')"
proof -
  let ?auth = "bindE (authenticate g operation authorization) (\<lambda>claims. thenE (ratelimit g) (returnE claims)) w"
  let ?jwt = "hg_jwtServer g (clock w (tick w)) (hg_Secret g) ''HS256'' authorization"
  obtain l where l: "ratelimit g (bump w) = (l, bump (bump w))" using ratelimit_run by blast
  show ?thesis
  proof (cases ?jwt)
    case (Inl e)
    then have "?auth = (Inl e, bump w)" using assms(1) by (simp add: bindE_def authenticate_run)
    then show ?thesis using assms(2,3) by (auto simp: gateway_request_def)
  next
    case (Inr c)
    show ?thesis
    proof (cases l)
      case (Inl e)
      then have "?auth = (Inl e, bump (bump w))" using assms(1) Inr l by (simp add: bindE_def thenE_def authenticate_run)
      then show ?thesis using assms(2,3) by (auto simp: gateway_request_def)
    next
      case (Inr u)
      then have "?auth = (Inr (Some c), bump (bump w))"
        using assms(1) \<open>?jwt = Inr c\<close> l by (simp add: bindE_def thenE_def returnE_def authenticate_run)
      then have "snd (handler (UserIDMiddleware (Some c)) (bump (bump w))) = w'"
        using assms(2) by (auto simp: gateway_request_def split: prod.splits sum.splits)
      moreover have "UserIDMiddleware (Some c) = (if cl_UserID c = '''' then Some [] else user_ctx (cl_UserID c))"
        by (simp add: UserIDMiddleware_def user_ctx_def)
      ultimately have "handler (if cl_UserID c = '''' then Some [] else user_ctx (cl_UserID c)) (bump (bump w)) =
          (fst (handler (UserIDMiddleware (Some c)) (bump (bump w))), w')" by (metis prod.collapse)
      moreover have "db (bump (bump w)) = db w" by simp
      ultimately show ?thesis using \<open>?jwt = Inr c\<close> by blast
    qed
  qed
qed

text \<open>C37: over HTTP nobody sends a message for somebody else: if a request to send a message changed the
  message tables, the JWT middleware accepted its token, and the subject of that token, whatever else the
  request says, was checked to be a member of the group or not blocked in the conversation.\<close>

theorem gateway_send_authorized:
  assumes "gateway_request g trailer ''/message.v1.MessageService/SendMessage'' authorization
      (\<lambda>ctx. MessageHandler_SendMessage ctx s req) w = (resp, w')" "db w' \<noteq> db w"
  shows "\<exists>c t n get cv. hg_jwtServer g t (hg_Secret g) ''HS256'' authorization = Inr c \<and> cl_UserID c \<noteq> '''' \<and>
    ms_conversationClient s = Some get \<and> get n (sm_ConversationId req) = Inr cv \<and>
    ((cv_ConversationType cv = ConversationTypeGroup \<and> (\<exists>gc. ms_groupClient s = Some gc \<and>
        gc_IsMember gc (n + 1) (cv_TargetId cv) (cl_UserID c) = Inr True)) \<or>
     (cv_ConversationType cv = ConversationTypeSingle \<and> (\<exists>blocked. ms_friendClient s = Some blocked \<and>
        blocked (n + 1) (cl_UserID c) (cv_TargetId cv) = Inr False)))"
proof -
  have "NewWhiteListMatcher ''/message.v1.MessageService/SendMessage''" by (simp add: NewWhiteListMatcher_def whiteList_def)
  from gateway_operator[OF this assms] obtain c t v r where c: "hg_jwtServer g t (hg_Secret g) ''HS256'' authorization = Inr c"
    and v: "db v = db w" "MessageHandler_SendMessage (if cl_UserID c = '''' then Some [] else user_ctx (cl_UserID c)) s req v = (r, w')"
    by blast
  have named: "cl_UserID c \<noteq> ''''"
    using v assms(2) by (auto simp: MessageHandler_SendMessage_def MustGetUserID_def RequireUserID_def GetUserID_def bindE_def throwE_def)
  have "snd (convertE (SendMessage s (cl_UserID c) req) v) = w'"
    using v assms(2) named
    by (auto simp: MessageHandler_SendMessage_def bindE_def returnE_def badRequestE_eq throwE_def split: if_splits)
  then obtain r' where send: "SendMessage s (cl_UserID c) req v = (r', w')"
    by (cases "SendMessage s (cl_UserID c) req v") (auto simp: convertE_result split: sum.splits err.splits)
  show ?thesis
    using SendMessage_write_authorized[OF send] authorizeSend_Inr assms(2) v(1) c named by metis
qed

subsection \<open>Requests without credentials\<close>

text \<open>C38: refreshing the QR code of a group is on the white list and takes its operator from the request:
  anybody who knows the group and the name of its owner or of an administrator can, without a token, make
  every code of the group invalid.\<close>

theorem anonymous_qr_refresh:
  assumes "hg_ratelimit g (tick w) = None" "uniq qr_Token (group_qrcodes (db w))" "q \<in> set (group_qrcodes (db w))"
    and "\<not> isl (fst (RefreshGroupQRCode owner (qr_GroupID q) (bump w)))"
  shows "\<exists>resp w'. gateway_request g no_trailer ''/group.v1.GroupService/RefreshGroupQRCode'' ''''
      (\<lambda>_. GroupHandler_RefreshGroupQRCode owner (qr_GroupID q)) w = (Inr resp, w') \<and> hr_Status resp = 200 \<and>
    (\<forall>w2 v. healthy w2 \<longrightarrow> group_qrcodes (db w2) = group_qrcodes (db w') \<longrightarrow>
      fst (JoinGroupByQRCode v (qr_Token q) w2) = Inl errQRExpired)"
proof -
  obtain r w' where run: "RefreshGroupQRCode owner (qr_GroupID q) (bump w) = (Inr r, w')"
    using assms(4) by (cases "RefreshGroupQRCode owner (qr_GroupID q) (bump w)") (auto simp: isl_def split: sum.splits, metis sum.exhaust)
  have "admitted g ''/group.v1.GroupService/RefreshGroupQRCode'' '''' w None (bump w)"
    using assms(1) by (simp add: admitted_def authenticate_def NewWhiteListMatcher_def whiteList_def ratelimit_def bindE_def thenE_def returnE_def)
  then have "gateway_request g no_trailer ''/group.v1.GroupService/RefreshGroupQRCode'' ''''
      (\<lambda>_. GroupHandler_RefreshGroupQRCode owner (qr_GroupID q)) w = (Inr (ResponseEncoder r), w')"
    by (simp add: admitted_request GroupHandler_RefreshGroupQRCode_def convertE_result run)
  moreover have "fst (JoinGroupByQRCode v (qr_Token q) w2) = Inl errQRExpired"
    if "healthy w2" "group_qrcodes (db w2) = group_qrcodes (db w')" for w2 v
    using RefreshGroupQRCode_invalidates[of "bump w" q "qr_GroupID q" owner r w' w2 v] assms(2,3) run that by simp
  ultimately show ?thesis by (auto simp: ResponseEncoder_def)
qed

text \<open>A token signed with HS256 and a secret: the library accepts it until it expires.  The JWT middleware
  accepts what the library accepts.\<close>

definition valid_token :: "jwt_lib \<Rightarrow> string \<Rightarrow> string \<Rightarrow> Claims \<Rightarrow> bool" where
  "valid_token lib secret tok c = (\<forall>t kf. t < cl_ExpiresAt c * Second \<longrightarrow> kf ''HS256'' = Inr secret \<longrightarrow>
     jl_ParseWithClaims lib t kf tok = Inr (Some c, True))"

definition documented_jwt :: "http_gateway \<Rightarrow> jwt_lib \<Rightarrow> bool" where
  "documented_jwt g lib = (\<forall>t tok c. jl_ParseWithClaims lib t (\<lambda>alg. if alg = ''HS256'' then Inr (hg_Secret g) else Inl (Plain alg)) tok = Inr (Some c, True) \<longrightarrow>
     hg_jwtServer g t (hg_Secret g) ''HS256'' (''Bearer '' @ tok) = Inr c)"


subsection \<open>Concrete requests\<close>

text \<open>A token library whose tokens are a digit for the type and the name of the user.\<close>

definition toy_claims :: "string \<Rightarrow> Claims" where
  "toy_claims tok = \<lparr>cl_UserID = tl tok, cl_DeviceID = '''', cl_DeviceType = 1,
     cl_TokenType = (if tok \<noteq> '''' \<and> hd tok = CHR ''a'' then ''access'' else ''refresh''), cl_ExpiresAt = 1, cl_IssuedAt = 0, cl_NotBefore = 0\<rparr>"

definition toy_jwt :: jwt_lib where
  "toy_jwt = \<lparr>jl_SignedString = (\<lambda>_ c. Inr (cl_UserID c)),
     jl_ParseWithClaims = (\<lambda>t kf tok. case kf ''HS256'' of Inl e \<Rightarrow> Inl e | Inr k \<Rightarrow>
       if k = ''s'' \<and> t < Second then Inr (Some (toy_claims tok), True) else Inl (Plain ''no''))\<rparr>"

definition toy_gateway :: http_gateway where
  "toy_gateway = \<lparr>hg_jwtServer = (\<lambda>t k alg h. if k = ''s'' \<and> t < Second then Inr (toy_claims (drop 7 h)) else Inl (Status Unauthenticated ''JWT'')),
     hg_ratelimit = (\<lambda>_. None), hg_Secret = ''s''\<rparr>"

lemma toy_documented: "documented_jwt toy_gateway toy_jwt" "valid_token toy_jwt ''s'' tok (toy_claims tok)"
  by (auto simp: documented_jwt_def valid_token_def toy_gateway_def toy_jwt_def toy_claims_def split: if_splits)

lemma toy_admitted:
  "admitted toy_gateway ''/friend.v1.FriendService/DeleteFriend'' ''Bearer aann'' (init_world d) (Some (toy_claims ''aann'')) (bump (bump (init_world d)))"
  by (simp add: admitted_def authenticate_run ratelimit_def bindE_def thenE_def returnE_def NewWhiteListMatcher_def whiteList_def
      toy_gateway_def init_world_def Second_def bump_def)

definition no_such_friend :: "ctx \<Rightarrow> (nat, unit) M" where
  "no_such_friend ctx = bindE (MustGetUserID ctx) (\<lambda>u. throwE (Business CodeFriendNotFound (u @ '' has no such friend'')))"

lemma no_such_friend_fails:
  "no_such_friend (UserIDMiddleware (Some (toy_claims ''aann''))) w = (Inl (Business CodeFriendNotFound ''ann has no such friend''), w)"
  by (simp add: no_such_friend_def UserIDMiddleware_def toy_claims_def MustGetUserID_def RequireUserID_def GetUserID_def bindE_def
      returnE_def throwE_def)

lemma friend_codes: "http_status (grpc_of CodeFriendNotFound) = 404" "GetMessage CodeFriendNotFound = ''Friend not found''"
  by code_simp+

lemma friend_digits: "itoa CodeInternalError = ''2''" "itoa CodeFriendNotFound = ''20104''"
  by (simp_all add: itoa_def digits.simps char_of_def bit_iff_odd)

theorem business_code_lost_witness:
  "\<exists>w. gateway_request toy_gateway no_trailer ''/friend.v1.FriendService/DeleteFriend'' ''Bearer aann'' (\<lambda>ctx. convertE (no_such_friend ctx)) (init_world 0) =
   (Inr \<lparr>hr_Status = 404, hr_ErrorCodeHeader = Some ''2'', hr_Code = 2, hr_Message = ''ann has no such friend'', hr_Data = None\<rparr>, w)"
  using business_code_lost[where m = no_such_friend, OF toy_admitted no_such_friend_fails] unfolding friend_codes friend_digits by blast

theorem business_code_roundtrip_witness:
  "\<exists>w. gateway_request toy_gateway (\<lambda>_. [''20104'']) ''/friend.v1.FriendService/DeleteFriend'' ''Bearer aann'' (\<lambda>ctx. convertE (no_such_friend ctx)) (init_world 0) =
   (Inr \<lparr>hr_Status = 404, hr_ErrorCodeHeader = Some ''20104'', hr_Code = 20104, hr_Message = ''Friend not found'', hr_Data = None\<rparr>, w)"
proof -
  have "int64 CodeFriendNotFound = CodeFriendNotFound" by (simp add: int64_def)
  from business_code_roundtrip[where m = no_such_friend, OF toy_admitted no_such_friend_fails _ this] show ?thesis
    unfolding friend_codes friend_digits by simp
qed

theorem gateway_send_authorized_witness:
  "\<exists>blocked n. ms_friendClient chat = Some blocked \<and> blocked n ''ann'' ''bob'' = Inr False"
proof -
  let ?run = "gateway_request toy_gateway no_trailer ''/message.v1.MessageService/SendMessage'' ''Bearer aann''
    (\<lambda>ctx. MessageHandler_SendMessage ctx chat (hello ''1'')) (init_world empty_message_db)"
  have "messages (db (snd ?run)) \<noteq> []" by code_simp
  then have "db (snd ?run) \<noteq> db (init_world empty_message_db)" by (auto simp: empty_message_db_def)
  with gateway_send_authorized[of toy_gateway no_trailer "''Bearer aann''" chat "hello ''1''" "init_world empty_message_db" "fst ?run" "snd ?run"]
  show ?thesis by (auto simp: chat_def hello_def toy_gateway_def toy_claims_def split: if_splits)
qed

theorem anonymous_qr_refresh_witness:
  "\<exists>resp w'. gateway_request toy_gateway no_trailer ''/group.v1.GroupService/RefreshGroupQRCode'' ''''
      (\<lambda>_. GroupHandler_RefreshGroupQRCode ''ann'' ''g1'') (init_world sample_db) = (Inr resp, w') \<and>
    fst (JoinGroupByQRCode ''bob'' ''t1'' (init_world (db w'))) = Inl errQRExpired"
proof -
  have "\<not> isl (fst (RefreshGroupQRCode ''ann'' ''g1'' (bump (init_world sample_db))))" by code_simp
  then show ?thesis
    using anonymous_qr_refresh[of toy_gateway "init_world sample_db" sample_qr "''ann''"]
    by (fastforce simp: toy_gateway_def sample_defs uniq_def)
qed

end
