(* ===== verification/File_Model.thy ===== *)
theory File_Model
  imports Credentials "HOL-Library.AList"
begin

text \<open>
  The file service's data (\<open>app/file\<close>): the rows of migration 000004, the repository, the object store
  behind \<open>pkg/oss\<close> and the path of an object in it.  MinIO is a parameter; the removals it is asked for
  are recorded in the outbox.  Chunked uploads (\<open>file_uploads\<close>) have a model and no code.
\<close>

subsection \<open>Rows (\<open>internal/model/file.go\<close>)\<close>

abbreviation (input) FileStatusDeleted :: int where "FileStatusDeleted \<equiv> 0"
abbreviation (input) FileStatusActive :: int where "FileStatusActive \<equiv> 1"
abbreviation (input) FileStatusProcessing :: int where "FileStatusProcessing \<equiv> 2"

abbreviation (input) FileTypeUnspecified :: int where "FileTypeUnspecified \<equiv> 0"
abbreviation (input) FileTypeImage :: int where "FileTypeImage \<equiv> 1"
abbreviation (input) FileTypeVideo :: int where "FileTypeVideo \<equiv> 2"
abbreviation (input) FileTypeAudio :: int where "FileTypeAudio \<equiv> 3"
abbreviation (input) FileTypeFile :: int where "FileTypeFile \<equiv> 4"
abbreviation (input) FileTypeLog :: int where "FileTypeLog \<equiv> 5"

abbreviation (input) BucketChatFile :: string where "BucketChatFile \<equiv> ''chat-file''"

definition MaxImageSize :: int where "MaxImageSize = 10 * 1024 * 1024"
definition MaxVideoSize :: int where "MaxVideoSize = 100 * 1024 * 1024"
definition MaxAudioSize :: int where "MaxAudioSize = 20 * 1024 * 1024"
definition MaxFileSize :: int where "MaxFileSize = 50 * 1024 * 1024"
definition MaxLogSize :: int where "MaxLogSize = 50 * 1024 * 1024"

record FileMetadata =
  md_Width :: int
  md_Height :: int
  md_Duration :: int
  md_Format :: string

definition no_metadata :: FileMetadata where
  "no_metadata = \<lparr>md_Width = 0, md_Height = 0, md_Duration = 0, md_Format = ''''\<rparr>"

text \<open>The JSON column holds the decoded value: \<open>Value\<close> stores nothing for empty metadata, \<open>Scan\<close> reads
  nothing as empty metadata.\<close>

definition FileMetadata_Value :: "FileMetadata \<Rightarrow> FileMetadata option" where
  "FileMetadata_Value m =
     (if md_Width m = 0 \<and> md_Height m = 0 \<and> md_Duration m = 0 \<and> md_Format m = '''' then None else Some m)"

definition FileMetadata_Scan :: "FileMetadata option \<Rightarrow> FileMetadata" where
  "FileMetadata_Scan v = (case v of None \<Rightarrow> no_metadata | Some m \<Rightarrow> m)"

lemma Scan_Value: "FileMetadata_Scan (FileMetadata_Value m) = m"
  by (simp add: FileMetadata_Scan_def FileMetadata_Value_def no_metadata_def)

record File =
  f_ID :: int
  f_FileID :: string
  f_UserID :: string
  f_FileName :: string
  f_FileType :: int
  f_FileSize :: int
  f_MimeType :: string
  f_StoragePath :: string
  f_ThumbnailPath :: string
  f_BucketName :: string
  f_Status :: int
  f_CreatedAt :: int
  f_ExpiresAt :: "int option"
  f_Metadata :: "FileMetadata option"

record file_db =
  files :: "File list"

definition empty_file_db :: file_db where
  "empty_file_db = \<lparr>files = []\<rparr>"

subsection \<open>Repository (\<open>internal/repository/file_repository.go\<close>)\<close>

definition insert_file :: "File \<Rightarrow> file_db \<Rightarrow> err + unit \<times> file_db" where
  "insert_file f d =
     (if has_key f_ID (f_ID f) (files d) then Inl (UniqueViolation ''files_pkey'')
      else if has_key f_FileID (f_FileID f) (files d) then Inl (UniqueViolation ''files_file_id_key'')
      else Inr ((), d\<lparr>files := files d @ [f]\<rparr>))"

definition fileRepo_Create :: "File \<Rightarrow> (file_db, unit) M" where
  "fileRepo_Create file =
     bindE (next_serial SeqFiles) (\<lambda>i. exec (insert_file (file\<lparr>f_ID := i, f_Status := or_default 1 (f_Status file)\<rparr>)))"

definition owned_file :: "string \<Rightarrow> string \<Rightarrow> file_db \<Rightarrow> File option" where
  "owned_file fileID userID d =
     first_where (\<lambda>f. f_FileID f = fileID \<and> f_UserID f = userID \<and> f_Status f \<noteq> FileStatusDeleted) f_ID (files d)"

definition fileRepo_GetByFileIDAndUserID :: "string \<Rightarrow> string \<Rightarrow> (file_db, File) M" where
  "fileRepo_GetByFileIDAndUserID fileID userID = find_one (owned_file fileID userID)"

definition fileRepo_BatchGetByFileIDs :: "string list \<Rightarrow> (file_db, File list) M" where
  "fileRepo_BatchGetByFileIDs fileIDs =
     query (\<lambda>d. filter (\<lambda>f. f_FileID f \<in> set fileIDs \<and> f_Status f \<noteq> FileStatusDeleted) (files d))"

text \<open>\<open>Limit\<close> and \<open>Offset\<close> of gorm: a negative limit and an offset that is not positive are left out.\<close>

definition gorm_page :: "int \<Rightarrow> int \<Rightarrow> 'r list \<Rightarrow> 'r list" where
  "gorm_page lim off rows =
     (let rows = (if off > 0 then drop (nat off) rows else rows) in if lim < 0 then rows else take (nat lim) rows)"

definition fileRepo_ListByUserID :: "string \<Rightarrow> int option \<Rightarrow> int \<Rightarrow> int \<Rightarrow> (file_db, File list \<times> int) M" where
  "fileRepo_ListByUserID userID fileType page pageSize =
     (let p = (\<lambda>f. f_UserID f = userID \<and> f_Status f = FileStatusActive \<and>
         (case fileType of Some ft \<Rightarrow> ft \<noteq> FileTypeUnspecified \<longrightarrow> f_FileType f = ft | None \<Rightarrow> True)) in
      bindE (query (\<lambda>d. int (count_where p (files d)))) (\<lambda>total.
      bindE (query (\<lambda>d. gorm_page pageSize ((page - 1) * pageSize) (select_where p (\<lambda>f. - f_CreatedAt f) (files d)))) (\<lambda>rows.
      returnE (rows, total))))"

definition save_file :: "File \<Rightarrow> file_db \<Rightarrow> err + unit \<times> file_db" where
  "save_file f d =
     (if has_key f_ID (f_ID f) (files d) then
        (if list_ex (\<lambda>x. f_ID x \<noteq> f_ID f \<and> f_FileID x = f_FileID f) (files d) then Inl (UniqueViolation ''files_file_id_key'')
         else Inr ((), d\<lparr>files := update_where (\<lambda>x. f_ID x = f_ID f) (\<lambda>_. f) (files d)\<rparr>))
      else insert_file f d)"

definition fileRepo_Update :: "File \<Rightarrow> (file_db, unit) M" where
  "fileRepo_Update file = exec (save_file file)"

definition mark_deleted :: "string \<Rightarrow> file_db \<Rightarrow> file_db" where
  "mark_deleted fileID d = d\<lparr>files := update_where (\<lambda>f. f_FileID f = fileID) (\<lambda>f. f\<lparr>f_Status := FileStatusDeleted\<rparr>) (files d)\<rparr>"

definition fileRepo_Delete :: "string \<Rightarrow> (file_db, unit) M" where
  "fileRepo_Delete fileID = modify (mark_deleted fileID)"

text \<open>Three methods no operation of the service calls.\<close>

definition fileRepo_GetByFileID :: "string \<Rightarrow> (file_db, File) M" where
  "fileRepo_GetByFileID fileID =
     find_one (\<lambda>d. first_where (\<lambda>f. f_FileID f = fileID \<and> f_Status f \<noteq> FileStatusDeleted) f_ID (files d))"

definition fileRepo_UpdateStatus :: "string \<Rightarrow> int \<Rightarrow> (file_db, unit) M" where
  "fileRepo_UpdateStatus fileID status =
     modify (\<lambda>d. d\<lparr>files := update_where (\<lambda>f. f_FileID f = fileID) (\<lambda>f. f\<lparr>f_Status := status\<rparr>) (files d)\<rparr>)"

definition fileRepo_DeleteExpired :: "(file_db, unit) M" where
  "fileRepo_DeleteExpired = bindE now (\<lambda>t. modify (\<lambda>d. d\<lparr>files := update_where
     (\<lambda>f. (case f_ExpiresAt f of Some e \<Rightarrow> e < t | None \<Rightarrow> False) \<and> f_Status f \<noteq> FileStatusDeleted) (\<lambda>f. f\<lparr>f_Status := FileStatusDeleted\<rparr>) (files d)\<rparr>))"

lemmas file_repo_defs = fileRepo_Create_def fileRepo_GetByFileIDAndUserID_def fileRepo_BatchGetByFileIDs_def
  fileRepo_ListByUserID_def fileRepo_Update_def fileRepo_Delete_def

subsection \<open>The object store (\<open>pkg/oss/minio.go\<close>)\<close>

text \<open>The client: presigned addresses for a bucket, an object and a validity, the state of an object and
  its removal, answered at a logical time.\<close>

record minio =
  mc_PresignedPutObject :: "nat \<Rightarrow> string \<Rightarrow> string \<Rightarrow> int \<Rightarrow> err + string"
  mc_PresignedGetObject :: "nat \<Rightarrow> string \<Rightarrow> string \<Rightarrow> int \<Rightarrow> err + string"
  mc_StatObject :: "nat \<Rightarrow> string \<Rightarrow> string \<Rightarrow> err + unit"
  mc_RemoveObject :: "nat \<Rightarrow> string \<Rightarrow> string \<Rightarrow> err + unit"

definition validity :: "int \<Rightarrow> int" where
  "validity expires = (if expires = 0 then Hour else expires)"

definition PresignedPutObject :: "minio \<Rightarrow> string \<Rightarrow> string \<Rightarrow> int \<Rightarrow> (file_db, string) M" where
  "PresignedPutObject c bucket object expires = rpc (\<lambda>n. mc_PresignedPutObject c n bucket object (validity expires))"

definition PresignedGetObject :: "minio \<Rightarrow> string \<Rightarrow> string \<Rightarrow> int \<Rightarrow> (file_db, string) M" where
  "PresignedGetObject c bucket object expires = rpc (\<lambda>n. mc_PresignedGetObject c n bucket object (validity expires))"

definition StatObject :: "minio \<Rightarrow> string \<Rightarrow> string \<Rightarrow> (file_db, unit) M" where
  "StatObject c bucket object = rpc (\<lambda>n. mc_StatObject c n bucket object)"

definition RemoveObject :: "minio \<Rightarrow> string \<Rightarrow> string \<Rightarrow> (file_db, unit) M" where
  "RemoveObject c bucket object =
     thenE (emit (Called ''RemoveObject'' [bucket, object])) (rpc (\<lambda>n. mc_RemoveObject c n bucket object))"

subsection \<open>The path of an object\<close>

text \<open>\<open>path.Ext\<close>: from the last dot of the last element of the path.\<close>

definition path_Ext :: "string \<Rightarrow> string" where
  "path_Ext p =
     (let tail = takeWhile (\<lambda>c. c \<noteq> CHR ''/'' \<and> c \<noteq> CHR ''.'') (rev p) in
      case drop (length tail) (rev p) of
        [] \<Rightarrow> ''''
      | c # _ \<Rightarrow> if c = CHR ''.'' then CHR ''.'' # rev tail else '''')"

definition TrimPrefix_dot :: "string \<Rightarrow> string" where
  "TrimPrefix_dot s = (case s of c # cs \<Rightarrow> if c = CHR ''.'' then cs else s | [] \<Rightarrow> '''')"

definition getFileExtension :: "string \<Rightarrow> string" where
  "getFileExtension fileName =
     (let ext = path_Ext fileName;
          ext = (if ext \<noteq> '''' then TrimPrefix_dot ext else ext) in
      if ext = '''' then ''bin'' else ext)"

text \<open>\<open>now.Format("2006-01-02")\<close>: the proleptic Gregorian date of a time in the zone of the server, for
  years with at most four digits; \<open>year_day\<close> counts the days from 1 March of the year 0.\<close>

definition year_day :: "int \<Rightarrow> int \<times> int \<times> int" where
  "year_day days =
     (let z = days + 719468;
          era = z div 146097;
          doe = z - era * 146097;
          yoe = (doe - doe div 1460 + doe div 36524 - doe div 146096) div 365;
          doy = doe - (365 * yoe + yoe div 4 - yoe div 100);
          mp = (5 * doy + 2) div 153;
          d = doy - (153 * mp + 2) div 5 + 1;
          m = (if mp < 10 then mp + 3 else mp - 9) in
      (yoe + era * 400 + (if m \<le> 2 then 1 else 0), m, d))"

definition padded :: "nat \<Rightarrow> int \<Rightarrow> string" where
  "padded n i = (let ds = itoa i in replicate (n - length ds) (CHR ''0'') @ ds)"

fun format_ymd :: "int \<times> int \<times> int \<Rightarrow> string" where
  "format_ymd (y, m, d) = padded 4 y @ ''-'' @ padded 2 m @ ''-'' @ padded 2 d"

definition format_date :: "int \<Rightarrow> string" where
  "format_date t = format_ymd (year_day (t div (24 * Hour)))"

end
