(* ===== verification/File_Service.thy ===== *)
theory File_Service
  imports File_Model
begin

text \<open>
  The operations of the file service (\<open>internal/service/file_service.go\<close>) and the gRPC handlers above them
  (\<open>internal/handler/file_handler.go\<close>).  \<open>fs_zone\<close> is the offset of the server's time zone.
\<close>

record fileServiceImpl =
  fs_minio :: minio
  fs_zone :: int

subsection \<open>Answers\<close>

record FileInfo =
  fi_FileId :: string
  fi_FileName :: string
  fi_FileType :: int
  fi_FileSize :: int
  fi_MimeType :: string
  fi_StoragePath :: string
  fi_ThumbnailPath :: string
  fi_BucketName :: string
  fi_Status :: int
  fi_CreatedAt :: int
  fi_ExpiresAt :: "int option"

definition toFileInfoResponse :: "File \<Rightarrow> FileInfo" where
  "toFileInfoResponse f =
     \<lparr>fi_FileId = f_FileID f, fi_FileName = f_FileName f, fi_FileType = f_FileType f, fi_FileSize = f_FileSize f,
      fi_MimeType = f_MimeType f, fi_StoragePath = f_StoragePath f, fi_ThumbnailPath = f_ThumbnailPath f,
      fi_BucketName = f_BucketName f, fi_Status = f_Status f, fi_CreatedAt = f_CreatedAt f, fi_ExpiresAt = f_ExpiresAt f\<rparr>"

record UploadTokenRequest =
  ut_FileName :: string
  ut_FileSize :: int
  ut_MimeType :: string
  ut_FileType :: int
  ut_ExpiresHours :: int

record UploadToken =
  uk_FileId :: string
  uk_UploadUrl :: string
  uk_ExpiresAt :: int

record DownloadURL =
  dl_DownloadUrl :: string
  dl_ExpiresAt :: int

subsection \<open>Uploading\<close>

definition size_limit :: "int \<Rightarrow> int option" where
  "size_limit fileType =
     (if fileType = FileTypeImage then Some MaxImageSize
      else if fileType = FileTypeVideo then Some MaxVideoSize
      else if fileType = FileTypeAudio then Some MaxAudioSize
      else if fileType = FileTypeFile then Some MaxFileSize
      else if fileType = FileTypeLog then Some MaxLogSize
      else None)"

fun check_limit :: "int option \<Rightarrow> int \<Rightarrow> (file_db, unit) M" where
  "check_limit None fileSize = throwE (NewBusiness CodeFileTypeNotAllowed ''invalid file type'')"
| "check_limit (Some maxSize) fileSize =
     (if fileSize > maxSize then throwE (NewBusiness CodeFileSizeExceeded (''file size exceeds limit: '' @ itoa maxSize @ '' bytes''))
      else returnE ())"

definition validateFileSize :: "int \<Rightarrow> int \<Rightarrow> (file_db, unit) M" where
  "validateFileSize fileType fileSize = check_limit (size_limit fileType) fileSize"

definition getBucketName :: "int \<Rightarrow> string" where
  "getBucketName _ = BucketChatFile"

text \<open>\<open>t.Add(time.Duration(n) * unit)\<close>: the product wraps at 64 bits.\<close>

definition after :: "int \<Rightarrow> int \<Rightarrow> int \<Rightarrow> int" where
  "after t n unit = t + int64 (n * unit)"

definition upload_expiry :: "int \<Rightarrow> int \<Rightarrow> int option" where
  "upload_expiry t expiresHours = (if expiresHours > 0 then Some (after t expiresHours Hour) else None)"

definition storage_path :: "string \<Rightarrow> string \<Rightarrow> string \<Rightarrow> string \<Rightarrow> string" where
  "storage_path userID dateStr uid ext = userID @ ''/'' @ dateStr @ ''/'' @ uid @ ''.'' @ ext"

text \<open>Any error of a step, replaced by a business error.\<close>

definition businessE :: "int \<Rightarrow> string \<Rightarrow> (file_db, 'a) M \<Rightarrow> (file_db, 'a) M" where
  "businessE code msg m = catchE m (\<lambda>_. throwE (NewBusiness code msg))"

definition newFile :: "string \<Rightarrow> string \<Rightarrow> UploadTokenRequest \<Rightarrow> string \<Rightarrow> int \<Rightarrow> File" where
  "newFile fileID userID req storagePath t =
     \<lparr>f_ID = 0, f_FileID = fileID, f_UserID = userID, f_FileName = ut_FileName req, f_FileType = int16 (ut_FileType req),
      f_FileSize = ut_FileSize req, f_MimeType = ut_MimeType req, f_StoragePath = storagePath, f_ThumbnailPath = '''',
      f_BucketName = getBucketName (int16 (ut_FileType req)), f_Status = FileStatusProcessing, f_CreatedAt = t,
      f_ExpiresAt = upload_expiry t (ut_ExpiresHours req), f_Metadata = FileMetadata_Value no_metadata\<rparr>"

text \<open>The part of \<open>GenerateUploadToken\<close> after the clock was read.\<close>

definition uploadAt :: "fileServiceImpl \<Rightarrow> string \<Rightarrow> UploadTokenRequest \<Rightarrow> string \<Rightarrow> int \<Rightarrow> (file_db, UploadToken) M" where
  "uploadAt s userID req fileID t =
     (let dateStr = format_date (t + fs_zone s); bucketName = getBucketName (int16 (ut_FileType req)) in
      bindE new_uuid (\<lambda>u2.
      let storagePath = storage_path userID dateStr u2 (getFileExtension (ut_FileName req)) in
      bindE (businessE CodeFileUploadFailed ''failed to generate upload URL''
        (PresignedPutObject (fs_minio s) bucketName storagePath Hour)) (\<lambda>uploadURL.
      thenE (businessE CodeInternalError ''failed to create file record'' (fileRepo_Create (newFile fileID userID req storagePath t)))
        (returnE \<lparr>uk_FileId = fileID, uk_UploadUrl = uploadURL, uk_ExpiresAt = unix (t + Hour)\<rparr>))))"

definition GenerateUploadToken :: "fileServiceImpl \<Rightarrow> string \<Rightarrow> UploadTokenRequest \<Rightarrow> (file_db, UploadToken) M" where
  "GenerateUploadToken s userID req =
     thenE (validateFileSize (int16 (ut_FileType req)) (ut_FileSize req)) (
     bindE new_uuid (\<lambda>u1. bindE now (uploadAt s userID req (''file-'' @ u1))))"

definition findFile :: "string \<Rightarrow> string \<Rightarrow> (file_db, File) M" where
  "findFile fileID userID = catchE (fileRepo_GetByFileIDAndUserID fileID userID) (\<lambda>e. throwE
     (if e = RecordNotFound then NewBusiness CodeFileNotFound ''file not found''
      else NewBusiness CodeInternalError ''failed to get file''))"

definition CompleteUpload :: "fileServiceImpl \<Rightarrow> string \<Rightarrow> string \<Rightarrow> (file_db, FileInfo) M" where
  "CompleteUpload s fileID userID =
     bindE (findFile fileID userID) (\<lambda>file.
     thenE (guardE (f_Status file = FileStatusProcessing) (NewBusiness CodeInvalidFileID ''file already completed or deleted'')) (
     thenE (businessE CodeFileUploadFailed ''file not found in storage'' (StatObject (fs_minio s) (f_BucketName file) (f_StoragePath file))) (
     let file = file\<lparr>f_Status := FileStatusActive\<rparr> in
     thenE (businessE CodeInternalError ''failed to update file status'' (fileRepo_Update file))
       (returnE (toFileInfoResponse file)))))"

subsection \<open>Reading\<close>

definition file_expired :: "File \<Rightarrow> int \<Rightarrow> bool" where
  "file_expired f t = (case f_ExpiresAt f of None \<Rightarrow> False | Some e \<Rightarrow> e < t)"

definition download_validity :: "int option \<Rightarrow> int" where
  "download_validity expiresMinutes = (case expiresMinutes of
       Some m \<Rightarrow> if m > 0 then int64 (m * Minute) else 60 * Minute
     | None \<Rightarrow> 60 * Minute)"

text \<open>The clock is read only for a file that has an expiry.\<close>

definition GenerateDownloadURL :: "fileServiceImpl \<Rightarrow> string \<Rightarrow> string \<Rightarrow> int option \<Rightarrow> (file_db, DownloadURL) M" where
  "GenerateDownloadURL s fileID userID expiresMinutes =
     bindE (findFile fileID userID) (\<lambda>file.
     thenE (guardE (f_Status file = FileStatusActive) (NewBusiness CodeFileNotFound ''file is not active'')) (
     thenE (if f_ExpiresAt file \<noteq> None
        then bindE now (\<lambda>t. guardE (\<not> file_expired file t) (NewBusiness CodeFileExpired ''file has expired''))
        else returnE ()) (
     let expires = download_validity expiresMinutes in
     bindE (businessE CodeInternalError ''failed to generate download URL''
       (PresignedGetObject (fs_minio s) (f_BucketName file) (f_StoragePath file) expires)) (\<lambda>downloadURL.
     bindE now (\<lambda>t. returnE \<lparr>dl_DownloadUrl = downloadURL, dl_ExpiresAt = unix (t + expires)\<rparr>)))))"

definition GetFileInfo :: "string \<Rightarrow> string \<Rightarrow> (file_db, FileInfo) M" where
  "GetFileInfo fileID userID = bindE (findFile fileID userID) (\<lambda>file. returnE (toFileInfoResponse file))"

definition ListUserFiles :: "string \<Rightarrow> int option \<Rightarrow> int \<Rightarrow> int \<Rightarrow> (file_db, int \<times> FileInfo list) M" where
  "ListUserFiles userID fileType page pageSize =
     bindE (businessE CodeInternalError ''failed to list files'' (fileRepo_ListByUserID userID fileType page pageSize)) (\<lambda>(rows, total).
     returnE (total, map toFileInfoResponse rows))"

definition BatchGetFileInfo :: "string list \<Rightarrow> string \<Rightarrow> (file_db, FileInfo list) M" where
  "BatchGetFileInfo fileIDs userID =
     (if fileIDs = [] then returnE []
      else bindE (businessE CodeInternalError ''failed to batch get files'' (fileRepo_BatchGetByFileIDs fileIDs)) (\<lambda>rows.
        returnE (map toFileInfoResponse (filter (\<lambda>f. f_UserID f = userID) rows))))"

subsection \<open>Deleting\<close>

definition DeleteFile :: "fileServiceImpl \<Rightarrow> string \<Rightarrow> string \<Rightarrow> (file_db, unit) M" where
  "DeleteFile s fileID userID =
     bindE (findFile fileID userID) (\<lambda>file.
     thenE (ignoreE (RemoveObject (fs_minio s) (f_BucketName file) (f_StoragePath file))) (
     thenE (if f_ThumbnailPath file \<noteq> '''' then ignoreE (RemoveObject (fs_minio s) (f_BucketName file) (f_ThumbnailPath file))
        else returnE ())
       (transaction (businessE CodeInternalError ''failed to delete file record'' (fileRepo_Delete fileID)))))"

subsection \<open>Handlers\<close>

definition FileHandler_GenerateUploadToken :: "fileServiceImpl \<Rightarrow> ctx \<Rightarrow> UploadTokenRequest \<Rightarrow> (file_db, UploadToken) M" where
  "FileHandler_GenerateUploadToken s ctx req = bindE (MustGetUserID ctx) (\<lambda>userID. convertE (GenerateUploadToken s userID req))"

definition FileHandler_CompleteUpload :: "fileServiceImpl \<Rightarrow> ctx \<Rightarrow> string \<Rightarrow> (file_db, FileInfo) M" where
  "FileHandler_CompleteUpload s ctx fileId = bindE (MustGetUserID ctx) (\<lambda>userID. convertE (CompleteUpload s fileId userID))"

definition FileHandler_GenerateDownloadURL :: "fileServiceImpl \<Rightarrow> ctx \<Rightarrow> string \<Rightarrow> int \<Rightarrow> (file_db, DownloadURL) M" where
  "FileHandler_GenerateDownloadURL s ctx fileId expiresMinutes = bindE (MustGetUserID ctx) (\<lambda>userID.
     convertE (GenerateDownloadURL s fileId userID (if expiresMinutes > 0 then Some expiresMinutes else None)))"

definition FileHandler_GetFileInfo :: "ctx \<Rightarrow> string \<Rightarrow> (file_db, FileInfo) M" where
  "FileHandler_GetFileInfo ctx fileId = bindE (MustGetUserID ctx) (\<lambda>userID. convertE (GetFileInfo fileId userID))"

definition FileHandler_DeleteFile :: "fileServiceImpl \<Rightarrow> ctx \<Rightarrow> string \<Rightarrow> (file_db, unit) M" where
  "FileHandler_DeleteFile s ctx fileId = bindE (MustGetUserID ctx) (\<lambda>userID. convertE (DeleteFile s fileId userID))"

definition FileHandler_ListUserFiles :: "ctx \<Rightarrow> int \<Rightarrow> int \<Rightarrow> int \<Rightarrow> (file_db, int \<times> FileInfo list) M" where
  "FileHandler_ListUserFiles ctx fileType page pageSize = bindE (MustGetUserID ctx) (\<lambda>userID.
     convertE (ListUserFiles userID (Some (int16 fileType)) page pageSize))"

text \<open>The user is taken from the request.\<close>

definition FileHandler_BatchGetFileInfo :: "string list \<Rightarrow> string \<Rightarrow> (file_db, (string \<times> FileInfo) list) M" where
  "FileHandler_BatchGetFileInfo fileIds userId =
     bindE (convertE (BatchGetFileInfo fileIds userId)) (\<lambda>infos.
     returnE (fold (\<lambda>f m. AList.update (fi_FileId f) f m) infos []))"

lemmas file_handler_defs = FileHandler_GenerateUploadToken_def FileHandler_CompleteUpload_def FileHandler_GenerateDownloadURL_def
  FileHandler_GetFileInfo_def FileHandler_DeleteFile_def FileHandler_ListUserFiles_def FileHandler_BatchGetFileInfo_def

end
