(* ===== verification/File_Life.thy ===== *)
theory File_Life
  imports File_Service Triples
begin

text \<open>
  Correctness of the file service: the life of a file as a relation, the invariant of its rows, where its
  object lies and who gets an address for it.
\<close>

subsection \<open>What one operation does to the table\<close>

inductive file_move :: "fileServiceImpl \<Rightarrow> string \<Rightarrow> File \<Rightarrow> File \<Rightarrow> bool" for s u where
  complete: "f_UserID f = u \<Longrightarrow> f_Status f = FileStatusProcessing \<Longrightarrow>
    mc_StatObject (fs_minio s) n (f_BucketName f) (f_StoragePath f) = Inr () \<Longrightarrow> file_move s u f (f\<lparr>f_Status := FileStatusActive\<rparr>)"
| delete: "f_UserID f = u \<Longrightarrow> f_Status f \<noteq> FileStatusDeleted \<Longrightarrow> file_move s u f (f\<lparr>f_Status := FileStatusDeleted\<rparr>)"

text \<open>A path that stays below the directory of the user, whatever the name of the file is.\<close>

definition confined :: "string \<Rightarrow> string \<Rightarrow> bool" where
  "confined userID p = (\<exists>t uid ext. p = storage_path userID (format_date t) uid ext \<and> CHR ''/'' \<notin> set ext \<and> CHR ''.'' \<notin> set ext)"

definition uploaded :: "string \<Rightarrow> File \<Rightarrow> bool" where
  "uploaded u f = (f_UserID f = u \<and> f_Status f = FileStatusProcessing \<and> f_BucketName f = BucketChatFile \<and>
     (\<exists>limit. size_limit (f_FileType f) = Some limit \<and> f_FileSize f \<le> limit) \<and> confined u (f_StoragePath f))"

definition file_change :: "fileServiceImpl \<Rightarrow> string \<Rightarrow> file_db \<Rightarrow> file_db \<Rightarrow> bool" where
  "file_change s u d d' = (d' = d \<or>
     (\<exists>f f'. owned_file (f_FileID f) u d = Some f \<and> file_move s u f f' \<and> save_file f' d = Inr ((), d')) \<or>
     (\<exists>f. owned_file (f_FileID f) u d = Some f \<and> d' = mark_deleted (f_FileID f) d) \<or>
     (\<exists>f. uploaded u f \<and> insert_file f d = Inr ((), d')))"

lemma file_change_refl [simp]: "file_change s u d d"
  by (simp add: file_change_def)

lemma owned_fileD: "owned_file fileID u d = Some f \<Longrightarrow> f \<in> set (files d) \<and> f_FileID f = fileID \<and> f_UserID f = u \<and> f_Status f \<noteq> FileStatusDeleted"
  unfolding owned_file_def by (drule first_where_SomeD) simp

lemma keeps_file_steps [keeps_intros]:
  "keeps I (PresignedPutObject c b p e)" "keeps I (PresignedGetObject c b p e)" "keeps I (StatObject c b p)"
  "keeps I (RemoveObject c b p)" "keeps I m \<Longrightarrow> keeps I (businessE code msg m)" "keeps I (findFile i u)"
  unfolding PresignedPutObject_def PresignedGetObject_def StatObject_def RemoveObject_def businessE_def findFile_def file_repo_defs
  by (intro keeps_intros; simp add: keeps_intros)+

lemma keeps_validateFileSize [keeps_intros]: "keeps I (validateFileSize t n)"
  unfolding validateFileSize_def by (cases "size_limit t"; simp only: check_limit.simps; intro keeps_intros)

lemma ensures_findFile:
  "(\<And>d. P d \<Longrightarrow> J d) \<Longrightarrow> (\<And>f. ensures (\<lambda>d. P d \<and> owned_file fileID u d = Some f) J (k f)) \<Longrightarrow>
     ensures P J (bindE (findFile fileID u) k)"
  unfolding findFile_def fileRepo_GetByFileIDAndUserID_def by (rule ensures_catch_find)

lemma CompleteUpload_change: "ensures (\<lambda>d. d = d0) (file_change s u d0) (CompleteUpload s fileID u)"
proof -
  have "file_change s u d0 d'"
    if "save_file (f\<lparr>f_Status := FileStatusActive\<rparr>) d0 = Inr ((), d')" "owned_file fileID u d0 = Some f" "f_Status f = FileStatusProcessing"
      "mc_StatObject (fs_minio s) n (f_BucketName f) (f_StoragePath f) = Inr ()" for d' f n
    using that owned_fileD[OF that(2)] file_move.complete[of f u s n] unfolding file_change_def by metis
  then show ?thesis
    unfolding CompleteUpload_def businessE_def StatObject_def fileRepo_Update_def Let_def thenE_def
    by (intro ensures_findFile ensures_guard[unfolded thenE_def] ensures_catch_rpc ensures_bind_keeps ensures_catch_throw
        ensures_exec keeps_intros) auto
qed

lemma path_Ext_clean: "CHR ''/'' \<notin> set (getFileExtension n) \<and> CHR ''.'' \<notin> set (getFileExtension n)"
proof -
  let ?tail = "takeWhile (\<lambda>c. c \<noteq> CHR ''/'' \<and> c \<noteq> CHR ''.'') (rev n)"
  have "CHR ''/'' \<notin> set ?tail \<and> CHR ''.'' \<notin> set ?tail" by (auto dest: set_takeWhileD)
  then show ?thesis
    by (auto simp: getFileExtension_def path_Ext_def TrimPrefix_dot_def Let_def split: list.splits)
qed

lemma GenerateUploadToken_change: "ensures (\<lambda>d. d = d0) (file_change s u d0) (GenerateUploadToken s u req)"
proof (cases "size_limit (int16 (ut_FileType req))")
  case None
  then show ?thesis by (simp add: GenerateUploadToken_def validateFileSize_def Let_def ensures_def thenE_def bindE_def throwE_def)
next
  case (Some limit)
  have new: "file_change s u d0 d'"
    if "insert_file ((newFile i u req (storage_path u (format_date t) v (getFileExtension (ut_FileName req))) t')\<lparr>f_ID := j,
        f_Status := or_default 1 FileStatusProcessing\<rparr>) d0 = Inr ((), d')" "ut_FileSize req \<le> limit" for i j t t' v d'
  proof -
    have "uploaded u ((newFile i u req (storage_path u (format_date t) v (getFileExtension (ut_FileName req))) t')\<lparr>f_ID := j,
        f_Status := or_default 1 FileStatusProcessing\<rparr>)"
      using Some that(2) path_Ext_clean[of "ut_FileName req"]
      by (auto simp: uploaded_def newFile_def getBucketName_def confined_def)
    then show ?thesis using that(1) unfolding file_change_def by blast
  qed
  have create: "ensures (\<lambda>d. d = d0) (file_change s u d0)
      (businessE c m (fileRepo_Create (newFile i u req (storage_path u (format_date t) v (getFileExtension (ut_FileName req))) t')))"
    if "ut_FileSize req \<le> limit" for c m i t t' v
    unfolding businessE_def fileRepo_Create_def
    by (intro ensures_catch_throw ensures_skip[OF preserves_keeps] ensures_exec keeps_intros)
       (use that in \<open>auto simp: newFile_def intro: new[unfolded newFile_def]\<close>)
  have at: "ensures (\<lambda>d. d = d0) (file_change s u d0) (uploadAt s u req i t)" if "ut_FileSize req \<le> limit" for i t
    unfolding uploadAt_def Let_def
    by (intro ensures_skip[OF preserves_keeps] ensures_then_keeps create keeps_intros) (use that in auto)
  show ?thesis
  proof (cases "ut_FileSize req > limit")
    case True
    then show ?thesis by (simp add: GenerateUploadToken_def validateFileSize_def Some ensures_def thenE_def bindE_def throwE_def)
  next
    case False
    then have "GenerateUploadToken s u req = bindE new_uuid (\<lambda>u1. bindE now (uploadAt s u req (''file-'' @ u1)))"
      by (intro ext) (simp add: GenerateUploadToken_def validateFileSize_def Some thenE_def bindE_def[of "returnE ()"] returnE_def)
    moreover have "ut_FileSize req \<le> limit" using False by simp
    ultimately show ?thesis
      by (simp only:) (intro ensures_skip[OF preserves_keeps] at keeps_intros; simp)
  qed
qed

lemma DeleteFile_change: "ensures (\<lambda>d. d = d0) (file_change s u d0) (DeleteFile s fileID u)"
proof -
  have tx: "ensures (\<lambda>d. d = d0 \<and> owned_file fileID u d = Some f) (file_change s u d0)
      (transaction (businessE CodeInternalError msg (fileRepo_Delete fileID)))" for f msg
  proof -
    have "owned_file fileID u d0 = Some f \<Longrightarrow> file_change s u d0 (mark_deleted fileID d0)"
      using owned_fileD[of fileID u d0 f] unfolding file_change_def by auto
    then show ?thesis
      unfolding ensures_def transaction_def businessE_def fileRepo_Delete_def modify_def exec_def
      by (auto simp: infra_def monad_defs split: option.split)
  qed
  show ?thesis
    unfolding DeleteFile_def
    by (intro ensures_findFile ensures_skip_then[OF preserves_keeps] tx keeps_intros) auto
qed

subsection \<open>The service\<close>

datatype file_op =
    OpGenerateUploadToken ctx UploadTokenRequest
  | OpCompleteUpload ctx string
  | OpGenerateDownloadURL ctx string int
  | OpGetFileInfo ctx string
  | OpDeleteFile ctx string
  | OpListUserFiles ctx int int int
  | OpBatchGetFileInfo "string list" string

fun file_step :: "fileServiceImpl \<Rightarrow> file_op \<Rightarrow> (file_db, unit) M" where
  "file_step s (OpGenerateUploadToken ctx req) = void (FileHandler_GenerateUploadToken s ctx req)"
| "file_step s (OpCompleteUpload ctx i) = void (FileHandler_CompleteUpload s ctx i)"
| "file_step s (OpGenerateDownloadURL ctx i m) = void (FileHandler_GenerateDownloadURL s ctx i m)"
| "file_step s (OpGetFileInfo ctx i) = void (FileHandler_GetFileInfo ctx i)"
| "file_step s (OpDeleteFile ctx i) = FileHandler_DeleteFile s ctx i"
| "file_step s (OpListUserFiles ctx t p n) = void (FileHandler_ListUserFiles ctx t p n)"
| "file_step s (OpBatchGetFileInfo is u) = void (FileHandler_BatchGetFileInfo is u)"

text \<open>The user an operation runs for, as the metadata name them.\<close>

fun file_operator :: "file_op \<Rightarrow> string" where
  "file_operator (OpGenerateUploadToken ctx _) = fst (GetUserID ctx)"
| "file_operator (OpCompleteUpload ctx _) = fst (GetUserID ctx)"
| "file_operator (OpGenerateDownloadURL ctx _ _) = fst (GetUserID ctx)"
| "file_operator (OpGetFileInfo ctx _) = fst (GetUserID ctx)"
| "file_operator (OpDeleteFile ctx _) = fst (GetUserID ctx)"
| "file_operator (OpListUserFiles ctx _ _ _) = fst (GetUserID ctx)"
| "file_operator (OpBatchGetFileInfo _ u) = u"

lemma keeps_file_queries:
  "keeps I (GenerateDownloadURL s i u m)" "keeps I (GetFileInfo i u)" "keeps I (ListUserFiles u t p n)" "keeps I (BatchGetFileInfo is u)"
  unfolding GenerateDownloadURL_def GetFileInfo_def ListUserFiles_def BatchGetFileInfo_def file_repo_defs Let_def
  by (intro keeps_intros)+

lemma file_step_change: "ensures (\<lambda>d. d = d0) (file_change s (file_operator op) d0) (file_step s op)"
  by (cases op)
     (simp_all only: file_step.simps file_handler_defs file_operator.simps,
      intro ensures_void ensures_MustGetUserID ensures_convert CompleteUpload_change GenerateUploadToken_change DeleteFile_change
        ensures_still[OF preserves_keeps] keeps_file_queries keeps_intros; simp)+

subsection \<open>The invariant\<close>

definition file_ok :: "File \<Rightarrow> bool" where
  "file_ok f = (f_Status f \<in> {FileStatusDeleted, FileStatusActive, FileStatusProcessing} \<and> f_BucketName f = BucketChatFile \<and>
     (\<exists>limit. size_limit (f_FileType f) = Some limit \<and> f_FileSize f \<le> limit) \<and> confined (f_UserID f) (f_StoragePath f))"

definition file_inv :: "file_db \<Rightarrow> bool" where
  "file_inv d = (uniq f_ID (files d) \<and> uniq f_FileID (files d) \<and> (\<forall>f \<in> set (files d). file_ok f))"

lemma file_move_keys: "file_move s u f f' \<Longrightarrow> f_ID f' = f_ID f \<and> f_FileID f' = f_FileID f \<and> f_UserID f' = f_UserID f"
  by (induction rule: file_move.induct) simp_all

lemma file_move_ok: "file_move s u f f' \<Longrightarrow> file_ok f \<Longrightarrow> file_ok f'"
  by (induction rule: file_move.induct) (auto simp: file_ok_def)

lemma insert_file_Inr: "insert_file f d = Inr ((), d') \<longleftrightarrow> d' = d\<lparr>files := files d @ [f]\<rparr> \<and>
    f_ID f \<notin> f_ID ` set (files d) \<and> f_FileID f \<notin> f_FileID ` set (files d)"
  by (auto simp: insert_file_def has_key_iff)

text \<open>A change of a table with unique keys, by cases.\<close>

lemma file_changeE [consumes 2, case_names same move new]:
  assumes "file_change s u d d'" "file_inv d"
  obtains "d' = d"
  | f f' where "f \<in> set (files d)" "file_move s u f f'" "d' = d\<lparr>files := update_where (\<lambda>x. f_ID x = f_ID f) (\<lambda>_. f') (files d)\<rparr>"
  | f where "uploaded u f" "insert_file f d = Inr ((), d')"
proof -
  from assms(1)[unfolded file_change_def] show thesis
  proof (elim disjE exE conjE)
    fix f f' assume m: "owned_file (f_FileID f) u d = Some f" "file_move s u f f'" "save_file f' d = Inr ((), d')"
    then have "f \<in> set (files d)" "f_ID f' = f_ID f" using owned_fileD file_move_keys by blast+
    then have "d' = d\<lparr>files := update_where (\<lambda>x. f_ID x = f_ID f) (\<lambda>_. f') (files d)\<rparr>"
      using m(3) by (auto simp: save_file_def has_key_iff split: if_splits)
    then show thesis using that(2) m(2) \<open>f \<in> set (files d)\<close> by blast
  next
    fix f assume m: "owned_file (f_FileID f) u d = Some f" "d' = mark_deleted (f_FileID f) d"
    note f = owned_fileD[OF m(1)]
    have row: "f_FileID x = f_FileID f \<longleftrightarrow> x = f" "f_ID x = f_ID f \<longleftrightarrow> x = f" if "x \<in> set (files d)" for x
      using assms(2) f that by (metis file_inv_def uniq_def distinct_map inj_onD)+
    have "update_where (\<lambda>x. f_FileID x = f_FileID f) (\<lambda>f. f\<lparr>f_Status := FileStatusDeleted\<rparr>) (files d) =
        update_where (\<lambda>x. f_ID x = f_ID f) (\<lambda>_. f\<lparr>f_Status := FileStatusDeleted\<rparr>) (files d)"
      unfolding update_where_def by (rule map_cong[OF refl]) (use row in auto)
    then show thesis using that(2)[of f "f\<lparr>f_Status := FileStatusDeleted\<rparr>"] f m(2) file_move.delete[of f u s]
      by (simp add: mark_deleted_def)
  qed (use that in blast)+
qed

lemma file_change_inv:
  assumes "file_change s u d d'" "file_inv d"
  shows "file_inv d'"
  using assms
proof (cases rule: file_changeE)
  case (move f f')
  then have "file_ok f'" using assms(2) file_move_ok by (auto simp: file_inv_def)
  then show ?thesis using assms(2) move file_move_keys[OF move(2)]
    by (auto simp: file_inv_def ball_update_where intro!: uniq_replace)
next
  case (new f)
  then have "file_ok f" by (auto simp: uploaded_def file_ok_def)
  then show ?thesis using assms(2) new by (auto simp: file_inv_def insert_file_Inr intro!: uniq_snoc)
qed (use assms(2) in simp)

lemma file_step_keeps: "keeps file_inv (file_step s op)"
  using ensuresD[OF file_step_change] file_change_inv unfolding keeps_def by (metis prod.collapse)

interpretation file_service: service "file_step s" any_op file_inv empty_file_db for s
  by unfold_locales (simp add: file_inv_def empty_file_db_def, rule file_step_keeps)

end
