(* ===== verification/File_Properties.thy ===== *)
theory File_Properties
  imports File_Life
begin

text \<open>
  Properties of the file service: the life of a file, the end of a deleted one, who gets an address, how
  long a file and an address last, and what a deletion leaves in the store.
\<close>


text \<open>A deleted file stays as it is for ever, and nobody gets it again.\<close>

theorem deleted_file_frozen:
  assumes "reachable (file_step s) any_op empty_file_db d" "reachable (file_step s) any_op d (db w)"
    and "f \<in> set (files d)" "f_Status f = FileStatusDeleted"
  shows "f \<in> set (files (db w)) \<and> owned_file (f_FileID f) u (db w) = None \<and>
    (\<forall>x \<in> set (case BatchGetFileInfo is u w of (Inl _, _) \<Rightarrow> [] | (Inr xs, _) \<Rightarrow> xs). fi_FileId x \<noteq> f_FileID f)"
proof -
  have "file_inv (db w) \<and> f \<in> set (files (db w))"
    using assms(2)
  proof (induction "db w" arbitrary: w rule: reachable.induct)
    case reach_init
    then show ?case using file_service.reachable_inv[OF assms(1)] assms(3) by simp
  next
    case (reach_step v op r v')
    then have inv: "file_inv (db v)" "f \<in> set (files (db v))" by blast+
    have change: "file_change s (file_operator op) (db v) (db v')" by (rule ensuresD[OF file_step_change reach_step(4)]) simp
    have "f \<in> set (files (db v'))"
      using change inv(1)
    proof (cases rule: file_changeE)
      case (move x x')
      then have "f_ID f \<noteq> f_ID x"
        using inv assms(4) by (metis file_inv_def uniq_def distinct_map inj_onD file_move.cases numeral_eq_iff semiring_norm(85) zero_neq_numeral)
      then show ?thesis using move inv(2) by (force simp: set_update_where)
    qed (use inv in \<open>auto simp: insert_file_Inr\<close>)
    then show ?case using file_change_inv[OF change inv(1)] reach_step(5) by simp
  qed
  then have here: "f \<in> set (files (db w))" and inv: "file_inv (db w)" by blast+
  have only: "x = f" if "x \<in> set (files (db w))" "f_FileID x = f_FileID f" for x
    using here inv that by (metis file_inv_def uniq_def distinct_map inj_onD)
  have "owned_file (f_FileID f) u (db w) = None"
    unfolding owned_file_def first_where_None using only assms(4) by auto
  moreover have "wp (BatchGetFileInfo is u) (\<lambda>xs _. \<forall>x \<in> set xs. fi_FileId x \<noteq> f_FileID f) (\<lambda>_ _. True) w"
    unfolding BatchGetFileInfo_def businessE_def fileRepo_BatchGetByFileIDs_def
    using only assms(4) by (auto simp: wp_simps toFileInfoResponse_def split: option.split err.split)
  ultimately show ?thesis using here by (auto simp: wp_def split: prod.splits sum.splits)
qed


text \<open>A file asked to live for n hours lives for exactly n hours as long as n is at most 2562047; one
  hour more wraps around, and the file has expired before it is uploaded.\<close>

theorem upload_expiry_bounds:
  "(0 < n \<and> n \<le> 2562047 \<longrightarrow> upload_expiry t n = Some (t + n * Hour)) \<and>
   (\<exists>e. upload_expiry t 2562048 = Some e \<and> e < t)"
proof -
  have "after t 2562048 Hour = t + (2562048 * Hour - 2 ^ 64)" by (simp add: after_def int64_def Hour_def Minute_def Second_def)
  moreover have "after t n Hour = t + n * Hour" if "0 < n" "n \<le> 2562047"
  proof -
    have "0 \<le> n * Hour" "n * Hour < 2 ^ 63" using that by (simp_all add: Hour_def Minute_def Second_def)
    then show ?thesis by (simp add: after_def int64_def)
  qed
  ultimately show ?thesis by (simp add: upload_expiry_def Hour_def Minute_def Second_def)
qed

text \<open>In a healthy world a file is deleted from the table whatever the store answers to the removal of
  its object: an object whose removal failed stays in the store, and no row shows where.\<close>

theorem DeleteFile_orphans:
  assumes "healthy w" "owned_file fileID u (db w) = Some f"
  shows "\<exists>w'. DeleteFile s fileID u w = (Inr (), w') \<and> db w' = mark_deleted fileID (db w) \<and> owned_file fileID u (db w') = None"
proof -
  have gone: "owned_file fileID u (mark_deleted fileID d) = None" for d
    unfolding owned_file_def first_where_None by (simp add: mark_deleted_def ball_update_where)
  have rm: "wp (ignoreE (RemoveObject c b p)) Q E v = Q () (bump (v\<lparr>outbox := outbox v @ [Called ''RemoveObject'' [b, p]]\<rparr>))" for c b p Q E and v :: "file_db world"
    unfolding RemoveObject_def ignoreE_def by (auto simp: wp_simps split: sum.split err.split)
  have "wp (DeleteFile s fileID u) (\<lambda>_ w'. db w' = mark_deleted fileID (db w) \<and> owned_file fileID u (db w') = None) (\<lambda>_ _. False) w"
    using assms unfolding DeleteFile_def findFile_def businessE_def fileRepo_GetByFileIDAndUserID_def fileRepo_Delete_def
    by (auto simp: wp_simps rm gone healthy_fault)
  then show ?thesis by (auto simp: wp_def split: prod.splits sum.splits)
qed

text \<open>A page of no rows is no default: it lists nothing, although it counts the files.\<close>

theorem ListUserFiles_empty_page:
  assumes "healthy w"
  shows "fst (ListUserFiles u ft page 0 w) = Inr (int (count_where (\<lambda>f. f_UserID f = u \<and> f_Status f = FileStatusActive \<and>
     (case ft of Some ft \<Rightarrow> ft \<noteq> FileTypeUnspecified \<longrightarrow> f_FileType f = ft | None \<Rightarrow> True)) (files (db w))), [])"
proof -
  have "wp (ListUserFiles u ft page 0) (\<lambda>r _. r = (int (count_where (\<lambda>f. f_UserID f = u \<and> f_Status f = FileStatusActive \<and>
     (case ft of Some ft \<Rightarrow> ft \<noteq> FileTypeUnspecified \<longrightarrow> f_FileType f = ft | None \<Rightarrow> True)) (files (db w))), [])) (\<lambda>_ _. False) w"
    using assms unfolding ListUserFiles_def businessE_def fileRepo_ListByUserID_def Let_def
    by (simp add: wp_simps gorm_page_def healthy_fault)
  then show ?thesis by (auto simp: wp_def split: prod.splits sum.splits)
qed

subsection \<open>An afternoon with two files\<close>

text \<open>A store that has every object, signs with the name of the object and fails every removal.\<close>

definition example_files :: fileServiceImpl where
  "example_files = \<lparr>fs_minio = \<lparr>mc_PresignedPutObject = (\<lambda>_ b p _. Inr (b @ '':'' @ p)), mc_PresignedGetObject = (\<lambda>_ b p _. Inr (b @ '':'' @ p)),
     mc_StatObject = (\<lambda>_ _ _. Inr ()), mc_RemoveObject = (\<lambda>_ _ _. Inl (Plain ''offline''))\<rparr>, fs_zone = 8 * Hour\<rparr>"

definition photo :: UploadTokenRequest where
  "photo = \<lparr>ut_FileName = ''../../etc/a.b/photo.jpg'', ut_FileSize = 5, ut_MimeType = ''image/jpeg'', ut_FileType = 1, ut_ExpiresHours = 2\<rparr>"

definition uploaded_world :: "file_db world" where
  "uploaded_world = run_ops (file_step example_files)
     [OpGenerateUploadToken (user_ctx ''ann'') photo, OpCompleteUpload (user_ctx ''ann'') ''file-uuid-0''] (init_world empty_file_db)"

definition deleted_world :: "file_db world" where
  "deleted_world = run_ops (file_step example_files) [OpDeleteFile (user_ctx ''ann'') ''file-uuid-0''] uploaded_world"

lemma uploaded_reachable: "reachable (file_step example_files) any_op empty_file_db (db uploaded_world)"
  unfolding uploaded_world_def by (rule run_ops_reachable) (simp_all add: reachable.reach_init any_op_def)

lemma deleted_reachable: "reachable (file_step example_files) any_op empty_file_db (db deleted_world)"
  unfolding deleted_world_def by (rule run_ops_reachable) (simp_all add: uploaded_reachable any_op_def)

definition stored_photo :: File where
  "stored_photo = \<lparr>f_ID = 1, f_FileID = ''file-uuid-0'', f_UserID = ''ann'', f_FileName = ''../../etc/a.b/photo.jpg'', f_FileType = 1,
     f_FileSize = 5, f_MimeType = ''image/jpeg'', f_StoragePath = ''ann/1970-01-01/uuid-2.jpg'', f_ThumbnailPath = '''',
     f_BucketName = ''chat-file'', f_Status = 1, f_CreatedAt = 1, f_ExpiresAt = Some 7200000000001, f_Metadata = None\<rparr>"

lemma uploaded_files: "files (db uploaded_world) = [stored_photo]"
  by code_simp

lemma deleted_files: "files (db deleted_world) = [stored_photo\<lparr>f_Status := 0\<rparr>]"
  by code_simp


theorem deleted_file_frozen_witness:
  "owned_file ''file-uuid-0'' ''ann'' (db (run_ops (file_step example_files)
     [OpCompleteUpload (user_ctx ''ann'') ''file-uuid-0'', OpGenerateUploadToken (user_ctx ''bob'') photo] deleted_world)) = None"
proof -
  let ?ops = "[OpCompleteUpload (user_ctx ''ann'') ''file-uuid-0'', OpGenerateUploadToken (user_ctx ''bob'') photo]"
  have "reachable (file_step example_files) any_op (db deleted_world) (db (run_ops (file_step example_files) ?ops deleted_world))"
    by (rule run_ops_reachable) (simp_all add: reachable.reach_init any_op_def)
  from deleted_file_frozen[OF deleted_reachable this, of "stored_photo\<lparr>f_Status := 0\<rparr>" "''ann''"] show ?thesis
    by (simp add: deleted_files) (simp add: stored_photo_def)
qed


theorem DeleteFile_orphans_witness:
  "\<exists>w'. DeleteFile example_files ''file-uuid-0'' ''ann'' (init_world (db uploaded_world)) = (Inr (), w') \<and>
     files (db w') = [stored_photo\<lparr>f_Status := 0\<rparr>]"
proof -
  have "owned_file ''file-uuid-0'' ''ann'' (db uploaded_world) = Some stored_photo" by code_simp
  then show ?thesis using DeleteFile_orphans[of "init_world (db uploaded_world)" "''file-uuid-0''" "''ann''" stored_photo example_files]
    by (auto simp: mark_deleted_def uploaded_files update_where_def stored_photo_def)
qed

end
