(* ===== verification/Push_Model.thy ===== *)
theory Push_Model
  imports User_Model
begin

text \<open>
  The push service (\<open>app/push\<close>): its log (migration 000007), the push tokens it reads from the table of
  the user service, the JPush client of \<open>pkg/jpush\<close>, the sending of a push and what is pushed for a
  notification.  The HTTP transport is a parameter that takes the decoded request and gives the decoded
  response; a request it is given is recorded in the outbox.
\<close>

subsection \<open>Rows (\<open>internal/model/push_log.go\<close>)\<close>

abbreviation (input) PushTypeUnspecified :: int where "PushTypeUnspecified \<equiv> 0"
abbreviation (input) PushTypeMessageNew :: int where "PushTypeMessageNew \<equiv> 1"
abbreviation (input) PushTypeMessageMention :: int where "PushTypeMessageMention \<equiv> 2"
abbreviation (input) PushTypeFriendRequest :: int where "PushTypeFriendRequest \<equiv> 3"
abbreviation (input) PushTypeGroupInvited :: int where "PushTypeGroupInvited \<equiv> 4"
abbreviation (input) PushTypeCallInvite :: int where "PushTypeCallInvite \<equiv> 5"

abbreviation (input) PushStatusSent :: int where "PushStatusSent \<equiv> 2"
abbreviation (input) PushStatusFailed :: int where "PushStatusFailed \<equiv> 3"

record PushLog =
  pl_ID :: int
  pl_UserID :: string
  pl_PushType :: int
  pl_Title :: string
  pl_Content :: string
  pl_TargetCount :: int
  pl_SuccessCount :: int
  pl_FailureCount :: int
  pl_JPushMsgID :: string
  pl_Status :: int
  pl_ErrorMsg :: string
  pl_CreatedAt :: int

record push_db =
  pd_tokens :: "UserPushToken list"
  push_logs :: "PushLog list"

subsection \<open>Repository (\<open>internal/repository/push_log_repository.go\<close>)\<close>

record PushTokenRow =
  tr_UserID :: string
  tr_DeviceID :: string
  tr_Token :: string
  tr_Platform :: int

definition token_row :: "UserPushToken \<Rightarrow> PushTokenRow" where
  "token_row p = \<lparr>tr_UserID = pt_UserID p, tr_DeviceID = pt_DeviceID p, tr_Token = pt_PushToken p, tr_Platform = pt_Platform p\<rparr>"

text \<open>The columns \<open>VARCHAR(n)\<close> of the log refuse a longer text.\<close>

definition log_fits :: "PushLog \<Rightarrow> bool" where
  "log_fits l = (rune_count (pl_UserID l) \<le> 36 \<and> rune_count (pl_Title l) \<le> 200 \<and> rune_count (pl_Content l) \<le> 1000 \<and>
     rune_count (pl_JPushMsgID l) \<le> 100)"

definition insert_log :: "PushLog \<Rightarrow> push_db \<Rightarrow> err + unit \<times> push_db" where
  "insert_log l d =
     (if \<not> log_fits l then Inl (Plain ''ERROR: value too long for type character varying (SQLSTATE 22001)'')
      else if has_key pl_ID (pl_ID l) (push_logs d) then Inl (UniqueViolation ''push_logs_pkey'')
      else Inr ((), d\<lparr>push_logs := push_logs d @ [l]\<rparr>))"

definition pushLogRepo_Create :: "PushLog \<Rightarrow> (push_db, unit) M" where
  "pushLogRepo_Create l =
     bindE now (\<lambda>t. bindE (next_serial SeqPushLogs) (\<lambda>i.
       exec (insert_log (l\<lparr>pl_ID := i, pl_Status := or_default 1 (pl_Status l), pl_CreatedAt := t\<rparr>))))"

definition GetTokensByUserID :: "string \<Rightarrow> (push_db, PushTokenRow list) M" where
  "GetTokensByUserID userID = query (\<lambda>d. map token_row (filter (\<lambda>p. pt_UserID p = userID) (pd_tokens d)))"

text \<open>The rows by user, the users in the order of their first row: the order of a Go map is not specified.\<close>

definition by_user :: "PushTokenRow list \<Rightarrow> (string \<times> PushTokenRow list) list" where
  "by_user rows = fold (\<lambda>r m. AList.update (tr_UserID r)
     ((case map_of m (tr_UserID r) of Some rs \<Rightarrow> rs | None \<Rightarrow> []) @ [r]) m) rows []"

definition GetTokensByUserIDs :: "string list \<Rightarrow> (push_db, (string \<times> PushTokenRow list) list) M" where
  "GetTokensByUserIDs userIDs =
     (if userIDs = [] then returnE []
      else bindE (query (\<lambda>d. map token_row (filter (\<lambda>p. pt_UserID p \<in> set userIDs) (pd_tokens d)))) (\<lambda>rows.
        returnE (by_user rows)))"

subsection \<open>The JPush client (\<open>pkg/jpush/client.go\<close>)\<close>

definition base64_char :: "nat \<Rightarrow> char" where
  "base64_char n = ''ABCDEFGHIJKLMNOPQRSTUVWXYZabcdefghijklmnopqrstuvwxyz0123456789+/'' ! n"

text \<open>\<open>base64.StdEncoding\<close>: three bytes become four characters, the last group is padded.\<close>

fun base64 :: "nat list \<Rightarrow> string" where
  "base64 [] = ''''"
| "base64 [a] = [base64_char (a div 4), base64_char (a mod 4 * 16), CHR ''='', CHR ''='']"
| "base64 [a, b] = [base64_char (a div 4), base64_char (a mod 4 * 16 + b div 16), base64_char (b mod 16 * 4), CHR ''='']"
| "base64 (a # b # c # rest) = [base64_char (a div 4), base64_char (a mod 4 * 16 + b div 16),
     base64_char (b mod 16 * 4 + c div 64), base64_char (c mod 64)] @ base64 rest"

record iosNotification =
  io_AlertTitle :: string
  io_AlertBody :: string
  io_Sound :: string
  io_Badge :: string
  io_Extras :: "(string \<times> string) list"

record androidNotification =
  an_Alert :: string
  an_Title :: string
  an_Extras :: "(string \<times> string) list"

record pushRequest =
  pq_Platform :: string
  pq_RegistrationID :: "string list"
  pq_IOS :: iosNotification
  pq_Android :: androidNotification
  pq_TimeToLive :: int
  pq_ApnsProduction :: bool

record pushResponse =
  pp_MsgID :: string
  pp_SendNo :: string
  pp_Error :: "(int \<times> string) option"

text \<open>A response: its status, its body or the error of reading it, and the body decoded.\<close>

record http_reply =
  hp_StatusCode :: int
  hp_Body :: "err + string"
  hp_Decoded :: "err + pushResponse"

record jpush_client =
  jp_env :: string
  jp_auth :: string
  jp_Do :: "nat \<Rightarrow> (string \<times> string) list \<Rightarrow> pushRequest \<Rightarrow> err + http_reply"

definition IsProd :: "string \<Rightarrow> bool" where
  "IsProd e = (e = ''prod'')"

definition NewClient :: "string \<Rightarrow> string \<Rightarrow> string \<Rightarrow> (nat \<Rightarrow> (string \<times> string) list \<Rightarrow> pushRequest \<Rightarrow> err + http_reply) \<Rightarrow> jpush_client" where
  "NewClient env appKey masterSecret transport =
     \<lparr>jp_env = env, jp_auth = base64 (map of_char (appKey @ '':'' @ masterSecret)), jp_Do = transport\<rparr>"

record PushResult =
  ps_MsgID :: string
  ps_SendNo :: string
  ps_SuccessCount :: int

text \<open>The reading of a response.\<close>

fun read_error :: "int \<times> string \<Rightarrow> err" where
  "read_error (code, msg) = Plain (''jpush: error '' @ itoa code @ '': '' @ msg)"

definition read_reply :: "http_reply \<Rightarrow> err + PushResult" where
  "read_reply resp = (case hp_Body resp of
       Inl e \<Rightarrow> Inl (Plain (''jpush: read response: '' @ err_string e))
     | Inr body \<Rightarrow>
         if hp_StatusCode resp \<noteq> 200 then Inl (Plain (''jpush: unexpected status '' @ itoa (hp_StatusCode resp) @ '': '' @ body))
         else (case hp_Decoded resp of
             Inl e \<Rightarrow> Inl (Plain (''jpush: unmarshal response: '' @ err_string e))
           | Inr r \<Rightarrow> (case pp_Error r of
                 Some x \<Rightarrow> Inl (read_error x)
               | None \<Rightarrow> Inr \<lparr>ps_MsgID = pp_MsgID r, ps_SendNo = pp_SendNo r, ps_SuccessCount = 0\<rparr>)))"

definition doRequest :: "jpush_client \<Rightarrow> pushRequest \<Rightarrow> nat \<Rightarrow> err + PushResult" where
  "doRequest c payload n =
     (case jp_Do c n [(''Content-Type'', ''application/json''), (''Authorization'', ''Basic '' @ jp_auth c)] payload of
        Inl e \<Rightarrow> Inl (Plain (''jpush: http request: '' @ err_string e))
      | Inr resp \<Rightarrow> read_reply resp)"

definition newPushRequest :: "jpush_client \<Rightarrow> string list \<Rightarrow> string \<Rightarrow> string \<Rightarrow> (string \<times> string) list \<Rightarrow> pushRequest" where
  "newPushRequest c regIDs title content extras =
     \<lparr>pq_Platform = ''all'', pq_RegistrationID = regIDs,
      pq_IOS = \<lparr>io_AlertTitle = title, io_AlertBody = content, io_Sound = ''default'', io_Badge = ''+1'', io_Extras = extras\<rparr>,
      pq_Android = \<lparr>an_Alert = content, an_Title = title, an_Extras = extras\<rparr>,
      pq_TimeToLive = 86400, pq_ApnsProduction = IsProd (jp_env c)\<rparr>"

definition PushToRegistrationIDs ::
  "jpush_client \<Rightarrow> string list \<Rightarrow> string \<Rightarrow> string \<Rightarrow> (string \<times> string) list \<Rightarrow> (push_db, PushResult) M" where
  "PushToRegistrationIDs c regIDs title content extras =
     (if regIDs = [] then returnE \<lparr>ps_MsgID = '''', ps_SendNo = '''', ps_SuccessCount = 0\<rparr>
      else thenE (emit (Called ''jpush'' (title # content # regIDs)))
        (bindE (rpc (doRequest c (newPushRequest c regIDs title content extras))) (\<lambda>r.
         returnE (r\<lparr>ps_SuccessCount := int (length regIDs)\<rparr>))))"

subsection \<open>Sending (\<open>internal/service/push_service.go\<close>)\<close>

definition logPush :: "string \<Rightarrow> int \<Rightarrow> string \<Rightarrow> string \<Rightarrow> int \<Rightarrow> int \<Rightarrow> int \<Rightarrow> string \<Rightarrow> int \<Rightarrow> string \<Rightarrow> (push_db, unit) M" where
  "logPush userID pushType title content targetCount successCount failureCount jpushMsgID status errMsg =
     ignoreE (pushLogRepo_Create
       \<lparr>pl_ID = 0, pl_UserID = userID, pl_PushType = pushType, pl_Title = title, pl_Content = content, pl_TargetCount = targetCount,
        pl_SuccessCount = successCount, pl_FailureCount = failureCount, pl_JPushMsgID = jpushMsgID, pl_Status = status,
        pl_ErrorMsg = errMsg, pl_CreatedAt = 0\<rparr>)"

definition reg_ids :: "(string \<times> PushTokenRow list) list \<Rightarrow> string list" where
  "reg_ids tokenMap = filter (\<lambda>t. t \<noteq> '''') (map tr_Token (concat (map snd tokenMap)))"

text \<open>Both callers drop the counts that come with an error.\<close>

definition SendPush :: "jpush_client \<Rightarrow> string list \<Rightarrow> string \<Rightarrow> string \<Rightarrow> int \<Rightarrow> (string \<times> string) list \<Rightarrow> (push_db, int \<times> int \<times> string) M" where
  "SendPush c userIDs title content pushType extras =
     (if userIDs = [] then returnE (0, 0, '''')
      else bindE (GetTokensByUserIDs userIDs) (\<lambda>tokenMap.
        let regIDs = reg_ids tokenMap; n = int (length regIDs) in
        if regIDs = [] then returnE (0, 0, '''')
        else bindE (catchE (PushToRegistrationIDs c regIDs title content extras) (\<lambda>e.
            thenE (logPush (hd userIDs) pushType title content n 0 n '''' PushStatusFailed (err_string e)) (throwE e))) (\<lambda>result.
          thenE (logPush (hd userIDs) pushType title content n n 0 (ps_MsgID result) PushStatusSent '''')
            (returnE (n, 0, ps_MsgID result)))))"

subsection \<open>What is pushed (\<open>internal/service/handle_notification.go\<close>)\<close>

definition pushTypeTitle :: "(int \<times> string) list" where
  "pushTypeTitle = [(PushTypeMessageNew, ''New Message''), (PushTypeMessageMention, ''You were mentioned''),
     (PushTypeFriendRequest, ''Friend Request''), (PushTypeGroupInvited, ''Group Invitation''), (PushTypeCallInvite, ''Incoming Call'')]"

definition notificationPushTypeMap :: "(string \<times> int) list" where
  "notificationPushTypeMap = [(TypeMessageNew, PushTypeMessageNew), (TypeMessageMentioned, PushTypeMessageMention),
     (TypeFriendRequest, PushTypeFriendRequest), (TypeGroupInvited, PushTypeGroupInvited), (TypeLiveKitCallInvite, PushTypeCallInvite)]"

definition buildPushContent :: "Notification \<Rightarrow> (int \<times> string) option" where
  "buildPushContent notif = (case map_of notificationPushTypeMap (n_Type notif) of
       None \<Rightarrow> None
     | Some pushType \<Rightarrow> Some (pushType, case map_of pushTypeTitle pushType of Some title \<Rightarrow> title | None \<Rightarrow> ''New Notification''))"

definition shorten :: "string \<Rightarrow> string" where
  "shorten str = (if rune_count str > 80 then concat (take 80 (runes str)) @ ''...'' else str)"

fun extractFrom :: "string list \<Rightarrow> payload \<Rightarrow> string" where
  "extractFrom [] p = ''''"
| "extractFrom (key # keys) p = (case map_of p key of
       Some (JStr str) \<Rightarrow> if str \<noteq> '''' then shorten str else extractFrom keys p
     | _ \<Rightarrow> extractFrom keys p)"

definition extractContent :: "Notification \<Rightarrow> string" where
  "extractContent notif = extractFrom [''content'', ''body'', ''text''] (n_Payload notif)"

text \<open>\<open>%v\<close> of a number: the decoded JSON holds a \<open>float64\<close>, which Go prints with an exponent as soon as
  it has seven digits.  Every integer below \<open>2 ^ 53\<close> is such a number; larger ones are not rounded here.\<close>

definition trim_zeros :: "string \<Rightarrow> string" where
  "trim_zeros ds = rev (dropWhile (\<lambda>c. c = CHR ''0'') (rev ds))"

definition exponent_form :: "string \<Rightarrow> string" where
  "exponent_form ds =
     (let e = length ds - 1; frac = trim_zeros (tl ds) in
      hd ds # (if frac = '''' then '''' else CHR ''.'' # frac) @ ''e+'' @ (if e < 10 then ''0'' else '''') @ digits e)"

definition unsigned_v :: "string \<Rightarrow> string" where
  "unsigned_v ds = (if length ds \<le> 6 then ds else exponent_form ds)"

definition float_v :: "int \<Rightarrow> string" where
  "float_v i = (if i < 0 then CHR ''-'' # unsigned_v (digits (nat (- i))) else unsigned_v (digits (nat i)))"

fun extra :: "jval \<Rightarrow> string option" where
  "extra (JStr str) = Some str"
| "extra (JInt i) = Some (float_v i)"
| "extra (JBool b) = Some (if b then ''true'' else ''false'')"
| "extra _ = None"

definition extractExtras :: "Notification \<Rightarrow> (string \<times> string) list" where
  "extractExtras notif =
     fold (\<lambda>(k, v) m. case extra v of Some str \<Rightarrow> AList.update k str m | None \<Rightarrow> m) (n_Payload notif)
       [(''notification_type'', n_Type notif), (''service'', takeWhile (\<lambda>c. c \<noteq> CHR ''.'') (n_Type notif))]"

definition handlePushNotification :: "jpush_client \<Rightarrow> Notification \<Rightarrow> (push_db, unit) M" where
  "handlePushNotification c notif = (case buildPushContent notif of
       None \<Rightarrow> returnE ()
     | Some (pushType, title) \<Rightarrow>
         if n_ToUserID notif = '''' then returnE ()
         else ignoreE (void (SendPush c [n_ToUserID notif] title (extractContent notif) pushType (extractExtras notif))))"

subsection \<open>Listener (\<open>internal/service/listener.go\<close>) and handler (\<open>internal/handler/push_handler.go\<close>)\<close>

abbreviation (input) notificationTopic :: string where "notificationTopic \<equiv> ''notification.*.*.*''"

text \<open>What the listener does with a published notification; \<open>matches\<close> is the matching of NATS subjects.\<close>

definition onPublished :: "(string \<Rightarrow> string \<Rightarrow> bool) \<Rightarrow> jpush_client \<Rightarrow> string \<Rightarrow> Notification \<Rightarrow> (push_db, unit) M" where
  "onPublished matches c subject notif =
     (if matches notificationTopic subject then handlePushNotification c notif else returnE ())"

record SendPushRequest =
  rq_UserIds :: "string list"
  rq_Title :: string
  rq_Content :: string
  rq_PushType :: int
  rq_Extras :: "(string \<times> string) list"

definition PushHandler_SendPush :: "jpush_client \<Rightarrow> SendPushRequest \<Rightarrow> (push_db, int \<times> int \<times> string) M" where
  "PushHandler_SendPush c req =
     (if rq_UserIds req = [] then badRequestE ''user_ids is required''
      else if rq_Title req = '''' then badRequestE ''title is required''
      else bindE (catchE (SendPush c (rq_UserIds req) (rq_Title req) (rq_Content req) (int16 (rq_PushType req)) (rq_Extras req))
          (\<lambda>e. throwE (case InternalErr e of Some x \<Rightarrow> x | None \<Rightarrow> e))) (\<lambda>(successCount, failureCount, msgID).
        returnE (int32 successCount, int32 failureCount, msgID)))"

end
