(* ===== verification/Push.thy ===== *)
theory Push
  imports Push_Model Triples "HOL-Library.Multiset"
begin

text \<open>
  Correctness of the push service: whom a push is sent to, what is sent and what the log says of it, under
  every schedule of faults and every answer of JPush.
\<close>

subsection \<open>The tokens of users\<close>

definition tokens_of :: "string set \<Rightarrow> push_db \<Rightarrow> string list" where
  "tokens_of us d = filter (\<lambda>t. t \<noteq> '''') (map pt_PushToken (filter (\<lambda>p. pt_UserID p \<in> us) (pd_tokens d)))"

lemma mset_grouped:
  "mset (concat (map snd (AList.update k ((case map_of m k of Some rs \<Rightarrow> rs | None \<Rightarrow> []) @ [r]) m))) =
   mset (concat (map snd m)) + {#r#}"
  by (induction m) auto

lemma mset_by_user: "mset (concat (map snd (by_user rows))) = mset rows"
proof (induction rows rule: rev_induct)
  case (snoc r rows)
  then show ?case using mset_grouped[of "tr_UserID r" "by_user rows" r] by (simp add: by_user_def)
qed (simp add: by_user_def)

lemma by_user_single: "\<forall>r \<in> set rows. tr_UserID r = u \<Longrightarrow> by_user rows = (if rows = [] then [] else [(u, rows)])"
  by (induction rows rule: rev_induct) (auto simp: by_user_def)

lemma mset_reg_ids: "mset (reg_ids (by_user (map token_row (filter (\<lambda>p. pt_UserID p \<in> us) (pd_tokens d))))) = mset (tokens_of us d)"
proof -
  let ?rows = "map token_row (filter (\<lambda>p. pt_UserID p \<in> us) (pd_tokens d))"
  have "mset (reg_ids (by_user ?rows)) = filter_mset (\<lambda>t. t \<noteq> '''') (image_mset tr_Token (mset (concat (map snd (by_user ?rows)))))"
    by (simp only: reg_ids_def mset_filter mset_map)
  also have "\<dots> = filter_mset (\<lambda>t. t \<noteq> '''') (image_mset tr_Token (mset ?rows))" by (simp only: mset_by_user)
  also have "\<dots> = mset (filter (\<lambda>t. t \<noteq> '''') (map tr_Token ?rows))" by (simp only: mset_filter mset_map)
  finally show ?thesis by (simp add: tokens_of_def token_row_def comp_def)
qed

lemma reg_ids_single: "reg_ids (by_user (map token_row (filter (\<lambda>p. pt_UserID p \<in> {u}) (pd_tokens d)))) = tokens_of {u} d"
  by (subst by_user_single[where u = u]) (auto simp: reg_ids_def tokens_of_def token_row_def comp_def filter_empty_conv)

subsection \<open>One push\<close>

text \<open>The log entry of a push to \<open>n\<close> devices, as the answer of JPush has it.\<close>

definition honest_log :: "string \<Rightarrow> int \<Rightarrow> string \<Rightarrow> string \<Rightarrow> int \<Rightarrow> err + PushResult \<Rightarrow> PushLog \<Rightarrow> bool" where
  "honest_log u ty title content n r l =
     (pl_UserID l = u \<and> pl_PushType l = ty \<and> pl_Title l = title \<and> pl_Content l = content \<and> pl_TargetCount l = n \<and>
      (case r of
         Inl e \<Rightarrow> pl_Status l = PushStatusFailed \<and> pl_SuccessCount l = 0 \<and> pl_FailureCount l = n \<and> pl_ErrorMsg l = err_string (remote_err e)
       | Inr p \<Rightarrow> pl_Status l = PushStatusSent \<and> pl_SuccessCount l = n \<and> pl_FailureCount l = 0 \<and> pl_JPushMsgID l = ps_MsgID p))"

text \<open>The table after one attempt to write that entry.\<close>

definition logged :: "(PushLog \<Rightarrow> bool) \<Rightarrow> push_db \<Rightarrow> push_db \<Rightarrow> bool" where
  "logged p d d' = (d' = d \<or> (\<exists>l. p l \<and> insert_log l d = Inr ((), d')))"

lemma logged_same [simp]: "logged p d d"
  by (simp add: logged_def)

lemma logged_insert: "insert_log l d = Inr ((), d') \<Longrightarrow> p l \<Longrightarrow> logged p d d'"
  by (auto simp: logged_def)

lemma logged_tokens: "logged p d d' \<Longrightarrow> pd_tokens d' = pd_tokens d"
  by (auto simp: logged_def insert_log_def split: if_splits)

lemma catchE_Inl: "m w = (Inl e, w1) \<Longrightarrow> (\<And>s. e \<noteq> Panicked s) \<Longrightarrow> catchE m h w = h e w1"
  by (auto simp: catchE_def split: err.split)

lemma insert_log_no_panic [simp]: "insert_log l d \<noteq> Inl (Panicked s)"
  by (simp add: insert_log_def)

lemma logPush_run:
  assumes "\<And>i t. p \<lparr>pl_ID = i, pl_UserID = u, pl_PushType = ty, pl_Title = title, pl_Content = content, pl_TargetCount = n,
      pl_SuccessCount = sc, pl_FailureCount = fc, pl_JPushMsgID = mid, pl_Status = or_default 1 st, pl_ErrorMsg = em, pl_CreatedAt = t\<rparr>"
  shows "\<exists>w'. logPush u ty title content n sc fc mid st em w = (Inr (), w') \<and> logged p (db w) (db w') \<and> outbox w' = outbox w"
proof -
  have "wp (logPush u ty title content n sc fc mid st em) (\<lambda>_ w'. logged p (db w) (db w') \<and> outbox w' = outbox w) (\<lambda>_ _. False) w"
    unfolding logPush_def pushLogRepo_Create_def ignoreE_def
    using assms by (auto simp: wp_simps intro: logged_insert split: option.split sum.split prod.split err.split)
  then show ?thesis by (auto simp: wp_def split: prod.splits sum.splits)
qed

text \<open>All there is to say about one push: the tables could not be read and nothing happened, nobody has a
  token and nothing happened, or one request went out to every token and was answered and logged.\<close>

lemma SendPush_run:
  assumes "us \<noteq> []" "SendPush c us title content ty extras w = (r, w')"
  shows "(\<exists>e. r = Inl e \<and> (\<forall>s. e \<noteq> Panicked s) \<and> db w' = db w \<and> outbox w' = outbox w \<and> \<not> healthy w) \<or>
    (let regs = reg_ids (by_user (map token_row (filter (\<lambda>p. pt_UserID p \<in> set us) (pd_tokens (db w)))));
         n = int (length regs); answer = doRequest c (newPushRequest c regs title content extras) (Suc (tick w)) in
     (if regs = [] then r = Inr (0, 0, '''') \<and> db w' = db w \<and> outbox w' = outbox w
      else outbox w' = outbox w @ [Called ''jpush'' (title # content # regs)] \<and>
        logged (honest_log (hd us) ty title content n answer) (db w) (db w') \<and>
        r = (case answer of Inl e \<Rightarrow> Inl (remote_err e) | Inr p \<Rightarrow> Inr (n, 0, ps_MsgID p))))"
proof -
  let ?regs = "reg_ids (by_user (map token_row (filter (\<lambda>p. pt_UserID p \<in> set us) (pd_tokens (db w)))))"
  have query: "GetTokensByUserIDs us w = (case fault w (tick w) of Some s \<Rightarrow> (Inl (InfraError s), bump w)
      | None \<Rightarrow> (Inr (by_user (map token_row (filter (\<lambda>p. pt_UserID p \<in> set us) (pd_tokens (db w))))), bump w))"
    using assms(1) by (simp add: GetTokensByUserIDs_def query_def infra_def monad_defs split: option.split)
  show ?thesis
  proof (cases "fault w (tick w)")
    case (Some s)
    then have "r = Inl (InfraError s) \<and> w' = bump w" using assms query by (simp add: SendPush_def bindE_def)
    moreover have "\<not> healthy w" using Some by (auto simp: healthy_def)
    ultimately show ?thesis by simp
  next
    case None
    show ?thesis
    proof (cases "?regs = []")
      case True
      then show ?thesis using assms query None by (auto simp: SendPush_def bindE_def returnE_def Let_def)
    next
      case False
      let ?n = "int (length ?regs)"
      let ?w = "bump ((bump w)\<lparr>outbox := outbox w @ [Called ''jpush'' (title # content # ?regs)]\<rparr>)"
      let ?answer = "doRequest c (newPushRequest c ?regs title content extras) (Suc (tick w))"
      have push: "PushToRegistrationIDs c ?regs title content extras (bump w) = (case ?answer of
          Inl e \<Rightarrow> (Inl (remote_err e), ?w) | Inr p \<Rightarrow> (Inr (p\<lparr>ps_SuccessCount := ?n\<rparr>), ?w))"
        using False by (simp add: PushToRegistrationIDs_def emit_def rpc_def monad_defs bump_def split: sum.split)
      show ?thesis
      proof (cases ?answer)
        case (Inl e)
        obtain w2 where log: "logPush (hd us) ty title content ?n 0 ?n '''' PushStatusFailed (err_string (remote_err e)) ?w = (Inr (), w2)"
            "logged (honest_log (hd us) ty title content ?n ?answer) (db ?w) (db w2)" "outbox w2 = outbox ?w"
          using logPush_run[of "honest_log (hd us) ty title content ?n ?answer" "hd us" ty title content ?n 0 ?n "''''" PushStatusFailed
              "err_string (remote_err e)" ?w] Inl by (auto simp: honest_log_def)
        have "SendPush c us title content ty extras w = (Inl (remote_err e), w2)"
          using assms(1) False query None push Inl log(1)
          by (simp add: SendPush_def bindE_def catchE_Inl thenE_def throwE_def Let_def)
        then show ?thesis using assms(2) False Inl log by (simp add: Let_def)
      next
        case (Inr p)
        obtain w2 where log: "logPush (hd us) ty title content ?n ?n 0 (ps_MsgID p) PushStatusSent '''' ?w = (Inr (), w2)"
            "logged (honest_log (hd us) ty title content ?n ?answer) (db ?w) (db w2)" "outbox w2 = outbox ?w"
          using logPush_run[of "honest_log (hd us) ty title content ?n ?answer" "hd us" ty title content ?n ?n 0 "ps_MsgID p" PushStatusSent
              "''''" ?w] Inr by (auto simp: honest_log_def)
        have "SendPush c us title content ty extras w = (Inr (?n, 0, ps_MsgID p), w2)"
          using assms(1) False query None push Inr log(1)
          by (simp add: SendPush_def bindE_def catchE_def thenE_def returnE_def Let_def)
        then show ?thesis using assms(2) False Inr log by (simp add: Let_def)
      qed
    qed
  qed
qed

end
