(* ===== verification/Push_Properties.thy ===== *)
theory Push_Properties
  imports Push Message_Send
begin

text \<open>
  Properties of the push service: who is pushed for a notification and with what, what the log says, how
  numbers arrive, and the way of a message from its sender to the telephones of the other user.
\<close>

subsection \<open>Texts and numbers\<close>

lemma shorten_bounded: "rune_count (shorten str) \<le> 83"
proof (cases "rune_count str > 80")
  case True
  have "runes ''...'' = [''.'', ''.'', ''.'']" by code_simp
  moreover have "runes (concat (take 80 (runes str)) @ ''...'') = runes (concat (take 80 (runes str))) @ runes ''...''"
    by (rule runes_append_ascii) code_simp
  ultimately show ?thesis using True by (simp add: shorten_def rune_count_def runes_concat_take)
qed (simp add: shorten_def)

lemma extractFrom_bounded: "rune_count (extractFrom ks p) \<le> 83"
  by (induction ks) (auto simp: rune_count_def shorten_bounded[unfolded rune_count_def] split: option.split jval.split)

lemma length_digits: "length (digits n) \<le> Suc k \<longleftrightarrow> n < 10 ^ Suc k"
proof (induction n arbitrary: k rule: digits.induct)
  case (1 n)
  show ?case
  proof (cases "n < 10")
    case True
    moreover have "(10::nat) \<le> 10 ^ Suc k" by simp
    ultimately show ?thesis by (subst digits.simps) (simp del: power_Suc)
  next
    case False
    then have step: "digits n = digits (n div 10) @ [char_of (48 + n mod 10)]" by (subst digits.simps) simp
    show ?thesis
    proof (cases k)
      case 0
      then show ?thesis using False by (simp add: step)
    next
      case (Suc j)
      then show ?thesis using 1[OF False, of j] by (simp add: step) (simp add: less_mult_imp_div_less div_less_iff_less_mult mult.commute)
    qed
  qed
qed

lemma digits_no_e: "CHR ''e'' \<notin> set (digits n)"
proof (induction n rule: digits.induct)
  case (1 n)
  have "CHR ''e'' \<noteq> char_of (48 + k)" if "k < 10" for k :: nat
  proof
    assume "CHR ''e'' = char_of (48 + k)"
    then have "of_char (char_of (48 + k) :: char) = (of_char CHR ''e'' :: nat)" by simp
    then show False using that by simp
  qed
  then show ?case using 1 by (subst digits.simps) auto
qed

lemma unsigned_v_exact: "n < 1000000 \<Longrightarrow> unsigned_v (digits n) = digits n"
  using length_digits[of n 5] by (simp add: unsigned_v_def)

lemma unsigned_v_exponent: "1000000 \<le> n \<Longrightarrow> CHR ''e'' \<in> set (unsigned_v (digits n))"
  using length_digits[of n 5] by (simp add: unsigned_v_def exponent_form_def Let_def)

text \<open>A number of a notification (a sequence number, a time, a type) reaches the telephone as it was
  written exactly if it has at most six digits; a larger one arrives in scientific notation.\<close>

theorem pushed_numbers:
  "\<exists>s. extra (JInt i) = Some s \<and> (if \<bar>i\<bar> < 1000000 then s = itoa i else CHR ''e'' \<in> set s \<and> s \<noteq> itoa i)"
proof (cases "\<bar>i\<bar> < 1000000")
  case True
  then have "nat i < 1000000" "nat (- i) < 1000000" by linarith+
  then show ?thesis using True by (simp add: float_v_def itoa_def unsigned_v_exact)
next
  case False
  have "CHR ''e'' \<notin> set (itoa i)" by (simp add: itoa_def digits_no_e)
  moreover have "CHR ''e'' \<in> set (float_v i)"
  proof (cases "i < 0")
    case True
    then have "1000000 \<le> nat (- i)" using False by linarith
    then show ?thesis using True by (simp add: float_v_def unsigned_v_exponent)
  next
    case nonneg: False
    then have "1000000 \<le> nat i" using False by linarith
    then show ?thesis using nonneg by (simp add: float_v_def unsigned_v_exponent)
  qed
  ultimately show ?thesis using False by auto
qed

subsection \<open>Whom a notification is pushed to\<close>

lemma push_audience_run:
  assumes "handlePushNotification c n w = (r, w')"
  shows "r = Inr () \<and> pd_tokens (db w') = pd_tokens (db w) \<and> rune_count (extractContent n) \<le> 83 \<and>
    (let regs = tokens_of {n_ToUserID n} (db w) in
      db w' = db w \<and> outbox w' = outbox w \<and> \<not> (healthy w \<and> buildPushContent n \<noteq> None \<and> n_ToUserID n \<noteq> '''' \<and> regs \<noteq> []) \<or>
      (\<exists>ty title p. buildPushContent n = Some (ty, title) \<and> n_ToUserID n \<noteq> '''' \<and> regs \<noteq> [] \<and>
        outbox w' = outbox w @ [Called ''jpush'' (title # extractContent n # regs)] \<and>
        logged (honest_log (n_ToUserID n) ty title (extractContent n) (int (length regs)) p) (db w) (db w')))"
proof -
  have body: "rune_count (extractContent n) \<le> 83" unfolding extractContent_def by (rule extractFrom_bounded)
  show ?thesis
  proof (cases "buildPushContent n = None \<or> n_ToUserID n = ''''")
    case True
    then show ?thesis using assms body by (auto simp: handlePushNotification_def returnE_def Let_def split: option.splits prod.splits)
  next
    case False
    then obtain ty title where kind: "buildPushContent n = Some (ty, title)" by auto
    let ?send = "SendPush c [n_ToUserID n] title (extractContent n) ty (extractExtras n)"
    obtain r1 w1 where send: "?send w = (r1, w1)" by fastforce
    note run = SendPush_run[OF _ send, simplified Let_def list.set reg_ids_single, simplified]
    then have "r1 \<noteq> Inl (Panicked s)" for s
      by (auto simp: remote_err_no_panic[THEN not_sym] split: sum.splits if_splits)
    then have "r = Inr () \<and> w' = w1"
      using assms False kind send by (auto simp: handlePushNotification_def void_def ignoreE_def catchE_def thenE_def bindE_def returnE_def
          split: sum.splits err.splits)
    then show ?thesis using run kind False body by (auto simp: Let_def dest: logged_tokens split: if_splits)
  qed
qed

text \<open>C35: whatever fails, a notification leads to one request at most: to exactly the tokens of the user it
  is for, with the title of its kind and a body of at most 83 characters, and to one log entry at most; in a
  healthy world the request is made whenever the kind is one that is pushed and the user has a token.\<close>

theorem push_audience_exact:
  assumes "handlePushNotification c n w = (r, w')"
  shows "r = Inr () \<and> pd_tokens (db w') = pd_tokens (db w) \<and> rune_count (extractContent n) \<le> 83 \<and>
    (let regs = tokens_of {n_ToUserID n} (db w) in
      db w' = db w \<and> outbox w' = outbox w \<and> \<not> (healthy w \<and> buildPushContent n \<noteq> None \<and> n_ToUserID n \<noteq> '''' \<and> regs \<noteq> []) \<or>
      (\<exists>ty title p. buildPushContent n = Some (ty, title) \<and> n_ToUserID n \<noteq> '''' \<and> regs \<noteq> [] \<and>
        outbox w' = outbox w @ [Called ''jpush'' (title # extractContent n # regs)] \<and>
        logged (honest_log (n_ToUserID n) ty title (extractContent n) (int (length regs)) p) (db w) (db w')))"
  by (rule push_audience_run[OF assms])

subsection \<open>The log\<close>

text \<open>The operations: a call of \<open>SendPush\<close>, a published notification, and a change of the tokens by the
  user service, which owns their table.\<close>

datatype push_op = OpSendPush SendPushRequest | OpPublished string Notification | OpTokens "UserPushToken list"

fun push_step :: "(string \<Rightarrow> string \<Rightarrow> bool) \<Rightarrow> jpush_client \<Rightarrow> push_op \<Rightarrow> (push_db, unit) M" where
  "push_step matches c (OpSendPush req) = void (PushHandler_SendPush c req)"
| "push_step matches c (OpPublished subject n) = onPublished matches c subject n"
| "push_step matches c (OpTokens ts) = modify (\<lambda>d. d\<lparr>pd_tokens := ts\<rparr>)"

definition log_ok :: "PushLog \<Rightarrow> bool" where
  "log_ok l = (log_fits l \<and> 0 < pl_TargetCount l \<and>
     (pl_Status l = PushStatusSent \<and> pl_SuccessCount l = pl_TargetCount l \<and> pl_FailureCount l = 0 \<or>
      pl_Status l = PushStatusFailed \<and> pl_SuccessCount l = 0 \<and> pl_FailureCount l = pl_TargetCount l))"

definition push_inv :: "push_db \<Rightarrow> bool" where
  "push_inv d = (uniq pl_ID (push_logs d) \<and> (\<forall>l \<in> set (push_logs d). log_ok l))"

definition empty_push_db :: push_db where
  "empty_push_db = \<lparr>pd_tokens = [], push_logs = []\<rparr>"

lemma logged_inv: "logged (honest_log u ty title content n a) d d' \<Longrightarrow> 0 < n \<Longrightarrow> push_inv d \<Longrightarrow> push_inv d'"
  by (auto simp: logged_def insert_log_def push_inv_def log_ok_def honest_log_def has_key_iff intro!: uniq_snoc split: if_splits sum.splits)

lemma keeps_SendPush [keeps_intros]: "keeps push_inv (SendPush c us title content ty extras)"
proof (cases "us = []")
  case True
  then show ?thesis by (simp add: SendPush_def keeps_intros)
next
  case False
  have "push_inv (db (snd (SendPush c us title content ty extras w)))" if "push_inv (db w)" for w
  proof -
    obtain r w' where run: "SendPush c us title content ty extras w = (r, w')" by fastforce
    from SendPush_run[OF False run] show ?thesis
      using that run logged_inv[of "hd us" ty title content] by (auto simp: Let_def split: if_splits)
  qed
  then show ?thesis by (simp add: keeps_def)
qed

lemma push_step_keeps: "keeps push_inv (push_step matches c op)"
proof (cases op)
  case (OpSendPush req)
  then show ?thesis by (auto simp: PushHandler_SendPush_def badRequestE_eq intro!: keeps_intros)
next
  case (OpPublished subject n)
  then show ?thesis by (auto simp: onPublished_def handlePushNotification_def intro!: keeps_intros split: option.split)
next
  case (OpTokens ts)
  then show ?thesis by (auto simp: push_inv_def intro!: keeps_modify)
qed

interpretation push_service: service "push_step matches c" any_op push_inv empty_push_db for matches c
  by unfold_locales (simp add: push_inv_def empty_push_db_def, rule push_step_keeps)

text \<open>The log is well formed in every reachable state: every entry has an identifier of its own, is
  about a push that went to somebody, and says that it succeeded for all of them or for none.\<close>

theorem push_log_honest:
  assumes "reachable (push_step matches c) any_op empty_push_db d"
  shows "uniq pl_ID (push_logs d) \<and> (\<forall>l \<in> set (push_logs d). log_ok l)"
  using push_service.reachable_inv[OF assms] by (simp add: push_inv_def)

text \<open>A push whose body is longer than the column of the log is sent and leaves no trace, although the
  handler accepts it and answers with success.\<close>

theorem long_push_unlogged:
  assumes "healthy w" "us \<noteq> []" "rune_count content > 1000" "tokens_of (set us) (db w) \<noteq> []"
    and "SendPush c us title content ty extras w = (r, w')"
  shows "db w' = db w \<and> (\<exists>regs. mset regs = mset (tokens_of (set us) (db w)) \<and> outbox w' = outbox w @ [Called ''jpush'' (title # content # regs)])"
proof -
  let ?regs = "reg_ids (by_user (map token_row (filter (\<lambda>p. pt_UserID p \<in> set us) (pd_tokens (db w)))))"
  have regs: "mset ?regs = mset (tokens_of (set us) (db w))" by (rule mset_reg_ids)
  then have "?regs \<noteq> []" using assms(4) by auto
  then have "outbox w' = outbox w @ [Called ''jpush'' (title # content # ?regs)]"
    "\<exists>n a. logged (honest_log (hd us) ty title content n a) (db w) (db w')"
    using SendPush_run[OF assms(2,5)] assms(1) by (auto simp: Let_def)
  moreover from this(2) have "db w' = db w"
    using assms(3) by (auto simp: logged_def insert_log_def honest_log_def log_fits_def split: if_splits)
  ultimately show ?thesis using regs by blast
qed

subsection \<open>From the sender to the telephone\<close>

lemma announce_content:
  assumes "m_ConversationType m = ConversationTypeSingle" "m_TargetID m \<noteq> ''''" "sm_AtUsers req = []" "ms_broker s" "healthy w"
  shows "\<exists>w' n. announce s req m True w = (Inr (), w') \<and> outbox w' = outbox w @ [Published (BuildUserNotificationTopic TypeMessageNew (m_TargetID m)) n] \<and>
    n_Type n = TypeMessageNew \<and> n_ToUserID n = m_TargetID m \<and>
    map_of (n_Payload n) ''content'' = Some (JStr (getContentPreview s (m_Content m) (m_ContentType m)))"
  using assms
  by (auto simp: announce_def publishNewMessageNotification_def brokerE_def ignoreE_def NewNotification_def WithPayload_def
      run_PublishToUser catchE_def bindE_def thenE_def returnE_def new_uuid_def Let_def stamped_def)


subsection \<open>Two telephones\<close>

definition phone :: "int \<Rightarrow> string \<Rightarrow> string \<Rightarrow> UserPushToken" where
  "phone i u t = \<lparr>pt_ID = i, pt_UserID = u, pt_DeviceID = t, pt_PushToken = t, pt_Platform = 1, pt_CreatedAt = 0, pt_UpdatedAt = 0\<rparr>"

definition phones :: "UserPushToken list" where
  "phones = [phone 1 ''bob'' ''b1'', phone 2 ''ann'' ''a1'', phone 3 ''bob'' '''', phone 4 ''bob'' ''b2'']"

text \<open>A JPush that takes every request.\<close>

definition example_jpush :: jpush_client where
  "example_jpush = NewClient ''prod'' ''key'' ''secret'' (\<lambda>_ _ _. Inr \<lparr>hp_StatusCode = 200, hp_Body = Inr '''',
     hp_Decoded = Inr \<lparr>pp_MsgID = ''m1'', pp_SendNo = ''1'', pp_Error = None\<rparr>\<rparr>)"

definition phone_world :: "push_db world" where
  "phone_world = run_ops (push_step (\<lambda>_ _. True) example_jpush)
     [OpTokens phones, OpSendPush \<lparr>rq_UserIds = [''bob''], rq_Title = ''hi'', rq_Content = ''there'', rq_PushType = 1, rq_Extras = []\<rparr>]
     (init_world empty_push_db)"

lemma basic_auth: "jp_auth example_jpush = ''a2V5OnNlY3JldA==''"
  by code_simp

lemma phone_reachable: "reachable (push_step (\<lambda>_ _. True) example_jpush) any_op empty_push_db (db phone_world)"
  unfolding phone_world_def by (rule run_ops_reachable) (simp_all add: reachable.reach_init any_op_def)

lemma phone_state: "pd_tokens (db phone_world) = phones" "map pl_SuccessCount (push_logs (db phone_world)) = [2]"
  by code_simp+

lemma bob_tokens: "tokens_of {''bob''} \<lparr>pd_tokens = phones, push_logs = ls\<rparr> = [''b1'', ''b2'']"
  by (simp add: tokens_of_def phones_def phone_def)

definition friend_request :: Notification where
  "friend_request = \<lparr>n_ID = ''1'', n_Type = TypeFriendRequest, n_Timestamp = 5, n_FromUserID = ''ann'', n_ToUserID = ''bob'',
     n_Priority = PriorityNormal, n_Payload = [(''request_id'', JInt 12345678), (''text'', JStr ''hello'')], n_Metadata = []\<rparr>"

theorem push_audience_exact_witness:
  "\<exists>w'. handlePushNotification example_jpush friend_request (init_world \<lparr>pd_tokens = phones, push_logs = []\<rparr>) = (Inr (), w') \<and>
     outbox w' = [Called ''jpush'' [''Friend Request'', ''hello'', ''b1'', ''b2'']]"
proof -
  let ?w = "init_world \<lparr>pd_tokens = phones, push_logs = []\<rparr>"
  obtain r w' where run: "handlePushNotification example_jpush friend_request ?w = (r, w')" by fastforce
  have "buildPushContent friend_request = Some (3, ''Friend Request'')" "n_ToUserID friend_request = ''bob''"
    by (simp_all add: friend_request_def buildPushContent_def notificationPushTypeMap_def pushTypeTitle_def)
  moreover have "extractContent friend_request = ''hello''" by code_simp
  moreover have "outbox ?w = []" by (simp add: init_world_def)
  ultimately show ?thesis using push_audience_exact[OF run] run bob_tokens[of "[]"] by (auto simp: Let_def)
qed

theorem push_log_honest_witness: "pl_FailureCount (hd (push_logs (db phone_world))) = 0 \<or> pl_SuccessCount (hd (push_logs (db phone_world))) = 0"
  using push_log_honest[OF phone_reachable] phone_state(2) by (cases "push_logs (db phone_world)") (auto simp: log_ok_def)

definition long_body :: string where
  "long_body = replicate 1001 (CHR ''x'')"

lemma long_body: "rune_count long_body > 1000"
proof -
  have "list_all (\<lambda>c. \<not> is_cont c) (replicate n (CHR ''x''))" for n by (induction n) (simp_all add: is_cont_def)
  then have "length (runes (replicate n (CHR ''x''))) = n" for n by (simp add: runes_ascii)
  then show ?thesis by (simp only: rune_count_def long_body_def)
qed

theorem long_push_unlogged_witness:
  "push_logs (db (snd (SendPush example_jpush [''bob''] ''hi'' long_body 0 [] (init_world \<lparr>pd_tokens = phones, push_logs = []\<rparr>)))) = []"
proof -
  let ?w = "init_world \<lparr>pd_tokens = phones, push_logs = []\<rparr>"
  have "tokens_of (set [''bob'']) (db ?w) \<noteq> []" by (simp add: bob_tokens)
  from long_push_unlogged[OF healthy_init _ long_body this, of example_jpush "''hi''" 0 "[]"] show ?thesis
    by (metis db_init not_Cons_self2 prod.collapse push_db.select_convs(2))
qed


end
