(* ===== verification/Spec2Isabelle.thy ===== *)
theory Spec2Isabelle
  imports Composition Message_Properties Message_Window Message_Handler User_Examples Rtc_Properties Realtime_Properties Gateway
    File_Properties Push_Properties
begin

text \<open>
  The services of the anchat server: a chat program made of Go services (friend, group, message,
  conversation, user, file, push and rtc services, each over its own tables in PostgreSQL), a WebSocket
  gateway for what is delivered at once, an HTTP gateway in front of the services and NATS between them.
  Users add and block each other, form groups, send messages that are numbered within their conversation,
  are told of them over NATS, call each other and store files.

  \<^bold>\<open>How the program is modelled.\<close>  A service is its tables (a record of lists of rows, in the order of
  insertion), its repositories (the SQL statements gorm issues, as functions on the tables), its methods and
  its gRPC handlers.  They are written in the monad of \<open>World\<close>: a world holds the tables, the sequences of
  the serial columns, an outbox (what was published, which calls with an effect were made) and a logical time
  at which the clock, the generator of UUIDs, the answers of other services and a schedule of
  infrastructure faults are read.  Every statement, publication and transaction boundary may fail, so a
  theorem about all worlds is a theorem about all clocks and all failures.  An error is a value of \<open>err\<close>
  (\<open>pkg/errors\<close>), a panic is one of them that no error handler sees.  A transaction restores the tables
  when its body fails, panics or cannot be committed.  Each service has a step relation: one operation of
  its datatype of operations, run on a world; \<open>reachable\<close> are the tables that any sequence of operations
  in any worlds leads to.  Operations of one service do not interleave, except in the WebSocket gateway,
  where the goroutines of every connection are atomic steps that run in any order.

  \<^bold>\<open>Theories.\<close>
  \<^item> \<open>Prelude\<close>: integer conversions, decimal numbers, UTF-8 runes and the relational operations on tables;
    the locale \<open>keyed_table\<close> of a unique key.  \<open>Errors\<close>: \<open>pkg/errors\<close>.  \<open>World\<close>: worlds, the monad,
    weakest preconditions (\<open>wp\<close>), preservation (\<open>keeps\<close>), computations without visible effect (\<open>quiet\<close>,
    \<open>benign\<close>, \<open>silent\<close>), and the locale \<open>service\<close>: an invariant that holds at first and is kept by every
    operation holds in every reachable state.  \<open>Triples\<close>: \<open>ensures P J m\<close> and \<open>attains\<close>, triples on the
    tables; with a fixed first state they describe the possible changes of one operation.
  \<^item> \<open>Broker\<close>, \<open>Metadata\<close>, \<open>Cache\<close>, \<open>Credentials\<close>: \<open>pkg/broker\<close>, \<open>pkg/md\<close> with the conversion of errors
    in a handler, \<open>pkg/cache\<close> (with the locale \<open>redis\<close> of the laws its clients rely on), \<open>pkg/validator\<close>,
    \<open>pkg/crypto\<close> and \<open>pkg/auth\<close>.
  \<^item> \<open>Friend_Model\<close>, \<open>Friend\<close>: \<open>app/friend\<close>.  Friendship is symmetric, processed requests stay as they
    are, blocking is atomic.
  \<^item> \<open>Group_Model\<close>, \<open>Group_Service\<close>, \<open>Group_Handler\<close>: \<open>app/group\<close>.  \<open>Group\<close> ties the stored number of
    members to the member rows, \<open>Group_Owner\<close> shows that an active group has its owner and at most twenty
    pins, \<open>Group_Properties\<close> says what removal, transfer, muting, joining and QR codes do on every branch.
  \<^item> \<open>Message_Model\<close>, \<open>Message_Service\<close>, \<open>Message_Handler\<close>: \<open>app/message\<close> with the auto-delete worker.
    \<open>Message\<close> and \<open>Message_Send\<close> show that messages are numbered without gaps, that a message is sent once
    per idempotency key and a retry answers with it, and who may send; \<open>Message_Properties\<close> follows a message
    to its deletion; \<open>Message_Window\<close> reads around an anchor.
  \<^item> \<open>Conversation_Model\<close>, \<open>Conversation_Service\<close>: \<open>app/conversation\<close>; the table refines an abstract
    inbox, a map from user, type and target to a conversation.
  \<^item> \<open>Composition\<close>: the message service with the handlers of the conversation, friend and group service as
    its clients (the locale \<open>sender_access\<close>, interpreted with the three models).
  \<^item> \<open>User_Model\<close>, \<open>Verification\<close>, \<open>User_Service\<close>, \<open>User_Handler\<close>: \<open>app/user\<close> with the verification
    manager.  \<open>User\<close> is the invariant of the accounts; \<open>Verification_Codes\<close>, \<open>User_Properties\<close> and
    \<open>User_Login\<close> are about codes, contact changes, passwords and logins, \<open>User_Examples\<close> their witnesses.
  \<^item> \<open>Rtc_Model\<close>, \<open>Rtc_Service\<close>, \<open>Rtc\<close>, \<open>Rtc_Properties\<close>: \<open>app/rtc\<close>.  A call is a state machine
    (\<open>call_move\<close>, a relation by who may move it) that every operation follows.
  \<^item> \<open>Realtime_Model\<close>, \<open>Realtime\<close>, \<open>Realtime_Properties\<close>: \<open>app/realtime\<close>.  The registry of connections
    is exact under every interleaving, subscriptions survive in calm interleavings and can be lost in the
    others, a notification is queued once for every connection of its user.
  \<^item> \<open>Gateway_Model\<close>, \<open>Gateway\<close>: the middleware of \<open>app/gateway\<close> and \<open>pkg/grpc/errorcode.go\<close>: who the
    operator of an HTTP request is, and what becomes of an error on its way out.
  \<^item> \<open>File_Model\<close>, \<open>File_Service\<close>, \<open>File_Life\<close>, \<open>File_Properties\<close>: \<open>app/file\<close> and \<open>pkg/oss\<close>.  A file
    moves from upload to active to deleted, each time by its own user; its object is confined to the
    directory of the user.
  \<^item> \<open>Push_Model\<close>, \<open>Push\<close>, \<open>Push_Properties\<close>: \<open>app/push\<close> and \<open>pkg/jpush\<close>: exactly the tokens of the user
    of a notification are pushed to, the log tells what was answered, and a message reaches the telephones
    of the other user.

  \<^bold>\<open>Names.\<close>  A method \<open>repo.Op\<close> of a repository is \<open>fooRepo_Op\<close>, a handler method \<open>FooHandler_Op\<close>, a
  service method has its own name; a field \<open>F\<close> of a Go struct is \<open>x_F\<close> with a short prefix for the struct.

  \<^bold>\<open>Parameters.\<close>  Code outside the repository is an argument: the answers of another service and of
  LiveKit, MinIO and JPush (functions of the logical time of the call), bcrypt, the JWT and telephone
  libraries, the random source, the JWT middleware and rate limiter of the framework, the operator \<open>ILIKE\<close>
  and the matching of NATS subjects.  Where a theorem relies on one of them, a hypothesis states its
  documented behaviour, and a witness shows it at a concrete function.

  \<^bold>\<open>Bounds.\<close>  Integers of Go are mathematical integers with the conversions \<open>int16\<close>, \<open>int32\<close>, \<open>int64\<close>
  written out where a value is converted or a product of durations can overflow.  Two loops have fuel.  The
  worker's \<open>cleanup\<close> needs one round more than there are expired messages (\<open>cleanup_terminates\<close>).  The
  pages of group members are bounded by \<open>ms_pages\<close>: \<open>n\<close> pages are enough for \<open>100 * n\<close> members, and any
  larger bound gives the same answer (\<open>memberPages_enough\<close>, \<open>enough_pages_return\<close>).

  \<^bold>\<open>Not modelled.\<close>
  \<^item> Concurrency inside a service: handlers of one service run one after the other.  In the WebSocket gateway
    the steps interleave, but the snapshot \<open>SendToUser\<close> takes and its sends are one step.  The goroutine that
    deletes the room of a call runs where it is started.
  \<^item> The database beyond its statements: ties of an ordering are resolved by the order of the rows, texts are
    compared as lists of characters, the length of a column is a constraint only in the push log (elsewhere a
    refused text is one of the faults), a violated foreign key is a plain error, and a statement after a
    failed one in a transaction may succeed in the model although PostgreSQL refuses it, which makes the
    model do more than the program.
  \<^item> Orders and representations: the order of a Go map, the text of JSON (a payload is the list of its fields
    and is decoded to what was encoded, which is true of valid UTF-8; numbers above \<open>2 ^ 53\<close> are not
    rounded), RFC 3339 times (kept as seconds), the precision of stored times, the rounding of the duration of
    a call.
  \<^item> The delivery of NATS (a published notification is in the outbox; what a subscriber does with it is a step
    of its own), the WebSocket protocol, HTTP transport, SMTP and SMS.
  \<^item> The proxies of the HTTP gateway, which only forward, configuration, connections, wiring, servers, logging,
    metrics, tracing, service discovery and the build targets: they hold no logic of the program or only call
    libraries.  Some repository methods without a caller are left out, as are chunked uploads, which have a table
    and no code.
\<close>

end
